(* ===== verification/Prelude.thy ===== *)
theory Prelude
  imports Complex_Main "HOL-Library.Char_ord" "HOL-Library.List_Lexorder"
begin

text \<open>
  Shared ground of the development: Python values and exceptions as data, HTTP outcomes of
  the views, decimal formatting as Python's \<open>%d\<close> and \<open>%0Nd\<close> do it, the name
  cleaning regular expression, and the loop that looks for an unused name.
\<close>

section \<open>Lemma collections\<close>

named_theorems fmt_simps \<open>evaluation of number formatting\<close>
named_theorems table_simps \<open>look-up after an update of a table\<close>
named_theorems frame_simps \<open>parts of the state an operation leaves alone\<close>

section \<open>Python values\<close>

text \<open>Instants and durations are microseconds, the resolution of \<open>datetime\<close>.\<close>

type_synonym time = int
type_synonym pk = nat

text \<open>Floating point columns are only stored, copied and compared; they are read as rationals.\<close>

type_synonym pyfloat = rat

abbreviation seconds :: "int \<Rightarrow> time" where
  "seconds n \<equiv> n * 1000000"

abbreviation minutes :: "int \<Rightarrow> time" where
  "minutes n \<equiv> seconds (n * 60)"

abbreviation hours :: "int \<Rightarrow> time" where
  "hours n \<equiv> minutes (n * 60)"

datatype py_exn =
    DoesNotExist
  | KeyError string
  | IndexError
  | TypeError
  | ValueError
  | AttributeError string
  | NameError string
  | IntegrityError
  | AssertionError
  | PyException string

text \<open>
  What a view produces: an \<open>HttpResponse\<close> with a status and no data, a
  \<open>JSONResponse\<close> with its data, or an exception that leaves the view.
\<close>

datatype 'b outcome =
    Http nat
  | Json nat 'b
  | Raised py_exn

abbreviation ok :: "'b outcome" where
  "ok \<equiv> Http 200"

fun http_status :: "'b outcome \<Rightarrow> nat" where
  "http_status (Http n) = n"
| "http_status (Json n _) = n"
| "http_status (Raised _) = 500"

text \<open>A loop over a list whose body changes the state and may raise; the exception ends the loop.\<close>

fun for_each :: "('a \<Rightarrow> 's \<Rightarrow> 's \<times> py_exn option) \<Rightarrow> 'a list \<Rightarrow> 's \<Rightarrow> 's \<times> py_exn option" where
  "for_each f [] s = (s, None)"
| "for_each f (x # xs) s =
     (case f x s of (s', Some e) \<Rightarrow> (s', Some e) | (s', None) \<Rightarrow> for_each f xs s')"

lemma for_each_rel:
  assumes step: "\<And>x s. x \<in> set xs \<Longrightarrow> R s0 s \<Longrightarrow> R s0 (fst (f x s))" and "R s0 s"
  shows "R s0 (fst (for_each f xs s))"
  using assms
proof (induction xs arbitrary: s)
  case Nil
  then show ?case by simp
next
  case (Cons x xs)
  obtain s' r where fx: "f x s = (s', r)" by (cases "f x s")
  have "R s0 s'" using Cons.prems(1) [of x s] Cons.prems(2) fx by simp
  then have "R s0 (fst (for_each f xs s'))"
    by (intro Cons.IH) (auto intro: Cons.prems(1))
  with \<open>R s0 s'\<close> show ?case by (cases r) (auto simp: fx)
qed

lemma for_each_inv:
  assumes "\<And>x s. x \<in> set xs \<Longrightarrow> I s \<Longrightarrow> I (fst (f x s))" and "I s"
  shows "I (fst (for_each f xs s))"
  using for_each_rel [of xs "\<lambda>_. I" s f s] assms by blast

lemma for_each_append:
  "for_each f (xs @ ys) s =
     (case for_each f xs s of (s', Some e) \<Rightarrow> (s', Some e) | (s', None) \<Rightarrow> for_each f ys s')"
  by (induction xs arbitrary: s) (auto split: prod.splits option.splits)

text \<open>
  A fact that each iteration establishes for its element, and that every iteration keeps,
  holds for all elements after a loop that ran to its end.
\<close>

lemma for_each_ConsD:
  "for_each f (x # xs) s = (s', None) \<Longrightarrow> \<exists>s1. f x s = (s1, None) \<and> for_each f xs s1 = (s', None)"
  by (auto split: prod.splits option.splits)

lemma for_each_keeps:
  assumes "for_each f xs s = (s', None)" and "Q s"
    and "\<And>y s s'. y \<in> set xs \<Longrightarrow> Q s \<Longrightarrow> f y s = (s', None) \<Longrightarrow> Q s'"
  shows "Q s'"
  using assms
proof (induction xs arbitrary: s)
  case Nil
  then show ?case by simp
next
  case (Cons y ys)
  obtain s1 where "f y s = (s1, None)" "for_each f ys s1 = (s', None)"
    using for_each_ConsD [OF Cons.prems(1)] by blast
  with Cons show ?case by (metis list.set_intros)
qed

lemma for_each_establishes:
  assumes "for_each f xs s = (s', None)" and "I s"
    and inv: "\<And>y s s'. y \<in> set xs \<Longrightarrow> I s \<Longrightarrow> f y s = (s', None) \<Longrightarrow> I s'"
    and est: "\<And>x s s'. x \<in> set xs \<Longrightarrow> I s \<Longrightarrow> f x s = (s', None) \<Longrightarrow> Q x s'"
    and keep: "\<And>x y s s'. y \<in> set xs \<Longrightarrow> I s \<Longrightarrow> Q x s \<Longrightarrow> f y s = (s', None) \<Longrightarrow> Q x s'"
  shows "\<forall>x \<in> set xs. Q x s'"
  using assms
proof (induction xs arbitrary: s)
  case Nil
  show ?case by simp
next
  case (Cons x xs)
  obtain s1 where s1: "f x s = (s1, None)" "for_each f xs s1 = (s', None)"
    using for_each_ConsD [OF Cons.prems(1)] by blast
  have I1: "I s1" by (rule Cons.prems(3) [OF _ Cons.prems(2) s1(1)]) simp
  have Q1: "Q x s1" by (rule Cons.prems(4) [OF _ Cons.prems(2) s1(1)]) simp
  have "I s' \<and> Q x s'"
  proof (rule for_each_keeps [OF s1(2), where Q = "\<lambda>s. I s \<and> Q x s"])
    show "I s1 \<and> Q x s1" using I1 Q1 ..
    show "I t' \<and> Q x t'" if "y \<in> set xs" "I t \<and> Q x t" "f y t = (t', None)" for y t t'
      using Cons.prems(3) [of y t t'] Cons.prems(5) [of y t x t'] that by simp
  qed
  moreover have "\<forall>x \<in> set xs. Q x s'"
  proof (rule Cons.IH [OF s1(2) I1])
    show "I t'" if "y \<in> set xs" "I t" "f y t = (t', None)" for y t t'
      using Cons.prems(3) [of y t t'] that by simp
    show "Q y t'" if "y \<in> set xs" "I t" "f y t = (t', None)" for y t t'
      using Cons.prems(4) [of y t t'] that by simp
    show "Q z t'" if "y \<in> set xs" "I t" "Q z t" "f y t = (t', None)" for z y t t'
      using Cons.prems(5) [of y t z t'] that by simp
  qed
  ultimately show ?case by simp
qed

section \<open>Numbers as digit strings\<close>

text \<open>The digits of a number in a base, most significant first; zero has no digit.\<close>

fun digits_of :: "nat \<Rightarrow> nat \<Rightarrow> nat list" where
  "digits_of b n = (if n = 0 \<or> b < 2 then [] else digits_of b (n div b) @ [n mod b])"

declare digits_of.simps [simp del]

definition of_digits :: "nat \<Rightarrow> nat list \<Rightarrow> nat" where
  "of_digits b = foldl (\<lambda>acc d. acc * b + d) 0"

lemma digits_of_0 [simp]: "digits_of b 0 = []"
  by (simp add: digits_of.simps)

lemma digits_of_step [fmt_simps]:
  "0 < n \<Longrightarrow> 2 \<le> b \<Longrightarrow> digits_of b n = digits_of b (n div b) @ [n mod b]"
  by (simp add: digits_of.simps [of b n])

lemma digits_of_bound: "2 \<le> b \<Longrightarrow> d \<in> set (digits_of b n) \<Longrightarrow> d < b"
proof (induction b n rule: digits_of.induct)
  case (1 b n)
  then show ?case
    by (cases "n = 0") (auto simp: digits_of_step)
qed

lemma of_digits_append [simp]:
  "of_digits b (ds @ [d]) = of_digits b ds * b + d"
  by (simp add: of_digits_def)

lemma of_digits_Nil [simp]: "of_digits b [] = 0"
  by (simp add: of_digits_def)

lemma of_digits_digits_of: "2 \<le> b \<Longrightarrow> of_digits b (digits_of b n) = n"
proof (induction b n rule: digits_of.induct)
  case (1 b n)
  then show ?case
    by (cases "n = 0") (auto simp: digits_of_step)
qed

lemma of_digits_leading_zeros [simp]: "of_digits b (replicate k 0 @ ds) = of_digits b ds"
  by (induction k) (simp_all add: of_digits_def)

lemma digits_of_nonempty: "0 < n \<Longrightarrow> 2 \<le> b \<Longrightarrow> digits_of b n \<noteq> []"
  by (simp add: digits_of_step)

definition digit_char :: "nat \<Rightarrow> char" where
  "digit_char d = ''0123456789'' ! d"

definition char_digit :: "char \<Rightarrow> nat" where
  "char_digit c = of_char c - 48"

lemma char_digit_digit_char: "d < 10 \<Longrightarrow> char_digit (digit_char d) = d"
proof -
  assume "d < 10"
  then have "d \<in> {0,1,2,3,4,5,6,7,8,9}" by auto
  then show ?thesis by (auto simp: digit_char_def char_digit_def)
qed

text \<open>Python's \<open>'%d' % n\<close> for a non-negative number, and \<open>'%0wd' % n\<close>.\<close>

definition show_nat :: "nat \<Rightarrow> string" where
  "show_nat n = (if n = 0 then ''0'' else map digit_char (digits_of 10 n))"

definition show_int :: "int \<Rightarrow> string" where
  "show_int i = (if i < 0 then ''-'' @ show_nat (nat (- i)) else show_nat (nat i))"

definition pad0 :: "nat \<Rightarrow> string \<Rightarrow> string" where
  "pad0 w s = replicate (w - length s) (CHR ''0'') @ s"

abbreviation show_pad :: "nat \<Rightarrow> nat \<Rightarrow> string" where
  "show_pad w n \<equiv> pad0 w (show_nat n)"

definition read_nat :: "string \<Rightarrow> nat" where
  "read_nat s = of_digits 10 (map char_digit s)"

lemma read_show_nat [simp]: "read_nat (show_nat n) = n"
proof (cases "n = 0")
  case True
  then show ?thesis by (simp add: read_nat_def show_nat_def of_digits_def char_digit_def)
next
  case False
  have "map (char_digit \<circ> digit_char) (digits_of 10 n) = map id (digits_of 10 n)"
    by (rule map_cong [OF refl])
      (auto dest!: digits_of_bound [rotated] simp: char_digit_digit_char)
  with False show ?thesis
    by (simp add: read_nat_def show_nat_def of_digits_digits_of)
qed

lemma read_pad0 [simp]: "read_nat (pad0 w s) = read_nat s"
  by (simp add: read_nat_def pad0_def map_replicate_const char_digit_def)

lemma show_nat_inject [simp]: "show_nat m = show_nat n \<longleftrightarrow> m = n"
  by (metis read_show_nat)

lemma show_pad_inject [simp]: "show_pad w m = show_pad w n \<longleftrightarrow> m = n"
  by (metis read_pad0 read_show_nat)

lemma length_pad0: "w \<le> length (pad0 w s)"
  by (simp add: pad0_def)

lemma show_nat_digit: "c \<in> set (show_nat n) \<Longrightarrow> \<exists>d < 10. c = digit_char d"
  by (auto simp: show_nat_def digit_char_def dest!: digits_of_bound [rotated]
      intro: exI [of _ 0] split: if_splits)

definition is_digit :: "char \<Rightarrow> bool" where
  "is_digit c \<longleftrightarrow> CHR ''0'' \<le> c \<and> c \<le> CHR ''9''"

section \<open>Optional values and booleans of Python\<close>

text \<open>Truth of an optional string: neither \<open>None\<close> nor the empty string.\<close>

definition contains :: "string \<Rightarrow> string \<Rightarrow> bool" where
  "contains sub s = list_ex (\<lambda>i. List.take (length sub) (drop i s) = sub) [0..<length s + 1]"

definition truthy :: "string option \<Rightarrow> bool" where
  "truthy s = (case s of None \<Rightarrow> False | Some x \<Rightarrow> x \<noteq> [])"

text \<open>\<open>'%s' % x\<close> of an optional string.\<close>

definition show_opt :: "string option \<Rightarrow> string" where
  "show_opt s = (case s of None \<Rightarrow> ''None'' | Some x \<Rightarrow> x)"

lemma truthy_simps [simp]:
  "\<not> truthy None" "\<not> truthy (Some [])" "truthy (Some (c # cs))"
  by (simp_all add: truthy_def)

section \<open>The character class \<open>[^a-zA-Z0-9_-]\<close>\<close>

definition name_char :: "char \<Rightarrow> bool" where
  "name_char c \<longleftrightarrow> (CHR ''a'' \<le> c \<and> c \<le> CHR ''z'') \<or> (CHR ''A'' \<le> c \<and> c \<le> CHR ''Z'')
     \<or> is_digit c \<or> c = CHR ''_'' \<or> c = CHR ''-''"

definition clean_name :: "string \<Rightarrow> string" where
  "clean_name s = filter name_char s"

lemma clean_name_idem [simp]: "clean_name (clean_name s) = clean_name s"
  by (simp add: clean_name_def)

lemma clean_name_chars: "c \<in> set (clean_name s) \<Longrightarrow> name_char c"
  by (simp add: clean_name_def)

text \<open>Case-insensitive comparison of the database (\<open>__iexact\<close>), on ASCII letters.\<close>

definition lower_char :: "char \<Rightarrow> char" where
  "lower_char c = (if CHR ''A'' \<le> c \<and> c \<le> CHR ''Z'' then char_of (of_char c + 32 :: nat) else c)"

definition iexact :: "string \<Rightarrow> string \<Rightarrow> bool" where
  "iexact a b \<longleftrightarrow> map lower_char a = map lower_char b"

lemma iexact_refl [simp]: "iexact a a"
  by (simp add: iexact_def)

lemma iexact_sym: "iexact a b \<Longrightarrow> iexact b a"
  by (simp add: iexact_def)

lemma iexact_trans: "iexact a b \<Longrightarrow> iexact b c \<Longrightarrow> iexact a c"
  by (simp add: iexact_def)

section \<open>Looking for an unused name\<close>

text \<open>
  The loop \<open>while exists(name): name = cand(i); i = i + 1\<close>, used wherever the
  program makes a name unique. It may run for ever when every candidate is taken, so not
  returning is \<open>None\<close>.
\<close>

partial_function (option) first_free ::
    "('a \<Rightarrow> bool) \<Rightarrow> (nat \<Rightarrow> 'a) \<Rightarrow> 'a \<Rightarrow> nat \<Rightarrow> 'a option" where
  "first_free taken cand name i =
     (if taken name then first_free taken cand (cand i) (Suc i) else Some name)"

lemma first_free_stop [simp]: "\<not> taken name \<Longrightarrow> first_free taken cand name i = Some name"
  by (simp add: first_free.simps)

lemma first_free_go [simp]:
  "taken name \<Longrightarrow> first_free taken cand name i = first_free taken cand (cand i) (Suc i)"
  by (simp add: first_free.simps)

lemma first_free_candidates:
  "\<forall>j. i \<le> j \<and> j < k \<longrightarrow> taken (cand j) \<Longrightarrow> i \<le> k \<Longrightarrow> \<not> taken (cand k) \<Longrightarrow>
   first_free taken cand (cand i) (Suc i) = Some (cand k)"
proof (induction "k - i" arbitrary: i)
  case 0
  then show ?case by simp
next
  case (Suc d)
  then have "taken (cand i)" by auto
  then have "first_free taken cand (cand i) (Suc i) =
      first_free taken cand (cand (Suc i)) (Suc (Suc i))" by simp
  also have "\<dots> = Some (cand k)"
    using Suc by (intro Suc.hyps) auto
  finally show ?case .
qed

text \<open>
  What a client relies on: the candidates are pairwise different. Then finitely many taken
  names cannot block the loop, and the result is the first candidate that is not taken.
\<close>

locale name_series =
  fixes cand :: "nat \<Rightarrow> 'a"
  assumes cand_inj: "inj cand"
begin

lemma some_candidate_free:
  assumes "finite {x. taken x}"
  shows "\<exists>k \<ge> i. \<not> taken (cand k)"
proof (rule ccontr)
  assume "\<not> ?thesis"
  then have "cand ` {i..} \<subseteq> {x. taken x}" by auto
  with assms have "finite (cand ` {i..})" by (rule rev_finite_subset)
  moreover have "inj_on cand {i..}" using cand_inj by (rule inj_on_subset) simp
  ultimately have "finite {i..}" using finite_imageD by blast
  then show False by (simp add: infinite_Ici)
qed

lemma first_free_returns:
  assumes fin: "finite {x. taken x}"
  shows "\<exists>r. first_free taken cand name i = Some r \<and> \<not> taken r \<and>
    (r = name \<or> (\<exists>k \<ge> i. r = cand k \<and> (\<forall>j. i \<le> j \<and> j < k \<longrightarrow> taken (cand j))))"
proof (cases "taken name")
  case False
  then show ?thesis by simp
next
  case True
  define k where "k = (LEAST k. i \<le> k \<and> \<not> taken (cand k))"
  have k: "i \<le> k \<and> \<not> taken (cand k)"
    unfolding k_def by (rule LeastI_ex) (use some_candidate_free [OF fin, of i] in auto)
  have "\<forall>j. i \<le> j \<and> j < k \<longrightarrow> taken (cand j)"
    unfolding k_def using not_less_Least by blast
  with k have "first_free taken cand (cand i) (Suc i) = Some (cand k)"
    by (auto intro: first_free_candidates)
  with True k \<open>\<forall>j. i \<le> j \<and> j < k \<longrightarrow> taken (cand j)\<close> show ?thesis by auto
qed

end

end
