(* ===== verification/Table.thy ===== *)
theory Table
  imports Prelude
begin

text \<open>
  A table of the database as the program sees it through the object-relational mapper:
  rows under integer primary keys that are handed out in increasing order. A query without
  \<open>order_by\<close> yields the rows in the order of the table (primary key order as long as
  rows are only appended), which is what both configured backends do for these tables; no
  property rests on it unless it says so. The contract of the mapper is stated as the
  locale \<open>pk_store\<close>, and interpreted on the tables.
\<close>

record 'r table =
  rows :: "(pk \<times> 'r) list"
  next_pk :: pk

definition t_empty :: "'r table" where
  "t_empty = \<lparr>rows = [], next_pk = 1\<rparr>"

definition t_keys :: "'r table \<Rightarrow> pk set" where
  "t_keys t = fst ` set (rows t)"

text \<open>\<open>Model.objects.get(pk=k)\<close>, \<open>Model.objects.filter(..)\<close>, \<open>.count()\<close>.\<close>

definition t_get :: "'r table \<Rightarrow> pk \<Rightarrow> 'r option" where
  "t_get t k = map_of (rows t) k"

definition t_filter :: "(pk \<Rightarrow> 'r \<Rightarrow> bool) \<Rightarrow> 'r table \<Rightarrow> (pk \<times> 'r) list" where
  "t_filter P t = filter (\<lambda>(k, r). P k r) (rows t)"

definition t_count :: "(pk \<Rightarrow> 'r \<Rightarrow> bool) \<Rightarrow> 'r table \<Rightarrow> nat" where
  "t_count P t = length (t_filter P t)"

text \<open>\<open>save()\<close> of a new instance, and of an instance that has a primary key.\<close>

definition t_create :: "'r \<Rightarrow> 'r table \<Rightarrow> pk \<times> 'r table" where
  "t_create r t =
     (next_pk t, t\<lparr>rows := rows t @ [(next_pk t, r)], next_pk := Suc (next_pk t)\<rparr>)"

definition t_save :: "pk \<Rightarrow> 'r \<Rightarrow> 'r table \<Rightarrow> 'r table" where
  "t_save k r t =
     (if k \<in> t_keys t
      then t\<lparr>rows := map (\<lambda>(k', r'). (k', if k' = k then r else r')) (rows t)\<rparr>
      else t\<lparr>rows := rows t @ [(k, r)], next_pk := max (next_pk t) (Suc k)\<rparr>)"

text \<open>\<open>QuerySet.update(..)\<close> and \<open>QuerySet.delete()\<close>.\<close>

definition t_update :: "(pk \<Rightarrow> 'r \<Rightarrow> bool) \<Rightarrow> ('r \<Rightarrow> 'r) \<Rightarrow> 'r table \<Rightarrow> 'r table" where
  "t_update P f t = t\<lparr>rows := map (\<lambda>(k, r). (k, if P k r then f r else r)) (rows t)\<rparr>"

definition t_delete :: "(pk \<Rightarrow> 'r \<Rightarrow> bool) \<Rightarrow> 'r table \<Rightarrow> 'r table" where
  "t_delete P t = t\<lparr>rows := filter (\<lambda>(k, r). \<not> P k r) (rows t)\<rparr>"

definition wf_table :: "'r table \<Rightarrow> bool" where
  "wf_table t \<longleftrightarrow> distinct (map fst (rows t)) \<and> (\<forall>k \<in> t_keys t. k < next_pk t)"

section \<open>Well-formedness is kept\<close>

lemma wf_t_empty [simp, intro]: "wf_table t_empty"
  by (simp add: wf_table_def t_empty_def t_keys_def)

lemma t_keys_get: "k \<in> t_keys t \<longleftrightarrow> t_get t k \<noteq> None"
  by (simp add: t_keys_def t_get_def map_of_eq_None_iff)

lemma t_get_keyI: "t_get t k = Some r \<Longrightarrow> k \<in> t_keys t"
  by (simp add: t_keys_get)

lemma map_fst_upd [simp]: "map (fst \<circ> (\<lambda>(k, r). (k, f k r))) xs = map fst xs"
  by (induction xs) auto

lemma map_of_map_rows [simp]:
  "map_of (map (\<lambda>(k, r). (k, f k r)) xs) k = map_option (f k) (map_of xs k)"
  by (induction xs) auto

lemma t_keys_save [table_simps]: "t_keys (t_save k r t) = insert k (t_keys t)"
  by (force simp: t_save_def t_keys_def image_iff)

lemma t_keys_create [table_simps]: "t_keys (snd (t_create r t)) = insert (next_pk t) (t_keys t)"
  by (auto simp: t_create_def t_keys_def)

lemma t_keys_update [table_simps]: "t_keys (t_update P f t) = t_keys t"
  by (force simp: t_update_def t_keys_def image_iff)

lemma wf_t_create [intro]: "wf_table t \<Longrightarrow> wf_table (snd (t_create r t))"
  by (auto simp: wf_table_def t_create_def t_keys_def)

lemma wf_t_save [intro]: "wf_table t \<Longrightarrow> wf_table (t_save k r t)"
  unfolding wf_table_def t_save_def t_keys_def
  by (auto simp: case_prod_beta' comp_def image_iff max_def)

lemma wf_t_update [intro]: "wf_table t \<Longrightarrow> wf_table (t_update P f t)"
  by (simp add: wf_table_def t_keys_update) (simp add: t_update_def)

lemma wf_t_delete [intro]: "wf_table t \<Longrightarrow> wf_table (t_delete P t)"
  by (auto simp: wf_table_def t_delete_def t_keys_def intro: distinct_map_filter)

section \<open>Look-ups after an update\<close>

lemma t_get_empty [simp]: "t_get t_empty k = None"
  by (simp add: t_get_def t_empty_def)

lemma t_get_iff: "wf_table t \<Longrightarrow> t_get t k = Some r \<longleftrightarrow> (k, r) \<in> set (rows t)"
  by (simp add: t_get_def wf_table_def)

lemma t_get_fresh: "wf_table t \<Longrightarrow> t_get t (next_pk t) = None"
  unfolding wf_table_def using t_keys_get by blast

lemma t_get_save [table_simps]: "t_get (t_save k r t) k' = (if k' = k then Some r else t_get t k')"
proof (cases "k \<in> t_keys t")
  case True
  then obtain r0 where "map_of (rows t) k = Some r0"
    by (auto simp: t_keys_get t_get_def)
  with True show ?thesis by (cases "map_of (rows t) k'") (auto simp: t_save_def t_get_def)
next
  case False
  then have "map_of (rows t) k = None" by (simp add: t_keys_get t_get_def)
  with False show ?thesis by (auto simp: t_save_def t_get_def map_add_def split: option.splits)
qed

lemma t_get_create [table_simps]:
  "wf_table t \<Longrightarrow> t_get (snd (t_create r t)) k = (if k = next_pk t then Some r else t_get t k)"
  using t_get_fresh [of t]
  by (auto simp: t_create_def t_get_def map_add_def split: option.splits)

lemma fst_t_create [simp]: "fst (t_create r t) = next_pk t"
  by (simp add: t_create_def)

lemma t_get_update [table_simps]:
  "t_get (t_update P f t) k = map_option (\<lambda>r. if P k r then f r else r) (t_get t k)"
  by (simp add: t_update_def t_get_def)

lemma t_get_delete [table_simps]:
  assumes "wf_table t"
  shows "t_get (t_delete P t) k =
    (case t_get t k of None \<Rightarrow> None | Some r \<Rightarrow> if P k r then None else Some r)"
proof -
  have "distinct (map fst xs) \<Longrightarrow> map_of (filter (\<lambda>(k, r). \<not> P k r) xs) k =
      (case map_of xs k of None \<Rightarrow> None | Some r \<Rightarrow> if P k r then None else Some r)" for xs
    by (induction xs) (auto simp: map_of_eq_None_iff split: option.splits)
  with assms show ?thesis by (simp add: t_delete_def t_get_def wf_table_def)
qed

lemma t_filter_iff: "wf_table t \<Longrightarrow> (k, r) \<in> set (t_filter P t) \<longleftrightarrow> t_get t k = Some r \<and> P k r"
  by (auto simp: t_filter_def t_get_iff)

lemma t_filter_get: "wf_table t \<Longrightarrow> (k, r) \<in> set (t_filter P t) \<Longrightarrow> t_get t k = Some r"
  by (simp add: t_filter_iff)

lemma distinct_t_filter: "wf_table t \<Longrightarrow> distinct (map fst (t_filter P t))"
  by (simp add: wf_table_def t_filter_def distinct_map_filter)

lemma t_filter_Nil_iff: "wf_table t \<Longrightarrow> t_filter P t = [] \<longleftrightarrow> (\<forall>k r. t_get t k = Some r \<longrightarrow> \<not> P k r)"
  using t_filter_iff [of t _ _ P] by (metis list.set_intros(1) neq_Nil_conv surj_pair empty_iff empty_set)

lemma t_count_0_iff: "wf_table t \<Longrightarrow> t_count P t = 0 \<longleftrightarrow> (\<forall>k r. t_get t k = Some r \<longrightarrow> \<not> P k r)"
  by (simp add: t_count_def t_filter_Nil_iff)

lemma t_count_pos_iff: "wf_table t \<Longrightarrow> 0 < t_count P t \<longleftrightarrow> (\<exists>k r. t_get t k = Some r \<and> P k r)"
  using t_count_0_iff [of t P] by auto

lemma t_count_card: "wf_table t \<Longrightarrow> t_count P t = card {k. \<exists>r. t_get t k = Some r \<and> P k r}"
proof -
  assume wf: "wf_table t"
  have "{k. \<exists>r. t_get t k = Some r \<and> P k r} = set (map fst (t_filter P t))"
    using t_filter_iff [OF wf, of _ _ P] by force
  with distinct_t_filter [OF wf, of P] show ?thesis
    by (metis distinct_card length_map t_count_def)
qed

lemma t_count_split:
  "t_count P t = t_count (\<lambda>k r. P k r \<and> Q k r) t + t_count (\<lambda>k r. P k r \<and> \<not> Q k r) t"
proof -
  have "length (filter (\<lambda>(k, r). P k r) xs) = length (filter (\<lambda>(k, r). P k r \<and> Q k r) xs)
      + length (filter (\<lambda>(k, r). P k r \<and> \<not> Q k r) xs)" for xs
    by (induction xs) auto
  then show ?thesis by (simp add: t_count_def t_filter_def)
qed

lemma t_count_le: "(\<And>k r. P k r \<Longrightarrow> Q k r) \<Longrightarrow> t_count P t \<le> t_count Q t"
proof -
  assume imp: "\<And>k r. P k r \<Longrightarrow> Q k r"
  have "length (filter (\<lambda>(k, r). P k r) xs) \<le> length (filter (\<lambda>(k, r). Q k r) xs)" for xs
    by (induction xs) (auto dest: imp)
  then show ?thesis by (simp add: t_count_def t_filter_def)
qed

lemma t_save_same: "wf_table t \<Longrightarrow> t_get t k = Some r \<Longrightarrow> t_save k r t = t"
proof -
  assume wf: "wf_table t" and g: "t_get t k = Some r"
  then have "map (\<lambda>(k', r'). (k', if k' = k then r else r')) (rows t) = rows t"
    by (intro map_idI) (auto dest!: t_get_iff [OF wf, THEN iffD2])
  with g show ?thesis by (simp add: t_save_def t_keys_get)
qed

section \<open>The contract of the mapper\<close>

text \<open>
  What a client of a stored model relies on, whatever the representation of the table: a
  saved row is read back, other rows stay, a new row gets a key that was not in use, a
  deleted row is gone. The lemmas are about sequences of such operations.
\<close>

locale pk_store =
  fixes get :: "'s \<Rightarrow> pk \<Rightarrow> 'r option"
    and save :: "pk \<Rightarrow> 'r \<Rightarrow> 's \<Rightarrow> 's"
    and create :: "'r \<Rightarrow> 's \<Rightarrow> pk \<times> 's"
    and delete :: "(pk \<Rightarrow> 'r \<Rightarrow> bool) \<Rightarrow> 's \<Rightarrow> 's"
    and invar :: "'s \<Rightarrow> bool"
  assumes invar_save: "invar s \<Longrightarrow> invar (save k r s)"
    and invar_create: "invar s \<Longrightarrow> invar (snd (create r s))"
    and invar_delete: "invar s \<Longrightarrow> invar (delete P s)"
    and get_save: "get (save k r s) k' = (if k' = k then Some r else get s k')"
    and create_fresh: "invar s \<Longrightarrow> get s (fst (create r s)) = None"
    and get_create: "invar s \<Longrightarrow>
      get (snd (create r s)) k = (if k = fst (create r s) then Some r else get s k)"
    and get_delete: "invar s \<Longrightarrow> get (delete P s) k =
      (case get s k of None \<Rightarrow> None | Some r \<Rightarrow> if P k r then None else Some r)"
begin

definition save_all :: "(pk \<times> 'r) list \<Rightarrow> 's \<Rightarrow> 's" where
  "save_all = fold (\<lambda>(k, r). save k r)"

lemma invar_save_all: "invar s \<Longrightarrow> invar (save_all krs s)"
  unfolding save_all_def by (induction krs arbitrary: s) (auto simp: invar_save)

lemma get_save_all:
  "distinct (map fst krs) \<Longrightarrow>
   get (save_all krs s) k = (case map_of krs k of None \<Rightarrow> get s k | Some r \<Rightarrow> Some r)"
  unfolding save_all_def
proof (induction krs arbitrary: s)
  case Nil
  then show ?case by simp
next
  case (Cons kr krs)
  obtain k0 r0 where kr: "kr = (k0, r0)" by (cases kr)
  with Cons.prems have "map_of krs k0 = None" by (simp add: map_of_eq_None_iff)
  with Cons kr show ?case by (cases "map_of krs k") (auto simp: get_save)
qed

definition create_all :: "'r list \<Rightarrow> 's \<Rightarrow> 's" where
  "create_all = fold (\<lambda>r s. snd (create r s))"

lemma invar_create_all: "invar s \<Longrightarrow> invar (create_all rs s)"
  unfolding create_all_def by (induction rs arbitrary: s) (auto simp: invar_create)

text \<open>Rows that were there before are still there, unchanged, after any number of creations.\<close>

lemma get_create_all: "invar s \<Longrightarrow> get s k = Some r \<Longrightarrow> get (create_all rs s) k = Some r"
  unfolding create_all_def
proof (induction rs arbitrary: s)
  case Nil
  then show ?case by simp
next
  case (Cons r' rs)
  then have "get (snd (create r' s)) k = Some r"
    using create_fresh [OF Cons.prems(1), of r'] by (auto simp: get_create)
  with Cons show ?case by (simp add: invar_create)
qed

lemma get_created_all:
  "invar s \<Longrightarrow> get s k = None \<Longrightarrow> get (create_all rs s) k = Some r \<Longrightarrow> r \<in> set rs"
  unfolding create_all_def
proof (induction rs arbitrary: s)
  case Nil
  then show ?case by simp
next
  case (Cons r' rs)
  show ?case
  proof (cases "k = fst (create r' s)")
    case True
    with Cons.prems(1) have "get (snd (create r' s)) k = Some r'" by (simp add: get_create)
    then have "get (create_all rs (snd (create r' s))) k = Some r'"
      using Cons.prems(1) by (intro get_create_all) (simp_all add: invar_create)
    with Cons.prems(3) show ?thesis by (simp add: create_all_def)
  next
    case False
    with Cons.prems have "get (snd (create r' s)) k = None" by (simp add: get_create)
    with Cons.prems Cons.IH [of "snd (create r' s)"] show ?thesis by (simp add: invar_create)
  qed
qed

end

interpretation tb: pk_store t_get t_save t_create t_delete wf_table
  by unfold_locales (auto simp: table_simps t_get_fresh)

end
