(* ===== verification/Schema.thy ===== *)
theory Schema
  imports Table
begin

text \<open>
  The persistent state of the backend: one record per Django model of \<open>archive/models.py\<close>,
  \<open>capture/models.py\<close>, \<open>jobs/models.py\<close> and \<open>accounts/models.py\<close>, with a
  prefix per model, and the database as one table per model, the files below
  \<open>static/thumb\<close>, and the messages that were sent. A nullable column is an \<open>option\<close>,
  a foreign key is the primary key it refers to; the many-to-many relations
  \<open>FarmJob.dependencies\<close> and \<open>tags\<close> are lists in the row that owns them.
\<close>

section \<open>Accounts\<close>

text \<open>The columns of \<open>django.contrib.auth.models.User\<close> that the program reads or sets; the password is kept encoded.\<close>

record user =
  u_username :: string
  u_email :: string
  u_is_staff :: bool
  u_is_superuser :: bool
  u_is_active :: bool
  u_password :: string
  u_first_name :: string
  u_last_name :: string
  u_last_login :: "time option"
  u_date_joined :: time

record userdata =
  ud_user :: pk
  ud_export_path :: string

section \<open>Archive\<close>

record project =
  pr_name :: string
  pr_archived :: bool

record session =
  se_name :: string
  se_project :: pk
  se_start_time :: time
  se_frontal_cam_id :: "string option"
  se_master_calib :: "pk option"
  se_master_colorchart :: "pk option"
  se_neutral_take :: "pk option"
  se_invert_polarization :: bool

record shot =
  sh_name :: string
  sh_session :: pk
  sh_next_take :: nat

record take =
  tk_name :: string
  tk_shot :: pk
  tk_capture_time :: time
  tk_sequence :: int
  tk_export_path :: "string option"
  tk_work_folder :: "string option"
  tk_video_thumb :: "string option"
  tk_flag :: string
  tk_is_burst :: bool
  tk_is_scan_burst :: bool
  tk_colorspace :: "string option"

record archive_camera =
  ac_take :: pk
  ac_machine_name :: string
  ac_unique_id :: string
  ac_model :: string
  ac_version :: string
  ac_using_sync :: bool
  ac_folder :: string
  ac_thumbnail_filename :: "string option"
  ac_width :: int
  ac_height :: int
  ac_bitdepth :: int
  ac_frame_count :: int
  ac_dropped_frames :: int
  ac_total_size :: int
  ac_duration :: pyfloat
  ac_framerate :: pyfloat
  ac_all_files :: "string option"
  ac_rotation :: int
  ac_exposure_ms :: pyfloat

record scan_asset =
  sa_project :: pk
  sa_name :: string
  sa_image_folder :: string
  sa_calib_file :: string
  sa_work_folder :: string
  sa_thumbnail_filename :: "string option"
  sa_take :: "pk option"
  sa_take_neutral_start_time :: "pyfloat option"
  sa_take_neutral_end_time :: "pyfloat option"
  sa_take_mixed_w_time :: "pyfloat option"
  sa_take_pattern_start_time :: "pyfloat option"
  sa_take_pattern_last_time :: "pyfloat option"
  sa_has_tracking :: bool
  sa_associated_tracking_asset :: "pk option"
  sa_associated_tracking_asset_time :: "pyfloat option"

record tracking_asset =
  ta_take :: pk
  ta_calib_file :: "string option"
  ta_work_folder :: "string option"
  ta_start_time :: pyfloat
  ta_end_time :: pyfloat
  ta_video_thumb :: "string option"

section \<open>Capture\<close>

record capture_location =
  cl_name :: string
  cl_hardware_sync_frequency :: int
  cl_pulse_duration :: int
  cl_external_sync :: bool
  cl_display_focus_peak :: bool
  cl_display_overexposed :: bool
  cl_display_histogram :: bool
  cl_bitdepth_avi :: int
  cl_bitdepth_single :: int
  cl_image_format :: string
  cl_wb_R :: pyfloat
  cl_wb_G :: pyfloat
  cl_wb_B :: pyfloat
  cl_cur_project :: "pk option"
  cl_cur_session :: "pk option"
  cl_cur_shot :: "pk option"
  cl_read_access_all :: bool

record location_access =
  la_user :: pk
  la_location :: pk
  la_read_access :: bool
  la_write_access :: bool

record capture_node =
  cn_ip_address :: string
  cn_machine_name :: string
  cn_os :: "string option"
  cn_last_seen :: time
  cn_online :: bool
  cn_location :: "pk option"
  cn_sync_found :: bool
  cn_drive_info :: string
  cn_code_version :: int
  cn_build_version :: string

record camera =
  cm_node :: pk
  cm_unique_id :: string
  cm_model :: string
  cm_version :: string
  cm_exposure :: pyfloat
  cm_gain :: pyfloat
  cm_lens_aperture :: pyfloat
  cm_using_sync :: bool
  cm_rotation :: int

section \<open>The job farm\<close>

text \<open>
  The status of a job is one of the choices of \<open>FarmJob.STATUS\<close>. The status of a node
  is whatever string the client reports (\<open>save\<close> does not validate choices), and the
  state of its AWS instance is whatever string AWS reports.
\<close>

datatype job_status =
  Created | Ready | Reserved | Running | Failed | Success | Waiting | Terminating

fun status_name :: "job_status \<Rightarrow> string" where
  "status_name Created = ''created''"
| "status_name Ready = ''ready''"
| "status_name Reserved = ''reserved''"
| "status_name Running = ''running''"
| "status_name Failed = ''failed''"
| "status_name Success = ''success''"
| "status_name Waiting = ''waiting''"
| "status_name Terminating = ''terminating''"

record farm_node_group =
  fg_name :: string

record farm_node =
  fn_ip_address :: string
  fn_machine_name :: string
  fn_last_seen :: time
  fn_last_job_activity :: "time option"
  fn_code_version :: int
  fn_git_version :: "string option"
  fn_req_restart :: bool
  fn_active :: bool
  fn_system :: "string option"
  fn_system_bits :: "int option"
  fn_cpu_brand :: "string option"
  fn_cpu_cores :: "int option"
  fn_gpu_count :: "int option"
  fn_cpu_percent :: pyfloat
  fn_virt_percent :: pyfloat
  fn_os_version :: "string option"
  fn_status :: string
  fn_group :: "pk option"
  fn_tags :: "string list"
  fn_aws_instance_id :: "string option"
  fn_aws_instance_region :: "string option"
  fn_aws_instance_state :: string
  fn_aws_instance_state_changed :: time
  fn_aws_auto_shutdown :: bool

record farm_job =
  fj_job_class :: string
  fj_created_by :: string
  fj_params :: "string option"
  fj_exception :: "string option"
  fj_node :: "pk option"
  fj_progress :: "string option"
  fj_req_version :: int
  fj_req_gpu :: bool
  fj_priority :: int
  fj_parent :: "pk option"
  fj_dependencies :: "pk list"
  fj_status :: job_status
  fj_status_changed :: time
  fj_start_time :: "time option"
  fj_end_time :: "time option"
  fj_ext_take :: "pk option"
  fj_ext_scan_assets :: "pk option"
  fj_ext_tracking_assets :: "pk option"
  fj_image_filename :: "string option"
  fj_mesh_filename :: "string option"
  fj_tags :: "string list"
  fj_created :: time
  fj_modified :: time

section \<open>Messages that leave the server\<close>

text \<open>
  An e-mail, a Slack notification, an HTTP request to a capture node with its address, path
  and body: a JSON document, or raw text passed on.
\<close>

datatype json =
    JNull
  | JBool bool
  | JInt int
  | JFloat pyfloat
  | JStr string
  | JList "json list"
  | JObj "(string \<times> json) list"
  | JText string

datatype message =
    Email "string list" string string
  | Slack string string "time option"
  | NodePost string string json

section \<open>The database\<close>

record db =
  db_users :: "user table"
  db_userdata :: "userdata table"
  db_projects :: "project table"
  db_sessions :: "session table"
  db_shots :: "shot table"
  db_takes :: "take table"
  db_acameras :: "archive_camera table"
  db_scans :: "scan_asset table"
  db_tracks :: "tracking_asset table"
  db_locations :: "capture_location table"
  db_access :: "location_access table"
  db_cnodes :: "capture_node table"
  db_cameras :: "camera table"
  db_groups :: "farm_node_group table"
  db_fnodes :: "farm_node table"
  db_jobs :: "farm_job table"
  db_files :: "string \<Rightarrow> string option"
  db_sent :: "message list"

definition empty_db :: db where
  "empty_db = \<lparr>db_users = t_empty, db_userdata = t_empty, db_projects = t_empty,
     db_sessions = t_empty, db_shots = t_empty, db_takes = t_empty, db_acameras = t_empty,
     db_scans = t_empty, db_tracks = t_empty, db_locations = t_empty, db_access = t_empty,
     db_cnodes = t_empty, db_cameras = t_empty, db_groups = t_empty, db_fnodes = t_empty,
     db_jobs = t_empty, db_files = Map.empty, db_sent = []\<rparr>"

text \<open>
  What a request brings: the instant at which it is served (one reading of the clock per
  request), the user behind it, and the settings of \<open>ava/settings.py\<close> the views use.
\<close>

record env =
  e_now :: time
  e_user_id :: pk
  e_user :: user
  e_slack_hook :: bool
  e_notification_email :: bool
  e_admin_email :: string

section \<open>New instances, with the defaults of the models\<close>

definition new_farm_job :: "time \<Rightarrow> string \<Rightarrow> string \<Rightarrow> farm_job" where
  "new_farm_job now job_class created_by =
     \<lparr>fj_job_class = job_class, fj_created_by = created_by, fj_params = None,
      fj_exception = None, fj_node = None, fj_progress = None, fj_req_version = 1,
      fj_req_gpu = False, fj_priority = 50, fj_parent = None, fj_dependencies = [],
      fj_status = Created, fj_status_changed = now, fj_start_time = None,
      fj_end_time = None, fj_ext_take = None, fj_ext_scan_assets = None,
      fj_ext_tracking_assets = None, fj_image_filename = None, fj_mesh_filename = None,
      fj_tags = [], fj_created = now, fj_modified = now\<rparr>"

definition new_farm_node :: "time \<Rightarrow> string \<Rightarrow> farm_node" where
  "new_farm_node now machine_name =
     \<lparr>fn_ip_address = ''0.0.0.0'', fn_machine_name = machine_name, fn_last_seen = now,
      fn_last_job_activity = Some now, fn_code_version = 1, fn_git_version = None,
      fn_req_restart = False, fn_active = True, fn_system = None, fn_system_bits = None,
      fn_cpu_brand = None, fn_cpu_cores = None, fn_gpu_count = None, fn_cpu_percent = 0,
      fn_virt_percent = 0, fn_os_version = None, fn_status = ''offline'', fn_group = None,
      fn_tags = [], fn_aws_instance_id = None, fn_aws_instance_region = None,
      fn_aws_instance_state = ''none'', fn_aws_instance_state_changed = now,
      fn_aws_auto_shutdown = True\<rparr>"

definition new_capture_node :: "time \<Rightarrow> string \<Rightarrow> string \<Rightarrow> capture_node" where
  "new_capture_node now ip machine_name =
     \<lparr>cn_ip_address = ip, cn_machine_name = machine_name, cn_os = None, cn_last_seen = now,
      cn_online = False, cn_location = None, cn_sync_found = False, cn_drive_info = [],
      cn_code_version = 0, cn_build_version = []\<rparr>"

definition new_camera :: "pk \<Rightarrow> string \<Rightarrow> camera" where
  "new_camera node unique_id =
     \<lparr>cm_node = node, cm_unique_id = unique_id, cm_model = [], cm_version = [],
      cm_exposure = 5000, cm_gain = 0, cm_lens_aperture = 56 / 10, cm_using_sync = True,
      cm_rotation = 0\<rparr>"

definition new_capture_location :: "string \<Rightarrow> capture_location" where
  "new_capture_location name =
     \<lparr>cl_name = name, cl_hardware_sync_frequency = 30, cl_pulse_duration = 2000,
      cl_external_sync = False, cl_display_focus_peak = False,
      cl_display_overexposed = False, cl_display_histogram = False, cl_bitdepth_avi = 8,
      cl_bitdepth_single = 12, cl_image_format = ''raw'', cl_wb_R = 137 / 100, cl_wb_G = 1,
      cl_wb_B = 265 / 100, cl_cur_project = None, cl_cur_session = None,
      cl_cur_shot = None, cl_read_access_all = False\<rparr>"

definition new_session :: "time \<Rightarrow> string \<Rightarrow> pk \<Rightarrow> session" where
  "new_session now name project =
     \<lparr>se_name = name, se_project = project, se_start_time = now, se_frontal_cam_id = None,
      se_master_calib = None, se_master_colorchart = None, se_neutral_take = None,
      se_invert_polarization = False\<rparr>"

definition new_shot :: "string \<Rightarrow> pk \<Rightarrow> shot" where
  "new_shot name session = \<lparr>sh_name = name, sh_session = session, sh_next_take = 1\<rparr>"

definition new_take :: "time \<Rightarrow> string \<Rightarrow> pk \<Rightarrow> nat \<Rightarrow> bool \<Rightarrow> bool \<Rightarrow> take" where
  "new_take now name shot sequence is_burst is_scan_burst =
     \<lparr>tk_name = name, tk_shot = shot, tk_capture_time = now, tk_sequence = int sequence,
      tk_export_path = None, tk_work_folder = None, tk_video_thumb = None,
      tk_flag = ''none'', tk_is_burst = is_burst, tk_is_scan_burst = is_scan_burst,
      tk_colorspace = None\<rparr>"

section \<open>Well-formed databases\<close>

definition wf_db :: "db \<Rightarrow> bool" where
  "wf_db d \<longleftrightarrow> wf_table (db_users d) \<and> wf_table (db_userdata d) \<and> wf_table (db_projects d) \<and>
     wf_table (db_sessions d) \<and> wf_table (db_shots d) \<and> wf_table (db_takes d) \<and>
     wf_table (db_acameras d) \<and> wf_table (db_scans d) \<and> wf_table (db_tracks d) \<and>
     wf_table (db_locations d) \<and> wf_table (db_access d) \<and> wf_table (db_cnodes d) \<and>
     wf_table (db_cameras d) \<and> wf_table (db_groups d) \<and> wf_table (db_fnodes d) \<and>
     wf_table (db_jobs d)"

lemma wf_empty_db [simp]: "wf_db empty_db"
  by (simp add: wf_db_def empty_db_def)

lemma wf_dbD:
  assumes "wf_db d"
  shows "wf_table (db_jobs d)" "wf_table (db_fnodes d)" "wf_table (db_takes d)"
    "wf_table (db_shots d)" "wf_table (db_sessions d)" "wf_table (db_projects d)"
    "wf_table (db_locations d)" "wf_table (db_cnodes d)" "wf_table (db_cameras d)"
    "wf_table (db_acameras d)" "wf_table (db_scans d)" "wf_table (db_tracks d)"
    "wf_table (db_access d)" "wf_table (db_users d)"
  using assms by (simp_all add: wf_db_def)

end
