(* ===== verification/Archive_Model.thy ===== *)
theory Archive_Model
  imports Schema "HOL-Library.Option_ord"
begin

text \<open>
  The query methods of the archive models (\<open>archive/models.py\<close>): names, work folders
  and neutral frames of a session, the takes and assets of a project by flag, the frame
  count and total size of a take. A dereference of a foreign key that the schema declares
  \<open>NOT NULL\<close> always finds its row (the database enforces it); the \<open>None\<close> branch
  of such a look-up is dead and answers with an empty value.
\<close>

section \<open>Ordering and aggregates\<close>

text \<open>\<open>order_by('-f')\<close>: a stable sort, greatest key first; \<open>order_by('f')\<close> is \<open>sort_key f\<close>.\<close>

definition order_desc :: "('a \<Rightarrow> 'k::linorder) \<Rightarrow> 'a list \<Rightarrow> 'a list" where
  "order_desc f xs = rev (sort_key f (rev xs))"

lemma set_order_desc [simp]: "set (order_desc f xs) = set xs"
  by (simp add: order_desc_def)

lemma length_order_desc [simp]: "length (order_desc f xs) = length xs"
  by (simp add: order_desc_def)

lemma order_desc_Nil [simp]: "order_desc f [] = []"
  by (simp add: order_desc_def)

lemma sorted_order_desc: "sorted_wrt (\<lambda>x y. f y \<le> f x) (order_desc f xs)"
  using sorted_sort_key [of f "rev xs"]
  by (simp add: order_desc_def sorted_wrt_rev sorted_wrt_map)

text \<open>\<open>aggregate(Max(f))\<close> and \<open>aggregate(Sum(f))\<close>: \<open>None\<close> over no row.\<close>

definition agg_max :: "('a \<Rightarrow> 'k::linorder) \<Rightarrow> 'a list \<Rightarrow> 'k option" where
  "agg_max f xs = (if xs = [] then None else Some (Max (set (map f xs))))"

definition agg_sum :: "('a \<Rightarrow> int) \<Rightarrow> 'a list \<Rightarrow> int option" where
  "agg_sum f xs = (if xs = [] then None else Some (sum_list (map f xs)))"

section \<open>Paths\<close>

text \<open>\<open>os.path.join\<close> on POSIX and \<open>os.path.split\<close>.\<close>

definition path_join :: "string \<Rightarrow> string \<Rightarrow> string" where
  "path_join a b =
     (if b \<noteq> [] \<and> hd b = CHR ''/'' then b
      else if a = [] \<or> last a = CHR ''/'' then a @ b else a @ ''/'' @ b)"

definition path_tail :: "string \<Rightarrow> string" where
  "path_tail p = rev (takeWhile (\<lambda>c. c \<noteq> CHR ''/'') (rev p))"

definition strip_slashes :: "string \<Rightarrow> string" where
  "strip_slashes h =
     (let r = dropWhile (\<lambda>c. c = CHR ''/'') (rev h) in if r = [] then h else rev r)"

definition path_head :: "string \<Rightarrow> string" where
  "path_head p = strip_slashes (take (length p - length (path_tail p)) p)"

lemma path_tail_no_slash: "CHR ''/'' \<notin> set (path_tail p)"
  by (auto simp: path_tail_def dest: set_takeWhileD)

lemma path_tail_slash: "CHR ''/'' \<notin> set b \<Longrightarrow> path_tail (a @ CHR ''/'' # b) = b"
  unfolding path_tail_def by (simp add: takeWhile_append2) (subst takeWhile_append2; auto)

lemma path_tail_all: "CHR ''/'' \<notin> set b \<Longrightarrow> path_tail b = b"
  unfolding path_tail_def by (subst takeWhile_eq_all_conv [THEN iffD2]) auto

lemma path_tail_join:
  assumes b: "CHR ''/'' \<notin> set b"
  shows "path_tail (path_join a b) = b"
proof (cases "a = []")
  case True
  with b show ?thesis by (cases b) (auto simp: path_join_def path_tail_all)
next
  case False
  have hd: "\<not> (b \<noteq> [] \<and> hd b = CHR ''/'')" using b by (cases b) auto
  show ?thesis
  proof (cases "last a = CHR ''/''")
    case True
    then have "path_join a b = butlast a @ CHR ''/'' # b"
      using False hd by (simp add: path_join_def) (metis append_butlast_last_id append_Cons append_Nil append_assoc)
    with b show ?thesis by (simp add: path_tail_slash)
  next
    case last: False
    then have "path_join a b = a @ CHR ''/'' # b"
      using False hd by (simp add: path_join_def)
    with b show ?thesis by (simp add: path_tail_slash)
  qed
qed

section \<open>Names\<close>

definition session_full_name :: "db \<Rightarrow> session \<Rightarrow> string" where
  "session_full_name d s = se_name s @ ''/'' @
     (case t_get (db_projects d) (se_project s) of None \<Rightarrow> [] | Some p \<Rightarrow> pr_name p)"

definition shot_full_name :: "db \<Rightarrow> shot \<Rightarrow> string" where
  "shot_full_name d s = sh_name s @ ''/'' @
     (case t_get (db_sessions d) (sh_session s) of None \<Rightarrow> [] | Some x \<Rightarrow> session_full_name d x)"

definition take_full_name :: "db \<Rightarrow> take \<Rightarrow> string" where
  "take_full_name d t = tk_name t @ ''/'' @
     (case t_get (db_shots d) (tk_shot t) of None \<Rightarrow> [] | Some s \<Rightarrow> shot_full_name d s)"

definition camera_full_name :: "db \<Rightarrow> archive_camera \<Rightarrow> string" where
  "camera_full_name d c = ac_unique_id c @ ''('' @ ac_model c @ '')/'' @
     (case t_get (db_takes d) (ac_take c) of None \<Rightarrow> [] | Some t \<Rightarrow> take_full_name d t)"

section \<open>Takes\<close>

definition take_cameras :: "db \<Rightarrow> pk \<Rightarrow> (pk \<times> archive_camera) list" where
  "take_cameras d k = sort_key (\<lambda>(_, c). ac_unique_id c) (t_filter (\<lambda>_ c. ac_take c = k) (db_acameras d))"

definition take_frame_count :: "db \<Rightarrow> pk \<Rightarrow> int option" where
  "take_frame_count d k = agg_max (\<lambda>(_, c). ac_frame_count c) (take_cameras d k)"

definition take_total_size :: "db \<Rightarrow> pk \<Rightarrow> int option" where
  "take_total_size d k = agg_sum (\<lambda>(_, c). ac_total_size c) (take_cameras d k)"

definition take_session :: "db \<Rightarrow> take \<Rightarrow> session option" where
  "take_session d t =
     (case t_get (db_shots d) (tk_shot t) of None \<Rightarrow> None | Some s \<Rightarrow> t_get (db_sessions d) (sh_session s))"

definition frontal_framerate :: "db \<Rightarrow> pk \<Rightarrow> take \<Rightarrow> pyfloat option" where
  "frontal_framerate d k t =
     (case take_session d t of None \<Rightarrow> None
      | Some s \<Rightarrow>
          (case filter (\<lambda>(_, c). Some (ac_unique_id c) = se_frontal_cam_id s) (take_cameras d k) of
             [] \<Rightarrow> None
           | (_, c) # _ \<Rightarrow> Some (ac_framerate c)))"

definition take_write_access :: "user \<Rightarrow> bool" where
  "take_write_access u = u_is_superuser u"

section \<open>Sessions\<close>

definition session_shots :: "db \<Rightarrow> pk \<Rightarrow> (pk \<times> shot) list" where
  "session_shots d k = t_filter (\<lambda>_ s. sh_session s = k) (db_shots d)"

definition session_shot_count :: "db \<Rightarrow> pk \<Rightarrow> nat" where
  "session_shot_count d k = length (session_shots d k)"

definition session_take_count :: "db \<Rightarrow> pk \<Rightarrow> nat" where
  "session_take_count d k = t_count
     (\<lambda>_ t. case t_get (db_shots d) (tk_shot t) of None \<Rightarrow> False | Some s \<Rightarrow> sh_session s = k)
     (db_takes d)"

definition scans_of_take :: "db \<Rightarrow> pk \<Rightarrow> (pk \<times> scan_asset) list" where
  "scans_of_take d k = t_filter (\<lambda>_ a. sa_take a = Some k) (db_scans d)"

definition get_neutral_work_folder :: "db \<Rightarrow> session \<Rightarrow> string option" where
  "get_neutral_work_folder d s =
     (case se_neutral_take s of None \<Rightarrow> None
      | Some k \<Rightarrow>
          (case scans_of_take d k of
             (_, a) # _ \<Rightarrow> Some (sa_work_folder a)
           | [] \<Rightarrow> (case t_get (db_takes d) k of None \<Rightarrow> None | Some t \<Rightarrow> tk_work_folder t)))"

text \<open>\<open>int(x)\<close> of a float truncates towards zero; a missing \<open>take_mixed_w_time\<close> is a \<open>TypeError\<close>.\<close>

definition trunc :: "pyfloat \<Rightarrow> int" where
  "trunc x = (if 0 \<le> x then \<lfloor>x\<rfloor> else \<lceil>x\<rceil>)"

definition get_neutral_frame :: "db \<Rightarrow> session \<Rightarrow> py_exn + int option" where
  "get_neutral_frame d s =
     (case se_neutral_take s of None \<Rightarrow> Inr None
      | Some k \<Rightarrow>
          (case scans_of_take d k of
             (_, a) # _ \<Rightarrow>
               (if sa_has_tracking a then
                  (case t_get (db_takes d) k of None \<Rightarrow> Inr (Some 0)
                   | Some t \<Rightarrow>
                       (case frontal_framerate d k t of None \<Rightarrow> Inr (Some 0)
                        | Some fr \<Rightarrow>
                            if fr = 0 then Inr (Some 0)
                            else (case sa_take_mixed_w_time a of None \<Rightarrow> Inl TypeError
                                  | Some w \<Rightarrow> Inr (Some (trunc (w * fr))))))
                else Inr (Some 0))
           | [] \<Rightarrow> Inr (Some 0)))"

definition work_file :: "db \<Rightarrow> pk option \<Rightarrow> string \<Rightarrow> string option" where
  "work_file d tk file =
     (case tk of None \<Rightarrow> None
      | Some k \<Rightarrow>
          (case t_get (db_takes d) k of None \<Rightarrow> None
           | Some t \<Rightarrow>
               (if truthy (tk_work_folder t)
                then map_option (\<lambda>f. path_join f file) (tk_work_folder t) else None)))"

definition session_master_calib_path :: "db \<Rightarrow> session \<Rightarrow> string option" where
  "session_master_calib_path d s = work_file d (se_master_calib s) ''session_calib.xml''"

definition session_master_colorchart_path :: "db \<Rightarrow> session \<Rightarrow> string option" where
  "session_master_colorchart_path d s =
     work_file d (se_master_colorchart s) ''colorcorrection_crosspolarized.txt''"

section \<open>Projects\<close>

definition take_project :: "db \<Rightarrow> take \<Rightarrow> pk option" where
  "take_project d t = map_option se_project (take_session d t)"

definition project_takes :: "db \<Rightarrow> pk \<Rightarrow> string \<Rightarrow> (pk \<times> take) list" where
  "project_takes d p flag =
     sort_key fst (t_filter (\<lambda>_ t. take_project d t = Some p \<and> tk_flag t = flag) (db_takes d))"

definition bested_takes :: "db \<Rightarrow> pk \<Rightarrow> (pk \<times> take) list" where
  "bested_takes d p = project_takes d p ''best''"

definition calib_takes :: "db \<Rightarrow> pk \<Rightarrow> (pk \<times> take) list" where
  "calib_takes d p = project_takes d p ''calib''"

definition colorchart_takes :: "db \<Rightarrow> pk \<Rightarrow> (pk \<times> take) list" where
  "colorchart_takes d p = project_takes d p ''colorchart''"

definition singleframe_takes :: "db \<Rightarrow> pk \<Rightarrow> (pk \<times> take) list" where
  "singleframe_takes d p =
     filter (\<lambda>(k, _). take_frame_count d k = Some 1) (project_takes d p ''best'')"

definition scan_flag :: "db \<Rightarrow> scan_asset \<Rightarrow> string option" where
  "scan_flag d a =
     (case sa_take a of None \<Rightarrow> None | Some k \<Rightarrow> map_option tk_flag (t_get (db_takes d) k))"

definition best_staticscanassets :: "db \<Rightarrow> pk \<Rightarrow> (pk \<times> scan_asset) list" where
  "best_staticscanassets d p =
     sort_key fst (t_filter (\<lambda>_ a. sa_project a = p \<and> scan_flag d a = Some ''best'') (db_scans d))"

definition calib_staticscanassets :: "db \<Rightarrow> pk \<Rightarrow> (pk \<times> scan_asset) list" where
  "calib_staticscanassets d p =
     sort_key fst (t_filter (\<lambda>_ a. sa_project a = p \<and>
       (scan_flag d a = Some ''calib'' \<or> scan_flag d a = Some ''colorchart'')) (db_scans d))"

definition track_take :: "db \<Rightarrow> tracking_asset \<Rightarrow> take option" where
  "track_take d a = t_get (db_takes d) (ta_take a)"

definition all_trackingassets :: "db \<Rightarrow> pk \<Rightarrow> (pk \<times> tracking_asset) list" where
  "all_trackingassets d p =
     sort_key fst (t_filter (\<lambda>_ a. case track_take d a of None \<Rightarrow> False
        | Some t \<Rightarrow> take_project d t = Some p) (db_tracks d))"

definition best_trackingassets :: "db \<Rightarrow> pk \<Rightarrow> (pk \<times> tracking_asset) list" where
  "best_trackingassets d p =
     sort_key fst (t_filter (\<lambda>_ a. case track_take d a of None \<Rightarrow> False
        | Some t \<Rightarrow> take_project d t = Some p \<and> tk_flag t = ''best'') (db_tracks d))"

definition scanAssetHasSequence :: "scan_asset \<Rightarrow> bool" where
  "scanAssetHasSequence a \<longleftrightarrow> None \<notin> set [sa_take_neutral_start_time a, sa_take_neutral_end_time a,
     sa_take_mixed_w_time a, sa_take_pattern_start_time a, sa_take_pattern_last_time a]"

end
