(* ===== verification/Farm_Model.thy ===== *)
theory Farm_Model
  imports Archive_Model
begin

text \<open>
  The farm's models (\<open>jobs/models.py\<close>): the queries and predicates of \<open>FarmNode\<close> and
  \<open>FarmJob\<close>, saving an instance with its monitored and time-stamped columns, and the
  cascade with which a job is deleted together with its descendants.
\<close>

section \<open>Predicates and queries of the models\<close>

definition node_write_access :: "user \<Rightarrow> bool" where
  "node_write_access u = u_is_superuser u"

definition job_write_access :: "farm_job \<Rightarrow> user \<Rightarrow> bool" where
  "job_write_access j u \<longleftrightarrow> fj_created_by j = u_username u \<or> u_is_superuser u"

definition node_jobs :: "db \<Rightarrow> pk \<Rightarrow> (pk \<times> farm_job) list" where
  "node_jobs d n = t_filter (\<lambda>_ j. fj_node j = Some n) (db_jobs d)"

definition running_jobs :: "db \<Rightarrow> pk \<Rightarrow> (pk \<times> farm_job) list" where
  "running_jobs d n = filter (\<lambda>(_, j). fj_status j = Running) (node_jobs d n)"

definition recent_jobs :: "db \<Rightarrow> pk \<Rightarrow> (pk \<times> farm_job) list" where
  "recent_jobs d n = List.take 10 (order_desc (\<lambda>(_, j). fj_end_time j)
     (filter (\<lambda>(_, j). fj_status j = Success \<or> fj_status j = Failed) (node_jobs d n)))"

definition farm_node_is_active :: "time \<Rightarrow> farm_node \<Rightarrow> bool" where
  "farm_node_is_active now n \<longleftrightarrow>
     fn_status n = ''accepting'' \<and> fn_last_seen n \<ge> now - seconds 90"

definition actual_status :: "time \<Rightarrow> farm_node \<Rightarrow> string" where
  "actual_status now n =
     (if \<not> farm_node_is_active now n
         \<or> (truthy (fn_aws_instance_id n) \<and> fn_aws_instance_state n \<noteq> ''running'')
      then ''offline'' else fn_status n)"

definition aws_instance_should_be_stopped :: "time \<Rightarrow> db \<Rightarrow> pk \<Rightarrow> farm_node \<Rightarrow> bool" where
  "aws_instance_should_be_stopped now d k n =
     (if truthy (fn_aws_instance_id n) \<and> fn_aws_auto_shutdown n then
        (if fn_aws_instance_state n = ''running'' then
           (if now - fn_aws_instance_state_changed n > minutes 10 then
              (if (case fn_last_job_activity n of None \<Rightarrow> True | Some t \<Rightarrow> now - t > minutes 10) then
                 length (filter (\<lambda>(_, j). fj_status j = Running \<or> fj_status j = Reserved)
                   (node_jobs d k)) = 0
               else False)
            else False)
         else False)
      else False)"

section \<open>Saving\<close>

text \<open>
  \<open>MonitorField\<close> and \<open>TimeStampedModel\<close>: on \<open>save\<close> the column
  \<open>status_changed\<close> takes the current instant if the status differs from the one that
  was loaded, \<open>modified\<close> always. A \<open>QuerySet.update\<close> bypasses both. The
  many-to-many relations are not columns: \<open>save\<close> leaves them as they are stored, and
  they are changed by \<open>set_job_tags\<close> and \<open>add_job_dependency\<close>.
\<close>

definition stamp :: "time \<Rightarrow> db \<Rightarrow> pk \<Rightarrow> farm_job \<Rightarrow> farm_job" where
  "stamp now d k j =
     (case t_get (db_jobs d) k of
        None \<Rightarrow> j\<lparr>fj_modified := now, fj_status_changed := now,
                 fj_dependencies := [], fj_tags := []\<rparr>
      | Some old \<Rightarrow> j\<lparr>fj_modified := now,
                 fj_status_changed := (if fj_status old \<noteq> fj_status j then now else fj_status_changed j),
                 fj_dependencies := fj_dependencies old, fj_tags := fj_tags old\<rparr>)"

definition save_job :: "time \<Rightarrow> pk \<Rightarrow> farm_job \<Rightarrow> db \<Rightarrow> db" where
  "save_job now k j d = d\<lparr>db_jobs := t_save k (stamp now d k j) (db_jobs d)\<rparr>"

definition set_job_tags :: "pk \<Rightarrow> string list \<Rightarrow> db \<Rightarrow> db" where
  "set_job_tags k tags d =
     d\<lparr>db_jobs := t_update (\<lambda>k' _. k' = k) (\<lambda>j. j\<lparr>fj_tags := tags\<rparr>) (db_jobs d)\<rparr>"

definition add_job_dependency :: "pk \<Rightarrow> pk \<Rightarrow> db \<Rightarrow> db" where
  "add_job_dependency k dep d =
     d\<lparr>db_jobs := t_update (\<lambda>k' j. k' = k \<and> dep \<notin> set (fj_dependencies j))
        (\<lambda>j. j\<lparr>fj_dependencies := fj_dependencies j @ [dep]\<rparr>) (db_jobs d)\<rparr>"

definition create_job :: "farm_job \<Rightarrow> db \<Rightarrow> pk \<times> db" where
  "create_job j d = (let (k, t) = t_create j (db_jobs d) in (k, d\<lparr>db_jobs := t\<rparr>))"

definition update_jobs :: "(pk \<Rightarrow> farm_job \<Rightarrow> bool) \<Rightarrow> (farm_job \<Rightarrow> farm_job) \<Rightarrow> db \<Rightarrow> db" where
  "update_jobs P f d = d\<lparr>db_jobs := t_update P f (db_jobs d)\<rparr>"

definition save_farm_node :: "time \<Rightarrow> pk \<Rightarrow> farm_node \<Rightarrow> db \<Rightarrow> db" where
  "save_farm_node now k n d = d\<lparr>db_fnodes := t_save k
     (case t_get (db_fnodes d) k of
        None \<Rightarrow> n\<lparr>fn_aws_instance_state_changed := now, fn_tags := []\<rparr>
      | Some old \<Rightarrow> n\<lparr>fn_aws_instance_state_changed :=
            (if fn_aws_instance_state old \<noteq> fn_aws_instance_state n then now
             else fn_aws_instance_state_changed n),
          fn_tags := fn_tags old\<rparr>) (db_fnodes d)\<rparr>"

definition set_node_tags :: "pk \<Rightarrow> string list \<Rightarrow> db \<Rightarrow> db" where
  "set_node_tags k tags d =
     d\<lparr>db_fnodes := t_update (\<lambda>k' _. k' = k) (\<lambda>n. n\<lparr>fn_tags := tags\<rparr>) (db_fnodes d)\<rparr>"

definition create_farm_node :: "farm_node \<Rightarrow> db \<Rightarrow> pk \<times> db" where
  "create_farm_node n d = (let (k, t) = t_create n (db_fnodes d) in (k, d\<lparr>db_fnodes := t\<rparr>))"

lemma stamp_simps [simp]:
  "fj_status (stamp now d k j) = fj_status j"
  "fj_parent (stamp now d k j) = fj_parent j"
  "fj_node (stamp now d k j) = fj_node j"
  "fj_job_class (stamp now d k j) = fj_job_class j"
  "fj_progress (stamp now d k j) = fj_progress j"
  "fj_exception (stamp now d k j) = fj_exception j"
  "fj_end_time (stamp now d k j) = fj_end_time j"
  "fj_start_time (stamp now d k j) = fj_start_time j"
  "fj_created_by (stamp now d k j) = fj_created_by j"
  "fj_req_version (stamp now d k j) = fj_req_version j"
  "fj_req_gpu (stamp now d k j) = fj_req_gpu j"
  "fj_priority (stamp now d k j) = fj_priority j"
  "fj_params (stamp now d k j) = fj_params j"
  "fj_image_filename (stamp now d k j) = fj_image_filename j"
  "fj_mesh_filename (stamp now d k j) = fj_mesh_filename j"
  "fj_dependencies (stamp now d k j) =
     (case t_get (db_jobs d) k of None \<Rightarrow> [] | Some old \<Rightarrow> fj_dependencies old)"
  "fj_tags (stamp now d k j) =
     (case t_get (db_jobs d) k of None \<Rightarrow> [] | Some old \<Rightarrow> fj_tags old)"
  by (simp_all add: stamp_def split: option.splits)

lemma jobs_save_job [table_simps]:
  "t_get (db_jobs (save_job now k j d)) k' =
     (if k' = k then Some (stamp now d k j) else t_get (db_jobs d) k')"
  by (simp add: save_job_def t_get_save)

lemma keys_save_job [table_simps]:
  "t_keys (db_jobs (save_job now k j d)) = insert k (t_keys (db_jobs d))"
  by (simp add: save_job_def t_keys_save)

lemma wf_jobs_save_job [intro]:
  "wf_table (db_jobs d) \<Longrightarrow> wf_table (db_jobs (save_job now k j d))"
  by (auto simp: save_job_def)

lemma save_job_frame [frame_simps]:
  "db_fnodes (save_job now k j d) = db_fnodes d"
  "db_sent (save_job now k j d) = db_sent d"
  "db_files (save_job now k j d) = db_files d"
  "db_takes (save_job now k j d) = db_takes d"
  "db_scans (save_job now k j d) = db_scans d"
  "db_tracks (save_job now k j d) = db_tracks d"
  by (simp_all add: save_job_def)

lemma jobs_create_job [table_simps]:
  "wf_table (db_jobs d) \<Longrightarrow> t_get (db_jobs (snd (create_job j d))) k =
     (if k = next_pk (db_jobs d) then Some j else t_get (db_jobs d) k)"
  using t_get_create [of "db_jobs d" j k] by (simp add: create_job_def case_prod_beta)

lemma fst_create_job [simp]: "fst (create_job j d) = next_pk (db_jobs d)"
  by (simp add: create_job_def case_prod_beta)

lemma keys_create_job [table_simps]:
  "t_keys (db_jobs (snd (create_job j d))) = insert (next_pk (db_jobs d)) (t_keys (db_jobs d))"
  using t_keys_create [of j "db_jobs d"] by (simp add: create_job_def case_prod_beta)

lemma wf_jobs_create_job [intro]:
  "wf_table (db_jobs d) \<Longrightarrow> wf_table (db_jobs (snd (create_job j d)))"
  by (auto simp: create_job_def case_prod_beta)

lemma create_job_frame [frame_simps]:
  "db_fnodes (snd (create_job j d)) = db_fnodes d"
  "db_sent (snd (create_job j d)) = db_sent d"
  "db_files (snd (create_job j d)) = db_files d"
  by (simp_all add: create_job_def case_prod_beta)

lemma jobs_update_jobs [table_simps]:
  "t_get (db_jobs (update_jobs P f d)) k =
     map_option (\<lambda>j. if P k j then f j else j) (t_get (db_jobs d) k)"
  by (simp add: update_jobs_def t_get_update)

lemma keys_update_jobs [table_simps]: "t_keys (db_jobs (update_jobs P f d)) = t_keys (db_jobs d)"
  by (simp add: update_jobs_def t_keys_update)

lemma wf_jobs_update_jobs [intro]:
  "wf_table (db_jobs d) \<Longrightarrow> wf_table (db_jobs (update_jobs P f d))"
  by (auto simp: update_jobs_def)

lemma update_jobs_frame [frame_simps]:
  "db_fnodes (update_jobs P f d) = db_fnodes d"
  "db_sent (update_jobs P f d) = db_sent d"
  "db_files (update_jobs P f d) = db_files d"
  by (simp_all add: update_jobs_def)

text \<open>The jobs of the database, with their saved versions, are a store of jobs.\<close>

interpretation js: pk_store "\<lambda>d. t_get (db_jobs d)" "\<lambda>k j d. d\<lparr>db_jobs := t_save k j (db_jobs d)\<rparr>"
    create_job "\<lambda>P d. d\<lparr>db_jobs := t_delete P (db_jobs d)\<rparr>" "\<lambda>d. wf_table (db_jobs d)"
  by unfold_locales
    (auto simp: table_simps create_job_def case_prod_beta t_get_fresh)

section \<open>Children and the delete cascade\<close>

definition children :: "db \<Rightarrow> pk \<Rightarrow> (pk \<times> farm_job) list" where
  "children d p = t_filter (\<lambda>_ j. fj_parent j = Some p) (db_jobs d)"

lemma children_iff:
  "wf_table (db_jobs d) \<Longrightarrow>
   (k, j) \<in> set (children d p) \<longleftrightarrow> t_get (db_jobs d) k = Some j \<and> fj_parent j = Some p"
  by (simp add: children_def t_filter_iff)

text \<open>
  \<open>parent\<close> is declared \<open>on_delete=CASCADE\<close>: deleting jobs deletes their children,
  level by level, until no job is added. The collector remembers what it has seen, so a
  cycle of parents does not keep it going.
\<close>

definition next_level :: "(pk \<times> farm_job) list \<Rightarrow> pk list \<Rightarrow> pk list \<Rightarrow> pk list" where
  "next_level js seen frontier =
     [k. (k, j) \<leftarrow> js, (case fj_parent j of None \<Rightarrow> False | Some p \<Rightarrow> p \<in> set frontier),
         k \<notin> set seen]"

function collect :: "(pk \<times> farm_job) list \<Rightarrow> pk list \<Rightarrow> pk list \<Rightarrow> pk list" where
  "collect js seen frontier =
     (let new = next_level js seen frontier
      in if new = [] then seen else collect js (seen @ new) new)"
  by pat_completeness auto
termination
proof (relation "measure (\<lambda>(js, seen, _). length (filter (\<lambda>(k, _). k \<notin> set seen) js))")
  fix js :: "(pk \<times> farm_job) list" and seen frontier new :: "pk list"
  assume new: "new = next_level js seen frontier" and ne: "new \<noteq> []"
  from ne obtain k where k: "k \<in> set new" by (cases new) auto
  with new obtain j where kj: "(k, j) \<in> set js" "k \<notin> set seen"
    by (auto simp: next_level_def)
  have "length (filter (\<lambda>(k, _). k \<notin> set (seen @ new)) js)
      = length (filter (\<lambda>(k, _). k \<notin> set new) (filter (\<lambda>(k, _). k \<notin> set seen) js))"
    by (simp add: case_prod_beta')
  also have "\<dots> < length (filter (\<lambda>(k, _). k \<notin> set seen) js)"
    using kj k by (intro length_filter_less) (auto intro!: bexI [of _ "(k, j)"])
  finally show "((js, seen @ new, new), (js, seen, frontier))
      \<in> measure (\<lambda>(js, seen, _). length (filter (\<lambda>(k, _). k \<notin> set seen) js))"
    by simp
qed simp

declare collect.simps [simp del]

definition cascade :: "db \<Rightarrow> pk list \<Rightarrow> pk list" where
  "cascade d ks = collect (rows (db_jobs d)) ks ks"

definition delete_jobs :: "pk list \<Rightarrow> db \<Rightarrow> nat \<times> db" where
  "delete_jobs ks d =
     (let gone = cascade d ks in
      (t_count (\<lambda>k _. k \<in> set gone) (db_jobs d),
       d\<lparr>db_jobs := t_update (\<lambda>_ _. True)
           (\<lambda>j. j\<lparr>fj_dependencies := filter (\<lambda>x. x \<notin> set gone) (fj_dependencies j)\<rparr>)
           (t_delete (\<lambda>k _. k \<in> set gone) (db_jobs d))\<rparr>))"

text \<open>What the cascade should reach: the descendants through \<open>parent\<close>.\<close>

definition parent_of :: "db \<Rightarrow> (pk \<times> pk) set" where
  "parent_of d = {(p, k). \<exists>j. t_get (db_jobs d) k = Some j \<and> fj_parent j = Some p}"

lemma next_level_iff:
  "wf_table (db_jobs d) \<Longrightarrow> k \<in> set (next_level (rows (db_jobs d)) seen frontier)
   \<longleftrightarrow> k \<notin> set seen \<and> (\<exists>p \<in> set frontier. (p, k) \<in> parent_of d)"
  by (force simp: next_level_def parent_of_def t_get_iff split: option.splits)

lemma collect_spec:
  assumes wf: "wf_table (db_jobs d)"
  shows "set frontier \<subseteq> set seen \<Longrightarrow>
    (\<forall>p k. (p, k) \<in> parent_of d \<and> p \<in> set seen \<and> k \<notin> set seen \<longrightarrow> p \<in> set frontier) \<Longrightarrow>
    set (collect (rows (db_jobs d)) seen frontier) = (parent_of d)\<^sup>* `` set seen"
proof (induction "rows (db_jobs d)" seen frontier rule: collect.induct)
  case (1 seen frontier)
  define new where "new = next_level (rows (db_jobs d)) seen frontier"
  show ?case
  proof (cases "new = []")
    case True
    then have "\<forall>k. \<not> (k \<notin> set seen \<and> (\<exists>p \<in> set frontier. (p, k) \<in> parent_of d))"
      using next_level_iff [OF wf, of _ seen frontier] new_def by auto
    with 1(3) have closed: "\<forall>p k. (p, k) \<in> parent_of d \<and> p \<in> set seen \<longrightarrow> k \<in> set seen"
      by blast
    then have "parent_of d `` set seen \<subseteq> set seen" by blast
    then have "(parent_of d)\<^sup>* `` set seen = set seen" by (rule Image_closed_trancl)
    then show ?thesis
      using True new_def by (simp add: collect.simps [of _ seen frontier])
  next
    case False
    have mem: "k \<in> set new \<longleftrightarrow> k \<notin> set seen \<and> (\<exists>p \<in> set frontier. (p, k) \<in> parent_of d)" for k
      using next_level_iff [OF wf] by (simp add: new_def)
    have "set (collect (rows (db_jobs d)) (seen @ new) new) = (parent_of d)\<^sup>* `` set (seen @ new)"
    proof (rule 1(1) [OF new_def False])
      show "set new \<subseteq> set (seen @ new)" by simp
      show "\<forall>p k. (p, k) \<in> parent_of d \<and> p \<in> set (seen @ new) \<and> k \<notin> set (seen @ new) \<longrightarrow> p \<in> set new"
        using 1(3) mem by auto
    qed
    also have "\<dots> = (parent_of d)\<^sup>* `` set seen"
    proof -
      have "set new \<subseteq> (parent_of d)\<^sup>* `` set seen"
        using mem 1(2) by blast
      then have "(parent_of d)\<^sup>* `` set new \<subseteq> (parent_of d)\<^sup>* `` set seen"
        by (auto intro: rtrancl_trans)
      then show ?thesis by (auto simp: Image_Un)
    qed
    finally show ?thesis
      using False new_def by (simp add: collect.simps [of _ seen frontier] Let_def)
  qed
qed

lemma set_cascade:
  "wf_table (db_jobs d) \<Longrightarrow> set (cascade d ks) = (parent_of d)\<^sup>* `` set ks"
  unfolding cascade_def by (rule collect_spec) auto

lemma cascade_closed:
  "wf_table (db_jobs d) \<Longrightarrow> t_get (db_jobs d) k = Some j \<Longrightarrow> fj_parent j = Some p \<Longrightarrow>
   p \<in> set (cascade d ks) \<Longrightarrow> k \<in> set (cascade d ks)"
  by (auto simp: set_cascade parent_of_def intro: rtrancl_into_rtrancl)

lemma cascade_roots: "wf_table (db_jobs d) \<Longrightarrow> k \<in> set ks \<Longrightarrow> k \<in> set (cascade d ks)"
  by (auto simp: set_cascade)

lemma delete_jobs_get [table_simps]:
  "wf_table (db_jobs d) \<Longrightarrow> t_get (db_jobs (snd (delete_jobs ks d))) k =
     (if k \<in> set (cascade d ks) then None
      else map_option (\<lambda>j. j\<lparr>fj_dependencies :=
             filter (\<lambda>x. x \<notin> set (cascade d ks)) (fj_dependencies j)\<rparr>) (t_get (db_jobs d) k))"
  by (auto simp: delete_jobs_def Let_def table_simps split: option.splits)

lemma wf_jobs_delete_jobs [intro]:
  "wf_table (db_jobs d) \<Longrightarrow> wf_table (db_jobs (snd (delete_jobs ks d)))"
  by (auto simp: delete_jobs_def Let_def)

lemma delete_jobs_frame [frame_simps]:
  "db_fnodes (snd (delete_jobs ks d)) = db_fnodes d"
  "db_sent (snd (delete_jobs ks d)) = db_sent d"
  "db_files (snd (delete_jobs ks d)) = db_files d"
  by (simp_all add: delete_jobs_def Let_def)

lemma delete_jobs_count_pos:
  assumes wf: "wf_table (db_jobs d)"
  shows "0 < fst (delete_jobs ks d) \<longleftrightarrow> (\<exists>k \<in> set (cascade d ks). t_get (db_jobs d) k \<noteq> None)"
  by (auto simp: delete_jobs_def Let_def t_count_pos_iff [OF wf])

section \<open>The invariant of the farm\<close>

text \<open>
  Every reference from a job finds its row, and a parent is older than its children: a child
  is created with a fresh key while its parent exists, and \<open>parent\<close> is never changed later.
\<close>

definition job_refs :: "db \<Rightarrow> pk \<Rightarrow> farm_job \<Rightarrow> bool" where
  "job_refs d k j \<longleftrightarrow>
     (\<forall>p. fj_parent j = Some p \<longrightarrow> p < k \<and> p \<in> t_keys (db_jobs d)) \<and>
     set (fj_dependencies j) \<subseteq> t_keys (db_jobs d) \<and>
     (\<forall>n. fj_node j = Some n \<longrightarrow> n \<in> t_keys (db_fnodes d))"

definition farm_inv :: "db \<Rightarrow> bool" where
  "farm_inv d \<longleftrightarrow> wf_table (db_jobs d) \<and> wf_table (db_fnodes d) \<and>
     (\<forall>k j. t_get (db_jobs d) k = Some j \<longrightarrow> job_refs d k j)"

lemma farm_invI:
  assumes "wf_table (db_jobs d)" "wf_table (db_fnodes d)"
    "\<And>k j. t_get (db_jobs d) k = Some j \<Longrightarrow> job_refs d k j"
  shows "farm_inv d"
  using assms by (simp add: farm_inv_def)

lemma farm_invD:
  assumes "farm_inv d"
  shows "wf_table (db_jobs d)" "wf_table (db_fnodes d)"
    "t_get (db_jobs d) k = Some j \<Longrightarrow> job_refs d k j"
  using assms by (simp_all add: farm_inv_def)

lemma farm_inv_parentD:
  assumes "farm_inv d" "t_get (db_jobs d) k = Some j" "fj_parent j = Some p"
  shows "p < k" "p \<in> t_keys (db_jobs d)"
  using farm_invD(3) [OF assms(1,2)] assms(3) by (simp_all add: job_refs_def)

lemma job_refs_mono:
  assumes "job_refs d k j" "t_keys (db_jobs d) \<subseteq> t_keys (db_jobs d')"
    "t_keys (db_fnodes d) \<subseteq> t_keys (db_fnodes d')" "fj_parent j' = fj_parent j"
    "set (fj_dependencies j') \<subseteq> set (fj_dependencies j)"
    "fj_node j' = fj_node j \<or> fj_node j' = None"
  shows "job_refs d' k j'"
  using assms unfolding job_refs_def by auto

lemma farm_inv_cong:
  assumes "farm_inv d" "db_jobs d' = db_jobs d" "db_fnodes d' = db_fnodes d"
  shows "farm_inv d'"
  using assms by (auto simp: farm_inv_def job_refs_def)

lemma farm_inv_save_job:
  assumes inv: "farm_inv d"
    and par: "\<forall>p. fj_parent j = Some p \<longrightarrow> p < k \<and> p \<in> t_keys (db_jobs d)"
    and node: "\<forall>n. fj_node j = Some n \<longrightarrow> n \<in> t_keys (db_fnodes d)"
  shows "farm_inv (save_job now k j d)"
proof (rule farm_invI)
  show "wf_table (db_jobs (save_job now k j d))" using farm_invD(1) [OF inv] by (rule wf_jobs_save_job)
  show "wf_table (db_fnodes (save_job now k j d))" using farm_invD(2) [OF inv] by (simp add: frame_simps)
  fix k' j' assume g: "t_get (db_jobs (save_job now k j d)) k' = Some j'"
  show "job_refs (save_job now k j d) k' j'"
  proof (cases "k' = k")
    case True
    with g have j': "j' = stamp now d k j" by (simp add: table_simps)
    show ?thesis
    proof (cases "t_get (db_jobs d) k")
      case None
      with j' par node True show ?thesis by (auto simp: job_refs_def table_simps frame_simps)
    next
      case (Some old)
      with farm_invD(3) [OF inv Some] j' par node True show ?thesis
        by (auto simp: job_refs_def table_simps frame_simps)
    qed
  next
    case False
    with g have "t_get (db_jobs d) k' = Some j'" by (simp add: table_simps)
    from farm_invD(3) [OF inv this] show ?thesis
      by (rule job_refs_mono) (auto simp: table_simps frame_simps)
  qed
qed

lemma farm_inv_resave:
  assumes "farm_inv d" "t_get (db_jobs d) k = Some j0" "fj_parent j = fj_parent j0"
    "fj_node j = fj_node j0 \<or> fj_node j = None"
  shows "farm_inv (save_job now k j d)"
  using farm_invD(3) [OF assms(1,2)] assms
  by (intro farm_inv_save_job) (auto simp: job_refs_def)

lemma farm_inv_create_job:
  assumes inv: "farm_inv d"
    and par: "\<forall>p. fj_parent j = Some p \<longrightarrow> p \<in> t_keys (db_jobs d)"
    and dep: "set (fj_dependencies j) \<subseteq> t_keys (db_jobs d)"
    and node: "\<forall>n. fj_node j = Some n \<longrightarrow> n \<in> t_keys (db_fnodes d)"
  shows "farm_inv (snd (create_job j d))"
proof (rule farm_invI)
  have wf: "wf_table (db_jobs d)" using farm_invD(1) [OF inv] .
  then show "wf_table (db_jobs (snd (create_job j d)))" by (rule wf_jobs_create_job)
  show "wf_table (db_fnodes (snd (create_job j d)))" using farm_invD(2) [OF inv] by (simp add: frame_simps)
  fix k' j' assume g: "t_get (db_jobs (snd (create_job j d))) k' = Some j'"
  show "job_refs (snd (create_job j d)) k' j'"
  proof (cases "k' = next_pk (db_jobs d)")
    case True
    with g wf have "j' = j" by (simp add: jobs_create_job)
    moreover have "p < next_pk (db_jobs d)" if "p \<in> t_keys (db_jobs d)" for p
      using wf that by (simp add: wf_table_def)
    ultimately show ?thesis
      using True par dep node by (auto simp: job_refs_def table_simps frame_simps)
  next
    case False
    with g wf have "t_get (db_jobs d) k' = Some j'" by (simp add: jobs_create_job)
    from farm_invD(3) [OF inv this] show ?thesis
      by (rule job_refs_mono) (auto simp: table_simps frame_simps)
  qed
qed

lemma farm_inv_update_jobs:
  assumes inv: "farm_inv d"
    and f: "\<And>j. fj_parent (f j) = fj_parent j \<and> fj_dependencies (f j) = fj_dependencies j
        \<and> (fj_node (f j) = fj_node j \<or> fj_node (f j) = None)"
  shows "farm_inv (update_jobs P f d)"
proof (rule farm_invI)
  show "wf_table (db_jobs (update_jobs P f d))" using farm_invD(1) [OF inv] by (rule wf_jobs_update_jobs)
  show "wf_table (db_fnodes (update_jobs P f d))" using farm_invD(2) [OF inv] by (simp add: frame_simps)
  fix k j assume "t_get (db_jobs (update_jobs P f d)) k = Some j"
  then obtain j0 where g0: "t_get (db_jobs d) k = Some j0" and j: "j = f j0 \<or> j = j0"
    by (auto simp: table_simps split: if_splits)
  have eq: "fj_parent j = fj_parent j0" "fj_dependencies j = fj_dependencies j0"
    "fj_node j = fj_node j0 \<or> fj_node j = None"
    using j f [of j0] by metis+
  show "job_refs (update_jobs P f d) k j"
    using farm_invD(3) [OF inv g0]
    by (rule job_refs_mono) (simp_all add: eq keys_update_jobs frame_simps)
qed

lemma farm_inv_delete_jobs:
  assumes inv: "farm_inv d"
  shows "farm_inv (snd (delete_jobs ks d))"
proof (rule farm_invI)
  have wf: "wf_table (db_jobs d)" using farm_invD(1) [OF inv] .
  then show "wf_table (db_jobs (snd (delete_jobs ks d)))" by (rule wf_jobs_delete_jobs)
  show "wf_table (db_fnodes (snd (delete_jobs ks d)))" using farm_invD(2) [OF inv] by (simp add: frame_simps)
  let ?C = "set (cascade d ks)"
  fix k j assume g: "t_get (db_jobs (snd (delete_jobs ks d))) k = Some j"
  from g obtain j0 where k: "k \<notin> ?C" and g0: "t_get (db_jobs d) k = Some j0"
    and j: "j = j0\<lparr>fj_dependencies := filter (\<lambda>x. x \<notin> ?C) (fj_dependencies j0)\<rparr>"
    by (auto simp: delete_jobs_get [OF wf] split: if_splits)
  have keys: "x \<in> t_keys (db_jobs (snd (delete_jobs ks d))) \<longleftrightarrow> x \<notin> ?C \<and> x \<in> t_keys (db_jobs d)" for x
    by (auto simp: t_keys_get delete_jobs_get [OF wf])
  have "p \<notin> ?C" if "fj_parent j0 = Some p" for p
    using cascade_closed [OF wf g0 that] k by blast
  with farm_invD(3) [OF inv g0] j keys show "job_refs (snd (delete_jobs ks d)) k j"
    by (auto simp: job_refs_def frame_simps)
qed

text \<open>The descendants of a job are younger than the job, so deleting them leaves it alone.\<close>

lemma farm_inv_ancestor:
  assumes inv: "farm_inv d" and "(p, k) \<in> (parent_of d)\<^sup>*"
  shows "p \<le> k"
  using assms(2)
proof (induction rule: rtrancl_induct)
  case base
  show ?case by simp
next
  case (step k k')
  then have "k < k'" by (auto simp: parent_of_def dest: farm_inv_parentD(1) [OF inv])
  with step.IH show ?case by simp
qed

lemma cascade_children_younger:
  assumes inv: "farm_inv d" and k': "k' \<in> set (cascade d (map fst (children d k)))"
  shows "k < k'"
proof -
  have wf: "wf_table (db_jobs d)" using farm_invD(1) [OF inv] .
  from k' obtain c j where "(c, j) \<in> set (children d k)" and c: "(c, k') \<in> (parent_of d)\<^sup>*"
    by (auto simp: set_cascade [OF wf])
  then have "t_get (db_jobs d) c = Some j" "fj_parent j = Some k"
    by (simp_all add: children_iff [OF wf])
  then have "k < c" by (rule farm_inv_parentD(1) [OF inv])
  moreover have "c \<le> k'" using inv c by (rule farm_inv_ancestor)
  ultimately show ?thesis by simp
qed

lemma delete_children_get:
  assumes inv: "farm_inv d" and "k' \<le> k"
  shows "t_get (db_jobs (snd (delete_jobs (map fst (children d k)) d))) k' =
    map_option (\<lambda>j. j\<lparr>fj_dependencies :=
      filter (\<lambda>x. x \<notin> set (cascade d (map fst (children d k)))) (fj_dependencies j)\<rparr>) (t_get (db_jobs d) k')"
proof -
  have "k' \<notin> set (cascade d (map fst (children d k)))"
    using cascade_children_younger [OF inv, of k' k] assms(2) by auto
  then show ?thesis by (simp add: delete_jobs_get [OF farm_invD(1) [OF inv]])
qed

text \<open>Saving, creating and tagging nodes.\<close>

lemma save_farm_node_frame [frame_simps]:
  "db_jobs (save_farm_node now k n d) = db_jobs d"
  "t_keys (db_fnodes (save_farm_node now k n d)) = insert k (t_keys (db_fnodes d))"
  by (simp_all add: save_farm_node_def table_simps)

lemma create_farm_node_frame [frame_simps]:
  "db_jobs (snd (create_farm_node n d)) = db_jobs d"
  "t_keys (db_fnodes (snd (create_farm_node n d))) = insert (next_pk (db_fnodes d)) (t_keys (db_fnodes d))"
  "fst (create_farm_node n d) = next_pk (db_fnodes d)"
  by (simp_all add: create_farm_node_def case_prod_beta table_simps)

lemma set_node_tags_frame [frame_simps]:
  "db_jobs (set_node_tags k tags d) = db_jobs d"
  "t_keys (db_fnodes (set_node_tags k tags d)) = t_keys (db_fnodes d)"
  by (simp_all add: set_node_tags_def table_simps)

lemma farm_inv_nodes:
  assumes inv: "farm_inv d" and "db_jobs d' = db_jobs d" "wf_table (db_fnodes d')"
    "t_keys (db_fnodes d) \<subseteq> t_keys (db_fnodes d')"
  shows "farm_inv d'"
proof (rule farm_invI)
  show "wf_table (db_jobs d')" using farm_invD(1) [OF inv] assms(2) by simp
  show "wf_table (db_fnodes d')" by (rule assms(3))
  show "job_refs d' k j" if "t_get (db_jobs d') k = Some j" for k j
    using farm_invD(3) [OF inv, of k j] that assms by (auto simp: job_refs_def)
qed

lemma farm_inv_save_farm_node:
  assumes "farm_inv d"
  shows "farm_inv (save_farm_node now k n d)"
proof (rule farm_inv_nodes [OF assms])
  show "wf_table (db_fnodes (save_farm_node now k n d))"
    using farm_invD(2) [OF assms] by (simp add: save_farm_node_def wf_t_save)
qed (auto simp: frame_simps)

lemma farm_inv_create_farm_node:
  assumes "farm_inv d"
  shows "farm_inv (snd (create_farm_node n d))"
proof (rule farm_inv_nodes [OF assms])
  show "wf_table (db_fnodes (snd (create_farm_node n d)))"
    using farm_invD(2) [OF assms] by (simp add: create_farm_node_def case_prod_beta wf_t_create)
qed (auto simp: frame_simps)

lemma farm_inv_set_node_tags:
  assumes "farm_inv d"
  shows "farm_inv (set_node_tags k tags d)"
proof (rule farm_inv_nodes [OF assms])
  show "wf_table (db_fnodes (set_node_tags k tags d))"
    using farm_invD(2) [OF assms] by (simp add: set_node_tags_def wf_t_update)
qed (auto simp: frame_simps)

end
