(* ===== verification/Farm_Jobs.thy ===== *)
theory Farm_Jobs
  imports Farm_Model
begin

text \<open>
  The life of a job on the server (\<open>jobs/views.py\<close>): the notifications, the update of a
  waiting parent when a child changes, and the views that restart, delete and kill jobs.
  A view returns the new database with its outcome; an exception leaves the changes made
  before it (the backend does not wrap requests in transactions).
\<close>

section \<open>Notifications\<close>

definition nl :: string where
  "nl = [CHR 0x0A]"

definition slack_notification :: "env \<Rightarrow> string \<Rightarrow> string \<Rightarrow> time option \<Rightarrow> db \<Rightarrow> db" where
  "slack_notification e msg color ts d =
     (if e_slack_hook e then d\<lparr>db_sent := db_sent d @ [Slack msg color ts]\<rparr> else d)"

definition email_body :: "pk \<Rightarrow> farm_job \<Rightarrow> string" where
  "email_body k j = ''Job id: #'' @ show_nat k @ '' '' @ fj_job_class j @ nl @
     ''status:'' @ status_name (fj_status j) @ nl @ ''owner:'' @ fj_created_by j @ nl @
     ''params:'' @ show_opt (fj_params j) @ nl @ ''Exception:'' @ show_opt (fj_exception j)"

definition sendEmailToOwner :: "env \<Rightarrow> pk \<Rightarrow> farm_job \<Rightarrow> db \<Rightarrow> db" where
  "sendEmailToOwner e k j d =
     (let owner = map (\<lambda>(_, u). u_email u)
            (List.take 1 (t_filter (\<lambda>_ u. u_username u = fj_created_by j) (db_users d)))
      in d\<lparr>db_sent := db_sent d @
           [Email (e_admin_email e # owner) (''JOB Failed #'' @ show_nat k) (email_body k j)]\<rparr>)"

text \<open>
  The lines of the Slack message about the asset of the job. The take of a scan asset may
  have been deleted (\<open>SET_NULL\<close>), and then \<open>ext_scan_assets.take.id\<close> raises.
\<close>

definition take_line :: "db \<Rightarrow> pk \<Rightarrow> string" where
  "take_line d k = nl @ ''Take: #'' @ show_nat k @ '' '' @
     (case t_get (db_takes d) k of None \<Rightarrow> [] | Some t \<Rightarrow> take_full_name d t)"

definition scan_lines :: "db \<Rightarrow> pk \<Rightarrow> string option" where
  "scan_lines d s =
     (case t_get (db_scans d) s of
        None \<Rightarrow> Some []
      | Some a \<Rightarrow>
          (case sa_take a of
             None \<Rightarrow> None
           | Some k \<Rightarrow> Some (take_line d k @ nl @ ''ScanAsset: #'' @ show_nat s @ '' '' @ sa_name a)))"

definition track_line :: "db \<Rightarrow> pk \<Rightarrow> string" where
  "track_line d k = nl @ ''TrackingAsset: #'' @ show_nat k @ '' '' @
     (case t_get (db_tracks d) k of None \<Rightarrow> []
      | Some a \<Rightarrow> (case t_get (db_takes d) (ta_take a) of None \<Rightarrow> [] | Some t \<Rightarrow> take_full_name d t))"

definition notif_text :: "db \<Rightarrow> pk \<Rightarrow> farm_job \<Rightarrow> string option" where
  "notif_text d k j =
     (case (case fj_ext_scan_assets j of None \<Rightarrow> Some [] | Some s \<Rightarrow> scan_lines d s) of
        None \<Rightarrow> None
      | Some scan \<Rightarrow> Some
          (''Job #'' @ show_nat k @ '' '' @ fj_job_class j @ '': *'' @ status_name (fj_status j)
           @ ''* ('' @ fj_created_by j @ '')'' @
           (case fj_ext_take j of None \<Rightarrow> [] | Some t \<Rightarrow> take_line d t) @ scan @
           (case fj_ext_tracking_assets j of None \<Rightarrow> [] | Some a \<Rightarrow> track_line d a) @
           (if fj_status j = Failed
            then nl @ ''Exception: ```'' @ show_opt (fj_exception j) @ ''```'' else [])))"

definition job_color :: "farm_job \<Rightarrow> string" where
  "job_color j = (if fj_status j = Failed then ''danger''
     else if fj_status j = Success then ''good'' else ''warning'')"

definition job_notification :: "env \<Rightarrow> pk \<Rightarrow> farm_job \<Rightarrow> db \<Rightarrow> db \<times> py_exn option" where
  "job_notification e k j d =
     (let d1 = (if fj_status j = Failed \<and> fj_parent j = None \<and> e_notification_email e
                then sendEmailToOwner e k j d else d)
      in if fj_parent j = None \<and> fj_status j \<noteq> Waiting
         then (case notif_text d1 k j of
                 None \<Rightarrow> (d1, Some (AttributeError ''id''))
               | Some txt \<Rightarrow> (slack_notification e txt (job_color j) (fj_end_time j) d1, None))
         else (d1, None))"

lemma job_notification_frame [frame_simps, simp]:
  "db_jobs (fst (job_notification e k j d)) = db_jobs d"
  "db_fnodes (fst (job_notification e k j d)) = db_fnodes d"
  "db_files (fst (job_notification e k j d)) = db_files d"
  "db_takes (fst (job_notification e k j d)) = db_takes d"
  "db_scans (fst (job_notification e k j d)) = db_scans d"
  by (auto simp: job_notification_def sendEmailToOwner_def slack_notification_def Let_def
      split: option.splits)

lemma job_notification_child [simp]:
  "fj_parent j \<noteq> None \<Longrightarrow> job_notification e k j d = (d, None)"
  by (auto simp: job_notification_def Let_def)

lemma job_notification_jobsD:
  "job_notification e k j d = (d', x) \<Longrightarrow> db_jobs d' = db_jobs d"
  using job_notification_frame(1) [of e k j d] by simp

section \<open>A child changed: update the parent\<close>

definition child_count :: "db \<Rightarrow> pk \<Rightarrow> job_status \<Rightarrow> nat" where
  "child_count d p st = length (filter (\<lambda>(_, j). fj_status j = st) (children d p))"

definition progress_text :: "nat \<Rightarrow> nat \<Rightarrow> nat \<Rightarrow> string" where
  "progress_text s f a = show_nat s @ ''/'' @ show_nat a @ '' Success, ''
     @ show_nat f @ ''/'' @ show_nat a @ '' Failed''"

text \<open>The parent waits, has children, and all of them have finished.\<close>

definition completes :: "db \<Rightarrow> pk \<Rightarrow> bool" where
  "completes d p \<longleftrightarrow>
     (case t_get (db_jobs d) p of None \<Rightarrow> False | Some j \<Rightarrow> fj_status j = Waiting) \<and>
     0 < length (children d p) \<and>
     child_count d p Success + child_count d p Failed = length (children d p)"

lemma completes_iff:
  "completes d p \<longleftrightarrow> (\<exists>j. t_get (db_jobs d) p = Some j \<and> fj_status j = Waiting) \<and>
     0 < length (children d p) \<and>
     child_count d p Success + child_count d p Failed = length (children d p)"
  by (auto simp: completes_def split: option.splits)

lemma child_counts_all:
  "child_count d p Success + child_count d p Failed = length (children d p) \<longleftrightarrow>
   (\<forall>(k, j) \<in> set (children d p). fj_status j = Success \<or> fj_status j = Failed)"
proof -
  let ?fin = "\<lambda>(_ :: pk, j). fj_status j = Success \<or> fj_status j = Failed"
  have "length (filter (\<lambda>(_, j). fj_status j = Success) xs)
      + length (filter (\<lambda>(_, j). fj_status j = Failed) xs) = length (filter ?fin xs)"
    for xs :: "(pk \<times> farm_job) list"
    by (induction xs) auto
  moreover have "length (filter ?fin xs) = length xs \<longleftrightarrow> (\<forall>x \<in> set xs. ?fin x)" for xs
    by (metis (no_types, lifting) filter_True length_filter_less less_irrefl)
  ultimately show ?thesis by (simp add: child_count_def)
qed

lemma completes_no_waiting_child:
  assumes "t_get (db_jobs d) k = Some j" "fj_parent j = Some p" "fj_status j = Waiting"
  shows "\<not> completes d p"
proof
  assume "completes d p"
  then have "\<forall>(k, j) \<in> set (children d p). fj_status j = Success \<or> fj_status j = Failed"
    using child_counts_all [of d p] by (simp add: completes_iff)
  moreover have "(k, j) \<in> set (children d p)"
    using assms by (auto simp: children_def t_filter_def t_get_def dest: map_of_SomeD)
  ultimately show False using assms(3) by auto
qed

lemma completes_cong: "db_jobs d' = db_jobs d \<Longrightarrow> completes d' p = completes d p"
  by (simp add: completes_iff children_def child_count_def)

text \<open>The parent with its new progress, and with the status it gets when it completes.\<close>

definition parent_progress :: "db \<Rightarrow> pk \<Rightarrow> farm_job \<Rightarrow> farm_job" where
  "parent_progress d p job = job\<lparr>fj_progress := Some (progress_text
     (child_count d p Success) (child_count d p Failed) (length (children d p)))\<rparr>"

definition parent_finished :: "env \<Rightarrow> db \<Rightarrow> pk \<Rightarrow> farm_job \<Rightarrow> farm_job" where
  "parent_finished e d p job = (parent_progress d p job)
     \<lparr>fj_status := (if child_count d p Failed > 0 then Failed else Success),
      fj_end_time := Some (e_now e)\<rparr>"

lemma parent_finished_simps [simp]:
  "fj_parent (parent_finished e d p job) = fj_parent job"
  "fj_parent (parent_progress d p job) = fj_parent job"
  "fj_status (parent_progress d p job) = fj_status job"
  "fj_status (parent_finished e d p job) = (if child_count d p Failed > 0 then Failed else Success)"
  "fj_end_time (parent_finished e d p job) = Some (e_now e)"
  by (simp_all add: parent_finished_def parent_progress_def)

text \<open>
  \<open>UpdateParentJob\<close> with the call to \<open>onJobChanged\<close> it makes for the parent
  written out (\<open>UpdateParentJob_calls\<close> states it as the source has it). The parent is
  read from the database, and saved only after its own parent has been updated.
\<close>

function UpdateParentJob :: "env \<Rightarrow> pk \<Rightarrow> db \<Rightarrow> db \<times> py_exn option" where
  "UpdateParentJob e p d =
     (case t_get (db_jobs d) p of
        None \<Rightarrow> (d, Some DoesNotExist)
      | Some job \<Rightarrow>
          if fj_status job = Waiting then
            (if length (children d p) > 0
                \<and> child_count d p Success + child_count d p Failed = length (children d p) then
               (case job_notification e p (parent_finished e d p job) d of
                  (d1, Some x) \<Rightarrow> (d1, Some x)
                | (d1, None) \<Rightarrow>
                    (case fj_parent job of
                       None \<Rightarrow> (save_job (e_now e) p (parent_finished e d p job) d1, None)
                     | Some g \<Rightarrow>
                         (case UpdateParentJob e g d1 of
                            (d2, Some x) \<Rightarrow> (d2, Some x)
                          | (d2, None) \<Rightarrow>
                              (save_job (e_now e) p (parent_finished e d p job) d2, None))))
             else (save_job (e_now e) p (parent_progress d p job) d, None))
          else (d, None))"
  by pat_completeness auto
termination
proof (relation "measure (\<lambda>(e, p, d). if completes d p then 1 else 0)", goal_cases)
  case 1
  show ?case by simp
next
  case (2 e p d job d1 x g)
  from 2(4) have "job_notification e p (parent_finished e d p job) d = (d1, x)" by (rule sym)
  then have "db_jobs d1 = db_jobs d" by (rule job_notification_jobsD)
  then have "completes d1 g = completes d g" by (rule completes_cong)
  moreover have "completes d p"
    unfolding completes_iff using 2(1,2,3) by blast
  moreover have "\<not> completes d g"
    using 2(1,2,6) by (intro completes_no_waiting_child)
  ultimately show ?case by simp
qed

declare UpdateParentJob.simps [simp del]

definition onJobChanged :: "env \<Rightarrow> pk \<Rightarrow> farm_job \<Rightarrow> db \<Rightarrow> db \<times> py_exn option" where
  "onJobChanged e k job d =
     (case job_notification e k job d of
        (d1, Some x) \<Rightarrow> (d1, Some x)
      | (d1, None) \<Rightarrow>
          (case fj_parent job of None \<Rightarrow> (d1, None) | Some p \<Rightarrow> UpdateParentJob e p d1))"

section \<open>What the update of a parent does\<close>

lemma UpdateParentJob_not_completing:
  assumes "\<not> completes d p"
  shows "UpdateParentJob e p d =
    (case t_get (db_jobs d) p of
       None \<Rightarrow> (d, Some DoesNotExist)
     | Some job \<Rightarrow> if fj_status job = Waiting
                  then (save_job (e_now e) p (parent_progress d p job) d, None) else (d, None))"
  using assms by (auto simp: UpdateParentJob.simps [of e p d] completes_iff split: option.splits)

lemma UpdateParentJob_root:
  assumes "completes d p" "t_get (db_jobs d) p = Some job" "fj_parent job = None"
  shows "UpdateParentJob e p d =
    (case job_notification e p (parent_finished e d p job) d of
       (d1, Some x) \<Rightarrow> (d1, Some x)
     | (d1, None) \<Rightarrow> (save_job (e_now e) p (parent_finished e d p job) d1, None))"
  using assms by (simp add: UpdateParentJob.simps [of e p d] completes_iff split: prod.splits option.splits)

lemma UpdateParentJob_nested:
  assumes "completes d p" "t_get (db_jobs d) p = Some job" "fj_parent job = Some g"
  shows "UpdateParentJob e p d =
    (case UpdateParentJob e g d of
       (d1, Some x) \<Rightarrow> (d1, Some x)
     | (d1, None) \<Rightarrow> (save_job (e_now e) p (parent_finished e d p job) d1, None))"
  using assms by (simp add: UpdateParentJob.simps [of e p d] completes_iff split: prod.splits option.splits)

lemma grandparent_not_completing:
  assumes "completes d p" "t_get (db_jobs d) p = Some job" "fj_parent job = Some g"
  shows "\<not> completes d g"
  using assms by (intro completes_no_waiting_child [of d p job]) (auto simp: completes_iff)

text \<open>The call the source makes, for a parent that completes.\<close>

lemma UpdateParentJob_calls:
  assumes "completes d p" "t_get (db_jobs d) p = Some job"
  shows "UpdateParentJob e p d =
    (case onJobChanged e p (parent_finished e d p job) d of
       (d1, Some x) \<Rightarrow> (d1, Some x)
     | (d1, None) \<Rightarrow> (save_job (e_now e) p (parent_finished e d p job) d1, None))"
proof (cases "fj_parent job")
  case None
  then show ?thesis
    using assms by (simp add: UpdateParentJob_root onJobChanged_def split: prod.splits option.splits)
next
  case (Some g)
  then show ?thesis
    using assms by (simp add: UpdateParentJob_nested onJobChanged_def split: prod.splits option.splits)
qed

text \<open>
  What changes: progress, status and end time of waiting jobs, and the messages; nothing
  else in the database, and no other column of a job.
\<close>

definition same_but_jobs :: "db \<Rightarrow> db \<Rightarrow> bool" where
  "same_but_jobs d d' \<longleftrightarrow> (\<exists>js ms. d' = d\<lparr>db_jobs := js, db_sent := ms\<rparr>)"

lemma same_but_jobs_refl [simp, intro]: "same_but_jobs d d"
  unfolding same_but_jobs_def by (rule exI [of _ "db_jobs d"], rule exI [of _ "db_sent d"]) simp

lemma same_but_jobs_trans: "same_but_jobs d d' \<Longrightarrow> same_but_jobs d' d'' \<Longrightarrow> same_but_jobs d d''"
proof -
  assume "same_but_jobs d d'" "same_but_jobs d' d''"
  then obtain js ms js' ms' where
    "d' = d\<lparr>db_jobs := js, db_sent := ms\<rparr>" "d'' = d'\<lparr>db_jobs := js', db_sent := ms'\<rparr>"
    unfolding same_but_jobs_def by blast
  then have "d'' = d\<lparr>db_jobs := js', db_sent := ms'\<rparr>" by simp
  then show ?thesis unfolding same_but_jobs_def by blast
qed

lemma same_but_jobs_frame:
  assumes "same_but_jobs d d'"
  shows "db_fnodes d' = db_fnodes d" "db_files d' = db_files d" "db_takes d' = db_takes d"
    "db_scans d' = db_scans d" "db_tracks d' = db_tracks d" "db_users d' = db_users d"
    "db_cnodes d' = db_cnodes d" "db_cameras d' = db_cameras d" "db_locations d' = db_locations d"
  using assms by (auto simp: same_but_jobs_def)

lemma same_but_jobs_save_job [intro]: "same_but_jobs d (save_job now k j d)"
  unfolding same_but_jobs_def save_job_def
  by (rule exI, rule exI [of _ "db_sent d"]) simp

lemma same_but_jobs_sent [intro]: "same_but_jobs d (d\<lparr>db_sent := ms\<rparr>)"
  unfolding same_but_jobs_def by (rule exI [of _ "db_jobs d"], rule exI [of _ ms]) simp

lemma same_but_jobs_slack: "same_but_jobs d (slack_notification e txt c ts d)"
  by (auto simp: slack_notification_def)

lemma same_but_jobs_email: "same_but_jobs d (sendEmailToOwner e k j d)"
  by (simp add: sendEmailToOwner_def Let_def same_but_jobs_sent)

lemma same_but_jobs_notification [intro]: "same_but_jobs d (fst (job_notification e k j d))"
proof -
  define d1 where "d1 = (if fj_status j = Failed \<and> fj_parent j = None \<and> e_notification_email e
    then sendEmailToOwner e k j d else d)"
  have d1: "same_but_jobs d d1" by (simp add: d1_def same_but_jobs_email)
  have "fst (job_notification e k j d) = d1 \<or>
      (\<exists>txt. fst (job_notification e k j d) = slack_notification e txt (job_color j) (fj_end_time j) d1)"
    unfolding job_notification_def Let_def d1_def [symmetric] by (auto split: option.splits)
  with d1 same_but_jobs_slack show ?thesis by (metis same_but_jobs_trans)
qed

definition parents_only :: "db \<Rightarrow> db \<Rightarrow> bool" where
  "parents_only d d' \<longleftrightarrow>
     same_but_jobs d d' \<and>
     t_keys (db_jobs d') = t_keys (db_jobs d) \<and>
     (wf_table (db_jobs d) \<longrightarrow> wf_table (db_jobs d')) \<and>
     (\<forall>k j. t_get (db_jobs d) k = Some j \<longrightarrow>
        (\<exists>j'. t_get (db_jobs d') k = Some j' \<and>
           fj_parent j' = fj_parent j \<and> fj_dependencies j' = fj_dependencies j \<and>
           fj_node j' = fj_node j \<and> fj_job_class j' = fj_job_class j \<and> fj_tags j' = fj_tags j \<and>
           (fj_status j \<noteq> Waiting \<longrightarrow> j' = j) \<and>
           (fj_status j = Waiting \<longrightarrow> fj_status j' \<in> {Waiting, Success, Failed})))"

lemma parents_only_refl [simp, intro]: "parents_only d d"
  by (auto simp: parents_only_def)

lemma parents_onlyD:
  assumes "parents_only d d'" "t_get (db_jobs d) k = Some j"
  obtains j' where "t_get (db_jobs d') k = Some j'" "fj_parent j' = fj_parent j"
    "fj_dependencies j' = fj_dependencies j" "fj_node j' = fj_node j"
    "fj_job_class j' = fj_job_class j" "fj_tags j' = fj_tags j"
    "fj_status j \<noteq> Waiting \<longrightarrow> j' = j"
    "fj_status j = Waiting \<longrightarrow> fj_status j' \<in> {Waiting, Success, Failed}"
  using assms unfolding parents_only_def by blast

lemma parents_only_trans:
  assumes "parents_only d d'" "parents_only d' d''"
  shows "parents_only d d''"
  unfolding parents_only_def
proof (intro conjI allI impI)
  show "same_but_jobs d d''"
    using assms by (auto simp: parents_only_def intro: same_but_jobs_trans)
  show "t_keys (db_jobs d'') = t_keys (db_jobs d)"
    using assms by (simp add: parents_only_def)
  show "wf_table (db_jobs d'')" if "wf_table (db_jobs d)"
    using assms that by (simp add: parents_only_def)
  fix k j assume g: "t_get (db_jobs d) k = Some j"
  obtain j' where j': "t_get (db_jobs d') k = Some j'"
    "fj_parent j' = fj_parent j" "fj_dependencies j' = fj_dependencies j"
    "fj_node j' = fj_node j" "fj_job_class j' = fj_job_class j" "fj_tags j' = fj_tags j"
    "fj_status j \<noteq> Waiting \<longrightarrow> j' = j"
    "fj_status j = Waiting \<longrightarrow> fj_status j' \<in> {Waiting, Success, Failed}"
    by (rule parents_onlyD [OF assms(1) g])
  from assms(2) j'(1) obtain j'' where "t_get (db_jobs d'') k = Some j''"
    "fj_parent j'' = fj_parent j'" "fj_dependencies j'' = fj_dependencies j'"
    "fj_node j'' = fj_node j'" "fj_job_class j'' = fj_job_class j'" "fj_tags j'' = fj_tags j'"
    "fj_status j' \<noteq> Waiting \<longrightarrow> j'' = j'"
    "fj_status j' = Waiting \<longrightarrow> fj_status j'' \<in> {Waiting, Success, Failed}"
    by (rule parents_onlyD)
  with j' show "\<exists>j'. t_get (db_jobs d'') k = Some j' \<and>
         fj_parent j' = fj_parent j \<and> fj_dependencies j' = fj_dependencies j \<and>
         fj_node j' = fj_node j \<and> fj_job_class j' = fj_job_class j \<and> fj_tags j' = fj_tags j \<and>
         (fj_status j \<noteq> Waiting \<longrightarrow> j' = j) \<and>
         (fj_status j = Waiting \<longrightarrow> fj_status j' \<in> {Waiting, Success, Failed})"
    by (intro exI [of _ j'']) auto
qed

lemma parents_only_frame:
  assumes "parents_only d d'"
  shows "same_but_jobs d d'" "t_keys (db_jobs d') = t_keys (db_jobs d)"
    "wf_table (db_jobs d) \<Longrightarrow> wf_table (db_jobs d')"
  using assms by (auto simp: parents_only_def)

lemma parents_only_notification [intro]: "parents_only d (fst (job_notification e k j d))"
  by (auto simp: parents_only_def)

lemma parents_only_save:
  assumes "t_get (db_jobs d) p = Some job" "fj_status job = Waiting"
    "fj_parent j = fj_parent job" "fj_node j = fj_node job" "fj_job_class j = fj_job_class job"
    "fj_status j \<in> {Waiting, Success, Failed}"
  shows "parents_only d (save_job now p j d)"
  using assms by (auto simp: parents_only_def table_simps t_keys_get split: if_splits)

lemma parent_progress_frame [simp]:
  "fj_node (parent_progress d p job) = fj_node job"
  "fj_job_class (parent_progress d p job) = fj_job_class job"
  "fj_node (parent_finished e d p job) = fj_node job"
  "fj_job_class (parent_finished e d p job) = fj_job_class job"
  by (simp_all add: parent_progress_def parent_finished_def)

lemma parents_only_not_completing:
  "\<not> completes d p \<Longrightarrow> parents_only d (fst (UpdateParentJob e p d))"
  by (auto simp: UpdateParentJob_not_completing split: option.splits intro: parents_only_save)

lemma parents_only_UpdateParentJob: "parents_only d (fst (UpdateParentJob e p d))"
proof (cases "completes d p")
  case False
  then show ?thesis by (rule parents_only_not_completing)
next
  case True
  then obtain job where g: "t_get (db_jobs d) p = Some job" and w: "fj_status job = Waiting"
    by (auto simp: completes_iff)
  have save: "parents_only d (save_job (e_now e) p (parent_finished e d p job) d1)"
    if "parents_only d d1" "t_get (db_jobs d1) p = Some job1" "fj_status job1 = Waiting"
      "fj_parent job1 = fj_parent job" "fj_node job1 = fj_node job"
      "fj_job_class job1 = fj_job_class job" for d1 job1
    using that by (intro parents_only_trans [OF that(1)] parents_only_save [of d1 p job1]) auto
  show ?thesis
  proof (cases "fj_parent job")
    case None
    obtain d1 x where n: "job_notification e p (parent_finished e d p job) d = (d1, x)"
      by (cases "job_notification e p (parent_finished e d p job) d")
    have "db_jobs d1 = db_jobs d" using n by (rule job_notification_jobsD)
    moreover have "parents_only d d1"
      using parents_only_notification [of d e p "parent_finished e d p job"] n by simp
    ultimately show ?thesis
      using save [of d1 job] g w n True None by (simp add: UpdateParentJob_root split: option.splits)
  next
    case (Some gp)
    have nc: "\<not> completes d gp" using True g Some by (rule grandparent_not_completing)
    then have po: "parents_only d (fst (UpdateParentJob e gp d))"
      by (rule parents_only_not_completing)
    obtain d1 x where u: "UpdateParentJob e gp d = (d1, x)"
      by (cases "UpdateParentJob e gp d")
    have "\<exists>job1. t_get (db_jobs d1) p = Some job1 \<and> fj_status job1 = Waiting
        \<and> fj_parent job1 = fj_parent job \<and> fj_node job1 = fj_node job
        \<and> fj_job_class job1 = fj_job_class job"
      using u nc g w
      by (auto simp: UpdateParentJob_not_completing table_simps split: option.splits if_splits)
    then show ?thesis
      using save [of d1] po u True g Some
      by (auto simp: UpdateParentJob_nested split: option.splits)
  qed
qed

lemma parents_only_onJobChanged: "parents_only d (fst (onJobChanged e k j d))"
proof -
  obtain d1 x where n: "job_notification e k j d = (d1, x)" by (cases "job_notification e k j d")
  then have "parents_only d d1" using parents_only_notification [of d e k j] by simp
  with n show ?thesis
    by (auto simp: onJobChanged_def split: option.splits
        intro: parents_only_trans parents_only_UpdateParentJob)
qed

lemma parents_only_backward:
  assumes po: "parents_only d d'" and g: "t_get (db_jobs d') k = Some j'"
  obtains j where "t_get (db_jobs d) k = Some j" "fj_parent j' = fj_parent j"
    "fj_dependencies j' = fj_dependencies j" "fj_node j' = fj_node j"
    "fj_status j \<noteq> Waiting \<longrightarrow> j' = j"
    "fj_status j = Waiting \<longrightarrow> fj_status j' \<in> {Waiting, Success, Failed}"
proof -
  have "k \<in> t_keys (db_jobs d)"
    using parents_only_frame(2) [OF po] g by (metis t_get_keyI)
  then obtain j where gj: "t_get (db_jobs d) k = Some j" by (auto simp: t_keys_get)
  from po gj obtain j2 where "t_get (db_jobs d') k = Some j2" "fj_parent j2 = fj_parent j"
    "fj_dependencies j2 = fj_dependencies j" "fj_node j2 = fj_node j"
    "fj_status j \<noteq> Waiting \<longrightarrow> j2 = j"
    "fj_status j = Waiting \<longrightarrow> fj_status j2 \<in> {Waiting, Success, Failed}"
    by (rule parents_onlyD)
  with g gj that show ?thesis by simp
qed

lemma farm_inv_parents_only:
  assumes po: "parents_only d d'" and inv: "farm_inv d"
  shows "farm_inv d'"
proof (rule farm_invI)
  show "wf_table (db_jobs d')" using po farm_invD(1) [OF inv] by (rule parents_only_frame(3))
  have sj: "same_but_jobs d d'" using po by (rule parents_only_frame(1))
  have keys: "t_keys (db_jobs d') = t_keys (db_jobs d)" using po by (rule parents_only_frame(2))
  have fn: "db_fnodes d' = db_fnodes d" using sj by (rule same_but_jobs_frame)
  with farm_invD(2) [OF inv] show "wf_table (db_fnodes d')" by simp
  fix k j' assume "t_get (db_jobs d') k = Some j'"
  from po this obtain j where g: "t_get (db_jobs d) k = Some j" and
    "fj_parent j' = fj_parent j" "fj_dependencies j' = fj_dependencies j" "fj_node j' = fj_node j"
    by (rule parents_only_backward)
  with farm_invD(3) [OF inv g] keys fn show "job_refs d' k j'"
    by (simp add: job_refs_def)
qed

end
