(* ===== verification/Access.thy ===== *)
theory Access
  imports Schema
begin

text \<open>
  The contract shared by the views that change state on behalf of a user: a request that is
  not allowed leaves the database as it was; and, for the views that say so, it is also answered with
  an error. The components interpret it for each of their views.
\<close>

locale state_guarded =
  fixes view :: "env \<Rightarrow> 'r \<Rightarrow> db \<Rightarrow> db \<times> 'b outcome"
    and allowed :: "env \<Rightarrow> 'r \<Rightarrow> db \<Rightarrow> bool"
  assumes denied_state: "\<not> allowed e r d \<Longrightarrow> fst (view e r d) = d"
begin

definition serve :: "(env \<times> 'r) list \<Rightarrow> db \<Rightarrow> db" where
  "serve = fold (\<lambda>(e, r) d. fst (view e r d))"

lemma serve_denied: "\<forall>(e, r) \<in> set rs. \<not> allowed e r d \<Longrightarrow> serve rs d = d"
  unfolding serve_def by (induction rs) (auto simp: denied_state)

lemma change_allowed: "fst (view e r d) \<noteq> d \<Longrightarrow> allowed e r d"
  using denied_state by blast

text \<open>A run that changed the database contains a first request with an effect, and it was allowed.\<close>

lemma serve_first_change:
  "serve rs d \<noteq> d \<Longrightarrow> \<exists>us e r vs. rs = us @ (e, r) # vs \<and> serve us d = d \<and> fst (view e r d) \<noteq> d"
proof (induction rs)
  case Nil
  then show ?case by (simp add: serve_def)
next
  case (Cons er rs)
  obtain e r where er: "er = (e, r)" by (cases er)
  show ?case
  proof (cases "fst (view e r d) = d")
    case False
    then show ?thesis unfolding er by (intro exI [of _ "[]"]) (auto simp: serve_def)
  next
    case d: True
    then have "serve rs d \<noteq> d" using Cons.prems by (simp add: serve_def er)
    then obtain us e' r' vs where "rs = us @ (e', r') # vs" "serve us d = d" "fst (view e' r' d) \<noteq> d"
      using Cons.IH by blast
    with d show ?thesis
      unfolding er by (intro exI [of _ "(e, r) # us"]) (auto simp: serve_def)
  qed
qed

lemma serve_change_allowed:
  "serve rs d \<noteq> d \<Longrightarrow> \<exists>us e r vs. rs = us @ (e, r) # vs \<and> serve us d = d \<and> allowed e r d"
  using serve_first_change change_allowed by blast

end

locale guarded_view = state_guarded +
  assumes denied_status: "\<not> allowed e r d \<Longrightarrow> http_status (snd (view e r d)) \<noteq> 200"
begin

lemma success_allowed: "http_status (snd (view e r d)) = 200 \<Longrightarrow> allowed e r d"
  using denied_status by blast

end

end
