(* ===== verification/Aws.thy ===== *)
theory Aws
  imports Prelude
begin

text \<open>
  The farm's view of its cloud instances (\<open>jobs/aws.py\<close>). The EC2 service behind
  \<open>boto3\<close> is a parameter: per region, the answer of \<open>describe_instances\<close> to a
  private address or an instance id, of \<open>start_instances\<close> and of \<open>stop_instances\<close>,
  or the exception the call raises. A response is the list of its reservations.
\<close>

text \<open>An instance as a response carries it: its id, and its state as code and name.\<close>

record aws_instance =
  ai_id :: "string option"
  ai_state :: "(int \<times> string) option"

record ec2 =
  describe_by_ip :: "string \<Rightarrow> string \<Rightarrow> py_exn + aws_instance list list"
  describe_by_id :: "string \<Rightarrow> string \<Rightarrow> py_exn + aws_instance list list"
  start_instances :: "string option \<Rightarrow> string \<Rightarrow> py_exn + aws_instance list"
  stop_instances :: "string option \<Rightarrow> string \<Rightarrow> py_exn + aws_instance list"

definition REGIONS :: "string list" where
  "REGIONS = [''us-east-1'', ''us-west-1'', ''us-west-2'']"

definition state_to_string :: "aws_instance \<Rightarrow> string" where
  "state_to_string i =
     (case ai_state i of None \<Rightarrow> ''ERROR''
      | Some (code, name) \<Rightarrow> ''('' @ show_int code @ '') '' @ name)"

text \<open>
  The look-up by private address: the first instance of the first region that has one. The
  handler of an exception prints \<open>e.message\<close>, an attribute exceptions do not have in
  Python 3, so the handler raises itself; the same holds for an instance without a state
  (\<open>None.get\<close> raises).
\<close>

fun instance_id_in ::
    "ec2 \<Rightarrow> string \<Rightarrow> string list \<Rightarrow> py_exn + (string option \<times> string option \<times> string)" where
  "instance_id_in ec2 private_ip [] = Inr (None, None, ''none'')"
| "instance_id_in ec2 private_ip (region # regions) =
     (case describe_by_ip ec2 region private_ip of
        Inl _ \<Rightarrow> Inl (AttributeError ''message'')
      | Inr reservations \<Rightarrow>
          (case concat reservations of
             [] \<Rightarrow> instance_id_in ec2 private_ip regions
           | i # _ \<Rightarrow>
               (case ai_state i of
                  None \<Rightarrow> Inl (AttributeError ''message'')
                | Some (_, state) \<Rightarrow> Inr (ai_id i, Some region, state))))"

definition instance_id_from_private_ip ::
    "ec2 \<Rightarrow> string \<Rightarrow> py_exn + (string option \<times> string option \<times> string)" where
  "instance_id_from_private_ip ec2 private_ip = instance_id_in ec2 private_ip REGIONS"

definition instance_state :: "ec2 \<Rightarrow> string \<Rightarrow> string \<Rightarrow> py_exn + string option" where
  "instance_state ec2 instance_id region =
     (case describe_by_id ec2 region instance_id of
        Inl _ \<Rightarrow> Inl (AttributeError ''message'')
      | Inr reservations \<Rightarrow>
          (case filter (\<lambda>i. ai_id i = Some instance_id) (concat reservations) of
             [] \<Rightarrow> Inr None
           | i # _ \<Rightarrow> (case ai_state i of None \<Rightarrow> Inl (AttributeError ''message'')
                      | Some (_, name) \<Rightarrow> Inr (Some name))))"

definition current_state :: "string \<Rightarrow> aws_instance list \<Rightarrow> py_exn + string option" where
  "current_state instance_id instances =
     (case filter (\<lambda>i. ai_id i = Some instance_id) instances of
        [] \<Rightarrow> Inr None
      | i # _ \<Rightarrow> (case ai_state i of None \<Rightarrow> Inl (AttributeError ''get'')
                 | Some (_, name) \<Rightarrow> Inr (Some name)))"

definition start_instance :: "ec2 \<Rightarrow> string \<Rightarrow> string option \<Rightarrow> py_exn + string option" where
  "start_instance ec2 instance_id region =
     (case start_instances ec2 region instance_id of
        Inl x \<Rightarrow> Inl x
      | Inr instances \<Rightarrow> current_state instance_id instances)"

definition stop_instance :: "ec2 \<Rightarrow> string \<Rightarrow> string option \<Rightarrow> py_exn + string option" where
  "stop_instance ec2 instance_id region =
     (case stop_instances ec2 region instance_id of
        Inl x \<Rightarrow> Inl x
      | Inr instances \<Rightarrow> current_state instance_id instances)"

text \<open>
  An instance that is found lies in one of the regions and is described there; when none is
  found every region answered, and the state is \<open>'none'\<close>.
\<close>

lemma instance_id_in_region:
  "instance_id_in ec2 ip regions = Inr (i, Some r, st) \<Longrightarrow> r \<in> set regions \<and>
   (\<exists>rs inst code. describe_by_ip ec2 r ip = Inr rs \<and> inst \<in> set (concat rs) \<and>
      ai_id inst = i \<and> ai_state inst = Some (code, st))"
proof (induction regions)
  case Nil
  then show ?case by simp
next
  case (Cons region regions)
  then obtain reservations where rs: "describe_by_ip ec2 region ip = Inr reservations"
    by (auto split: sum.splits)
  show ?case
  proof (cases "concat reservations")
    case Nil
    with Cons rs show ?thesis by auto
  next
    case (Cons inst rest)
    then have m: "\<exists>x \<in> set reservations. inst \<in> set x"
      by (metis UN_iff list.set_intros(1) set_concat)
    with Cons \<open>instance_id_in ec2 ip (region # regions) = Inr (i, Some r, st)\<close> rs m
    show ?thesis by (auto split: option.splits intro!: exI [of _ inst])
  qed
qed

lemma instance_id_in_none:
  "instance_id_in ec2 ip regions = Inr (i, None, st) \<Longrightarrow> i = None \<and> st = ''none'' \<and>
   (\<forall>r \<in> set regions. \<exists>rs. describe_by_ip ec2 r ip = Inr rs \<and> concat rs = [])"
  by (induction regions) (auto split: sum.splits list.splits option.splits)

lemma instance_id_in_error:
  "describe_by_ip ec2 r ip = Inl x \<Longrightarrow> instance_id_in ec2 ip (r # rs) = Inl (AttributeError ''message'')"
  by simp

end
