(* ===== verification/Farm_Views.thy ===== *)
theory Farm_Views
  imports Farm_Jobs Access Aws
begin

text \<open>
  The views of \<open>jobs/views.py\<close> that act on one job or one node, and the helpers
  \<open>make_sure_node_exists\<close> and \<open>cleanup_dead_jobs\<close>. \<open>objects.get\<close> raises
  \<open>DoesNotExist\<close> for a missing row, so the \<open>404\<close> branches behind it are dead
  code and the model has the exception instead.
\<close>

section \<open>Requests about one job\<close>

text \<open>The fields of \<open>request.data\<close>; absent flags are \<open>False\<close>.\<close>

record job_request =
  jr_job_id :: "pk option"
  jr_clone_job :: bool
  jr_use_same_machine :: bool

definition output_file :: "pk \<Rightarrow> string" where
  "output_file k = show_pad 8 k @ ''.output''"

definition on_job_restart :: "pk \<Rightarrow> db \<Rightarrow> db" where
  "on_job_restart k d = d\<lparr>db_files := (db_files d)(output_file k := None)\<rparr>"

definition submit_test_job :: "env \<Rightarrow> string \<Rightarrow> db \<Rightarrow> db \<times> string outcome" where
  "submit_test_job e body d =
     (if \<not> u_is_superuser (e_user e) then (d, Http 403)
      else (snd (create_job ((new_farm_job (e_now e) ''jobs.test.DummyJob'' ''submit_test_job'')
              \<lparr>fj_params := Some body, fj_status := Ready\<rparr>) d), ok))"

text \<open>The columns both restarts reset on a job that becomes ready again.\<close>

definition reset_job :: "bool \<Rightarrow> farm_job \<Rightarrow> farm_job" where
  "reset_job use_same_machine j = j\<lparr>fj_status := Ready, fj_exception := None,
     fj_image_filename := None, fj_mesh_filename := None, fj_progress := None,
     fj_start_time := None, fj_end_time := None,
     fj_node := (if use_same_machine then fj_node j else None)\<rparr>"

definition restart_job_failed_child :: "env \<Rightarrow> job_request \<Rightarrow> db \<Rightarrow> db \<times> string outcome" where
  "restart_job_failed_child e r d =
     (case jr_job_id r of
        None \<Rightarrow> (d, Http 500)
      | Some k \<Rightarrow>
          (case t_get (db_jobs d) k of
             None \<Rightarrow> (d, Raised DoesNotExist)
           | Some src \<Rightarrow>
               if \<not> job_write_access src (e_user e) then (d, Http 403)
               else
                 (let failed = filter (\<lambda>(_, j). fj_status j = Failed) (children d k) in
                  if length failed > 0 then
                    (let d1 = fold (\<lambda>(i, _). on_job_restart i) failed d;
                         d2 = update_jobs (\<lambda>_ j. fj_parent j = Some k \<and> fj_status j = Failed)
                                (\<lambda>j. (reset_job (jr_use_same_machine r) j)\<lparr>fj_modified := e_now e\<rparr>) d1
                     in (save_job (e_now e) k (src\<lparr>fj_status := Waiting\<rparr>) d2, ok))
                  else (d, ok))))"

definition cloned_job :: "env \<Rightarrow> bool \<Rightarrow> farm_job \<Rightarrow> farm_job" where
  "cloned_job e use_same_machine src =
     (new_farm_job (e_now e) (fj_job_class src) (u_username (e_user e)))
       \<lparr>fj_params := fj_params src,
        fj_node := (if use_same_machine then fj_node src else None),
        fj_ext_take := fj_ext_take src,
        fj_ext_scan_assets := fj_ext_scan_assets src,
        fj_ext_tracking_assets := fj_ext_tracking_assets src,
        fj_req_gpu := fj_req_gpu src,
        fj_priority := fj_priority src,
        fj_status := Created\<rparr>"

definition child_running :: "db \<Rightarrow> pk \<Rightarrow> bool" where
  "child_running d k \<longleftrightarrow>
     length (filter (\<lambda>(_, j). fj_status j = Running \<or> fj_status j = Waiting) (children d k)) > 0"

definition restart_job :: "env \<Rightarrow> job_request \<Rightarrow> db \<Rightarrow> db \<times> string outcome" where
  "restart_job e r d =
     (case jr_job_id r of
        None \<Rightarrow> (d, Http 500)
      | Some k \<Rightarrow>
          (case t_get (db_jobs d) k of
             None \<Rightarrow> (d, Raised DoesNotExist)
           | Some src \<Rightarrow>
               if \<not> job_write_access src (e_user e) then (d, Http 403)
               else if jr_clone_job r then
                 (let job = cloned_job e (jr_use_same_machine r) src;
                      new = fst (create_job job d);
                      d1 = snd (create_job job d);
                      d2 = set_job_tags new (fj_tags src) d1
                  in (save_job (e_now e) new (job\<lparr>fj_status := Ready\<rparr>) d2, ok))
               else if child_running d k then (d, Json 403 ''Error, child running'')
               else
                 (let d1 = snd (delete_jobs (map fst (children d k)) d);
                      d2 = on_job_restart k d1
                  in (save_job (e_now e) k (reset_job (jr_use_same_machine r) src) d2, ok))))"

definition delete_job :: "env \<Rightarrow> job_request \<Rightarrow> db \<Rightarrow> db \<times> string outcome" where
  "delete_job e r d =
     (case jr_job_id r of
        None \<Rightarrow> (d, Http 500)
      | Some k \<Rightarrow>
          (case t_get (db_jobs d) k of
             None \<Rightarrow> (d, Raised DoesNotExist)
           | Some src \<Rightarrow>
               if \<not> job_write_access src (e_user e) then (d, Http 403)
               else
                 (let sel = map fst (t_filter (\<lambda>i j. i = k \<and> fj_status j \<in> {Ready, Success, Failed}) (db_jobs d));
                      (deleted_count, d1) = delete_jobs sel d
                  in if deleted_count > 0 then (d1, ok) else (d1, Http 404))))"

definition kill_job :: "env \<Rightarrow> job_request \<Rightarrow> db \<Rightarrow> db \<times> string outcome" where
  "kill_job e r d =
     (case jr_job_id r of
        None \<Rightarrow> (d, Http 500)
      | Some k \<Rightarrow>
          (case t_get (db_jobs d) k of
             None \<Rightarrow> (d, Raised DoesNotExist)
           | Some src \<Rightarrow>
               if \<not> job_write_access src (e_user e) then (d, Http 403)
               else
                 (let killed = t_count (\<lambda>i j. i = k \<and> fj_status j = Running) (db_jobs d);
                      d1 = update_jobs (\<lambda>i j. i = k \<and> fj_status j = Running)
                             (\<lambda>j. j\<lparr>fj_status := Terminating, fj_modified := e_now e\<rparr>) d
                  in if killed > 0 then (d1, ok) else (d1, Http 404))))"

section \<open>Requests about one node\<close>

text \<open>
  \<open>aws_start\<close> is \<open>aws.start_instance\<close> of \<open>jobs/aws.py\<close> (theory \<open>Aws\<close>): it answers with the
  new state of the instance, or nothing if the instance is not in the response, or raises.
\<close>

definition post_aws_start_instance ::
    "(string \<Rightarrow> string option \<Rightarrow> py_exn + string option) \<Rightarrow> env \<Rightarrow> pk option \<Rightarrow> db \<Rightarrow> db \<times> string outcome" where
  "post_aws_start_instance aws_start e node_id d =
     (case node_id of
        None \<Rightarrow> (d, Http 500)
      | Some k \<Rightarrow>
          (case t_get (db_fnodes d) k of
             None \<Rightarrow> (d, Raised DoesNotExist)
           | Some n \<Rightarrow>
               if \<not> node_write_access (e_user e) then (d, Http 403)
               else
                 (case fn_aws_instance_id n of
                    None \<Rightarrow> (d, ok)
                  | Some inst \<Rightarrow>
                      if inst = [] then (d, ok)
                      else
                        (case aws_start inst (fn_aws_instance_region n) of
                           Inl x \<Rightarrow> (d, Raised x)
                         | Inr None \<Rightarrow> (d, ok)
                         | Inr (Some st) \<Rightarrow>
                             if st = [] then (d, ok)
                             else (save_farm_node (e_now e) k (n\<lparr>fn_aws_instance_state := st\<rparr>) d, ok)))))"

definition post_reload_client :: "env \<Rightarrow> int option \<Rightarrow> db \<Rightarrow> db \<times> string outcome" where
  "post_reload_client e node_id d =
     (case node_id of
        None \<Rightarrow> (d, Http 500)
      | Some i \<Rightarrow>
          if i < 0 then
            (d\<lparr>db_fnodes := t_update (\<lambda>_ _. True) (\<lambda>n. n\<lparr>fn_req_restart := True\<rparr>) (db_fnodes d)\<rparr>, ok)
          else
            (case t_get (db_fnodes d) (nat i) of
               None \<Rightarrow> (d, Raised DoesNotExist)
             | Some n \<Rightarrow>
                 if \<not> node_write_access (e_user e) then (d, Http 403)
                 else (save_farm_node (e_now e) (nat i) (n\<lparr>fn_req_restart := True\<rparr>) d, ok)))"

definition farm_nodes_named :: "db \<Rightarrow> string \<Rightarrow> (pk \<times> farm_node) list" where
  "farm_nodes_named d name = sort_key (\<lambda>(_, n). fn_machine_name n)
     (t_filter (\<lambda>_ n. iexact (fn_machine_name n) name) (db_fnodes d))"

definition make_sure_node_exists :: "env \<Rightarrow> string \<Rightarrow> db \<Rightarrow> pk \<times> db" where
  "make_sure_node_exists e nodename d =
     (case farm_nodes_named d nodename of
        (k, _) # _ \<Rightarrow> (k, d)
      | [] \<Rightarrow> create_farm_node (new_farm_node (e_now e) nodename) d)"

section \<open>Files of a job\<close>

text \<open>\<open>os.path.splitext(name)[1]\<close>.\<close>

definition splitext_ext :: "string \<Rightarrow> string" where
  "splitext_ext name =
     (let base = path_tail name;
          ext = rev (takeWhile (\<lambda>c. c \<noteq> CHR ''.'') (rev base));
          stem = List.take (length base - length ext - 1) base
      in if CHR ''.'' \<notin> set base \<or> set stem \<subseteq> {CHR ''.''} then [] else ''.'' @ ext)"

definition job_file_name :: "pk \<Rightarrow> string \<Rightarrow> string \<Rightarrow> string" where
  "job_file_name k uid name = ''j'' @ show_pad 8 k @ ''_'' @ uid @ splitext_ext name"

text \<open>
  \<open>job_image\<close> and \<open>job_mesh\<close>: \<open>upload\<close> is the name and content of the
  uploaded file, \<open>uid\<close> the answer of \<open>uuid_node_base36()\<close>, and
  \<open>write_error\<close> the text of the exception of opening and writing the file, if any.
\<close>

definition store_job_file ::
    "(string \<Rightarrow> farm_job \<Rightarrow> farm_job) \<Rightarrow> env \<Rightarrow> (py_exn + string) \<Rightarrow> string option \<Rightarrow> pk \<Rightarrow> (string \<times> string) option
       \<Rightarrow> db \<Rightarrow> db \<times> string outcome" where
  "store_job_file set_name e uid write_error k upload d =
     (case t_get (db_jobs d) k of
        None \<Rightarrow> (d, Raised DoesNotExist)
      | Some job \<Rightarrow>
          (case upload of
             None \<Rightarrow> (d, Http 500)
           | Some (name, content) \<Rightarrow>
               (case uid of
                  Inl x \<Rightarrow> (d, Raised x)
                | Inr u \<Rightarrow>
                    (let filename = job_file_name k u name in
                     case write_error of
                       None \<Rightarrow> (save_job (e_now e) k (set_name filename job)
                                 (d\<lparr>db_files := (db_files d)(filename \<mapsto> content)\<rparr>), ok)
                     | Some msg \<Rightarrow> (d, Json 500 msg)))))"

definition job_image ::
    "env \<Rightarrow> (py_exn + string) \<Rightarrow> string option \<Rightarrow> pk \<Rightarrow> (string \<times> string) option \<Rightarrow> db \<Rightarrow> db \<times> string outcome" where
  "job_image = store_job_file (\<lambda>f j. j\<lparr>fj_image_filename := Some f\<rparr>)"

definition job_mesh ::
    "env \<Rightarrow> (py_exn + string) \<Rightarrow> string option \<Rightarrow> pk \<Rightarrow> (string \<times> string) option \<Rightarrow> db \<Rightarrow> db \<times> string outcome" where
  "job_mesh = store_job_file (\<lambda>f j. j\<lparr>fj_mesh_filename := Some f\<rparr>)"

text \<open>
  \<open>job_output\<close>: posting appends to the log of the job, getting reads a slice of it;
  \<open>conv\<close> is the terminal-to-HTML converter, with \<open>None\<close> where decoding or
  converting raises and the raw bytes are sent. Seeking to a negative offset raises, and is
  answered as a missing file is; a negative length reads to the end.
\<close>

definition job_output_post :: "pk \<Rightarrow> string option \<Rightarrow> db \<Rightarrow> db \<times> string outcome" where
  "job_output_post k upload d =
     (case t_get (db_jobs d) k of
        None \<Rightarrow> (d, Raised DoesNotExist)
      | Some _ \<Rightarrow>
          (case upload of
             None \<Rightarrow> (d, Raised (KeyError ''file''))
           | Some data \<Rightarrow>
               (d\<lparr>db_files := (db_files d)(output_file k \<mapsto>
                   (case db_files d (output_file k) of None \<Rightarrow> data | Some old \<Rightarrow> old @ data))\<rparr>, ok)))"

definition job_output_get ::
    "(string \<Rightarrow> string option) \<Rightarrow> pk \<Rightarrow> int option \<Rightarrow> int option \<Rightarrow> db
       \<Rightarrow> (string \<times> nat \<times> job_status) outcome" where
  "job_output_get conv k get_offset get_length d =
     (case t_get (db_jobs d) k of
        None \<Rightarrow> Raised DoesNotExist
      | Some job \<Rightarrow>
          (let off = (case get_offset of None \<Rightarrow> 0 | Some i \<Rightarrow> i);
               len = (case get_length of None \<Rightarrow> 1024 * 1024 | Some i \<Rightarrow> i)
           in case db_files d (output_file k) of
                None \<Rightarrow> Http 404
              | Some content \<Rightarrow>
                  if off < 0 then Http 404
                  else
                    (let rest = drop (nat off) content;
                         data = (if len < 0 then rest else List.take (nat len) rest)
                     in Json 200 ((case conv data of None \<Rightarrow> data | Some html \<Rightarrow> html),
                          length data, fj_status job))))"

section \<open>Jobs whose node has disappeared\<close>

definition fail_lost_job :: "env \<Rightarrow> pk \<times> farm_job \<Rightarrow> db \<Rightarrow> db \<times> py_exn option" where
  "fail_lost_job e kj d =
     (let (k, j) = kj; j' = j\<lparr>fj_status := Failed\<rparr>
      in onJobChanged e k j' (save_job (e_now e) k j' d))"

definition node_silent :: "env \<Rightarrow> db \<Rightarrow> farm_job \<Rightarrow> bool" where
  "node_silent e d j =
     (case fj_node j of None \<Rightarrow> False
      | Some n \<Rightarrow> (case t_get (db_fnodes d) n of None \<Rightarrow> False
                  | Some nd \<Rightarrow> fn_last_seen nd < e_now e - hours 2))"

definition dead_jobs :: "env \<Rightarrow> db \<Rightarrow> (pk \<times> farm_job) list" where
  "dead_jobs e d = t_filter (\<lambda>_ j. (fj_status j = Running \<or> fj_status j = Terminating)
     \<and> node_silent e d j) (db_jobs d)"

definition cleanup_dead_jobs :: "env \<Rightarrow> db \<Rightarrow> db \<times> py_exn option" where
  "cleanup_dead_jobs e d = for_each (fail_lost_job e) (dead_jobs e d) d"

section \<open>Creating a job through the REST interface\<close>

text \<open>
  \<open>FarmJobSerializer.create\<close> (\<open>jobs/serializers.py\<close>) with the validation of its
  fields: the node is looked up by its exact name, or created, while the request is validated,
  so it exists even if the request is refused; when several nodes have the name the handler
  of \<open>to_internal_value\<close> fails itself, because \<open>ObjectDoesNotExist\<close> is not
  imported there. \<open>dependencies\<close> is a many-to-many relation and the constructor of the
  model refuses it as an argument.
\<close>

record new_job =
  nj_job_class :: string
  nj_parent :: "pk option"
  nj_created_by :: "string option"
  nj_status :: "job_status option"
  nj_node_name :: "string option"
  nj_params :: "string option"
  nj_progress :: "string option"
  nj_req_gpu :: "bool option"
  nj_req_version :: "int option"
  nj_priority :: "int option"
  nj_ext_take :: "pk option"
  nj_ext_scan_assets :: "pk option"
  nj_ext_tracking_assets :: "pk option"
  nj_image_filename :: "string option"
  nj_mesh_filename :: "string option"
  nj_dependencies :: "pk list option"
  nj_tags :: "string list option"

definition node_by_slug :: "env \<Rightarrow> string \<Rightarrow> db \<Rightarrow> db \<times> (py_exn + pk)" where
  "node_by_slug e name d =
     (case t_filter (\<lambda>_ n. fn_machine_name n = name) (db_fnodes d) of
        [] \<Rightarrow> (let (k, d1) = create_farm_node (new_farm_node (e_now e) name) d in (d1, Inr k))
      | [(k, _)] \<Rightarrow> (d, Inr k)
      | _ \<Rightarrow> (d, Inl (NameError ''ObjectDoesNotExist'')))"

definition new_job_valid :: "new_job \<Rightarrow> db \<Rightarrow> bool" where
  "new_job_valid r d \<longleftrightarrow>
     (\<forall>p \<in> set_option (nj_parent r). t_get (db_jobs d) p \<noteq> None) \<and>
     (\<forall>t \<in> set_option (nj_ext_take r). t_get (db_takes d) t \<noteq> None) \<and>
     (\<forall>a \<in> set_option (nj_ext_scan_assets r). t_get (db_scans d) a \<noteq> None) \<and>
     (\<forall>a \<in> set_option (nj_ext_tracking_assets r). t_get (db_tracks d) a \<noteq> None) \<and>
     (\<forall>ds \<in> set_option (nj_dependencies r). list_all (\<lambda>x. t_get (db_jobs d) x \<noteq> None) ds)"

definition api_job :: "env \<Rightarrow> new_job \<Rightarrow> pk option \<Rightarrow> db \<Rightarrow> farm_job" where
  "api_job e r node d =
     (new_farm_job (e_now e) (nj_job_class r)
        (case nj_created_by r of Some u \<Rightarrow> u | None \<Rightarrow> u_username (e_user e)))
       \<lparr>fj_params := nj_params r, fj_node := node, fj_progress := nj_progress r,
        fj_req_version := (case nj_req_version r of Some v \<Rightarrow> v | None \<Rightarrow> 1),
        fj_req_gpu := (nj_req_gpu r = Some True),
        fj_priority := (case nj_priority r of
             Some p \<Rightarrow> p
           | None \<Rightarrow> (case nj_parent r of None \<Rightarrow> 50
                     | Some p \<Rightarrow> (case t_get (db_jobs d) p of None \<Rightarrow> 50 | Some x \<Rightarrow> fj_priority x))),
        fj_parent := nj_parent r,
        fj_status := (case nj_status r of Some s \<Rightarrow> s | None \<Rightarrow> Created),
        fj_ext_take := nj_ext_take r, fj_ext_scan_assets := nj_ext_scan_assets r,
        fj_ext_tracking_assets := nj_ext_tracking_assets r,
        fj_image_filename := nj_image_filename r, fj_mesh_filename := nj_mesh_filename r\<rparr>"

definition create_api_job :: "env \<Rightarrow> new_job \<Rightarrow> db \<Rightarrow> db \<times> pk outcome" where
  "create_api_job e r d =
     (case (case nj_node_name r of
              None \<Rightarrow> (d, Inr None)
            | Some name \<Rightarrow> (case node_by_slug e name d of
                 (d1, Inl x) \<Rightarrow> (d1, Inl x) | (d1, Inr k) \<Rightarrow> (d1, Inr (Some k)))) of
        (d1, Inl x) \<Rightarrow> (d1, Raised x)
      | (d1, Inr node) \<Rightarrow>
          if \<not> new_job_valid r d1 then (d1, Http 400)
          else if nj_dependencies r \<noteq> None then (d1, Raised TypeError)
          else
            (let (k, d2) = create_job (api_job e r node d1) d1
             in (case nj_tags r of None \<Rightarrow> d2 | Some tags \<Rightarrow> set_job_tags k (remdups tags) d2,
                 Json 201 k)))"

end
