(* ===== verification/Farm_Discover.thy ===== *)
theory Farm_Discover
  imports Farm_Views
begin

text \<open>
  \<open>post_client_discover\<close> of \<open>jobs/views.py\<close>: a job client phones home. The server
  records the node, updates the jobs the client reports as running or finished, fails the
  jobs it believes to run on the node but the client does not report, and hands out work.
  The view is cut at its comments: registration of the node, update of the jobs, dispatch.
\<close>

section \<open>The report of a client\<close>

text \<open>
  The JSON object of the request; every key may be missing. A child of a yielding job is a
  dictionary, or a pair in the format of old clients.
\<close>

datatype child_info =
    ChildDict "string option" "string option" "string option"
  | ChildPair string string

text \<open>The dictionary's entries are \<open>job_class\<close>, \<open>params\<close> and \<open>node_name\<close>.\<close>

record finished_report =
  fr_job_id :: "pk option"
  fr_progress :: "string option"
  fr_children :: "child_info list option"
  fr_success :: "bool option"
  fr_exception :: "string option"

record discover =
  dc_status :: "string option"
  dc_machine_name :: "string option"
  dc_ip_address :: "string option"
  dc_system :: "string option"
  dc_system_bits :: "int option"
  dc_cpu_brand :: "string option"
  dc_cpu_cores :: "int option"
  dc_cuda_device_count :: "int option"
  dc_restarted :: "bool option"
  dc_cpu_percent :: "pyfloat option"
  dc_mem_used :: "pyfloat option"
  dc_os_version :: "string option"
  dc_code_version :: "int option"
  dc_git_version :: "string option"
  dc_client_tags :: "string list option"
  dc_available_jobs :: "string list option"
  dc_running_jobs_progress :: "(pk \<times> string) list option"
  dc_running_jobs :: "pk list option"
  dc_finished_jobs :: "finished_report list option"

record discover_reply =
  rp_jobs :: "(pk \<times> string \<times> string option) list"
  rp_jobs_to_kill :: "pk list"
  rp_req_restart :: bool

section \<open>Registration of the node\<close>

text \<open>The node found by its name, or a new one; and whether its AWS data must be looked up.\<close>

definition find_node :: "env \<Rightarrow> discover \<Rightarrow> db \<Rightarrow> py_exn + (pk option \<times> farm_node \<times> bool)" where
  "find_node e r d =
     (case dc_machine_name r of
        None \<Rightarrow> Inl (KeyError ''machine_name'')
      | Some name \<Rightarrow>
          (case dc_ip_address r of
             None \<Rightarrow> Inl (KeyError ''ip_address'')
           | Some ip \<Rightarrow>
               (case farm_nodes_named d name of
                  (k, n) # _ \<Rightarrow>
                    Inr (Some k, n\<lparr>fn_ip_address := ip, fn_last_seen := e_now e\<rparr>,
                         fn_aws_instance_state n \<noteq> ''running'')
                | [] \<Rightarrow> Inr (None, (new_farm_node (e_now e) name)\<lparr>fn_ip_address := ip\<rparr>, True))))"

definition or_else :: "'a option \<Rightarrow> 'a \<Rightarrow> 'a" where
  "or_else x y = (case x of None \<Rightarrow> y | Some v \<Rightarrow> v)"

definition keep_or :: "'a option \<Rightarrow> 'a option \<Rightarrow> 'a option" where
  "keep_or x old = (case x of None \<Rightarrow> old | Some v \<Rightarrow> Some v)"

definition apply_report :: "discover \<Rightarrow> farm_node \<Rightarrow> farm_node" where
  "apply_report r n = n\<lparr>
     fn_system := keep_or (dc_system r) (fn_system n),
     fn_system_bits := keep_or (dc_system_bits r) (fn_system_bits n),
     fn_cpu_brand := keep_or (dc_cpu_brand r) (fn_cpu_brand n),
     fn_cpu_cores := keep_or (dc_cpu_cores r) (fn_cpu_cores n),
     fn_gpu_count := keep_or (dc_cuda_device_count r) (fn_gpu_count n),
     fn_req_restart := (if dc_restarted r = Some True then False else fn_req_restart n),
     fn_cpu_percent := or_else (dc_cpu_percent r) (fn_cpu_percent n),
     fn_virt_percent := or_else (dc_mem_used r) (fn_virt_percent n),
     fn_os_version := keep_or (dc_os_version r) (fn_os_version n)\<rparr>"

text \<open>
  The AWS data of the node: looked up by address, or, for an instance that is known to run,
  the instance is stopped when it has been idle. Stopping that yields no state leaves
  \<open>None\<close> in a column that is not nullable, which the save at the end refuses.
\<close>

definition update_aws ::
    "ec2 \<Rightarrow> env \<Rightarrow> bool \<Rightarrow> pk option \<Rightarrow> farm_node \<Rightarrow> db \<Rightarrow> db \<times> (py_exn + farm_node)" where
  "update_aws ec2 e update_aws_status k n d =
     (if update_aws_status then
        (case instance_id_from_private_ip ec2 (fn_ip_address n) of
           Inl x \<Rightarrow> (d, Inl x)
         | Inr (i, region, state) \<Rightarrow>
             (d, Inr (n\<lparr>fn_aws_instance_id := i, fn_aws_instance_region := region,
                        fn_aws_instance_state := state\<rparr>)))
      else if (case k of None \<Rightarrow> False | Some i \<Rightarrow> aws_instance_should_be_stopped (e_now e) d i n) then
        (let nb_aws_running = t_count (\<lambda>_ x. fn_aws_instance_state x = ''running'') (db_fnodes d);
             d1 = slack_notification e
               (''Stopping inactive AWS instance: *'' @ fn_machine_name n @ ''* (running:''
                @ show_int (int nb_aws_running - 1) @ '')'') ''warning'' None d
         in case stop_instance ec2 (or_else (fn_aws_instance_id n) []) (fn_aws_instance_region n) of
              Inl x \<Rightarrow> (d1, Inl x)
            | Inr None \<Rightarrow> (d1, Inl IntegrityError)
            | Inr (Some state) \<Rightarrow> (d1, Inr (n\<lparr>fn_aws_instance_state := state\<rparr>)))
      else (d, Inr n))"

text \<open>
  A query for the jobs of a node that has not been saved yet matches the jobs without a node.
\<close>

definition finish_node :: "env \<Rightarrow> discover \<Rightarrow> string \<Rightarrow> pk option \<Rightarrow> farm_node \<Rightarrow> db \<Rightarrow> pk \<times> farm_node \<times> db" where
  "finish_node e r status k n d =
     (let busy = (t_count (\<lambda>_ j. fj_status j = Running \<and> fj_node j = k) (db_jobs d) > 0);
          n1 = n\<lparr>fn_last_job_activity := (if busy then Some (e_now e) else fn_last_job_activity n),
                 fn_code_version := or_else (dc_code_version r) 0,
                 fn_git_version := Some (or_else (dc_git_version r) []),
                 fn_status := status\<rparr>
      in case k of
           Some i \<Rightarrow> (i, n1, save_farm_node (e_now e) i n1 d)
         | None \<Rightarrow> (let (i, d1) = create_farm_node n1 d in (i, n1, d1)))"

text \<open>
  The tags: those of the client, with \<open>aws\<close> on an instance, replace the stored ones;
  without \<open>client_tags\<close> the stored ones are used.
\<close>

definition update_tags :: "discover \<Rightarrow> pk \<Rightarrow> farm_node \<Rightarrow> db \<Rightarrow> string list \<times> db" where
  "update_tags r k n d =
     (case dc_client_tags r of
        Some client_tags \<Rightarrow>
          (let tags = client_tags @ (if truthy (fn_aws_instance_id n) then [''aws''] else [])
           in (tags, set_node_tags k (remdups tags) d))
      | None \<Rightarrow>
          ((case t_get (db_fnodes d) k of None \<Rightarrow> [] | Some x \<Rightarrow> fn_tags x), d))"

definition discover_register ::
    "ec2 \<Rightarrow> env \<Rightarrow> discover \<Rightarrow> string \<Rightarrow> db \<Rightarrow> db \<times> (py_exn + pk \<times> farm_node \<times> string list)" where
  "discover_register ec2 e r status d =
     (case find_node e r d of
        Inl x \<Rightarrow> (d, Inl x)
      | Inr (k, n, update_aws_status) \<Rightarrow>
          (case update_aws ec2 e update_aws_status k (apply_report r n) d of
             (d1, Inl x) \<Rightarrow> (d1, Inl x)
           | (d1, Inr n1) \<Rightarrow>
               (let (i, n2, d2) = finish_node e r status k n1 d1;
                    (tags, d3) = update_tags r i n2 d2
                in (d3, Inr (i, n2, tags)))))"

section \<open>Update of the jobs\<close>

definition mark_running :: "env \<Rightarrow> pk \<times> string \<Rightarrow> db \<Rightarrow> db" where
  "mark_running e jp d =
     (let (job_id, progress) = jp in
      update_jobs (\<lambda>k j. k = job_id \<and> fj_status j \<noteq> Terminating
           \<and> (fj_status j \<noteq> Running \<or> fj_progress j \<noteq> Some progress))
        (\<lambda>j. j\<lparr>fj_status := Running, fj_progress := Some progress, fj_modified := e_now e\<rparr>) d)"

definition report_running :: "env \<Rightarrow> discover \<Rightarrow> db \<Rightarrow> db" where
  "report_running e r d =
     (case dc_running_jobs_progress r of
        Some jps \<Rightarrow> fold (mark_running e) jps d
      | None \<Rightarrow>
          (case dc_running_jobs r of
             Some ids \<Rightarrow> update_jobs (\<lambda>k j. k \<in> set ids \<and> fj_status j \<noteq> Terminating \<and> fj_status j \<noteq> Running)
                 (\<lambda>j. j\<lparr>fj_status := Running, fj_modified := e_now e\<rparr>) d
           | None \<Rightarrow> d))"

definition child_job ::
    "env \<Rightarrow> pk \<Rightarrow> farm_job \<Rightarrow> string \<Rightarrow> string \<Rightarrow> pk option \<Rightarrow> int \<Rightarrow> bool \<Rightarrow> farm_job" where
  "child_job e parent this_job job_class params node req_version req_gpu =
     (new_farm_job (e_now e) job_class (fj_created_by this_job))
       \<lparr>fj_params := Some params, fj_status := Ready, fj_parent := Some parent,
        fj_node := node, fj_req_version := req_version, fj_req_gpu := req_gpu\<rparr>"

definition create_child :: "env \<Rightarrow> pk \<Rightarrow> farm_job \<Rightarrow> child_info \<Rightarrow> db \<Rightarrow> db \<times> py_exn option" where
  "create_child e k this_job info d =
     (case info of
        ChildDict job_class params node_name \<Rightarrow>
          (let (target, d1) = (case node_name of None \<Rightarrow> (None, d)
                 | Some name \<Rightarrow> (let (i, d') = make_sure_node_exists e name d in (Some i, d')))
           in case job_class of
                None \<Rightarrow> (d1, Some (KeyError ''job_class''))
              | Some c \<Rightarrow>
                  (case params of
                     None \<Rightarrow> (d1, Some (KeyError ''params''))
                   | Some p \<Rightarrow> (snd (create_job (child_job e k this_job c p target
                         (fj_req_version this_job) (fj_req_gpu this_job)) d1), None)))
      | ChildPair c p \<Rightarrow> (snd (create_job (child_job e k this_job c p None 1 False) d), None))"

text \<open>The job with its new status; its children are created when it yields.\<close>

definition finished_job ::
    "env \<Rightarrow> finished_report \<Rightarrow> pk \<Rightarrow> farm_job \<Rightarrow> db \<Rightarrow> db \<times> (py_exn + farm_job)" where
  "finished_job e f k this_job d =
     (case fr_children f of
        Some infos \<Rightarrow>
          (case for_each (create_child e k this_job) infos d of
             (d1, Some x) \<Rightarrow> (d1, Inl x)
           | (d1, None) \<Rightarrow> (d1, Inr (this_job\<lparr>fj_status := Waiting\<rparr>)))
      | None \<Rightarrow>
          if fr_success f = Some True then
            (d, Inr (this_job\<lparr>fj_status := Success, fj_end_time := Some (e_now e)\<rparr>))
          else
            (case fr_exception f of
               None \<Rightarrow> (d, Inl (KeyError ''exception''))
             | Some x \<Rightarrow> (d, Inr (this_job\<lparr>fj_status := Failed,
                   fj_exception := Some x, fj_end_time := Some (e_now e)\<rparr>))))"

definition finish_job :: "env \<Rightarrow> finished_report \<Rightarrow> db \<Rightarrow> db \<times> py_exn option" where
  "finish_job e f d =
     (case fr_job_id f of
        None \<Rightarrow> (d, Some (KeyError ''job_id''))
      | Some k \<Rightarrow>
          (case t_get (db_jobs d) k of
             None \<Rightarrow> (d, None)
           | Some this_job \<Rightarrow>
               (case finished_job e f k (this_job\<lparr>fj_progress := Some (or_else (fr_progress f) [])\<rparr>) d of
                  (d1, Inl x) \<Rightarrow> (d1, Some x)
                | (d1, Inr job) \<Rightarrow>
                    (case onJobChanged e k job (save_job (e_now e) k job d1) of
                       (d2, Some DoesNotExist) \<Rightarrow> (d2, None)
                     | dx \<Rightarrow> dx))))"

text \<open>The jobs believed to run on the node that the client does not list as running.\<close>

definition lost_jobs :: "pk \<Rightarrow> pk list \<Rightarrow> db \<Rightarrow> (pk \<times> farm_job) list" where
  "lost_jobs node running d = t_filter (\<lambda>k j. (fj_status j = Running \<or> fj_status j = Terminating)
     \<and> fj_node j = Some node \<and> k \<notin> set running) (db_jobs d)"

definition discover_jobs :: "env \<Rightarrow> discover \<Rightarrow> pk \<Rightarrow> db \<Rightarrow> db \<times> py_exn option" where
  "discover_jobs e r node d =
     (case for_each (finish_job e) (or_else (dc_finished_jobs r) []) (report_running e r d) of
        (d1, Some x) \<Rightarrow> (d1, Some x)
      | (d1, None) \<Rightarrow>
          (case dc_running_jobs r of
             None \<Rightarrow> (d1, None)
           | Some running \<Rightarrow> for_each (fail_lost_job e) (lost_jobs node running d1) d1))"

section \<open>Dispatch\<close>

text \<open>The scheduler's two channels, one for light jobs and one for all others.\<close>

definition light_job_classes :: "string list" where
  "light_job_classes = [''jobs.thumbnails.GenerateThumbnail'', ''jobs.test.SpeedTest'']"

datatype channel = LightChannel | HeavyChannel

fun filter_q :: "channel \<Rightarrow> farm_job \<Rightarrow> bool" where
  "filter_q LightChannel j \<longleftrightarrow> fj_job_class j \<in> set light_job_classes"
| "filter_q HeavyChannel j \<longleftrightarrow> fj_job_class j \<notin> set light_job_classes"

definition max_instances :: nat where
  "max_instances = 1"

definition nb_running :: "db \<Rightarrow> pk \<Rightarrow> channel \<Rightarrow> nat" where
  "nb_running d node c =
     t_count (\<lambda>_ j. fj_status j = Running \<and> fj_node j = Some node \<and> filter_q c j) (db_jobs d)"

definition can_run :: "db \<Rightarrow> pk \<Rightarrow> channel \<Rightarrow> bool" where
  "can_run d node c \<longleftrightarrow> nb_running d node c < max_instances"

definition channels :: "channel list" where
  "channels = [LightChannel, HeavyChannel]"

text \<open>
  The tags no job may have: those of any node in the database that this node does not have.
\<close>

definition excluded_tags :: "db \<Rightarrow> string list \<Rightarrow> string list" where
  "excluded_tags d tags =
     filter (\<lambda>x. x \<notin> set tags) (concat (map (\<lambda>(_, n). fn_tags n) (rows (db_fnodes d))))"

definition eligible ::
    "db \<Rightarrow> pk \<Rightarrow> farm_node \<Rightarrow> string list \<Rightarrow> string list \<Rightarrow> pk \<Rightarrow> farm_job \<Rightarrow> bool" where
  "eligible d node n available excluded k j \<longleftrightarrow>
     fj_status j = Ready \<and> fj_req_version j \<le> fn_code_version n \<and>
     (fj_node j = Some node \<or> (fn_active n \<and> fj_node j = None)) \<and>
     fj_job_class j \<in> set available \<and>
     \<not> (\<exists>t \<in> set (fj_tags j). t \<in> set excluded)"

definition next_jobs ::
    "db \<Rightarrow> pk \<Rightarrow> farm_node \<Rightarrow> string list \<Rightarrow> string list \<Rightarrow> int \<Rightarrow> (pk \<times> farm_job) list" where
  "next_jobs d node n available excluded gpu_count =
     order_desc (\<lambda>(_, j). fj_priority j)
       (filter (\<lambda>(_, j). \<exists>c \<in> set channels. can_run d node c \<and> filter_q c j)
         (filter (\<lambda>(_, j). gpu_count \<le> 0 \<longrightarrow> \<not> fj_req_gpu j)
           (t_filter (eligible d node n available excluded) (db_jobs d))))"

definition dependencies_ok :: "db \<Rightarrow> farm_job \<Rightarrow> bool" where
  "dependencies_ok d j \<longleftrightarrow> (\<forall>x \<in> set (fj_dependencies j).
     case t_get (db_jobs d) x of None \<Rightarrow> True | Some dep \<Rightarrow> fj_status dep = Success)"

definition reserve :: "env \<Rightarrow> pk \<Rightarrow> pk \<times> farm_job \<Rightarrow> db \<Rightarrow> db" where
  "reserve e node kj d =
     (let (k, j) = kj;
          d1 = snd (delete_jobs (map fst (children d k)) d)
      in save_job (e_now e) k (j\<lparr>fj_status := Reserved, fj_node := Some node,
           fj_exception := None, fj_start_time := Some (e_now e)\<rparr>) d1)"

text \<open>
  The scheduler. A node that never reported its GPUs has no \<open>gpu_count\<close>; comparing it
  with \<open>0\<close> raises, the exception is logged and the request goes on without a new job.
\<close>

definition schedule ::
    "env \<Rightarrow> pk \<Rightarrow> farm_node \<Rightarrow> string list \<Rightarrow> string list \<Rightarrow> db \<Rightarrow> db" where
  "schedule e node n available excluded d =
     (if \<exists>c \<in> set channels. can_run d node c then
        (case fn_gpu_count n of
           None \<Rightarrow> d
         | Some gpu_count \<Rightarrow>
             (case find (\<lambda>(_, j). dependencies_ok d j)
                     (next_jobs d node n available excluded gpu_count) of
                None \<Rightarrow> d
              | Some kj \<Rightarrow> reserve e node kj d))
      else d)"

definition reserved_jobs :: "pk \<Rightarrow> db \<Rightarrow> (pk \<times> string \<times> string option) list" where
  "reserved_jobs node d = map (\<lambda>(k, j). (k, fj_job_class j, fj_params j))
     (t_filter (\<lambda>_ j. fj_status j = Reserved \<and> fj_node j = Some node) (db_jobs d))"

definition accepts_jobs :: "farm_node \<Rightarrow> bool" where
  "accepts_jobs n \<longleftrightarrow> fn_status n = ''accepting'' \<and>
     (fn_aws_instance_id n = None \<or> fn_aws_instance_state n = ''running'')"

definition discover_dispatch ::
    "env \<Rightarrow> pk \<Rightarrow> farm_node \<Rightarrow> string list \<Rightarrow> string list \<Rightarrow> pk list \<Rightarrow> db
       \<Rightarrow> db \<times> discover_reply option" where
  "discover_dispatch e node n available excluded jobs_to_terminate d =
     (if accepts_jobs n then
        (let d1 = (if \<not> fn_req_restart n then schedule e node n available excluded d else d)
         in (d1, Some \<lparr>rp_jobs = reserved_jobs node d1, rp_jobs_to_kill = jobs_to_terminate,
                       rp_req_restart = fn_req_restart n\<rparr>))
      else (d, None))"

section \<open>The view\<close>

definition jobs_to_terminate :: "pk \<Rightarrow> db \<Rightarrow> pk list" where
  "jobs_to_terminate node d =
     map fst (t_filter (\<lambda>_ j. fj_status j = Terminating \<and> fj_node j = Some node) (db_jobs d))"

definition post_client_discover ::
    "ec2 \<Rightarrow> env \<Rightarrow> discover \<Rightarrow> db \<Rightarrow> db \<times> (discover_reply option) outcome" where
  "post_client_discover ec2 e r d =
     (case cleanup_dead_jobs e d of
        (d1, Some x) \<Rightarrow> (d1, Raised x)
      | (d1, None) \<Rightarrow>
          (case dc_status r of
             None \<Rightarrow> (d1, Raised (PyException ''Invalid request''))
           | Some status \<Rightarrow>
               (case discover_register ec2 e r status d1 of
                  (d2, Inl x) \<Rightarrow> (d2, Raised x)
                | (d2, Inr (node, n, tags)) \<Rightarrow>
                    (case discover_jobs e r node d2 of
                       (d3, Some x) \<Rightarrow> (d3, Raised x)
                     | (d3, None) \<Rightarrow>
                         (case discover_dispatch e node n (or_else (dc_available_jobs r) [])
                                 (excluded_tags d2 tags) (jobs_to_terminate node d2) d3 of
                            (d4, reply) \<Rightarrow> (d4, Json 200 reply))))))"

end
