(* ===== verification/Farm_Inv.thy ===== *)
theory Farm_Inv
  imports Farm_Discover
begin

text \<open>
  Every operation of the job farm keeps the invariant of \<open>Farm_Model\<close>, and the runs of the
  server are the paths of a step relation whose steps are the requests; the invariant holds
  in every state that is reachable from an empty farm. The facts about the loop that fails
  lost jobs are shared by the two places that run it.
\<close>

section \<open>Failing lost jobs\<close>

abbreviation active :: "farm_job \<Rightarrow> bool" where
  "active j \<equiv> fj_status j = Running \<or> fj_status j = Terminating"

lemma active_backward:
  "parents_only d d' \<Longrightarrow> t_get (db_jobs d') k = Some j \<Longrightarrow> active j \<Longrightarrow> t_get (db_jobs d) k = Some j"
  by (erule parents_only_backward, assumption) auto

lemma fail_lost_job_parents:
  "parents_only (save_job (e_now e) k (j\<lparr>fj_status := Failed\<rparr>) d) (fst (fail_lost_job e (k, j) d))"
  by (simp add: fail_lost_job_def Let_def parents_only_onJobChanged)

lemma fail_lost_job_fails:
  "t_get (db_jobs (fst (fail_lost_job e (k, j) d))) k = Some j' \<Longrightarrow> fj_status j' = Failed"
  using fail_lost_job_parents [of e k j d]
  by (auto elim!: parents_only_backward simp: table_simps)

lemma fail_lost_job_active:
  assumes "t_get (db_jobs (fst (fail_lost_job e kj d))) k' = Some j'" "active j'"
  shows "t_get (db_jobs d) k' = Some j'"
proof -
  obtain k j where kj: "kj = (k, j)" by (cases kj)
  have "t_get (db_jobs (save_job (e_now e) k (j\<lparr>fj_status := Failed\<rparr>) d)) k' = Some j'"
    using fail_lost_job_parents assms unfolding kj by (rule active_backward)
  with assms(2) show ?thesis by (auto simp: table_simps split: if_splits)
qed

lemma fail_lost_job_wf:
  assumes "wf_table (db_jobs d)"
  shows "wf_table (db_jobs (fst (fail_lost_job e kj d)))"
proof (cases kj)
  case (Pair k j)
  have "wf_table (db_jobs (save_job (e_now e) k (j\<lparr>fj_status := Failed\<rparr>) d))"
    using assms by (rule wf_jobs_save_job)
  with fail_lost_job_parents show ?thesis unfolding Pair by (rule parents_only_frame(3))
qed

lemma fail_lost_job_frame: "same_but_jobs d (fst (fail_lost_job e kj d))"
proof (cases kj)
  case (Pair k j)
  have "same_but_jobs d (save_job (e_now e) k (j\<lparr>fj_status := Failed\<rparr>) d)"
    by (rule same_but_jobs_save_job)
  moreover have "same_but_jobs (save_job (e_now e) k (j\<lparr>fj_status := Failed\<rparr>) d)
      (fst (fail_lost_job e (k, j) d))"
    using fail_lost_job_parents by (rule parents_only_frame(1))
  ultimately show ?thesis unfolding Pair by (rule same_but_jobs_trans)
qed

text \<open>After the loop none of the listed jobs is active, and no job has become active.\<close>

lemma fail_loop:
  assumes loop: "for_each (fail_lost_job e) xs d = (d', None)"
    and g: "t_get (db_jobs d') k = Some j" and a: "active j"
  shows "t_get (db_jobs d) k = Some j" "\<forall>x \<in> set xs. fst x \<noteq> k"
proof -
  let ?Q = "\<lambda>x s. \<forall>j. t_get (db_jobs s) (fst x) = Some j \<longrightarrow> \<not> active j"
  have "\<forall>x \<in> set xs. ?Q x d'"
  proof (rule for_each_establishes [OF loop, where I = "\<lambda>_. True"])
    fix x s s' assume f: "fail_lost_job e x s = (s', None)"
    show "?Q x s'"
      using fail_lost_job_fails [of e "fst x" "snd x" s] f by auto
  next
    fix x y s s' assume q: "?Q x s" and f: "fail_lost_job e y s = (s', None)"
    show "?Q x s'"
    proof (intro allI impI notI)
      fix j assume "t_get (db_jobs s') (fst x) = Some j" "active j"
      then have "t_get (db_jobs s) (fst x) = Some j"
        using fail_lost_job_active [of e y s "fst x" j] f by simp
      with q \<open>active j\<close> show False by blast
    qed
  qed simp_all
  with g a show "\<forall>x \<in> set xs. fst x \<noteq> k" by blast
  let ?P = "\<lambda>s. t_get (db_jobs s) k = Some j \<longrightarrow> t_get (db_jobs d) k = Some j"
  have "?P d'"
  proof (rule for_each_keeps [OF loop, where Q = ?P])
    fix y s s' assume q: "?P s" and f: "fail_lost_job e y s = (s', None)"
    show "?P s'"
    proof
      assume "t_get (db_jobs s') k = Some j"
      then have "t_get (db_jobs s) k = Some j"
        using fail_lost_job_active [of e y s k j] f a by simp
      with q show "t_get (db_jobs d) k = Some j" by blast
    qed
  qed simp
  with g show "t_get (db_jobs d) k = Some j" by simp
qed

lemma fail_loop_inv:
  assumes "wf_table (db_jobs d)"
  shows "wf_table (db_jobs (fst (for_each (fail_lost_job e) xs d)))"
  by (rule for_each_inv) (use assms fail_lost_job_wf in auto)

lemma fail_loop_frame: "same_but_jobs d (fst (for_each (fail_lost_job e) xs d))"
  by (rule for_each_rel) (auto intro: same_but_jobs_trans fail_lost_job_frame)

section \<open>The parts of a request keep the invariant\<close>

text \<open>No row of a job or of a node is removed.\<close>

definition grows :: "db \<Rightarrow> db \<Rightarrow> bool" where
  "grows d d' \<longleftrightarrow> t_keys (db_jobs d) \<subseteq> t_keys (db_jobs d') \<and> t_keys (db_fnodes d) \<subseteq> t_keys (db_fnodes d')"

lemma grows_refl [simp, intro]: "grows d d"
  by (simp add: grows_def)

lemma grows_trans: "grows d d' \<Longrightarrow> grows d' d'' \<Longrightarrow> grows d d''"
  by (auto simp: grows_def)

lemma grows_steps [simp]:
  "grows d (save_job now k j d)" "grows d (snd (create_job j d))" "grows d (update_jobs P f d)"
  "grows d (save_farm_node now n nd d)" "grows d (snd (create_farm_node nd d))"
  "grows d (set_node_tags n tags d)"
  by (auto simp: grows_def table_simps frame_simps)

lemma grows_parents_only: "parents_only d d' \<Longrightarrow> grows d d'"
  using parents_only_frame(1,2) [of d d'] by (simp add: grows_def same_but_jobs_frame)

text \<open>A job read from an earlier state can be saved in a later one.\<close>

lemma farm_inv_save_later:
  assumes "farm_inv d" "farm_inv d'" "grows d d'" "t_get (db_jobs d) k = Some j0"
    "fj_parent j = fj_parent j0" "fj_node j = fj_node j0 \<or> fj_node j = None"
  shows "farm_inv (save_job now k j d')"
proof (rule farm_inv_save_job [OF assms(2)])
  note refs = farm_invD(3) [OF assms(1,4)]
  show "\<forall>p. fj_parent j = Some p \<longrightarrow> p < k \<and> p \<in> t_keys (db_jobs d')"
    using refs assms(3,5) by (auto simp: job_refs_def grows_def)
  show "\<forall>n. fj_node j = Some n \<longrightarrow> n \<in> t_keys (db_fnodes d')"
    using refs assms(3,6) by (auto simp: job_refs_def grows_def)
qed

lemma farm_inv_onJobChanged: "farm_inv d \<Longrightarrow> farm_inv (fst (onJobChanged e k j d))"
  using farm_inv_parents_only parents_only_onJobChanged by blast

lemma fail_lost_jobs_farm_inv:
  assumes inv: "farm_inv d" and xs: "\<forall>(k, j) \<in> set xs. t_get (db_jobs d) k = Some j"
  shows "farm_inv (fst (for_each (fail_lost_job e) xs d)) \<and> grows d (fst (for_each (fail_lost_job e) xs d))"
proof (rule for_each_inv)
  fix x s assume x: "x \<in> set xs" and IH: "farm_inv s \<and> grows d s"
  obtain k j where kj: "x = (k, j)" by (cases x)
  with xs x have g: "t_get (db_jobs d) k = Some j" by blast
  let ?s = "save_job (e_now e) k (j\<lparr>fj_status := Failed\<rparr>) s"
  have "farm_inv ?s" using farm_inv_save_later [OF inv _ _ g] IH by simp
  moreover have po: "parents_only ?s (fst (fail_lost_job e x s))"
    unfolding kj by (rule fail_lost_job_parents)
  ultimately have "farm_inv (fst (fail_lost_job e x s))" by (rule farm_inv_parents_only [rotated])
  moreover have "grows d (fst (fail_lost_job e x s))"
    using grows_parents_only [OF po] IH grows_steps(1) grows_trans by blast
  ultimately show "farm_inv (fst (fail_lost_job e x s)) \<and> grows d (fst (fail_lost_job e x s))" ..
qed (use inv in simp)

lemma cleanup_farm_inv:
  assumes inv: "farm_inv d"
  shows "farm_inv (fst (cleanup_dead_jobs e d))" "grows d (fst (cleanup_dead_jobs e d))"
proof -
  have "\<forall>(k, j) \<in> set (dead_jobs e d). t_get (db_jobs d) k = Some j"
    using farm_invD(1) [OF inv] by (auto simp: dead_jobs_def t_filter_iff)
  from fail_lost_jobs_farm_inv [OF inv this]
  show "farm_inv (fst (cleanup_dead_jobs e d))" "grows d (fst (cleanup_dead_jobs e d))"
    by (simp_all add: cleanup_dead_jobs_def)
qed

lemma make_sure_node_exists_inv:
  assumes inv: "farm_inv d"
  shows "farm_inv (snd (make_sure_node_exists e name d))"
    "grows d (snd (make_sure_node_exists e name d))"
    "fst (make_sure_node_exists e name d) \<in> t_keys (db_fnodes (snd (make_sure_node_exists e name d)))"
proof -
  have found: "k \<in> t_keys (db_fnodes d)" if "farm_nodes_named d name = (k, n) # xs" for k n xs
  proof -
    have "(k, n) \<in> set (farm_nodes_named d name)" using that by simp
    then show ?thesis
      using farm_invD(2) [OF inv] by (auto simp: farm_nodes_named_def t_filter_iff intro: t_get_keyI)
  qed
  show "farm_inv (snd (make_sure_node_exists e name d))"
    "grows d (snd (make_sure_node_exists e name d))"
    "fst (make_sure_node_exists e name d) \<in> t_keys (db_fnodes (snd (make_sure_node_exists e name d)))"
    using inv found
    by (auto simp: make_sure_node_exists_def farm_inv_create_farm_node frame_simps
        split: list.splits)
qed

lemma mark_running_farm_inv: "farm_inv d \<Longrightarrow> farm_inv (mark_running e jp d)"
  by (cases jp) (auto simp: mark_running_def intro!: farm_inv_update_jobs)

lemma report_running_farm_inv:
  assumes "farm_inv d"
  shows "farm_inv (report_running e r d)"
proof -
  have "farm_inv (fold (mark_running e) jps d)" for jps
    using assms by (induction jps arbitrary: d) (simp_all add: mark_running_farm_inv)
  with assms show ?thesis
    by (auto simp: report_running_def split: option.splits intro!: farm_inv_update_jobs)
qed

lemma child_job_simps [simp]:
  "fj_parent (child_job e k j c p n v g) = Some k" "fj_node (child_job e k j c p n v g) = n"
  "fj_dependencies (child_job e k j c p n v g) = []" "fj_status (child_job e k j c p n v g) = Ready"
  by (simp_all add: child_job_def new_farm_job_def)

lemma create_child_farm_inv:
  assumes inv: "farm_inv d" and k: "k \<in> t_keys (db_jobs d)"
  shows "farm_inv (fst (create_child e k j info d)) \<and> grows d (fst (create_child e k j info d))"
proof (cases info)
  case (ChildPair c p)
  have "farm_inv (snd (create_job (child_job e k j c p None 1 False) d))"
    by (rule farm_inv_create_job [OF inv]) (use k in simp_all)
  with ChildPair show ?thesis by (simp add: create_child_def)
next
  case (ChildDict c p nm)
  define td where "td = (case nm of None \<Rightarrow> (None, d)
     | Some name \<Rightarrow> (let (i, d') = make_sure_node_exists e name d in (Some i, d')))"
  obtain target d1 where td1: "td = (target, d1)" by (cases td)
  have d1: "farm_inv d1 \<and> grows d d1 \<and> (\<forall>n. target = Some n \<longrightarrow> n \<in> t_keys (db_fnodes d1))"
  proof (cases nm)
    case None
    with td1 inv show ?thesis by (simp add: td_def)
  next
    case (Some name)
    with td1 make_sure_node_exists_inv [OF inv, of e name] show ?thesis
      by (auto simp: td_def case_prod_beta)
  qed
  have "farm_inv (snd (create_job (child_job e k j c' p' target v g) d1))" for c' p' v g
    by (rule farm_inv_create_job) (use d1 k in \<open>auto simp: grows_def\<close>)
  moreover have "grows d (snd (create_job (child_job e k j c' p' target v g) d1))" for c' p' v g
    using d1 grows_steps(2) grows_trans by blast
  ultimately show ?thesis
    using d1 unfolding ChildDict create_child_def
    by (simp add: td_def [symmetric] td1 split: option.splits)
qed

lemma create_children_farm_inv:
  assumes inv: "farm_inv d" and k: "k \<in> t_keys (db_jobs d)"
  shows "farm_inv (fst (for_each (create_child e k j) infos d)) \<and>
    grows d (fst (for_each (create_child e k j) infos d))"
proof (rule for_each_inv)
  fix x s assume s: "farm_inv s \<and> grows d s"
  with k have "k \<in> t_keys (db_jobs s)" by (auto simp: grows_def)
  with s create_child_farm_inv [of s k e j x] grows_trans
  show "farm_inv (fst (create_child e k j x s)) \<and> grows d (fst (create_child e k j x s))" by blast
qed (use inv in simp)

lemma finished_job_farm_inv:
  assumes "farm_inv d" "k \<in> t_keys (db_jobs d)"
  shows "farm_inv (fst (finished_job e f k j d)) \<and> grows d (fst (finished_job e f k j d))"
proof (cases "fr_children f")
  case None
  with assms show ?thesis by (simp add: finished_job_def split: option.splits)
next
  case (Some infos)
  with create_children_farm_inv [OF assms, of e j infos] show ?thesis
    by (auto simp: finished_job_def split: prod.splits option.splits)
qed

lemma finished_job_frame:
  "finished_job e f k j d = (d1, Inr j') \<Longrightarrow> fj_parent j' = fj_parent j \<and> fj_node j' = fj_node j"
  by (auto simp: finished_job_def split: prod.splits option.splits if_splits)

lemma finish_job_farm_inv:
  assumes inv: "farm_inv d"
  shows "farm_inv (fst (finish_job e f d)) \<and> grows d (fst (finish_job e f d))"
proof (cases "fr_job_id f")
  case None
  with inv show ?thesis by (simp add: finish_job_def)
next
  case id: (Some k)
  show ?thesis
  proof (cases "t_get (db_jobs d) k")
    case None
    with id inv show ?thesis by (simp add: finish_job_def)
  next
    case g: (Some j0)
    define j where "j = j0\<lparr>fj_progress := Some (or_else (fr_progress f) [])\<rparr>"
    obtain d1 r where fj: "finished_job e f k j d = (d1, r)" by (cases "finished_job e f k j d")
    have d1: "farm_inv d1" "grows d d1"
      using finished_job_farm_inv [OF inv t_get_keyI [OF g], of e f j] fj by simp_all
    show ?thesis
    proof (cases r)
      case (Inl x)
      with id g fj d1 show ?thesis by (simp add: finish_job_def j_def)
    next
      case (Inr j')
      let ?s = "save_job (e_now e) k j' d1"
      have "fj_parent j' = fj_parent j0" "fj_node j' = fj_node j0"
        using finished_job_frame [of e f k j d d1 j'] fj Inr by (simp_all add: j_def)
      then have "farm_inv ?s" using farm_inv_save_later [OF inv d1 g] by simp
      then have "farm_inv (fst (onJobChanged e k j' ?s))" by (rule farm_inv_onJobChanged)
      moreover have "grows d (fst (onJobChanged e k j' ?s))"
        using grows_parents_only [OF parents_only_onJobChanged, of ?s e k j'] d1(2) grows_steps(1)
          grows_trans by blast
      moreover have "fst (finish_job e f d) = fst (onJobChanged e k j' ?s)"
        using id g fj Inr
        by (simp add: finish_job_def j_def split: prod.splits option.splits py_exn.splits)
      ultimately show ?thesis by simp
    qed
  qed
qed

lemma finish_jobs_farm_inv:
  assumes "farm_inv d"
  shows "farm_inv (fst (for_each (finish_job e) fs d)) \<and> grows d (fst (for_each (finish_job e) fs d))"
proof (rule for_each_inv)
  fix x s assume s: "farm_inv s \<and> grows d s"
  with finish_job_farm_inv [of s e x] grows_trans
  show "farm_inv (fst (finish_job e x s)) \<and> grows d (fst (finish_job e x s))" by blast
qed (use assms in simp)

lemma report_running_grows: "grows d (report_running e r d)"
proof -
  have "grows d (fold (mark_running e) jps d)" for jps
  proof (induction jps arbitrary: d)
    case (Cons jp jps)
    have "grows d (mark_running e jp d)" by (cases jp) (simp add: mark_running_def)
    with Cons.IH [of "mark_running e jp d"] show ?case by (auto intro: grows_trans)
  qed simp
  then show ?thesis by (simp add: report_running_def split: option.splits)
qed

lemma lost_jobs_get: "farm_inv d \<Longrightarrow> \<forall>(k, j) \<in> set (lost_jobs n ids d). t_get (db_jobs d) k = Some j"
  using farm_invD(1) [of d] by (auto simp: lost_jobs_def t_filter_iff)

lemma discover_jobs_farm_inv:
  assumes inv: "farm_inv d"
  shows "farm_inv (fst (discover_jobs e r n d)) \<and> grows d (fst (discover_jobs e r n d))"
proof -
  let ?s = "report_running e r d"
  obtain d1 x where l: "for_each (finish_job e) (or_else (dc_finished_jobs r) []) ?s = (d1, x)"
    by (cases "for_each (finish_job e) (or_else (dc_finished_jobs r) []) ?s")
  have d1: "farm_inv d1" "grows d d1"
    using finish_jobs_farm_inv [OF report_running_farm_inv [OF inv], of e "or_else (dc_finished_jobs r) []" e r]
      l report_running_grows [of d e r] grows_trans by auto
  show ?thesis
  proof (cases x)
    case (Some y)
    with l d1 show ?thesis by (simp add: discover_jobs_def)
  next
    case None
    show ?thesis
    proof (cases "dc_running_jobs r")
      case None
      with \<open>x = None\<close> l d1 show ?thesis by (simp add: discover_jobs_def)
    next
      case (Some ids)
      have "fst (discover_jobs e r n d) = fst (for_each (fail_lost_job e) (lost_jobs n ids d1) d1)"
        using \<open>x = None\<close> l Some by (simp add: discover_jobs_def)
      with fail_lost_jobs_farm_inv [OF d1(1) lost_jobs_get [OF d1(1)], of e n ids] d1(2) grows_trans
      show ?thesis by metis
    qed
  qed
qed

section \<open>Registration and dispatch\<close>

lemma slack_frame [simp]:
  "db_jobs (slack_notification e t c ts d) = db_jobs d"
  "db_fnodes (slack_notification e t c ts d) = db_fnodes d"
  by (simp_all add: slack_notification_def)

lemma update_aws_frame:
  "db_jobs (fst (update_aws ec2 e b k n d)) = db_jobs d"
  "db_fnodes (fst (update_aws ec2 e b k n d)) = db_fnodes d"
  by (auto simp: update_aws_def Let_def split: sum.splits option.splits)

lemma find_node_key:
  assumes "wf_table (db_fnodes d)" "find_node e r d = Inr (Some k, n, b)"
  shows "k \<in> t_keys (db_fnodes d)"
proof -
  obtain name n0 xs where "farm_nodes_named d name = (k, n0) # xs"
    using assms(2) by (auto simp: find_node_def split: option.splits list.splits)
  then have "(k, n0) \<in> set (farm_nodes_named d name)" by simp
  with assms(1) show ?thesis
    by (auto simp: farm_nodes_named_def t_filter_iff intro: t_get_keyI)
qed

lemma finish_node_inv:
  assumes "farm_inv d"
  shows "farm_inv (snd (snd (finish_node e r st k n d)))" "grows d (snd (snd (finish_node e r st k n d)))"
    "fst (finish_node e r st k n d) \<in> t_keys (db_fnodes (snd (snd (finish_node e r st k n d))))"
    "db_jobs (snd (snd (finish_node e r st k n d))) = db_jobs d"
  using assms
  by (auto simp: finish_node_def Let_def case_prod_beta farm_inv_save_farm_node
      farm_inv_create_farm_node frame_simps split: option.splits)

lemma update_tags_inv:
  assumes "farm_inv d"
  shows "farm_inv (snd (update_tags r k n d))" "grows d (snd (update_tags r k n d))"
    "db_jobs (snd (update_tags r k n d)) = db_jobs d"
  using assms by (auto simp: update_tags_def Let_def farm_inv_set_node_tags frame_simps split: option.splits)

lemma discover_register_inv:
  assumes inv: "farm_inv d"
  shows "farm_inv (fst (discover_register ec2 e r st d))"
    "db_jobs (fst (discover_register ec2 e r st d)) = db_jobs d"
    "grows d (fst (discover_register ec2 e r st d))"
    "snd (discover_register ec2 e r st d) = Inr (i, n, tags) \<Longrightarrow>
       i \<in> t_keys (db_fnodes (fst (discover_register ec2 e r st d)))"
proof -
  have "farm_inv (fst (discover_register ec2 e r st d)) \<and>
    db_jobs (fst (discover_register ec2 e r st d)) = db_jobs d \<and>
    grows d (fst (discover_register ec2 e r st d)) \<and>
    (snd (discover_register ec2 e r st d) = Inr (i, n, tags) \<longrightarrow>
       i \<in> t_keys (db_fnodes (fst (discover_register ec2 e r st d))))"
  proof (cases "find_node e r d")
    case (Inl x)
    with inv show ?thesis by (simp add: discover_register_def)
  next
    case (Inr y)
    then obtain k n0 b where fn: "find_node e r d = Inr (k, n0, b)" by (cases y) auto
    obtain d1 z where ua: "update_aws ec2 e b k (apply_report r n0) d = (d1, z)"
      by (cases "update_aws ec2 e b k (apply_report r n0) d")
    have eq: "db_jobs d1 = db_jobs d" "db_fnodes d1 = db_fnodes d"
      using update_aws_frame [of ec2 e b k "apply_report r n0" d] ua by simp_all
    with inv have d1: "farm_inv d1" by (auto intro: farm_inv_cong)
    have g1: "grows d d1" using eq by (simp add: grows_def)
    show ?thesis
    proof (cases z)
      case (Inl x)
      with fn ua d1 eq g1 show ?thesis by (simp add: discover_register_def)
    next
      case (Inr n1)
      obtain i' n2 d2 where f: "finish_node e r st k n1 d1 = (i', n2, d2)"
        by (cases "finish_node e r st k n1 d1") auto
      have d2: "farm_inv d2" "grows d1 d2" "i' \<in> t_keys (db_fnodes d2)" "db_jobs d2 = db_jobs d1"
        using finish_node_inv [OF d1, of e r st k n1] f by simp_all
      obtain ts d3 where u: "update_tags r i' n2 d2 = (ts, d3)" by (cases "update_tags r i' n2 d2")
      have d3: "farm_inv d3" "grows d2 d3" "db_jobs d3 = db_jobs d2"
        using update_tags_inv [OF d2(1), of r i' n2] u by simp_all
      have "i' \<in> t_keys (db_fnodes d3)" using d2(3) d3(2) by (auto simp: grows_def)
      moreover have "grows d d3" using g1 d2(2) d3(2) by (blast intro: grows_trans)
      moreover have "discover_register ec2 e r st d = (d3, Inr (i', n2, ts))"
        using fn ua Inr f u by (simp add: discover_register_def)
      ultimately show ?thesis using d3 d2 eq by auto
    qed
  qed
  then show "farm_inv (fst (discover_register ec2 e r st d))"
    "db_jobs (fst (discover_register ec2 e r st d)) = db_jobs d"
    "grows d (fst (discover_register ec2 e r st d))"
    "snd (discover_register ec2 e r st d) = Inr (i, n, tags) \<Longrightarrow>
       i \<in> t_keys (db_fnodes (fst (discover_register ec2 e r st d)))"
    by simp_all
qed

text \<open>Handing out a job: its children are deleted first, and they are younger than the job.\<close>

lemma reserve_farm_inv:
  assumes inv: "farm_inv d" and g: "t_get (db_jobs d) k = Some j" and n: "n \<in> t_keys (db_fnodes d)"
  shows "farm_inv (reserve e n (k, j) d)"
proof -
  let ?d = "snd (delete_jobs (map fst (children d k)) d)"
  have inv': "farm_inv ?d" using inv by (rule farm_inv_delete_jobs)
  have par: "p < k \<and> p \<in> t_keys (db_jobs ?d)" if "fj_parent j = Some p" for p
  proof -
    have pk: "p < k" "p \<in> t_keys (db_jobs d)" using farm_inv_parentD [OF inv g that] by simp_all
    then show ?thesis
      using delete_children_get [OF inv, of p k] by (auto simp: t_keys_get)
  qed
  show ?thesis
    unfolding reserve_def Let_def prod.case
    by (rule farm_inv_save_job [OF inv']) (use par n in \<open>auto simp: frame_simps\<close>)
qed

lemma next_jobs_get:
  "wf_table (db_jobs d) \<Longrightarrow> (k, j) \<in> set (next_jobs d n nd av ex gpu) \<Longrightarrow> t_get (db_jobs d) k = Some j"
  by (auto simp: next_jobs_def t_filter_iff)

lemma schedule_farm_inv:
  assumes inv: "farm_inv d" and n: "n \<in> t_keys (db_fnodes d)"
  shows "farm_inv (schedule e n nd av ex d)"
proof -
  have "farm_inv (reserve e n kj d)"
    if "find (\<lambda>(_, j). dependencies_ok d j) (next_jobs d n nd av ex gpu) = Some kj" for kj gpu
  proof -
    from that have "kj \<in> set (next_jobs d n nd av ex gpu)" by (metis find_Some_iff nth_mem)
    then have "t_get (db_jobs d) (fst kj) = Some (snd kj)"
      using next_jobs_get [OF farm_invD(1) [OF inv], of "fst kj" "snd kj"] by simp
    from reserve_farm_inv [OF inv this n] show ?thesis by simp
  qed
  with inv show ?thesis by (auto simp: schedule_def split: option.splits)
qed

lemma dispatch_farm_inv:
  assumes "farm_inv d" "n \<in> t_keys (db_fnodes d)"
  shows "farm_inv (fst (discover_dispatch e n nd av ex kill d))"
  using assms by (simp add: discover_dispatch_def Let_def schedule_farm_inv)

lemma post_client_discover_farm_inv:
  assumes inv: "farm_inv d"
  shows "farm_inv (fst (post_client_discover ec2 e r d))"
proof -
  obtain d1 x1 where c: "cleanup_dead_jobs e d = (d1, x1)" by (cases "cleanup_dead_jobs e d")
  have d1: "farm_inv d1" using cleanup_farm_inv [OF inv, of e] c by simp
  show ?thesis
  proof (cases "x1 \<noteq> None \<or> dc_status r = None")
    case True
    with c d1 show ?thesis by (auto simp: post_client_discover_def split: option.splits)
  next
    case False
    then obtain st where st: "dc_status r = Some st" "x1 = None" by auto
    obtain d2 x2 where rg: "discover_register ec2 e r st d1 = (d2, x2)"
      by (cases "discover_register ec2 e r st d1")
    note d2 = discover_register_inv [OF d1, of ec2 e r st, unfolded rg fst_conv snd_conv]
    show ?thesis
    proof (cases x2)
      case (Inl x)
      with c st rg d2(1) show ?thesis by (simp add: post_client_discover_def)
    next
      case (Inr y)
      obtain n nd tags where y: "y = (n, nd, tags)" by (cases y) auto
      obtain d3 x3 where dj: "discover_jobs e r n d2 = (d3, x3)" by (cases "discover_jobs e r n d2")
      have d3: "farm_inv d3" "grows d2 d3" using discover_jobs_farm_inv [OF d2(1), of e r n] dj by simp_all
      have "n \<in> t_keys (db_fnodes d3)" using d2(4) [of n nd tags] Inr y d3(2) by (auto simp: grows_def)
      then have "farm_inv (fst (discover_dispatch e n nd av ex kill d3))" for av ex kill
        using d3(1) by (intro dispatch_farm_inv)
      with c st rg Inr y dj d3(1) show ?thesis
        by (simp add: post_client_discover_def case_prod_beta split: option.splits)
    qed
  qed
qed

section \<open>The other views\<close>

lemma submit_test_job_farm_inv: "farm_inv d \<Longrightarrow> farm_inv (fst (submit_test_job e b d))"
  by (auto simp: submit_test_job_def new_farm_job_def intro!: farm_inv_create_job)

lemma reset_job_frame [simp]:
  "fj_parent (reset_job b j) = fj_parent j" "fj_dependencies (reset_job b j) = fj_dependencies j"
  "fj_node (reset_job b j) = (if b then fj_node j else None)" "fj_status (reset_job b j) = Ready"
  by (simp_all add: reset_job_def)

lemma on_job_restart_frame [frame_simps]:
  "db_jobs (on_job_restart k d) = db_jobs d" "db_fnodes (on_job_restart k d) = db_fnodes d"
  by (simp_all add: on_job_restart_def)

lemma restarts_frame [frame_simps]:
  "db_jobs (fold (\<lambda>(i, _). on_job_restart i) xs d) = db_jobs d"
  "db_fnodes (fold (\<lambda>(i, _). on_job_restart i) xs d) = db_fnodes d"
  by (induction xs arbitrary: d) (auto simp: frame_simps)

lemma restart_failed_farm_inv:
  assumes inv: "farm_inv d"
  shows "farm_inv (fst (restart_job_failed_child e r d))"
proof -
  have "farm_inv (save_job (e_now e) k (src\<lparr>fj_status := Waiting\<rparr>)
      (update_jobs P (\<lambda>j. (reset_job b j)\<lparr>fj_modified := t\<rparr>)
        (fold (\<lambda>(i, _). on_job_restart i) xs d)))"
    if g: "t_get (db_jobs d) k = Some src" for k src P b t xs
  proof -
    let ?s = "fold (\<lambda>(i, _). on_job_restart i) xs d"
    have "farm_inv ?s" using inv by (rule farm_inv_cong) (simp_all add: frame_simps)
    then have "farm_inv (update_jobs P (\<lambda>j. (reset_job b j)\<lparr>fj_modified := t\<rparr>) ?s)"
      by (rule farm_inv_update_jobs) auto
    moreover have "grows d (update_jobs P (\<lambda>j. (reset_job b j)\<lparr>fj_modified := t\<rparr>) ?s)"
      by (simp add: grows_def frame_simps table_simps)
    ultimately show ?thesis using farm_inv_save_later [OF inv _ _ g] by simp
  qed
  with inv show ?thesis
    unfolding restart_job_failed_child_def Let_def
    by (auto split: option.splits)
qed

lemma restart_job_farm_inv:
  assumes inv: "farm_inv d"
  shows "farm_inv (fst (restart_job e r d))"
proof -
  have clone: "farm_inv (save_job (e_now e) new (c\<lparr>fj_status := Ready\<rparr>)
      (set_job_tags new tags (snd (create_job c d))))"
    if g: "t_get (db_jobs d) k = Some src" and c: "c = cloned_job e b src"
      and new: "new = fst (create_job c d)" for k src b tags new c
  proof -
    have cj: "fj_parent c = None" "fj_dependencies c = []" "fj_node c = (if b then fj_node src else None)"
      by (simp_all add: c cloned_job_def new_farm_job_def)
    have node: "\<forall>n. fj_node c = Some n \<longrightarrow> n \<in> t_keys (db_fnodes d)"
      using farm_invD(3) [OF inv g] cj(3) by (auto simp: job_refs_def)
    have "farm_inv (snd (create_job c d))"
      by (rule farm_inv_create_job [OF inv]) (use cj node in auto)
    then have "farm_inv (set_job_tags new tags (snd (create_job c d)))"
      using farm_inv_update_jobs [of "snd (create_job c d)" "\<lambda>j. j\<lparr>fj_tags := tags\<rparr>" "\<lambda>k' _. k' = new"]
      by (simp add: set_job_tags_def update_jobs_def)
    then show ?thesis
      by (rule farm_inv_save_job) (use cj node in \<open>auto simp: set_job_tags_def frame_simps\<close>)
  qed
  have reset: "farm_inv (save_job (e_now e) k (reset_job b src)
      (on_job_restart k (snd (delete_jobs (map fst (children d k)) d))))"
    if g: "t_get (db_jobs d) k = Some src" for k src b
  proof -
    let ?d = "snd (delete_jobs (map fst (children d k)) d)"
    have "farm_inv ?d" using inv by (rule farm_inv_delete_jobs)
    then have inv': "farm_inv (on_job_restart k ?d)"
      by (rule farm_inv_cong) (simp_all add: frame_simps)
    obtain src' where "t_get (db_jobs ?d) k = Some src'" "fj_parent src' = fj_parent src"
      "fj_node src' = fj_node src"
      using delete_children_get [OF inv, of k k] g by auto
    with inv' show ?thesis by (intro farm_inv_resave [of _ k src']) (auto simp: frame_simps)
  qed
  show ?thesis
    using inv clone reset by (simp add: restart_job_def Let_def split: option.splits)
qed

lemma delete_job_farm_inv: "farm_inv d \<Longrightarrow> farm_inv (fst (delete_job e r d))"
  by (simp add: delete_job_def Let_def case_prod_beta farm_inv_delete_jobs split: option.splits)

lemma kill_job_farm_inv: "farm_inv d \<Longrightarrow> farm_inv (fst (kill_job e r d))"
  by (auto simp: kill_job_def Let_def split: option.splits intro!: farm_inv_update_jobs)

lemma aws_start_farm_inv: "farm_inv d \<Longrightarrow> farm_inv (fst (post_aws_start_instance f e k d))"
  by (simp add: post_aws_start_instance_def farm_inv_save_farm_node split: option.splits sum.splits)

lemma reload_farm_inv:
  assumes inv: "farm_inv d"
  shows "farm_inv (fst (post_reload_client e i d))"
proof -
  have "farm_inv (d\<lparr>db_fnodes := t_update P f (db_fnodes d)\<rparr>)" for P f
    by (rule farm_inv_nodes [OF inv]) (use farm_invD(2) [OF inv] in \<open>auto simp: table_simps\<close>)
  with inv show ?thesis
    by (simp add: post_reload_client_def farm_inv_save_farm_node split: option.splits)
qed

lemma store_job_file_farm_inv:
  assumes inv: "farm_inv d" and f: "\<And>x j. fj_parent (f x j) = fj_parent j \<and> fj_node (f x j) = fj_node j"
  shows "farm_inv (fst (store_job_file f e u w k up d))"
proof -
  have "farm_inv (save_job (e_now e) k (f x j) (d\<lparr>db_files := fs\<rparr>))"
    if g: "t_get (db_jobs d) k = Some j" for x j fs
  proof (rule farm_inv_resave)
    show "farm_inv (d\<lparr>db_files := fs\<rparr>)" using inv by (rule farm_inv_cong) simp_all
    show "t_get (db_jobs (d\<lparr>db_files := fs\<rparr>)) k = Some j" using g by simp
  qed (simp_all add: f)
  with inv show ?thesis
    by (simp add: store_job_file_def Let_def split: option.splits sum.splits)
qed

lemma job_output_post_farm_inv:
  assumes inv: "farm_inv d"
  shows "farm_inv (fst (job_output_post k up d))"
proof -
  have "farm_inv (d\<lparr>db_files := fs\<rparr>)" for fs using inv by (rule farm_inv_cong) simp_all
  with inv show ?thesis by (simp add: job_output_post_def split: option.splits)
qed

lemma node_by_slug_inv:
  assumes inv: "farm_inv d" and r: "node_by_slug e name d = (d1, r)"
  shows "farm_inv d1" "grows d d1" "r = Inr k \<Longrightarrow> k \<in> t_keys (db_fnodes d1)"
proof -
  have found: "k \<in> t_keys (db_fnodes d)"
    if "t_filter (\<lambda>_ n. fn_machine_name n = name) (db_fnodes d) = [(k, n)]" for k n
  proof -
    have "(k, n) \<in> set (t_filter (\<lambda>_ n. fn_machine_name n = name) (db_fnodes d))"
      unfolding that by simp
    then have "t_get (db_fnodes d) k = Some n" by (rule t_filter_get [OF farm_invD(2) [OF inv]])
    then show ?thesis by (rule t_get_keyI)
  qed
  show "farm_inv d1" "grows d d1" "r = Inr k \<Longrightarrow> k \<in> t_keys (db_fnodes d1)"
    using r inv found
    by (auto simp: node_by_slug_def case_prod_beta farm_inv_create_farm_node frame_simps
        split: list.splits)
qed

lemma create_api_job_farm_inv:
  assumes inv: "farm_inv d"
  shows "farm_inv (fst (create_api_job e r d))"
proof -
  have new: "farm_inv (snd (create_job (api_job e r node d1) d1))"
    if "farm_inv d1" "new_job_valid r d1" "\<forall>n. node = Some n \<longrightarrow> n \<in> t_keys (db_fnodes d1)" for node d1
    by (rule farm_inv_create_job [OF that(1)])
      (use that(2,3) in \<open>auto simp: api_job_def new_farm_job_def new_job_valid_def t_keys_get\<close>)
  have tags: "farm_inv (set_job_tags k ts d1)" if "farm_inv d1" for k ts d1
    using farm_inv_update_jobs [OF that, of "\<lambda>j. j\<lparr>fj_tags := ts\<rparr>" "\<lambda>k' _. k' = k"]
    by (simp add: set_job_tags_def update_jobs_def)
  define s where "s = (case nj_node_name r of
              None \<Rightarrow> (d, Inr None)
            | Some name \<Rightarrow> (case node_by_slug e name d of
                 (d1, Inl x) \<Rightarrow> (d1, Inl x) | (d1, Inr k) \<Rightarrow> (d1, Inr (Some k))))"
  obtain d1 x where s1: "s = (d1, x)" by (cases s)
  have d1: "farm_inv d1 \<and> (\<forall>node n. x = Inr node \<and> node = Some n \<longrightarrow> n \<in> t_keys (db_fnodes d1))"
  proof (cases "nj_node_name r")
    case None
    with s1 inv show ?thesis by (auto simp: s_def)
  next
    case (Some name)
    obtain d2 y where nb: "node_by_slug e name d = (d2, y)" by (cases "node_by_slug e name d")
    with node_by_slug_inv [OF inv nb] s1 Some show ?thesis
      by (auto simp: s_def split: sum.splits)
  qed
  show ?thesis
    unfolding create_api_job_def s_def [symmetric] s1
    using d1 new tags by (auto simp: case_prod_beta split: sum.splits option.splits)
qed

section \<open>Runs of the server\<close>

text \<open>
  The requests the farm serves, in any order; a request that raises has its effects as well.
  \<open>ec2\<close> is the answer of the cloud during the request, and differs between requests.
\<close>

inductive farm_step :: "db \<Rightarrow> db \<Rightarrow> bool" where
  submit: "farm_step d (fst (submit_test_job e b d))"
| create_api: "farm_step d (fst (create_api_job e nj d))"
| restart: "farm_step d (fst (restart_job e r d))"
| restart_failed: "farm_step d (fst (restart_job_failed_child e r d))"
| delete: "farm_step d (fst (delete_job e r d))"
| kill: "farm_step d (fst (kill_job e r d))"
| aws_start: "farm_step d (fst (post_aws_start_instance f e i d))"
| reload: "farm_step d (fst (post_reload_client e n d))"
| image: "farm_step d (fst (job_image e u w k up d))"
| mesh: "farm_step d (fst (job_mesh e u w k up d))"
| log_output: "farm_step d (fst (job_output_post k out d))"
| phone_home: "farm_step d (fst (post_client_discover ec2 e dc d))"

inductive_cases farm_stepE: "farm_step d d'"

lemmas farm_views_inv =
  submit_test_job_farm_inv create_api_job_farm_inv restart_job_farm_inv restart_failed_farm_inv
  delete_job_farm_inv kill_job_farm_inv aws_start_farm_inv reload_farm_inv
  job_output_post_farm_inv post_client_discover_farm_inv

lemma farm_step_inv: "farm_step d d' \<Longrightarrow> farm_inv d \<Longrightarrow> farm_inv d'"
  by (induction rule: farm_step.induct)
    (auto intro: farm_views_inv store_job_file_farm_inv simp: job_image_def job_mesh_def)

definition farm_reachable :: "db \<Rightarrow> db \<Rightarrow> bool" where
  "farm_reachable d d' \<longleftrightarrow> farm_step\<^sup>*\<^sup>* d d'"

lemma farm_inv_fresh:
  "wf_table (db_fnodes d) \<Longrightarrow> db_jobs d = t_empty \<Longrightarrow> farm_inv d"
  by (simp add: farm_inv_def)

lemma farm_reachable_inv:
  "farm_step\<^sup>*\<^sup>* d d' \<Longrightarrow> farm_inv d \<Longrightarrow> farm_inv d'"
  by (induction rule: rtranclp_induct) (simp_all add: farm_step_inv)

text \<open>What the invariant says, unfolded: nothing dangles and no job is its own ancestor.\<close>

lemma farm_inv_consistent:
  assumes inv: "farm_inv d"
  shows "distinct (map fst (rows (db_jobs d))) \<and> (k, k) \<notin> (parent_of d)\<^sup>+ \<and>
    (\<forall>k j. t_get (db_jobs d) k = Some j \<longrightarrow>
       (\<forall>p. fj_parent j = Some p \<longrightarrow> p < k \<and> p \<in> t_keys (db_jobs d)) \<and>
       set (fj_dependencies j) \<subseteq> t_keys (db_jobs d) \<and>
       (\<forall>n. fj_node j = Some n \<longrightarrow> n \<in> t_keys (db_fnodes d)))"
proof -
  have "p < k" if "(p, k) \<in> (parent_of d)\<^sup>+" for p
    using that
  proof (induction rule: trancl_induct)
    case (base k)
    then show ?case by (auto simp: parent_of_def dest: farm_inv_parentD(1) [OF inv])
  next
    case (step k k')
    then have "k < k'" by (auto simp: parent_of_def dest: farm_inv_parentD(1) [OF inv])
    with step.IH show ?case by simp
  qed
  then have "(k, k) \<notin> (parent_of d)\<^sup>+" by blast
  then show ?thesis
    using farm_invD(1) [OF inv] farm_invD(3) [OF inv] by (auto simp: wf_table_def job_refs_def)
qed

end
