(* ===== verification/Farm_Correct.thy ===== *)
theory Farm_Correct
  imports Farm_Inv
begin

text \<open>
  What makes the job farm correct: the jobs the database believes to run on a node are those
  the node reports, the scheduler hands out a job of greatest priority among those the node
  may run, references between jobs never dangle, deletion reaches exactly the descendants,
  and only the owner of a job or an administrator changes it. The behaviours in which a
  waiting job is never settled, or a limit is exceeded, are stated as theorems as well.
\<close>

section \<open>A sample farm\<close>

definition sample_env :: env where
  "sample_env = \<lparr>e_now = hours 10, e_user_id = 1,
     e_user = \<lparr>u_username = ''ann'', u_email = ''ann@ea'', u_is_staff = False, u_is_superuser = False,
       u_is_active = True, u_password = [], u_first_name = [], u_last_name = [], u_last_login = None,
       u_date_joined = 0\<rparr>,
     e_slack_hook = False, e_notification_email = False, e_admin_email = ''admin@ea''\<rparr>"

definition sample_node :: farm_node where
  "sample_node = (new_farm_node (hours 10) ''render01'')
     \<lparr>fn_status := ''accepting'', fn_gpu_count := Some 0, fn_code_version := 10\<rparr>"

definition sample_job :: "job_status \<Rightarrow> farm_job" where
  "sample_job st = (new_farm_job (hours 9) ''jobs.archive.ExportTake'' ''ann'')\<lparr>fj_status := st\<rparr>"

definition farm_with :: "(pk \<times> farm_node) list \<Rightarrow> (pk \<times> farm_job) list \<Rightarrow> db" where
  "farm_with ns js = empty_db\<lparr>db_fnodes := \<lparr>rows = ns, next_pk = 100\<rparr>, db_jobs := \<lparr>rows = js, next_pk = 100\<rparr>\<rparr>"

lemmas sample_simps = sample_env_def sample_node_def sample_job_def farm_with_def
  new_farm_job_def new_farm_node_def empty_db_def t_empty_def

section \<open>The database agrees with the report of the node\<close>

lemma active_jobs_listed:
  assumes inv: "farm_inv d" and rep: "dc_running_jobs r = Some running"
    and run: "discover_jobs e r node d = (d', None)"
    and g: "t_get (db_jobs d') k = Some j" and n: "fj_node j = Some node"
    and a: "fj_status j = Running \<or> fj_status j = Terminating"
  shows "k \<in> set running"
proof (rule ccontr)
  assume k: "k \<notin> set running"
  obtain d1 where l: "for_each (finish_job e) (or_else (dc_finished_jobs r) []) (report_running e r d) = (d1, None)"
    and f: "for_each (fail_lost_job e) (lost_jobs node running d1) d1 = (d', None)"
    using run rep by (auto simp: discover_jobs_def split: prod.splits option.splits)
  have "farm_inv d1"
    using finish_jobs_farm_inv [OF report_running_farm_inv [OF inv], of e "or_else (dc_finished_jobs r) []" e r] l
    by simp
  then have wf: "wf_table (db_jobs d1)" by (rule farm_invD)
  from fail_loop [OF f g a] have "t_get (db_jobs d1) k = Some j"
    and out: "\<forall>x \<in> set (lost_jobs node running d1). fst x \<noteq> k" by auto
  then have "(k, j) \<in> set (lost_jobs node running d1)"
    using n a k by (simp add: lost_jobs_def t_filter_iff [OF wf])
  with out show False by auto
qed

text \<open>
  C1: when a client has listed its running jobs and the update of the jobs
  went through, every job that the database still shows as running or terminating on
  that node is one the client listed. No job stays ``running'' on a node that does not run it.
\<close>

theorem discover_reconciles:
  assumes inv: "farm_inv d" and rep: "dc_running_jobs r = Some running"
    and run: "discover_jobs e r node d = (d', None)"
    and g: "t_get (db_jobs d') k = Some j" and n: "fj_node j = Some node"
    and a: "fj_status j = Running \<or> fj_status j = Terminating"
  shows "k \<in> set running"
  using assms by (rule active_jobs_listed)

definition sample_report :: discover where
  "sample_report = \<lparr>dc_status = Some ''accepting'', dc_machine_name = Some ''RENDER01'',
     dc_ip_address = Some ''10.0.0.5'', dc_system = None, dc_system_bits = None, dc_cpu_brand = None,
     dc_cpu_cores = None, dc_cuda_device_count = None, dc_restarted = None, dc_cpu_percent = None,
     dc_mem_used = None, dc_os_version = None, dc_code_version = Some 10, dc_git_version = None,
     dc_client_tags = None, dc_available_jobs = Some [''jobs.archive.ExportTake''],
     dc_running_jobs_progress = None, dc_running_jobs = Some [2], dc_finished_jobs = None\<rparr>"

definition sample_running :: db where
  "sample_running = farm_with [(7, sample_node)]
     [(2, (sample_job Running)\<lparr>fj_node := Some 7\<rparr>), (3, (sample_job Running)\<lparr>fj_node := Some 7\<rparr>)]"

lemma sample_running_inv: "farm_inv sample_running"
  by (rule farm_invI)
    (auto simp: sample_running_def sample_simps wf_table_def t_keys_def job_refs_def t_get_def
      split: if_splits)

lemma sample_running_eval:
  "snd (discover_jobs sample_env sample_report 7 sample_running) = None \<and>
   map_option fj_status (t_get (db_jobs (fst (discover_jobs sample_env sample_report 7 sample_running))) 3) = Some Failed \<and>
   map_option (\<lambda>j. (fj_status j, fj_node j)) (t_get (db_jobs (fst (discover_jobs sample_env sample_report 7 sample_running))) 2) = Some (Running, Some 7)"
  by code_simp

lemma discover_reconciles_witness:
  "2 \<in> set [2 :: pk] \<and> map_option fj_status
     (t_get (db_jobs (fst (discover_jobs sample_env sample_report 7 sample_running))) 3) = Some Failed"
proof -
  let ?r = "discover_jobs sample_env sample_report 7 sample_running"
  obtain j where "t_get (db_jobs (fst ?r)) 2 = Some j" "fj_status j = Running" "fj_node j = Some 7"
    using sample_running_eval by auto
  moreover have "?r = (fst ?r, None)"
    using sample_running_eval by (simp add: prod_eq_iff)
  ultimately have "2 \<in> set [2 :: pk]"
    using discover_reconciles [OF sample_running_inv, of sample_report "[2]" sample_env 7 "fst ?r" 2 j]
      sample_running_eval by (simp add: sample_report_def)
  with sample_running_eval show ?thesis by simp
qed

section \<open>Jobs of a node that fell silent\<close>

text \<open>
  C11: after \<open>cleanup_dead_jobs\<close> ran to its end, no job is running or
  terminating on a node that has not been seen for two hours, and a job that still runs is
  the row it was.
\<close>

theorem cleanup_leaves_no_dead_job:
  assumes inv: "farm_inv d" and run: "cleanup_dead_jobs e d = (d', None)"
    and g: "t_get (db_jobs d') k = Some j"
    and a: "fj_status j = Running \<or> fj_status j = Terminating"
  shows "t_get (db_jobs d) k = Some j \<and> \<not> node_silent e d' j"
proof -
  have f: "for_each (fail_lost_job e) (dead_jobs e d) d = (d', None)"
    using run by (simp add: cleanup_dead_jobs_def)
  from fail_loop [OF f g a] have gd: "t_get (db_jobs d) k = Some j"
    and out: "\<forall>x \<in> set (dead_jobs e d). fst x \<noteq> k" by auto
  have "db_fnodes d' = db_fnodes d"
    using same_but_jobs_frame(1) [OF fail_loop_frame [of d e "dead_jobs e d"]] f by simp
  then have "node_silent e d' j = node_silent e d j"
    by (simp add: node_silent_def split: option.splits)
  moreover have "(k, j) \<in> set (dead_jobs e d)" if "node_silent e d j"
    using that gd a by (simp add: dead_jobs_def t_filter_iff [OF farm_invD(1) [OF inv]])
  ultimately show ?thesis using gd out by fastforce
qed

lemma cleanup_leaves_no_dead_job_witness:
  "\<exists>d' j. cleanup_dead_jobs sample_env sample_running = (d', None) \<and>
     t_get (db_jobs d') 3 = Some j \<and> \<not> node_silent sample_env d' j"
proof -
  let ?r = "cleanup_dead_jobs sample_env sample_running"
  have ev: "snd ?r = None \<and> map_option fj_status (t_get (db_jobs (fst ?r)) 3) = Some Running"
    by code_simp
  then have "?r = (fst ?r, None)" by (simp add: prod_eq_iff)
  moreover obtain j where "t_get (db_jobs (fst ?r)) 3 = Some j" "fj_status j = Running"
    using ev by auto
  ultimately show ?thesis
    using cleanup_leaves_no_dead_job [OF sample_running_inv, of sample_env "fst ?r" 3 j] by metis
qed

section \<open>The scheduler\<close>

text \<open>
  What a job must satisfy to be handed to a node, stated without the queries of the code: it
  is ready, the node is able to run it, no job of its channel runs there, and everything it
  depends on has succeeded.
\<close>

definition light_job :: "farm_job \<Rightarrow> bool" where
  "light_job j \<longleftrightarrow> fj_job_class j \<in> set light_job_classes"

definition candidate ::
    "db \<Rightarrow> pk \<Rightarrow> farm_node \<Rightarrow> string list \<Rightarrow> string list \<Rightarrow> pk \<Rightarrow> farm_job \<Rightarrow> bool" where
  "candidate d n nd available excluded k j \<longleftrightarrow>
     t_get (db_jobs d) k = Some j \<and> fj_status j = Ready \<and>
     fj_req_version j \<le> fn_code_version nd \<and>
     (fj_node j = Some n \<or> fn_active nd \<and> fj_node j = None) \<and>
     fj_job_class j \<in> set available \<and> set (fj_tags j) \<inter> set excluded = {} \<and>
     (fj_req_gpu j \<longrightarrow> (\<exists>g. fn_gpu_count nd = Some g \<and> 0 < g)) \<and>
     (\<forall>k2 j2. t_get (db_jobs d) k2 = Some j2 \<and> fj_status j2 = Running \<and> fj_node j2 = Some n \<longrightarrow>
        light_job j2 \<noteq> light_job j) \<and>
     (\<forall>x \<in> set (fj_dependencies j). \<exists>dep. t_get (db_jobs d) x = Some dep \<and> fj_status dep = Success)"

lemma filter_q_light: "filter_q c j \<longleftrightarrow> light_job j = (c = LightChannel)"
  by (cases c) (simp_all add: light_job_def)

lemma can_run_iff:
  assumes "wf_table (db_jobs d)"
  shows "can_run d n c \<longleftrightarrow> (\<forall>k j. t_get (db_jobs d) k = Some j \<and> fj_status j = Running \<and>
    fj_node j = Some n \<longrightarrow> \<not> filter_q c j)"
  using t_count_0_iff [OF assms, of "\<lambda>_ j. fj_status j = Running \<and> fj_node j = Some n \<and> filter_q c j"]
  by (auto simp: can_run_def nb_running_def max_instances_def)

lemma channel_free_iff:
  assumes "wf_table (db_jobs d)"
  shows "(\<exists>c \<in> set channels. can_run d n c \<and> filter_q c j) \<longleftrightarrow>
    (\<forall>k2 j2. t_get (db_jobs d) k2 = Some j2 \<and> fj_status j2 = Running \<and> fj_node j2 = Some n \<longrightarrow>
       light_job j2 \<noteq> light_job j)"
  by (simp add: channels_def can_run_iff [OF assms] filter_q_light) blast

lemma dependencies_ok_iff:
  assumes "farm_inv d" "t_get (db_jobs d) k = Some j"
  shows "dependencies_ok d j \<longleftrightarrow>
    (\<forall>x \<in> set (fj_dependencies j). \<exists>dep. t_get (db_jobs d) x = Some dep \<and> fj_status dep = Success)"
proof -
  have "\<forall>x \<in> set (fj_dependencies j). \<exists>dep. t_get (db_jobs d) x = Some dep"
    using farm_invD(3) [OF assms] by (auto simp: job_refs_def t_keys_get)
  then show ?thesis by (auto simp: dependencies_ok_def split: option.splits)
qed

lemma candidate_iff:
  assumes inv: "farm_inv d" and g: "fn_gpu_count nd = Some gpu"
  shows "candidate d n nd av ex k j \<longleftrightarrow>
    (k, j) \<in> set (next_jobs d n nd av ex gpu) \<and> dependencies_ok d j"
proof -
  note wf = farm_invD(1) [OF inv]
  have "(k, j) \<in> set (next_jobs d n nd av ex gpu) \<longleftrightarrow>
      t_get (db_jobs d) k = Some j \<and> eligible d n nd av ex k j \<and> (gpu \<le> 0 \<longrightarrow> \<not> fj_req_gpu j)
      \<and> (\<exists>c \<in> set channels. can_run d n c \<and> filter_q c j)"
    by (auto simp: next_jobs_def t_filter_iff [OF wf])
  then show ?thesis
    unfolding candidate_def channel_free_iff [OF wf, symmetric] eligible_def
    using dependencies_ok_iff [OF inv, of k j] g by (fastforce simp: not_le)
qed

lemma find_first_max:
  assumes "sorted_wrt (\<lambda>x y. f y \<le> (f x :: 'k::linorder)) xs" "find P xs = Some x" "y \<in> set xs" "P y"
  shows "f y \<le> f x"
  using assms by (induction xs) (auto split: if_splits)

lemma schedule_found:
  assumes "fn_gpu_count nd = Some gpu" "find (\<lambda>(_, j). dependencies_ok d j) (next_jobs d n nd av ex gpu) = Some (k, j)"
  shows "schedule e n nd av ex d = reserve e n (k, j) d"
proof -
  have "(k, j) \<in> set (next_jobs d n nd av ex gpu)" using assms(2) by (metis find_Some_iff nth_mem)
  moreover have "next_jobs d n nd av ex gpu = []" if "\<forall>c \<in> set channels. \<not> can_run d n c"
    using that by (simp add: next_jobs_def)
  ultimately have "\<exists>c \<in> set channels. can_run d n c" by fastforce
  with assms show ?thesis by (simp add: schedule_def)
qed

text \<open>A reservation changes the row of its job and takes the descendants away.\<close>

lemma reserve_row:
  "\<exists>j'. t_get (db_jobs (reserve e n (k, j) d)) k = Some j' \<and> fj_status j' = Reserved \<and>
     fj_node j' = Some n \<and> fj_start_time j' = Some (e_now e) \<and> fj_exception j' = None \<and>
     fj_params j' = fj_params j \<and> fj_job_class j' = fj_job_class j"
  unfolding reserve_def by (simp add: table_simps)

lemma reserve_others:
  assumes wf: "wf_table (db_jobs d)" and "k2 \<noteq> k"
  shows "map_option fj_status (t_get (db_jobs (reserve e n (k, j) d)) k2) =
    (if (k, k2) \<in> (parent_of d)\<^sup>+ then None else map_option fj_status (t_get (db_jobs d) k2))"
proof -
  have "set (map fst (children d k)) = parent_of d `` {k}"
    unfolding parent_of_def by (force simp: children_def t_filter_def t_get_iff [OF wf])
  then have "k2 \<in> set (cascade d (map fst (children d k))) \<longleftrightarrow> (k, k2) \<in> (parent_of d)\<^sup>+"
    unfolding set_cascade [OF wf] by (auto simp: trancl_unfold_left)
  with assms(2) show ?thesis
    unfolding reserve_def by (simp add: table_simps delete_jobs_get [OF wf] option.map_comp comp_def)
qed

text \<open>
  C8: in a consistent farm the scheduler is sound, makes progress and respects priorities. For a node
  that never reported the number of its GPUs, or when no job is a candidate for the node, the
  database stays as it is. Otherwise a candidate of greatest priority becomes the only job whose
  reservation changes: it is reserved for the node, its start time is now, its exception is cleared,
  and its descendants are gone.
\<close>

theorem schedule_correct:
  assumes inv: "farm_inv d"
  shows "(fn_gpu_count nd = None \<or> (\<forall>k j. \<not> candidate d n nd av ex k j)) \<and> schedule e n nd av ex d = d \<or>
    fn_gpu_count nd \<noteq> None \<and>
    (\<exists>k j. candidate d n nd av ex k j \<and>
      (\<forall>k2 j2. candidate d n nd av ex k2 j2 \<longrightarrow> fj_priority j2 \<le> fj_priority j) \<and>
      (\<exists>j'. t_get (db_jobs (schedule e n nd av ex d)) k = Some j' \<and> fj_status j' = Reserved \<and>
         fj_node j' = Some n \<and> fj_start_time j' = Some (e_now e) \<and> fj_exception j' = None \<and>
         fj_params j' = fj_params j \<and> fj_job_class j' = fj_job_class j) \<and>
      (\<forall>k2. k2 \<noteq> k \<longrightarrow> map_option fj_status (t_get (db_jobs (schedule e n nd av ex d)) k2) =
         (if (k, k2) \<in> (parent_of d)\<^sup>+ then None else map_option fj_status (t_get (db_jobs d) k2))))"
proof (cases "fn_gpu_count nd")
  case None
  then show ?thesis by (simp add: schedule_def)
next
  case gpu: (Some gpu)
  let ?js = "next_jobs d n nd av ex gpu"
  let ?ok = "\<lambda>(_ :: pk, j). dependencies_ok d j"
  have cand: "candidate d n nd av ex k j \<longleftrightarrow> (k, j) \<in> set ?js \<and> dependencies_ok d j" for k j
    by (rule candidate_iff [OF inv gpu])
  show ?thesis
  proof (cases "find ?ok ?js")
    case None
    then have "\<forall>k j. \<not> candidate d n nd av ex k j" by (auto simp: cand find_None_iff)
    moreover have "schedule e n nd av ex d = d" using None gpu by (simp add: schedule_def)
    ultimately show ?thesis by (metis option.distinct(1))
  next
    case (Some kj)
    obtain k j where kj: "kj = (k, j)" by (cases kj)
    from Some have "kj \<in> set ?js" and okj: "?ok kj" by (metis find_Some_iff nth_mem)+
    then have c: "candidate d n nd av ex k j" by (simp add: cand kj)
    have s: "schedule e n nd av ex d = reserve e n (k, j) d"
      using schedule_found [OF gpu] Some kj by simp
    have "sorted_wrt (\<lambda>x y. (\<lambda>(_, j). fj_priority j) y \<le> (\<lambda>(_, j). fj_priority j) x) ?js"
      unfolding next_jobs_def by (rule sorted_order_desc)
    then have max: "fj_priority j2 \<le> fj_priority j" if "candidate d n nd av ex k2 j2" for k2 j2
      using find_first_max [of "\<lambda>(_, j). fj_priority j" ?js ?ok kj "(k2, j2)"] Some that
      by (simp add: cand kj)
    show ?thesis
      unfolding s using gpu c max reserve_row [of e n k j d] reserve_others [OF farm_invD(1) [OF inv], of _ k e n j]
      by (intro disjI2 conjI) (simp, blast)
  qed
qed

definition sample_queue :: db where
  "sample_queue = farm_with [(7, sample_node)]
     [(2, sample_job Ready), (3, (sample_job Ready)\<lparr>fj_priority := 80\<rparr>),
      (4, (sample_job Ready)\<lparr>fj_priority := 90, fj_dependencies := [2]\<rparr>)]"

lemma sample_queue_inv: "farm_inv sample_queue"
  by (rule farm_invI)
    (auto simp: sample_queue_def sample_simps wf_table_def t_keys_def job_refs_def t_get_def
      split: if_splits)

lemma schedule_correct_witness:
  "\<exists>k j. candidate sample_queue 7 sample_node [''jobs.archive.ExportTake''] [] k j \<and>
     (\<exists>j'. t_get (db_jobs (schedule sample_env 7 sample_node [''jobs.archive.ExportTake''] [] sample_queue)) k = Some j'
        \<and> fj_status j' = Reserved)"
proof -
  have "map_option fj_status (t_get (db_jobs
      (schedule sample_env 7 sample_node [''jobs.archive.ExportTake''] [] sample_queue)) 3) = Some Reserved"
    "map_option fj_status (t_get (db_jobs sample_queue) 3) = Some Ready"
    by code_simp+
  then have "schedule sample_env 7 sample_node [''jobs.archive.ExportTake''] [] sample_queue \<noteq> sample_queue"
    by auto
  moreover have "fn_gpu_count sample_node = Some 0" by (simp add: sample_node_def)
  ultimately show ?thesis
    using schedule_correct [OF sample_queue_inv, of sample_node 7 "[''jobs.archive.ExportTake'']" "[]" sample_env]
    by blast
qed

section \<open>Children and their parent\<close>

text \<open>The children of a job by status.\<close>

definition child_keys :: "db \<Rightarrow> pk \<Rightarrow> pk set" where
  "child_keys d p = {k. \<exists>j. t_get (db_jobs d) k = Some j \<and> fj_parent j = Some p}"

definition child_keys_in :: "db \<Rightarrow> pk \<Rightarrow> job_status \<Rightarrow> pk set" where
  "child_keys_in d p st = {k. \<exists>j. t_get (db_jobs d) k = Some j \<and> fj_parent j = Some p \<and> fj_status j = st}"

lemma length_children: "wf_table (db_jobs d) \<Longrightarrow> length (children d p) = card (child_keys d p)"
  using t_count_card [of "db_jobs d" "\<lambda>_ j. fj_parent j = Some p"]
  by (simp add: children_def child_keys_def t_count_def)

lemma child_count_card:
  assumes "wf_table (db_jobs d)"
  shows "child_count d p st = card (child_keys_in d p st)"
proof -
  have "child_count d p st = t_count (\<lambda>_ j. fj_parent j = Some p \<and> fj_status j = st) (db_jobs d)"
    by (simp add: child_count_def children_def t_count_def t_filter_def case_prod_beta' conj_commute)
  then show ?thesis by (simp add: t_count_card [OF assms] child_keys_in_def)
qed

lemma all_finished_iff:
  assumes wf: "wf_table (db_jobs d)"
  shows "child_count d p Success + child_count d p Failed = length (children d p) \<longleftrightarrow>
    child_keys d p = child_keys_in d p Success \<union> child_keys_in d p Failed"
proof -
  let ?all = "\<forall>k j. t_get (db_jobs d) k = Some j \<and> fj_parent j = Some p \<longrightarrow>
    fj_status j = Success \<or> fj_status j = Failed"
  have "(\<forall>(k, j) \<in> set (children d p). fj_status j = Success \<or> fj_status j = Failed) \<longleftrightarrow> ?all"
    using children_iff [OF wf, of _ _ p] by fastforce
  moreover have "child_keys d p = child_keys_in d p Success \<union> child_keys_in d p Failed" if ?all
    using that by (auto simp: child_keys_def child_keys_in_def)
  moreover have ?all if eq: "child_keys d p = child_keys_in d p Success \<union> child_keys_in d p Failed"
  proof (intro allI impI)
    fix k j assume kj: "t_get (db_jobs d) k = Some j \<and> fj_parent j = Some p"
    then have "k \<in> child_keys d p" by (auto simp: child_keys_def)
    then have "k \<in> child_keys_in d p Success \<union> child_keys_in d p Failed" unfolding eq .
    with kj show "fj_status j = Success \<or> fj_status j = Failed" by (auto simp: child_keys_in_def)
  qed
  ultimately show ?thesis unfolding child_counts_all by blast
qed

lemma child_count_pos:
  assumes wf: "wf_table (db_jobs d)"
  shows "0 < child_count d p st \<longleftrightarrow> child_keys_in d p st \<noteq> {}"
proof -
  have "child_keys_in d p st \<subseteq> t_keys (db_jobs d)"
    by (auto simp: child_keys_in_def intro: t_get_keyI)
  then have "finite (child_keys_in d p st)"
    by (rule finite_subset) (simp add: t_keys_def)
  then show ?thesis by (simp add: child_count_card [OF wf] card_gt_0_iff)
qed

lemma children_pos:
  assumes wf: "wf_table (db_jobs d)"
  shows "0 < length (children d p) \<longleftrightarrow> child_keys d p \<noteq> {}"
proof -
  have "child_keys d p \<subseteq> t_keys (db_jobs d)" by (auto simp: child_keys_def intro: t_get_keyI)
  then have "finite (child_keys d p)" by (rule finite_subset) (simp add: t_keys_def)
  then show ?thesis by (simp add: length_children [OF wf] card_gt_0_iff)
qed

lemma notification_no_scan:
  "fj_ext_scan_assets j = None \<Longrightarrow> snd (job_notification e k j d) = None"
  by (simp add: job_notification_def notif_text_def Let_def split: option.splits)

lemma parent_finished_scan [simp]:
  "fj_ext_scan_assets (parent_finished e d p job) = fj_ext_scan_assets job"
  "fj_progress (parent_finished e d p job) = fj_progress (parent_progress d p job)"
  by (simp_all add: parent_finished_def parent_progress_def)

text \<open>
  C14: \<open>UpdateParentJob\<close> on a waiting job that has no parent itself and no scan asset. If it has
  children and all of them have finished it becomes failed when a child failed and successful
  otherwise, and ends now; if not it keeps waiting. Its progress counts the finished children,
  and no other job changes.
\<close>

theorem update_parent_correct:
  assumes wf: "wf_table (db_jobs d)" and g: "t_get (db_jobs d) p = Some job"
    and w: "fj_status job = Waiting" and root: "fj_parent job = None"
    and scan: "fj_ext_scan_assets job = None"
  shows "\<exists>d' j'. UpdateParentJob e p d = (d', None) \<and> t_get (db_jobs d') p = Some j' \<and>
    fj_progress j' = Some (progress_text (card (child_keys_in d p Success))
       (card (child_keys_in d p Failed)) (card (child_keys d p))) \<and>
    (if child_keys d p \<noteq> {} \<and> child_keys d p = child_keys_in d p Success \<union> child_keys_in d p Failed
     then fj_status j' = (if child_keys_in d p Failed \<noteq> {} then Failed else Success) \<and>
       fj_end_time j' = Some (e_now e)
     else fj_status j' = Waiting \<and> fj_end_time j' = fj_end_time job) \<and>
    (\<forall>k. k \<noteq> p \<longrightarrow> t_get (db_jobs d') k = t_get (db_jobs d) k)"
proof (cases "completes d p")
  case True
  obtain d1 where n: "job_notification e p (parent_finished e d p job) d = (d1, None)"
    using notification_no_scan [of "parent_finished e d p job" e p d] scan
    by (cases "job_notification e p (parent_finished e d p job) d") auto
  then have eq: "db_jobs d1 = db_jobs d" by (rule job_notification_jobsD)
  have u: "UpdateParentJob e p d = (save_job (e_now e) p (parent_finished e d p job) d1, None)"
    using UpdateParentJob_root [OF True g root, of e] n by simp
  have c: "child_keys d p \<noteq> {}" "child_keys d p = child_keys_in d p Success \<union> child_keys_in d p Failed"
    using True completes_iff [of d p] children_pos [OF wf, of p] all_finished_iff [OF wf, of p] by blast+
  have f: "0 < child_count d p Failed \<longleftrightarrow> child_keys_in d p Failed \<noteq> {}"
    by (rule child_count_pos [OF wf])
  show ?thesis
    using c f unfolding u
    by (simp add: table_simps eq parent_progress_def child_count_card [OF wf] length_children [OF wf])
next
  case False
  then have u: "UpdateParentJob e p d = (save_job (e_now e) p (parent_progress d p job) d, None)"
    using g w by (simp add: UpdateParentJob_not_completing)
  have c: "\<not> (child_keys d p \<noteq> {} \<and> child_keys d p = child_keys_in d p Success \<union> child_keys_in d p Failed)"
    using False g w by (simp add: completes_iff children_pos [OF wf, symmetric] all_finished_iff [OF wf, symmetric])
  show ?thesis
    using w unfolding u if_not_P [OF c]
    by (simp add: table_simps parent_progress_def child_count_card [OF wf] length_children [OF wf])
qed

definition sample_family :: db where
  "sample_family = farm_with []
     [(1, sample_job Waiting), (2, (sample_job Success)\<lparr>fj_parent := Some 1\<rparr>),
      (3, (sample_job Failed)\<lparr>fj_parent := Some 1\<rparr>)]"

lemma sample_family_inv: "farm_inv sample_family"
  by (rule farm_invI)
    (auto simp: sample_family_def sample_simps wf_table_def t_keys_def job_refs_def t_get_def
      split: if_splits)

lemma update_parent_correct_witness:
  "\<exists>d' j'. UpdateParentJob sample_env 1 sample_family = (d', None) \<and> t_get (db_jobs d') 1 = Some j'"
proof -
  have "t_get (db_jobs sample_family) 1 = Some (sample_job Waiting)"
    by (simp add: sample_family_def farm_with_def t_get_def)
  from update_parent_correct [OF farm_invD(1) [OF sample_family_inv] this, of sample_env] show ?thesis
    by (auto simp: sample_job_def new_farm_job_def)
qed

text \<open>
  C25: in a consistent farm, a waiting job inside a waiting job, when every other child of the
  outer job has finished already. When the inner job completes, its own parent is updated before
  the inner job has been saved, so the update counts a waiting child: afterwards every child of
  the outer job has finished, and the outer job still waits.
\<close>

theorem nested_parent_stays_waiting:
  assumes inv: "farm_inv d" and c: "completes d p" and g: "t_get (db_jobs d) p = Some job"
    and pg: "fj_parent job = Some q" and gq: "t_get (db_jobs d) q = Some outer"
    and w: "fj_status outer = Waiting"
    and others: "\<forall>k \<in> child_keys d q - {p}. k \<in> child_keys_in d q Success \<union> child_keys_in d q Failed"
  shows "\<exists>d' outer'. UpdateParentJob e p d = (d', None) \<and>
    t_get (db_jobs d') q = Some outer' \<and> fj_status outer' = Waiting \<and>
    child_keys d' q \<noteq> {} \<and> child_keys d' q = child_keys_in d' q Success \<union> child_keys_in d' q Failed"
proof -
  have nc: "\<not> completes d q" using c g pg by (rule grandparent_not_completing)
  then have uq: "UpdateParentJob e q d = (save_job (e_now e) q (parent_progress d q outer) d, None)"
    using gq w by (simp add: UpdateParentJob_not_completing)
  let ?d1 = "save_job (e_now e) q (parent_progress d q outer) d"
  let ?d' = "save_job (e_now e) p (parent_finished e d p job) ?d1"
  have u: "UpdateParentJob e p d = (?d', None)"
    using UpdateParentJob_nested [OF c g pg, of e] uq by simp
  have qp: "q < p" using farm_inv_parentD(1) [OF inv g pg] .
  have rows: "t_get (db_jobs ?d') k =
      (if k = p then Some (stamp (e_now e) ?d1 p (parent_finished e d p job))
       else if k = q then Some (stamp (e_now e) d q (parent_progress d q outer))
       else t_get (db_jobs d) k)" for k
    by (simp add: table_simps)
  have fin: "fj_status j \<in> {Success, Failed}"
    if "t_get (db_jobs ?d') k = Some j" "fj_parent j = Some q" for k j
  proof (cases "k = p \<or> k = q")
    case True
    then show ?thesis
      using that qp farm_inv_parentD(1) [OF inv gq] by (auto simp: rows split: if_splits)
  next
    case False
    with that have kj: "t_get (db_jobs d) k = Some j" by (simp add: rows)
    with False that(2) have "k \<in> child_keys d q - {p}" by (auto simp: child_keys_def)
    with others have "k \<in> child_keys_in d q Success \<union> child_keys_in d q Failed" by blast
    with kj show ?thesis by (auto simp: child_keys_in_def)
  qed
  have "p \<in> child_keys ?d' q" using pg by (auto simp: child_keys_def rows)
  moreover have "child_keys ?d' q = child_keys_in ?d' q Success \<union> child_keys_in ?d' q Failed"
    using fin by (auto simp: child_keys_def child_keys_in_def)
  moreover have "fj_status (stamp (e_now e) d q (parent_progress d q outer)) = Waiting"
    using w by simp
  ultimately show ?thesis
    unfolding u using rows [of q] qp by auto
qed

definition sample_nested :: db where
  "sample_nested = farm_with []
     [(1, sample_job Waiting), (2, (sample_job Waiting)\<lparr>fj_parent := Some 1\<rparr>),
      (3, (sample_job Success)\<lparr>fj_parent := Some 2\<rparr>)]"

lemma sample_nested_inv: "farm_inv sample_nested"
  by (rule farm_invI)
    (auto simp: sample_nested_def sample_simps wf_table_def t_keys_def job_refs_def t_get_def
      split: if_splits)

lemma sample_nested_get: "t_get (db_jobs sample_nested) k =
    (if k = 1 then Some (sample_job Waiting)
     else if k = 2 then Some ((sample_job Waiting)\<lparr>fj_parent := Some 1\<rparr>)
     else if k = 3 then Some ((sample_job Success)\<lparr>fj_parent := Some 2\<rparr>) else None)"
  by (simp add: sample_nested_def farm_with_def t_get_def)

lemma nested_parent_stays_waiting_witness:
  "\<exists>d' outer'. UpdateParentJob sample_env 2 sample_nested = (d', None) \<and>
     t_get (db_jobs d') 1 = Some outer' \<and> fj_status outer' = Waiting \<and>
     child_keys d' 1 = child_keys_in d' 1 Success \<union> child_keys_in d' 1 Failed"
proof -
  have 1: "completes sample_nested 2" by code_simp
  have 2: "t_get (db_jobs sample_nested) 2 = Some ((sample_job Waiting)\<lparr>fj_parent := Some 1\<rparr>)"
    "t_get (db_jobs sample_nested) 1 = Some (sample_job Waiting)"
    by (simp_all add: sample_nested_get)
  have 3: "child_keys sample_nested 1 = {2}"
    by (auto simp: child_keys_def sample_nested_get sample_job_def new_farm_job_def split: if_splits)
  have "fj_parent ((sample_job Waiting)\<lparr>fj_parent := Some 1\<rparr>) = Some 1"
    "fj_status (sample_job Waiting) = Waiting"
    "\<forall>k \<in> child_keys sample_nested 1 - {2}. k \<in> child_keys_in sample_nested 1 Success \<union> child_keys_in sample_nested 1 Failed"
    by (simp_all add: sample_job_def 3 [simplified])
  from nested_parent_stays_waiting [OF sample_nested_inv 1 2(1) this(1) 2(2) this(2,3), of sample_env]
  show ?thesis by blast
qed

text \<open>
  A job that launches its children through the interface and only then reports that it
  yields (as \<open>yieldToChildren\<close> does, with an empty list) is set to waiting even when all
  its children have finished in the meantime: it waits, all its children are finished, and no update
  of it is left to come.
\<close>

theorem late_yield_waits:
  assumes inv: "farm_inv d" and f: "fr_job_id f = Some k" "fr_children f = Some []"
    and g: "t_get (db_jobs d) k = Some j" "fj_parent j = None"
    and fin: "child_keys d k \<noteq> {}" "child_keys d k = child_keys_in d k Success \<union> child_keys_in d k Failed"
  shows "\<exists>d' j'. finish_job e f d = (d', None) \<and> t_get (db_jobs d') k = Some j' \<and> fj_status j' = Waiting \<and>
    child_keys d' k \<noteq> {} \<and> child_keys d' k = child_keys_in d' k Success \<union> child_keys_in d' k Failed \<and>
    (\<forall>i. i \<noteq> k \<longrightarrow> t_get (db_jobs d') i = t_get (db_jobs d) i)"
proof -
  let ?job = "j\<lparr>fj_progress := Some (or_else (fr_progress f) []), fj_status := Waiting\<rparr>"
  let ?d = "save_job (e_now e) k ?job d"
  have "onJobChanged e k ?job ?d = (?d, None)"
    using g(2) by (simp add: onJobChanged_def job_notification_def)
  then have run: "finish_job e f d = (?d, None)"
    using f g(1) by (simp add: finish_job_def finished_job_def)
  have rows: "t_get (db_jobs ?d) i = (if i = k then Some (stamp (e_now e) d k ?job) else t_get (db_jobs d) i)" for i
    by (simp add: table_simps)
  have "child_keys ?d k = child_keys d k" "child_keys_in ?d k st = child_keys_in d k st" for st
    using g by (auto simp: child_keys_def child_keys_in_def rows split: if_splits)
  with fin run rows show ?thesis by (intro exI [of _ ?d] exI [of _ "stamp (e_now e) d k ?job"]) simp
qed

definition sample_yielding :: db where
  "sample_yielding = farm_with []
     [(1, sample_job Running), (2, (sample_job Success)\<lparr>fj_parent := Some 1\<rparr>)]"

lemma sample_yielding_inv: "farm_inv sample_yielding"
  by (rule farm_invI)
    (auto simp: sample_yielding_def sample_simps wf_table_def t_keys_def job_refs_def t_get_def
      split: if_splits)

lemma late_yield_waits_witness:
  "\<exists>d' j'. finish_job sample_env \<lparr>fr_job_id = Some 1, fr_progress = None, fr_children = Some [],
       fr_success = None, fr_exception = None\<rparr> sample_yielding = (d', None) \<and>
     t_get (db_jobs d') 1 = Some j' \<and> fj_status j' = Waiting"
proof -
  have rows: "t_get (db_jobs sample_yielding) k = (if k = 1 then Some (sample_job Running)
      else if k = 2 then Some ((sample_job Success)\<lparr>fj_parent := Some 1\<rparr>) else None)" for k
    by (simp add: sample_yielding_def farm_with_def t_get_def)
  have sj: "fj_parent (sample_job st) = None" "fj_status (sample_job st) = st" for st
    by (simp_all add: sample_job_def new_farm_job_def)
  have "child_keys sample_yielding 1 = {2}" "child_keys_in sample_yielding 1 st = (if st = Success then {2} else {})" for st
    by (auto simp: child_keys_def child_keys_in_def rows sj split: if_splits)
  then show ?thesis
    using late_yield_waits [OF sample_yielding_inv, of "\<lparr>fr_job_id = Some 1, fr_progress = None, fr_children = Some [],
       fr_success = None, fr_exception = None\<rparr>" 1 "sample_job Running" sample_env]
    by (simp add: rows sj) blast
qed

section \<open>Every run of the server\<close>

text \<open>
  Start from a farm without jobs and serve any requests in any order,
  failing ones included. Then keys are unique, every parent, dependency and node of a job
  is in the database, parents are older than their children, and no job is its own ancestor.
\<close>

theorem farm_reachable_consistent:
  assumes run: "farm_step\<^sup>*\<^sup>* d0 d" and nodes: "wf_table (db_fnodes d0)" and jobs: "db_jobs d0 = t_empty"
  shows "distinct (map fst (rows (db_jobs d))) \<and> (k, k) \<notin> (parent_of d)\<^sup>+ \<and>
    (\<forall>k j. t_get (db_jobs d) k = Some j \<longrightarrow>
       (\<forall>p. fj_parent j = Some p \<longrightarrow> p < k \<and> p \<in> t_keys (db_jobs d)) \<and>
       set (fj_dependencies j) \<subseteq> t_keys (db_jobs d) \<and>
       (\<forall>n. fj_node j = Some n \<longrightarrow> n \<in> t_keys (db_fnodes d)))"
  by (rule farm_inv_consistent [OF farm_reachable_inv [OF run farm_inv_fresh [OF nodes jobs]]])

lemma farm_reachable_consistent_witness:
  "\<exists>d. farm_step (farm_with [(7, sample_node)] []) d \<and> (1, 1) \<notin> (parent_of d)\<^sup>+"
proof -
  let ?d0 = "(farm_with [(7, sample_node)] [])\<lparr>db_jobs := t_empty\<rparr>"
  have eq: "farm_with [(7, sample_node)] [] = ?d0\<lparr>db_jobs := \<lparr>rows = [], next_pk = 100\<rparr>\<rparr>"
    by (simp add: farm_with_def)
  have "wf_table (db_fnodes ?d0)" by (simp add: farm_with_def wf_table_def t_keys_def)
  then have c: "(1, 1) \<notin> (parent_of d)\<^sup>+" if "farm_step\<^sup>*\<^sup>* ?d0 d" for d
    using farm_reachable_consistent [OF that, of 1] by simp
  have "farm_step (farm_with [(7, sample_node)] [])
      (fst (submit_test_job sample_env [] (farm_with [(7, sample_node)] [])))"
    by (rule farm_step.submit)
  moreover have "submit_test_job sample_env [] d = (d, Http 403)" for d
    by (simp add: submit_test_job_def sample_env_def)
  ultimately have step: "farm_step (farm_with [(7, sample_node)] []) (farm_with [(7, sample_node)] [])"
    by (metis fst_conv)
  have "(1, 1) \<notin> (parent_of (farm_with [(7, sample_node)] []))\<^sup>+"
  proof -
    have "parent_of (farm_with [(7, sample_node)] []) = parent_of ?d0"
      by (simp add: parent_of_def farm_with_def t_get_def t_empty_def)
    with c [of ?d0] show ?thesis by simp
  qed
  with step show ?thesis by blast
qed

section \<open>The node of a request\<close>

text \<open>
  The node a request is about is the first one the view finds under the name of the machine. It is
  pinned here by name, over the whole request: registering finds or creates it, and nothing that
  the view does later changes which node is found under that name.
\<close>

definition machine_node :: "db \<Rightarrow> string \<Rightarrow> pk option" where
  "machine_node d name = map_option fst (case farm_nodes_named d name of [] \<Rightarrow> None | x # _ \<Rightarrow> Some x)"

definition node_names :: "db \<Rightarrow> (pk \<times> string) list" where
  "node_names d = map (\<lambda>(k, n). (k, fn_machine_name n)) (rows (db_fnodes d))"

definition keeps_nodes :: "db \<Rightarrow> db \<Rightarrow> bool" where
  "keeps_nodes d d' \<longleftrightarrow> (\<forall>name k. machine_node d name = Some k \<longrightarrow> machine_node d' name = Some k)"

lemma map_insort_key: "map g (insort_key (\<lambda>x. f (g x)) x xs) = insort_key f (g x) (map g xs)"
  by (induction xs) simp_all

lemma map_sort_key: "map g (sort_key (\<lambda>x. f (g x)) xs) = sort_key f (map g xs)"
  by (induction xs) (simp_all add: map_insort_key)

lemma farm_nodes_named_names:
  "map (\<lambda>(k, n). (k, fn_machine_name n)) (farm_nodes_named d name) =
     sort_key snd (filter (\<lambda>(_, x). iexact x name) (node_names d))"
  using map_sort_key [of "\<lambda>(k, n). (k, fn_machine_name n)" snd
      "t_filter (\<lambda>_ n. iexact (fn_machine_name n) name) (db_fnodes d)"]
  by (simp add: farm_nodes_named_def node_names_def t_filter_def filter_map comp_def case_prod_beta')

lemma machine_node_names:
  "machine_node d name = map_option fst
     (case sort_key snd (filter (\<lambda>(_, x). iexact x name) (node_names d)) of [] \<Rightarrow> None | x # _ \<Rightarrow> Some x)"
  unfolding farm_nodes_named_names [symmetric] machine_node_def by (auto split: list.splits)

lemma machine_node_cong: "node_names d' = node_names d \<Longrightarrow> machine_node d' = machine_node d"
  by (rule ext) (simp add: machine_node_names)

lemma machine_node_key:
  assumes "machine_node d name = Some k"
  shows "k \<in> t_keys (db_fnodes d)"
proof -
  from assms obtain n xs where "farm_nodes_named d name = (k, n) # xs"
    by (auto simp: machine_node_def split: list.splits)
  then have "(k, n) \<in> set (farm_nodes_named d name)" by simp
  then show ?thesis by (force simp: farm_nodes_named_def t_filter_def t_keys_def)
qed

lemma keeps_nodes_refl [simp, intro]: "keeps_nodes d d"
  by (simp add: keeps_nodes_def)

lemma keeps_nodes_trans: "keeps_nodes d d' \<Longrightarrow> keeps_nodes d' d'' \<Longrightarrow> keeps_nodes d d''"
  by (simp add: keeps_nodes_def)

lemma keeps_nodes_same [intro]:
  assumes "db_fnodes d' = db_fnodes d"
  shows "keeps_nodes d d'"
  using machine_node_cong [of d' d] assms by (simp add: keeps_nodes_def node_names_def)

text \<open>A new node of a name that no node has is found under that name, and under no other.\<close>

lemma create_farm_node_named:
  assumes none: "farm_nodes_named d name = []" and name: "fn_machine_name n = name"
    and c: "create_farm_node n d = (i, d')"
  shows "machine_node d' name = Some i" "keeps_nodes d d'"
proof -
  have names: "node_names d' = node_names d @ [(i, name)]"
    using c name by (auto simp: create_farm_node_def t_create_def node_names_def Let_def)
  have "map (\<lambda>(k, n). (k, fn_machine_name n)) (farm_nodes_named d name) = []" using none by simp
  then have no: "filter (\<lambda>(_, x). iexact x name) (node_names d) = []"
    unfolding farm_nodes_named_names by (metis length_0_conv length_sort)
  then show "machine_node d' name = Some i" by (simp add: machine_node_names names)
  show "keeps_nodes d d'"
    unfolding keeps_nodes_def
  proof (intro allI impI)
    fix m k assume m: "machine_node d m = Some k"
    have "\<not> iexact name m"
    proof
      assume nm: "iexact name m"
      then have "iexact x m = iexact x name" for x by (meson iexact_trans iexact_sym)
      with no m show False by (simp add: machine_node_names)
    qed
    then have "machine_node d' m = machine_node d m" by (simp add: machine_node_names names)
    with m show "machine_node d' m = Some k" by simp
  qed
qed

lemma make_sure_node_exists_keeps: "keeps_nodes d (snd (make_sure_node_exists e name d))"
proof (cases "farm_nodes_named d name")
  case Nil
  then show ?thesis
    using create_farm_node_named(2) [OF Nil, of "new_farm_node (e_now e) name"]
    by (cases "create_farm_node (new_farm_node (e_now e) name) d")
      (simp add: make_sure_node_exists_def new_farm_node_def)
qed (auto simp: make_sure_node_exists_def)

lemma create_child_keeps: "keeps_nodes d (fst (create_child e k j info d))"
proof (cases info)
  case (ChildPair c p)
  then show ?thesis by (auto simp: create_child_def frame_simps)
next
  case (ChildDict c p nm)
  define d1 where "d1 = (case nm of None \<Rightarrow> d | Some name \<Rightarrow> snd (make_sure_node_exists e name d))"
  have "keeps_nodes d d1" by (simp add: d1_def make_sure_node_exists_keeps split: option.split)
  moreover have "db_fnodes (fst (create_child e k j info d)) = db_fnodes d1"
    unfolding ChildDict create_child_def d1_def
    by (cases nm; cases c; cases p) (simp_all add: frame_simps case_prod_beta' Let_def)
  ultimately show ?thesis by (blast intro: keeps_nodes_trans)
qed

lemma finish_job_keeps: "keeps_nodes d (fst (finish_job e f d))"
proof -
  have children: "keeps_nodes d (fst (for_each (create_child e k j) infos d))" for k j infos
    by (rule for_each_rel) (auto intro: keeps_nodes_trans create_child_keeps)
  have fj: "keeps_nodes d (fst (finished_job e f k j d))" for k j
    using children [of k j "the (fr_children f)"]
    by (auto simp: finished_job_def split: option.splits prod.splits)
  have changed: "db_fnodes (fst (onJobChanged e k j (save_job (e_now e) k j d1))) = db_fnodes d1" for k j d1
    using same_but_jobs_frame(1) [OF parents_only_frame(1) [OF parents_only_onJobChanged]]
    by (simp add: frame_simps)
  show ?thesis
  proof (cases "\<exists>k j0. fr_job_id f = Some k \<and> t_get (db_jobs d) k = Some j0")
    case True
    then obtain k j0 where id: "fr_job_id f = Some k" and g: "t_get (db_jobs d) k = Some j0" by blast
    let ?j = "j0\<lparr>fj_progress := Some (or_else (fr_progress f) [])\<rparr>"
    obtain d1 z where z: "finished_job e f k ?j d = (d1, z)" by (cases "finished_job e f k ?j d")
    have d1: "keeps_nodes d d1" using fj [of k ?j] z by simp
    have "fst (finish_job e f d) = (case z of Inl _ \<Rightarrow> d1
        | Inr j' \<Rightarrow> fst (onJobChanged e k j' (save_job (e_now e) k j' d1)))"
      using id g z by (cases z) (simp_all add: finish_job_def split: prod.splits option.splits py_exn.splits)
    then have "db_fnodes (fst (finish_job e f d)) = db_fnodes d1"
      using changed by (simp split: sum.splits)
    with d1 show ?thesis by (blast intro: keeps_nodes_trans)
  qed (auto simp: finish_job_def split: option.splits)
qed

lemma discover_jobs_keeps: "keeps_nodes d (fst (discover_jobs e r n d))"
proof -
  let ?s = "report_running e r d"
  obtain d1 x where l: "for_each (finish_job e) (or_else (dc_finished_jobs r) []) ?s = (d1, x)"
    by (cases "for_each (finish_job e) (or_else (dc_finished_jobs r) []) ?s")
  have "db_fnodes (fold (mark_running e) jps d) = db_fnodes d" for jps
    by (induction jps arbitrary: d) (auto simp: mark_running_def frame_simps)
  then have "db_fnodes ?s = db_fnodes d"
    by (auto simp: report_running_def frame_simps split: option.splits)
  moreover have "keeps_nodes ?s (fst (for_each (finish_job e) fs ?s))" for fs
    by (rule for_each_rel) (auto intro: keeps_nodes_trans finish_job_keeps)
  ultimately have d1: "keeps_nodes d d1" using l keeps_nodes_trans by (metis fst_conv keeps_nodes_same)
  have "db_fnodes (fst (discover_jobs e r n d)) = db_fnodes d1"
    using l same_but_jobs_frame(1) [OF fail_loop_frame [of d1 e]]
    by (auto simp: discover_jobs_def split: option.splits)
  with d1 show ?thesis by (blast intro: keeps_nodes_trans)
qed

lemma schedule_frame: "db_fnodes (schedule e n nd av ex d) = db_fnodes d"
  by (auto simp: schedule_def reserve_def Let_def frame_simps split: option.splits)

lemma discover_dispatch_frame: "db_fnodes (fst (discover_dispatch e n nd av ex ks d)) = db_fnodes d"
  by (simp add: discover_dispatch_def Let_def schedule_frame)

lemma save_farm_node_names:
  assumes wf: "wf_table (db_fnodes d)" and g: "t_get (db_fnodes d) k = Some n0"
    and same: "fn_machine_name n = fn_machine_name n0"
  shows "node_names (save_farm_node now k n d) = node_names d"
proof -
  have "x = n0" if "(k, x) \<in> set (rows (db_fnodes d))" for x
    using that g by (simp add: t_get_iff [OF wf, symmetric])
  moreover have "k \<in> t_keys (db_fnodes d)" using g by (rule t_get_keyI)
  ultimately show ?thesis
    using g same by (auto simp: node_names_def save_farm_node_def t_save_def)
qed

lemma discover_register_node:
  assumes inv: "farm_inv d" and rg: "discover_register ec2 e r st d = (d', Inr (i, nd, tags))"
  shows "\<exists>name. dc_machine_name r = Some name \<and> machine_node d' name = Some i"
proof -
  obtain k n0 b where fn: "find_node e r d = Inr (k, n0, b)"
    using rg by (auto simp: discover_register_def split: sum.splits)
  then obtain name where name: "dc_machine_name r = Some name"
    by (auto simp: find_node_def split: option.splits)
  obtain d1 n1 where ua: "update_aws ec2 e b k (apply_report r n0) d = (d1, Inr n1)"
    using rg fn by (auto simp: discover_register_def split: prod.splits sum.splits)
  obtain i' n2 d2 where fin: "finish_node e r st k n1 d1 = (i', n2, d2)"
    by (cases "finish_node e r st k n1 d1") auto
  obtain ts d3 where ut: "update_tags r i' n2 d2 = (ts, d3)" by (cases "update_tags r i' n2 d2")
  have "discover_register ec2 e r st d = (d3, Inr (i', n2, ts))"
    using fn ua fin ut by (simp add: discover_register_def)
  then have eq: "d' = d3" "i = i'" using rg by simp_all
  have d1: "db_fnodes d1 = db_fnodes d" using update_aws_frame(2) [of ec2 e b k "apply_report r n0" d] ua by simp
  have nm: "fn_machine_name n1 = fn_machine_name n0"
    using ua by (auto simp: update_aws_def apply_report_def Let_def split: if_splits sum.splits option.splits)
  have d3: "node_names d3 = node_names d2"
    using ut by (auto simp: update_tags_def set_node_tags_def t_update_def node_names_def Let_def split: option.splits)
  have "machine_node d2 name = Some i'"
  proof (cases "farm_nodes_named d name")
    case Nil
    then have k: "k = None" "fn_machine_name n0 = name"
      using fn name by (auto simp: find_node_def new_farm_node_def split: option.splits)
    have "farm_nodes_named d1 name = []" using Nil d1 by (simp add: farm_nodes_named_def)
    moreover have "fn_machine_name n2 = name" "create_farm_node n2 d1 = (i', d2)"
      using k nm fin by (auto simp: finish_node_def Let_def split: prod.splits)
    ultimately show ?thesis by (rule create_farm_node_named(1))
  next
    case (Cons kn xs)
    obtain k0 m0 where kn: "kn = (k0, m0)" by (cases kn)
    then have k: "k = Some k0" "fn_machine_name n0 = fn_machine_name m0"
      using fn name Cons by (auto simp: find_node_def split: option.splits)
    have "(k0, m0) \<in> set (farm_nodes_named d name)" using Cons kn by simp
    then have g: "t_get (db_fnodes d) k0 = Some m0"
      using farm_invD(2) [OF inv] by (auto simp: farm_nodes_named_def t_filter_iff)
    have "node_names d2 = node_names d1 \<and> i' = k0"
      using save_farm_node_names [of d1 k0 m0] farm_invD(2) [OF inv] g d1 k nm fin
      by (auto simp: finish_node_def Let_def)
    then have "node_names d2 = node_names d" "i' = k0" using d1 by (simp_all add: node_names_def)
    then show ?thesis
      using machine_node_cong [of d2 d] Cons kn by (simp add: machine_node_def)
  qed
  with name eq d3 machine_node_cong show ?thesis by metis
qed

text \<open>The node that an answered request works for is the one of the machine that sent it.\<close>

lemma request_node:
  assumes "farm_inv d1" "discover_register ec2 e r st d1 = (d2, Inr (n, nd, tags))"
    and "discover_jobs e r n d2 = (d3, None)"
    and "discover_dispatch e n nd av ex ks d3 = (d', reply)"
  obtains name where "dc_machine_name r = Some name" "machine_node d' name = Some n"
proof -
  obtain name where name: "dc_machine_name r = Some name" "machine_node d2 name = Some n"
    using discover_register_node [OF assms(1,2)] by blast
  have "keeps_nodes d2 d3" using discover_jobs_keeps [of d2 e r n] assms(3) by simp
  moreover have "db_fnodes d' = db_fnodes d3"
    using discover_dispatch_frame [of e n nd av ex ks d3] assms(4) by simp
  ultimately have "machine_node d' name = Some n"
    using name(2) by (metis keeps_nodes_def keeps_nodes_same)
  with name(1) that show thesis by blast
qed

section \<open>What a client is sent\<close>

text \<open>The parts of a request that was answered, with the invariant between them.\<close>

lemma post_client_discoverE:
  assumes inv: "farm_inv d" and post: "post_client_discover ec2 e r d = (d', Json 200 reply)"
  obtains st d1 d2 n nd tags d3 where
    "cleanup_dead_jobs e d = (d1, None)" "dc_status r = Some st"
    "discover_register ec2 e r st d1 = (d2, Inr (n, nd, tags))" "discover_jobs e r n d2 = (d3, None)"
    "discover_dispatch e n nd (or_else (dc_available_jobs r) []) (excluded_tags d2 tags)
       (jobs_to_terminate n d2) d3 = (d', reply)"
    "farm_inv d1" "farm_inv d2" "db_jobs d2 = db_jobs d1" "farm_inv d3" "grows d2 d3"
    "n \<in> t_keys (db_fnodes d3)" "farm_inv d'"
proof -
  obtain d1 where c: "cleanup_dead_jobs e d = (d1, None)"
    using post by (auto simp: post_client_discover_def split: prod.splits option.splits)
  then obtain st where st: "dc_status r = Some st"
    using post by (auto simp: post_client_discover_def split: option.splits)
  obtain d2 n nd tags where rg: "discover_register ec2 e r st d1 = (d2, Inr (n, nd, tags))"
    using post c st by (auto simp: post_client_discover_def split: prod.splits sum.splits)
  obtain d3 where dj: "discover_jobs e r n d2 = (d3, None)"
    using post c st rg by (auto simp: post_client_discover_def split: prod.splits option.splits)
  let ?av = "or_else (dc_available_jobs r) []" and ?ex = "excluded_tags d2 tags"
  have dd: "discover_dispatch e n nd ?av ?ex (jobs_to_terminate n d2) d3 = (d', reply)"
    using post c st rg dj by (auto simp: post_client_discover_def split: prod.splits)
  have d1: "farm_inv d1" using cleanup_farm_inv [OF inv, of e] c by simp
  note d2 = discover_register_inv [OF d1, of ec2 e r st, unfolded rg fst_conv snd_conv]
  have d3: "farm_inv d3" "grows d2 d3" using discover_jobs_farm_inv [OF d2(1), of e r n] dj by simp_all
  have n3: "n \<in> t_keys (db_fnodes d3)" using d2(4) [of n nd tags] d3(2) by (auto simp: grows_def)
  have inv': "farm_inv d'"
    using dispatch_farm_inv [OF d3(1) n3, of e nd ?av ?ex "jobs_to_terminate n d2"] dd by simp
  show thesis by (rule that [OF c st rg dj dd d1 d2(1,2) d3 n3 inv'])
qed

text \<open>
  C30: a request to a consistent farm that is answered with work names a machine, and the node the
  database finds under that name when the request ends is the one the answer is for: it lists,
  once each and with the class and parameters of the database, exactly the jobs that are then
  reserved for this node, and as jobs to kill exactly those that were terminating on this node after
  the cleanup at the beginning of the request.
\<close>

theorem reply_is_reserved:
  assumes inv: "farm_inv d" and post: "post_client_discover ec2 e r d = (d', Json 200 (Some rp))"
  shows "\<exists>name node. dc_machine_name r = Some name \<and> machine_node d' name = Some node \<and>
    distinct (map fst (rp_jobs rp)) \<and>
    set (rp_jobs rp) = {(k, fj_job_class j, fj_params j) | k j.
       t_get (db_jobs d') k = Some j \<and> fj_status j = Reserved \<and> fj_node j = Some node} \<and>
    set (rp_jobs_to_kill rp) = {k. \<exists>j. t_get (db_jobs (fst (cleanup_dead_jobs e d))) k = Some j \<and>
       fj_status j = Terminating \<and> fj_node j = Some node}"
proof -
  obtain st d1 d2 n nd tags d3 where c: "cleanup_dead_jobs e d = (d1, None)"
    and rg: "discover_register ec2 e r st d1 = (d2, Inr (n, nd, tags))"
    and dj: "discover_jobs e r n d2 = (d3, None)"
    and dd: "discover_dispatch e n nd (or_else (dc_available_jobs r) []) (excluded_tags d2 tags)
       (jobs_to_terminate n d2) d3 = (d', Some rp)"
    and d1: "farm_inv d1" and d2: "db_jobs d2 = db_jobs d1" and inv': "farm_inv d'"
    by (rule post_client_discoverE [OF inv post])
  obtain name where name: "dc_machine_name r = Some name" "machine_node d' name = Some n"
    by (rule request_node [OF d1 rg dj dd])
  have rp: "rp_jobs rp = reserved_jobs n d'" "rp_jobs_to_kill rp = jobs_to_terminate n d2"
    using dd by (auto simp: discover_dispatch_def Let_def split: if_splits)
  note wf' = farm_invD(1) [OF inv']
  have "map fst (reserved_jobs n d') =
      map fst (t_filter (\<lambda>_ j. fj_status j = Reserved \<and> fj_node j = Some n) (db_jobs d'))"
    by (simp add: reserved_jobs_def comp_def case_prod_beta')
  then have dist: "distinct (map fst (rp_jobs rp))"
    using distinct_t_filter [OF wf'] rp(1) by metis
  have jobs: "set (rp_jobs rp) = {(k, fj_job_class j, fj_params j) | k j.
       t_get (db_jobs d') k = Some j \<and> fj_status j = Reserved \<and> fj_node j = Some n}"
    unfolding rp(1) reserved_jobs_def
    using t_filter_iff [OF wf', of _ _ "\<lambda>_ j. fj_status j = Reserved \<and> fj_node j = Some n"] by force
  have kill: "set (rp_jobs_to_kill rp) = {k. \<exists>j. t_get (db_jobs d1) k = Some j \<and>
       fj_status j = Terminating \<and> fj_node j = Some n}"
    unfolding rp(2) jobs_to_terminate_def d2
    using t_filter_iff [OF farm_invD(1) [OF d1], of _ _ "\<lambda>_ j. fj_status j = Terminating \<and> fj_node j = Some n"]
    by force
  have "fst (cleanup_dead_jobs e d) = d1" using c by simp
  with name dist jobs kill show ?thesis by blast
qed

definition no_cloud :: ec2 where
  "no_cloud = \<lparr>describe_by_ip = (\<lambda>_ _. Inr []), describe_by_id = (\<lambda>_ _. Inr []),
     start_instances = (\<lambda>_ _. Inr []), stop_instances = (\<lambda>_ _. Inr [])\<rparr>"

lemma reply_is_reserved_witness:
  "\<exists>d' rp node. post_client_discover no_cloud sample_env sample_report sample_queue = (d', Json 200 (Some rp)) \<and>
     machine_node d' ''RENDER01'' = Some node \<and> distinct (map fst (rp_jobs rp))"
proof -
  let ?r = "post_client_discover no_cloud sample_env sample_report sample_queue"
  have "(case snd ?r of Json n x \<Rightarrow> n = 200 \<and> x \<noteq> None | _ \<Rightarrow> False)" by code_simp
  then obtain rp where "?r = (fst ?r, Json 200 (Some rp))"
    by (cases "snd ?r") (auto simp: prod_eq_iff)
  moreover from reply_is_reserved [OF sample_queue_inv this] have
    "\<exists>node. machine_node (fst ?r) ''RENDER01'' = Some node \<and> distinct (map fst (rp_jobs rp))"
    by (auto simp: sample_report_def)
  ultimately show ?thesis by metis
qed

end
