(* ===== verification/Farm_Control.thy ===== *)
theory Farm_Control
  imports Farm_Correct
begin

text \<open>
  The commands users give to the farm: restarting, deleting and killing jobs. Who may give
  them (the contract of \<open>Access\<close>, interpreted on the views), what each of them does to the
  queue, and the log of a job.
\<close>

section \<open>Only the owner or an administrator\<close>

datatype job_command = Restart | RestartFailedChild | Delete | Kill

fun job_view :: "env \<Rightarrow> job_command \<times> job_request \<Rightarrow> db \<Rightarrow> db \<times> string outcome" where
  "job_view e (Restart, r) d = restart_job e r d"
| "job_view e (RestartFailedChild, r) d = restart_job_failed_child e r d"
| "job_view e (Delete, r) d = delete_job e r d"
| "job_view e (Kill, r) d = kill_job e r d"

definition may_command :: "env \<Rightarrow> job_command \<times> job_request \<Rightarrow> db \<Rightarrow> bool" where
  "may_command e cr d =
     (case jr_job_id (snd cr) of None \<Rightarrow> False
      | Some k \<Rightarrow> (case t_get (db_jobs d) k of None \<Rightarrow> False
                  | Some j \<Rightarrow> fj_created_by j = u_username (e_user e) \<or> u_is_superuser (e_user e)))"

lemma job_view_denied:
  "\<not> may_command e cr d \<Longrightarrow> fst (job_view e cr d) = d \<and> http_status (snd (job_view e cr d)) \<noteq> 200"
  by (cases "(e, cr, d)" rule: job_view.cases)
    (auto simp: may_command_def restart_job_def restart_job_failed_child_def delete_job_def
      kill_job_def job_write_access_def split: option.splits)

interpretation jv: guarded_view job_view may_command
  by unfold_locales (simp_all add: job_view_denied)

definition serve_commands :: "(env \<times> job_command \<times> job_request) list \<Rightarrow> db \<Rightarrow> db" where
  "serve_commands = fold (\<lambda>(e, cr) d. fst (job_view e cr d))"

lemma serve_commands_serve: "serve_commands = jv.serve"
  by (simp add: serve_commands_def jv.serve_def fun_eq_iff)

text \<open>
  Whatever commands users send, in whatever order: if the database is
  changed, then one of the commands was about a job that its sender owned, or its sender was an
  administrator, and everything before it had had no effect.
\<close>

theorem commands_need_rights:
  assumes "serve_commands rs d \<noteq> d"
  shows "\<exists>us e c r vs k j. rs = us @ (e, c, r) # vs \<and> serve_commands us d = d \<and>
    jr_job_id r = Some k \<and> t_get (db_jobs d) k = Some j \<and>
    (fj_created_by j = u_username (e_user e) \<or> u_is_superuser (e_user e))"
proof -
  from jv.serve_change_allowed [of rs d] assms obtain us e cr vs where
    "rs = us @ (e, cr) # vs" "serve_commands us d = d" and m: "may_command e cr d"
    by (auto simp: serve_commands_serve)
  moreover obtain c r where "cr = (c, r)" by (cases cr)
  moreover from this m obtain k j where "jr_job_id r = Some k" "t_get (db_jobs d) k = Some j"
    "fj_created_by j = u_username (e_user e) \<or> u_is_superuser (e_user e)"
    by (auto simp: may_command_def split: option.splits)
  ultimately show ?thesis by blast
qed

abbreviation about :: "pk \<Rightarrow> job_request" where
  "about k \<equiv> \<lparr>jr_job_id = Some k, jr_clone_job = False, jr_use_same_machine = False\<rparr>"

lemma commands_need_rights_witness:
  "\<exists>us e c r vs. [(sample_env, Kill, about 3)] = us @ (e, c, r) # vs \<and>
     (\<exists>k j. jr_job_id r = Some k \<and> t_get (db_jobs sample_running) k = Some j)"
proof -
  have "map_option fj_status (t_get (db_jobs (serve_commands [(sample_env, Kill, about 3)] sample_running)) 3)
      \<noteq> map_option fj_status (t_get (db_jobs sample_running) 3)"
    by code_simp
  then have "serve_commands [(sample_env, Kill, about 3)] sample_running \<noteq> sample_running"
    by (metis (full_types))
  from commands_need_rights [OF this] show ?thesis by blast
qed

section \<open>Deleting a job\<close>

text \<open>
  C26: deleting a job that is ready, successful or failed removes exactly the job
  and its descendants, whatever their status; a job that is left keeps its row but for the
  dependencies on removed jobs. A job in any other status is left alone and the answer is 404.
\<close>

theorem delete_job_exact:
  assumes inv: "farm_inv d" and r: "jr_job_id r = Some k" and g: "t_get (db_jobs d) k = Some j"
    and a: "job_write_access j (e_user e)"
  shows "if fj_status j \<in> {Ready, Success, Failed}
    then snd (delete_job e r d) = ok \<and>
      (\<forall>i. t_get (db_jobs (fst (delete_job e r d))) i =
         (if (k, i) \<in> (parent_of d)\<^sup>* then None
          else map_option (\<lambda>x. x\<lparr>fj_dependencies := filter (\<lambda>y. (k, y) \<notin> (parent_of d)\<^sup>*) (fj_dependencies x)\<rparr>)
                 (t_get (db_jobs d) i)))
    else delete_job e r d = (d, Http 404)"
proof -
  note wf = farm_invD(1) [OF inv]
  define sel where "sel = map fst (t_filter (\<lambda>i j. i = k \<and> fj_status j \<in> {Ready, Success, Failed}) (db_jobs d))"
  have v: "delete_job e r d = (case delete_jobs sel d of (n, d1) \<Rightarrow> if n > 0 then (d1, ok) else (d1, Http 404))"
    using r g a by (simp add: delete_job_def sel_def Let_def)
  show ?thesis
  proof (cases "fj_status j \<in> {Ready, Success, Failed}")
    case True
    then have "(k, j) \<in> set (t_filter (\<lambda>i j. i = k \<and> fj_status j \<in> {Ready, Success, Failed}) (db_jobs d))"
      using g by (simp add: t_filter_iff [OF wf])
    then have sel: "set sel = {k}"
      by (force simp: sel_def t_filter_def)
    then have c: "i \<in> set (cascade d sel) \<longleftrightarrow> (k, i) \<in> (parent_of d)\<^sup>*" for i
      by (simp add: set_cascade [OF wf])
    have "0 < fst (delete_jobs sel d)"
      using g c [of k] by (auto simp: delete_jobs_count_pos [OF wf])
    then have "delete_job e r d = (snd (delete_jobs sel d), ok)"
      unfolding v by (simp add: case_prod_beta)
    with True show ?thesis by (simp add: delete_jobs_get [OF wf] c)
  next
    case False
    have "t_filter (\<lambda>i j. i = k \<and> fj_status j \<in> {Ready, Success, Failed}) (db_jobs d) = []"
      using False g by (auto simp: t_filter_Nil_iff [OF wf])
    then have sel: "sel = []" by (simp add: sel_def)
    have "next_level (rows (db_jobs d)) [] [] = []"
      by (auto simp: next_level_def split: option.splits)
    then have "cascade d [] = []" by (simp add: cascade_def collect.simps [of _ "[]" "[]"])
    then have "delete_jobs [] d = (0, d)"
      by (simp add: delete_jobs_def t_count_def t_filter_def t_delete_def t_update_def case_prod_beta')
    with False show ?thesis by (simp add: v sel)
  qed
qed

lemma delete_job_exact_witness:
  "snd (delete_job sample_env (about 2) sample_queue) = ok"
proof -
  have g: "t_get (db_jobs sample_queue) 2 = Some (sample_job Ready)"
    by (simp add: sample_queue_def farm_with_def t_get_def)
  have "job_write_access (sample_job Ready) (e_user sample_env)"
    by (simp add: job_write_access_def sample_simps)
  from delete_job_exact [OF sample_queue_inv _ g this, of "about 2"] show ?thesis
    by (simp add: sample_job_def)
qed

section \<open>Killing a job\<close>

text \<open>
  C27: only a running job can be killed. It is then terminating on the node it ran
  on, it is among the jobs which that node is told to kill, and no list of running jobs a client
  reports, with progress or without, makes it running again.
\<close>

theorem kill_is_lasting:
  assumes wf: "wf_table (db_jobs d)" and r: "jr_job_id r = Some k"
    and k: "kill_job e r d = (d', ok)"
  shows "\<exists>j. t_get (db_jobs d) k = Some j \<and> fj_status j = Running \<and>
    (\<exists>j'. t_get (db_jobs d') k = Some j' \<and> fj_status j' = Terminating \<and> fj_node j' = fj_node j \<and>
      (\<forall>e2 r2. t_get (db_jobs (report_running e2 r2 d')) k = Some j') \<and>
      (\<forall>n. fj_node j = Some n \<longrightarrow> k \<in> set (jobs_to_terminate n d')))"
proof -
  let ?f = "\<lambda>j. j\<lparr>fj_status := Terminating, fj_modified := e_now e\<rparr>"
  let ?P = "\<lambda>i j. i = k \<and> fj_status j = Running"
  from k r obtain src where "t_get (db_jobs d) k = Some src" and pos: "0 < t_count ?P (db_jobs d)"
    and d': "d' = update_jobs ?P ?f d"
    by (auto simp: kill_job_def Let_def split: option.splits if_splits)
  from pos obtain j where g: "t_get (db_jobs d) k = Some j" and run: "fj_status j = Running"
    by (auto simp: t_count_pos_iff [OF wf])
  have g': "t_get (db_jobs d') k = Some (?f j)"
    unfolding d' using g run by (simp add: table_simps)
  have keep: "t_get (db_jobs (fold (mark_running e2) jps s)) k = Some (?f j)"
    if "t_get (db_jobs s) k = Some (?f j)" for e2 jps s
    using that
  proof (induction jps arbitrary: s)
    case (Cons jp jps)
    have "t_get (db_jobs (mark_running e2 jp s)) k = Some (?f j)"
      using Cons.prems by (cases jp) (auto simp: mark_running_def table_simps)
    from Cons.IH [OF this] show ?case by simp
  qed simp
  have "t_get (db_jobs (report_running e2 r2 d')) k = Some (?f j)" for e2 r2
    using g' keep [OF g'] by (auto simp: report_running_def table_simps split: option.splits)
  moreover have "k \<in> set (jobs_to_terminate n d')" if "fj_node j = Some n" for n
  proof -
    have "wf_table (db_jobs d')" unfolding d' using wf by (rule wf_jobs_update_jobs)
    then have "(k, ?f j) \<in> set (t_filter (\<lambda>_ j. fj_status j = Terminating \<and> fj_node j = Some n) (db_jobs d'))"
      using g' that by (simp add: t_filter_iff)
    then show ?thesis unfolding jobs_to_terminate_def by force
  qed
  ultimately show ?thesis using g run g' by auto
qed

lemma kill_is_lasting_witness: "3 \<in> set (jobs_to_terminate 7 (fst (kill_job sample_env (about 3) sample_running)))"
proof -
  let ?r = "kill_job sample_env (about 3) sample_running"
  have "http_status (snd ?r) = 200 \<and> (case snd ?r of Http n \<Rightarrow> True | _ \<Rightarrow> False)" by code_simp
  then have "?r = (fst ?r, ok)" by (cases "snd ?r") (auto simp: prod_eq_iff)
  from kill_is_lasting [OF farm_invD(1) [OF sample_running_inv] _ this, of 3] obtain j where
    "t_get (db_jobs sample_running) 3 = Some j"
    "\<forall>n. fj_node j = Some n \<longrightarrow> 3 \<in> set (jobs_to_terminate n (fst ?r))" by auto
  moreover have "t_get (db_jobs sample_running) 3 = Some ((sample_job Running)\<lparr>fj_node := Some 7\<rparr>)"
    by (simp add: sample_running_def farm_with_def t_get_def)
  ultimately have "fj_node j = Some 7" by auto
  with \<open>\<forall>n. fj_node j = Some n \<longrightarrow> 3 \<in> set (jobs_to_terminate n (fst ?r))\<close> show ?thesis by blast
qed

section \<open>Restarting a job\<close>

text \<open>
  C28: restarting a job in place. While a child is running or waiting it is refused
  and nothing changes. Otherwise all descendants of the job and its log are removed, and
  the job is ready again with no trace of its last run, on the same node only if that was asked
  for.
\<close>

theorem restart_job_correct:
  assumes inv: "farm_inv d" and r: "jr_job_id r = Some k" "\<not> jr_clone_job r"
    and g: "t_get (db_jobs d) k = Some j" and a: "job_write_access j (e_user e)"
  shows "if child_keys_in d k Running \<union> child_keys_in d k Waiting \<noteq> {}
    then restart_job e r d = (d, Json 403 ''Error, child running'')
    else \<exists>d' j'. restart_job e r d = (d', ok) \<and> t_get (db_jobs d') k = Some j' \<and>
      fj_status j' = Ready \<and> fj_exception j' = None \<and> fj_progress j' = None \<and>
      fj_start_time j' = None \<and> fj_end_time j' = None \<and> fj_image_filename j' = None \<and>
      fj_mesh_filename j' = None \<and> fj_params j' = fj_params j \<and> fj_parent j' = fj_parent j \<and>
      fj_node j' = (if jr_use_same_machine r then fj_node j else None) \<and>
      db_files d' (output_file k) = None \<and>
      (\<forall>i. i \<noteq> k \<longrightarrow> (i \<in> t_keys (db_jobs d') \<longleftrightarrow> i \<in> t_keys (db_jobs d) \<and> (k, i) \<notin> (parent_of d)\<^sup>+))"
proof -
  note wf = farm_invD(1) [OF inv]
  have run: "child_running d k \<longleftrightarrow> child_keys_in d k Running \<union> child_keys_in d k Waiting \<noteq> {}"
    by (simp add: child_running_def filter_empty_conv child_keys_in_def)
      (use children_iff [OF wf, of _ _ k] in fastforce)
  show ?thesis
  proof (cases "child_running d k")
    case True
    with r g a run show ?thesis by (simp add: restart_job_def)
  next
    case False
    let ?d = "snd (delete_jobs (map fst (children d k)) d)"
    let ?d' = "save_job (e_now e) k (reset_job (jr_use_same_machine r) j) (on_job_restart k ?d)"
    have v: "restart_job e r d = (?d', ok)"
      using r g a False by (simp add: restart_job_def Let_def)
    have "set (map fst (children d k)) = parent_of d `` {k}"
      unfolding parent_of_def by (force simp: children_def t_filter_def t_get_iff [OF wf])
    then have C: "i \<in> set (cascade d (map fst (children d k))) \<longleftrightarrow> (k, i) \<in> (parent_of d)\<^sup>+" for i
      unfolding set_cascade [OF wf] by (auto simp: trancl_unfold_left)
    have "i \<in> t_keys (db_jobs ?d') \<longleftrightarrow> i \<in> t_keys (db_jobs d) \<and> (k, i) \<notin> (parent_of d)\<^sup>+" if "i \<noteq> k" for i
      using that C [of i] by (auto simp: keys_save_job frame_simps t_keys_get delete_jobs_get [OF wf])
    moreover have "db_files ?d' (output_file k) = None"
      by (simp add: frame_simps on_job_restart_def)
    ultimately show ?thesis
      using False run unfolding v
      by (simp add: jobs_save_job reset_job_def stamp_def split: option.splits)
  qed
qed

lemma restart_job_correct_witness:
  "\<exists>d' j'. restart_job sample_env (about 1) sample_family = (d', ok) \<and> t_get (db_jobs d') 1 = Some j' \<and>
     fj_status j' = Ready \<and> 2 \<notin> t_keys (db_jobs d')"
proof -
  have rows: "t_get (db_jobs sample_family) k =
    (if k = 1 then Some (sample_job Waiting)
     else if k = 2 then Some ((sample_job Success)\<lparr>fj_parent := Some 1\<rparr>)
     else if k = 3 then Some ((sample_job Failed)\<lparr>fj_parent := Some 1\<rparr>) else None)" for k
    by (simp add: sample_family_def farm_with_def t_get_def)
  then have g: "t_get (db_jobs sample_family) 1 = Some (sample_job Waiting)" by simp
  have a: "job_write_access (sample_job Waiting) (e_user sample_env)"
    by (simp add: job_write_access_def sample_simps)
  have "\<not> (child_keys_in sample_family 1 Running \<union> child_keys_in sample_family 1 Waiting \<noteq> {})"
    by (auto simp: child_keys_in_def rows sample_job_def new_farm_job_def split: if_splits)
  moreover have "(1, 2) \<in> (parent_of sample_family)\<^sup>+"
    by (rule r_into_trancl) (simp add: parent_of_def rows)
  ultimately show ?thesis
    using restart_job_correct [OF sample_family_inv _ _ g a, of "about 1"] by auto
qed

section \<open>The log of a job\<close>

definition append_log :: "pk \<Rightarrow> string list \<Rightarrow> db \<Rightarrow> db" where
  "append_log k chunks d = fold (\<lambda>c d. fst (job_output_post k (Some c) d)) chunks d"

lemma append_log_jobs: "db_jobs (append_log k chunks d) = db_jobs d"
  unfolding append_log_def
proof (induction chunks arbitrary: d)
  case (Cons c cs)
  have "db_jobs (fst (job_output_post k (Some c) d)) = db_jobs d"
    by (simp add: job_output_post_def split: option.splits)
  with Cons.IH show ?case by simp
qed simp

lemma append_log_file:
  assumes "t_get (db_jobs d) k \<noteq> None" "db_files d (output_file k) = Some old"
  shows "db_files (append_log k chunks d) f =
    (if f = output_file k then Some (old @ concat chunks) else db_files d f)"
  using assms unfolding append_log_def
proof (induction chunks arbitrary: d old)
  case (Cons c cs)
  let ?d = "fst (job_output_post k (Some c) d)"
  have "db_jobs ?d = db_jobs d" "db_files ?d = (db_files d)(output_file k \<mapsto> old @ c)"
    using Cons.prems by (auto simp: job_output_post_def split: option.splits)
  with Cons.IH [of ?d "old @ c"] Cons.prems show ?case by simp
qed auto

lemma append_log_fresh:
  assumes k: "t_get (db_jobs d) k \<noteq> None" and none: "db_files d (output_file k) = None"
  shows "db_files (append_log k (c # cs) d) f =
    (if f = output_file k then Some (concat (c # cs)) else db_files d f)"
proof -
  let ?d = "fst (job_output_post k (Some c) d)"
  have "db_jobs ?d = db_jobs d" "db_files ?d = (db_files d)(output_file k \<mapsto> c)"
    using k none by (auto simp: job_output_post_def split: option.splits)
  with append_log_file [of ?d k c cs f] k show ?thesis by (simp add: append_log_def)
qed

text \<open>
  A client appends its output in pieces, a browser reads it with an offset and a
  length. What is read is the slice of everything posted since the job was last restarted;
  the logs of other jobs are not touched.
\<close>

theorem job_log_roundtrip:
  assumes g: "t_get (db_jobs d) k = Some j" and c: "chunks \<noteq> []" and conv: "\<forall>s. conv s = None"
  shows "job_output_get conv k (Some (int off)) (Some (int len)) (append_log k chunks (on_job_restart k d))
      = Json 200 (List.take len (drop off (concat chunks)),
          min len (length (concat chunks) - off), fj_status j) \<and>
    (\<forall>k2. k2 \<noteq> k \<longrightarrow> db_files (append_log k chunks (on_job_restart k d)) (output_file k2) =
      db_files d (output_file k2))"
proof -
  let ?d = "on_job_restart k d"
  obtain x xs where x: "chunks = x # xs" using c by (cases chunks) auto
  have k: "t_get (db_jobs ?d) k \<noteq> None" "db_files ?d (output_file k) = None"
    using g by (simp_all add: on_job_restart_def)
  have files: "db_files (append_log k chunks ?d) f =
      (if f = output_file k then Some (concat chunks) else db_files ?d f)" for f
    unfolding x by (rule append_log_fresh [OF k])
  have "output_file k2 \<noteq> output_file k" if "k2 \<noteq> k" for k2
    using that by (simp add: output_file_def)
  then have "\<forall>k2. k2 \<noteq> k \<longrightarrow> db_files (append_log k chunks ?d) (output_file k2) = db_files d (output_file k2)"
    using files by (auto simp: on_job_restart_def)
  moreover have "t_get (db_jobs (append_log k chunks ?d)) k = Some j"
    using g by (simp add: append_log_jobs frame_simps)
  ultimately show ?thesis
    using conv by (simp add: job_output_get_def files Let_def min.commute)
qed

lemma job_log_roundtrip_witness:
  "job_output_get (\<lambda>_. None) 2 (Some (int 1)) (Some (int 3))
     (append_log 2 [''ab'', ''cde''] (on_job_restart 2 sample_queue)) = Json 200 (''bcd'', 3, Ready)"
proof -
  have g: "t_get (db_jobs sample_queue) 2 = Some (sample_job Ready)"
    by (simp add: sample_queue_def farm_with_def t_get_def)
  show ?thesis
    using job_log_roundtrip [OF g, of "[''ab'', ''cde'']" "\<lambda>_. None" 1 3]
    by (simp add: sample_job_def)
qed

section \<open>Tags\<close>

lemma set_excluded_tags:
  assumes "wf_table (db_fnodes d)"
  shows "t \<in> set (excluded_tags d tags) \<longleftrightarrow>
    t \<notin> set tags \<and> (\<exists>n nd. t_get (db_fnodes d) n = Some nd \<and> t \<in> set (fn_tags nd))"
  by (force simp: excluded_tags_def t_get_iff [OF assms])

text \<open>
  Which tags keep a ready job from a node. The tags of the job need not be tags of the
  node: a tag excludes the node only if some registered node carries it. A job with a tag
  that no node carries goes to any node.
\<close>

theorem tag_rule:
  assumes inv: "farm_inv d" and gpu: "fn_gpu_count nd = Some gpu"
    and c: "candidate d n nd av [] k j"
  shows "candidate d n nd av (excluded_tags d tags) k j \<longleftrightarrow>
    (\<forall>t \<in> set (fj_tags j). t \<in> set tags \<or>
       (\<forall>m md. t_get (db_fnodes d) m = Some md \<longrightarrow> t \<notin> set (fn_tags md)))"
  using c set_excluded_tags [OF farm_invD(2) [OF inv], of _ tags]
  unfolding candidate_def by blast

definition sample_tagged :: db where
  "sample_tagged = farm_with [(7, sample_node)] [(2, (sample_job Ready)\<lparr>fj_tags := [''gpu-v9'']\<rparr>)]"

lemma sample_tagged_inv: "farm_inv sample_tagged"
  by (rule farm_invI)
    (auto simp: sample_tagged_def sample_simps wf_table_def t_keys_def job_refs_def t_get_def
      split: if_splits)

lemma tag_rule_witness:
  "candidate sample_tagged 7 sample_node [''jobs.archive.ExportTake''] (excluded_tags sample_tagged []) 2
     ((sample_job Ready)\<lparr>fj_tags := [''gpu-v9'']\<rparr>)"
proof -
  let ?j = "(sample_job Ready)\<lparr>fj_tags := [''gpu-v9'']\<rparr>"
  have rows: "t_get (db_jobs sample_tagged) k = (if k = 2 then Some ?j else None)" for k
    by (simp add: sample_tagged_def farm_with_def t_get_def)
  have nodes: "t_get (db_fnodes sample_tagged) k = (if k = 7 then Some sample_node else None)" for k
    by (simp add: sample_tagged_def farm_with_def t_get_def)
  have "candidate sample_tagged 7 sample_node [''jobs.archive.ExportTake''] [] 2 ?j"
    by (auto simp: candidate_def rows) (simp_all add: sample_job_def sample_node_def new_farm_job_def
        new_farm_node_def)
  moreover have "fn_gpu_count sample_node = Some 0" by (simp add: sample_node_def)
  moreover have "fn_tags sample_node = []" by (simp add: sample_node_def new_farm_node_def)
  ultimately show ?thesis
    using tag_rule [OF sample_tagged_inv, of sample_node 0 7 "[''jobs.archive.ExportTake'']" 2 ?j "[]"]
    by (simp add: nodes)
qed

section \<open>Two heavy jobs on one node\<close>

text \<open>
  The channels are meant to run one heavy job at a time on a node, but
  only running jobs count, not reserved ones: a node that phones home twice before it reports
  the first job as running is handed a second heavy job.
\<close>

theorem channel_limit_exceeded:
  "\<exists>d e n nd av. (\<forall>c. can_run d n c) \<and> reserved_jobs n d = [] \<and>
     (let d1 = schedule e n nd av [] d; d2 = schedule e n nd av [] d1 in
      length (filter (\<lambda>(_, c, _). c \<notin> set light_job_classes) (reserved_jobs n d2)) = 2)"
proof -
  let ?av = "[''jobs.archive.ExportTake'']"
  let ?d1 = "schedule sample_env 7 sample_node ?av [] sample_queue"
  have "\<forall>c. can_run sample_queue 7 c"
    using can_run_iff [OF farm_invD(1) [OF sample_queue_inv]]
    by (auto simp: sample_queue_def farm_with_def t_get_def sample_job_def split: if_splits)
  moreover have "reserved_jobs 7 sample_queue = [] \<and>
      length (filter (\<lambda>(_, c, _). c \<notin> set light_job_classes)
        (reserved_jobs 7 (schedule sample_env 7 sample_node ?av [] ?d1))) = 2"
    by code_simp
  ultimately show ?thesis unfolding Let_def by blast
qed

end
