(* ===== verification/Capture_Control.thy ===== *)
theory Capture_Control
  imports Archive_Model Access
begin

text \<open>
  The stage side of \<open>capture/views.py\<close>: who may read and control a capture location, and
  the views that set the options of cameras and nodes. The requests to the capture nodes are
  recorded in the order of the nodes of the query (the thread pool sends them in
  parallel); a request that fails is logged by the source and changes nothing, so
  whether it succeeds is not part of the state.
\<close>

section \<open>Access rights\<close>

text \<open>
  \<open>request.user.access_rights.filter(id=..., locationaccess__write_access=True)\<close>: the
  related manager ties both conditions to the same row of the table of rights.
\<close>

definition rights_on :: "db \<Rightarrow> pk \<Rightarrow> pk \<Rightarrow> (pk \<times> location_access) list" where
  "rights_on d user loc = t_filter (\<lambda>_ a. la_user a = user \<and> la_location a = loc) (db_access d)"

definition has_write_access_location_id :: "env \<Rightarrow> pk \<Rightarrow> db \<Rightarrow> bool" where
  "has_write_access_location_id e loc d =
     (length (filter (\<lambda>(_, a). la_write_access a) (rights_on d (e_user_id e) loc)) > 0)"

definition has_read_right :: "env \<Rightarrow> pk \<Rightarrow> db \<Rightarrow> bool" where
  "has_read_right e loc d =
     (length (filter (\<lambda>(_, a). la_read_access a) (rights_on d (e_user_id e) loc)) > 0)"

text \<open>A node that belongs to no location has no location whose \<open>id\<close> could be read.\<close>

definition has_write_access_node :: "env \<Rightarrow> capture_node \<Rightarrow> db \<Rightarrow> py_exn + bool" where
  "has_write_access_node e n d =
     (case cn_location n of None \<Rightarrow> Inl (AttributeError ''id'')
      | Some loc \<Rightarrow> Inr (has_write_access_location_id e loc d))"

definition node_of :: "db \<Rightarrow> camera \<Rightarrow> capture_node" where
  "node_of d c = (case t_get (db_cnodes d) (cm_node c) of Some n \<Rightarrow> n | None \<Rightarrow> new_capture_node 0 [] [])"

definition node_is_active :: "time \<Rightarrow> capture_node \<Rightarrow> bool" where
  "node_is_active now n \<longleftrightarrow> cn_online n \<and> cn_last_seen n \<ge> now - seconds 90"

definition camera_is_active :: "time \<Rightarrow> db \<Rightarrow> camera \<Rightarrow> bool" where
  "camera_is_active now d c = node_is_active now (node_of d c)"

definition node_cameras :: "db \<Rightarrow> pk \<Rightarrow> (pk \<times> camera) list" where
  "node_cameras d n = t_filter (\<lambda>_ c. cm_node c = n) (db_cameras d)"

definition online_nodes :: "db \<Rightarrow> pk \<Rightarrow> (pk \<times> capture_node) list" where
  "online_nodes d loc = t_filter (\<lambda>_ n. cn_location n = Some loc \<and> cn_online n) (db_cnodes d)"

section \<open>Requests to the nodes\<close>

definition send :: "message list \<Rightarrow> db \<Rightarrow> db" where
  "send ms d = d\<lparr>db_sent := db_sent d @ ms\<rparr>"

definition save_camera :: "pk \<Rightarrow> camera \<Rightarrow> db \<Rightarrow> db" where
  "save_camera k c d = d\<lparr>db_cameras := t_save k c (db_cameras d)\<rparr>"

definition save_location :: "pk \<Rightarrow> capture_location \<Rightarrow> db \<Rightarrow> db" where
  "save_location k l d = d\<lparr>db_locations := t_save k l (db_locations d)\<rparr>"

definition apply_options_on_node :: "capture_node \<Rightarrow> json \<Rightarrow> message" where
  "apply_options_on_node n body = NodePost (cn_ip_address n) ''/options/'' body"

definition camera_option :: "string \<Rightarrow> string \<Rightarrow> json \<Rightarrow> json" where
  "camera_option unique_id key v =
     JObj [(''camera_params'', JList [JObj [(''unique_id'', JStr unique_id), (key, v)]])]"

text \<open>A view that ends without \<open>return\<close> yields \<open>None\<close>, which the framework refuses.\<close>

definition no_response :: "db \<Rightarrow> db \<times> 'b outcome" where
  "no_response d = (d, Raised AssertionError)"

text \<open>Look up the camera of a request and check the right to control its node.\<close>

definition with_camera ::
    "env \<Rightarrow> pk \<Rightarrow> db \<Rightarrow> (camera \<Rightarrow> db \<times> 'b outcome) \<Rightarrow> db \<times> 'b outcome" where
  "with_camera e k d body =
     (case t_get (db_cameras d) k of
        None \<Rightarrow> (d, Raised DoesNotExist)
      | Some cam \<Rightarrow>
          (case has_write_access_node e (node_of d cam) d of
             Inl x \<Rightarrow> (d, Raised x)
           | Inr w \<Rightarrow> if \<not> w then (d, Http 403) else body cam))"

definition post_toggle_using_sync :: "env \<Rightarrow> pk option \<Rightarrow> db \<Rightarrow> db \<times> string outcome" where
  "post_toggle_using_sync e camera_id d =
     (case camera_id of
        None \<Rightarrow> no_response d
      | Some k \<Rightarrow> with_camera e k d (\<lambda>cam.
          (let cam1 = cam\<lparr>cm_using_sync := \<not> cm_using_sync cam\<rparr>;
               d1 = save_camera k cam1 d
           in (send [apply_options_on_node (node_of d cam)
                 (camera_option (cm_unique_id cam) ''using_sync'' (JBool (cm_using_sync cam1)))] d1, ok))))"

definition post_close_node :: "pk option \<Rightarrow> db \<Rightarrow> db \<times> string outcome" where
  "post_close_node node_id d =
     (case node_id of
        None \<Rightarrow> (d, ok)
      | Some k \<Rightarrow>
          (case t_get (db_cnodes d) k of
             None \<Rightarrow> (d, Raised DoesNotExist)
           | Some n \<Rightarrow> (send [NodePost (cn_ip_address n) ''/close_node'' (JText [])] d, ok)))"

definition post_set_camera_rotation :: "env \<Rightarrow> pk option \<Rightarrow> int option \<Rightarrow> db \<Rightarrow> db \<times> string outcome" where
  "post_set_camera_rotation e camera_id angle d =
     (case (camera_id, angle) of
        (Some k, Some a) \<Rightarrow> with_camera e k d (\<lambda>cam.
          (let d1 = save_camera k (cam\<lparr>cm_rotation := a\<rparr>) d
           in (send [apply_options_on_node (node_of d cam)
                 (camera_option (cm_unique_id cam) ''image_rotation'' (JInt a))] d1, ok)))
      | _ \<Rightarrow> no_response d)"

definition post_toggle_capturing :: "env \<Rightarrow> pk option \<Rightarrow> db \<Rightarrow> db \<times> string outcome" where
  "post_toggle_capturing e camera_id d =
     (case camera_id of
        None \<Rightarrow> (d, Http 500)
      | Some k \<Rightarrow> with_camera e k d (\<lambda>cam.
          (send [NodePost (cn_ip_address (node_of d cam))
             (''/toggle_capturing/'' @ cm_unique_id cam @ ''/'') (JText [])] d, ok)))"

definition post_message :: "env \<Rightarrow> pk option \<Rightarrow> string option \<Rightarrow> db \<Rightarrow> db \<times> string outcome" where
  "post_message e location_id msg d =
     (case (location_id, msg) of
        (Some loc, Some m) \<Rightarrow>
          if \<not> has_write_access_location_id e loc d then (d, Http 403)
          else (send (map (\<lambda>(_, n). NodePost (cn_ip_address n) ''/message'' (JText m)) (online_nodes d loc)) d, ok)
      | _ \<Rightarrow> (d, Http 500))"

text \<open>
  \<open>camera_parameter\<close>: three of the parameters are stored. The node answers with
  \<open>reply\<close> (\<open>None\<close> if the request or the decoding of its answer fails).
\<close>

record parameter_request =
  pq_cam_id :: pk
  pq_parameter_name :: string
  pq_value :: pyfloat
  pq_value_text :: string

definition set_parameter :: "parameter_request \<Rightarrow> camera \<Rightarrow> camera" where
  "set_parameter q cam =
     (if pq_parameter_name q = ''exposure'' then cam\<lparr>cm_exposure := pq_value q\<rparr>
      else if pq_parameter_name q = ''lens_aperture_value'' then cam\<lparr>cm_lens_aperture := pq_value q\<rparr>
      else if pq_parameter_name q = ''gain'' then cam\<lparr>cm_gain := pq_value q\<rparr>
      else cam)"

definition camera_parameter ::
    "(message \<Rightarrow> json option) \<Rightarrow> env \<Rightarrow> pk \<Rightarrow> parameter_request \<Rightarrow> db \<Rightarrow> db \<times> json outcome" where
  "camera_parameter reply e loc q d =
     (if \<not> has_write_access_location_id e loc d then (d, Http 403)
      else
        (case t_get (db_cameras d) (pq_cam_id q) of
           None \<Rightarrow> (d, Raised DoesNotExist)
         | Some cam \<Rightarrow>
             (let cam1 = set_parameter q cam;
                  d1 = (if pq_parameter_name q \<in> {''exposure'', ''lens_aperture_value'', ''gain''}
                        then save_camera (pq_cam_id q) cam1 d else d);
                  m = NodePost (cn_ip_address (node_of d cam))
                        (''/camera/'' @ cm_unique_id cam @ ''/'' @ pq_parameter_name q @ ''/'' @ pq_value_text q)
                        (JText []);
                  d2 = send [m] d1
              in case reply m of Some j \<Rightarrow> (d2, Json 200 j) | None \<Rightarrow> no_response d2)))"

text \<open>
  \<open>post_set_roi\<close> and \<open>post_reset_roi\<close> call \<open>urllib2\<close>, which is not imported;
  every call raises inside its \<open>try\<close> block, so no request reaches a node. What is
  left of the two views is the same.
\<close>

definition post_roi :: "env \<Rightarrow> int \<Rightarrow> int \<Rightarrow> db \<Rightarrow> db \<times> string outcome" where
  "post_roi e camera_id loc_id d =
     (if camera_id > 0 then
        (case t_get (db_cameras d) (nat camera_id) of
           None \<Rightarrow> (d, Raised DoesNotExist)
         | Some cam \<Rightarrow>
             (case cn_location (node_of d cam) of
                None \<Rightarrow> (d, Raised (AttributeError ''id''))
              | Some loc \<Rightarrow> if \<not> has_write_access_location_id e loc d then (d, Http 403) else (d, ok)))
      else if loc_id > 0 then
        (if \<not> has_write_access_location_id e (nat loc_id) d then (d, Http 403) else (d, ok))
      else (d, ok))"

section \<open>The options of a location\<close>

record location_options =
  lo_pulse_duration :: "int option"
  lo_frequency :: "int option"
  lo_external_sync :: "bool option"
  lo_display_focus_peak :: "bool option"
  lo_display_overexposed :: "bool option"
  lo_display_histogram :: "bool option"
  lo_bitdepth_avi :: "int option"
  lo_bitdepth_single :: "int option"
  lo_image_format :: "string option"
  lo_wb_R :: "pyfloat option"
  lo_wb_G :: "pyfloat option"
  lo_wb_B :: "pyfloat option"
  lo_body :: string

definition given :: "'a option \<Rightarrow> 'a \<Rightarrow> 'a" where
  "given x old = (case x of None \<Rightarrow> old | Some v \<Rightarrow> v)"

definition apply_location_options :: "location_options \<Rightarrow> capture_location \<Rightarrow> capture_location" where
  "apply_location_options opts l = l\<lparr>
     cl_pulse_duration := given (lo_pulse_duration opts) (cl_pulse_duration l),
     cl_hardware_sync_frequency := given (lo_frequency opts) (cl_hardware_sync_frequency l),
     cl_external_sync := given (lo_external_sync opts) (cl_external_sync l),
     cl_display_focus_peak := given (lo_display_focus_peak opts) (cl_display_focus_peak l),
     cl_display_overexposed := given (lo_display_overexposed opts) (cl_display_overexposed l),
     cl_display_histogram := given (lo_display_histogram opts) (cl_display_histogram l),
     cl_bitdepth_avi := given (lo_bitdepth_avi opts) (cl_bitdepth_avi l),
     cl_bitdepth_single := given (lo_bitdepth_single opts) (cl_bitdepth_single l),
     cl_image_format := given (lo_image_format opts) (cl_image_format l),
     cl_wb_R := given (lo_wb_R opts) (cl_wb_R l),
     cl_wb_G := given (lo_wb_G opts) (cl_wb_G l),
     cl_wb_B := given (lo_wb_B opts) (cl_wb_B l)\<rparr>"

text \<open>
  The messages of the answer say of each online node whether the request went through;
  \<open>sent\<close> is what the network does. Without write access nothing happens and the answer
  has no message.
\<close>

definition option_message :: "(message \<Rightarrow> bool) \<Rightarrow> json \<Rightarrow> capture_node \<Rightarrow> string" where
  "option_message sent body n =
     (if sent (apply_options_on_node n body) then ''Options set on '' else ''Error setting option on '')
     @ cn_ip_address n @ [CHR 0x0A]"

definition location_config_post ::
    "(message \<Rightarrow> bool) \<Rightarrow> env \<Rightarrow> pk \<Rightarrow> location_options \<Rightarrow> db \<Rightarrow> db \<times> (string list) outcome" where
  "location_config_post sent e loc opts d =
     (if has_write_access_location_id e loc d then
        (case t_get (db_locations d) loc of
           None \<Rightarrow> (d, Json 200 [])
         | Some l \<Rightarrow>
             (let body = JText (lo_body opts);
                  nodes = map snd (online_nodes d loc);
                  d1 = send (map (\<lambda>n. apply_options_on_node n body) nodes) d
              in (save_location loc (apply_location_options opts l) d1,
                  Json 200 (map (option_message sent body) nodes))))
      else (d, Json 200 []))"

definition location_config_get :: "env \<Rightarrow> pk \<Rightarrow> db \<Rightarrow> (int \<times> int \<times> bool) outcome" where
  "location_config_get e loc d =
     (case t_get (db_locations d) loc of
        None \<Rightarrow> Http 403
      | Some l \<Rightarrow>
          if cl_read_access_all l \<or> has_read_right e loc d
          then Json 200 (cl_hardware_sync_frequency l, cl_pulse_duration l, cl_external_sync l)
          else Http 403)"

definition location_view :: "pk \<Rightarrow> db \<Rightarrow> string outcome" where
  "location_view loc d =
     (if loc = 0 then Http 404
      else (case t_get (db_locations d) loc of None \<Rightarrow> Raised DoesNotExist | Some l \<Rightarrow> Json 200 (cl_name l)))"

end
