(* ===== verification/Capture_Takes.thy ===== *)
theory Capture_Takes
  imports Capture_Control
begin

text \<open>
  Recording (\<open>capture/views.py\<close>): the session and shot a recording belongs to, the take
  and its cameras in the archive, the views that start and stop a recording or record single
  images, and those that open a new session or shot. \<open>loc\<close> is the in-memory location the
  source passes around; it is stored by \<open>save_location\<close>.
\<close>

section \<open>Session and shot of a recording\<close>

definition create_archive_shot :: "string \<Rightarrow> pk option \<Rightarrow> db \<Rightarrow> db \<times> (py_exn + pk)" where
  "create_archive_shot name session d =
     (case session of
        None \<Rightarrow> (d, Inl IntegrityError)
      | Some s \<Rightarrow> (let (k, t) = t_create (new_shot name s) (db_shots d)
                  in (d\<lparr>db_shots := t\<rparr>, Inr k)))"

text \<open>
  \<open>loc.cur_session == session_id\<close> compares a session with a number, which is never
  true, so a given session is always looked up. A name that is empty or \<open>-new-\<close> is made
  up from the number of shots. The shot is kept if the name of the current shot is
  the same, whatever session it belongs to.
\<close>

definition shot_name_for :: "pk option \<Rightarrow> string \<Rightarrow> db \<Rightarrow> py_exn + string" where
  "shot_name_for session name d =
     (if name = [] \<or> name = ''-new-'' then
        (case session of
           None \<Rightarrow> Inl (AttributeError ''shots'')
         | Some s \<Rightarrow> Inr (''Shot_'' @ show_pad 3 (length (session_shots d s))))
      else Inr name)"

definition current_shot_named :: "db \<Rightarrow> capture_location \<Rightarrow> string \<Rightarrow> bool" where
  "current_shot_named d loc name =
     (case cl_cur_shot loc of None \<Rightarrow> False
      | Some k \<Rightarrow> (case t_get (db_shots d) k of None \<Rightarrow> False | Some s \<Rightarrow> sh_name s = name))"

definition create_session_shot ::
    "pk \<Rightarrow> capture_location \<Rightarrow> pk option \<Rightarrow> string option \<Rightarrow> db \<Rightarrow> db \<times> (py_exn + capture_location)" where
  "create_session_shot lk loc session_id shot_name d =
     (case shot_name of
        None \<Rightarrow> (d, Inl TypeError)
      | Some raw \<Rightarrow>
          (let name = clean_name raw in
           if (case session_id of None \<Rightarrow> False | Some s \<Rightarrow> t_get (db_sessions d) s = None)
           then (d, Inl DoesNotExist)
           else
             (let loc1 = (case session_id of None \<Rightarrow> loc | Some s \<Rightarrow> loc\<lparr>cl_cur_session := Some s\<rparr>)
              in if current_shot_named d loc1 name
                 then (if session_id = None then d else save_location lk loc1 d, Inr loc1)
                 else
                   (case shot_name_for (cl_cur_session loc1) name d of
                      Inl x \<Rightarrow> (d, Inl x)
                    | Inr n \<Rightarrow>
                        (case create_archive_shot n (cl_cur_session loc1) d of
                           (d1, Inl x) \<Rightarrow> (d1, Inl x)
                         | (d1, Inr k) \<Rightarrow>
                             (let loc2 = loc1\<lparr>cl_cur_shot := Some k\<rparr>
                              in (save_location lk loc2 d1, Inr loc2)))))))"

section \<open>The summary of a recording\<close>

text \<open>
  What a node reports of one camera: \<open>camera\<close>, \<open>jpeg_thumbnail\<close>,
  \<open>recorder\<close>, \<open>meta\<close>, \<open>audio\<close> and \<open>camera_params.exposure\<close>. The views add
  the rotation stored in the database.
\<close>

record meta_summary =
  ms_meta_filename :: string
  ms_bitdepth :: int
  ms_frame_count :: int
  ms_missing_frames :: int
  ms_duration :: pyfloat

record audio_summary =
  as_filename :: string
  as_bits_per_sample :: int
  as_recorded_samples :: int
  as_duration :: pyfloat
  as_sample_rate :: pyfloat

record cam_summary =
  cs_unique_id :: string
  cs_model :: string
  cs_version :: string
  cs_using_hardware_sync :: bool
  cs_width :: int
  cs_height :: int
  cs_framerate :: pyfloat
  cs_jpeg_thumbnail :: "string option"
  cs_recorder :: "(string list \<times> int) option"
  cs_meta :: "meta_summary option"
  cs_audio :: "audio_summary option"
  cs_exposure :: "pyfloat option"
  cs_rotation :: "int option"

record node_summary =
  ns_machine_name :: string
  ns_ip_address :: string
  ns_cameras :: "cam_summary list option"

record rec_summary =
  rs_nodes :: "node_summary list"
  rs_names :: "(string \<times> string \<times> string) option"
  rs_take_index :: "nat option"
  rs_take_id :: "pk option"

text \<open>\<open>add_rotation_info_to_cameras\<close>: a camera that is not in the database is left as it is.\<close>

definition add_rotation :: "db \<Rightarrow> string \<Rightarrow> cam_summary \<Rightarrow> cam_summary" where
  "add_rotation d machine c =
     (case t_filter (\<lambda>_ x. cm_unique_id x = cs_unique_id c \<and> cn_machine_name (node_of d x) = machine)
             (db_cameras d) of
        [] \<Rightarrow> c
      | (_, x) # _ \<Rightarrow> c\<lparr>cs_rotation := Some (cm_rotation x)\<rparr>)"

fun add_rotation_info_to_cameras :: "db \<Rightarrow> node_summary list \<Rightarrow> py_exn + node_summary list" where
  "add_rotation_info_to_cameras d [] = Inr []"
| "add_rotation_info_to_cameras d (n # ns) =
     (case ns_cameras n of
        None \<Rightarrow> Inl (KeyError ''cameras'')
      | Some cams \<Rightarrow>
          (case add_rotation_info_to_cameras d ns of
             Inl x \<Rightarrow> Inl x
           | Inr ns' \<Rightarrow> Inr (n\<lparr>ns_cameras := Some (map (add_rotation d (ns_machine_name n)) cams)\<rparr> # ns')))"

section \<open>Recording a take in the archive\<close>

text \<open>
  \<open>uid\<close> answers for the call of \<open>uuid_node_base36()\<close> and \<open>decode\<close> for
  \<open>b64decode\<close>; if decoding or writing fails the error is printed, and the name is used
  anyway. \<open>filename\<close> is a variable of the whole function: a camera without thumbnail
  gets the name of the one before it, and the first one has none to use.
\<close>

definition thumb_name :: "pk \<Rightarrow> nat \<Rightarrow> string \<Rightarrow> string \<Rightarrow> string" where
  "thumb_name tk cam_index unique_id uid =
     show_pad 8 tk @ ''_'' @ show_pad 3 cam_index @ ''_'' @ unique_id @ ''_'' @ uid @ ''.jpg''"

definition store_thumbnail ::
    "(py_exn + string) \<Rightarrow> (string \<Rightarrow> string option) \<Rightarrow> pk \<Rightarrow> nat \<Rightarrow> cam_summary \<Rightarrow> string option \<times> db
       \<Rightarrow> (string option \<times> db) \<times> py_exn option" where
  "store_thumbnail uid decode tk cam_index c s =
     (case cs_jpeg_thumbnail c of
        None \<Rightarrow> (s, None)
      | Some jpeg \<Rightarrow>
          (case uid of
             Inl x \<Rightarrow> (s, Some x)
           | Inr u \<Rightarrow>
               (let f = thumb_name tk cam_index (cs_unique_id c) u;
                    d = snd s
                in case decode (jpeg @ replicate 10 (CHR ''='')) of
                     None \<Rightarrow> ((Some f, d), None)
                   | Some data \<Rightarrow> ((Some f, d\<lparr>db_files := (db_files d)(f \<mapsto> data)\<rparr>), None))))"

definition join_with :: "string \<Rightarrow> string list \<Rightarrow> string" where
  "join_with sep xs = (case xs of [] \<Rightarrow> [] | x # ys \<Rightarrow> x @ concat (map (\<lambda>y. sep @ y) ys))"

definition all_files :: "cam_summary \<Rightarrow> string list" where
  "all_files c =
     (case cs_recorder c of None \<Rightarrow> [] | Some (fs, _) \<Rightarrow> fs) @
     (case cs_meta c of None \<Rightarrow> [] | Some m \<Rightarrow> [ms_meta_filename m]) @
     (case cs_audio c of None \<Rightarrow> [] | Some a \<Rightarrow> [as_filename a])"

definition recorded_camera ::
    "pk \<Rightarrow> string \<Rightarrow> cam_summary \<Rightarrow> int \<Rightarrow> string list \<times> int \<Rightarrow> meta_summary \<Rightarrow> string \<Rightarrow> string \<Rightarrow> archive_camera" where
  "recorded_camera tk machine c rotation rec m folder filename =
     \<lparr>ac_take = tk, ac_machine_name = machine, ac_unique_id = cs_unique_id c,
      ac_model = cs_model c, ac_version = cs_version c, ac_using_sync = cs_using_hardware_sync c,
      ac_folder = folder, ac_thumbnail_filename = Some filename, ac_width = cs_width c,
      ac_height = cs_height c, ac_bitdepth = ms_bitdepth m, ac_frame_count = ms_frame_count m,
      ac_dropped_frames = ms_missing_frames m, ac_total_size = snd rec, ac_duration = ms_duration m,
      ac_framerate = cs_framerate c, ac_all_files = Some (join_with '';'' (all_files c)),
      ac_rotation = rotation,
      ac_exposure_ms = (case cs_exposure c of None \<Rightarrow> 0 | Some x \<Rightarrow> x / 1000)\<rparr>"

definition audio_camera :: "pk \<Rightarrow> string \<Rightarrow> cam_summary \<Rightarrow> audio_summary \<Rightarrow> string \<Rightarrow> archive_camera" where
  "audio_camera tk machine c a folder =
     \<lparr>ac_take = tk, ac_machine_name = machine, ac_unique_id = cs_unique_id c,
      ac_model = cs_model c, ac_version = cs_version c, ac_using_sync = False,
      ac_folder = folder, ac_thumbnail_filename = None, ac_width = 0,
      ac_height = 0, ac_bitdepth = as_bits_per_sample a, ac_frame_count = as_recorded_samples a,
      ac_dropped_frames = 0, ac_total_size = 0, ac_duration = as_duration a,
      ac_framerate = as_sample_rate a, ac_all_files = Some (join_with '';'' (all_files c)),
      ac_rotation = 0, ac_exposure_ms = 0\<rparr>"

definition create_archive_camera :: "archive_camera \<Rightarrow> db \<Rightarrow> db" where
  "create_archive_camera c d = d\<lparr>db_acameras := snd (t_create c (db_acameras d))\<rparr>"

text \<open>
  The folder of a recorded camera is the first of its files; that of an audio device is
  \<open>filename[0]\<close> of a string, its first character.
\<close>

definition archive_cam ::
    "pk \<Rightarrow> string \<Rightarrow> cam_summary \<Rightarrow> int \<Rightarrow> string option \<times> db \<Rightarrow> (string option \<times> db) \<times> py_exn option" where
  "archive_cam tk machine c rotation s =
     (case (cs_recorder c, cs_meta c, cs_audio c) of
        (Some rec, Some m, _) \<Rightarrow>
          (case (fst rec, fst s) of
             ([], _) \<Rightarrow> (s, Some IndexError)
           | (folder # _, None) \<Rightarrow> (s, Some (NameError ''filename''))
           | (folder # _, Some f) \<Rightarrow>
               ((fst s, create_archive_camera (recorded_camera tk machine c rotation rec m folder f) (snd s)), None))
      | (_, _, Some a) \<Rightarrow>
          (case as_filename a of
             [] \<Rightarrow> (s, Some IndexError)
           | ch # _ \<Rightarrow> ((fst s, create_archive_camera (audio_camera tk machine c a [ch]) (snd s)), None))
      | _ \<Rightarrow> (s, None))"

definition find_db_cam :: "db \<Rightarrow> pk \<Rightarrow> string \<Rightarrow> string \<Rightarrow> camera option" where
  "find_db_cam d loc machine unique_id =
     (case t_filter (\<lambda>_ x. cn_location (node_of d x) = Some loc \<and> cn_machine_name (node_of d x) = machine
              \<and> cm_unique_id x = unique_id) (db_cameras d) of
        [] \<Rightarrow> None | (_, x) # _ \<Rightarrow> Some x)"

definition register_cam ::
    "(string \<Rightarrow> nat \<Rightarrow> py_exn + string) \<Rightarrow> (string \<Rightarrow> string option) \<Rightarrow> pk \<Rightarrow> pk \<Rightarrow> string \<Rightarrow> nat \<times> cam_summary
       \<Rightarrow> string option \<times> db \<Rightarrow> (string option \<times> db) \<times> py_exn option" where
  "register_cam uid decode loc tk machine ic s =
     (let (cam_index, c) = ic in
      case store_thumbnail (uid machine cam_index) decode tk cam_index c s of
        (s1, Some x) \<Rightarrow> (s1, Some x)
      | (s1, None) \<Rightarrow>
          (case find_db_cam (snd s1) loc machine (cs_unique_id c) of
             None \<Rightarrow> (s1, Some IndexError)
           | Some db_cam \<Rightarrow> archive_cam tk machine c (cm_rotation db_cam) s1))"

definition register_node ::
    "(string \<Rightarrow> nat \<Rightarrow> py_exn + string) \<Rightarrow> (string \<Rightarrow> string option) \<Rightarrow> pk \<Rightarrow> pk \<Rightarrow> node_summary
       \<Rightarrow> string option \<times> db \<Rightarrow> (string option \<times> db) \<times> py_exn option" where
  "register_node uid decode loc tk n s =
     (case ns_cameras n of
        None \<Rightarrow> (s, None)
      | Some cams \<Rightarrow> for_each (register_cam uid decode loc tk (ns_machine_name n)) (enumerate 0 cams) s)"

definition create_take :: "take \<Rightarrow> db \<Rightarrow> pk \<times> db" where
  "create_take t d = (let (k, tb) = t_create t (db_takes d) in (k, d\<lparr>db_takes := tb\<rparr>))"

definition name_of_project :: "db \<Rightarrow> pk \<Rightarrow> string" where
  "name_of_project d k = (case t_get (db_projects d) k of None \<Rightarrow> [] | Some p \<Rightarrow> pr_name p)"

definition name_of_session :: "db \<Rightarrow> pk \<Rightarrow> string" where
  "name_of_session d k = (case t_get (db_sessions d) k of None \<Rightarrow> [] | Some s \<Rightarrow> se_name s)"

text \<open>
  The new take has the number \<open>next_take\<close> of the shot; the number is increased only after
  all cameras are stored, so an exception in between leaves the take with the number the
  next one gets as well.
\<close>

definition register_new_take ::
    "(string \<Rightarrow> nat \<Rightarrow> py_exn + string) \<Rightarrow> (string \<Rightarrow> string option) \<Rightarrow> env \<Rightarrow> pk \<Rightarrow> capture_location
       \<Rightarrow> rec_summary \<Rightarrow> bool \<Rightarrow> bool \<Rightarrow> db \<Rightarrow> db \<times> (py_exn + rec_summary)" where
  "register_new_take uid decode e lk loc summary is_burst is_scan d =
     (case (cl_cur_project loc, cl_cur_session loc, cl_cur_shot loc) of
        (Some p, Some s, Some shk) \<Rightarrow>
          (case t_get (db_shots d) shk of
             None \<Rightarrow> (d, Inl DoesNotExist)
           | Some sh \<Rightarrow>
               (let (tk, d1) = create_take (new_take (e_now e) (''Take_'' @ show_pad 4 (sh_next_take sh))
                        shk (sh_next_take sh) is_burst is_scan) d
                in case for_each (register_node uid decode lk tk) (rs_nodes summary) (None, d1) of
                     ((_, d2), Some x) \<Rightarrow> (d2, Inl x)
                   | ((_, d2), None) \<Rightarrow>
                       (save_location lk loc
                          (d2\<lparr>db_shots := t_save shk (sh\<lparr>sh_next_take := sh_next_take sh + 1\<rparr>) (db_shots d2)\<rparr>),
                        Inr (summary\<lparr>rs_names := Some (name_of_project d2 p, name_of_session d2 s, sh_name sh),
                               rs_take_index := Some (sh_next_take sh), rs_take_id := Some tk\<rparr>))))
      | _ \<Rightarrow> (d, Inr summary))"

section \<open>Starting and stopping\<close>

definition cameras_flags :: "db \<Rightarrow> pk \<Rightarrow> json" where
  "cameras_flags d n = JObj [(''cameras'', JList (map (\<lambda>(_, c).
     JObj [(''uniqueid'', JStr (cm_unique_id c)), (''rotation'', JInt (cm_rotation c))]) (node_cameras d n)))]"

definition to_all :: "(pk \<times> capture_node) list \<Rightarrow> string \<Rightarrow> message list" where
  "to_all nodes path = map (\<lambda>(_, n). NodePost (cn_ip_address n) path (JText [])) nodes"

definition prepare_all :: "db \<Rightarrow> (pk \<times> capture_node) list \<Rightarrow> string \<Rightarrow> message list" where
  "prepare_all d nodes path = map (\<lambda>(k, n). NodePost (cn_ip_address n) path (cameras_flags d k)) nodes"

record record_request =
  rq_location :: "pk option"
  rq_session_id :: "pk option"
  rq_shot :: "string option"
  rq_burst_length :: "int option"
  rq_burst_is_scan :: "bool option"

definition post_start_recording :: "env \<Rightarrow> record_request \<Rightarrow> db \<Rightarrow> db \<times> rec_summary outcome" where
  "post_start_recording e q d =
     (case rq_location q of
        None \<Rightarrow> no_response d
      | Some lk \<Rightarrow>
          if \<not> has_write_access_location_id e lk d then (d, Http 403)
          else
            (case t_get (db_locations d) lk of
               None \<Rightarrow> (d, Raised DoesNotExist)
             | Some loc \<Rightarrow>
                 (case create_session_shot lk loc (rq_session_id q) (rq_shot q) d of
                    (d1, Inl x) \<Rightarrow> (d1, Raised x)
                  | (d1, Inr _) \<Rightarrow>
                      (let nodes = online_nodes d1 lk in
                       (send (prepare_all d1 nodes ''/all_prepare_multi1''
                              @ to_all nodes ''/all_prepare_multi2''
                              @ to_all nodes ''/all_start_multi'') d1, ok)))))"

text \<open>
  The answer of a node to the request that ends a recording: nothing (it fails, or carries no
  summary), or the summary of its cameras. Only nodes with a summary are listed.
\<close>

definition node_summaries ::
    "(pk \<Rightarrow> (cam_summary list option) option) \<Rightarrow> (pk \<times> capture_node) list \<Rightarrow> node_summary list" where
  "node_summaries answer nodes = concat (map (\<lambda>(k, n). case answer k of None \<Rightarrow> []
     | Some cams \<Rightarrow> [\<lparr>ns_machine_name = cn_machine_name n, ns_ip_address = cn_ip_address n,
                     ns_cameras = cams\<rparr>]) nodes)"

definition empty_summary :: "node_summary list \<Rightarrow> rec_summary" where
  "empty_summary ns = \<lparr>rs_nodes = ns, rs_names = None, rs_take_index = None, rs_take_id = None\<rparr>"

definition post_stop_recording ::
    "(pk \<Rightarrow> (cam_summary list option) option) \<Rightarrow> (string \<Rightarrow> nat \<Rightarrow> py_exn + string) \<Rightarrow> (string \<Rightarrow> string option)
       \<Rightarrow> env \<Rightarrow> record_request \<Rightarrow> db \<Rightarrow> db \<times> rec_summary outcome" where
  "post_stop_recording answer uid decode e q d =
     (case rq_location q of
        None \<Rightarrow> no_response d
      | Some lk \<Rightarrow>
          if \<not> has_write_access_location_id e lk d then (d, Http 403)
          else
            (case t_get (db_locations d) lk of
               None \<Rightarrow> (d, Raised DoesNotExist)
             | Some loc \<Rightarrow>
                 (let nodes = online_nodes d lk;
                      d1 = send (to_all nodes ''/all_stop_sync'' @ to_all nodes ''/all_stop_recording''
                                 @ to_all nodes ''/resume_preview'') d
                  in case add_rotation_info_to_cameras d1 (node_summaries answer nodes) of
                       Inl x \<Rightarrow> (d1, Raised x)
                     | Inr ns \<Rightarrow>
                         (case register_new_take uid decode e lk loc (empty_summary ns) False False d1 of
                            (d2, Inl x) \<Rightarrow> (d2, Raised x)
                          | (d2, Inr s) \<Rightarrow> (d2, Json 200 s)))))"

definition post_record_single_image ::
    "(pk \<Rightarrow> (cam_summary list option) option) \<Rightarrow> (string \<Rightarrow> nat \<Rightarrow> py_exn + string) \<Rightarrow> (string \<Rightarrow> string option)
       \<Rightarrow> env \<Rightarrow> record_request \<Rightarrow> db \<Rightarrow> db \<times> rec_summary outcome" where
  "post_record_single_image answer uid decode e q d =
     (case rq_location q of
        None \<Rightarrow> no_response d
      | Some lk \<Rightarrow>
          (let burst_length = given (rq_burst_length q) 1;
               burst_is_scan = given (rq_burst_is_scan q) False
           in if \<not> has_write_access_location_id e lk d then (d, Http 403)
              else
                (let nodes = online_nodes d lk;
                     d1 = send (prepare_all d nodes (''/all_prepare_single/'' @ show_int burst_length)
                                @ to_all nodes ''/all_prepare_single2'' @ to_all nodes ''/all_start_single''
                                @ to_all nodes ''/all_finalize_single'') d
                 in case add_rotation_info_to_cameras d1 (node_summaries answer nodes) of
                      Inl x \<Rightarrow> (d1, Raised x)
                    | Inr ns \<Rightarrow>
                        (case t_get (db_locations d1) lk of
                           None \<Rightarrow> (d1, Raised DoesNotExist)
                         | Some loc \<Rightarrow>
                             (case create_session_shot lk loc (rq_session_id q) (rq_shot q) d1 of
                                (d2, Inl x) \<Rightarrow> (d2, Raised x)
                              | (d2, Inr loc1) \<Rightarrow>
                                  (case register_new_take uid decode e lk loc1 (empty_summary ns)
                                          (burst_length > 1) (burst_is_scan \<and> burst_length > 1) d2 of
                                     (d3, Inl x) \<Rightarrow> (d3, Raised x)
                                   | (d3, Inr s) \<Rightarrow> (d3, Json 200 s)))))))"

end
