(* ===== verification/Json_Text.thy ===== *)
theory Json_Text
  imports Schema
begin

text \<open>
  \<open>json.dumps\<close>: the text of a JSON document, with the separators and the escapes of the
  Python library (every character outside the printable ASCII range is escaped). Text that is
  passed on as it is (\<open>JText\<close>) is a document by itself. The representation of a
  floating point number is a parameter; no document the server stores contains one.
\<close>

definition hex_char :: "nat \<Rightarrow> char" where
  "hex_char d = ''0123456789abcdef'' ! d"

definition hex4 :: "nat \<Rightarrow> string" where
  "hex4 n = [hex_char (n div 4096 mod 16), hex_char (n div 256 mod 16),
             hex_char (n div 16 mod 16), hex_char (n mod 16)]"

definition escape_char :: "char \<Rightarrow> string" where
  "escape_char c =
     (if c = CHR 0x22 then [CHR 0x5C, CHR 0x22]
      else if c = CHR 0x5C then [CHR 0x5C, CHR 0x5C]
      else if c = CHR 0x0A then [CHR 0x5C, CHR ''n'']
      else if c = CHR 0x0D then [CHR 0x5C, CHR ''r'']
      else if c = CHR 0x09 then [CHR 0x5C, CHR ''t'']
      else if c = CHR 0x0C then [CHR 0x5C, CHR ''f'']
      else if c = CHR 0x08 then [CHR 0x5C, CHR ''b'']
      else if CHR '' '' \<le> c \<and> c \<le> CHR ''~'' then [c]
      else [CHR 0x5C, CHR ''u''] @ hex4 (of_char c))"

definition show_json_string :: "string \<Rightarrow> string" where
  "show_json_string s = [CHR 0x22] @ concat (map escape_char s) @ [CHR 0x22]"

fun separated :: "string list \<Rightarrow> string" where
  "separated [] = []"
| "separated [x] = x"
| "separated (x # y # xs) = x @ '', '' @ separated (y # xs)"

fun dumps :: "(pyfloat \<Rightarrow> string) \<Rightarrow> json \<Rightarrow> string" where
  "dumps fl JNull = ''null''"
| "dumps fl (JBool b) = (if b then ''true'' else ''false'')"
| "dumps fl (JInt i) = show_int i"
| "dumps fl (JFloat x) = fl x"
| "dumps fl (JStr s) = show_json_string s"
| "dumps fl (JText s) = s"
| "dumps fl (JList xs) = ''['' @ separated (map (dumps fl) xs) @ '']''"
| "dumps fl (JObj kvs) = ''{'' @ separated (map (\<lambda>(k, v). show_json_string k @ '': '' @ dumps fl v) kvs) @ ''}''"

abbreviation to_json :: "json \<Rightarrow> string" where
  "to_json \<equiv> dumps (\<lambda>_. [])"

section \<open>Reading a string back\<close>

definition hex_digit :: "char \<Rightarrow> nat" where
  "hex_digit c = (if is_digit c then of_char c - 48 else of_char c - 87)"

text \<open>The inverse of the escapes, on the text between the quotes.\<close>

fun unescape :: "string \<Rightarrow> string option" where
  "unescape [] = Some []"
| "unescape (c # s) =
     (if c = CHR 0x5C then
        (case s of
           [] \<Rightarrow> None
         | e # s' \<Rightarrow>
             if e = CHR ''u'' then
               (case s' of
                  a # b # c2 # d # s'' \<Rightarrow> map_option (Cons (char_of
                    (hex_digit a * 4096 + hex_digit b * 256 + hex_digit c2 * 16 + hex_digit d))) (unescape s'')
                | _ \<Rightarrow> None)
             else
               map_option (Cons
                 (if e = CHR ''n'' then CHR 0x0A else if e = CHR ''r'' then CHR 0x0D
                  else if e = CHR ''t'' then CHR 0x09 else if e = CHR ''f'' then CHR 0x0C
                  else if e = CHR ''b'' then CHR 0x08 else e)) (unescape s'))
      else if c = CHR 0x22 then None
      else map_option (Cons c) (unescape s))"

lemma hex_digit_char: "d < 16 \<Longrightarrow> hex_digit (hex_char d) = d"
proof -
  have "\<forall>d \<in> set [0..<16]. hex_digit (hex_char d) = d" by code_simp
  then show "d < 16 \<Longrightarrow> hex_digit (hex_char d) = d" by simp
qed

lemma hex4_value:
  fixes n :: nat
  assumes "n < 256"
  shows "n div 4096 mod 16 * 4096 + n div 256 mod 16 * 256 + n div 16 mod 16 * 16 + n mod 16 = n"
proof -
  have "n div 4096 = 0" "n div 256 = 0" "n div 16 < 16" using assms by auto
  then show ?thesis by simp
qed

lemma unescape_escape_char:
  "unescape (escape_char c @ s) = map_option (Cons c) (unescape s)"
proof -
  consider "c \<in> {CHR 0x22, CHR 0x5C, CHR 0x0A, CHR 0x0D, CHR 0x09, CHR 0x0C, CHR 0x08}"
    | "c \<notin> {CHR 0x22, CHR 0x5C, CHR 0x0A, CHR 0x0D, CHR 0x09, CHR 0x0C, CHR 0x08}"
      "CHR '' '' \<le> c \<and> c \<le> CHR ''~''"
    | "c \<notin> {CHR 0x22, CHR 0x5C, CHR 0x0A, CHR 0x0D, CHR 0x09, CHR 0x0C, CHR 0x08}"
      "\<not> (CHR '' '' \<le> c \<and> c \<le> CHR ''~'')"
    by blast
  then show ?thesis
  proof cases
    case 1
    then show ?thesis by (auto simp: escape_char_def)
  next
    case 2
    then have "escape_char c = [c]" by (auto simp: escape_char_def)
    with 2 show ?thesis by auto
  next
    case 3
    then have e: "escape_char c = [CHR 0x5C, CHR ''u''] @ hex4 (of_char c)" by (auto simp: escape_char_def)
    have "of_char c < (256 :: nat)" by simp
    then have "char_of (of_char c div 4096 mod 16 * 4096 + of_char c div 256 mod 16 * 256
        + of_char c div 16 mod 16 * 16 + of_char c mod 16 :: nat) = c"
      by (simp only: hex4_value char_of_char)
    then show ?thesis by (simp add: e hex4_def hex_digit_char)
  qed
qed

lemma unescape_escape: "unescape (concat (map escape_char s)) = Some s"
  by (induction s) (simp_all add: unescape_escape_char)

text \<open>So the text of a string determines the string.\<close>

lemma show_json_string_inject: "show_json_string s = show_json_string t \<longleftrightarrow> s = t"
  by (metis append_same_eq same_append_eq show_json_string_def unescape_escape option.inject)

end
