(* ===== verification/Archive_Views.thy ===== *)
theory Archive_Views
  imports Farm_Views Capture_Takes Json_Text
begin

text \<open>
  The archive's views (\<open>archive/views.py\<close>) and the writing halves of its serializers
  (\<open>archive/serializers.py\<close>): flags, deletion and export of takes with the jobs they create,
  tracking assets, thumbnails, downloads and the import of sessions. Files below
  \<open>static/thumb\<close> are known by their names. \<open>uid\<close> stands for the call of
  \<open>uuid_node_base36()\<close>.
\<close>

section \<open>Lists of files\<close>

text \<open>\<open>str.split(sep)\<close> for a separator of one character.\<close>

fun split_on :: "char \<Rightarrow> string \<Rightarrow> string list" where
  "split_on c [] = [[]]"
| "split_on c (x # xs) =
     (if x = c then [] # split_on c xs
      else (case split_on c xs of [] \<Rightarrow> [[x]] | y # ys \<Rightarrow> (x # y) # ys))"

definition camera_files :: "archive_camera \<Rightarrow> py_exn + string list" where
  "camera_files c =
     (case ac_all_files c of None \<Rightarrow> Inl (AttributeError ''split'') | Some s \<Rightarrow> Inr (split_on (CHR '';'') s))"

text \<open>\<open>os.path.split(f.replace('\\','/'))[1]\<close>.\<close>

definition base_name :: "string \<Rightarrow> string" where
  "base_name f = path_tail (map (\<lambda>c. if c = CHR 0x5C then CHR ''/'' else c) f)"

text \<open>A dictionary of lists in the order in which its keys were first used.\<close>

fun add_files :: "string \<Rightarrow> 'a list \<Rightarrow> (string \<times> 'a list) list \<Rightarrow> (string \<times> 'a list) list" where
  "add_files m xs [] = [(m, xs)]"
| "add_files m xs ((k, ys) # rest) = (if k = m then (k, ys @ xs) # rest else (k, ys) # add_files m xs rest)"

section \<open>Assets and flags\<close>

definition create_track :: "tracking_asset \<Rightarrow> db \<Rightarrow> pk \<times> db" where
  "create_track a d = (let (k, t) = t_create a (db_tracks d) in (k, d\<lparr>db_tracks := t\<rparr>))"

definition save_track :: "pk \<Rightarrow> tracking_asset \<Rightarrow> db \<Rightarrow> db" where
  "save_track k a d = d\<lparr>db_tracks := t_save k a (db_tracks d)\<rparr>"

definition thumbnail_job :: "env \<Rightarrow> farm_job" where
  "thumbnail_job e = new_farm_job (e_now e) ''jobs.thumbnails.GenerateThumbnail'' (u_username (e_user e))"

text \<open>
  The asset is stored before its work folder is computed; a take that was not exported has
  no path to join, and the asset stays without a folder.
\<close>

definition post_create_tracking_asset ::
    "env \<Rightarrow> pk \<Rightarrow> pyfloat \<Rightarrow> pyfloat \<Rightarrow> db \<Rightarrow> db \<times> string outcome" where
  "post_create_tracking_asset e take_id start_time end_time d =
     (if \<not> u_is_superuser (e_user e) then (d, Http 403)
      else
        (case t_get (db_takes d) take_id of
           None \<Rightarrow> (d, Raised DoesNotExist)
         | Some src \<Rightarrow>
             (let asset = \<lparr>ta_take = take_id, ta_calib_file = None, ta_work_folder = None,
                    ta_start_time = start_time, ta_end_time = end_time, ta_video_thumb = None\<rparr>;
                  (k, d1) = create_track asset d
              in case tk_export_path src of
                   None \<Rightarrow> (d1, Raised TypeError)
                 | Some path \<Rightarrow>
                     (let d2 = save_track k (asset\<lparr>ta_work_folder :=
                            Some (path_join path (''work_TA'' @ show_nat k))\<rparr>) d1
                      in (snd (create_job ((thumbnail_job e)\<lparr>fj_status := Ready,
                             fj_ext_tracking_assets := Some k\<rparr>) d2), ok)))))"

definition post_set_frontal_cam :: "env \<Rightarrow> pk \<Rightarrow> string option \<Rightarrow> db \<Rightarrow> db \<times> string outcome" where
  "post_set_frontal_cam e session_id cam_unique_id d =
     (if \<not> u_is_superuser (e_user e) then (d, Http 403)
      else
        (case t_get (db_sessions d) session_id of
           None \<Rightarrow> (d, Raised DoesNotExist)
         | Some s \<Rightarrow> (d\<lparr>db_sessions := t_save session_id (s\<lparr>se_frontal_cam_id := cam_unique_id\<rparr>) (db_sessions d)\<rparr>, ok)))"

record flag_request =
  fq_take_id :: "pk option"
  fq_take_ids :: "pk list option"
  fq_flag_set :: bool
  fq_flag_name :: "string option"

definition flagged_ids :: "flag_request \<Rightarrow> pk list" where
  "flagged_ids q = (case fq_take_id q of None \<Rightarrow> [] | Some k \<Rightarrow> [k]) @
     (case fq_take_ids q of None \<Rightarrow> [] | Some ks \<Rightarrow> ks)"

definition post_set_take_flag :: "env \<Rightarrow> flag_request \<Rightarrow> db \<Rightarrow> db \<times> string outcome" where
  "post_set_take_flag e q d =
     (if \<not> u_is_superuser (e_user e) then (d, Http 403)
      else
        (let ids = flagged_ids q in
         case (if fq_flag_set q then fq_flag_name q else Some ''none'') of
           None \<Rightarrow> (d, if t_count (\<lambda>k _. k \<in> set ids) (db_takes d) > 0 then Raised IntegrityError else ok)
         | Some flag \<Rightarrow>
             (d\<lparr>db_takes := t_update (\<lambda>k _. k \<in> set ids) (\<lambda>t. t\<lparr>tk_flag := flag\<rparr>) (db_takes d)\<rparr>, ok)))"

section \<open>Deleting takes\<close>

text \<open>
  \<open>on_delete\<close> of the references to a take: its cameras and tracking assets go with it,
  a scan asset, a job or a session forgets it, and so on for the tracking assets.
\<close>

definition forget :: "pk list \<Rightarrow> pk option \<Rightarrow> pk option" where
  "forget ids k = (case k of None \<Rightarrow> None | Some i \<Rightarrow> if i \<in> set ids then None else Some i)"

definition tracks_of_takes :: "pk list \<Rightarrow> db \<Rightarrow> pk list" where
  "tracks_of_takes ids d = map fst (t_filter (\<lambda>_ a. ta_take a \<in> set ids) (db_tracks d))"

definition delete_takes :: "pk list \<Rightarrow> db \<Rightarrow> db" where
  "delete_takes ids d =
     (let tracks = tracks_of_takes ids d in
      d\<lparr>db_takes := t_delete (\<lambda>k _. k \<in> set ids) (db_takes d),
        db_acameras := t_delete (\<lambda>_ c. ac_take c \<in> set ids) (db_acameras d),
        db_tracks := t_delete (\<lambda>k _. k \<in> set tracks) (db_tracks d),
        db_scans := t_update (\<lambda>_ _. True)
          (\<lambda>a. a\<lparr>sa_take := forget ids (sa_take a),
                 sa_associated_tracking_asset := forget tracks (sa_associated_tracking_asset a)\<rparr>) (db_scans d),
        db_jobs := t_update (\<lambda>_ _. True)
          (\<lambda>j. j\<lparr>fj_ext_take := forget ids (fj_ext_take j),
                 fj_ext_tracking_assets := forget tracks (fj_ext_tracking_assets j)\<rparr>) (db_jobs d),
        db_sessions := t_update (\<lambda>_ _. True)
          (\<lambda>s. s\<lparr>se_master_calib := forget ids (se_master_calib s),
                 se_master_colorchart := forget ids (se_master_colorchart s),
                 se_neutral_take := forget ids (se_neutral_take s)\<rparr>) (db_sessions d)\<rparr>)"

text \<open>What is deleted outside the database: local thumbnails, and the files of each machine.\<close>

type_synonym doomed = "string list \<times> (string \<times> string list) list"

definition doomed_camera :: "take \<Rightarrow> archive_camera \<Rightarrow> doomed \<Rightarrow> doomed \<times> py_exn option" where
  "doomed_camera t c s =
     (let local = fst s @ (if truthy (ac_thumbnail_filename c) then [show_opt (ac_thumbnail_filename c)] else [])
      in case camera_files c of
           Inl x \<Rightarrow> ((local, snd s), Some x)
         | Inr files \<Rightarrow>
             (let exported = (case tk_export_path t of
                    None \<Rightarrow> []
                  | Some p \<Rightarrow> if p = [] then [] else map (\<lambda>f. path_join p (base_name f)) files)
              in ((local, add_files (ac_machine_name c) (files @ exported) (snd s)), None)))"

definition doomed_take :: "db \<Rightarrow> pk \<times> take \<Rightarrow> doomed \<Rightarrow> doomed \<times> py_exn option" where
  "doomed_take d kt s =
     (let (k, t) = kt;
          local = fst s @ (if truthy (tk_video_thumb t) then [show_opt (tk_video_thumb t)] else [])
      in for_each (doomed_camera t) (map snd (take_cameras d k)) (local, snd s))"

definition delete_files_job :: "env \<Rightarrow> string \<times> string list \<Rightarrow> db \<Rightarrow> db" where
  "delete_files_job e mf d =
     (let (node, d1) = make_sure_node_exists e (fst mf) d
      in snd (create_job ((new_farm_job (e_now e) ''jobs.archive.DeleteFiles'' (u_username (e_user e)))
             \<lparr>fj_params := Some (to_json (JObj [(''files'', JList (map JStr (snd mf))), (''node'', JStr (fst mf))])),
              fj_status := Ready, fj_node := Some node\<rparr>) d1))"

definition remove_files :: "string list \<Rightarrow> db \<Rightarrow> db" where
  "remove_files fs d = d\<lparr>db_files := (\<lambda>f. if f \<in> set fs then None else db_files d f)\<rparr>"

definition post_delete_takes :: "env \<Rightarrow> pk list option \<Rightarrow> db \<Rightarrow> db \<times> string outcome" where
  "post_delete_takes e takeid_list d =
     (if \<not> u_is_superuser (e_user e) then (d, Http 403)
      else
        (case takeid_list of
           None \<Rightarrow> (d, ok)
         | Some ids \<Rightarrow>
             (case for_each (doomed_take d) (t_filter (\<lambda>k _. k \<in> set ids) (db_takes d)) ([], []) of
                (_, Some x) \<Rightarrow> (d, Raised x)
              | ((local, remote), None) \<Rightarrow>
                  (remove_files local (fold (delete_files_job e) remote (delete_takes ids d)), ok))))"

section \<open>Data of the user\<close>

definition getUserData :: "env \<Rightarrow> db \<Rightarrow> pk \<times> userdata \<times> db" where
  "getUserData e d =
     (case t_filter (\<lambda>_ u. ud_user u = e_user_id e) (db_userdata d) of
        (k, u) # _ \<Rightarrow> (k, u, d)
      | [] \<Rightarrow> (let u = \<lparr>ud_user = e_user_id e, ud_export_path = []\<rparr>;
                  (k, t) = t_create u (db_userdata d)
              in (k, u, d\<lparr>db_userdata := t\<rparr>)))"

definition get_last_export_path :: "env \<Rightarrow> db \<Rightarrow> db \<times> string outcome" where
  "get_last_export_path e d = (let (_, u, d1) = getUserData e d in (d1, Json 200 (ud_export_path u)))"

section \<open>Exporting takes\<close>

definition exported_take :: "db \<Rightarrow> string \<Rightarrow> pk \<Rightarrow> take \<Rightarrow> take" where
  "exported_take d export_path k t =
     (let shot = (case t_get (db_shots d) (tk_shot t) of None \<Rightarrow> [] | Some s \<Rightarrow> sh_name s);
          session = (case take_session d t of None \<Rightarrow> [] | Some s \<Rightarrow> se_name s);
          path = path_join (path_join (path_join export_path session) shot) (tk_name t @ ''_'' @ show_nat k)
      in t\<lparr>tk_export_path := Some path, tk_work_folder := Some (path_join path (''work_T'' @ show_nat k))\<rparr>)"

text \<open>
  The priority is a variable of the whole request: it is set for calibration and best takes,
  raised for takes of one frame, and otherwise carried over from the take before.
\<close>

definition export_priority :: "string \<Rightarrow> int option \<Rightarrow> int \<Rightarrow> int" where
  "export_priority flag frame_count prio =
     (let p = (if flag = ''calib'' then 55 else if flag = ''best'' then 52 else prio)
      in if frame_count = Some 1 then p + 1 else p)"

definition export_camera ::
    "string \<Rightarrow> archive_camera \<Rightarrow> (string \<times> (string \<times> string) list) list
       \<Rightarrow> (string \<times> (string \<times> string) list) list \<times> py_exn option" where
  "export_camera path c files =
     (case camera_files c of
        Inl x \<Rightarrow> (add_files (ac_machine_name c) [] files, Some x)
      | Inr fs \<Rightarrow> (add_files (ac_machine_name c) (map (\<lambda>f. (f, path)) fs) files, None))"

definition export_params :: "string \<Rightarrow> string \<Rightarrow> (string \<times> (string \<times> string) list) list \<Rightarrow> json" where
  "export_params base path files = JObj
     [(''root_export_path'', JStr base), (''export_path'', JStr path),
      (''nodes'', JObj (map (\<lambda>(m, fs). (m, JList (map (\<lambda>(f, p). JList [JStr f, JStr p]) fs))) files))]"

text \<open>A thumbnail job that waits for the export job: stored, linked, and only then made ready.\<close>

definition dependent_thumbnails :: "env \<Rightarrow> int \<Rightarrow> string \<Rightarrow> pk option \<Rightarrow> pk option \<Rightarrow> pk \<Rightarrow> db \<Rightarrow> db" where
  "dependent_thumbnails e prio path scan tk job1 d =
     (let job = (thumbnail_job e)\<lparr>fj_params := Some (to_json (JObj [(''take_export_path'', JStr path)])),
            fj_ext_scan_assets := scan, fj_ext_take := tk, fj_priority := prio\<rparr>;
          k = fst (create_job job d);
          d1 = add_job_dependency k job1 (snd (create_job job d))
      in save_job (e_now e) k (job\<lparr>fj_status := Ready\<rparr>) d1)"

definition new_scan_asset :: "db \<Rightarrow> pk \<Rightarrow> take \<Rightarrow> string \<Rightarrow> scan_asset" where
  "new_scan_asset d k t path =
     \<lparr>sa_project = (case take_project d t of None \<Rightarrow> 0 | Some p \<Rightarrow> p), sa_name = take_full_name d t,
      sa_image_folder = path, sa_calib_file = [], sa_work_folder = [], sa_thumbnail_filename = None,
      sa_take = Some k, sa_take_neutral_start_time = None, sa_take_neutral_end_time = None,
      sa_take_mixed_w_time = None, sa_take_pattern_start_time = None, sa_take_pattern_last_time = None,
      sa_has_tracking = False, sa_associated_tracking_asset = None, sa_associated_tracking_asset_time = None\<rparr>"

definition export_scan :: "env \<Rightarrow> int \<Rightarrow> pk \<Rightarrow> take \<Rightarrow> string \<Rightarrow> pk \<Rightarrow> db \<Rightarrow> db" where
  "export_scan e prio k t path job1 d =
     (if tk_is_scan_burst t \<and> scans_of_take d k = [] then
        (let asset = new_scan_asset d k t path;
             (sk, ts) = t_create asset (db_scans d);
             d1 = d\<lparr>db_scans := ts\<rparr>;
             d2 = d1\<lparr>db_scans := t_save sk (asset\<lparr>sa_work_folder :=
                    path_join path (''work_SA'' @ show_nat sk)\<rparr>) (db_scans d1)\<rparr>
         in dependent_thumbnails e prio path (Some sk) None job1 d2)
      else d)"

definition export_take :: "env \<Rightarrow> string \<Rightarrow> pk \<Rightarrow> int \<times> db \<Rightarrow> (int \<times> db) \<times> py_exn option" where
  "export_take e base k s =
     (let (prio, d) = s in
      case t_get (db_takes d) k of
        None \<Rightarrow> (s, Some DoesNotExist)
      | Some t0 \<Rightarrow>
          (let t = exported_take d base k t0;
               path = show_opt (tk_export_path t);
               d1 = d\<lparr>db_takes := t_save k t (db_takes d)\<rparr>;
               frames = take_frame_count d1 k;
               p = export_priority (tk_flag t) frames prio
           in case for_each (export_camera path) (map snd (take_cameras d1 k)) [] of
                (_, Some x) \<Rightarrow> ((p, d1), Some x)
              | (files, None) \<Rightarrow>
                  (let (job1, d2) = create_job ((new_farm_job (e_now e) ''jobs.archive.ExportTake'' (u_username (e_user e)))
                         \<lparr>fj_params := Some (to_json (export_params base path files)),
                          fj_status := Ready, fj_ext_take := Some k, fj_priority := p\<rparr>) d1;
                       d3 = export_scan e p k t path job1 d2;
                       d4 = (if frames = Some 1 then d3 else dependent_thumbnails e p path None (Some k) job1 d3)
                   in ((p, d4), None))))"

definition post_export_takes ::
    "env \<Rightarrow> pk list option \<Rightarrow> string option \<Rightarrow> db \<Rightarrow> db \<times> string outcome" where
  "post_export_takes e takeid_list export_path d =
     (if \<not> u_is_superuser (e_user e) then (d, Http 403)
      else
        (case (takeid_list, export_path) of
           (Some ids, Some base) \<Rightarrow>
             (let (uk, u, d1) = getUserData e d;
                  d2 = d1\<lparr>db_userdata := t_save uk (u\<lparr>ud_export_path := base\<rparr>) (db_userdata d1)\<rparr>
              in case for_each (export_take e base) ids (50, d2) of
                   ((_, d3), Some x) \<Rightarrow> (d3, Raised x)
                 | ((_, d3), None) \<Rightarrow> (d3, ok))
         | _ \<Rightarrow> (d, ok)))"

section \<open>Thumbnails\<close>

text \<open>
  The four uploads: \<open>upload\<close> is the content of the file, \<open>write_ok\<close> whether it
  can be written; an exception of writing is printed and the answer is the same.
\<close>

definition post_tracking_asset_thumbnail ::
    "bool \<Rightarrow> pk \<Rightarrow> nat \<Rightarrow> string option \<Rightarrow> db \<Rightarrow> db \<times> string outcome" where
  "post_tracking_asset_thumbnail write_ok asset_id frame upload d =
     (case upload of
        None \<Rightarrow> (d, Http 500)
      | Some data \<Rightarrow>
          (case t_get (db_tracks d) asset_id of
             None \<Rightarrow> (d, Raised DoesNotExist)
           | Some _ \<Rightarrow>
               (if write_ok then d\<lparr>db_files := (db_files d)
                  (''track'' @ show_nat asset_id @ ''_f'' @ show_nat frame @ ''.jpg'' \<mapsto> data)\<rparr> else d, ok)))"

definition scan_thumbnail_name :: "pk \<Rightarrow> string \<Rightarrow> string \<Rightarrow> string" where
  "scan_thumbnail_name asset_id asset_type uid =
     ''s'' @ show_pad 8 asset_id @
     (if asset_type \<noteq> [] \<and> list_all is_digit asset_type
      then ''_f'' @ show_nat (read_nat asset_type) else ''_'' @ asset_type) @ ''_'' @ uid @ ''.jpg''"

definition post_scan_asset_thumbnail ::
    "(py_exn + string) \<Rightarrow> bool \<Rightarrow> pk \<Rightarrow> string \<Rightarrow> string option \<Rightarrow> db \<Rightarrow> db \<times> string outcome" where
  "post_scan_asset_thumbnail uid write_ok asset_id asset_type upload d =
     (case upload of
        None \<Rightarrow> (d, Http 500)
      | Some data \<Rightarrow>
          (case t_get (db_scans d) asset_id of
             None \<Rightarrow> (d, Raised DoesNotExist)
           | Some asset \<Rightarrow>
               (case uid of
                  Inl x \<Rightarrow> (d, Raised x)
                | Inr u \<Rightarrow>
                    (let f = scan_thumbnail_name asset_id asset_type u;
                         d1 = d\<lparr>db_files := (db_files d)(f \<mapsto> data)\<rparr>
                     in if \<not> write_ok then (d, ok)
                        else if asset_type = ''front''
                        then (d1\<lparr>db_scans := t_save asset_id (asset\<lparr>sa_thumbnail_filename := Some f\<rparr>) (db_scans d1)\<rparr>, ok)
                        else (d1, ok)))))"

definition post_tracking_video_thumbnail ::
    "(py_exn + string) \<Rightarrow> bool \<Rightarrow> pk \<Rightarrow> string option \<Rightarrow> db \<Rightarrow> db \<times> string outcome" where
  "post_tracking_video_thumbnail uid write_ok asset_id upload d =
     (case upload of
        None \<Rightarrow> (d, Http 500)
      | Some data \<Rightarrow>
          (case t_get (db_tracks d) asset_id of
             None \<Rightarrow> (d, Raised DoesNotExist)
           | Some a \<Rightarrow>
               (case uid of
                  Inl x \<Rightarrow> (d, Raised x)
                | Inr u \<Rightarrow>
                    (let f = ''tr'' @ show_pad 8 asset_id @ ''_front_'' @ u @ ''.mp4'';
                         d1 = d\<lparr>db_files := (db_files d)(f \<mapsto> data)\<rparr>
                     in (if write_ok then save_track asset_id (a\<lparr>ta_video_thumb := Some f\<rparr>) d1 else d, ok)))))"

definition post_take_video_thumbnail ::
    "(py_exn + string) \<Rightarrow> bool \<Rightarrow> pk \<Rightarrow> string option \<Rightarrow> db \<Rightarrow> db \<times> string outcome" where
  "post_take_video_thumbnail uid write_ok take_id upload d =
     (case upload of
        None \<Rightarrow> (d, Http 500)
      | Some data \<Rightarrow>
          (case t_get (db_takes d) take_id of
             None \<Rightarrow> (d, Raised DoesNotExist)
           | Some t \<Rightarrow>
               (case uid of
                  Inl x \<Rightarrow> (d, Raised x)
                | Inr u \<Rightarrow>
                    (let f = ''t'' @ show_pad 8 take_id @ ''_front_'' @ u @ ''.mp4'';
                         d1 = d\<lparr>db_files := (db_files d)(f \<mapsto> data)\<rparr>
                     in (if write_ok
                         then d1\<lparr>db_takes := t_save take_id (t\<lparr>tk_video_thumb := Some f\<rparr>) (db_takes d1)\<rparr>
                         else d, ok)))))"

section \<open>Downloads\<close>

text \<open>
  \<open>download_original\<close> asks the capture node for one frame after the other. The answer of
  \<open>requests.post\<close> has no \<open>info()\<close>, so the first frame ends in the handler, whatever
  the node sends; for a take that was exported the text of the request is indexed as if it
  were a dictionary, which raises before; without any frame the error message of \<open>ImagePacker.response\<close> uses a
  name it does not have.
\<close>

definition download_original :: "pk \<Rightarrow> string \<Rightarrow> db \<Rightarrow> db \<times> string outcome" where
  "download_original take_id cam_uid d =
     (case t_get (db_takes d) take_id of
        None \<Rightarrow> (d, Raised DoesNotExist)
      | Some t \<Rightarrow>
          (case filter (\<lambda>(_, c). ac_unique_id c = cam_uid) (take_cameras d take_id) of
             [] \<Rightarrow> (d, Http 404)
           | (_, cam) # _ \<Rightarrow>
               (let frames = (case take_frame_count d take_id of None \<Rightarrow> 0 | Some n \<Rightarrow> n);
                    burst = tk_is_burst t \<or> tk_is_scan_burst t
                in if frames > 1 \<and> \<not> burst then (d, Json 500 ''Download not supported for sequences'')
                   else
                     (case t_filter (\<lambda>_ n. cn_machine_name n = ac_machine_name cam) (db_cnodes d) of
                        [] \<Rightarrow> (d, Json 500 (''Capture node not found: '' @ ac_machine_name cam))
                      | (_, node) # _ \<Rightarrow>
                          (case ac_all_files cam of
                             None \<Rightarrow> (d, Raised TypeError)
                           | Some files \<Rightarrow>
                               if burst \<and> frames \<le> 0 then (d, Raised (NameError ''cam''))
                               else if truthy (tk_export_path t) then (d, Raised TypeError)
                               else
                                 (let extension = (if \<not> contains ''.tif'' files \<and> contains ''.raw'' files
                                                   then ''raw'' else ''tif'')
                                  in (send [NodePost (cn_ip_address node) ''/download/'' (JObj
                                        [(''folder'', JStr (path_head (ac_folder cam))), (''unique_id'', JStr cam_uid),
                                         (''frame_index'', JInt 0), (''extension'', JStr extension)])] d,
                                      Json 500 (''Could not download file from '' @ ac_machine_name cam))))))))"

section \<open>Importing a session\<close>

text \<open>
  What \<open>SessionExportSerializer.create\<close> and \<open>ShotSerializer.create\<close> do with the takes
  of a shot. The creation times are set by the database layer, and a shot starts with the default
  next take.
\<close>

type_synonym take_data = "take \<times> archive_camera list option"
type_synonym shot_tree = "string \<times> take_data list"

definition create_take_tree :: "env \<Rightarrow> pk \<Rightarrow> take_data \<Rightarrow> db \<Rightarrow> db" where
  "create_take_tree e shk td d =
     (let (t, cams) = td;
          (k, d1) = create_take (t\<lparr>tk_shot := shk, tk_capture_time := e_now e\<rparr>) d
      in case cams of
           None \<Rightarrow> d1
         | Some cs \<Rightarrow> fold (\<lambda>c d. create_archive_camera (c\<lparr>ac_take := k\<rparr>) d) cs d1)"

definition create_shot_tree :: "env \<Rightarrow> pk \<Rightarrow> shot_tree \<Rightarrow> db \<Rightarrow> db" where
  "create_shot_tree e session sd d =
     (let (k, t) = t_create (new_shot (fst sd) session) (db_shots d)
      in fold (create_take_tree e k) (snd sd) (d\<lparr>db_shots := t\<rparr>))"

text \<open>
  \<open>post_import_session\<close> adds the chunks of the upload, which are bytes, to a string: with
  a chunk this raises, and without one the empty text is not a document. Every call is
  answered with status 500.
\<close>

definition post_import_session :: "string list option \<Rightarrow> db \<Rightarrow> db \<times> string outcome" where
  "post_import_session upload d =
     (d, Json 500 (case upload of
        None \<Rightarrow> ''Error: userfile''
      | Some [] \<Rightarrow> ''Error: Expecting value: line 1 column 1 (char 0)''
      | Some (_ # _) \<Rightarrow> ''Error: must be str, not bytes''))"

section \<open>Rules for derived jobs\<close>

text \<open>\<open>AddDependency\<close>: which jobs an asset offers, and whether they are allowed.\<close>

record add_dependency =
  ad_allow :: bool
  ad_reason :: string
  ad_targets :: "(string \<times> string \<times> string list \<times> string list) list"
  ad_done :: bool

definition add_dependency_init ::
    "farm_job list \<Rightarrow> string \<Rightarrow> string \<Rightarrow> string list \<Rightarrow> string list \<Rightarrow> add_dependency" where
  "add_dependency_init ext_jobs label job_class tags options =
     \<lparr>ad_allow = True, ad_reason = [],
      ad_targets = map (\<lambda>(l, c). (l, c, tags, options)) (zip (split_on (CHR ''|'') label) (split_on (CHR ''|'') job_class)),
      ad_done = list_ex (\<lambda>j. fj_job_class j \<in> set (split_on (CHR ''|'') job_class) \<and>
         fj_status j \<in> {Success, Ready, Running, Waiting}) ext_jobs\<rparr>"

definition make_fail_if :: "bool \<Rightarrow> string \<Rightarrow> add_dependency \<Rightarrow> add_dependency" where
  "make_fail_if condition reason a = (if condition then a\<lparr>ad_allow := False, ad_reason := reason\<rparr> else a)"

definition job_success :: "string \<Rightarrow> farm_job list \<Rightarrow> string \<Rightarrow> add_dependency \<Rightarrow> add_dependency" where
  "job_success model ext_jobs dep_job_class a =
     (if ad_allow a then
        (if list_ex (\<lambda>c. list_ex (\<lambda>j. fj_job_class j = c \<and> fj_status j = Success) ext_jobs)
              (split_on (CHR ''|'') dep_job_class)
         then a
         else make_fail_if True (''Missing successful job '' @ dep_job_class @ '' for '' @ model) a)
      else a)"

definition dependency_condition :: "bool \<Rightarrow> string \<Rightarrow> add_dependency \<Rightarrow> add_dependency" where
  "dependency_condition success reason a = (if ad_allow a then make_fail_if (\<not> success) reason a else a)"

definition add_to :: "add_dependency \<Rightarrow> json list \<Rightarrow> json list" where
  "add_to a l = l @ [JObj [(''done'', JBool (ad_done a)), (''allow'', JBool (ad_allow a)),
     (''reason'', JStr (ad_reason a)),
     (''jobs'', JList (map (\<lambda>(l, c, ts, os). JObj [(''label'', JStr l), (''class'', JStr c),
        (''tags'', JList (map JStr ts)), (''options'', JList (map JStr os))]) (ad_targets a)))]]"

end
