(* ===== verification/Client_Jobs.thy ===== *)
theory Client_Jobs
  imports Farm_Discover "HOL-Library.AList"
begin

text \<open>
  The job client (\<open>src/job_client/job_client.py\<close>) that runs on the machines of the farm: the
  processes of jobs, the container of running and finished jobs, and the loop that phones
  home. A thread per job and the main thread share the two dictionaries of the container; each
  access to a dictionary is one step of \<open>client_step\<close>, and the steps of the threads may
  come between any two steps of the main thread. Dictionaries are association lists, in the
  order of insertion. The imported classes of jobs, the operating system and the answers of
  the server are arguments.
\<close>

section \<open>Results of jobs\<close>

text \<open>How a call of a job ends, and the dictionary \<open>job_process\<close> puts into its queue.\<close>

datatype job_end = Returned "int option" | Yielded "child_info list" | Crashed string

record job_result =
  jx_job_id :: pk
  jx_success :: "bool option"
  jx_waiting :: "bool option"
  jx_retcode :: "int option"
  jx_exception :: "string option"
  jx_children :: "child_info list option"
  jx_progress :: "string option"

definition job_process :: "pk \<Rightarrow> job_end \<Rightarrow> job_result" where
  "job_process job_id x =
     (case x of
        Returned retcode \<Rightarrow> \<lparr>jx_job_id = job_id, jx_success = Some True, jx_waiting = None,
            jx_retcode = retcode, jx_exception = None, jx_children = None, jx_progress = None\<rparr>
      | Yielded kids \<Rightarrow> \<lparr>jx_job_id = job_id, jx_success = None, jx_waiting = Some True,
            jx_retcode = Some 0, jx_exception = None, jx_children = Some kids, jx_progress = None\<rparr>
      | Crashed details \<Rightarrow> \<lparr>jx_job_id = job_id, jx_success = Some False, jx_waiting = None,
            jx_retcode = Some 1, jx_exception = Some details, jx_children = None, jx_progress = None\<rparr>)"

definition failed_result :: "pk \<Rightarrow> string \<Rightarrow> string \<Rightarrow> job_result" where
  "failed_result job_id details progress =
     \<lparr>jx_job_id = job_id, jx_success = Some False, jx_waiting = None, jx_retcode = Some 1,
      jx_exception = Some details, jx_children = None, jx_progress = Some progress\<rparr>"

section \<open>One job\<close>

record job_instance =
  ji_job_id :: pk
  ji_job_class :: string
  ji_parameters :: "string option"
  ji_completed :: bool
  ji_status :: string
  ji_terminated :: bool
  ji_result :: "job_result option"

text \<open>
  What the import of a class yields: its module, and whether it inherits from \<open>BaseJob\<close>;
  or the traceback of an exception. Of the traceback of the two exceptions raised here only the
  message is kept.
\<close>

type_synonym importer = "string \<Rightarrow> string + (string \<times> bool)"

definition class_error :: "importer \<Rightarrow> string \<Rightarrow> string option" where
  "class_error imp job_class =
     (case imp job_class of
        Inl details \<Rightarrow> Some details
      | Inr (modul, is_base_job) \<Rightarrow>
          if List.take 5 modul \<noteq> ''jobs.'' then Some ''Job classes must be in the \"jobs\" module.''
          else if \<not> is_base_job then Some ''Jobs must inherit from jobs.base.BaseJob''
          else None)"

definition new_instance :: "importer \<Rightarrow> string option \<Rightarrow> string \<Rightarrow> pk \<Rightarrow> job_instance" where
  "new_instance imp params job_class job_id =
     (let ji = \<lparr>ji_job_id = job_id, ji_job_class = job_class, ji_parameters = params,
            ji_completed = False, ji_status = [], ji_terminated = False, ji_result = None\<rparr>
      in case class_error imp job_class of
           None \<Rightarrow> ji
         | Some details \<Rightarrow> ji\<lparr>ji_completed := True, ji_result := Some (failed_result job_id details [])\<rparr>)"

definition output_received_from_job :: "string \<Rightarrow> job_instance \<Rightarrow> job_instance" where
  "output_received_from_job data ji = ji\<lparr>ji_status := data\<rparr>"

text \<open>
  Whatever is done to the process (there is none yet, it has ended, it is killed, or the kill
  fails), the flag is set in the end; the thread of the job waits for the process in any case.
\<close>

definition terminate :: "job_instance \<Rightarrow> job_instance" where
  "terminate ji = ji\<lparr>ji_terminated := True\<rparr>"

text \<open>
  The end of \<open>blocking_run\<close>, once the process has ended: the queue is empty, holds the
  result, or cannot be read; the exception of the last case is printed and the result stays
  \<open>None\<close>.
\<close>

datatype job_queue = QueueEmpty | QueueHas job_result | QueueRaises

definition gather :: "job_queue \<Rightarrow> job_instance \<Rightarrow> job_instance" where
  "gather q ji = ji\<lparr>ji_result :=
     (if ji_terminated ji then Some (failed_result (ji_job_id ji) ''Terminated by server'' ''terminated'')
      else (case q of
              QueueEmpty \<Rightarrow> Some (failed_result (ji_job_id ji) ''Job process terminated abnormally'' ''failed'')
            | QueueHas r \<Rightarrow> Some (r\<lparr>jx_progress := Some (ji_status ji)\<rparr>)
            | QueueRaises \<Rightarrow> ji_result ji))\<rparr>"

text \<open>The job of a thread: a job that is completed from the start has nothing to run.\<close>

definition run_instance :: "job_queue \<Rightarrow> job_instance \<Rightarrow> job_instance" where
  "run_instance q ji = (if ji_completed ji then ji else gather q ji)"

section \<open>The client\<close>

text \<open>
  How far \<open>phone_home\<close> has come in reading the container for its request: the keys of
  the running jobs, then their progress, then the results of the finished jobs.
\<close>

datatype phase =
    Idle
  | HaveRunning "pk list"
  | HaveProgress "pk list" "(pk \<times> string) list"
  | HaveRequest "pk list" "(pk \<times> string) list" "job_result option list"

text \<open>\<open>cl_filing\<close>: the threads that have filed their job as finished and not yet removed it from the running ones.\<close>

record job_client =
  cl_running :: "(pk \<times> job_instance) list"
  cl_finished :: "(pk \<times> job_instance) list"
  cl_filing :: "pk list"
  cl_first_update :: bool
  cl_need_restart :: bool
  cl_status_changed :: bool
  cl_phase :: phase
  cl_exited :: bool

definition new_client :: job_client where
  "new_client = \<lparr>cl_running = [], cl_finished = [], cl_filing = [], cl_first_update = True,
     cl_need_restart = False, cl_status_changed = True, cl_phase = Idle, cl_exited = False\<rparr>"

text \<open>\<open>JobContainer.wrapper\<close>: what its thread does when the job has run, one access at a time.\<close>

definition file_finished :: "job_queue \<Rightarrow> pk \<Rightarrow> job_client \<Rightarrow> job_client" where
  "file_finished q k c =
     (case map_of (cl_running c) k of
        None \<Rightarrow> c
      | Some ji \<Rightarrow> c\<lparr>cl_finished := AList.update k (run_instance q ji) (cl_finished c),
                     cl_filing := k # cl_filing c\<rparr>)"

definition drop_running :: "pk \<Rightarrow> job_client \<Rightarrow> job_client" where
  "drop_running k c = c\<lparr>cl_running := AList.delete k (cl_running c), cl_filing := removeAll k (cl_filing c)\<rparr>"

definition change_running :: "(job_instance \<Rightarrow> job_instance) \<Rightarrow> pk \<Rightarrow> job_client \<Rightarrow> job_client" where
  "change_running f k c = c\<lparr>cl_running := map (\<lambda>(i, ji). (i, if i = k then f ji else ji)) (cl_running c)\<rparr>"

definition terminate_job :: "pk \<Rightarrow> job_client \<Rightarrow> job_client" where
  "terminate_job job_id c = change_running terminate job_id c"

definition submit_job ::
    "importer \<Rightarrow> pk \<times> string \<times> string option \<Rightarrow> job_client \<Rightarrow> job_client \<times> py_exn option" where
  "submit_job imp job c =
     (let (job_id, job_class, params) = job in
      if map_of (cl_running c) job_id \<noteq> None then (c, Some (PyException ''job_id must be unique''))
      else (c\<lparr>cl_running := AList.update job_id (new_instance imp params job_class job_id) (cl_running c),
              cl_status_changed := True\<rparr>, None))"

text \<open>The machine the client runs on: what the constructor of \<open>JobClient\<close> found out about it.\<close>

record gpu_info =
  gp_count :: int
  gp_compatible :: bool
  gp_memory :: nat
  gp_major :: int

definition cuda_devices :: "gpu_info option \<Rightarrow> int" where
  "cuda_devices gpu =
     (case gpu of
        None \<Rightarrow> 0
      | Some g \<Rightarrow>
          if gp_count g > 0
          then (if gp_compatible g then (if drop_bit 30 (gp_memory g) < 4 \<or> gp_major g < 5 then 0 else gp_count g)
                else 0)
          else gp_count g)"

record machine =
  mc_hostname :: string
  mc_ip :: string
  mc_system :: string
  mc_system_bits :: int
  mc_cpu_brand :: string
  mc_cpu_cores :: int
  mc_gpu :: "gpu_info option"
  mc_python :: "nat \<times> nat"
  mc_version :: int
  mc_git_version :: string
  mc_tags :: "string list"
  mc_available_jobs :: "string list"
  mc_load :: "pyfloat \<times> pyfloat"

definition client_tags :: "machine \<Rightarrow> string list" where
  "client_tags m = mc_tags m @ (if cuda_devices (mc_gpu m) > 0 then [''gpu''] else []) @
     [''py'' @ show_nat (fst (mc_python m)) @ show_nat (snd (mc_python m))]"

section \<open>Phoning home\<close>

text \<open>
  A result as the server reads it. A job without a result is sent as \<open>null\<close>, in which
  the server finds no entry at all.
\<close>

definition report_of :: "job_result option \<Rightarrow> finished_report" where
  "report_of r =
     (case r of
        None \<Rightarrow> \<lparr>fr_job_id = None, fr_progress = None, fr_children = None, fr_success = None, fr_exception = None\<rparr>
      | Some x \<Rightarrow> \<lparr>fr_job_id = Some (jx_job_id x), fr_progress = jx_progress x, fr_children = jx_children x,
                  fr_success = jx_success x, fr_exception = jx_exception x\<rparr>)"

definition payload ::
    "machine \<Rightarrow> bool \<Rightarrow> pk list \<Rightarrow> (pk \<times> string) list \<Rightarrow> job_result option list \<Rightarrow> discover" where
  "payload m first_update running progress results =
     \<lparr>dc_status = Some ''accepting'', dc_machine_name = Some (mc_hostname m),
      dc_ip_address = Some (mc_ip m), dc_system = Some (mc_system m),
      dc_system_bits = Some (mc_system_bits m), dc_cpu_brand = Some (mc_cpu_brand m),
      dc_cpu_cores = Some (mc_cpu_cores m), dc_cuda_device_count = Some (cuda_devices (mc_gpu m)),
      dc_restarted = Some first_update, dc_cpu_percent = Some (fst (mc_load m)),
      dc_mem_used = Some (snd (mc_load m)), dc_os_version = None,
      dc_code_version = Some (mc_version m), dc_git_version = Some (mc_git_version m),
      dc_client_tags = Some (client_tags m), dc_available_jobs = Some (mc_available_jobs m),
      dc_running_jobs_progress = Some progress, dc_running_jobs = Some running,
      dc_finished_jobs = Some (map report_of results)\<rparr>"

definition notify_exit :: "machine \<Rightarrow> discover" where
  "notify_exit m =
     \<lparr>dc_status = Some ''offline'', dc_machine_name = Some (mc_hostname m),
      dc_ip_address = Some (mc_ip m), dc_system = None, dc_system_bits = None, dc_cpu_brand = None,
      dc_cpu_cores = None, dc_cuda_device_count = None, dc_restarted = None, dc_cpu_percent = None,
      dc_mem_used = None, dc_os_version = None, dc_code_version = None, dc_git_version = None,
      dc_client_tags = None, dc_available_jobs = None, dc_running_jobs_progress = None,
      dc_running_jobs = None, dc_finished_jobs = None\<rparr>"

text \<open>The results the server has taken are deleted; a job without a result has no key to delete.\<close>

definition purge :: "job_result option \<Rightarrow> job_client \<Rightarrow> job_client \<times> py_exn option" where
  "purge r c =
     (case r of
        None \<Rightarrow> (c, Some TypeError)
      | Some x \<Rightarrow>
          if map_of (cl_finished c) (jx_job_id x) = None then (c, Some (KeyError ''job_id''))
          else (c\<lparr>cl_finished := AList.delete (jx_job_id x) (cl_finished c)\<rparr>, None))"

definition launch_received :: "importer \<Rightarrow> discover_reply option \<Rightarrow> job_client \<Rightarrow> job_client" where
  "launch_received imp reply c =
     (case reply of
        None \<Rightarrow> c
      | Some rp \<Rightarrow>
          (let c1 = (if rp_req_restart rp then c\<lparr>cl_need_restart := True\<rparr> else c)
           in case for_each (submit_job imp) (rp_jobs rp) c1 of
                (c2, Some _) \<Rightarrow> c2
              | (c2, None) \<Rightarrow> fold terminate_job (rp_jobs_to_kill rp) c2))"

text \<open>
  The answer to the request: \<open>None\<close> for an exception of the connection. The phase is
  over in any case; what is raised here ends \<open>phone_home\<close> and is logged by its caller.
\<close>

definition receive ::
    "importer \<Rightarrow> job_result option list \<Rightarrow> (discover_reply option) outcome option \<Rightarrow> job_client \<Rightarrow> job_client" where
  "receive imp results answer c =
     (let c0 = c\<lparr>cl_phase := Idle\<rparr> in
      case answer of
        Some (Json status_code reply) \<Rightarrow>
          (if status_code \<noteq> 200 then c0
           else case for_each purge results (c0\<lparr>cl_first_update := False\<rparr>) of
             (c1, Some _) \<Rightarrow> c1
           | (c1, None) \<Rightarrow> launch_received imp reply c1)
      | _ \<Rightarrow> c0)"

text \<open>After a request the loop leaves the program for its restart when nothing is left.\<close>

definition check_restart :: "job_client \<Rightarrow> job_client" where
  "check_restart c = c\<lparr>cl_exited := (cl_need_restart c \<and> cl_running c = [] \<and> cl_finished c = [])\<rparr>"

section \<open>The steps of the threads\<close>

inductive client_step :: "importer \<Rightarrow> job_client \<Rightarrow> job_client \<Rightarrow> bool" for imp where
  job_output: "client_step imp c (change_running (output_received_from_job data) k c)"
    if "k \<notin> set (cl_filing c)"
| job_filed: "client_step imp c (file_finished q k c)"
    if "map_of (cl_running c) k = Some ji" "k \<notin> set (cl_filing c)"
      "\<forall>r. q = QueueHas r \<longrightarrow> (\<exists>x. r = job_process k x)"
| job_dropped: "client_step imp c (drop_running k c)" if "k \<in> set (cl_filing c)"
| read_running: "client_step imp c (c\<lparr>cl_status_changed := False, cl_phase := HaveRunning (map fst (cl_running c))\<rparr>)"
    if "cl_phase c = Idle" "\<not> cl_exited c"
| read_progress: "client_step imp c
      (c\<lparr>cl_phase := HaveProgress rk (map (\<lambda>(i, ji). (i, ji_status ji)) (cl_running c))\<rparr>)"
    if "cl_phase c = HaveRunning rk"
| changed_during_iteration: "client_step imp c (check_restart (c\<lparr>cl_phase := Idle\<rparr>))" if "cl_phase c = HaveRunning rk"
| read_finished: "client_step imp c (c\<lparr>cl_phase := HaveRequest rk ps (map (ji_result \<circ> snd) (cl_finished c))\<rparr>)"
    if "cl_phase c = HaveProgress rk ps"
| answered: "client_step imp c (check_restart (receive imp rs answer c))" if "cl_phase c = HaveRequest rk ps rs"

definition client_reachable :: "importer \<Rightarrow> job_client \<Rightarrow> bool" where
  "client_reachable imp c \<longleftrightarrow> (client_step imp)\<^sup>*\<^sup>* new_client c"

end
