(* ===== verification/Client_Launch.thy ===== *)
theory Client_Launch
  imports Client_Jobs Farm_Correct
begin

text \<open>
  How a running job creates other jobs (\<open>src/job_client/jobs/base.py\<close>): it asks the
  server for a new job, and, when the job has dependencies or tags, sets them and the final
  status in further requests, because these relations need a stored job. The requests reach
  the REST view of jobs, whose update is the one of the serializer's fields.
\<close>

section \<open>Changing a job through the REST interface\<close>

record job_patch =
  jp_dependencies :: "pk list option"
  jp_tags :: "string list option"
  jp_status :: "job_status option"

definition no_patch :: job_patch where
  "no_patch = \<lparr>jp_dependencies = None, jp_tags = None, jp_status = None\<rparr>"

definition set_job_dependencies :: "pk \<Rightarrow> pk list \<Rightarrow> db \<Rightarrow> db" where
  "set_job_dependencies k ds d =
     d\<lparr>db_jobs := t_update (\<lambda>i _. i = k) (\<lambda>j. j\<lparr>fj_dependencies := remdups ds\<rparr>) (db_jobs d)\<rparr>"

text \<open>
  \<open>PATCH /jobs/farm_jobs/<id>/\<close>: the given fields replace the stored ones, and the row
  is saved. A dependency that does not exist is refused.
\<close>

definition patch_job :: "env \<Rightarrow> pk \<Rightarrow> job_patch \<Rightarrow> db \<Rightarrow> db \<times> unit outcome" where
  "patch_job e k p d =
     (case t_get (db_jobs d) k of
        None \<Rightarrow> (d, Http 404)
      | Some j \<Rightarrow>
          if \<not> (\<forall>ds \<in> set_option (jp_dependencies p). list_all (\<lambda>x. t_get (db_jobs d) x \<noteq> None) ds)
          then (d, Http 400)
          else
            (let d1 = (case jp_dependencies p of None \<Rightarrow> d | Some ds \<Rightarrow> set_job_dependencies k ds d);
                 d2 = save_job (e_now e) k (case jp_status p of None \<Rightarrow> j | Some st \<Rightarrow> j\<lparr>fj_status := st\<rparr>) d1;
                 d3 = (case jp_tags p of None \<Rightarrow> d2 | Some ts \<Rightarrow> set_job_tags k (remdups ts) d2)
             in (d3, Http 200)))"

section \<open>Launching jobs\<close>

record launch =
  ln_job_class :: string
  ln_node_name :: "string option"
  ln_params :: string
  ln_req_gpu :: bool
  ln_ext_take :: "pk option"
  ln_ext_scan_assets :: "pk option"
  ln_ext_tracking_assets :: "pk option"
  ln_as_child :: bool
  ln_dependency_list :: "pk list"
  ln_status :: job_status
  ln_tags :: "string list"

definition new_launch :: "string \<Rightarrow> launch" where
  "new_launch job_class = \<lparr>ln_job_class = job_class, ln_node_name = None, ln_params = [],
     ln_req_gpu = False, ln_ext_take = None, ln_ext_scan_assets = None, ln_ext_tracking_assets = None,
     ln_as_child = True, ln_dependency_list = [], ln_status = Ready, ln_tags = []\<rparr>"

definition delayed_status :: "launch \<Rightarrow> bool" where
  "delayed_status l \<longleftrightarrow> ln_dependency_list l \<noteq> [] \<or> ln_tags l \<noteq> []"

text \<open>The body of the request, for the job with the number \<open>job_id\<close>.\<close>

definition launch_request :: "pk \<Rightarrow> launch \<Rightarrow> new_job" where
  "launch_request job_id l =
     \<lparr>nj_job_class = ln_job_class l, nj_parent = (if ln_as_child l then Some job_id else None),
      nj_created_by = None, nj_status = Some (if delayed_status l then Created else ln_status l),
      nj_node_name = ln_node_name l, nj_params = Some (ln_params l), nj_progress = None,
      nj_req_gpu = Some (ln_req_gpu l), nj_req_version = None, nj_priority = None,
      nj_ext_take = ln_ext_take l, nj_ext_scan_assets = ln_ext_scan_assets l,
      nj_ext_tracking_assets = ln_ext_tracking_assets l, nj_image_filename = None,
      nj_mesh_filename = None, nj_dependencies = None, nj_tags = None\<rparr>"

text \<open>The requests that follow, in their order.\<close>

definition launch_patches :: "launch \<Rightarrow> job_patch list" where
  "launch_patches l =
     (if ln_dependency_list l \<noteq> [] then [no_patch\<lparr>jp_dependencies := Some (ln_dependency_list l)\<rparr>] else []) @
     (if ln_tags l \<noteq> [] then [no_patch\<lparr>jp_tags := Some (ln_tags l)\<rparr>] else []) @
     (if delayed_status l then [no_patch\<lparr>jp_status := Some (ln_status l)\<rparr>] else [])"

definition send_patch :: "env \<Rightarrow> pk \<Rightarrow> job_patch \<Rightarrow> db \<Rightarrow> db \<times> py_exn option" where
  "send_patch e k p d =
     (let (d1, r) = patch_job e k p d
      in (d1, if http_status r = 200 then None else Some (PyException ''job set failed'')))"

definition launch_job :: "env \<Rightarrow> pk \<Rightarrow> launch \<Rightarrow> db \<Rightarrow> db \<times> (py_exn + pk)" where
  "launch_job e job_id l d =
     (case create_api_job e (launch_request job_id l) d of
        (d1, Json status_code k) \<Rightarrow>
          if status_code \<noteq> 201 then (d1, Inl (PyException ''launch_job failed''))
          else
            (case for_each (send_patch e k) (launch_patches l) d1 of
               (d2, Some x) \<Rightarrow> (d2, Inl x)
             | (d2, None) \<Rightarrow> (d2, Inr k))
      | (d1, _) \<Rightarrow> (d1, Inl (PyException ''launch_job failed'')))"

text \<open>
  \<open>yieldToChildren\<close> launches the children itself and ends the job with an empty list.
  An exception on the way ends it as well; the children launched before stay.
\<close>

definition yieldToChildren :: "env \<Rightarrow> pk \<Rightarrow> launch list \<Rightarrow> db \<Rightarrow> db \<times> (py_exn + job_end)" where
  "yieldToChildren e job_id children_list d =
     (if children_list = []
      then (d, Inl (PyException ''children_list passed to yieldToChildren must have at least one element''))
      else
        (case for_each (\<lambda>l d. case launch_job e job_id l d of
                  (d1, Inl x) \<Rightarrow> (d1, Some x) | (d1, Inr _) \<Rightarrow> (d1, None)) children_list d of
           (d1, Some x) \<Rightarrow> (d1, Inl x)
         | (d1, None) \<Rightarrow> (d1, Inr (Yielded []))))"

section \<open>What a launch leaves in the database\<close>

text \<open>The row of a job after an accepted change.\<close>

definition patched :: "time \<Rightarrow> job_patch \<Rightarrow> farm_job \<Rightarrow> farm_job" where
  "patched now p j =
     j\<lparr>fj_status := (case jp_status p of None \<Rightarrow> fj_status j | Some st \<Rightarrow> st),
       fj_dependencies := (case jp_dependencies p of None \<Rightarrow> fj_dependencies j | Some ds \<Rightarrow> remdups ds),
       fj_tags := (case jp_tags p of None \<Rightarrow> fj_tags j | Some ts \<Rightarrow> remdups ts),
       fj_modified := now,
       fj_status_changed := (if jp_status p \<notin> {None, Some (fj_status j)} then now else fj_status_changed j)\<rparr>"

definition patch_fits :: "job_patch \<Rightarrow> db \<Rightarrow> bool" where
  "patch_fits p d \<longleftrightarrow> (\<forall>ds \<in> set_option (jp_dependencies p). list_all (\<lambda>x. t_get (db_jobs d) x \<noteq> None) ds)"

lemma patch_job_accepted:
  assumes g: "t_get (db_jobs d) k = Some j" and fits: "patch_fits p d"
  shows "\<exists>d'. patch_job e k p d = (d', Http 200) \<and> db_fnodes d' = db_fnodes d \<and>
    t_get (db_jobs d') = (t_get (db_jobs d))(k \<mapsto> patched (e_now e) p j)"
proof -
  define d1 where "d1 = (case jp_dependencies p of None \<Rightarrow> d | Some ds \<Rightarrow> set_job_dependencies k ds d)"
  define d2 where
    "d2 = save_job (e_now e) k (case jp_status p of None \<Rightarrow> j | Some st \<Rightarrow> j\<lparr>fj_status := st\<rparr>) d1"
  define d3 where "d3 = (case jp_tags p of None \<Rightarrow> d2 | Some ts \<Rightarrow> set_job_tags k (remdups ts) d2)"
  have 1: "t_get (db_jobs d1) i = (if i = k then Some (case jp_dependencies p of None \<Rightarrow> j
      | Some ds \<Rightarrow> j\<lparr>fj_dependencies := remdups ds\<rparr>) else t_get (db_jobs d) i)" for i
    using g by (cases "jp_dependencies p"; cases "t_get (db_jobs d) i")
      (auto simp: d1_def set_job_dependencies_def t_get_update)
  have 2: "t_get (db_jobs d2) i =
      (if i = k then Some (patched (e_now e) (p\<lparr>jp_tags := None\<rparr>) j) else t_get (db_jobs d) i)" for i
    by (cases "jp_status p"; cases "jp_dependencies p")
      (simp_all add: d2_def jobs_save_job 1 stamp_def patched_def)
  have "t_get (db_jobs d3) i = (if i = k then Some (patched (e_now e) p j) else t_get (db_jobs d) i)" for i
    using 2 [of i] by (cases "jp_tags p"; cases "t_get (db_jobs d) i")
      (auto simp: d3_def set_job_tags_def t_get_update patched_def)
  then have "t_get (db_jobs d3) = (t_get (db_jobs d))(k \<mapsto> patched (e_now e) p j)"
    by (simp add: fun_eq_iff)
  moreover have "patch_job e k p d = (d3, Http 200)"
    unfolding d3_def d2_def d1_def using g fits by (simp add: patch_job_def patch_fits_def Let_def)
  moreover have "db_fnodes d3 = db_fnodes d"
    by (simp add: d3_def d2_def d1_def frame_simps set_job_tags_def set_job_dependencies_def
        split: option.splits)
  ultimately show ?thesis by blast
qed

lemma send_patches:
  assumes "t_get (db_jobs d) k = Some j" "\<forall>p \<in> set ps. patch_fits p d"
  shows "\<exists>d'. for_each (send_patch e k) ps d = (d', None) \<and> db_fnodes d' = db_fnodes d \<and>
    t_get (db_jobs d') = (t_get (db_jobs d))(k \<mapsto> fold (patched (e_now e)) ps j)"
  using assms
proof (induction ps arbitrary: d j)
  case Nil
  then show ?case by (auto simp: fun_eq_iff)
next
  case (Cons p ps)
  obtain d1 where d1: "patch_job e k p d = (d1, Http 200)"
    "db_fnodes d1 = db_fnodes d" "t_get (db_jobs d1) = (t_get (db_jobs d))(k \<mapsto> patched (e_now e) p j)"
    using patch_job_accepted [OF Cons.prems(1)] Cons.prems(2) by (metis list.set_intros(1))
  have "\<forall>q \<in> set ps. patch_fits q d1"
    using Cons.prems(2) by (force simp: patch_fits_def d1(3) list_all_iff)
  moreover have "t_get (db_jobs d1) k = Some (patched (e_now e) p j)" by (simp add: d1(3))
  ultimately obtain d' where "for_each (send_patch e k) ps d1 = (d', None)"
    "db_fnodes d' = db_fnodes d1" "t_get (db_jobs d') = (t_get (db_jobs d1))(k \<mapsto> fold (patched (e_now e)) ps (patched (e_now e) p j))"
    using Cons.IH by blast
  moreover have "send_patch e k p d = (d1, None)" by (simp add: send_patch_def d1(1))
  ultimately show ?case by (auto simp: d1(2,3) fun_eq_iff)
qed

text \<open>The node of a name is found, or made.\<close>

lemma named_node:
  assumes inv: "farm_inv d"
    and one: "length (t_filter (\<lambda>_ n. fn_machine_name n = name) (db_fnodes d)) \<le> 1"
  shows "\<exists>d2 n nd. node_by_slug e name d = (d2, Inr n) \<and> db_jobs d2 = db_jobs d \<and>
    db_takes d2 = db_takes d \<and> db_scans d2 = db_scans d \<and> db_tracks d2 = db_tracks d \<and>
    t_get (db_fnodes d2) n = Some nd \<and> fn_machine_name nd = name"
proof (cases "t_filter (\<lambda>_ n. fn_machine_name n = name) (db_fnodes d)")
  case Nil
  then show ?thesis
    using t_get_create [OF farm_invD(2) [OF inv], of "new_farm_node (e_now e) name" "next_pk (db_fnodes d)"]
    by (auto simp: node_by_slug_def create_farm_node_def case_prod_beta new_farm_node_def)
next
  case (Cons kn rest)
  with one have sing: "t_filter (\<lambda>_ n. fn_machine_name n = name) (db_fnodes d) = [(fst kn, snd kn)]"
    by simp
  then have "(fst kn, snd kn) \<in> set (t_filter (\<lambda>_ n. fn_machine_name n = name) (db_fnodes d))" by simp
  with farm_invD(2) [OF inv] have "t_get (db_fnodes d) (fst kn) = Some (snd kn)"
    "fn_machine_name (snd kn) = name" by (simp_all only: t_filter_iff)
  with sing show ?thesis by (cases kn) (simp add: node_by_slug_def)
qed

lemma api_job_cong: "db_jobs d2 = db_jobs d \<Longrightarrow> api_job e r node d2 = api_job e r node d"
  by (simp add: api_job_def cong: option.case_cong)

text \<open>The request of \<open>launch_job\<close> is accepted, and stores the row.\<close>

lemma launch_created:
  assumes inv: "farm_inv d"
    and parent: "t_get (db_jobs d) me \<noteq> None"
    and refs: "\<forall>t \<in> set_option (ln_ext_take l). t_get (db_takes d) t \<noteq> None"
      "\<forall>a \<in> set_option (ln_ext_scan_assets l). t_get (db_scans d) a \<noteq> None"
      "\<forall>a \<in> set_option (ln_ext_tracking_assets l). t_get (db_tracks d) a \<noteq> None"
    and node: "\<forall>name \<in> set_option (ln_node_name l).
      length (t_filter (\<lambda>_ n. fn_machine_name n = name) (db_fnodes d)) \<le> 1"
  obtains d1 node where
    "create_api_job e (launch_request me l) d = (d1, Json 201 (next_pk (db_jobs d)))"
    "t_get (db_jobs d1) =
       (t_get (db_jobs d))(next_pk (db_jobs d) \<mapsto> api_job e (launch_request me l) node d)"
    "node = None \<longleftrightarrow> ln_node_name l = None"
    "\<forall>n name. node = Some n \<and> ln_node_name l = Some name \<longrightarrow>
       (\<exists>nd. t_get (db_fnodes d1) n = Some nd \<and> fn_machine_name nd = name)"
proof -
  let ?r = "launch_request me l"
  have valid: "new_job_valid ?r d2" if "db_jobs d2 = db_jobs d" "db_takes d2 = db_takes d"
    "db_scans d2 = db_scans d" "db_tracks d2 = db_tracks d" for d2
    using parent refs that by (auto simp: new_job_valid_def launch_request_def)
  have create: "create_job (api_job e ?r node d2) d2 = (next_pk (db_jobs d), d1) \<Longrightarrow>
      db_jobs d2 = db_jobs d \<Longrightarrow> t_get (db_jobs d1) =
        (t_get (db_jobs d))(next_pk (db_jobs d) \<mapsto> api_job e ?r node d)" for node d1 d2
    using jobs_create_job [of d2 "api_job e ?r node d2"] farm_invD(1) [OF inv]
      api_job_cong [of d2 d e ?r node]
    by (simp add: fun_eq_iff)
  show ?thesis
  proof (cases "ln_node_name l")
    case None
    have "create_api_job e ?r d = (snd (create_job (api_job e ?r None d) d), Json 201 (next_pk (db_jobs d)))"
      using valid [of d] None by (simp add: create_api_job_def launch_request_def case_prod_beta)
    then show ?thesis using create [of None d] None by (intro that) (auto simp: prod_eq_iff)
  next
    case (Some name)
    obtain d2 n nd where d2: "node_by_slug e name d = (d2, Inr n)" "db_jobs d2 = db_jobs d"
      "db_takes d2 = db_takes d" "db_scans d2 = db_scans d" "db_tracks d2 = db_tracks d"
      "t_get (db_fnodes d2) n = Some nd" "fn_machine_name nd = name"
      using named_node [OF inv, of name e] node Some by auto
    have "create_api_job e ?r d =
        (snd (create_job (api_job e ?r (Some n) d2) d2), Json 201 (next_pk (db_jobs d)))"
      using valid [OF d2(2-5)] Some d2(1,2)
      by (simp add: create_api_job_def launch_request_def case_prod_beta)
    then show ?thesis using create [of "Some n" d2] Some d2
      by (intro that [of _ "Some n"]) (auto simp: prod_eq_iff frame_simps)
  qed
qed

lemma launch_patches_fit:
  "\<forall>x \<in> set (ln_dependency_list l). t_get (db_jobs d) x \<noteq> None \<Longrightarrow> p \<in> set (launch_patches l) \<Longrightarrow> patch_fits p d"
  by (auto simp: launch_patches_def patch_fits_def no_patch_def list_all_iff split: if_splits)

lemma launch_patches_status:
  "n < length (launch_patches l) \<Longrightarrow>
   fj_status (fold (patched now) (List.take n (launch_patches l)) j) = fj_status j"
  by (auto simp: launch_patches_def patched_def no_patch_def less_Suc_eq numeral_2_eq_2
      split: if_splits)

text \<open>The row after all requests, and before the last.\<close>

lemma launched_row:
  assumes "t_get (db_jobs d) me = Some pj"
    and row: "row = fold (patched now) (launch_patches l) (api_job e (launch_request me l) node d)"
  shows "fj_job_class row = ln_job_class l" "fj_params row = Some (ln_params l)"
    "fj_status row = ln_status l" "fj_dependencies row = remdups (ln_dependency_list l)"
    "fj_tags row = remdups (ln_tags l)" "fj_parent row = (if ln_as_child l then Some me else None)"
    "fj_priority row = (if ln_as_child l then fj_priority pj else 50)" "fj_node row = node"
  using assms(1)
  by (auto simp: row launch_patches_def patched_def no_patch_def delayed_status_def api_job_def
      launch_request_def new_farm_job_def)

lemma unfinished_no_candidate:
  assumes "m < length (launch_patches l)"
    and "t_get (db_jobs dm) k = Some (fold (patched now) (List.take m (launch_patches l)) (api_job e (launch_request me l) node d))"
  shows "\<not> candidate dm n nd av ex k i"
proof -
  have "fj_status (api_job e (launch_request me l) node d) = Created"
    using assms(1) by (auto simp: api_job_def launch_request_def launch_patches_def delayed_status_def split: if_splits)
  with assms show ?thesis by (auto simp: candidate_def launch_patches_status [OF assms(1)])
qed

text \<open>
  C13: a job launched by a running job gets the class, the parameters, the
  node, the status, the dependencies, the tags and the parent that were asked for, and the priority of its parent;
  no other job changes. When it has dependencies or tags, it takes several requests, and no node can be
  given the job before the last of them: it stays out of reach of the scheduler until its dependencies
  and tags are stored.
\<close>

theorem launch_job_correct:
  assumes inv: "farm_inv d" and parent: "t_get (db_jobs d) me = Some pj"
    and refs: "\<forall>t \<in> set_option (ln_ext_take l). t_get (db_takes d) t \<noteq> None"
      "\<forall>a \<in> set_option (ln_ext_scan_assets l). t_get (db_scans d) a \<noteq> None"
      "\<forall>a \<in> set_option (ln_ext_tracking_assets l). t_get (db_tracks d) a \<noteq> None"
      "\<forall>x \<in> set (ln_dependency_list l). t_get (db_jobs d) x \<noteq> None"
    and node: "\<forall>name \<in> set_option (ln_node_name l).
      length (t_filter (\<lambda>_ n. fn_machine_name n = name) (db_fnodes d)) \<le> 1"
  shows "\<exists>k d1 d' j. t_get (db_jobs d) k = None \<and>
    create_api_job e (launch_request me l) d = (d1, Json 201 k) \<and>
    launch_job e me l d = (d', Inr k) \<and> t_get (db_jobs d') = (t_get (db_jobs d))(k \<mapsto> j) \<and>
    fj_job_class j = ln_job_class l \<and> fj_params j = Some (ln_params l) \<and> fj_status j = ln_status l \<and>
    fj_dependencies j = remdups (ln_dependency_list l) \<and> fj_tags j = remdups (ln_tags l) \<and>
    fj_parent j = (if ln_as_child l then Some me else None) \<and>
    fj_priority j = (if ln_as_child l then fj_priority pj else 50) \<and>
    (case ln_node_name l of None \<Rightarrow> fj_node j = None
     | Some name \<Rightarrow> \<exists>n nd. fj_node j = Some n \<and> t_get (db_fnodes d') n = Some nd \<and> fn_machine_name nd = name) \<and>
    (\<forall>m < length (launch_patches l). \<exists>dm. for_each (send_patch e k) (List.take m (launch_patches l)) d1 = (dm, None) \<and>
       (\<forall>n nd av ex i. \<not> candidate dm n nd av ex k i))"
proof -
  let ?k = "next_pk (db_jobs d)" and ?r = "launch_request me l" and ?now = "e_now e"
  obtain d1 node where c: "create_api_job e ?r d = (d1, Json 201 ?k)"
    "t_get (db_jobs d1) = (t_get (db_jobs d))(?k \<mapsto> api_job e ?r node d)"
    "node = None \<longleftrightarrow> ln_node_name l = None"
    "\<forall>n name. node = Some n \<and> ln_node_name l = Some name \<longrightarrow>
       (\<exists>nd. t_get (db_fnodes d1) n = Some nd \<and> fn_machine_name nd = name)"
    using launch_created [OF inv _ refs(1-3) node, of me e] parent by auto
  let ?j = "api_job e ?r node d"
  have g1: "t_get (db_jobs d1) ?k = Some ?j" by (simp add: c(2))
  have fits: "patch_fits p d1" if "p \<in> set (launch_patches l)" for p
    using refs(4) by (intro launch_patches_fit [OF _ that]) (simp add: c(2))
  have run: "\<exists>dm. for_each (send_patch e ?k) ps d1 = (dm, None) \<and> db_fnodes dm = db_fnodes d1 \<and>
      t_get (db_jobs dm) = (t_get (db_jobs d1))(?k \<mapsto> fold (patched ?now) ps ?j)"
    if "set ps \<subseteq> set (launch_patches l)" for ps
    using that by (intro send_patches [OF g1]) (auto intro: fits)
  obtain d' where d': "for_each (send_patch e ?k) (launch_patches l) d1 = (d', None)"
    "db_fnodes d' = db_fnodes d1"
    "t_get (db_jobs d') = (t_get (db_jobs d1))(?k \<mapsto> fold (patched ?now) (launch_patches l) ?j)"
    using run [OF order_refl] by blast
  have early: "\<exists>dm. for_each (send_patch e ?k) (List.take m (launch_patches l)) d1 = (dm, None) \<and>
      (\<forall>n nd av ex i. \<not> candidate dm n nd av ex ?k i)" if m: "m < length (launch_patches l)" for m
  proof -
    obtain dm where dm: "for_each (send_patch e ?k) (List.take m (launch_patches l)) d1 = (dm, None)"
      "t_get (db_jobs dm) ?k = Some (fold (patched ?now) (List.take m (launch_patches l)) ?j)"
      using run [OF set_take_subset, of m] by auto
    show ?thesis using dm(1) unfinished_no_candidate [OF m dm(2)] by blast
  qed
  let ?row = "fold (patched ?now) (launch_patches l) ?j"
  note row = launched_row [OF parent refl [of ?row]]
  show ?thesis
  proof (rule exI [of _ ?k], rule exI [of _ d1], rule exI [of _ d'], rule exI [of _ ?row], intro conjI)
    show "t_get (db_jobs d) ?k = None" by (rule t_get_fresh [OF farm_invD(1) [OF inv]])
    show "launch_job e me l d = (d', Inr ?k)" by (simp add: launch_job_def c(1) d'(1))
    show "t_get (db_jobs d') = (t_get (db_jobs d))(?k \<mapsto> ?row)" by (simp add: d'(3) c(2))
    show "case ln_node_name l of None \<Rightarrow> fj_node ?row = None
        | Some name \<Rightarrow> \<exists>n nd. fj_node ?row = Some n \<and> t_get (db_fnodes d') n = Some nd \<and> fn_machine_name nd = name"
      using c(3,4) by (auto simp: row d'(2) split: option.splits)
    show "\<forall>m < length (launch_patches l). \<exists>dm.
        for_each (send_patch e ?k) (List.take m (launch_patches l)) d1 = (dm, None) \<and>
        (\<forall>n nd av ex i. \<not> candidate dm n nd av ex ?k i)"
      using early by blast
  qed (rule c(1) row)+
qed

lemma launch_job_correct_witness:
  "\<exists>k d' j. launch_job sample_env 1 ((new_launch ''jobs.test.DummyJob'')
       \<lparr>ln_tags := [''alpha'', ''bravo''], ln_dependency_list := [2, 2]\<rparr>) sample_yielding = (d', Inr k) \<and>
     t_get (db_jobs d') k = Some j \<and> fj_status j = Ready \<and> fj_dependencies j = [2] \<and>
     fj_parent j = Some 1 \<and> fj_tags j = [''alpha'', ''bravo'']"
proof -
  have rows: "t_get (db_jobs sample_yielding) k = (if k = 1 then Some (sample_job Running)
      else if k = 2 then Some ((sample_job Success)\<lparr>fj_parent := Some 1\<rparr>) else None)" for k
    by (simp add: sample_yielding_def farm_with_def t_get_def)
  show ?thesis
    using launch_job_correct [OF sample_yielding_inv, of 1 "sample_job Running" "(new_launch ''jobs.test.DummyJob'')
       \<lparr>ln_tags := [''alpha'', ''bravo''], ln_dependency_list := [2, 2]\<rparr>" sample_env]
    by (auto simp: rows new_launch_def)
qed

end
