(* ===== verification/Farm_Rest.thy ===== *)
theory Farm_Rest
  imports Farm_Control Aws Archive_Views Client_Launch
begin

text \<open>
  The farm through the REST interface and the admin pages: the updates and deletions that
  \<open>FarmJobsViewSet\<close> and \<open>FarmNodeViewSet\<close> (\<open>jobs/views.py\<close>) offer to everybody who is logged in, with the
  cascades of \<open>models.py\<close>, the actions of \<open>jobs/admin.py\<close> and \<open>archive/admin.py\<close>, and the gauges of
  \<open>jobs/metrics.py\<close>. The invariant of the farm survives all of them but one: a job may be given any
  parent, itself included.
\<close>

section \<open>Deleting\<close>

definition rest_delete_job :: "env \<Rightarrow> pk \<Rightarrow> db \<Rightarrow> db \<times> string outcome" where
  "rest_delete_job e k d =
     (case t_get (db_jobs d) k of
        None \<Rightarrow> (d, Http 404)
      | Some j \<Rightarrow> (snd (delete_jobs [k] d), Http 204))"

text \<open>\<open>FarmJob.node\<close> cascades: the jobs of a node go with it, and their children with them.\<close>

definition delete_farm_nodes :: "pk list \<Rightarrow> db \<Rightarrow> db" where
  "delete_farm_nodes ks d =
     (let d1 = snd (delete_jobs
         (map fst (t_filter (\<lambda>_ j. case fj_node j of Some n \<Rightarrow> n \<in> set ks | None \<Rightarrow> False) (db_jobs d))) d)
      in d1\<lparr>db_fnodes := t_delete (\<lambda>k _. k \<in> set ks) (db_fnodes d1)\<rparr>)"

definition rest_delete_node :: "env \<Rightarrow> pk \<Rightarrow> db \<Rightarrow> db \<times> string outcome" where
  "rest_delete_node e k d =
     (case t_get (db_fnodes d) k of
        None \<Rightarrow> (d, Http 404)
      | Some n \<Rightarrow> (delete_farm_nodes [k] d, Http 204))"

section \<open>Changing a job\<close>

text \<open>
  The writable fields of \<open>FarmJobSerializer\<close>, each given or not, those that may be null with a value that
  may be none.
\<close>

record job_changes =
  jc_job_class :: "string option"
  jc_created_by :: "string option"
  jc_status :: "job_status option"
  jc_status_changed :: "time option"
  jc_progress :: "string option option"
  jc_start_time :: "time option option"
  jc_end_time :: "time option option"
  jc_req_gpu :: "bool option"
  jc_req_version :: "int option"
  jc_params :: "string option option"
  jc_priority :: "int option"
  jc_image_filename :: "string option"
  jc_mesh_filename :: "string option"
  jc_ext_take :: "pk option option"
  jc_ext_scan_assets :: "pk option option"
  jc_ext_tracking_assets :: "pk option option"
  jc_parent :: "pk option option"
  jc_node_name :: "string option option"
  jc_dependencies :: "pk list option"
  jc_tags :: "string list option"

definition row_given :: "'r table \<Rightarrow> pk option option \<Rightarrow> bool" where
  "row_given t x \<longleftrightarrow> (case x of Some (Some k) \<Rightarrow> k \<in> t_keys t | _ \<Rightarrow> True)"

definition job_changes_refs :: "job_changes \<Rightarrow> db \<Rightarrow> bool" where
  "job_changes_refs p d \<longleftrightarrow>
     row_given (db_jobs d) (jc_parent p) \<and> row_given (db_takes d) (jc_ext_take p) \<and>
     row_given (db_scans d) (jc_ext_scan_assets p) \<and> row_given (db_tracks d) (jc_ext_tracking_assets p) \<and>
     (case jc_dependencies p of None \<Rightarrow> True | Some ds \<Rightarrow> set ds \<subseteq> t_keys (db_jobs d))"

text \<open>The node: by name and created when there is none, also when the rest of the request is not valid.\<close>

definition patched_node :: "env \<Rightarrow> string option option \<Rightarrow> farm_job \<Rightarrow> db \<Rightarrow> db \<times> (py_exn + pk option)" where
  "patched_node e name j d =
     (case name of
        None \<Rightarrow> (d, Inr (fj_node j))
      | Some None \<Rightarrow> (d, Inr None)
      | Some (Some s) \<Rightarrow>
          (case node_by_slug e s d of (d1, Inl x) \<Rightarrow> (d1, Inl x) | (d1, Inr k) \<Rightarrow> (d1, Inr (Some k))))"

definition patched_job :: "job_changes \<Rightarrow> pk option \<Rightarrow> farm_job \<Rightarrow> farm_job" where
  "patched_job p node j = j\<lparr>
     fj_job_class := given (jc_job_class p) (fj_job_class j),
     fj_created_by := given (jc_created_by p) (fj_created_by j),
     fj_status := given (jc_status p) (fj_status j),
     fj_status_changed := given (jc_status_changed p) (fj_status_changed j),
     fj_progress := given (jc_progress p) (fj_progress j),
     fj_start_time := given (jc_start_time p) (fj_start_time j),
     fj_end_time := given (jc_end_time p) (fj_end_time j),
     fj_req_gpu := given (jc_req_gpu p) (fj_req_gpu j),
     fj_req_version := given (jc_req_version p) (fj_req_version j),
     fj_params := given (jc_params p) (fj_params j),
     fj_priority := given (jc_priority p) (fj_priority j),
     fj_image_filename := (case jc_image_filename p of Some f \<Rightarrow> Some f | None \<Rightarrow> fj_image_filename j),
     fj_mesh_filename := (case jc_mesh_filename p of Some f \<Rightarrow> Some f | None \<Rightarrow> fj_mesh_filename j),
     fj_ext_take := given (jc_ext_take p) (fj_ext_take j),
     fj_ext_scan_assets := given (jc_ext_scan_assets p) (fj_ext_scan_assets j),
     fj_ext_tracking_assets := given (jc_ext_tracking_assets p) (fj_ext_tracking_assets j),
     fj_parent := given (jc_parent p) (fj_parent j),
     fj_node := node\<rparr>"

text \<open>\<open>PATCH\<close>: \<open>valid\<close> are the validators of the texts and numbers.\<close>

definition rest_patch_job :: "(job_changes \<Rightarrow> bool) \<Rightarrow> env \<Rightarrow> pk \<Rightarrow> job_changes \<Rightarrow> db \<Rightarrow> db \<times> string outcome" where
  "rest_patch_job valid e k p d =
     (case t_get (db_jobs d) k of
        None \<Rightarrow> (d, Http 404)
      | Some j \<Rightarrow>
          (case patched_node e (jc_node_name p) j d of
             (d1, Inl x) \<Rightarrow> (d1, Raised x)
           | (d1, Inr node) \<Rightarrow>
               if \<not> valid p \<or> \<not> job_changes_refs p d1 then (d1, Http 400)
               else
                 (let d2 = (case jc_dependencies p of None \<Rightarrow> d1 | Some ds \<Rightarrow> set_job_dependencies k ds d1);
                      d3 = save_job (e_now e) k (patched_job p node j) d2;
                      d4 = (case jc_tags p of None \<Rightarrow> d3 | Some ts \<Rightarrow> set_job_tags k (remdups ts) d3)
                  in (d4, Http 200))))"

text \<open>The changes that the clients send are among them, and mean the same.\<close>

definition no_job_change :: job_changes where
  "no_job_change = \<lparr>jc_job_class = None, jc_created_by = None, jc_status = None, jc_status_changed = None,
     jc_progress = None, jc_start_time = None, jc_end_time = None, jc_req_gpu = None, jc_req_version = None,
     jc_params = None, jc_priority = None, jc_image_filename = None, jc_mesh_filename = None,
     jc_ext_take = None, jc_ext_scan_assets = None, jc_ext_tracking_assets = None, jc_parent = None,
     jc_node_name = None, jc_dependencies = None, jc_tags = None\<rparr>"

definition change_of_patch :: "job_patch \<Rightarrow> job_changes" where
  "change_of_patch p = no_job_change\<lparr>jc_dependencies := jp_dependencies p, jc_tags := jp_tags p, jc_status := jp_status p\<rparr>"

theorem client_patch_is_change:
  "fst (patch_job e k p d) = fst (rest_patch_job (\<lambda>_. True) e k (change_of_patch p) d)"
  "http_status (snd (patch_job e k p d)) = http_status (snd (rest_patch_job (\<lambda>_. True) e k (change_of_patch p) d))"
proof -
  have refs: "job_changes_refs (change_of_patch p) d \<longleftrightarrow>
      (\<forall>ds \<in> set_option (jp_dependencies p). list_all (\<lambda>x. t_get (db_jobs d) x \<noteq> None) ds)"
    by (cases "jp_dependencies p")
      (auto simp: job_changes_refs_def change_of_patch_def no_job_change_def row_given_def list_all_iff t_keys_get)
  have row: "patched_job (change_of_patch p) (fj_node j) j = (case jp_status p of None \<Rightarrow> j | Some st \<Rightarrow> j\<lparr>fj_status := st\<rparr>)" for j
    by (cases "jp_status p") (simp_all add: patched_job_def change_of_patch_def no_job_change_def given_def)
  have fields: "jc_node_name (change_of_patch p) = None" "jc_dependencies (change_of_patch p) = jp_dependencies p"
    "jc_tags (change_of_patch p) = jp_tags p"
    by (simp_all add: change_of_patch_def no_job_change_def)
  have "fst (patch_job e k p d) = fst (rest_patch_job (\<lambda>_. True) e k (change_of_patch p) d) \<and>
      http_status (snd (patch_job e k p d)) = http_status (snd (rest_patch_job (\<lambda>_. True) e k (change_of_patch p) d))"
    unfolding patch_job_def rest_patch_job_def patched_node_def fields
    by (cases "t_get (db_jobs d) k") (simp_all add: refs row Let_def)
  then show "fst (patch_job e k p d) = fst (rest_patch_job (\<lambda>_. True) e k (change_of_patch p) d)"
    "http_status (snd (patch_job e k p d)) = http_status (snd (rest_patch_job (\<lambda>_. True) e k (change_of_patch p) d))"
    by simp_all
qed

section \<open>Changing and adding a node\<close>

record node_changes =
  np_ip_address :: "string option"
  np_machine_name :: "string option"
  np_system :: "string option option"
  np_system_bits :: "int option option"
  np_code_version :: "int option"
  np_git_version :: "string option option"
  np_cpu_brand :: "string option option"
  np_cpu_percent :: "pyfloat option"
  np_cpu_cores :: "int option option"
  np_gpu_count :: "int option option"
  np_virt_percent :: "pyfloat option"
  np_os_version :: "string option option"
  np_group :: "string option option"
  np_tags :: "string list option"
  np_aws_instance_id :: "string option option"
  np_aws_instance_state :: "string option"

text \<open>The group: by name, which must exist and be the only one of that name.\<close>

definition patched_group :: "string option option \<Rightarrow> pk option \<Rightarrow> db \<Rightarrow> (py_exn + nat) + pk option" where
  "patched_group name old d =
     (case name of
        None \<Rightarrow> Inr old
      | Some None \<Rightarrow> Inr None
      | Some (Some s) \<Rightarrow>
          (case t_filter (\<lambda>_ g. fg_name g = s) (db_groups d) of
             [] \<Rightarrow> Inl (Inr 400)
           | [(k, _)] \<Rightarrow> Inr (Some k)
           | _ \<Rightarrow> Inl (Inl (PyException ''MultipleObjectsReturned''))))"

definition patched_farm_node :: "node_changes \<Rightarrow> pk option \<Rightarrow> farm_node \<Rightarrow> farm_node" where
  "patched_farm_node p grp n = n\<lparr>
     fn_ip_address := given (np_ip_address p) (fn_ip_address n),
     fn_machine_name := given (np_machine_name p) (fn_machine_name n),
     fn_system := given (np_system p) (fn_system n),
     fn_system_bits := given (np_system_bits p) (fn_system_bits n),
     fn_code_version := given (np_code_version p) (fn_code_version n),
     fn_git_version := given (np_git_version p) (fn_git_version n),
     fn_cpu_brand := given (np_cpu_brand p) (fn_cpu_brand n),
     fn_cpu_percent := given (np_cpu_percent p) (fn_cpu_percent n),
     fn_cpu_cores := given (np_cpu_cores p) (fn_cpu_cores n),
     fn_gpu_count := given (np_gpu_count p) (fn_gpu_count n),
     fn_virt_percent := given (np_virt_percent p) (fn_virt_percent n),
     fn_os_version := given (np_os_version p) (fn_os_version n),
     fn_group := grp,
     fn_aws_instance_id := given (np_aws_instance_id p) (fn_aws_instance_id n),
     fn_aws_instance_state := given (np_aws_instance_state p) (fn_aws_instance_state n)\<rparr>"

definition rest_patch_node :: "(node_changes \<Rightarrow> bool) \<Rightarrow> env \<Rightarrow> pk \<Rightarrow> node_changes \<Rightarrow> db \<Rightarrow> db \<times> string outcome" where
  "rest_patch_node valid e k p d =
     (case t_get (db_fnodes d) k of
        None \<Rightarrow> (d, Http 404)
      | Some n \<Rightarrow>
          (case patched_group (np_group p) (fn_group n) d of
             Inl (Inl x) \<Rightarrow> (d, Raised x)
           | Inl (Inr code) \<Rightarrow> (d, Http code)
           | Inr grp \<Rightarrow>
               if \<not> valid p then (d, Http 400)
               else
                 (let d1 = save_farm_node (e_now e) k (patched_farm_node p grp n) d
                  in (case np_tags p of None \<Rightarrow> d1 | Some ts \<Rightarrow> set_node_tags k (remdups ts) d1, Http 200))))"

text \<open>\<open>POST\<close>: a node by its fields, of which only the name of the machine is required.\<close>

definition rest_create_node :: "(node_changes \<Rightarrow> bool) \<Rightarrow> env \<Rightarrow> node_changes \<Rightarrow> db \<Rightarrow> db \<times> string outcome" where
  "rest_create_node valid e p d =
     (case np_machine_name p of
        None \<Rightarrow> (d, Http 400)
      | Some name \<Rightarrow>
          (case patched_group (np_group p) None d of
             Inl (Inl x) \<Rightarrow> (d, Raised x)
           | Inl (Inr code) \<Rightarrow> (d, Http code)
           | Inr grp \<Rightarrow>
               if \<not> valid p then (d, Http 400)
               else
                 (let (k, d1) = create_farm_node (patched_farm_node p grp (new_farm_node (e_now e) name)) d
                  in (case np_tags p of None \<Rightarrow> d1 | Some ts \<Rightarrow> set_node_tags k (remdups ts) d1, Http 201))))"

section \<open>Admin actions and gauges\<close>

text \<open>
  \<open>jobs/admin.py\<close>: the selected nodes that have an instance, one after the other; what the cloud answers is
  the new state, an exception ends the action. \<open>call\<close> is \<open>aws.start_instance\<close> or \<open>aws.stop_instance\<close>.
\<close>

definition instance_action ::
    "(string \<Rightarrow> string option \<Rightarrow> py_exn + string option) \<Rightarrow> env \<Rightarrow> pk \<times> farm_node \<Rightarrow> db \<Rightarrow> db \<times> py_exn option" where
  "instance_action call e kn d =
     (let (k, n) = kn in
      case fn_aws_instance_id n of
        None \<Rightarrow> (d, None)
      | Some inst \<Rightarrow>
          if inst = [] then (d, None)
          else (case call inst (fn_aws_instance_region n) of
              Inl x \<Rightarrow> (d, Some x)
            | Inr None \<Rightarrow> (d, None)
            | Inr (Some st) \<Rightarrow>
                if st = [] then (d, None)
                else (save_farm_node (e_now e) k (n\<lparr>fn_aws_instance_state := st\<rparr>) d, None)))"

definition aws_start_instance :: "ec2 \<Rightarrow> env \<Rightarrow> pk list \<Rightarrow> db \<Rightarrow> db \<times> py_exn option" where
  "aws_start_instance ec2 e ks d =
     for_each (instance_action (start_instance ec2) e)
       (t_filter (\<lambda>k n. k \<in> set ks \<and> fn_aws_instance_id n \<noteq> None) (db_fnodes d)) d"

definition aws_stop_instance :: "ec2 \<Rightarrow> env \<Rightarrow> pk list \<Rightarrow> db \<Rightarrow> db \<times> py_exn option" where
  "aws_stop_instance ec2 e ks d =
     for_each (instance_action (stop_instance ec2) e)
       (t_filter (\<lambda>k n. k \<in> set ks \<and> fn_aws_instance_id n \<noteq> None) (db_fnodes d)) d"

definition archive_project :: "pk list \<Rightarrow> db \<Rightarrow> db" where
  "archive_project ks d =
     d\<lparr>db_projects := t_update (\<lambda>k _. k \<in> set ks) (\<lambda>p. p\<lparr>pr_archived := True\<rparr>) (db_projects d)\<rparr>"

definition job_count_running :: "job_status \<Rightarrow> db \<Rightarrow> nat" where
  "job_count_running st d = t_count (\<lambda>_ j. fj_status j = st) (db_jobs d)"

definition storage_available_thumb :: "(string \<Rightarrow> nat \<times> nat) \<Rightarrow> string \<Rightarrow> nat" where
  "storage_available_thumb statvfs base_dir =
     (let (f_bsize, f_bavail) = statvfs (base_dir @ ''/static/thumb'') in f_bsize * f_bavail)"

section \<open>What deletions remove\<close>

text \<open>
  A job goes with its descendants, whatever their status and whoever asks, while the guarded view
  \<open>delete_job\<close> refuses users without write access and jobs that run.
\<close>

theorem rest_delete_job_exact:
  assumes inv: "farm_inv d" and g: "t_get (db_jobs d) k = Some j"
  shows "snd (rest_delete_job e k d) = Http 204"
    and "t_get (db_jobs (fst (rest_delete_job e k d))) i =
      (if (k, i) \<in> (parent_of d)\<^sup>* then None
       else map_option (\<lambda>x. x\<lparr>fj_dependencies := filter (\<lambda>y. (k, y) \<notin> (parent_of d)\<^sup>*) (fj_dependencies x)\<rparr>)
              (t_get (db_jobs d) i))"
proof -
  note wf = farm_invD(1) [OF inv]
  show "snd (rest_delete_job e k d) = Http 204" using g by (simp add: rest_delete_job_def)
  have "i \<in> set (cascade d [k]) \<longleftrightarrow> (k, i) \<in> (parent_of d)\<^sup>*" for i by (simp add: set_cascade [OF wf])
  then show "t_get (db_jobs (fst (rest_delete_job e k d))) i =
      (if (k, i) \<in> (parent_of d)\<^sup>* then None
       else map_option (\<lambda>x. x\<lparr>fj_dependencies := filter (\<lambda>y. (k, y) \<notin> (parent_of d)\<^sup>*) (fj_dependencies x)\<rparr>)
              (t_get (db_jobs d) i))"
    using g by (simp add: rest_delete_job_def delete_jobs_get [OF wf])
qed

section \<open>The invariant of the farm\<close>

lemma delete_farm_nodes_inv:
  assumes inv: "farm_inv d"
  shows "farm_inv (delete_farm_nodes ks d)"
proof -
  define sel where "sel = map fst (t_filter (\<lambda>_ j. case fj_node j of Some n \<Rightarrow> n \<in> set ks | None \<Rightarrow> False) (db_jobs d))"
  define d1 where "d1 = snd (delete_jobs sel d)"
  note wf = farm_invD(1) [OF inv]
  have inv1: "farm_inv d1" unfolding d1_def by (rule farm_inv_delete_jobs [OF inv])
  have fn: "db_fnodes d1 = db_fnodes d" by (simp add: d1_def frame_simps)
  have res: "delete_farm_nodes ks d = d1\<lparr>db_fnodes := t_delete (\<lambda>k _. k \<in> set ks) (db_fnodes d1)\<rparr>"
    by (simp add: delete_farm_nodes_def sel_def d1_def Let_def)
  have keep: "n \<notin> set ks" if "t_get (db_jobs d1) k = Some j" "fj_node j = Some n" for k j n
  proof
    assume n: "n \<in> set ks"
    from that(1) obtain j0 where j0: "k \<notin> set (cascade d sel)" "t_get (db_jobs d) k = Some j0" "fj_node j = fj_node j0"
      by (auto simp: d1_def delete_jobs_get [OF wf] split: if_splits)
    have nd: "fj_node j0 = Some n" using j0(3) that(2) by simp
    have "(k, j0) \<in> set (t_filter (\<lambda>_ j. case fj_node j of Some n \<Rightarrow> n \<in> set ks | None \<Rightarrow> False) (db_jobs d))"
      using j0(2) n by (simp add: t_filter_iff [OF wf] nd)
    then have "k \<in> set sel" by (force simp: sel_def)
    then have "k \<in> set (cascade d sel)" by (rule cascade_roots [OF wf])
    with j0(1) show False by simp
  qed
  show ?thesis
    unfolding res
  proof (rule farm_invI)
    fix k j assume g: "t_get (db_jobs (d1\<lparr>db_fnodes := t_delete (\<lambda>k _. k \<in> set ks) (db_fnodes d1)\<rparr>)) k = Some j"
    then have g1: "t_get (db_jobs d1) k = Some j" by simp
    from farm_invD(3) [OF inv1 g1] keep [OF g1]
    show "job_refs (d1\<lparr>db_fnodes := t_delete (\<lambda>k _. k \<in> set ks) (db_fnodes d1)\<rparr>) k j"
      using farm_invD(2) [OF inv1]
      by (auto simp: job_refs_def t_keys_get t_get_delete split: option.splits)
  qed (use farm_invD [OF inv1] in auto)
qed

lemma set_job_dependencies_inv:
  assumes inv: "farm_inv d" and "set ds \<subseteq> t_keys (db_jobs d)"
  shows "farm_inv (set_job_dependencies k ds d)"
proof (rule farm_invI)
  show "wf_table (db_jobs (set_job_dependencies k ds d))" "wf_table (db_fnodes (set_job_dependencies k ds d))"
    using farm_invD(1,2) [OF inv] by (auto simp: set_job_dependencies_def)
  fix i j assume "t_get (db_jobs (set_job_dependencies k ds d)) i = Some j"
  then obtain j0 where "t_get (db_jobs d) i = Some j0" "fj_parent j = fj_parent j0" "fj_node j = fj_node j0"
    "set (fj_dependencies j) \<subseteq> t_keys (db_jobs d)"
    using farm_invD(3) [OF inv] assms(2)
    by (fastforce simp: set_job_dependencies_def table_simps job_refs_def split: if_splits)
  with farm_invD(3) [OF inv, of i j0] show "job_refs (set_job_dependencies k ds d) i j"
    by (simp add: job_refs_def set_job_dependencies_def table_simps)
qed

lemma set_job_dependencies_frame:
  "db_fnodes (set_job_dependencies k ds d) = db_fnodes d"
  "t_keys (db_jobs (set_job_dependencies k ds d)) = t_keys (db_jobs d)"
  by (simp_all add: set_job_dependencies_def table_simps)

lemma set_job_tags_inv: "farm_inv d \<Longrightarrow> farm_inv (set_job_tags k ts d)"
  using farm_inv_update_jobs [of d "\<lambda>j. j\<lparr>fj_tags := ts\<rparr>" "\<lambda>k' _. k' = k"]
  by (simp add: set_job_tags_def update_jobs_def)

lemma patched_node_inv:
  assumes inv: "farm_inv d" and g: "t_get (db_jobs d) k = Some j" and n: "patched_node e name j d = (d1, r)"
  shows "farm_inv d1" "db_jobs d1 = db_jobs d" "r = Inr (Some i) \<Longrightarrow> i \<in> t_keys (db_fnodes d1)"
proof -
  have slug: "db_jobs (fst (node_by_slug e s d)) = db_jobs d" for s
    by (auto simp: node_by_slug_def case_prod_beta frame_simps split: list.splits)
  have own: "i \<in> t_keys (db_fnodes d)" if "fj_node j = Some i" for i
    using farm_invD(3) [OF inv g] that by (simp add: job_refs_def)
  show "farm_inv d1"
    using n inv node_by_slug_inv(1) [OF inv] by (auto simp: patched_node_def split: option.splits prod.splits sum.splits)
  show "db_jobs d1 = db_jobs d"
    using n slug by (auto simp: patched_node_def split: option.splits prod.splits sum.splits) (metis fst_conv)+
  show "i \<in> t_keys (db_fnodes d1)" if "r = Inr (Some i)"
    using n own that node_by_slug_inv(3) [OF inv]
    by (auto simp: patched_node_def split: option.splits prod.splits sum.splits)
qed

text \<open>A change of a job keeps the invariant unless it names a parent that is not older.\<close>

lemma rest_patch_job_inv:
  assumes inv: "farm_inv d" and older: "\<forall>q. jc_parent p = Some (Some q) \<longrightarrow> q < k"
  shows "farm_inv (fst (rest_patch_job valid e k p d))"
proof (cases "t_get (db_jobs d) k")
  case None
  with inv show ?thesis by (simp add: rest_patch_job_def)
next
  case (Some j)
  obtain d1 r where n: "patched_node e (jc_node_name p) j d = (d1, r)" by fastforce
  note d1 = patched_node_inv [OF inv Some n]
  show ?thesis
  proof (cases "\<exists>node. r = Inr node \<and> valid p \<and> job_changes_refs p d1")
    case False
    with Some n d1(1) show ?thesis by (auto simp: rest_patch_job_def split: sum.splits)
  next
    case True
    then obtain node where node: "r = Inr node" "valid p" "job_changes_refs p d1" by blast
    define d2 where "d2 = (case jc_dependencies p of None \<Rightarrow> d1 | Some ds \<Rightarrow> set_job_dependencies k ds d1)"
    have d2: "farm_inv d2" "t_keys (db_jobs d2) = t_keys (db_jobs d1)" "db_fnodes d2 = db_fnodes d1"
      using d1(1) node(3) by (auto simp: d2_def job_changes_refs_def set_job_dependencies_inv set_job_dependencies_frame
          split: option.splits)
    have "farm_inv (save_job (e_now e) k (patched_job p node j) d2)"
    proof (rule farm_inv_save_job [OF d2(1)])
      show "\<forall>q. fj_parent (patched_job p node j) = Some q \<longrightarrow> q < k \<and> q \<in> t_keys (db_jobs d2)"
        using older node(3) farm_invD(3) [OF inv Some] d1(2) d2(2)
        by (auto simp: patched_job_def given_def job_changes_refs_def row_given_def job_refs_def split: option.splits)
      show "\<forall>i. fj_node (patched_job p node j) = Some i \<longrightarrow> i \<in> t_keys (db_fnodes d2)"
        using d1(3) node(1) d2(3) by (auto simp: patched_job_def)
    qed
    with Some n node show ?thesis
      by (auto simp: rest_patch_job_def Let_def set_job_tags_inv d2_def [symmetric] split: option.splits)
  qed
qed

lemma rest_node_inv:
  assumes inv: "farm_inv d"
  shows "farm_inv (fst (rest_patch_node valid e k p d))" "farm_inv (fst (rest_create_node valid e p d))"
  using inv farm_inv_create_farm_node [OF inv]
  by (auto simp: rest_patch_node_def rest_create_node_def Let_def case_prod_beta farm_inv_save_farm_node
      farm_inv_set_node_tags split: option.splits sum.splits)

lemma instance_action_inv: "farm_inv d \<Longrightarrow> farm_inv (fst (instance_action call e kn d))"
  by (auto simp: instance_action_def farm_inv_save_farm_node split: prod.splits option.splits sum.splits)

inductive rest_step :: "db \<Rightarrow> db \<Rightarrow> bool" where
  delete_a_job: "rest_step d (fst (rest_delete_job e k d))"
| delete_a_node: "rest_step d (fst (rest_delete_node e k d))"
| patch_a_job: "\<forall>q. jc_parent p = Some (Some q) \<longrightarrow> q < k \<Longrightarrow> rest_step d (fst (rest_patch_job valid e k p d))"
| patch_a_node: "rest_step d (fst (rest_patch_node valid e k np d))"
| create_a_node: "rest_step d (fst (rest_create_node valid e np d))"
| start_instances: "rest_step d (fst (aws_start_instance ec2 e ks d))"
| stop_instances: "rest_step d (fst (aws_stop_instance ec2 e ks d))"
| archive_projects: "rest_step d (archive_project ks d)"

lemma rest_step_inv: "rest_step d d' \<Longrightarrow> farm_inv d \<Longrightarrow> farm_inv d'"
proof (induction rule: rest_step.induct)
  case (delete_a_job d e k)
  then show ?case by (simp add: rest_delete_job_def farm_inv_delete_jobs split: option.splits)
next
  case (delete_a_node d e k)
  then show ?case by (simp add: rest_delete_node_def delete_farm_nodes_inv split: option.splits)
next
  case (start_instances d ec2 e ks)
  then show ?case by (auto simp: aws_start_instance_def intro!: for_each_inv instance_action_inv)
next
  case (stop_instances d ec2 e ks)
  then show ?case by (auto simp: aws_stop_instance_def intro!: for_each_inv instance_action_inv)
next
  case (archive_projects d ks)
  then show ?case by (auto simp: archive_project_def intro: farm_inv_cong)
qed (auto intro: rest_patch_job_inv rest_node_inv)

section \<open>Every run of the whole farm\<close>

lemma whole_farm_inv: "(sup farm_step rest_step)\<^sup>*\<^sup>* d d' \<Longrightarrow> farm_inv d \<Longrightarrow> farm_inv d'"
  by (induction rule: rtranclp_induct) (auto simp: farm_step_inv rest_step_inv)

text \<open>
  C19: start from a farm without jobs and serve any requests in any order: those of the
  pages and of the clients, the changes and deletions through the REST interface and the actions of the
  admin pages, failing ones included, as long as no change names a parent that is not older than the job.
  Then keys are unique, every parent, dependency and node of a job is in the database, also after nodes
  were deleted, parents are older than their children, and no job is its own ancestor.
\<close>

theorem whole_farm_consistent:
  assumes run: "(sup farm_step rest_step)\<^sup>*\<^sup>* d0 d" and nodes: "wf_table (db_fnodes d0)" and jobs: "db_jobs d0 = t_empty"
  shows "distinct (map fst (rows (db_jobs d))) \<and> (k, k) \<notin> (parent_of d)\<^sup>+ \<and>
    (\<forall>k j. t_get (db_jobs d) k = Some j \<longrightarrow>
       (\<forall>p. fj_parent j = Some p \<longrightarrow> p < k \<and> p \<in> t_keys (db_jobs d)) \<and>
       set (fj_dependencies j) \<subseteq> t_keys (db_jobs d) \<and>
       (\<forall>n. fj_node j = Some n \<longrightarrow> n \<in> t_keys (db_fnodes d)))"
  by (rule farm_inv_consistent [OF whole_farm_inv [OF run farm_inv_fresh [OF nodes jobs]]])

lemma whole_farm_consistent_witness:
  "(1, 1) \<notin> (parent_of (fst (rest_delete_node sample_env 7 (fst (submit_test_job sample_env ''{}''
       (empty_db\<lparr>db_fnodes := \<lparr>rows = [(7, sample_node)], next_pk = 100\<rparr>\<rparr>))))))\<^sup>+"
proof -
  let ?d0 = "empty_db\<lparr>db_fnodes := \<lparr>rows = [(7, sample_node)], next_pk = 100\<rparr>\<rparr>"
  let ?d1 = "fst (submit_test_job sample_env ''{}'' ?d0)"
  have one: "sup farm_step rest_step ?d0 ?d1" by (simp add: farm_step.submit)
  have two: "sup farm_step rest_step ?d1 (fst (rest_delete_node sample_env 7 ?d1))"
    by (simp add: rest_step.delete_a_node)
  have run: "(sup farm_step rest_step)\<^sup>*\<^sup>* ?d0 (fst (rest_delete_node sample_env 7 ?d1))"
    using one two by (meson r_into_rtranclp rtranclp.rtrancl_into_rtrancl)
  show ?thesis
    using whole_farm_consistent [OF run, of 1] by (simp add: wf_table_def t_keys_def empty_db_def)
qed

text \<open>
  The condition on the parent is needed. Anybody may make a job its own parent: the request is answered
  with success, and the job is then its own ancestor.
\<close>

theorem own_parent_accepted:
  assumes g: "t_get (db_jobs d) k = Some j"
    and run: "rest_patch_job (\<lambda>_. True) e k (no_job_change\<lparr>jc_parent := Some (Some k)\<rparr>) d = (d', answer)"
  shows "answer = Http 200" and "(k, k) \<in> parent_of d'" and "\<not> farm_inv d'"
proof -
  have refs: "job_changes_refs (no_job_change\<lparr>jc_parent := Some (Some k)\<rparr>) d"
    using g by (simp add: job_changes_refs_def no_job_change_def row_given_def t_keys_get)
  have r: "rest_patch_job (\<lambda>_. True) e k (no_job_change\<lparr>jc_parent := Some (Some k)\<rparr>) d =
      (save_job (e_now e) k (j\<lparr>fj_parent := Some k\<rparr>) d, Http 200)"
    using g refs by (simp add: rest_patch_job_def patched_node_def patched_job_def no_job_change_def given_def)
  with run have d': "d' = save_job (e_now e) k (j\<lparr>fj_parent := Some k\<rparr>) d" by simp
  show "answer = Http 200" using run r by simp
  have get: "\<exists>x. t_get (db_jobs d') k = Some x \<and> fj_parent x = Some k"
    using g by (simp add: d' save_job_def table_simps)
  then show "(k, k) \<in> parent_of d'" by (simp add: parent_of_def)
  show "\<not> farm_inv d'"
    using get by (auto dest: farm_inv_parentD(1))
qed

text \<open>A job that was deleted while it ran is not among the jobs that any node is told to kill.\<close>

theorem deleted_jobs_run_on:
  assumes inv: "farm_inv d" and del: "(k, i) \<in> (parent_of d)\<^sup>*" and g: "t_get (db_jobs d) k = Some j"
  shows "i \<notin> set (jobs_to_terminate n (fst (rest_delete_job e k d)))"
proof -
  have "t_get (db_jobs (fst (rest_delete_job e k d))) i = None"
    using rest_delete_job_exact(2) [OF inv g, of e i] del by simp
  then show ?thesis
    by (auto simp: jobs_to_terminate_def t_filter_def t_get_def map_of_eq_None_iff)
qed

end
