(* ===== verification/Capture_Sessions.thy ===== *)
theory Capture_Sessions
  imports Capture_Takes
begin

text \<open>
  New sessions and new shots (\<open>post_new_session\<close>, \<open>unique_shot_name\<close>,
  \<open>post_new_shot\<close> of \<open>capture/views.py\<close>). Both make their name unique with the loop of
  \<open>Prelude\<close>; the contract \<open>name_series\<close> is interpreted on both series of candidates, and
  gives that the loop returns and what it returns.
\<close>

section \<open>Series of names\<close>

interpretation padded: name_series "\<lambda>i. prefix @ show_pad 3 i" for prefix
  by unfold_locales (auto intro!: injI)

section \<open>New session\<close>

record session_request =
  sr_name :: "string option"
  sr_project_id :: "pk option"
  sr_project_name :: "string option"

record session_reply =
  sy_session_name :: string
  sy_session_id :: pk
  sy_shot_name :: string
  sy_shot_id :: pk
  sy_project_name :: string
  sy_project_id :: pk

definition session_taken :: "db \<Rightarrow> pk option \<Rightarrow> string \<Rightarrow> bool" where
  "session_taken d project name \<longleftrightarrow>
     t_count (\<lambda>_ s. se_name s = name \<and> Some (se_project s) = project) (db_sessions d) > 0"

text \<open>The project: that of the location, an existing one, or a new one; the last given wins.\<close>

definition session_project :: "capture_location \<Rightarrow> session_request \<Rightarrow> db \<Rightarrow> db \<times> (py_exn + pk option)" where
  "session_project loc q d =
     (if (case sr_project_id q of None \<Rightarrow> False | Some p \<Rightarrow> t_get (db_projects d) p = None)
      then (d, Inl DoesNotExist)
      else
        (case sr_project_name q of
           Some name \<Rightarrow> (let (k, t) = t_create \<lparr>pr_name = name, pr_archived = False\<rparr> (db_projects d)
                        in (d\<lparr>db_projects := t\<rparr>, Inr (Some k)))
         | None \<Rightarrow> (d, Inr (case sr_project_id q of None \<Rightarrow> cl_cur_project loc | Some p \<Rightarrow> Some p))))"

text \<open>The cleaned name, or the name as it was sent with a number behind it.\<close>

definition unique_session_name :: "db \<Rightarrow> pk option \<Rightarrow> string \<Rightarrow> string option" where
  "unique_session_name d project raw =
     first_free (session_taken d project) (\<lambda>i. (raw @ ''_'') @ show_pad 3 i) (clean_name raw) 0"

definition create_session :: "session \<Rightarrow> db \<Rightarrow> pk \<times> db" where
  "create_session s d = (let (k, t) = t_create s (db_sessions d) in (k, d\<lparr>db_sessions := t\<rparr>))"

definition open_session ::
    "env \<Rightarrow> pk \<Rightarrow> pk \<Rightarrow> string \<Rightarrow> db \<Rightarrow> db \<times> session_reply outcome" where
  "open_session e lk p name d =
     (let (s, d1) = create_session (new_session (e_now e) name p) d;
          (sh, t) = t_create (new_shot ''Shot_000'' s) (db_shots d1);
          d2 = d1\<lparr>db_shots := t\<rparr>
      in case t_get (db_locations d2) lk of
           None \<Rightarrow> (d2, Raised DoesNotExist)
         | Some loc \<Rightarrow>
             (save_location lk (loc\<lparr>cl_cur_project := Some p, cl_cur_session := Some s,
                                    cl_cur_shot := Some sh\<rparr>) d2,
              Json 200 \<lparr>sy_session_name = name, sy_session_id = s, sy_shot_name = ''Shot_000'',
                        sy_shot_id = sh, sy_project_name = name_of_project d2 p, sy_project_id = p\<rparr>))"

definition post_new_session ::
    "env \<Rightarrow> pk \<Rightarrow> session_request \<Rightarrow> db \<Rightarrow> (db \<times> session_reply outcome) option" where
  "post_new_session e lk q d =
     (if \<not> has_write_access_location_id e lk d then Some (d, Http 403)
      else
        (case t_get (db_locations d) lk of
           None \<Rightarrow> Some (d, Http 403)
         | Some loc \<Rightarrow>
             (case sr_name q of
                None \<Rightarrow> Some (d, Http 500)
              | Some raw \<Rightarrow>
                  if clean_name raw = [] then Some (d, Http 500)
                  else
                    (case session_project loc q d of
                       (d1, Inl x) \<Rightarrow> Some (d1, Raised x)
                     | (d1, Inr project) \<Rightarrow>
                         (case unique_session_name d1 project raw of
                            None \<Rightarrow> None
                          | Some name \<Rightarrow>
                              (case project of
                                 None \<Rightarrow> Some (d1, Raised IntegrityError)
                               | Some p \<Rightarrow> Some (open_session e lk p name d1)))))))"

section \<open>New shot\<close>

text \<open>
  \<open>re.match(r'(.+?)(\d+)$', name)\<close>: the shortest non-empty prefix that is followed by
  digits only, and at least one.
\<close>

definition split_index :: "string \<Rightarrow> nat option" where
  "split_index s = find (\<lambda>i. list_all is_digit (drop i s)) [1..<length s]"

definition shot_series :: "string \<Rightarrow> string \<times> nat" where
  "shot_series name =
     (case split_index name of
        None \<Rightarrow> (name @ ''_'', 0)
      | Some i \<Rightarrow> (List.take i name, read_nat (drop i name)))"

definition shot_taken :: "db \<Rightarrow> pk option \<Rightarrow> string \<Rightarrow> bool" where
  "shot_taken d session name \<longleftrightarrow>
     t_count (\<lambda>_ s. sh_name s = name \<and> Some (sh_session s) = session) (db_shots d) > 0"

definition unique_shot_name :: "string \<Rightarrow> pk option \<Rightarrow> db \<Rightarrow> string option" where
  "unique_shot_name raw session d =
     (let name = (if clean_name raw = [] then ''Shot'' else clean_name raw);
          (prefix, i) = shot_series name
      in first_free (shot_taken d session) (\<lambda>i. prefix @ show_pad 3 i) name i)"

definition post_new_shot ::
    "env \<Rightarrow> pk \<Rightarrow> string option \<Rightarrow> db \<Rightarrow> (db \<times> (pk \<times> string) outcome) option" where
  "post_new_shot e lk shot_name d =
     (if \<not> has_write_access_location_id e lk d then Some (d, Http 403)
      else
        (case t_get (db_locations d) lk of
           None \<Rightarrow> Some (d, Http 403)
         | Some loc \<Rightarrow>
             (case shot_name of
                None \<Rightarrow> Some (d, Http 500)
              | Some raw \<Rightarrow>
                  (case unique_shot_name raw (cl_cur_session loc) d of
                     None \<Rightarrow> None
                   | Some name \<Rightarrow>
                       (case create_archive_shot name (cl_cur_session loc) d of
                          (d1, Inl x) \<Rightarrow> Some (d1, Raised x)
                        | (d1, Inr k) \<Rightarrow>
                            Some (save_location lk (loc\<lparr>cl_cur_shot := Some k\<rparr>) d1, Json 200 (k, name)))))))"

section \<open>The loops return\<close>

lemma finite_session_taken: "wf_table (db_sessions d) \<Longrightarrow> finite {n. session_taken d p n}"
proof -
  assume wf: "wf_table (db_sessions d)"
  have "{n. session_taken d p n} \<subseteq> (\<lambda>(_, s). se_name s) ` set (rows (db_sessions d))"
    using t_get_iff [OF wf] by (force simp: session_taken_def t_count_pos_iff [OF wf])
  then show ?thesis by (rule finite_subset) simp
qed

lemma finite_shot_taken: "wf_table (db_shots d) \<Longrightarrow> finite {n. shot_taken d s n}"
proof -
  assume wf: "wf_table (db_shots d)"
  have "{n. shot_taken d s n} \<subseteq> (\<lambda>(_, x). sh_name x) ` set (rows (db_shots d))"
    using t_get_iff [OF wf] by (force simp: shot_taken_def t_count_pos_iff [OF wf])
  then show ?thesis by (rule finite_subset) simp
qed

lemma unique_session_name_returns:
  assumes "wf_table (db_sessions d)"
  shows "\<exists>n. unique_session_name d p raw = Some n \<and> \<not> session_taken d p n \<and>
    (if session_taken d p (clean_name raw)
     then \<exists>k. n = raw @ ''_'' @ show_pad 3 k \<and> (\<forall>j < k. session_taken d p (raw @ ''_'' @ show_pad 3 j))
     else n = clean_name raw)"
proof -
  obtain n where "unique_session_name d p raw = Some n" "\<not> session_taken d p n"
    "n = clean_name raw \<or>
     (\<exists>k \<ge> 0. n = (raw @ ''_'') @ show_pad 3 k \<and> (\<forall>j. 0 \<le> j \<and> j < k \<longrightarrow> session_taken d p ((raw @ ''_'') @ show_pad 3 j)))"
    using padded.first_free_returns [OF finite_session_taken [OF assms], of p "raw @ ''_''" "clean_name raw" 0]
    unfolding unique_session_name_def by blast
  moreover have "unique_session_name d p raw = Some (clean_name raw)" if "\<not> session_taken d p (clean_name raw)"
    using that by (simp add: unique_session_name_def)
  ultimately show ?thesis by (auto split: if_split)
qed

lemma unique_shot_name_returns:
  assumes "wf_table (db_shots d)"
  shows "\<exists>n. unique_shot_name raw s d = Some n \<and> \<not> shot_taken d s n"
  unfolding unique_shot_name_def Let_def case_prod_beta
  using padded.first_free_returns [OF finite_shot_taken [OF assms]] by blast

end
