(* ===== verification/Capture_Nodes.thy ===== *)
theory Capture_Nodes
  imports Capture_Sessions
begin

text \<open>
  The capture nodes and what is shown of them: \<open>node_discover\<close>, \<open>node_shutdown\<close>,
  \<open>get_locations\<close>, \<open>cameras_detailed\<close> and \<open>camera_detailed\<close> of \<open>capture/views.py\<close>,
  with the representations of \<open>capture/serializers.py\<close>. The update of the dynamic DNS
  server, a process the source starts after a node changed its address, is left out.
\<close>

section \<open>Nodes report\<close>

record node_report =
  nr_machine_name :: "string option"
  nr_ip_address :: "string option"
  nr_sync_found :: "bool option"
  nr_os :: "string option"
  nr_code_version :: "int option"
  nr_build_version :: "string option"
  nr_drives :: "string option"
  nr_cameras :: "string list option"
  nr_request_camera_params :: bool

definition capture_node_named :: "db \<Rightarrow> string \<Rightarrow> (pk \<times> capture_node) option" where
  "capture_node_named d name =
     (case t_filter (\<lambda>_ n. cn_machine_name n = name) (db_cnodes d) of [] \<Rightarrow> None | x # _ \<Rightarrow> Some x)"

definition apply_node_report :: "node_report \<Rightarrow> capture_node \<Rightarrow> capture_node" where
  "apply_node_report r n = n\<lparr>
     cn_sync_found := given (nr_sync_found r) (cn_sync_found n),
     cn_os := (case nr_os r of None \<Rightarrow> cn_os n | Some os \<Rightarrow> Some os),
     cn_online := True,
     cn_code_version := given (nr_code_version r) 0,
     cn_build_version := given (nr_build_version r) []\<rparr>"

text \<open>\<open>CaptureLocation.objects.get(name='local')\<close>, which raises unless there is exactly one.\<close>

definition local_location :: "db \<Rightarrow> pk option" where
  "local_location d =
     (case t_filter (\<lambda>_ l. cl_name l = ''local'') (db_locations d) of [(k, _)] \<Rightarrow> Some k | _ \<Rightarrow> None)"

definition place_node :: "db \<Rightarrow> node_report \<Rightarrow> capture_node \<Rightarrow> capture_node" where
  "place_node d r n = n\<lparr>
     cn_drive_info := given (nr_drives r) (cn_drive_info n),
     cn_location := (case cn_location n of Some l \<Rightarrow> Some l | None \<Rightarrow> local_location d)\<rparr>"

definition save_capture_node :: "pk option \<Rightarrow> capture_node \<Rightarrow> db \<Rightarrow> pk \<times> db" where
  "save_capture_node k n d =
     (case k of
        Some i \<Rightarrow> (i, d\<lparr>db_cnodes := t_save i n (db_cnodes d)\<rparr>)
      | None \<Rightarrow> (let (i, t) = t_create n (db_cnodes d) in (i, d\<lparr>db_cnodes := t\<rparr>)))"

text \<open>The cameras: those that are new are created, those that are not listed are deleted.\<close>

definition ensure_camera :: "pk \<Rightarrow> string \<Rightarrow> db \<Rightarrow> db" where
  "ensure_camera node unique_id d =
     (if t_filter (\<lambda>_ c. cm_unique_id c = unique_id \<and> cm_node c = node) (db_cameras d) = []
      then d\<lparr>db_cameras := snd (t_create (new_camera node unique_id) (db_cameras d))\<rparr>
      else d)"

definition update_cameras :: "pk \<Rightarrow> string list \<Rightarrow> db \<Rightarrow> db" where
  "update_cameras node ids d =
     (let d1 = fold (ensure_camera node) ids d
      in d1\<lparr>db_cameras := t_delete (\<lambda>_ c. cm_node c = node \<and> cm_unique_id c \<notin> set ids) (db_cameras d1)\<rparr>)"

definition location_settings :: "capture_location \<Rightarrow> (string \<times> json) list" where
  "location_settings l =
     [(''sync_freq'', JInt (cl_hardware_sync_frequency l)), (''pulse_duration'', JInt (cl_pulse_duration l)),
      (''external_sync'', JBool (cl_external_sync l)), (''display_focus_peak'', JBool (cl_display_focus_peak l)),
      (''display_overexposed'', JBool (cl_display_overexposed l)),
      (''display_histogram'', JBool (cl_display_histogram l)), (''bitdepth_avi'', JInt (cl_bitdepth_avi l)),
      (''bitdepth_single'', JInt (cl_bitdepth_single l)), (''image_format'', JStr (cl_image_format l)),
      (''wb_R'', JFloat (cl_wb_R l)), (''wb_G'', JFloat (cl_wb_G l)), (''wb_B'', JFloat (cl_wb_B l))]"

definition camera_params :: "camera \<Rightarrow> json" where
  "camera_params c = JObj
     [(''unique_id'', JStr (cm_unique_id c)), (''lens_aperture_value'', JFloat (cm_lens_aperture c)),
      (''exposure'', JFloat (cm_exposure c)), (''gain'', JFloat (cm_gain c)),
      (''using_sync'', JBool (cm_using_sync c)), (''image_rotation'', JInt (cm_rotation c))]"

definition discover_result :: "db \<Rightarrow> pk \<Rightarrow> capture_node \<Rightarrow> node_report \<Rightarrow> json outcome" where
  "discover_result d k n r =
     (case cn_location n of
        None \<Rightarrow> Http 403
      | Some lk \<Rightarrow>
          (case t_get (db_locations d) lk of
             None \<Rightarrow> Http 403
           | Some l \<Rightarrow> Json 200 (JObj ((''Result'', JStr ''OK'') # location_settings l @
               (if nr_request_camera_params r
                then [(''camera_params'', JList (map (\<lambda>(_, c). camera_params c) (node_cameras d k)))]
                else [])))))"

definition node_discover :: "env \<Rightarrow> node_report \<Rightarrow> db \<Rightarrow> db \<times> json outcome" where
  "node_discover e r d =
     (case nr_machine_name r of
        None \<Rightarrow> (d, Raised (KeyError ''machine_name''))
      | Some name \<Rightarrow>
          (case nr_ip_address r of
             None \<Rightarrow> (d, Raised (KeyError ''ip_address''))
           | Some ip \<Rightarrow>
               (let (k, n0) = (case capture_node_named d name of
                       Some (k, n) \<Rightarrow> (Some k, n\<lparr>cn_ip_address := ip, cn_last_seen := e_now e\<rparr>)
                     | None \<Rightarrow> (None, new_capture_node (e_now e) ip name));
                    n1 = apply_node_report r n0
                in if cn_code_version n1 < 1024 then (d, Http 426)
                   else
                     (let n2 = place_node d r n1;
                          (i, d1) = save_capture_node k n2 d;
                          d2 = (case nr_cameras r of None \<Rightarrow> d1 | Some ids \<Rightarrow> update_cameras i ids d1)
                      in (d2, discover_result d2 i n2 r)))))"

text \<open>
  The name service: when the address of a node is new, and a server is configured, a script with the
  addresses of all nodes of the domain is handed to \<open>nsupdate\<close>. The temporary file takes bytes:
  with Python 3 writing the text into it raises, and the handler only logs it. The database has the node by
  then (\<open>d\<close>).
\<close>

definition ip_has_changed :: "db \<Rightarrow> string \<Rightarrow> string \<Rightarrow> bool" where
  "ip_has_changed d name ip =
     (case capture_node_named d name of None \<Rightarrow> True | Some (_, n) \<Rightarrow> cn_ip_address n \<noteq> ip)"

definition dns_script :: "string \<Rightarrow> db \<Rightarrow> string" where
  "dns_script server d =
     ''server '' @ server @ [CHR 0x0A] @
     concat (map (\<lambda>(_, n). ''update add '' @ cn_machine_name n @ '' 600 a '' @ cn_ip_address n @ [CHR 0x0A])
       (t_filter (\<lambda>_ n. contains ''.ava.ea.com'' (cn_machine_name n)) (db_cnodes d))) @
     ''send'' @ [CHR 0x0A]"

definition dns_update :: "bool \<Rightarrow> string option \<Rightarrow> bool \<Rightarrow> db \<Rightarrow> string option" where
  "dns_update py2 ddns_server changed d =
     (case ddns_server of
        None \<Rightarrow> None
      | Some server \<Rightarrow> if changed \<and> server \<noteq> [] \<and> py2 then Some (dns_script server d) else None)"

definition node_shutdown :: "string option \<Rightarrow> db \<Rightarrow> db \<times> json outcome" where
  "node_shutdown ip_address d =
     (case ip_address of
        None \<Rightarrow> (d, Raised (KeyError ''ip_address''))
      | Some ip \<Rightarrow>
          (d\<lparr>db_cnodes := t_update (\<lambda>_ n. cn_ip_address n = ip) (\<lambda>n. n\<lparr>cn_online := False\<rparr>) (db_cnodes d)\<rparr>,
           Json 200 (JObj [(''Result'', JStr ''OK'')])))"

section \<open>The list of locations\<close>

definition expire_nodes :: "time \<Rightarrow> db \<Rightarrow> db" where
  "expire_nodes now d = d\<lparr>db_cnodes := t_update (\<lambda>_ n. cn_online n \<and> cn_last_seen n < now - seconds 90)
     (\<lambda>n. n\<lparr>cn_online := False\<rparr>) (db_cnodes d)\<rparr>"

definition active_cameras :: "time \<Rightarrow> db \<Rightarrow> pk option \<Rightarrow> nat" where
  "active_cameras now d loc = t_count (\<lambda>_ c. cn_online (node_of d c) \<and>
     cn_last_seen (node_of d c) > now - seconds 90 \<and> cn_location (node_of d c) = loc) (db_cameras d)"

record location_entry =
  le_name :: string
  le_id :: pk
  le_active :: nat
  le_access :: bool

record locations_reply =
  lr_locations :: "location_entry list"
  lr_nb_running_jobs :: nat
  lr_nb_queued_jobs :: nat
  lr_nb_farmnodes_active :: nat

definition get_locations :: "env \<Rightarrow> db \<Rightarrow> db \<times> locations_reply outcome" where
  "get_locations e d =
     (let d1 = expire_nodes (e_now e) d;
          unknown_count = active_cameras (e_now e) d1 None
      in (d1, Json 200
        \<lparr>lr_locations = map (\<lambda>(k, l). \<lparr>le_name = cl_name l, le_id = k,
             le_active = active_cameras (e_now e) d1 (Some k),
             le_access = (cl_read_access_all l \<or> has_read_right e k d1)\<rparr>) (rows (db_locations d1)) @
           (if unknown_count > 0
            then [\<lparr>le_name = ''Unknown'', le_id = 0, le_active = unknown_count, le_access = True\<rparr>] else []),
         lr_nb_running_jobs = t_count (\<lambda>_ j. fj_status j = Running) (db_jobs d1),
         lr_nb_queued_jobs = t_count (\<lambda>_ j. fj_status j = Ready) (db_jobs d1),
         lr_nb_farmnodes_active = t_count (\<lambda>_ n. fn_status n = ''accepting'' \<and>
             fn_last_seen n > e_now e - seconds 90) (db_fnodes d1)\<rparr>))"

section \<open>The cameras of a location\<close>

text \<open>\<open>loads\<close> is \<open>json.loads\<close>, which fails on text that is not a document.\<close>

record node_data =
  nd_id :: pk
  nd_ip_address :: string
  nd_machine_name :: string
  nd_os :: "string option"
  nd_last_seen :: time
  nd_cameras :: "(pk \<times> string \<times> int) list"
  nd_active :: bool
  nd_sync_found :: bool
  nd_drive_info :: json
  nd_code_version :: int
  nd_build_version :: string

definition short_camera :: "pk \<times> camera \<Rightarrow> pk \<times> string \<times> int" where
  "short_camera kc = (fst kc, cm_unique_id (snd kc), cm_rotation (snd kc))"

definition node_representation :: "(string \<Rightarrow> json option) \<Rightarrow> time \<Rightarrow> db \<Rightarrow> pk \<times> capture_node \<Rightarrow> node_data" where
  "node_representation loads now d kn =
     (let (k, n) = kn in
      \<lparr>nd_id = k, nd_ip_address = cn_ip_address n, nd_machine_name = cn_machine_name n, nd_os = cn_os n,
       nd_last_seen = cn_last_seen n, nd_cameras = map short_camera (node_cameras d k),
       nd_active = node_is_active now n, nd_sync_found = cn_sync_found n,
       nd_drive_info = (case loads (cn_drive_info n) of None \<Rightarrow> JStr (cn_drive_info n) | Some j \<Rightarrow> j),
       nd_code_version = cn_code_version n, nd_build_version = cn_build_version n\<rparr>)"

text \<open>
  What a node says of a camera, completed with the data of the database: the map from unique
  ids is built in the order of the cameras, so the last of two equal ids counts.
\<close>

record camera_detail =
  cd_unique_id :: string
  cd_details :: json
  cd_ip_address :: string
  cd_machine_name :: string
  cd_id_rotation :: "(pk \<times> int) option"

definition camera_details ::
    "(string \<Rightarrow> ((string \<times> json) list) option) \<Rightarrow> node_data \<Rightarrow> (camera_detail list) option" where
  "camera_details fetch n =
     (case fetch (nd_ip_address n) of
        None \<Rightarrow> None
      | Some cams \<Rightarrow> Some (map (\<lambda>(uid, x).
          \<lparr>cd_unique_id = uid, cd_details = x, cd_ip_address = nd_ip_address n,
           cd_machine_name = nd_machine_name n,
           cd_id_rotation = map_of (rev (map (\<lambda>(k, u, rot). (u, (k, rot))) (nd_cameras n))) uid\<rparr>) cams))"

record cameras_reply =
  cr_read_access :: bool
  cr_write_access :: bool
  cr_project :: "pk \<times> string"
  cr_session :: "pk option \<times> string"
  cr_shot :: "pk option \<times> string"
  cr_next_take :: nat
  cr_location :: "(string \<times> json) list"
  cr_nodes :: "(node_data \<times> (camera_detail list) option) list"

definition location_display :: "capture_location \<Rightarrow> (string \<times> json) list" where
  "location_display l =
     [(''show_focus_peak'', JBool (cl_display_focus_peak l)),
      (''show_overexposed'', JBool (cl_display_overexposed l)),
      (''show_histogram'', JBool (cl_display_histogram l)), (''bitdepth_avi'', JInt (cl_bitdepth_avi l)),
      (''bitdepth_single'', JInt (cl_bitdepth_single l)), (''image_format'', JStr (cl_image_format l)),
      (''wb_R'', JFloat (cl_wb_R l)), (''wb_G'', JFloat (cl_wb_G l)), (''wb_B'', JFloat (cl_wb_B l)),
      (''hardware_sync_frequency'', JInt (cl_hardware_sync_frequency l)),
      (''pulse_duration'', JInt (cl_pulse_duration l)), (''external_sync'', JBool (cl_external_sync l))]"

definition default_project :: "pk \<Rightarrow> capture_location \<Rightarrow> db \<Rightarrow> capture_location \<times> pk \<times> db" where
  "default_project lk loc d =
     (case cl_cur_project loc of
        Some p \<Rightarrow> (loc, p, d)
      | None \<Rightarrow>
          (let (p, t) = t_create \<lparr>pr_name = ''Default_'' @ cl_name loc, pr_archived = False\<rparr> (db_projects d);
               loc1 = loc\<lparr>cl_cur_project := Some p\<rparr>
           in (loc1, p, save_location lk loc1 (d\<lparr>db_projects := t\<rparr>))))"

definition location_nodes :: "time \<Rightarrow> pk \<Rightarrow> db \<Rightarrow> (pk \<times> capture_node) list" where
  "location_nodes now lk d = sort_key (\<lambda>(_, n). cn_machine_name n)
     (t_filter (\<lambda>_ n. cn_location n = Some lk \<and> cn_online n \<and> cn_last_seen n > now - seconds 90) (db_cnodes d))"

definition cameras_detailed ::
    "(string \<Rightarrow> json option) \<Rightarrow> (string \<Rightarrow> ((string \<times> json) list) option) \<Rightarrow> env \<Rightarrow> pk \<Rightarrow> db
       \<Rightarrow> db \<times> cameras_reply outcome" where
  "cameras_detailed loads fetch e lk d =
     (if lk = 0 then (d, Http 500)
      else
        (case t_get (db_locations d) lk of
           None \<Rightarrow> (d, Raised DoesNotExist)
         | Some loc0 \<Rightarrow>
             if \<not> (cl_read_access_all loc0 \<or> has_read_right e lk d) then (d, Http 403)
             else
               (let nodes = map (node_representation loads (e_now e) d) (location_nodes (e_now e) lk d);
                    (loc, p, d1) = default_project lk loc0 d
                in (d1, Json 200
                  \<lparr>cr_read_access = True, cr_write_access = has_write_access_location_id e lk d,
                   cr_project = (p, name_of_project d1 p),
                   cr_session = (cl_cur_session loc, (case cl_cur_session loc of None \<Rightarrow> ''-new-''
                      | Some s \<Rightarrow> name_of_session d1 s)),
                   cr_shot = (cl_cur_shot loc, (case cl_cur_shot loc of None \<Rightarrow> ''-new-''
                      | Some k \<Rightarrow> (case t_get (db_shots d1) k of None \<Rightarrow> [] | Some s \<Rightarrow> sh_name s))),
                   cr_next_take = (case cl_cur_shot loc of None \<Rightarrow> 1
                      | Some k \<Rightarrow> (case t_get (db_shots d1) k of None \<Rightarrow> 1 | Some s \<Rightarrow> sh_next_take s)),
                   cr_location = location_display loc,
                   cr_nodes = map (\<lambda>n. (n, camera_details fetch n)) nodes\<rparr>))))"

record camera_data =
  cda_id :: pk
  cda_unique_id :: string
  cda_model :: string
  cda_ip_address :: string
  cda_active :: bool
  cda_last_seen :: time
  cda_version :: string

text \<open>The picture is fetched with \<open>urllib2\<close>, which is not imported, and is never in the answer.\<close>

definition camera_detailed :: "env \<Rightarrow> pk \<Rightarrow> pk \<Rightarrow> db \<Rightarrow> camera_data outcome" where
  "camera_detailed e lk camera_id d =
     (if lk \<noteq> 0 \<and> t_get (db_locations d) lk = None then Raised DoesNotExist
      else if lk \<noteq> 0 \<and> \<not> ((case t_get (db_locations d) lk of None \<Rightarrow> False | Some l \<Rightarrow> cl_read_access_all l)
                 \<or> has_read_right e lk d) then Http 403
      else
        (case t_get (db_cameras d) camera_id of
           None \<Rightarrow> Http 404
         | Some c \<Rightarrow>
             (let n = node_of d c in
              if cn_location n \<noteq> Some lk then Http 404
              else Json 200 \<lparr>cda_id = camera_id, cda_unique_id = cm_unique_id c, cda_model = cm_model c,
                     cda_ip_address = cn_ip_address n, cda_active = node_is_active (e_now e) n,
                     cda_last_seen = cn_last_seen n, cda_version = cm_version c\<rparr>)))"

end
