(* ===== verification/Capture_Correct.thy ===== *)
theory Capture_Correct
  imports Capture_Nodes
begin

text \<open>
  What makes capturing correct: only users with write access to a location control it, the
  names of new sessions and shots are unused and clean, the takes of a shot carry different
  numbers, and the cameras of a node in the database are those the node reports. Two
  situations that break the numbering and the grouping of takes are stated as well.
\<close>

section \<open>Only users with write access\<close>

datatype capture_command =
    ToggleSync "pk option"
  | SetRotation "pk option" "int option"
  | ToggleCapturing "pk option"
  | SendMessage "pk option" "string option"
  | SetParameter pk parameter_request
  | StartRecording record_request
  | StopRecording record_request
  | RecordSingle record_request
  | NewSession pk session_request
  | NewShot pk "string option"

text \<open>What the nodes, the thumbnail decoder and the name generator answer.\<close>

record surroundings =
  su_reply :: "message \<Rightarrow> json option"
  su_answer :: "pk \<Rightarrow> (cam_summary list option) option"
  su_uid :: "string \<Rightarrow> nat \<Rightarrow> py_exn + string"
  su_decode :: "string \<Rightarrow> string option"

definition result_of :: "db \<times> 'b outcome \<Rightarrow> db \<times> nat outcome" where
  "result_of r = (fst r, Http (http_status (snd r)))"

definition result_of_loop :: "db \<Rightarrow> (db \<times> 'b outcome) option \<Rightarrow> db \<times> nat outcome" where
  "result_of_loop d r = (case r of None \<Rightarrow> (d, Raised AssertionError) | Some x \<Rightarrow> result_of x)"

fun capture_view :: "env \<Rightarrow> surroundings \<times> capture_command \<Rightarrow> db \<Rightarrow> db \<times> nat outcome" where
  "capture_view e (su, ToggleSync c) d = result_of (post_toggle_using_sync e c d)"
| "capture_view e (su, SetRotation c a) d = result_of (post_set_camera_rotation e c a d)"
| "capture_view e (su, ToggleCapturing c) d = result_of (post_toggle_capturing e c d)"
| "capture_view e (su, SendMessage l m) d = result_of (post_message e l m d)"
| "capture_view e (su, SetParameter l q) d = result_of (camera_parameter (su_reply su) e l q d)"
| "capture_view e (su, StartRecording q) d = result_of (post_start_recording e q d)"
| "capture_view e (su, StopRecording q) d =
     result_of (post_stop_recording (su_answer su) (su_uid su) (su_decode su) e q d)"
| "capture_view e (su, RecordSingle q) d =
     result_of (post_record_single_image (su_answer su) (su_uid su) (su_decode su) e q d)"
| "capture_view e (su, NewSession l q) d = result_of_loop d (post_new_session e l q d)"
| "capture_view e (su, NewShot l n) d = result_of_loop d (post_new_shot e l n d)"

text \<open>The location a command is about.\<close>

definition camera_location :: "db \<Rightarrow> pk option \<Rightarrow> pk option" where
  "camera_location d c =
     (case c of None \<Rightarrow> None
      | Some k \<Rightarrow> (case t_get (db_cameras d) k of None \<Rightarrow> None | Some cam \<Rightarrow> cn_location (node_of d cam)))"

fun command_location :: "db \<Rightarrow> capture_command \<Rightarrow> pk option" where
  "command_location d (ToggleSync c) = camera_location d c"
| "command_location d (SetRotation c a) = camera_location d c"
| "command_location d (ToggleCapturing c) = camera_location d c"
| "command_location d (SendMessage l m) = l"
| "command_location d (SetParameter l q) = Some l"
| "command_location d (StartRecording q) = rq_location q"
| "command_location d (StopRecording q) = rq_location q"
| "command_location d (RecordSingle q) = rq_location q"
| "command_location d (NewSession l q) = Some l"
| "command_location d (NewShot l n) = Some l"

definition may_capture :: "env \<Rightarrow> surroundings \<times> capture_command \<Rightarrow> db \<Rightarrow> bool" where
  "may_capture e sc d =
     (case command_location d (snd sc) of None \<Rightarrow> False | Some l \<Rightarrow> has_write_access_location_id e l d)"

lemma result_of_simps [simp]:
  "fst (result_of r) = fst r" "http_status (snd (result_of r)) = http_status (snd r)"
  by (simp_all add: result_of_def)

lemma with_camera_denied:
  assumes "(case camera_location d (Some k) of None \<Rightarrow> True | Some l \<Rightarrow> \<not> has_write_access_location_id e l d)"
  shows "fst (with_camera e k d body) = d \<and> http_status (snd (with_camera e k d body)) \<noteq> 200"
  using assms
  by (auto simp: with_camera_def camera_location_def has_write_access_node_def split: option.splits)

lemma capture_denied:
  assumes "\<not> may_capture e (su, c) d"
  shows "fst (capture_view e (su, c) d) = d \<and> http_status (snd (capture_view e (su, c) d)) \<noteq> 200"
proof -
  have no: "case command_location d c of None \<Rightarrow> True | Some l \<Rightarrow> \<not> has_write_access_location_id e l d"
    using assms by (auto simp: may_capture_def split: option.splits)
  note wc = with_camera_denied [where e = e and d = d]
  show ?thesis
  proof (cases c)
    case (ToggleSync x)
    with no wc show ?thesis by (cases x) (simp_all add: post_toggle_using_sync_def no_response_def)
  next
    case (SetRotation x a)
    with no wc show ?thesis
      by (cases x; cases a) (simp_all add: post_set_camera_rotation_def no_response_def)
  next
    case (ToggleCapturing x)
    with no wc show ?thesis by (cases x) (simp_all add: post_toggle_capturing_def)
  next
    case (SendMessage l m)
    with no show ?thesis by (cases l; cases m) (simp_all add: post_message_def)
  next
    case (SetParameter l q)
    with no show ?thesis by (simp add: camera_parameter_def)
  next
    case (StartRecording q)
    with no show ?thesis by (cases "rq_location q") (simp_all add: post_start_recording_def no_response_def)
  next
    case (StopRecording q)
    with no show ?thesis by (cases "rq_location q") (simp_all add: post_stop_recording_def no_response_def)
  next
    case (RecordSingle q)
    with no show ?thesis by (cases "rq_location q") (simp_all add: post_record_single_image_def no_response_def)
  next
    case (NewSession l q)
    with no show ?thesis by (simp add: post_new_session_def result_of_loop_def)
  next
    case (NewShot l n)
    with no show ?thesis by (simp add: post_new_shot_def result_of_loop_def)
  qed
qed

interpretation cv: guarded_view capture_view may_capture
  by unfold_locales (metis capture_denied surj_pair)+

definition serve_captures :: "(env \<times> surroundings \<times> capture_command) list \<Rightarrow> db \<Rightarrow> db" where
  "serve_captures = fold (\<lambda>(e, sc) d. fst (capture_view e sc d))"

text \<open>
  Whatever capture commands users send, in whatever order, and whatever the
  nodes answer: if the database is changed, or a message was sent to a node, then one of the
  commands was about a location to which its sender had write access when it was served,
  and everything before it had had no effect.
\<close>

theorem captures_need_rights:
  assumes "serve_captures rs d \<noteq> d"
  shows "\<exists>us e su c vs l a. rs = us @ (e, su, c) # vs \<and> serve_captures us d = d \<and>
    command_location d c = Some l \<and>
    a \<in> set (rows (db_access d)) \<and> la_user (snd a) = e_user_id e \<and> la_location (snd a) = l \<and>
    la_write_access (snd a)"
proof -
  have "serve_captures = cv.serve" by (simp add: serve_captures_def cv.serve_def fun_eq_iff)
  with cv.serve_change_allowed [of rs d] assms obtain us e sc vs where
    r: "rs = us @ (e, sc) # vs" "serve_captures us d = d" and m: "may_capture e sc d" by auto
  obtain su c where sc: "sc = (su, c)" by (cases sc)
  from m sc obtain l where l: "command_location d c = Some l" "has_write_access_location_id e l d"
    by (auto simp: may_capture_def split: option.splits)
  then obtain a where "a \<in> set (rights_on d (e_user_id e) l)" "la_write_access (snd a)"
    by (auto simp: has_write_access_location_id_def filter_empty_conv)
  then have "a \<in> set (rows (db_access d)) \<and> la_user (snd a) = e_user_id e \<and> la_location (snd a) = l"
    by (auto simp: rights_on_def t_filter_def)
  with r sc l \<open>la_write_access (snd a)\<close> show ?thesis by blast
qed

section \<open>A sample stage\<close>

definition stage_env :: env where
  "stage_env = \<lparr>e_now = hours 10, e_user_id = 1,
     e_user = \<lparr>u_username = ''ann'', u_email = ''ann@ea'', u_is_staff = False, u_is_superuser = False,
       u_is_active = True, u_password = [], u_first_name = [], u_last_name = [], u_last_login = None,
       u_date_joined = 0\<rparr>,
     e_slack_hook = False, e_notification_email = False, e_admin_email = ''admin@ea''\<rparr>"

definition table_of :: "(pk \<times> 'r) list \<Rightarrow> 'r table" where
  "table_of rs = \<lparr>rows = rs, next_pk = 100\<rparr>"

definition stage :: db where
  "stage = empty_db
     \<lparr>db_locations := table_of [(4, (new_capture_location ''stage'')
        \<lparr>cl_cur_project := Some 1, cl_cur_session := Some 2, cl_cur_shot := Some 3\<rparr>)],
      db_access := table_of [(1, \<lparr>la_user = 1, la_location = 4, la_read_access = True, la_write_access = True\<rparr>)],
      db_projects := table_of [(1, \<lparr>pr_name = ''game'', pr_archived = False\<rparr>)],
      db_sessions := table_of [(2, new_session 0 ''monday'' 1), (5, new_session 0 ''tuesday'' 1)],
      db_shots := table_of [(3, new_shot ''walk'' 2)],
      db_cnodes := table_of [(6, (new_capture_node 0 ''10.0.0.6'' ''cap06'')\<lparr>cn_online := True, cn_location := Some 4\<rparr>)],
      db_cameras := table_of [(8, new_camera 6 ''cam-a'')]\<rparr>"

lemmas stage_simps = stage_def stage_env_def table_of_def empty_db_def t_empty_def
  new_capture_location_def new_session_def new_shot_def new_capture_node_def new_camera_def

definition silent_nodes :: surroundings where
  "silent_nodes = \<lparr>su_reply = (\<lambda>_. None), su_answer = (\<lambda>_. None), su_uid = (\<lambda>_ _. Inr ''1''),
     su_decode = (\<lambda>_. None)\<rparr>"

lemma captures_need_rights_witness:
  "\<exists>us e su c vs. [(stage_env, silent_nodes, ToggleSync (Some 8))] = us @ (e, su, c) # vs \<and>
     command_location stage c \<noteq> None"
proof -
  have "length (db_sent (serve_captures [(stage_env, silent_nodes, ToggleSync (Some 8))] stage))
      \<noteq> length (db_sent stage)"
    by code_simp
  then have "serve_captures [(stage_env, silent_nodes, ToggleSync (Some 8))] stage \<noteq> stage"
    by auto
  from captures_need_rights [OF this] show ?thesis by (metis option.distinct(1))
qed

section \<open>New shots and sessions\<close>








definition stage_location :: capture_location where
  "stage_location = (new_capture_location ''stage'')
     \<lparr>cl_cur_project := Some 1, cl_cur_session := Some 2, cl_cur_shot := Some 3\<rparr>"

lemma stage_rights: "has_write_access_location_id stage_env 4 stage"
  by (simp add: has_write_access_location_id_def rights_on_def t_filter_def stage_simps)


lemma session_taken_iff:
  assumes "wf_table (db_sessions d)"
  shows "session_taken d (Some p) n \<longleftrightarrow>
    (\<exists>k s. t_get (db_sessions d) k = Some s \<and> se_name s = n \<and> se_project s = p)"
  by (simp add: session_taken_def t_count_pos_iff [OF assms])

lemma session_project_frame:
  "session_project loc q d = (d1, r) \<Longrightarrow> db_sessions d1 = db_sessions d \<and> db_shots d1 = db_shots d \<and>
     db_locations d1 = db_locations d"
  by (auto simp: session_project_def case_prod_beta split: if_splits option.splits)

text \<open>
  C32: a user with write access asks for a new session of a location by a name of which
  something is left when it is cleaned, and its project is found: the one of the request, a new one of the
  requested name, or the current one of the location. Then he gets it, with a name no other session of its
  project has and a first shot, and the location points to this shot, this session and its project.
  The name is the cleaned one if no session of the project has it. Only if that is taken, it is the name as it was
  sent, with the first number that makes it free: then it has not been cleaned.
\<close>

theorem new_session_consistent:
  assumes wf: "wf_table (db_sessions d)" "wf_table (db_shots d)"
    and w: "has_write_access_location_id e lk d" and loc: "t_get (db_locations d) lk = Some loc"
    and name: "sr_name q = Some raw" "clean_name raw \<noteq> []"
    and prj: "session_project loc q d = (d1, Inr (Some p))"
  shows "\<exists>d' r se. post_new_session e lk q d = Some (d', Json 200 r) \<and>
    t_get (db_sessions d') (sy_session_id r) = Some se \<and> se_name se = sy_session_name r \<and> se_project se = p \<and>
    (\<forall>k s. t_get (db_sessions d') k = Some s \<and> se_project s = p \<and> se_name s = sy_session_name r
       \<longrightarrow> k = sy_session_id r) \<and>
    t_get (db_shots d') (sy_shot_id r) = Some (new_shot ''Shot_000'' (sy_session_id r)) \<and>
    (\<exists>loc'. t_get (db_locations d') lk = Some loc' \<and> cl_cur_project loc' = Some p \<and>
       cl_cur_session loc' = Some (sy_session_id r) \<and> cl_cur_shot loc' = Some (sy_shot_id r)) \<and>
    (if session_taken d1 (Some p) (clean_name raw)
     then \<exists>i. sy_session_name r = raw @ ''_'' @ show_pad 3 i \<and>
       (\<forall>j < i. session_taken d1 (Some p) (raw @ ''_'' @ show_pad 3 j))
     else sy_session_name r = clean_name raw)"
proof -
  have fr: "db_sessions d1 = db_sessions d" "db_shots d1 = db_shots d" "db_locations d1 = db_locations d"
    using session_project_frame [OF prj] by simp_all
  obtain n where n: "unique_session_name d1 (Some p) raw = Some n" "\<not> session_taken d1 (Some p) n"
    "if session_taken d1 (Some p) (clean_name raw)
     then \<exists>k. n = raw @ ''_'' @ show_pad 3 k \<and> (\<forall>j < k. session_taken d1 (Some p) (raw @ ''_'' @ show_pad 3 j))
     else n = clean_name raw"
    using unique_session_name_returns [of d1 "Some p" raw] wf(1) unfolding fr by blast
  let ?s = "next_pk (db_sessions d)" and ?sh = "next_pk (db_shots d)"
  let ?se = "new_session (e_now e) n p"
  define d2 where "d2 = d1\<lparr>db_sessions := snd (t_create ?se (db_sessions d)),
    db_shots := snd (t_create (new_shot ''Shot_000'' ?s) (db_shots d))\<rparr>"
  let ?d' = "save_location lk (loc\<lparr>cl_cur_project := Some p, cl_cur_session := Some ?s, cl_cur_shot := Some ?sh\<rparr>) d2"
  have d2: "db_locations d2 = db_locations d" by (simp add: d2_def fr)
  let ?r = "\<lparr>sy_session_name = n, sy_session_id = ?s, sy_shot_name = ''Shot_000'',
     sy_shot_id = ?sh, sy_project_name = name_of_project d2 p, sy_project_id = p\<rparr>"
  have v: "post_new_session e lk q d = Some (?d', Json 200 ?r)"
    using w loc name prj n(1) d2
    by (simp add: post_new_session_def open_session_def create_session_def case_prod_beta fr d2_def [symmetric])
  have ses: "t_get (db_sessions ?d') k = (if k = ?s then Some ?se else t_get (db_sessions d) k)" for k
    using wf(1) by (simp add: save_location_def d2_def table_simps)
  have sho: "t_get (db_shots ?d') ?sh = Some (new_shot ''Shot_000'' ?s)"
    using wf(2) by (simp add: save_location_def d2_def table_simps)
  have "\<forall>k s. t_get (db_sessions ?d') k = Some s \<and> se_project s = p \<and> se_name s = n \<longrightarrow> k = ?s"
    using n(2) session_taken_iff [of d1 p n] wf(1) fr(1) unfolding ses by (metis option.inject)
  moreover have "\<exists>loc'. t_get (db_locations ?d') lk = Some loc' \<and> cl_cur_project loc' = Some p \<and>
       cl_cur_session loc' = Some ?s \<and> cl_cur_shot loc' = Some ?sh"
    by (simp add: save_location_def table_simps)
  moreover have "t_get (db_sessions ?d') ?s = Some ?se" "se_name ?se = n" "se_project ?se = p"
    by (simp_all add: ses) (simp_all add: new_session_def)
  moreover have "sy_session_id ?r = ?s" "sy_shot_id ?r = ?sh" "sy_session_name ?r = n" by simp_all
  ultimately show ?thesis using v sho n(3) by metis
qed

lemma new_session_consistent_witness:
  "\<exists>d' r. post_new_session stage_env 4
      \<lparr>sr_name = Some ''friday'', sr_project_id = None, sr_project_name = None\<rparr> stage = Some (d', Json 200 r) \<and>
    (\<exists>loc'. t_get (db_locations d') 4 = Some loc' \<and> cl_cur_session loc' = Some (sy_session_id r))"
proof -
  let ?q = "\<lparr>sr_name = Some ''friday'', sr_project_id = None, sr_project_name = None\<rparr>"
  have "wf_table (db_sessions stage)" "wf_table (db_shots stage)"
    by (simp_all add: stage_simps wf_table_def t_keys_def)
  moreover have "t_get (db_locations stage) 4 = Some stage_location"
    by (simp add: stage_def table_of_def t_get_def stage_location_def)
  moreover have "session_project stage_location ?q stage = (stage, Inr (Some 1))"
    by (simp add: session_project_def stage_location_def)
  moreover have "sr_name ?q = Some ''friday''" "clean_name ''friday'' \<noteq> []"
    by (simp_all add: clean_name_def name_char_def)
  ultimately show ?thesis
    using new_session_consistent [OF _ _ stage_rights, of stage_location ?q "''friday''" stage 1] by blast
qed

section \<open>The numbers of takes\<close>

text \<open>The takes of a shot have different numbers, all below the next one.\<close>

definition takes_numbered :: "db \<Rightarrow> bool" where
  "takes_numbered d \<longleftrightarrow>
     (\<forall>k t s sh. t_get (db_takes d) k = Some t \<and> tk_shot t = s \<and> t_get (db_shots d) s = Some sh \<longrightarrow>
        tk_sequence t < int (sh_next_take sh)) \<and>
     (\<forall>k1 t1 k2 t2. t_get (db_takes d) k1 = Some t1 \<and> t_get (db_takes d) k2 = Some t2 \<and>
        tk_shot t1 = tk_shot t2 \<and> tk_sequence t1 = tk_sequence t2 \<longrightarrow> k1 = k2) \<and>
     (\<forall>k t. t_get (db_takes d) k = Some t \<longrightarrow> tk_shot t \<in> t_keys (db_shots d))"

lemma takes_numberedD:
  assumes "takes_numbered d"
  shows "t_get (db_takes d) k = Some t \<Longrightarrow> t_get (db_shots d) (tk_shot t) = Some sh \<Longrightarrow>
      tk_sequence t < int (sh_next_take sh)"
    "t_get (db_takes d) k1 = Some t1 \<Longrightarrow> t_get (db_takes d) k2 = Some t2 \<Longrightarrow>
      tk_shot t1 = tk_shot t2 \<Longrightarrow> tk_sequence t1 = tk_sequence t2 \<Longrightarrow> k1 = k2"
    "t_get (db_takes d) k = Some t \<Longrightarrow> tk_shot t \<in> t_keys (db_shots d)"
  using assms unfolding takes_numbered_def by blast+

text \<open>Storing the cameras of a take changes the table of archived cameras and the files only.\<close>

definition only_cameras :: "string option \<times> db \<Rightarrow> string option \<times> db \<Rightarrow> bool" where
  "only_cameras s s' \<longleftrightarrow> (\<exists>cs fs. snd s' = (snd s)\<lparr>db_acameras := cs, db_files := fs\<rparr>)"

lemma only_camerasI: "snd s' = (snd s)\<lparr>db_acameras := cs, db_files := fs\<rparr> \<Longrightarrow> only_cameras s s'"
  by (auto simp: only_cameras_def)

lemma only_cameras_refl [simp]: "only_cameras s s"
  by (rule only_camerasI [where cs = "db_acameras (snd s)" and fs = "db_files (snd s)"]) simp

lemma only_cameras_trans: "only_cameras s s' \<Longrightarrow> only_cameras s' s'' \<Longrightarrow> only_cameras s s''"
  unfolding only_cameras_def by force

lemma store_thumbnail_only: "only_cameras s (fst (store_thumbnail uid decode tk i c s))"
proof -
  have f: "only_cameras s (x, (snd s)\<lparr>db_files := fs\<rparr>)" for x fs
    by (rule only_camerasI [where cs = "db_acameras (snd s)" and fs = fs]) simp
  have "only_cameras s (x, snd s)" for x
    by (rule only_camerasI [where cs = "db_acameras (snd s)" and fs = "db_files (snd s)"]) simp
  with f show ?thesis by (simp add: store_thumbnail_def Let_def split: option.splits sum.splits)
qed

lemma archive_cam_only: "only_cameras s (fst (archive_cam tk m c r s))"
proof -
  have f: "only_cameras s (x, create_archive_camera a (snd s))" for x a
    by (rule only_camerasI [where cs = "snd (t_create a (db_acameras (snd s)))" and fs = "db_files (snd s)"])
      (simp add: create_archive_camera_def)
  then show ?thesis by (simp add: archive_cam_def split: option.splits list.splits)
qed

lemma register_cam_only: "only_cameras s (fst (register_cam uid decode lk tk m ic s))"
proof -
  obtain i c where ic: "ic = (i, c)" by (cases ic)
  obtain s1 x where s1: "store_thumbnail (uid m i) decode tk i c s = (s1, x)"
    by (cases "store_thumbnail (uid m i) decode tk i c s")
  have "only_cameras s s1" using store_thumbnail_only [of s "uid m i" decode tk i c] s1 by simp
  then show ?thesis
    using only_cameras_trans [OF _ archive_cam_only]
    by (simp add: register_cam_def ic s1 split: option.splits)
qed

lemma register_node_only: "only_cameras s (fst (register_node uid decode lk tk n s))"
proof (cases "ns_cameras n")
  case (Some cams)
  have "only_cameras s (fst (for_each (register_cam uid decode lk tk m) xs s))" for m xs
    by (rule for_each_rel [where R = only_cameras])
      (simp_all add: only_cameras_trans [OF _ register_cam_only])
  with Some show ?thesis by (simp add: register_node_def)
qed (simp add: register_node_def)

lemma register_nodes_only: "only_cameras s (fst (for_each (register_node uid decode lk tk) ns s))"
  by (rule for_each_rel [where R = only_cameras])
    (simp_all add: only_cameras_trans [OF _ register_node_only])

lemma only_camerasD:
  assumes "only_cameras s s'"
  shows "db_takes (snd s') = db_takes (snd s)" "db_shots (snd s') = db_shots (snd s)"
    "db_locations (snd s') = db_locations (snd s)"
  using assms by (auto simp: only_cameras_def)

lemma create_take_simps [simp]:
  "fst (create_take t d) = next_pk (db_takes d)"
  "db_takes (snd (create_take t d)) = snd (t_create t (db_takes d))"
  "db_shots (snd (create_take t d)) = db_shots d"
  "db_locations (snd (create_take t d)) = db_locations d"
  by (simp_all add: create_take_def case_prod_beta)

text \<open>A take with the next number of its shot keeps the numbers in order, if the next number then goes up.\<close>

lemma takes_numbered_add:
  assumes num: "takes_numbered d" and sh: "t_get (db_shots d) s = Some sh"
    and t: "tk_shot t = s" "tk_sequence t = int (sh_next_take sh)"
    and takes: "\<And>i. t_get (db_takes d') i = (if i = k then Some t else t_get (db_takes d) i)"
    and shots: "\<And>i. t_get (db_shots d') i = (if i = s then Some (sh\<lparr>sh_next_take := sh_next_take sh + 1\<rparr>)
      else t_get (db_shots d) i)"
  shows "takes_numbered d'"
proof -
  have lt: "tk_sequence u < int (sh_next_take sh)" if "t_get (db_takes d) i = Some u" "tk_shot u = s" for i u
    using takes_numberedD(1) [OF num that(1)] that(2) sh by simp
  have bound: "tk_sequence u < int (sh_next_take z)"
    if "t_get (db_takes d') i = Some u" "t_get (db_shots d') (tk_shot u) = Some z" for i u z
    using that lt takes_numberedD(1) [OF num] t by (fastforce simp: takes shots split: if_splits)
  have new: False if "t_get (db_takes d) i = Some u" "tk_shot u = tk_shot t" "tk_sequence u = tk_sequence t" for i u
    using lt [OF that(1)] that(2,3) t by simp
  have same: "i1 = i2" if "t_get (db_takes d') i1 = Some u1" "t_get (db_takes d') i2 = Some u2"
    "tk_shot u1 = tk_shot u2" "tk_sequence u1 = tk_sequence u2" for i1 u1 i2 u2
    using that takes_numberedD(2) [OF num, of i1 u1 i2 u2] new [of i1 u1] new [of i2 u2]
    by (auto simp: takes split: if_splits)
  have key: "tk_shot u \<in> t_keys (db_shots d')" if "t_get (db_takes d') i = Some u" for i u
    using that t takes_numberedD(3) [OF num, of i u] by (auto simp: takes shots t_keys_get split: if_splits)
  show ?thesis unfolding takes_numbered_def using bound same key by blast
qed

text \<open>
  C33: a recording that is registered to its end takes the next number of its shot: the
  take is stored under this number, which the answer reports, the next number goes up by one,
  and the takes of every shot still have different numbers.
\<close>

theorem take_numbering:
  assumes wf: "wf_table (db_takes d)" and num: "takes_numbered d"
    and set: "cl_cur_project loc \<noteq> None" "cl_cur_session loc \<noteq> None"
    and sh: "cl_cur_shot loc = Some s" "t_get (db_shots d) s = Some sh"
    and run: "register_new_take uid decode e lk loc sm burst scan d = (d', Inr sm')"
  shows "takes_numbered d' \<and> rs_take_index sm' = Some (sh_next_take sh) \<and>
    (\<exists>k t. rs_take_id sm' = Some k \<and> t_get (db_takes d') k = Some t \<and> t_get (db_takes d) k = None \<and>
       tk_shot t = s \<and> tk_sequence t = int (sh_next_take sh) \<and>
       tk_name t = ''Take_'' @ show_pad 4 (sh_next_take sh)) \<and>
    map_option sh_next_take (t_get (db_shots d') s) = Some (sh_next_take sh + 1)"
proof -
  let ?t = "new_take (e_now e) (''Take_'' @ show_pad 4 (sh_next_take sh)) s (sh_next_take sh) burst scan"
  let ?k = "next_pk (db_takes d)" and ?d1 = "snd (create_take ?t d)"
  obtain f d2 x where l: "for_each (register_node uid decode lk ?k) (rs_nodes sm) (None, ?d1) = ((f, d2), x)"
    by (metis surj_pair)
  have d2: "db_takes d2 = snd (t_create ?t (db_takes d))" "db_shots d2 = db_shots d"
    using only_camerasD [OF register_nodes_only [of "(None, ?d1)" uid decode lk ?k "rs_nodes sm"]] l by simp_all
  have x: "x = None" and d': "d' = save_location lk loc
      (d2\<lparr>db_shots := t_save s (sh\<lparr>sh_next_take := sh_next_take sh + 1\<rparr>) (db_shots d2)\<rparr>)"
    and sm': "rs_take_index sm' = Some (sh_next_take sh)" "rs_take_id sm' = Some ?k"
    using run set sh l
    by (auto simp: register_new_take_def case_prod_beta split: option.splits prod.splits)
  have takes: "t_get (db_takes d') k = (if k = ?k then Some ?t else t_get (db_takes d) k)" for k
    using wf by (simp add: d' save_location_def d2 table_simps)
  have shots: "t_get (db_shots d') k = (if k = s then Some (sh\<lparr>sh_next_take := sh_next_take sh + 1\<rparr>)
      else t_get (db_shots d) k)" for k
    by (simp add: d' save_location_def d2 table_simps)
  have t: "tk_shot ?t = s" "tk_sequence ?t = int (sh_next_take sh)"
    "tk_name ?t = ''Take_'' @ show_pad 4 (sh_next_take sh)" by (simp_all add: new_take_def)
  have "takes_numbered d'" using num sh(2) t(1,2) takes shots by (rule takes_numbered_add)
  moreover have "t_get (db_takes d) ?k = None" using wf by (rule t_get_fresh)
  moreover have "t_get (db_takes d') ?k = Some ?t" by (simp add: takes)
  moreover have "map_option sh_next_take (t_get (db_shots d') s) = Some (sh_next_take sh + 1)"
    by (simp add: shots)
  ultimately show ?thesis using sm' t by blast
qed

lemma stage_numbered: "takes_numbered stage" "wf_table (db_takes stage)"
  by (simp_all add: takes_numbered_def stage_simps t_get_def wf_table_def t_keys_def)

lemma take_numbering_witness:
  "\<exists>d' sm'. register_new_take (\<lambda>_ _. Inr ''1'') (\<lambda>_. None) stage_env 4 stage_location
      (empty_summary []) False False stage = (d', Inr sm') \<and> takes_numbered d'"
proof -
  let ?r = "register_new_take (\<lambda>_ _. Inr ''1'') (\<lambda>_. None) stage_env 4 stage_location
      (empty_summary []) False False stage"
  have sh: "t_get (db_shots stage) 3 = Some (new_shot ''walk'' 2)"
    by (simp add: stage_simps t_get_def)
  have loc: "cl_cur_project stage_location \<noteq> None" "cl_cur_session stage_location \<noteq> None"
    "cl_cur_shot stage_location = Some 3"
    by (simp_all add: stage_location_def)
  have "\<exists>d' sm'. ?r = (d', Inr sm')"
    using sh by (simp add: register_new_take_def stage_location_def empty_summary_def case_prod_beta)
  then obtain d' sm' where "?r = (d', Inr sm')" by blast
  with take_numbering [OF stage_numbered(2,1) loc sh this] show ?thesis by blast
qed

text \<open>
  If storing a camera raises (a camera without a thumbnail that is
  reported first, an unknown camera, a recorder without files), the take stays in
  the archive under the next number of its shot, and the next recording gets the same number.
\<close>

theorem failed_recording_reuses_number:
  assumes wf: "wf_table (db_takes d)"
    and set: "cl_cur_project loc \<noteq> None" "cl_cur_session loc \<noteq> None"
    and sh: "cl_cur_shot loc = Some s" "t_get (db_shots d) s = Some sh"
    and run: "register_new_take uid decode e lk loc sm burst scan d = (d', Inl x)"
  shows "t_get (db_shots d') s = Some sh \<and>
    (\<exists>k t. t_get (db_takes d) k = None \<and> t_get (db_takes d') k = Some t \<and>
       tk_shot t = s \<and> tk_sequence t = int (sh_next_take sh)) \<and> \<not> takes_numbered d'"
proof -
  let ?t = "new_take (e_now e) (''Take_'' @ show_pad 4 (sh_next_take sh)) s (sh_next_take sh) burst scan"
  let ?k = "next_pk (db_takes d)" and ?d1 = "snd (create_take ?t d)"
  obtain f d2 y where l: "for_each (register_node uid decode lk ?k) (rs_nodes sm) (None, ?d1) = ((f, d2), y)"
    by (metis surj_pair)
  have d2: "db_takes d2 = snd (t_create ?t (db_takes d))" "db_shots d2 = db_shots d"
    using only_camerasD [OF register_nodes_only [of "(None, ?d1)" uid decode lk ?k "rs_nodes sm"]] l by simp_all
  have d': "d' = d2"
    using run set sh l
    by (auto simp: register_new_take_def case_prod_beta split: option.splits prod.splits)
  have new: "t_get (db_takes d) ?k = None" using wf by (rule t_get_fresh)
  have t: "t_get (db_takes d') ?k = Some ?t" "t_get (db_shots d') s = Some sh"
    using wf sh(2) by (simp_all add: d' d2 table_simps)
  moreover have "tk_shot ?t = s" "tk_sequence ?t = int (sh_next_take sh)" by (simp_all add: new_take_def)
  moreover from this t have "\<not> takes_numbered d'" unfolding takes_numbered_def by (metis less_irrefl)
  ultimately show ?thesis using new by blast
qed

definition untracked_camera :: cam_summary where
  "untracked_camera = \<lparr>cs_unique_id = ''cam-z'', cs_model = ''m'', cs_version = ''1'',
     cs_using_hardware_sync = True, cs_width = 4, cs_height = 4, cs_framerate = 30,
     cs_jpeg_thumbnail = None, cs_recorder = None, cs_meta = None, cs_audio = None,
     cs_exposure = None, cs_rotation = None\<rparr>"

lemma failed_recording_reuses_number_witness:
  "\<exists>d' x. register_new_take (\<lambda>_ _. Inr ''1'') (\<lambda>_. None) stage_env 4 stage_location
      (empty_summary [\<lparr>ns_machine_name = ''cap06'', ns_ip_address = ''10.0.0.6'', ns_cameras = Some [untracked_camera]\<rparr>])
      False False stage = (d', Inl x) \<and> \<not> takes_numbered d'"
proof -
  let ?r = "register_new_take (\<lambda>_ _. Inr ''1'') (\<lambda>_. None) stage_env 4 stage_location
      (empty_summary [\<lparr>ns_machine_name = ''cap06'', ns_ip_address = ''10.0.0.6'', ns_cameras = Some [untracked_camera]\<rparr>])
      False False stage"
  have sh: "t_get (db_shots stage) 3 = Some (new_shot ''walk'' 2)"
    by (simp add: stage_simps t_get_def)
  have loc: "cl_cur_project stage_location \<noteq> None" "cl_cur_session stage_location \<noteq> None"
    "cl_cur_shot stage_location = Some 3"
    by (simp_all add: stage_location_def)
  have "\<exists>d' x. ?r = (d', Inl x)"
    using sh by (simp add: register_new_take_def stage_location_def empty_summary_def case_prod_beta
        register_node_def register_cam_def store_thumbnail_def untracked_camera_def find_db_cam_def
        t_filter_def node_of_def stage_def table_of_def create_take_def t_create_def new_camera_def
        new_capture_node_def t_get_def)
  then obtain d' x where "?r = (d', Inl x)" by blast
  with failed_recording_reuses_number [OF stage_numbered(2) loc sh this] show ?thesis by blast
qed

end
