(* ===== verification/Capture_State.thy ===== *)
theory Capture_State
  imports Capture_Correct
begin

text \<open>
  The state of the stage: the location's current session and shot, the cameras of a node,
  and the nodes that count as online.
\<close>

section \<open>Session and shot of the next recording\<close>

text \<open>The current shot of a location belongs to its current session.\<close>

definition shot_in_session :: "db \<Rightarrow> capture_location \<Rightarrow> bool" where
  "shot_in_session d loc =
     (case cl_cur_shot loc of None \<Rightarrow> True
      | Some k \<Rightarrow> (case t_get (db_shots d) k of None \<Rightarrow> False
                  | Some sh \<Rightarrow> Some (sh_session sh) = cl_cur_session loc))"

text \<open>
  C34: when a recording names a shot that is not the current one by name
  (after cleaning), the location gets a new shot in the session asked for, or in its current
  session; an empty name becomes the number of shots of that session.
\<close>

theorem create_session_shot_correct:
  assumes wf: "wf_table (db_shots d)" and name: "\<not> current_shot_named d loc (clean_name raw)"
    and ses: "(case session_id of None \<Rightarrow> cl_cur_session loc | Some s \<Rightarrow> Some s) = Some s"
    and ex: "\<forall>s. session_id = Some s \<longrightarrow> t_get (db_sessions d) s \<noteq> None"
  shows "\<exists>d' loc' k. create_session_shot lk loc session_id (Some raw) d = (d', Inr loc') \<and>
    t_get (db_locations d') lk = Some loc' \<and> cl_cur_session loc' = Some s \<and> cl_cur_shot loc' = Some k \<and>
    t_get (db_shots d) k = None \<and> shot_in_session d' loc' \<and>
    map_option sh_name (t_get (db_shots d') k) =
      Some (if clean_name raw = [] \<or> clean_name raw = ''-new-''
            then ''Shot_'' @ show_pad 3 (card {i. \<exists>sh. t_get (db_shots d) i = Some sh \<and> sh_session sh = s})
            else clean_name raw)"
proof -
  let ?loc1 = "(case session_id of None \<Rightarrow> loc | Some s \<Rightarrow> loc\<lparr>cl_cur_session := Some s\<rparr>)"
  have l1: "cl_cur_session ?loc1 = Some s" using ses by (cases session_id) simp_all
  have nm: "\<not> current_shot_named d ?loc1 (clean_name raw)"
    using name by (cases session_id) (simp_all add: current_shot_named_def)
  have cnt: "length (session_shots d s) = card {i. \<exists>sh. t_get (db_shots d) i = Some sh \<and> sh_session sh = s}"
    using t_count_card [OF wf, of "\<lambda>_ sh. sh_session sh = s"] by (simp add: session_shots_def t_count_def)
  define n where "n = (if clean_name raw = [] \<or> clean_name raw = ''-new-''
    then ''Shot_'' @ show_pad 3 (length (session_shots d s)) else clean_name raw)"
  have sn: "shot_name_for (cl_cur_session ?loc1) (clean_name raw) d = Inr n"
    unfolding l1 shot_name_for_def n_def by simp
  let ?k = "next_pk (db_shots d)"
  let ?loc' = "?loc1\<lparr>cl_cur_shot := Some ?k\<rparr>"
  let ?d' = "save_location lk ?loc' (d\<lparr>db_shots := snd (t_create (new_shot n s) (db_shots d))\<rparr>)"
  have nex: "\<not> (case session_id of None \<Rightarrow> False | Some s \<Rightarrow> t_get (db_sessions d) s = None)"
    using ex by (simp split: option.splits)
  have v: "create_session_shot lk loc session_id (Some raw) d = (?d', Inr ?loc')"
    using nex nm sn l1
    by (simp add: create_session_shot_def Let_def create_archive_shot_def case_prod_beta)
  have k: "t_get (db_shots ?d') ?k = Some (new_shot n s)"
    using wf by (simp add: save_location_def table_simps)
  have "shot_in_session ?d' ?loc'" using k l1 by (simp add: shot_in_session_def new_shot_def)
  moreover have "t_get (db_locations ?d') lk = Some ?loc'" by (simp add: save_location_def table_simps)
  moreover have "t_get (db_shots d) ?k = None" using wf by (rule t_get_fresh)
  moreover have "map_option sh_name (t_get (db_shots ?d') ?k) = Some n"
    unfolding k by (simp add: new_shot_def)
  moreover have "cl_cur_session ?loc' = Some s" using l1 by simp
  moreover have "cl_cur_shot ?loc' = Some ?k" by simp
  ultimately show ?thesis using v unfolding n_def cnt by blast
qed

lemma stage_shots_get: "t_get (db_shots stage) k = (if k = 3 then Some (new_shot ''walk'' 2) else None)"
  by (simp add: stage_def table_of_def t_get_def)

lemma create_session_shot_correct_witness:
  "\<exists>d' loc' k. create_session_shot 4 stage_location (Some 5) (Some ''run'') stage = (d', Inr loc') \<and>
     cl_cur_session loc' = Some 5 \<and> cl_cur_shot loc' = Some k"
proof -
  have wf: "wf_table (db_shots stage)" by (simp add: stage_simps wf_table_def t_keys_def)
  have c: "clean_name ''run'' = ''run''" by (simp add: clean_name_def name_char_def)
  have "\<not> current_shot_named stage stage_location (clean_name ''run'')"
    by (simp add: c current_shot_named_def stage_location_def stage_shots_get new_shot_def)
  moreover have "\<forall>s. Some 5 = Some s \<longrightarrow> t_get (db_sessions stage) s \<noteq> None"
    by (simp add: stage_def table_of_def t_get_def)
  ultimately show ?thesis
    using create_session_shot_correct [OF wf, of stage_location "''run''" "Some 5" 5 4] by auto
qed

text \<open>
  A recording that names another session but a shot with the name of the
  current one keeps the current shot, which belongs to the old session: the location then has
  a shot outside its session, and the take is filed under the old session.
\<close>

theorem shot_of_another_session:
  assumes k: "cl_cur_shot loc = Some k" "t_get (db_shots d) k = Some sh"
    and name: "sh_name sh = clean_name raw"
    and s: "sh_session sh \<noteq> s" "t_get (db_sessions d) s \<noteq> None"
  shows "\<exists>d' loc'. create_session_shot lk loc (Some s) (Some raw) d = (d', Inr loc') \<and>
    cl_cur_session loc' = Some s \<and> cl_cur_shot loc' = Some k \<and> \<not> shot_in_session d' loc' \<and>
    t_get (db_locations d') lk = Some loc'"
proof -
  let ?loc = "loc\<lparr>cl_cur_session := Some s\<rparr>"
  have "create_session_shot lk loc (Some s) (Some raw) d = (save_location lk ?loc d, Inr ?loc)"
    using k name s by (simp add: create_session_shot_def Let_def current_shot_named_def)
  moreover have "\<not> shot_in_session (save_location lk ?loc d) ?loc"
    using k s by (simp add: shot_in_session_def save_location_def)
  moreover have "t_get (db_locations (save_location lk ?loc d)) lk = Some ?loc"
    by (simp add: save_location_def table_simps)
  ultimately show ?thesis using k by auto
qed

lemma shot_of_another_session_witness:
  "\<exists>d' loc'. create_session_shot 4 stage_location (Some 5) (Some ''walk'') stage = (d', Inr loc') \<and>
     \<not> shot_in_session d' loc'"
proof -
  have 1: "cl_cur_shot stage_location = Some 3" by (simp add: stage_location_def)
  have 2: "t_get (db_shots stage) 3 = Some (new_shot ''walk'' 2)" by (simp add: stage_shots_get)
  have 3: "sh_name (new_shot ''walk'' 2) = clean_name ''walk''"
    by (simp add: new_shot_def clean_name_def name_char_def)
  have 4: "sh_session (new_shot ''walk'' 2) \<noteq> 5" by (simp add: new_shot_def)
  have 5: "t_get (db_sessions stage) 5 \<noteq> None" by (simp add: stage_def table_of_def t_get_def)
  from shot_of_another_session [OF 1 2 3 4 5, of 4] show ?thesis by blast
qed

section \<open>The cameras of a node\<close>

definition camera_ids :: "db \<Rightarrow> pk \<Rightarrow> string set" where
  "camera_ids d n = {cm_unique_id c | k c. t_get (db_cameras d) k = Some c \<and> cm_node c = n}"

lemma ensure_camera_spec:
  assumes wf: "wf_table (db_cameras d)"
  shows "wf_table (db_cameras (ensure_camera n u d))"
    "t_get (db_cameras d) k = Some c \<Longrightarrow> t_get (db_cameras (ensure_camera n u d)) k = Some c"
    "t_get (db_cameras (ensure_camera n u d)) k = Some c \<Longrightarrow> t_get (db_cameras d) k = Some c \<or>
       (t_get (db_cameras d) k = None \<and> c = new_camera n u \<and> u \<notin> camera_ids d n)"
    "u \<in> camera_ids (ensure_camera n u d) n"
    "db_cnodes (ensure_camera n u d) = db_cnodes d" "db_locations (ensure_camera n u d) = db_locations d"
proof -
  have ids: "t_filter (\<lambda>_ c. cm_unique_id c = u \<and> cm_node c = n) (db_cameras d) = [] \<longleftrightarrow> u \<notin> camera_ids d n"
    unfolding t_filter_Nil_iff [OF wf] camera_ids_def by blast
  have n: "cm_unique_id (new_camera n u) = u" "cm_node (new_camera n u) = n" by (simp_all add: new_camera_def)
  show "wf_table (db_cameras (ensure_camera n u d))" using wf by (auto simp: ensure_camera_def)
  show "t_get (db_cameras d) k = Some c \<Longrightarrow> t_get (db_cameras (ensure_camera n u d)) k = Some c"
    using t_get_fresh [OF wf] by (auto simp: ensure_camera_def t_get_create [OF wf])
  show "t_get (db_cameras (ensure_camera n u d)) k = Some c \<Longrightarrow> t_get (db_cameras d) k = Some c \<or>
       (t_get (db_cameras d) k = None \<and> c = new_camera n u \<and> u \<notin> camera_ids d n)"
    using ids t_get_fresh [OF wf] by (auto simp: ensure_camera_def t_get_create [OF wf] split: if_splits)
  show "u \<in> camera_ids (ensure_camera n u d) n"
  proof (cases "u \<in> camera_ids d n")
    case True
    then show ?thesis using ids by (simp add: ensure_camera_def)
  next
    case False
    then have e: "ensure_camera n u d = d\<lparr>db_cameras := snd (t_create (new_camera n u) (db_cameras d))\<rparr>"
      using ids by (simp add: ensure_camera_def)
    have "t_get (db_cameras (ensure_camera n u d)) (next_pk (db_cameras d)) = Some (new_camera n u)"
      unfolding e by (simp add: t_get_create [OF wf])
    with n show ?thesis unfolding camera_ids_def by force
  qed
  show "db_cnodes (ensure_camera n u d) = db_cnodes d" "db_locations (ensure_camera n u d) = db_locations d"
    by (simp_all add: ensure_camera_def)
qed

text \<open>No two cameras of a node have the same unique id.\<close>

definition cameras_unique :: "db \<Rightarrow> pk \<Rightarrow> bool" where
  "cameras_unique d n \<longleftrightarrow> (\<forall>k1 c1 k2 c2. t_get (db_cameras d) k1 = Some c1 \<and> t_get (db_cameras d) k2 = Some c2 \<and>
     cm_node c1 = n \<and> cm_node c2 = n \<and> cm_unique_id c1 = cm_unique_id c2 \<longrightarrow> k1 = k2)"

lemma ensure_camera_unique:
  assumes wf: "wf_table (db_cameras d)" and u: "cameras_unique d n"
  shows "cameras_unique (ensure_camera n x d) n"
  unfolding cameras_unique_def
proof (intro allI impI)
  fix k1 c1 k2 c2
  assume a: "t_get (db_cameras (ensure_camera n x d)) k1 = Some c1 \<and>
      t_get (db_cameras (ensure_camera n x d)) k2 = Some c2 \<and>
      cm_node c1 = n \<and> cm_node c2 = n \<and> cm_unique_id c1 = cm_unique_id c2"
  have old: False if "t_get (db_cameras d) k = Some c" "cm_node c = n" "cm_unique_id c = x" "x \<notin> camera_ids d n" for k c
    using that unfolding camera_ids_def by blast
  have new: "cm_unique_id (new_camera n x) = x" by (simp add: new_camera_def)
  have one: "k = next_pk (db_cameras d)"
    if "t_get (db_cameras (ensure_camera n x d)) k = Some c" "t_get (db_cameras d) k = None" for k c
    using that wf by (auto simp: ensure_camera_def t_get_create split: if_splits)
  have 1: "t_get (db_cameras d) k1 = Some c1 \<or>
      (t_get (db_cameras d) k1 = None \<and> c1 = new_camera n x \<and> x \<notin> camera_ids d n)"
    using ensure_camera_spec(3) [OF wf, of n x k1 c1] a by simp
  have 2: "t_get (db_cameras d) k2 = Some c2 \<or>
      (t_get (db_cameras d) k2 = None \<and> c2 = new_camera n x \<and> x \<notin> camera_ids d n)"
    using ensure_camera_spec(3) [OF wf, of n x k2 c2] a by simp
  consider "t_get (db_cameras d) k1 = Some c1" "t_get (db_cameras d) k2 = Some c2"
    | "t_get (db_cameras d) k1 = None" "t_get (db_cameras d) k2 = None"
    | "t_get (db_cameras d) k1 = Some c1" "c2 = new_camera n x" "x \<notin> camera_ids d n"
    | "t_get (db_cameras d) k2 = Some c2" "c1 = new_camera n x" "x \<notin> camera_ids d n"
    using 1 2 by metis
  then show "k1 = k2"
  proof cases
    case 1
    with u a show ?thesis unfolding cameras_unique_def by blast
  next
    case 2
    with one [of k1 c1] one [of k2 c2] a show ?thesis by simp
  next
    case 3
    with old [of k1 c1] a new show ?thesis by simp
  next
    case 4
    with old [of k2 c2] a new show ?thesis by simp
  qed
qed

lemma ensure_cameras:
  assumes wf: "wf_table (db_cameras d)" and u: "cameras_unique d n"
  shows "wf_table (db_cameras (fold (ensure_camera n) ids d)) \<and> cameras_unique (fold (ensure_camera n) ids d) n \<and>
    (\<forall>k c. t_get (db_cameras d) k = Some c \<longrightarrow> t_get (db_cameras (fold (ensure_camera n) ids d)) k = Some c) \<and>
    (\<forall>k c. t_get (db_cameras (fold (ensure_camera n) ids d)) k = Some c \<longrightarrow> t_get (db_cameras d) k = Some c \<or>
       (\<exists>x \<in> set ids. c = new_camera n x)) \<and>
    set ids \<subseteq> camera_ids (fold (ensure_camera n) ids d) n"
  using assms
proof (induction ids arbitrary: d)
  case Nil
  then show ?case by simp
next
  case (Cons x ids)
  let ?d = "ensure_camera n x d" and ?e = "fold (ensure_camera n) ids (ensure_camera n x d)"
  note wf' = ensure_camera_spec(1) [OF Cons.prems(1), of n x]
  note IH = Cons.IH [OF wf' ensure_camera_unique [OF Cons.prems, of x]]
  have "x \<in> camera_ids ?e n"
    using ensure_camera_spec(4) [OF Cons.prems(1), of x n] IH unfolding camera_ids_def by blast
  moreover have "\<forall>k c. t_get (db_cameras d) k = Some c \<longrightarrow> t_get (db_cameras ?e) k = Some c"
    using ensure_camera_spec(2) [OF Cons.prems(1)] IH by blast
  moreover have "\<forall>k c. t_get (db_cameras ?e) k = Some c \<longrightarrow> t_get (db_cameras d) k = Some c \<or>
       (\<exists>y \<in> set (x # ids). c = new_camera n y)"
    using ensure_camera_spec(3) [OF Cons.prems(1), of n x] IH by (metis list.set_intros(1,2))
  ultimately show ?case using IH by simp
qed

text \<open>
  C35: after a node reported its cameras, its cameras in the database are exactly
  those it listed, each once; a camera that was there keeps its row with its exposure, gain and
  rotation, a new one has the defaults, and the cameras of other nodes are as they were.
\<close>

theorem cameras_follow_the_node:
  assumes wf: "wf_table (db_cameras d)" and u: "cameras_unique d n"
  shows "camera_ids (update_cameras n ids d) n = set ids \<and> cameras_unique (update_cameras n ids d) n \<and>
    (\<forall>k c. t_get (db_cameras d) k = Some c \<and> (cm_node c \<noteq> n \<or> cm_unique_id c \<in> set ids) \<longrightarrow>
       t_get (db_cameras (update_cameras n ids d)) k = Some c) \<and>
    (\<forall>k c. t_get (db_cameras (update_cameras n ids d)) k = Some c \<longrightarrow>
       t_get (db_cameras d) k = Some c \<or> c = new_camera n (cm_unique_id c))"
proof -
  let ?e = "fold (ensure_camera n) ids d" and ?d' = "update_cameras n ids d"
  note E = ensure_cameras [OF assms, of ids]
  have rows: "t_get (db_cameras ?d') k = (case t_get (db_cameras ?e) k of None \<Rightarrow> None
      | Some c \<Rightarrow> if cm_node c = n \<and> cm_unique_id c \<notin> set ids then None else Some c)" for k
    using E by (simp add: update_cameras_def Let_def t_get_delete)
  have some: "t_get (db_cameras ?d') k = Some c \<longleftrightarrow> t_get (db_cameras ?e) k = Some c \<and>
      (cm_node c = n \<longrightarrow> cm_unique_id c \<in> set ids)" for k c
    unfolding rows by (auto split: option.splits)
  have "camera_ids ?d' n \<subseteq> set ids" unfolding camera_ids_def some by blast
  moreover have "set ids \<subseteq> camera_ids ?d' n"
  proof
    fix x assume x: "x \<in> set ids"
    with E obtain k c where "t_get (db_cameras ?e) k = Some c" "cm_node c = n" "cm_unique_id c = x"
      unfolding camera_ids_def by blast
    with x show "x \<in> camera_ids ?d' n" unfolding camera_ids_def some by blast
  qed
  moreover have "cameras_unique ?d' n" using E unfolding cameras_unique_def some by blast
  moreover have "\<forall>k c. t_get (db_cameras d) k = Some c \<and> (cm_node c \<noteq> n \<or> cm_unique_id c \<in> set ids) \<longrightarrow>
       t_get (db_cameras ?d') k = Some c"
    using E unfolding some by blast
  moreover have "\<forall>k c. t_get (db_cameras ?d') k = Some c \<longrightarrow>
       t_get (db_cameras d) k = Some c \<or> c = new_camera n (cm_unique_id c)"
  proof (intro allI impI)
    fix k c assume "t_get (db_cameras ?d') k = Some c"
    then have "t_get (db_cameras ?e) k = Some c" by (simp add: some)
    with E have "t_get (db_cameras d) k = Some c \<or> (\<exists>x \<in> set ids. c = new_camera n x)" by blast
    then show "t_get (db_cameras d) k = Some c \<or> c = new_camera n (cm_unique_id c)"
      by (auto simp: new_camera_def)
  qed
  ultimately show ?thesis by blast
qed

lemma cameras_follow_the_node_witness:
  "camera_ids (update_cameras 6 [''cam-b'', ''cam-a''] stage) 6 = {''cam-b'', ''cam-a''}"
proof -
  have g: "t_get (db_cameras stage) k = (if k = 8 then Some (new_camera 6 ''cam-a'') else None)" for k
    by (simp add: stage_def table_of_def t_get_def)
  have "wf_table (db_cameras stage)" by (simp add: stage_simps wf_table_def t_keys_def)
  moreover have "cameras_unique stage 6" by (auto simp: cameras_unique_def g split: if_splits)
  ultimately show ?thesis
    using cameras_follow_the_node [of stage 6 "[''cam-b'', ''cam-a'']"] by simp
qed

section \<open>Nodes that count as online\<close>

lemma named_node_name:
  assumes "wf_table (db_cnodes d)" "capture_node_named d name = Some (i, n)"
  shows "cn_machine_name n = name"
proof -
  have "(i, n) \<in> set (t_filter (\<lambda>_ n. cn_machine_name n = name) (db_cnodes d))"
    using assms(2) by (auto simp: capture_node_named_def split: list.splits)
  then show ?thesis by (simp add: t_filter_iff [OF assms(1)])
qed

lemma save_capture_node_get:
  assumes "wf_table (db_cnodes d)" "save_capture_node k n d = (i, d1)"
  shows "t_get (db_cnodes d1) j = (if j = i then Some n else t_get (db_cnodes d) j)"
  using assms by (auto simp: save_capture_node_def case_prod_beta table_simps split: option.splits)

lemma update_cameras_nodes: "db_cnodes (update_cameras i ids d) = db_cnodes d"
proof -
  have "db_cnodes (fold (ensure_camera i) ids s) = db_cnodes s" for s
    by (induction ids arbitrary: s) (simp_all add: ensure_camera_def)
  then show ?thesis by (simp add: update_cameras_def Let_def)
qed

text \<open>
  C36: a report of a node of version 1024 or more leaves a node of that name
  online, seen now, under the address and version it reported; an older program is
  refused and changes nothing.
\<close>

theorem node_discover_registers:
  assumes wf: "wf_table (db_cnodes d)" and m: "nr_machine_name r = Some name" "nr_ip_address r = Some ip"
  shows "if given (nr_code_version r) 0 < 1024 then node_discover e r d = (d, Http 426)
    else \<exists>k n. t_get (db_cnodes (fst (node_discover e r d))) k = Some n \<and> cn_machine_name n = name \<and>
      cn_ip_address n = ip \<and> cn_online n \<and> cn_last_seen n = e_now e \<and>
      cn_code_version n = given (nr_code_version r) 0 \<and>
      (\<forall>i. i \<noteq> k \<longrightarrow> t_get (db_cnodes (fst (node_discover e r d))) i = t_get (db_cnodes d) i)"
proof -
  obtain k n0 where kn: "(case capture_node_named d name of
         Some (k, n) \<Rightarrow> (Some k, n\<lparr>cn_ip_address := ip, cn_last_seen := e_now e\<rparr>)
       | None \<Rightarrow> (None, new_capture_node (e_now e) ip name)) = (k, n0)"
    by (metis surj_pair)
  have n0: "cn_machine_name n0 = name" "cn_ip_address n0 = ip" "cn_last_seen n0 = e_now e"
    using kn named_node_name [OF wf] by (auto simp: new_capture_node_def split: option.splits prod.splits)
  let ?n1 = "apply_node_report r n0"
  have n1: "cn_code_version ?n1 = given (nr_code_version r) 0" by (simp add: apply_node_report_def)
  show ?thesis
  proof (cases "given (nr_code_version r) 0 < 1024")
    case True
    then show ?thesis
      using m kn n1 by (simp add: node_discover_def)
  next
    case False
    let ?n2 = "place_node d r ?n1"
    obtain i d1 where s: "save_capture_node k ?n2 d = (i, d1)" by (cases "save_capture_node k ?n2 d")
    have "fst (node_discover e r d) = (case nr_cameras r of None \<Rightarrow> d1 | Some ids \<Rightarrow> update_cameras i ids d1)"
      using m kn n1 False s by (simp add: node_discover_def Let_def)
    then have g: "t_get (db_cnodes (fst (node_discover e r d))) j = (if j = i then Some ?n2 else t_get (db_cnodes d) j)" for j
      by (simp add: save_capture_node_get [OF wf s] update_cameras_nodes split: option.splits)
    have "cn_machine_name ?n2 = name" "cn_ip_address ?n2 = ip" "cn_online ?n2" "cn_last_seen ?n2 = e_now e"
      "cn_code_version ?n2 = given (nr_code_version r) 0"
      using n0 by (simp_all add: place_node_def apply_node_report_def)
    then have "\<exists>k n. t_get (db_cnodes (fst (node_discover e r d))) k = Some n \<and> cn_machine_name n = name \<and>
      cn_ip_address n = ip \<and> cn_online n \<and> cn_last_seen n = e_now e \<and>
      cn_code_version n = given (nr_code_version r) 0 \<and>
      (\<forall>i. i \<noteq> k \<longrightarrow> t_get (db_cnodes (fst (node_discover e r d))) i = t_get (db_cnodes d) i)"
      by (intro exI [of _ i] exI [of _ ?n2]) (simp add: g)
    then show ?thesis using False by simp
  qed
qed

definition stage_report :: node_report where
  "stage_report = \<lparr>nr_machine_name = Some ''cap06'', nr_ip_address = Some ''10.0.0.7'', nr_sync_found = None,
     nr_os = None, nr_code_version = Some 2000, nr_build_version = None, nr_drives = None,
     nr_cameras = Some [''cam-a''], nr_request_camera_params = False\<rparr>"

lemma node_discover_registers_witness:
  "\<exists>k n. t_get (db_cnodes (fst (node_discover stage_env stage_report stage))) k = Some n \<and>
     cn_ip_address n = ''10.0.0.7''"
proof -
  have "wf_table (db_cnodes stage)" by (simp add: stage_simps wf_table_def t_keys_def)
  from node_discover_registers [OF this, of stage_report "''cap06''" "''10.0.0.7''" stage_env]
  show ?thesis by (auto simp: stage_report_def given_def)
qed

text \<open>
  After the list of locations has been served, every node marked online was seen in
  the last 90 seconds, the nodes that were seen are as they were, and the number of
  active cameras of each location counts the cameras of its nodes that are online and seen
  less than 90 seconds ago.
\<close>

theorem online_means_recent:
  assumes wf: "wf_table (db_cnodes d)" "wf_table (db_cameras d)"
    and run: "get_locations e d = (d', Json 200 r)"
  shows "(\<forall>k n. t_get (db_cnodes d') k = Some n \<and> cn_online n \<longrightarrow>
      cn_last_seen n \<ge> e_now e - seconds 90 \<and> t_get (db_cnodes d) k = Some n) \<and>
    (\<forall>x \<in> set (lr_locations r). le_id x \<noteq> 0 \<longrightarrow> le_active x =
      card {k. \<exists>c n. t_get (db_cameras d) k = Some c \<and> node_of d' c = n \<and> cn_online n \<and>
        cn_last_seen n > e_now e - seconds 90 \<and> cn_location n = Some (le_id x)})"
proof -
  have d': "d' = expire_nodes (e_now e) d" using run by (simp add: get_locations_def Let_def)
  have "cn_last_seen n \<ge> e_now e - seconds 90 \<and> t_get (db_cnodes d) k = Some n"
    if "t_get (db_cnodes d') k = Some n" "cn_online n" for k n
  proof -
    let ?P = "\<lambda>n. cn_online n \<and> cn_last_seen n < e_now e - seconds 90"
    have "map_option (\<lambda>n. if ?P n then n\<lparr>cn_online := False\<rparr> else n) (t_get (db_cnodes d) k) = Some n"
      using that(1) unfolding d' expire_nodes_def by (simp add: t_get_update)
    then obtain n0 where "t_get (db_cnodes d) k = Some n0" "(if ?P n0 then n0\<lparr>cn_online := False\<rparr> else n0) = n"
      unfolding map_option_eq_Some by blast
    then show ?thesis using that(2) by (cases "cn_online n0 \<and> cn_last_seen n0 < e_now e - seconds 90") auto
  qed
  moreover have "le_active x = card {k. \<exists>c n. t_get (db_cameras d) k = Some c \<and> node_of d' c = n \<and> cn_online n \<and>
        cn_last_seen n > e_now e - seconds 90 \<and> cn_location n = Some (le_id x)}"
    if "x \<in> set (lr_locations r)" "le_id x \<noteq> 0" for x
  proof -
    have "le_active x = active_cameras (e_now e) d' (Some (le_id x))"
      using that run by (auto simp: get_locations_def Let_def d' split: if_splits)
    moreover have "db_cameras d' = db_cameras d" by (simp add: d' expire_nodes_def)
    ultimately show ?thesis
      using t_count_card [of "db_cameras d" "\<lambda>_ c. cn_online (node_of d' c) \<and>
        cn_last_seen (node_of d' c) > e_now e - seconds 90 \<and> cn_location (node_of d' c) = Some (le_id x)"] wf
      by (simp add: active_cameras_def)
  qed
  ultimately show ?thesis by blast
qed

lemma online_means_recent_witness:
  "\<not> (\<exists>k n. t_get (db_cnodes (fst (get_locations (stage_env\<lparr>e_now := seconds 200\<rparr>) stage))) k = Some n \<and> cn_online n)"
proof -
  let ?e = "stage_env\<lparr>e_now := seconds 200\<rparr>"
  have "wf_table (db_cnodes stage)" "wf_table (db_cameras stage)"
    by (simp_all add: stage_simps wf_table_def t_keys_def)
  moreover obtain r where "get_locations ?e stage = (fst (get_locations ?e stage), Json 200 r)"
    by (simp add: get_locations_def Let_def)
  ultimately have recent: "cn_last_seen n \<ge> seconds 110 \<and> t_get (db_cnodes stage) k = Some n"
    if "t_get (db_cnodes (fst (get_locations ?e stage))) k = Some n" "cn_online n" for k n
    using online_means_recent [of stage ?e] that by fastforce
  have "cn_last_seen n = 0" if "t_get (db_cnodes stage) k = Some n" for k n
    using that by (auto simp: stage_simps t_get_def split: if_splits)
  with recent show ?thesis by fastforce
qed

section \<open>The options of a location\<close>

text \<open>
  A user with write and read access reads back the frequency, pulse and
  synchronisation that were set, every online node of the location is sent the options, and
  options that were not given keep their values.
\<close>

theorem location_options_roundtrip:
  assumes w: "has_write_access_location_id e lk d" "has_read_right e lk d"
    and loc: "t_get (db_locations d) lk = Some l"
  shows "let d' = fst (location_config_post sent e lk opts d) in
    location_config_get e lk d' = Json 200
      (given (lo_frequency opts) (cl_hardware_sync_frequency l),
       given (lo_pulse_duration opts) (cl_pulse_duration l),
       given (lo_external_sync opts) (cl_external_sync l)) \<and>
    db_sent d' = db_sent d @ map (\<lambda>(_, n). NodePost (cn_ip_address n) ''/options/'' (JText (lo_body opts)))
      (online_nodes d lk)"
proof -
  let ?d' = "save_location lk (apply_location_options opts l)
     (send (map (\<lambda>n. apply_options_on_node n (JText (lo_body opts))) (map snd (online_nodes d lk))) d)"
  have d': "fst (location_config_post sent e lk opts d) = ?d'"
    using w loc by (simp add: location_config_post_def Let_def)
  have "has_read_right e lk ?d'"
    using w(2) by (simp add: has_read_right_def rights_on_def save_location_def send_def)
  then show ?thesis
    unfolding d' by (simp add: location_config_get_def save_location_def send_def t_get_save
        apply_location_options_def apply_options_on_node_def comp_def case_prod_beta)
qed

lemma location_options_roundtrip_witness:
  "location_config_get stage_env 4 (fst (location_config_post (\<lambda>_. True) stage_env 4
     \<lparr>lo_pulse_duration = None, lo_frequency = Some 60, lo_external_sync = None, lo_display_focus_peak = None,
      lo_display_overexposed = None, lo_display_histogram = None, lo_bitdepth_avi = None,
      lo_bitdepth_single = None, lo_image_format = None, lo_wb_R = None, lo_wb_G = None, lo_wb_B = None,
      lo_body = ''x''\<rparr> stage)) = Json 200 (60, 2000, False)"
proof -
  have "has_read_right stage_env 4 stage"
    by (simp add: has_read_right_def rights_on_def t_filter_def stage_simps)
  moreover have "t_get (db_locations stage) 4 = Some stage_location"
    by (simp add: stage_def table_of_def t_get_def stage_location_def)
  ultimately show ?thesis
    using location_options_roundtrip [OF stage_rights, of stage_location "\<lambda>_. True"
        "\<lparr>lo_pulse_duration = None, lo_frequency = Some 60, lo_external_sync = None, lo_display_focus_peak = None,
      lo_display_overexposed = None, lo_display_histogram = None, lo_bitdepth_avi = None,
      lo_bitdepth_single = None, lo_image_format = None, lo_wb_R = None, lo_wb_G = None, lo_wb_B = None,
      lo_body = ''x''\<rparr>"]
    by (simp add: Let_def given_def stage_location_def new_capture_location_def)
qed

end
