(* ===== verification/Capture_Rest.thy ===== *)
theory Capture_Rest
  imports Capture_State Archive_Views
begin

text \<open>
  Locations through the REST interface: \<open>LocationsViewSet\<close> of \<open>capture/views.py\<close> with the
  serializer of \<open>capture/serializers.py\<close>. It is a \<open>ModelViewSet\<close>: everybody who is logged in
  may list, change and delete locations, while \<open>location_config\<close> asks for the rights on the location.
\<close>

section \<open>Representation\<close>

definition node_json :: "(time \<Rightarrow> string) \<Rightarrow> node_data \<Rightarrow> json" where
  "node_json dt n = JObj
     [(''ip_address'', JStr (nd_ip_address n)), (''id'', JInt (int (nd_id n))),
      (''machine_name'', JStr (nd_machine_name n)),
      (''os'', case nd_os n of None \<Rightarrow> JNull | Some s \<Rightarrow> JStr s), (''last_seen'', JStr (dt (nd_last_seen n))),
      (''cameras'', JList (map (\<lambda>(k, uid, rot). JObj [(''id'', JInt (int k)), (''unique_id'', JStr uid),
         (''rotation'', JInt rot)]) (nd_cameras n))),
      (''active'', JBool (nd_active n)), (''sync_found'', JBool (nd_sync_found n)),
      (''drive_info'', nd_drive_info n), (''code_version'', JInt (nd_code_version n)),
      (''build_version'', JStr (nd_build_version n))]"

definition nodes_of_location :: "db \<Rightarrow> pk \<Rightarrow> (pk \<times> capture_node) list" where
  "nodes_of_location d k = t_filter (\<lambda>_ n. cn_location n = Some k) (db_cnodes d)"

definition location_json ::
    "(string \<Rightarrow> json option) \<Rightarrow> (time \<Rightarrow> string) \<Rightarrow> time \<Rightarrow> db \<Rightarrow> pk \<times> capture_location \<Rightarrow> json" where
  "location_json loads dt now d kl = (let (k, l) = kl in JObj
     [(''id'', JInt (int k)), (''name'', JStr (cl_name l)),
      (''nodes'', JList (map (\<lambda>n. node_json dt (node_representation loads now d n)) (nodes_of_location d k))),
      (''hardware_sync_frequency'', JInt (cl_hardware_sync_frequency l)),
      (''pulse_duration'', JInt (cl_pulse_duration l)), (''external_sync'', JBool (cl_external_sync l)),
      (''display_focus_peak'', JBool (cl_display_focus_peak l)),
      (''display_overexposed'', JBool (cl_display_overexposed l)),
      (''display_histogram'', JBool (cl_display_histogram l)), (''bitdepth_avi'', JInt (cl_bitdepth_avi l)),
      (''bitdepth_single'', JInt (cl_bitdepth_single l)), (''image_format'', JStr (cl_image_format l)),
      (''wb_R'', JFloat (cl_wb_R l)), (''wb_G'', JFloat (cl_wb_G l)), (''wb_B'', JFloat (cl_wb_B l))])"

definition listed_locations :: "db \<Rightarrow> (pk \<times> capture_location) list" where
  "listed_locations d = sort_key (\<lambda>(_, l). cl_name l) (rows (db_locations d))"

section \<open>Changes\<close>

text \<open>
  \<open>PATCH\<close>: the options have the fields of \<open>location_config\<close>, and there may be a name. \<open>valid\<close> are the
  validators of the fields. The nested list of nodes is a field too: when it is given and valid, the framework
  refuses to write it with an assertion.
\<close>

definition patch_location ::
    "(string option \<Rightarrow> location_options \<Rightarrow> bool) \<Rightarrow> env \<Rightarrow> pk \<Rightarrow> string option \<Rightarrow> location_options \<Rightarrow> bool \<Rightarrow> db \<Rightarrow> db \<times> string outcome" where
  "patch_location valid e k name opts nodes d =
     (case t_get (db_locations d) k of
        None \<Rightarrow> (d, Http 404)
      | Some l \<Rightarrow>
          if \<not> valid name opts then (d, Http 400)
          else if nodes then (d, Raised AssertionError)
          else (save_location k ((apply_location_options opts l)\<lparr>cl_name := given name (cl_name l)\<rparr>) d, Http 200))"

text \<open>\<open>DELETE\<close>: the rights on the location go with it, its nodes stay and have no location.\<close>

definition delete_locations :: "pk list \<Rightarrow> db \<Rightarrow> db" where
  "delete_locations ids d =
     d\<lparr>db_locations := t_delete (\<lambda>k _. k \<in> set ids) (db_locations d),
       db_access := t_delete (\<lambda>_ a. la_location a \<in> set ids) (db_access d),
       db_cnodes := t_update (\<lambda>_ _. True) (\<lambda>n. n\<lparr>cn_location := forget ids (cn_location n)\<rparr>) (db_cnodes d)\<rparr>"

definition delete_location :: "env \<Rightarrow> pk \<Rightarrow> db \<Rightarrow> db \<times> string outcome" where
  "delete_location e k d =
     (case t_get (db_locations d) k of
        None \<Rightarrow> (d, Http 404)
      | Some l \<Rightarrow> (delete_locations [k] d, Http 204))"

section \<open>What the rights of a location are worth\<close>

text \<open>
  A change of a location's options that \<open>location_config\<close> refuses to a user, because
  he has no write access, is stored for the same user by the REST interface: the location gets the very row that the
  guarded view gives it for somebody with access. The nodes are not told.
\<close>

theorem any_user_sets_options:
  assumes "t_get (db_locations d) k = Some l" "valid None opts"
    and "\<not> has_write_access_location_id e k d" "has_write_access_location_id e' k d"
  shows "fst (location_config_post sent e k opts d) = d \<and>
    db_locations (fst (patch_location valid e k None opts False d)) =
      db_locations (fst (location_config_post sent e' k opts d)) \<and>
    db_sent (fst (patch_location valid e k None opts False d)) = db_sent d"
proof -
  have "(apply_location_options opts l)\<lparr>cl_name := cl_name l\<rparr> = apply_location_options opts l"
    by (simp add: apply_location_options_def)
  then show ?thesis
    using assms
    by (simp add: location_config_post_def patch_location_def save_location_def send_def Let_def given_def)
qed

definition no_options :: location_options where
  "no_options = \<lparr>lo_pulse_duration = None, lo_frequency = None, lo_external_sync = None, lo_display_focus_peak = None,
      lo_display_overexposed = None, lo_display_histogram = None, lo_bitdepth_avi = None,
      lo_bitdepth_single = None, lo_image_format = None, lo_wb_R = None, lo_wb_G = None, lo_wb_B = None,
      lo_body = []\<rparr>"

lemma any_user_sets_options_witness:
  "map_option cl_hardware_sync_frequency (t_get (db_locations
     (fst (patch_location (\<lambda>_ _. True) (stage_env\<lparr>e_user_id := 2\<rparr>) 4 None (no_options\<lparr>lo_frequency := Some 1\<rparr>) False stage))) 4) = Some 1"
proof -
  have loc: "t_get (db_locations stage) 4 = Some stage_location"
    by (simp add: stage_def table_of_def t_get_def stage_location_def)
  have no: "\<not> has_write_access_location_id (stage_env\<lparr>e_user_id := 2\<rparr>) 4 stage" by code_simp
  have "db_locations (fst (patch_location (\<lambda>_ _. True) (stage_env\<lparr>e_user_id := 2\<rparr>) 4 None (no_options\<lparr>lo_frequency := Some 1\<rparr>) False stage)) =
      db_locations (fst (location_config_post (\<lambda>_. True) stage_env 4 (no_options\<lparr>lo_frequency := Some 1\<rparr>) stage))"
    using any_user_sets_options [OF loc _ no stage_rights, of "\<lambda>_ _. True"] by blast
  also have "map_option cl_hardware_sync_frequency (t_get \<dots> 4) = Some 1"
    using loc stage_rights
    by (simp add: location_config_post_def Let_def save_location_def t_get_save apply_location_options_def
        no_options_def given_def)
  finally show ?thesis .
qed

text \<open>
  After a location was deleted nobody has rights on it and no node belongs to it; the rights on
  the other locations and their nodes are as they were.
\<close>

theorem deleted_location:
  assumes "t_get (db_locations d) k = Some l"
    and wf: "wf_table (db_locations d)" "wf_table (db_cnodes d)"
    and D: "d' = fst (delete_location e k d)"
  shows "t_get (db_locations d') k = None \<and> \<not> has_write_access_location_id u k d' \<and> nodes_of_location d' k = [] \<and>
    (j \<noteq> k \<longrightarrow> t_get (db_locations d') j = t_get (db_locations d) j \<and>
       has_write_access_location_id u j d' = has_write_access_location_id u j d \<and>
       map fst (nodes_of_location d' j) = map fst (nodes_of_location d j))"
proof -
  have d': "d' = delete_locations [k] d" using assms(1) by (simp add: D delete_location_def)
  have gone: "t_get (db_locations d') k = None" "j \<noteq> k \<longrightarrow> t_get (db_locations d') j = t_get (db_locations d) j"
    using wf by (auto simp: d' delete_locations_def table_simps split: option.splits)
  have "rights_on d' (e_user_id u) i = (if i = k then [] else rights_on d (e_user_id u) i)" for i
    by (auto simp: d' delete_locations_def rights_on_def t_filter_def t_delete_def filter_empty_conv
        intro: filter_cong)
  then have rights: "has_write_access_location_id u i d' = (i \<noteq> k \<and> has_write_access_location_id u i d)" for i
    by (simp add: has_write_access_location_id_def)
  have nodes: "nodes_of_location d' i = (if i = k then [] else
      map (\<lambda>(m, n). (m, n\<lparr>cn_location := forget [k] (cn_location n)\<rparr>)) (nodes_of_location d i))" for i
    by (auto simp: d' delete_locations_def nodes_of_location_def t_filter_def t_update_def forget_def filter_map
        comp_def case_prod_unfold filter_empty_conv split: option.splits intro!: arg_cong2 [of _ _ _ _ map] filter_cong)
  show ?thesis
    using gone rights nodes by (simp add: comp_def case_prod_unfold)
qed

lemma deleted_location_witness:
  "\<not> has_write_access_location_id stage_env 4 (fst (delete_location stage_env 4 stage))"
proof -
  have "t_get (db_locations stage) 4 = Some stage_location"
    by (simp add: stage_def table_of_def t_get_def stage_location_def)
  moreover have "wf_table (db_locations stage)" "wf_table (db_cnodes stage)"
    by (simp_all add: stage_def table_of_def wf_table_def t_keys_def empty_db_def)
  ultimately show ?thesis using deleted_location by blast
qed

end
