(* ===== verification/Archive_Serializers.thy ===== *)
theory Archive_Serializers
  imports Archive_Views
begin

text \<open>
  The reading halves of the archive's serializers (\<open>archive/serializers.py\<close>): one function
  for each serializer, from a row to the JSON object that the REST interface answers with, in the
  order of its \<open>fields\<close>, and the querysets of the viewsets and of the export of a session
  (\<open>archive/views.py\<close>). \<open>dt\<close> writes an instant, as \<open>DateTimeField\<close> does. A
  write-only field (the thumbnail of a camera) is not in the answer. Rendering may raise: the frame of the
  neutral take is computed while a take is rendered.
\<close>

section \<open>Values\<close>

definition j_pk :: "pk \<Rightarrow> json" where
  "j_pk k = JInt (int k)"

definition j_opt :: "('a \<Rightarrow> json) \<Rightarrow> 'a option \<Rightarrow> json" where
  "j_opt f x = (case x of None \<Rightarrow> JNull | Some v \<Rightarrow> f v)"

text \<open>\<open>many=True\<close>: the rows are rendered one after the other, an exception ends it.\<close>

fun render_all :: "('a \<Rightarrow> py_exn + json) \<Rightarrow> 'a list \<Rightarrow> py_exn + json list" where
  "render_all f [] = Inr []"
| "render_all f (x # xs) =
     (case f x of
        Inl e \<Rightarrow> Inl e
      | Inr j \<Rightarrow> (case render_all f xs of Inl e \<Rightarrow> Inl e | Inr js \<Rightarrow> Inr (j # js)))"

lemma render_all_ok:
  "\<forall>x \<in> set xs. f x = Inr (g x) \<Longrightarrow> render_all f xs = Inr (map g xs)"
  by (induction xs) auto

lemma render_all_Inr:
  "render_all f xs = Inr js \<Longrightarrow> length js = length xs \<and> (\<forall>i < length xs. f (xs ! i) = Inr (js ! i))"
proof (induction xs arbitrary: js)
  case (Cons x xs)
  then obtain j js' where "f x = Inr j" "render_all f xs = Inr js'" "js = j # js'"
    by (auto split: sum.splits)
  with Cons.IH [of js'] show ?case by (auto simp: nth_Cons split: nat.splits)
qed simp

lemma render_all_Inl:
  "x \<in> set xs \<Longrightarrow> f x = Inl e \<Longrightarrow> (\<And>y e'. y \<in> set xs \<Longrightarrow> f y = Inl e' \<Longrightarrow> e' = e) \<Longrightarrow> render_all f xs = Inl e"
proof (induction xs)
  case (Cons y ys)
  show ?case
  proof (cases "f y")
    case (Inl e')
    with Cons.prems(3) [of y e'] show ?thesis by simp
  next
    case (Inr j)
    with Cons.prems(1,2) have "x \<in> set ys" by auto
    have "render_all f ys = Inl e"
      by (rule Cons.IH [OF \<open>x \<in> set ys\<close> Cons.prems(2)]) (auto intro: Cons.prems(3))
    with Inr show ?thesis by simp
  qed
qed simp

definition render_list :: "('a \<Rightarrow> py_exn + json) \<Rightarrow> 'a list \<Rightarrow> py_exn + json" where
  "render_list f xs = (case render_all f xs of Inl e \<Rightarrow> Inl e | Inr js \<Rightarrow> Inr (JList js))"

section \<open>Cameras, assets and jobs of a take\<close>

definition simple_job_json :: "pk \<times> farm_job \<Rightarrow> json" where
  "simple_job_json kj = (let (k, j) = kj in JObj
     [(''job_class'', JStr (fj_job_class j)), (''id'', j_pk k),
      (''status'', JStr (status_name (fj_status j))),
      (''image_filename'', j_opt JStr (fj_image_filename j)),
      (''mesh_filename'', j_opt JStr (fj_mesh_filename j))])"

definition camera_json :: "pk \<times> archive_camera \<Rightarrow> json" where
  "camera_json kc = (let (k, c) = kc in JObj
     [(''id'', j_pk k), (''machine_name'', JStr (ac_machine_name c)),
      (''unique_id'', JStr (ac_unique_id c)), (''model'', JStr (ac_model c)),
      (''version'', JStr (ac_version c)), (''using_sync'', JBool (ac_using_sync c)),
      (''thumbnail_filename'', j_opt JStr (ac_thumbnail_filename c)),
      (''folder'', JStr (ac_folder c)), (''width'', JInt (ac_width c)),
      (''height'', JInt (ac_height c)), (''frame_count'', JInt (ac_frame_count c)),
      (''dropped_frames'', JInt (ac_dropped_frames c)), (''framerate'', JFloat (ac_framerate c)),
      (''total_size'', JInt (ac_total_size c)), (''duration'', JFloat (ac_duration c)),
      (''bitdepth'', JInt (ac_bitdepth c)), (''all_files'', j_opt JStr (ac_all_files c)),
      (''rotation'', JInt (ac_rotation c)), (''exposure_ms'', JFloat (ac_exposure_ms c))])"

definition scan_from_take_json :: "pk \<times> scan_asset \<Rightarrow> json" where
  "scan_from_take_json ka = (let (k, a) = ka in JObj
     [(''id'', j_pk k), (''name'', JStr (sa_name a)), (''image_folder'', JStr (sa_image_folder a)),
      (''calib_file'', JStr (sa_calib_file a)), (''work_folder'', JStr (sa_work_folder a)),
      (''thumbnail_filename'', j_opt JStr (sa_thumbnail_filename a)),
      (''take_id'', j_opt j_pk (sa_take a)), (''has_tracking'', JBool (sa_has_tracking a)),
      (''take_mixed_w_time'', j_opt JFloat (sa_take_mixed_w_time a)),
      (''take_pattern_start_time'', j_opt JFloat (sa_take_pattern_start_time a)),
      (''take_pattern_last_time'', j_opt JFloat (sa_take_pattern_last_time a)),
      (''take_neutral_start_time'', j_opt JFloat (sa_take_neutral_start_time a)),
      (''take_neutral_end_time'', j_opt JFloat (sa_take_neutral_end_time a))])"

definition track_from_take_json :: "pk \<times> tracking_asset \<Rightarrow> json" where
  "track_from_take_json ka = (let (k, a) = ka in JObj
     [(''id'', j_pk k), (''calib_file'', j_opt JStr (ta_calib_file a)),
      (''start_time'', JFloat (ta_start_time a)), (''end_time'', JFloat (ta_end_time a)),
      (''video_thumb'', j_opt JStr (ta_video_thumb a)), (''take_id'', j_pk (ta_take a))])"

text \<open>The reverse relations \<open>ext_jobs\<close> and \<open>trackingasset_related\<close>.\<close>

definition jobs_of_take :: "db \<Rightarrow> pk \<Rightarrow> (pk \<times> farm_job) list" where
  "jobs_of_take d k = t_filter (\<lambda>_ j. fj_ext_take j = Some k) (db_jobs d)"

definition jobs_of_scan :: "db \<Rightarrow> pk \<Rightarrow> (pk \<times> farm_job) list" where
  "jobs_of_scan d k = t_filter (\<lambda>_ j. fj_ext_scan_assets j = Some k) (db_jobs d)"

definition jobs_of_track :: "db \<Rightarrow> pk \<Rightarrow> (pk \<times> farm_job) list" where
  "jobs_of_track d k = t_filter (\<lambda>_ j. fj_ext_tracking_assets j = Some k) (db_jobs d)"

definition tracks_of_take :: "db \<Rightarrow> pk \<Rightarrow> (pk \<times> tracking_asset) list" where
  "tracks_of_take d k = t_filter (\<lambda>_ a. ta_take a = k) (db_tracks d)"

section \<open>Takes\<close>

definition of_shot :: "db \<Rightarrow> take \<Rightarrow> (shot \<Rightarrow> json) \<Rightarrow> json" where
  "of_shot d t f = j_opt f (t_get (db_shots d) (tk_shot t))"

definition of_session :: "db \<Rightarrow> take \<Rightarrow> (session \<Rightarrow> json) \<Rightarrow> json" where
  "of_session d t f = j_opt f (take_session d t)"

definition minimal_take_json :: "db \<Rightarrow> pk \<times> take \<Rightarrow> json" where
  "minimal_take_json d kt = (let (k, t) = kt in JObj
     [(''id'', j_pk k), (''name'', JStr (tk_name t)),
      (''shot_name'', of_shot d t (\<lambda>s. JStr (sh_name s))),
      (''session_name'', of_session d t (\<lambda>s. JStr (se_name s)))])"

definition neutral_frame_of :: "db \<Rightarrow> take \<Rightarrow> py_exn + int option" where
  "neutral_frame_of d t =
     (case take_session d t of None \<Rightarrow> Inr None | Some s \<Rightarrow> get_neutral_frame d s)"

definition take_json :: "(time \<Rightarrow> string) \<Rightarrow> user \<Rightarrow> db \<Rightarrow> pk \<times> take \<Rightarrow> py_exn + json" where
  "take_json dt u d kt =
     (let (k, t) = kt in
      case neutral_frame_of d t of
        Inl e \<Rightarrow> Inl e
      | Inr frame \<Rightarrow> Inr (JObj
          [(''id'', j_pk k), (''name'', JStr (tk_name t)),
           (''shot_name'', of_shot d t (\<lambda>s. JStr (sh_name s))),
           (''shot_id'', j_pk (tk_shot t)), (''sequence'', JInt (tk_sequence t)),
           (''capture_time'', JStr (dt (tk_capture_time t))), (''flag'', JStr (tk_flag t)),
           (''is_scan_burst'', JBool (tk_is_scan_burst t)), (''is_burst'', JBool (tk_is_burst t)),
           (''cameras'', JList (map camera_json (take_cameras d k))),
           (''total_size'', j_opt JInt (take_total_size d k)),
           (''write_access'', JBool (take_write_access u)),
           (''max_frame_count'', j_opt JInt (take_frame_count d k)),
           (''related_jobs'', JList (map simple_job_json (jobs_of_take d k))),
           (''export_path'', j_opt JStr (tk_export_path t)),
           (''colorspace'', j_opt JStr (tk_colorspace t)),
           (''work_folder'', j_opt JStr (tk_work_folder t)),
           (''video_thumb'', j_opt JStr (tk_video_thumb t)),
           (''frontal_cam_uid'', of_session d t (\<lambda>s. j_opt JStr (se_frontal_cam_id s))),
           (''related_staticscans'', JList (map scan_from_take_json (scans_of_take d k))),
           (''related_trackingassets'', JList (map track_from_take_json (tracks_of_take d k))),
           (''session_master_calib_path'',
              of_session d t (\<lambda>s. j_opt JStr (session_master_calib_path d s))),
           (''session_master_colorchart_path'',
              of_session d t (\<lambda>s. j_opt JStr (session_master_colorchart_path d s))),
           (''session_neutral_work_path'',
              of_session d t (\<lambda>s. j_opt JStr (get_neutral_work_folder d s))),
           (''session_neutral_take_frame'', j_opt JInt frame),
           (''allowed_actions'', JList []),
           (''invert_polarization'', of_session d t (\<lambda>s. JBool (se_invert_polarization s)))]))"

section \<open>Shots, sessions and projects\<close>

definition shot_takes :: "db \<Rightarrow> pk \<Rightarrow> (pk \<times> take) list" where
  "shot_takes d k = t_filter (\<lambda>_ t. tk_shot t = k) (db_takes d)"

definition shot_json :: "(time \<Rightarrow> string) \<Rightarrow> user \<Rightarrow> db \<Rightarrow> pk \<times> shot \<Rightarrow> py_exn + json" where
  "shot_json dt u d ks =
     (let (k, s) = ks in
      case render_list (take_json dt u d) (shot_takes d k) of
        Inl e \<Rightarrow> Inl e
      | Inr takes \<Rightarrow> Inr (JObj
          [(''id'', j_pk k), (''name'', JStr (sh_name s)), (''takes'', takes),
           (''session_id'', j_pk (sh_session s))]))"

definition project_special_json :: "db \<Rightarrow> pk \<Rightarrow> json" where
  "project_special_json d k = JObj
     [(''id'', j_pk k),
      (''calib_takes'', JList (map (minimal_take_json d) (calib_takes d k))),
      (''colorchart_takes'', JList (map (minimal_take_json d) (colorchart_takes d k))),
      (''bested_takes'', JList (map (minimal_take_json d) (bested_takes d k)))]"

definition project_name_of :: "db \<Rightarrow> session \<Rightarrow> json" where
  "project_name_of d s = j_opt (\<lambda>p. JStr (pr_name p)) (t_get (db_projects d) (se_project s))"

definition session_details_json :: "(time \<Rightarrow> string) \<Rightarrow> user \<Rightarrow> db \<Rightarrow> pk \<times> session \<Rightarrow> py_exn + json" where
  "session_details_json dt u d ks =
     (let (k, s) = ks in
      case render_list (shot_json dt u d) (session_shots d k) of
        Inl e \<Rightarrow> Inl e
      | Inr shots \<Rightarrow> Inr (JObj
          [(''id'', j_pk k), (''name'', JStr (se_name s)),
           (''start_time'', JStr (dt (se_start_time s))), (''shots'', shots),
           (''project_name'', project_name_of d s),
           (''frontal_cam_id'', j_opt JStr (se_frontal_cam_id s)),
           (''session_master_calib_id'', j_opt j_pk (se_master_calib s)),
           (''session_master_colorchart_id'', j_opt j_pk (se_master_colorchart s)),
           (''session_neutral_take_id'', j_opt j_pk (se_neutral_take s)),
           (''project_special'', project_special_json d (se_project s))]))"

definition session_json :: "(time \<Rightarrow> string) \<Rightarrow> db \<Rightarrow> pk \<times> session \<Rightarrow> json" where
  "session_json dt d ks = (let (k, s) = ks in JObj
     [(''id'', j_pk k), (''project_id'', j_pk (se_project s)), (''name'', JStr (se_name s)),
      (''start_time'', JStr (dt (se_start_time s))),
      (''shot_count'', JInt (int (session_shot_count d k))),
      (''take_count'', JInt (int (session_take_count d k))),
      (''frontal_cam_id'', j_opt JStr (se_frontal_cam_id s)),
      (''project_name'', project_name_of d s)])"

definition project_sessions :: "db \<Rightarrow> pk \<Rightarrow> (pk \<times> session) list" where
  "project_sessions d p = t_filter (\<lambda>_ s. se_project s = p) (db_sessions d)"

definition project_json :: "(time \<Rightarrow> string) \<Rightarrow> db \<Rightarrow> pk \<times> project \<Rightarrow> json" where
  "project_json dt d kp = (let (k, p) = kp in JObj
     [(''id'', j_pk k), (''name'', JStr (pr_name p)),
      (''sessions'', JList (map (session_json dt d) (project_sessions d k)))])"

definition project_archive_json :: "(time \<Rightarrow> string) \<Rightarrow> user \<Rightarrow> db \<Rightarrow> pk \<times> project \<Rightarrow> py_exn + json" where
  "project_archive_json dt u d kp =
     (let (k, p) = kp in
      case render_list (session_details_json dt u d) (project_sessions d k) of
        Inl e \<Rightarrow> Inl e
      | Inr sessions \<Rightarrow> Inr (JObj
          [(''id'', j_pk k), (''name'', JStr (pr_name p)), (''sessions'', sessions)]))"

section \<open>The exported document of a session\<close>

text \<open>\<open>project_id\<close> is a field of \<open>SessionExportSerializer\<close> without a source: the column of the foreign key, whose object is its primary key.\<close>

definition session_export_json :: "(time \<Rightarrow> string) \<Rightarrow> user \<Rightarrow> db \<Rightarrow> pk \<times> session \<Rightarrow> py_exn + json" where
  "session_export_json dt u d ks =
     (let (k, s) = ks in
      case render_list (shot_json dt u d) (session_shots d k) of
        Inl e \<Rightarrow> Inl e
      | Inr shots \<Rightarrow> Inr (JObj
          [(''id'', j_pk k), (''project_id'', j_pk (se_project s)), (''name'', JStr (se_name s)),
           (''start_time'', JStr (dt (se_start_time s))), (''shots'', shots),
           (''frontal_cam_id'', j_opt JStr (se_frontal_cam_id s))]))"

text \<open>\<open>get_archive_json_file\<close>: the document as an attachment; \<open>objects.get\<close> raises for a missing session.\<close>

definition get_archive_json_file ::
    "(time \<Rightarrow> string) \<Rightarrow> env \<Rightarrow> pk \<Rightarrow> db \<Rightarrow> (json \<times> string) outcome" where
  "get_archive_json_file dt e session_id d =
     (case t_get (db_sessions d) session_id of
        None \<Rightarrow> Raised DoesNotExist
      | Some s \<Rightarrow>
          (case session_export_json dt (e_user e) d (session_id, s) of
             Inl x \<Rightarrow> Raised x
           | Inr j \<Rightarrow> Json 200 (j, ''attachment; filename=exported_session_'' @ show_nat session_id @ ''.json'')))"

section \<open>Assets\<close>

definition of_take :: "db \<Rightarrow> pk \<Rightarrow> (take \<Rightarrow> json) \<Rightarrow> json" where
  "of_take d k f = j_opt f (t_get (db_takes d) k)"

text \<open>
  A read-only field whose path crosses a missing object is left out of the answer
  (\<open>Field.get_attribute\<close> raises \<open>SkipField\<close>): an asset whose take was deleted has
  no \<open>take_name\<close>.
\<close>

definition via_take :: "db \<Rightarrow> pk option \<Rightarrow> string \<Rightarrow> (take \<Rightarrow> json) \<Rightarrow> (string \<times> json) list" where
  "via_take d k name f = (case k of None \<Rightarrow> [] | Some i \<Rightarrow> [(name, of_take d i f)])"

definition scan_json :: "db \<Rightarrow> pk \<times> scan_asset \<Rightarrow> json" where
  "scan_json d ka = (let (k, a) = ka in JObj
     ([(''id'', j_pk k), (''name'', JStr (sa_name a)), (''image_folder'', JStr (sa_image_folder a)),
       (''calib_file'', JStr (sa_calib_file a)), (''work_folder'', JStr (sa_work_folder a)),
       (''related_jobs'', JList (map simple_job_json (jobs_of_scan d k))),
       (''thumbnail_filename'', j_opt JStr (sa_thumbnail_filename a)),
       (''project_id'', j_pk (sa_project a)), (''take_id'', j_opt j_pk (sa_take a))]
      @ via_take d (sa_take a) ''take_name'' (\<lambda>t. JStr (tk_name t))
      @ via_take d (sa_take a) ''take_flag'' (\<lambda>t. JStr (tk_flag t))
      @ via_take d (sa_take a) ''shot_name'' (\<lambda>t. of_shot d t (\<lambda>s. JStr (sh_name s)))
      @ via_take d (sa_take a) ''take_path'' (\<lambda>t. j_opt JStr (tk_export_path t)) @
      [(''has_tracking'', JBool (sa_has_tracking a)),
       (''take_mixed_w_time'', j_opt JFloat (sa_take_mixed_w_time a)),
       (''take_pattern_start_time'', j_opt JFloat (sa_take_pattern_start_time a)),
       (''take_pattern_last_time'', j_opt JFloat (sa_take_pattern_last_time a)),
       (''take_neutral_start_time'', j_opt JFloat (sa_take_neutral_start_time a)),
       (''take_neutral_end_time'', j_opt JFloat (sa_take_neutral_end_time a)),
       (''allowed_actions'', JList []),
       (''associated_tracking_asset_id'', j_opt j_pk (sa_associated_tracking_asset a)),
       (''associated_tracking_asset_time'', j_opt JFloat (sa_associated_tracking_asset_time a))]))"

definition track_take_json :: "(time \<Rightarrow> string) \<Rightarrow> user \<Rightarrow> db \<Rightarrow> pk \<times> tracking_asset \<Rightarrow> py_exn + json" where
  "track_take_json dt u d ka =
     (let (k, a) = ka in
      case (case track_take d a of None \<Rightarrow> Inr JNull | Some t \<Rightarrow> take_json dt u d (ta_take a, t)) of
        Inl e \<Rightarrow> Inl e
      | Inr t \<Rightarrow> Inr (JObj
          [(''id'', j_pk k), (''calib_file'', j_opt JStr (ta_calib_file a)),
           (''work_folder'', j_opt JStr (ta_work_folder a)),
           (''start_time'', JFloat (ta_start_time a)), (''end_time'', JFloat (ta_end_time a)),
           (''take'', t), (''video_thumb'', j_opt JStr (ta_video_thumb a))]))"

definition track_json :: "db \<Rightarrow> pk \<times> tracking_asset \<Rightarrow> json" where
  "track_json d ka = (let (k, a) = ka in JObj
     [(''id'', j_pk k), (''calib_file'', j_opt JStr (ta_calib_file a)),
      (''start_time'', JFloat (ta_start_time a)), (''end_time'', JFloat (ta_end_time a)),
      (''video_thumb'', j_opt JStr (ta_video_thumb a)), (''take_id'', j_pk (ta_take a)),
      (''work_folder'', j_opt JStr (ta_work_folder a)),
      (''take_name'', of_take d (ta_take a) (\<lambda>t. JStr (tk_name t))),
      (''take_flag'', of_take d (ta_take a) (\<lambda>t. JStr (tk_flag t))),
      (''shot_name'', of_take d (ta_take a) (\<lambda>t. of_shot d t (\<lambda>s. JStr (sh_name s)))),
      (''take_export_path'', of_take d (ta_take a) (\<lambda>t. j_opt JStr (tk_export_path t))),
      (''related_jobs'', JList (map simple_job_json (jobs_of_track d k))),
      (''allowed_actions'', JList [])])"

definition project_asset_json :: "(time \<Rightarrow> string) \<Rightarrow> user \<Rightarrow> db \<Rightarrow> pk \<times> project \<Rightarrow> py_exn + json" where
  "project_asset_json dt u d kp =
     (let (k, p) = kp;
          takes = (\<lambda>ts. render_list (take_json dt u d) ts)
      in case takes (calib_takes d k) of Inl e \<Rightarrow> Inl e | Inr calib \<Rightarrow>
        (case takes (colorchart_takes d k) of Inl e \<Rightarrow> Inl e | Inr chart \<Rightarrow>
          (case takes (singleframe_takes d k) of Inl e \<Rightarrow> Inl e | Inr single \<Rightarrow>
            Inr (JObj
              [(''id'', j_pk k), (''name'', JStr (pr_name p)),
               (''sessions'', JList (map (session_json dt d) (project_sessions d k))),
               (''staticscanasset_best'', JList (map (scan_json d) (best_staticscanassets d k))),
               (''staticscanasset_calib'', JList (map (scan_json d) (calib_staticscanassets d k))),
               (''trackingassets_best'', JList (map (track_json d) (best_trackingassets d k))),
               (''calibration_takes'', calib), (''colorchart_takes'', chart),
               (''single_frame_takes'', single)]))))"

section \<open>The lists of the viewsets\<close>

text \<open>
  \<open>LimitOffsetPagination\<close> with the page size of the settings: the number of rows, and
  those from the offset on, at most as many as the limit; a limit of zero counts as none.
\<close>

definition page_size :: nat where
  "page_size = 1000"

definition page :: "nat option \<Rightarrow> nat \<Rightarrow> 'a list \<Rightarrow> nat \<times> 'a list" where
  "page limit offset xs =
     (length xs, List.take (case limit of Some (Suc n) \<Rightarrow> Suc n | _ \<Rightarrow> page_size) (drop offset xs))"

definition render_page ::
    "('a \<Rightarrow> py_exn + json) \<Rightarrow> nat option \<Rightarrow> nat \<Rightarrow> 'a list \<Rightarrow> (nat \<times> json list) outcome" where
  "render_page f limit offset xs =
     (case page limit offset xs of (n, ys) \<Rightarrow>
       (case render_all f ys of Inl e \<Rightarrow> Raised e | Inr js \<Rightarrow> Json 200 (n, js)))"

definition open_projects :: "db \<Rightarrow> (pk \<times> project) list" where
  "open_projects d = sort_key (\<lambda>(_, p). pr_name p) (t_filter (\<lambda>_ p. \<not> pr_archived p) (db_projects d))"

definition all_projects :: "db \<Rightarrow> (pk \<times> project) list" where
  "all_projects d = sort_key (\<lambda>(_, p). pr_name p) (rows (db_projects d))"

definition by_id :: "'r table \<Rightarrow> (pk \<times> 'r) list" where
  "by_id t = sort_key fst (rows t)"

text \<open>\<open>filter_fields = ('project',)\<close> with \<open>ordering_fields = ('start_time',)\<close> of the two session viewsets.\<close>

datatype session_order = By_id | By_start | By_start_desc

definition listed_sessions :: "pk option \<Rightarrow> session_order \<Rightarrow> db \<Rightarrow> (pk \<times> session) list" where
  "listed_sessions project order d =
     (let xs = filter (\<lambda>(_, s). project = None \<or> project = Some (se_project s)) (by_id (db_sessions d))
      in case order of
           By_id \<Rightarrow> xs
         | By_start \<Rightarrow> sort_key (\<lambda>(_, s). se_start_time s) xs
         | By_start_desc \<Rightarrow> order_desc (\<lambda>(_, s). se_start_time s) xs)"

end
