(* ===== verification/Session_Exchange.thy ===== *)
theory Session_Exchange
  imports Archive_Serializers "HOL-Library.Monad_Syntax"
begin

text \<open>
  Writing sessions through \<open>SessionExportSerializer\<close> and shots through \<open>ShotSerializer\<close>
  (\<open>archive/serializers.py\<close>): the validation of a JSON document field by field, with
  the side effect of storing the thumbnails, and the creation of the rows. Ranges of integers are those
  of the columns in the production database. A value of another JSON type than the field's (a number
  where a text is expected, the text of a date) is converted by the REST framework: \<open>coercions\<close>
  are its conversions, and parameters here.
\<close>

section \<open>Fields\<close>

record coercions =
  co_str :: "json \<Rightarrow> string option"
  co_int :: "json \<Rightarrow> int option"
  co_float :: "json \<Rightarrow> pyfloat option"
  co_bool :: "json \<Rightarrow> bool option"
  co_date :: "json \<Rightarrow> time option"

datatype 'a field = Absent | Bad | Given 'a

text \<open>A key that occurs twice in an object has its last value in the dictionary.\<close>

definition fld :: "(string \<times> json) list \<Rightarrow> string \<Rightarrow> json option" where
  "fld kvs name = map_of (rev kvs) name"

definition py_space :: "char \<Rightarrow> bool" where
  "py_space c \<longleftrightarrow> of_char c \<in> ({9, 10, 11, 12, 13, 28, 29, 30, 31, 32, 133, 160} :: nat set)"

definition strip :: "string \<Rightarrow> string" where
  "strip s = rev (dropWhile py_space (rev (dropWhile py_space s)))"

fun as_str :: "coercions \<Rightarrow> json \<Rightarrow> string option" where
  "as_str co (JStr s) = Some s"
| "as_str co j = co_str co j"

fun as_int :: "coercions \<Rightarrow> json \<Rightarrow> int option" where
  "as_int co (JInt i) = Some i"
| "as_int co j = co_int co j"

fun as_float :: "coercions \<Rightarrow> json \<Rightarrow> pyfloat option" where
  "as_float co (JFloat x) = Some x"
| "as_float co (JInt i) = Some (of_int i)"
| "as_float co j = co_float co j"

fun as_bool :: "coercions \<Rightarrow> json \<Rightarrow> bool option" where
  "as_bool co (JBool b) = Some b"
| "as_bool co j = co_bool co j"

text \<open>
  \<open>CharField\<close>: the text is stripped; nothing is left only if the field may be blank, it
  has no NUL character and at most the characters of the column.
\<close>

definition char_value :: "coercions \<Rightarrow> nat option \<Rightarrow> bool \<Rightarrow> json \<Rightarrow> string option" where
  "char_value co limit blank j =
     (case as_str co j of
        None \<Rightarrow> None
      | Some s0 \<Rightarrow>
          (let s = strip s0 in
           if s = [] then (if blank then Some [] else None)
           else if CHR 0x00 \<in> set s \<or> (case limit of None \<Rightarrow> False | Some n \<Rightarrow> length s > n) then None
           else Some s))"

definition of_value :: "(json \<Rightarrow> 'a option) \<Rightarrow> json option \<Rightarrow> 'a field" where
  "of_value f v =
     (case v of None \<Rightarrow> Absent
      | Some JNull \<Rightarrow> Bad
      | Some j \<Rightarrow> (case f j of None \<Rightarrow> Bad | Some x \<Rightarrow> Given x))"

definition of_null_value :: "(json \<Rightarrow> 'a option) \<Rightarrow> json option \<Rightarrow> 'a option field" where
  "of_null_value f v =
     (case v of None \<Rightarrow> Absent
      | Some JNull \<Rightarrow> Given None
      | Some j \<Rightarrow> (case f j of None \<Rightarrow> Bad | Some x \<Rightarrow> Given (Some x)))"

definition int_value :: "coercions \<Rightarrow> int \<Rightarrow> json \<Rightarrow> int option" where
  "int_value co bound j =
     (case as_int co j of None \<Rightarrow> None
      | Some i \<Rightarrow> if - bound \<le> i \<and> i < bound then Some i else None)"

definition choice_value :: "coercions \<Rightarrow> string list \<Rightarrow> json \<Rightarrow> string option" where
  "choice_value co choices j =
     (case as_str co j of None \<Rightarrow> None | Some s \<Rightarrow> if s \<in> set choices then Some s else None)"

definition pk_value :: "coercions \<Rightarrow> 'r table \<Rightarrow> json \<Rightarrow> pk option" where
  "pk_value co t j =
     (case as_int co j of None \<Rightarrow> None
      | Some i \<Rightarrow> if 0 \<le> i \<and> t_get t (nat i) \<noteq> None then Some (nat i) else None)"

text \<open>A required field, and one with a default.\<close>

definition need :: "'a field \<Rightarrow> 'a option" where
  "need v = (case v of Given x \<Rightarrow> Some x | _ \<Rightarrow> None)"

definition opt :: "'a \<Rightarrow> 'a field \<Rightarrow> 'a option" where
  "opt x v = (case v of Absent \<Rightarrow> Some x | Bad \<Rightarrow> None | Given y \<Rightarrow> Some y)"

abbreviation int32 :: int where "int32 \<equiv> 2147483648"
abbreviation int64 :: int where "int64 \<equiv> 9223372036854775808"

section \<open>Cameras\<close>

definition camera_fields :: "coercions \<Rightarrow> (string \<times> json) list \<Rightarrow> (archive_camera \<times> string option) option" where
  "camera_fields co kvs = do {
     b64 \<leftarrow> need (of_null_value (char_value co (Some (1024 * 1024)) False) (fld kvs ''b64_thumb''));
     machine_name \<leftarrow> need (of_value (char_value co (Some 200) False) (fld kvs ''machine_name''));
     unique_id \<leftarrow> need (of_value (char_value co (Some 200) False) (fld kvs ''unique_id''));
     model \<leftarrow> need (of_value (char_value co (Some 200) False) (fld kvs ''model''));
     version \<leftarrow> need (of_value (char_value co (Some 200) False) (fld kvs ''version''));
     using_sync \<leftarrow> opt False (of_value (as_bool co) (fld kvs ''using_sync''));
     thumbnail_filename \<leftarrow> opt None (of_null_value (char_value co (Some 250) True) (fld kvs ''thumbnail_filename''));
     folder \<leftarrow> need (of_value (char_value co (Some 250) False) (fld kvs ''folder''));
     width \<leftarrow> need (of_value (int_value co int32) (fld kvs ''width''));
     height \<leftarrow> need (of_value (int_value co int32) (fld kvs ''height''));
     frame_count \<leftarrow> need (of_value (int_value co int32) (fld kvs ''frame_count''));
     dropped_frames \<leftarrow> need (of_value (int_value co int32) (fld kvs ''dropped_frames''));
     framerate \<leftarrow> opt 0 (of_value (as_float co) (fld kvs ''framerate''));
     total_size \<leftarrow> need (of_value (int_value co int64) (fld kvs ''total_size''));
     duration \<leftarrow> opt 0 (of_value (as_float co) (fld kvs ''duration''));
     bitdepth \<leftarrow> opt 8 (of_value (int_value co int32) (fld kvs ''bitdepth''));
     all_files \<leftarrow> opt None (of_null_value (char_value co None False) (fld kvs ''all_files''));
     rotation \<leftarrow> opt 0 (of_value (int_value co int32) (fld kvs ''rotation''));
     exposure_ms \<leftarrow> opt 0 (of_value (as_float co) (fld kvs ''exposure_ms''));
     Some (\<lparr>ac_take = 0, ac_machine_name = machine_name, ac_unique_id = unique_id,
       ac_model = model, ac_version = version, ac_using_sync = using_sync, ac_folder = folder,
       ac_thumbnail_filename = thumbnail_filename, ac_width = width, ac_height = height,
       ac_bitdepth = bitdepth, ac_frame_count = frame_count, ac_dropped_frames = dropped_frames,
       ac_total_size = total_size, ac_duration = duration, ac_framerate = framerate,
       ac_all_files = all_files, ac_rotation = rotation, ac_exposure_ms = exposure_ms\<rparr>, b64)
   }"

text \<open>
  \<open>CameraSerializer.validate\<close>: a name is drawn (\<open>uuid4\<close>, here the n-th of a sequence), the
  text is decoded and written. Anything that raises, also a thumbnail that is null, leaves the camera without
  it. This happens while the document is validated, for every camera that is valid by itself.
\<close>

record thumbs =
  th_uuid :: "nat \<Rightarrow> string"
  th_b64 :: "string \<Rightarrow> string option"
  th_write :: "string \<Rightarrow> bool"

type_synonym import_state = "nat \<times> db"

definition validate_camera ::
    "thumbs \<Rightarrow> archive_camera \<times> string option \<Rightarrow> import_state \<Rightarrow> archive_camera \<times> import_state" where
  "validate_camera th cb s =
     (let (c, b64) = cb;
          (n, d) = s;
          filename = th_uuid th n @ ''_'' @ ac_unique_id c @ ''.jpg''
      in case Option.bind b64 (th_b64 th) of
           None \<Rightarrow> (c, (Suc n, d))
         | Some jpg_data \<Rightarrow>
             if th_write th filename
             then (c\<lparr>ac_thumbnail_filename := Some filename\<rparr>,
                   (Suc n, d\<lparr>db_files := (db_files d)(filename \<mapsto> jpg_data)\<rparr>))
             else (c, (Suc n, d)))"

definition camera_valid ::
    "coercions \<Rightarrow> thumbs \<Rightarrow> json \<Rightarrow> import_state \<Rightarrow> archive_camera option \<times> import_state" where
  "camera_valid co th j s =
     (case j of
        JObj kvs \<Rightarrow>
          (case camera_fields co kvs of
             None \<Rightarrow> (None, s)
           | Some cb \<Rightarrow> (let (c, s') = validate_camera th cb s in (Some c, s')))
      | _ \<Rightarrow> (None, s))"

section \<open>Takes, shots and sessions\<close>

text \<open>A list of nested objects: every element is validated, whatever the others are.\<close>

fun all_valid :: "(json \<Rightarrow> 's \<Rightarrow> 'a option \<times> 's) \<Rightarrow> json list \<Rightarrow> 's \<Rightarrow> 'a list option \<times> 's" where
  "all_valid f [] s = (Some [], s)"
| "all_valid f (j # js) s =
     (let (x, s1) = f j s; (xs, s2) = all_valid f js s1
      in ((case (x, xs) of (Some y, Some ys) \<Rightarrow> Some (y # ys) | _ \<Rightarrow> None), s2))"

definition many :: "(json \<Rightarrow> 's \<Rightarrow> 'a option \<times> 's) \<Rightarrow> json option \<Rightarrow> 's \<Rightarrow> 'a list option \<times> 's" where
  "many f v s = (case v of Some (JList js) \<Rightarrow> all_valid f js s | _ \<Rightarrow> (None, s))"

definition take_flags :: "string list" where
  "take_flags = [''none'', ''best'', ''bad'', ''calib'', ''colorchart'']"

definition take_fields :: "coercions \<Rightarrow> (string \<times> json) list \<Rightarrow> take option" where
  "take_fields co kvs = do {
     name \<leftarrow> need (of_value (char_value co (Some 200) False) (fld kvs ''name''));
     sequence \<leftarrow> opt 1 (of_value (int_value co int32) (fld kvs ''sequence''));
     capture_time \<leftarrow> need (of_value (co_date co) (fld kvs ''capture_time''));
     flag \<leftarrow> opt ''none'' (of_value (choice_value co take_flags) (fld kvs ''flag''));
     is_scan_burst \<leftarrow> opt False (of_value (as_bool co) (fld kvs ''is_scan_burst''));
     is_burst \<leftarrow> opt False (of_value (as_bool co) (fld kvs ''is_burst''));
     export_path \<leftarrow> opt None (of_null_value (char_value co (Some 250) True) (fld kvs ''export_path''));
     colorspace \<leftarrow> opt None (of_null_value (char_value co (Some 32) True) (fld kvs ''colorspace''));
     work_folder \<leftarrow> opt None (of_null_value (char_value co (Some 250) True) (fld kvs ''work_folder''));
     video_thumb \<leftarrow> opt None (of_null_value (char_value co (Some 250) True) (fld kvs ''video_thumb''));
     Some \<lparr>tk_name = name, tk_shot = 0, tk_capture_time = capture_time, tk_sequence = sequence,
       tk_export_path = export_path, tk_work_folder = work_folder, tk_video_thumb = video_thumb,
       tk_flag = flag, tk_is_burst = is_burst, tk_is_scan_burst = is_scan_burst,
       tk_colorspace = colorspace\<rparr>
   }"

definition take_valid :: "coercions \<Rightarrow> thumbs \<Rightarrow> json \<Rightarrow> import_state \<Rightarrow> take_data option \<times> import_state" where
  "take_valid co th j s =
     (case j of
        JObj kvs \<Rightarrow>
          (let (cams, s') = many (camera_valid co th) (fld kvs ''cameras'') s
           in ((case (take_fields co kvs, cams) of (Some t, Some cs) \<Rightarrow> Some (t, Some cs) | _ \<Rightarrow> None), s'))
      | _ \<Rightarrow> (None, s))"

text \<open>A shot may name its session, which has to exist.\<close>

type_synonym shot_data = "string \<times> pk option \<times> take_data list"

definition session_ref :: "coercions \<Rightarrow> db \<Rightarrow> (string \<times> json) list \<Rightarrow> pk option option" where
  "session_ref co d kvs =
     (case of_value (pk_value co (db_sessions d)) (fld kvs ''session_id'') of
        Absent \<Rightarrow> Some None | Bad \<Rightarrow> None | Given k \<Rightarrow> Some (Some k))"

definition shot_valid :: "coercions \<Rightarrow> thumbs \<Rightarrow> json \<Rightarrow> import_state \<Rightarrow> shot_data option \<times> import_state" where
  "shot_valid co th j s =
     (case j of
        JObj kvs \<Rightarrow>
          (let (takes, s') = many (take_valid co th) (fld kvs ''takes'') s
           in ((case (need (of_value (char_value co (Some 200) False) (fld kvs ''name'')), takes,
                      session_ref co (snd s) kvs) of
                  (Some name, Some ts, Some ref) \<Rightarrow> Some (name, ref, ts) | _ \<Rightarrow> None), s'))
      | _ \<Rightarrow> (None, s))"

record session_data =
  sd_project :: pk
  sd_name :: string
  sd_start_time :: time
  sd_frontal_cam_id :: "string option"
  sd_shots :: "shot_data list"

definition session_valid :: "coercions \<Rightarrow> thumbs \<Rightarrow> json \<Rightarrow> import_state \<Rightarrow> session_data option \<times> import_state" where
  "session_valid co th j s =
     (case j of
        JObj kvs \<Rightarrow>
          (let (shots, s') = many (shot_valid co th) (fld kvs ''shots'') s
           in (do {
                 project \<leftarrow> need (of_value (pk_value co (db_projects (snd s))) (fld kvs ''project_id''));
                 name \<leftarrow> need (of_value (char_value co (Some 200) False) (fld kvs ''name''));
                 start_time \<leftarrow> need (of_value (co_date co) (fld kvs ''start_time''));
                 frontal \<leftarrow> opt None (of_null_value (char_value co (Some 200) True) (fld kvs ''frontal_cam_id''));
                 sh \<leftarrow> shots;
                 Some \<lparr>sd_project = project, sd_name = name, sd_start_time = start_time,
                   sd_frontal_cam_id = frontal, sd_shots = sh\<rparr>
               }, s'))
      | _ \<Rightarrow> (None, s))"

section \<open>Creation\<close>

text \<open>
  \<open>Shot.objects.create(session=session, **shot_data)\<close>: when the data has a session of its own
  the call has two values for one argument. The rows that exist by then stay, nothing is rolled back.
\<close>

definition add_shot :: "env \<Rightarrow> pk \<Rightarrow> shot_data \<Rightarrow> db \<Rightarrow> db \<times> py_exn option" where
  "add_shot e session sd d =
     (case sd of
        (name, None, takes) \<Rightarrow> (create_shot_tree e session (name, takes) d, None)
      | (name, Some _, takes) \<Rightarrow> (d, Some TypeError))"

definition create_session_tree :: "env \<Rightarrow> session_data \<Rightarrow> db \<Rightarrow> db \<times> (py_exn + pk)" where
  "create_session_tree e sd d =
     (let (k, t) = t_create ((new_session (e_now e) (sd_name sd) (sd_project sd))
            \<lparr>se_frontal_cam_id := sd_frontal_cam_id sd\<rparr>) (db_sessions d)
      in case for_each (add_shot e k) (sd_shots sd) (d\<lparr>db_sessions := t\<rparr>) of
           (d', Some x) \<Rightarrow> (d', Inl x)
         | (d', None) \<Rightarrow> (d', Inr k))"

text \<open>\<open>POST\<close> to \<open>SessionExportViewSet\<close>; the state has the number of names drawn so far.\<close>

definition post_session_export ::
    "coercions \<Rightarrow> thumbs \<Rightarrow> env \<Rightarrow> json \<Rightarrow> import_state \<Rightarrow> import_state \<times> pk outcome" where
  "post_session_export co th e j s =
     (case session_valid co th j s of
        (None, s') \<Rightarrow> (s', Http 400)
      | (Some sd, (n, d)) \<Rightarrow>
          (case create_session_tree e sd d of
             (d', Inl x) \<Rightarrow> ((n, d'), Raised x)
           | (d', Inr k) \<Rightarrow> ((n, d'), Json 201 k)))"

text \<open>\<open>POST\<close> to \<open>ShotViewSet\<close>: without a session the column that may not be null is refused.\<close>

definition post_shot ::
    "coercions \<Rightarrow> thumbs \<Rightarrow> env \<Rightarrow> json \<Rightarrow> import_state \<Rightarrow> import_state \<times> pk outcome" where
  "post_shot co th e j s =
     (case shot_valid co th j s of
        (None, s') \<Rightarrow> (s', Http 400)
      | (Some (name, None, takes), s') \<Rightarrow> (s', Raised IntegrityError)
      | (Some (name, Some session, takes), (n, d)) \<Rightarrow>
          ((n, create_shot_tree e session (name, takes) d), Json 201 (next_pk (db_shots d))))"

end
