(* ===== verification/Archive_Correct.thy ===== *)
theory Archive_Correct
  imports Archive_Views Farm_Correct Capture_Correct
begin

text \<open>
  What makes the archive correct: the files of a recording are those an export or a deletion
  lists, only administrators change the archive, a thumbnail job cannot run before its export
  job has succeeded, and deleting takes leaves no reference to what is gone. The
  priorities that grow over an export, and the numbers of imported takes, are stated as
  the code has them.
\<close>

section \<open>The files of a take\<close>

lemma split_on_nonempty [simp]: "split_on c s \<noteq> []"
  by (induction s) (auto split: list.splits)

lemma split_on_clean: "c \<notin> set x \<Longrightarrow> split_on c x = [x]"
  by (induction x) auto

lemma split_on_append: "c \<notin> set x \<Longrightarrow> split_on c (x @ c # s) = x # split_on c s"
  by (induction x) auto

lemma join_with_Cons: "join_with sep (x # y # ys) = x @ sep @ join_with sep (y # ys)"
  by (simp add: join_with_def)

lemma split_join:
  "xs \<noteq> [] \<Longrightarrow> \<forall>x \<in> set xs. c \<notin> set x \<Longrightarrow> split_on c (join_with [c] xs) = xs"
proof (induction xs)
  case (Cons x xs)
  show ?case
  proof (cases xs)
    case Nil
    with Cons show ?thesis by (simp add: join_with_def split_on_clean)
  next
    case (Cons y ys)
    with Cons.IH Cons.prems show ?thesis
      by (simp add: join_with_Cons split_on_append)
  qed
qed simp

text \<open>
  C37: a recording registers the files of a camera, none with a semicolon in its name. An
  export hands exactly these files to the machine of the camera, each with the export folder. A deletion of a
  take that was not exported lists exactly these files for the machine; a deletion of an exported take lists
  them and then, for each, the copy of the same name in the folder of the export. A camera without any file
  is the exception in both: then one file with an empty name stands in the lists.
\<close>

theorem recorded_files_exported:
  assumes files: "\<forall>f \<in> set (all_files c). CHR '';'' \<notin> set f"
    and fs: "fs = (if all_files c = [] then [[]] else all_files c)"
    and cam: "cam = recorded_camera tk m c rot rec ms folder thumb"
  shows "camera_files cam = Inr fs \<and>
    export_camera path cam [] = ([(m, map (\<lambda>f. (f, path)) fs)], None) \<and>
    (\<forall>t. \<not> truthy (tk_export_path t) \<longrightarrow> snd (fst (doomed_camera t cam ([], []))) = [(m, fs)]) \<and>
    (\<forall>t p. tk_export_path t = Some p \<and> p \<noteq> [] \<longrightarrow>
      snd (fst (doomed_camera t cam ([], []))) = [(m, fs @ map (\<lambda>f. path_join p (base_name f)) fs)])"
proof -
  have "split_on CHR '';'' (join_with '';'' (all_files c)) = fs"
    using split_join [of "all_files c" "CHR '';''"] files by (simp add: fs join_with_def)
  then have f: "camera_files cam = Inr fs"
    by (simp add: cam camera_files_def recorded_camera_def)
  have m: "ac_machine_name cam = m" by (simp add: cam recorded_camera_def)
  have none: "(case tk_export_path t of None \<Rightarrow> [] | Some p \<Rightarrow> if p = [] then [] else map (\<lambda>f. path_join p (base_name f)) fs) = []"
    if "\<not> truthy (tk_export_path t)" for t
    using that by (cases "tk_export_path t") (auto simp: truthy_def)
  show ?thesis
    by (simp add: f m export_camera_def doomed_camera_def Let_def) (use none in blast)
qed

lemma recorded_files_exported_witness:
  "camera_files (recorded_camera 1 ''cap06''
     (untracked_camera\<lparr>cs_recorder := Some ([''D:/a.avi'', ''D:/b.avi''], 10)\<rparr>) 0 ([''D:/a.avi''], 10)
     \<lparr>ms_meta_filename = ''m'', ms_bitdepth = 8, ms_frame_count = 1, ms_missing_frames = 0, ms_duration = 1\<rparr>
     ''D:'' ''t'') = Inr [''D:/a.avi'', ''D:/b.avi'']"
proof -
  let ?c = "untracked_camera\<lparr>cs_recorder := Some ([''D:/a.avi'', ''D:/b.avi''], 10)\<rparr>"
  have a: "all_files ?c = [''D:/a.avi'', ''D:/b.avi'']"
    by (simp add: all_files_def untracked_camera_def)
  then have "\<forall>f \<in> set (all_files ?c). CHR '';'' \<notin> set f" by simp
  from recorded_files_exported [OF this refl refl] a show ?thesis by simp
qed

section \<open>Only administrators change the archive\<close>

datatype archive_command =
    SetFlag flag_request
  | SetFrontalCam pk "string option"
  | CreateTrackingAsset pk pyfloat pyfloat
  | DeleteTakes "pk list option"
  | ExportTakes "pk list option" "string option"

fun archive_view :: "env \<Rightarrow> archive_command \<Rightarrow> db \<Rightarrow> db \<times> string outcome" where
  "archive_view e (SetFlag q) d = post_set_take_flag e q d"
| "archive_view e (SetFrontalCam s c) d = post_set_frontal_cam e s c d"
| "archive_view e (CreateTrackingAsset k a b) d = post_create_tracking_asset e k a b d"
| "archive_view e (DeleteTakes ids) d = post_delete_takes e ids d"
| "archive_view e (ExportTakes ids p) d = post_export_takes e ids p d"

definition is_admin :: "env \<Rightarrow> archive_command \<Rightarrow> db \<Rightarrow> bool" where
  "is_admin e c d = u_is_superuser (e_user e)"

interpretation av: guarded_view archive_view is_admin
proof unfold_locales
  fix e r d assume "\<not> is_admin e r d"
  then have "archive_view e r d = (d, Http 403)"
    by (cases r) (simp_all add: is_admin_def post_set_take_flag_def post_set_frontal_cam_def
        post_create_tracking_asset_def post_delete_takes_def post_export_takes_def)
  then show "fst (archive_view e r d) = d" "http_status (snd (archive_view e r d)) \<noteq> 200"
    by simp_all
qed

definition serve_archive :: "(env \<times> archive_command) list \<Rightarrow> db \<Rightarrow> db" where
  "serve_archive = fold (\<lambda>(e, c) d. fst (archive_view e c d))"

text \<open>
  Whatever requests to flag, delete or export takes, to set the frontal camera or
  to create tracking assets are sent by users who are not administrators, the database is left
  exactly as it was.
\<close>

theorem archive_needs_admin:
  assumes "\<forall>(e, c) \<in> set rs. \<not> u_is_superuser (e_user e)"
  shows "serve_archive rs d = d"
proof -
  have "serve_archive = av.serve" by (simp add: serve_archive_def av.serve_def fun_eq_iff)
  with av.serve_denied [of rs d] assms show ?thesis by (simp add: is_admin_def)
qed

lemma archive_needs_admin_witness:
  "serve_archive [(stage_env, DeleteTakes (Some [1])), (stage_env, ExportTakes (Some [1]) (Some ''/x''))] stage = stage"
  by (rule archive_needs_admin) (simp add: stage_env_def)

section \<open>Exports\<close>

text \<open>
  C38: the thumbnail job an export creates becomes ready with the export job as its
  only dependency, so it is not handed to a node before the export job has succeeded,
  and no other job is changed.
\<close>

theorem thumbnails_wait_for_export:
  assumes wf: "wf_table (db_jobs d)" and j1: "t_get (db_jobs d) job1 = Some x"
  shows "\<exists>k j. t_get (db_jobs d) k = None \<and>
    t_get (db_jobs (dependent_thumbnails e prio path scan tk job1 d)) k = Some j \<and>
    fj_status j = Ready \<and> fj_priority j = prio \<and> fj_dependencies j = [job1] \<and>
    (dependencies_ok (dependent_thumbnails e prio path scan tk job1 d) j \<longleftrightarrow> fj_status x = Success) \<and>
    (\<forall>i. i \<noteq> k \<longrightarrow> t_get (db_jobs (dependent_thumbnails e prio path scan tk job1 d)) i = t_get (db_jobs d) i)"
proof -
  let ?k = "next_pk (db_jobs d)"
  define job where "job = (thumbnail_job e)\<lparr>fj_params := Some (to_json (JObj [(''take_export_path'', JStr path)])),
            fj_ext_scan_assets := scan, fj_ext_take := tk, fj_priority := prio\<rparr>"
  define d1 where "d1 = add_job_dependency ?k job1 (snd (create_job job d))"
  have D: "dependent_thumbnails e prio path scan tk job1 d = save_job (e_now e) ?k (job\<lparr>fj_status := Ready\<rparr>) d1"
    by (simp add: dependent_thumbnails_def Let_def job_def d1_def)
  have jb: "fj_dependencies job = []" "fj_priority job = prio"
    by (simp_all add: job_def thumbnail_job_def new_farm_job_def)
  have rows1: "t_get (db_jobs d1) i = (if i = ?k then Some (job\<lparr>fj_dependencies := [job1]\<rparr>) else t_get (db_jobs d) i)" for i
    unfolding d1_def add_job_dependency_def using jb
    by (auto simp: t_get_update jobs_create_job [OF wf] option.map_comp comp_def option.map_ident)
  let ?j = "stamp (e_now e) d1 ?k (job\<lparr>fj_status := Ready\<rparr>)"
  have rows: "t_get (db_jobs (save_job (e_now e) ?k (job\<lparr>fj_status := Ready\<rparr>) d1)) i =
      (if i = ?k then Some ?j else t_get (db_jobs d) i)" for i
    by (simp add: jobs_save_job rows1)
  have j: "fj_status ?j = Ready" "fj_priority ?j = prio" "fj_dependencies ?j = [job1]"
    by (simp_all add: rows1 jb)
  have "job1 \<noteq> ?k" using j1 t_get_fresh [OF wf] by auto
  then have "dependencies_ok (save_job (e_now e) ?k (job\<lparr>fj_status := Ready\<rparr>) d1) ?j \<longleftrightarrow> fj_status x = Success"
    using j(3) rows [of job1] j1 by (simp add: dependencies_ok_def)
  then show ?thesis
    unfolding D using j rows t_get_fresh [OF wf] by (intro exI [of _ ?k] exI [of _ ?j]) simp
qed

lemma thumbnails_wait_for_export_witness:
  "\<exists>k j. t_get (db_jobs (dependent_thumbnails sample_env 50 ''/x'' None (Some 1) 3 sample_queue)) k = Some j \<and>
     \<not> dependencies_ok (dependent_thumbnails sample_env 50 ''/x'' None (Some 1) 3 sample_queue) j"
proof -
  have "t_get (db_jobs sample_queue) 3 = Some ((sample_job Ready)\<lparr>fj_priority := 80\<rparr>)"
    by (simp add: sample_queue_def farm_with_def t_get_def)
  from thumbnails_wait_for_export [OF farm_invD(1) [OF sample_queue_inv] this,
      of sample_env 50 "''/x''" None "Some 1"]
  obtain k j where "t_get (db_jobs (dependent_thumbnails sample_env 50 ''/x'' None (Some 1) 3 sample_queue)) k = Some j"
    and "dependencies_ok (dependent_thumbnails sample_env 50 ''/x'' None (Some 1) 3 sample_queue) j
      \<longleftrightarrow> fj_status ((sample_job Ready)\<lparr>fj_priority := 80\<rparr>) = Success"
    by blast
  moreover have "fj_status ((sample_job Ready)\<lparr>fj_priority := 80\<rparr>) \<noteq> Success" by (simp add: sample_job_def)
  ultimately show ?thesis by blast
qed

text \<open>The takes of an export, in order, with their flags and frame counts.\<close>

fun priorities :: "(string \<times> int option) list \<Rightarrow> int \<Rightarrow> int list" where
  "priorities [] p = []"
| "priorities ((flag, frames) # ts) p = (let q = export_priority flag frames p in q # priorities ts q)"

text \<open>
  The priority an export gives to the jobs of a take depends on the takes before
  it: in an export of single-frame takes without a flag the n-th take gets priority 50 + n, so a
  long export of stills overtakes calibration takes, whose priority is 55 or 56.
\<close>

theorem export_priorities_grow:
  assumes "n < m"
  shows "priorities (replicate m (''none'', Some 1)) 50 ! n = 51 + int n"
proof -
  have "priorities (replicate m (''none'', Some 1)) p ! n = p + 1 + int n" for p
    using assms
  proof (induction m arbitrary: p n)
    case (Suc m)
    then show ?case
      by (cases n) (simp_all add: export_priority_def Let_def)
  qed simp
  from this [of 50] show ?thesis by simp
qed

lemma export_priorities_grow_witness:
  "priorities (replicate 10 (''none'', Some 1)) 50 ! 9 = 60 \<and> export_priority ''calib'' (Some 1) 50 = 56"
  using export_priorities_grow [of 9 10]
  by (simp add: export_priority_def)

section \<open>Deleting takes\<close>

text \<open>The references to takes and tracking assets find their rows.\<close>

definition archive_refs :: "db \<Rightarrow> bool" where
  "archive_refs d \<longleftrightarrow>
     (\<forall>k c. t_get (db_acameras d) k = Some c \<longrightarrow> ac_take c \<in> t_keys (db_takes d)) \<and>
     (\<forall>k a. t_get (db_tracks d) k = Some a \<longrightarrow> ta_take a \<in> t_keys (db_takes d)) \<and>
     (\<forall>k a. t_get (db_scans d) k = Some a \<longrightarrow>
        set_option (sa_take a) \<subseteq> t_keys (db_takes d) \<and>
        set_option (sa_associated_tracking_asset a) \<subseteq> t_keys (db_tracks d)) \<and>
     (\<forall>k j. t_get (db_jobs d) k = Some j \<longrightarrow>
        set_option (fj_ext_take j) \<subseteq> t_keys (db_takes d) \<and>
        set_option (fj_ext_tracking_assets j) \<subseteq> t_keys (db_tracks d)) \<and>
     (\<forall>k s. t_get (db_sessions d) k = Some s \<longrightarrow>
        set_option (se_master_calib s) \<union> set_option (se_master_colorchart s) \<union> set_option (se_neutral_take s)
          \<subseteq> t_keys (db_takes d))"

lemma set_forget: "set_option (forget ids k) = set_option k - set ids"
  by (auto simp: forget_def split: option.splits)

lemma t_keys_delete:
  assumes "wf_table t"
  shows "k \<in> t_keys (t_delete P t) \<longleftrightarrow> (\<exists>r. t_get t k = Some r \<and> \<not> P k r)"
  using t_get_delete [OF assms, of P k] by (auto simp: t_keys_get split: option.splits if_splits)

text \<open>
  C40: in an archive with unique keys where the references to takes and tracking assets find
  their rows, deleting takes removes exactly these takes with their cameras and tracking assets, the rows of all other takes,
  cameras and tracking assets are untouched, and afterwards no camera, asset, job or session
  refers to what was deleted.
\<close>

theorem delete_takes_no_dangling:
  assumes wf: "wf_table (db_takes d)" "wf_table (db_acameras d)" "wf_table (db_tracks d)"
    and refs: "archive_refs d"
  shows "archive_refs (delete_takes ids d) \<and>
    (\<forall>k. t_get (db_takes (delete_takes ids d)) k = (if k \<in> set ids then None else t_get (db_takes d) k)) \<and>
    (\<forall>k. t_get (db_acameras (delete_takes ids d)) k = (case t_get (db_acameras d) k of None \<Rightarrow> None
       | Some c \<Rightarrow> if ac_take c \<in> set ids then None else Some c)) \<and>
    (\<forall>k. t_get (db_tracks (delete_takes ids d)) k = (case t_get (db_tracks d) k of None \<Rightarrow> None
       | Some a \<Rightarrow> if ta_take a \<in> set ids then None else Some a))"
proof -
  let ?T = "tracks_of_takes ids d" and ?d = "delete_takes ids d"
  have T: "k \<in> set ?T \<longleftrightarrow> (\<exists>a. t_get (db_tracks d) k = Some a \<and> ta_take a \<in> set ids)" for k
    using t_filter_iff [OF wf(3), of k _ "\<lambda>_ a. ta_take a \<in> set ids"]
    by (force simp: tracks_of_takes_def)
  have takes: "t_get (db_takes ?d) k = (if k \<in> set ids then None else t_get (db_takes d) k)" for k
    by (simp add: delete_takes_def Let_def t_get_delete [OF wf(1)] split: option.splits)
  have cams: "t_get (db_acameras ?d) k = (case t_get (db_acameras d) k of None \<Rightarrow> None
       | Some c \<Rightarrow> if ac_take c \<in> set ids then None else Some c)" for k
    by (simp add: delete_takes_def Let_def t_get_delete [OF wf(2)])
  have tracks: "t_get (db_tracks ?d) k = (case t_get (db_tracks d) k of None \<Rightarrow> None
       | Some a \<Rightarrow> if ta_take a \<in> set ids then None else Some a)" for k
    using T [of k] by (auto simp: delete_takes_def Let_def t_get_delete [OF wf(3)] split: option.splits)
  have kt: "t_keys (db_takes ?d) = t_keys (db_takes d) - set ids"
    by (auto simp: t_keys_get takes split: if_splits)
  have ktr: "t_keys (db_tracks ?d) = t_keys (db_tracks d) - set ?T"
    using T by (auto simp: t_keys_get tracks split: option.splits if_splits)
  have scans: "t_get (db_scans ?d) k = map_option (\<lambda>a. a\<lparr>sa_take := forget ids (sa_take a),
        sa_associated_tracking_asset := forget ?T (sa_associated_tracking_asset a)\<rparr>) (t_get (db_scans d) k)" for k
    by (simp add: delete_takes_def Let_def t_get_update)
  have jobs: "t_get (db_jobs ?d) k = map_option (\<lambda>j. j\<lparr>fj_ext_take := forget ids (fj_ext_take j),
        fj_ext_tracking_assets := forget ?T (fj_ext_tracking_assets j)\<rparr>) (t_get (db_jobs d) k)" for k
    by (simp add: delete_takes_def Let_def t_get_update)
  have sess: "t_get (db_sessions ?d) k = map_option (\<lambda>s. s\<lparr>se_master_calib := forget ids (se_master_calib s),
        se_master_colorchart := forget ids (se_master_colorchart s),
        se_neutral_take := forget ids (se_neutral_take s)\<rparr>) (t_get (db_sessions d) k)" for k
    by (simp add: delete_takes_def Let_def t_get_update)
  have "archive_refs ?d"
    unfolding archive_refs_def kt ktr
  proof (intro conjI allI impI)
    show "ac_take c \<in> t_keys (db_takes d) - set ids" if "t_get (db_acameras ?d) k = Some c" for k c
      using that refs by (auto simp: cams archive_refs_def split: option.splits if_splits)
    show "ta_take a \<in> t_keys (db_takes d) - set ids" if "t_get (db_tracks ?d) k = Some a" for k a
      using that refs by (auto simp: tracks archive_refs_def split: option.splits if_splits)
    fix k a assume "t_get (db_scans ?d) k = Some a"
    then obtain a0 where "t_get (db_scans d) k = Some a0" "sa_take a = forget ids (sa_take a0)"
      "sa_associated_tracking_asset a = forget ?T (sa_associated_tracking_asset a0)"
      by (auto simp: scans)
    then show "set_option (sa_take a) \<subseteq> t_keys (db_takes d) - set ids"
      "set_option (sa_associated_tracking_asset a) \<subseteq> t_keys (db_tracks d) - set ?T"
      using refs unfolding archive_refs_def by (metis set_forget Diff_mono order_refl)+
  next
    fix k j assume "t_get (db_jobs ?d) k = Some j"
    then obtain j0 where "t_get (db_jobs d) k = Some j0" "fj_ext_take j = forget ids (fj_ext_take j0)"
      "fj_ext_tracking_assets j = forget ?T (fj_ext_tracking_assets j0)"
      by (auto simp: jobs)
    then show "set_option (fj_ext_take j) \<subseteq> t_keys (db_takes d) - set ids"
      "set_option (fj_ext_tracking_assets j) \<subseteq> t_keys (db_tracks d) - set ?T"
      using refs unfolding archive_refs_def by (metis set_forget Diff_mono order_refl)+
  next
    fix k s assume "t_get (db_sessions ?d) k = Some s"
    then obtain s0 where "t_get (db_sessions d) k = Some s0"
      "se_master_calib s = forget ids (se_master_calib s0)"
      "se_master_colorchart s = forget ids (se_master_colorchart s0)"
      "se_neutral_take s = forget ids (se_neutral_take s0)"
      by (auto simp: sess)
    then show "set_option (se_master_calib s) \<union> set_option (se_master_colorchart s) \<union> set_option (se_neutral_take s)
        \<subseteq> t_keys (db_takes d) - set ids"
      using refs unfolding archive_refs_def by (simp add: set_forget) blast
  qed
  then show ?thesis using takes cams tracks by blast
qed

definition sample_archive :: db where
  "sample_archive = empty_db
     \<lparr>db_takes := \<lparr>rows = [(1, new_take 0 ''Take_0001'' 3 1 False False)], next_pk = 2\<rparr>,
      db_jobs := \<lparr>rows = [(5, (sample_job Ready)\<lparr>fj_ext_take := Some 1\<rparr>)], next_pk = 6\<rparr>\<rparr>"

lemma delete_takes_no_dangling_witness:
  "archive_refs (delete_takes [1] sample_archive) \<and> t_get (db_takes (delete_takes [1] sample_archive)) 1 = None"
proof -
  have "wf_table (db_takes sample_archive)" "wf_table (db_acameras sample_archive)" "wf_table (db_tracks sample_archive)"
    by (simp_all add: sample_archive_def empty_db_def wf_table_def t_keys_def t_empty_def)
  moreover have "archive_refs sample_archive"
    by (simp add: archive_refs_def sample_archive_def sample_simps t_get_def t_keys_def)
  ultimately show ?thesis using delete_takes_no_dangling [of sample_archive "[1]"] by simp
qed

section \<open>Imported takes\<close>

lemma create_take_tree_shots: "db_shots (create_take_tree e shk td d) = db_shots d"
proof -
  have "db_shots (fold (\<lambda>c d. create_archive_camera (c\<lparr>ac_take := k\<rparr>) d) cs d) = db_shots d" for k cs d
    by (induction cs arbitrary: d) (simp_all add: create_archive_camera_def)
  then show ?thesis
    by (simp add: create_take_tree_def Let_def case_prod_beta split: option.splits)
qed

lemma create_take_tree_takes:
  assumes "wf_table (db_takes d)"
  shows "wf_table (db_takes (create_take_tree e shk td d))"
    "t_get (db_takes (create_take_tree e shk td d)) i =
      (if i = next_pk (db_takes d) then Some ((fst td)\<lparr>tk_shot := shk, tk_capture_time := e_now e\<rparr>)
       else t_get (db_takes d) i)"
proof -
  have "db_takes (fold (\<lambda>c d. create_archive_camera (c\<lparr>ac_take := k\<rparr>) d) cs d) = db_takes d" for k cs d
    by (induction cs arbitrary: d) (simp_all add: create_archive_camera_def)
  then have eq: "db_takes (create_take_tree e shk td d) =
      snd (t_create ((fst td)\<lparr>tk_shot := shk, tk_capture_time := e_now e\<rparr>) (db_takes d))"
    by (simp add: create_take_tree_def Let_def case_prod_beta split: option.splits)
  show "wf_table (db_takes (create_take_tree e shk td d))"
    unfolding eq using assms by (rule wf_t_create)
  show "t_get (db_takes (create_take_tree e shk td d)) i =
      (if i = next_pk (db_takes d) then Some ((fst td)\<lparr>tk_shot := shk, tk_capture_time := e_now e\<rparr>)
       else t_get (db_takes d) i)"
    unfolding eq by (rule t_get_create [OF assms])
qed

lemma create_takes_shots: "db_shots (fold (create_take_tree e shk) tds d) = db_shots d"
  by (induction tds arbitrary: d) (simp_all add: create_take_tree_shots)

lemma create_takes_takes:
  assumes "wf_table (db_takes d)" "td \<in> set tds"
  shows "\<exists>i t. t_get (db_takes (fold (create_take_tree e shk) tds d)) i = Some t \<and> tk_shot t = shk \<and>
    tk_sequence t = tk_sequence (fst td)"
  using assms
proof (induction tds arbitrary: d)
  case (Cons x tds)
  let ?d = "create_take_tree e shk x d"
  have wf: "wf_table (db_takes ?d)" using Cons.prems(1) by (rule create_take_tree_takes)
  have keep: "t_get (db_takes s) i = Some t \<longrightarrow> t_get (db_takes (fold (create_take_tree e shk) xs s)) i = Some t"
    if "wf_table (db_takes s)" for s xs i t
    using that
  proof (induction xs arbitrary: s)
    case (Cons y ys)
    have "wf_table (db_takes (create_take_tree e shk y s))"
      using Cons.prems by (rule create_take_tree_takes)
    note ih = Cons.IH [OF this]
    have "t_get (db_takes (create_take_tree e shk y s)) i = Some t" if "t_get (db_takes s) i = Some t"
    proof -
      have "i \<noteq> next_pk (db_takes s)" using that t_get_fresh [OF Cons.prems] by auto
      with that show ?thesis using create_take_tree_takes(2) [OF Cons.prems, of e shk y i] by simp
    qed
    with ih show ?case by simp
  qed simp
  show ?case
  proof (cases "td = x")
    case True
    have "t_get (db_takes ?d) (next_pk (db_takes d)) = Some ((fst x)\<lparr>tk_shot := shk, tk_capture_time := e_now e\<rparr>)"
      using create_take_tree_takes(2) [OF Cons.prems(1), of e shk x "next_pk (db_takes d)"] by simp
    with keep [OF wf] True show ?thesis by fastforce
  next
    case False
    with Cons.prems Cons.IH [OF wf] show ?thesis by simp
  qed
qed simp

text \<open>
  An imported shot starts with take number 1 whatever the numbers of its takes
  are: with any take in it, the takes of the shot are no longer below its next number.
\<close>

theorem import_restarts_numbering:
  assumes wf: "wf_table (db_takes d)" "wf_table (db_shots d)"
    and td: "td \<in> set tds" "1 \<le> tk_sequence (fst td)"
  shows "\<exists>k sh. t_get (db_shots (create_shot_tree e se (name, tds) d)) k = Some sh \<and>
    t_get (db_shots d) k = None \<and> sh_name sh = name \<and> sh_next_take sh = 1 \<and>
    (\<exists>i t. t_get (db_takes (create_shot_tree e se (name, tds) d)) i = Some t \<and> tk_shot t = k \<and>
       tk_sequence t = tk_sequence (fst td)) \<and>
    \<not> takes_numbered (create_shot_tree e se (name, tds) d)"
proof -
  let ?k = "next_pk (db_shots d)"
  let ?d0 = "d\<lparr>db_shots := snd (t_create (new_shot name se) (db_shots d))\<rparr>"
  have D: "create_shot_tree e se (name, tds) d = fold (create_take_tree e ?k) tds ?d0"
    by (simp add: create_shot_tree_def case_prod_beta)
  have sh: "t_get (db_shots (create_shot_tree e se (name, tds) d)) ?k = Some (new_shot name se)"
    unfolding D create_takes_shots by (simp add: t_get_create [OF wf(2)])
  have "wf_table (db_takes ?d0)" using wf(1) by simp
  from create_takes_takes [OF this td(1), of e ?k] obtain i t where
    t: "t_get (db_takes (create_shot_tree e se (name, tds) d)) i = Some t" "tk_shot t = ?k"
      "tk_sequence t = tk_sequence (fst td)"
    unfolding D by blast
  have n: "sh_next_take (new_shot name se) = 1" "sh_name (new_shot name se) = name"
    by (simp_all add: new_shot_def)
  have "\<not> takes_numbered (create_shot_tree e se (name, tds) d)"
    using takes_numberedD(1) [of "create_shot_tree e se (name, tds) d" i t "new_shot name se"] t sh n td(2)
    by auto
  then show ?thesis using sh t n t_get_fresh [OF wf(2)] by blast
qed

lemma import_restarts_numbering_witness:
  "\<not> takes_numbered (create_shot_tree stage_env 2 (''old'', [(new_take 0 ''Take_0007'' 1 7 False False, None)]) stage)"
proof -
  let ?td = "(new_take 0 ''Take_0007'' 1 7 False False, None) :: take_data"
  have "wf_table (db_shots stage)" by (simp add: stage_simps wf_table_def t_keys_def)
  moreover have "?td \<in> set [?td]" "1 \<le> tk_sequence (fst ?td)" by (simp_all add: new_take_def)
  ultimately show ?thesis
    using import_restarts_numbering [OF stage_numbered(2), of ?td "[?td]" stage_env 2 "''old''"] by blast
qed

end
