(* ===== verification/Session_Copy.thy ===== *)
theory Session_Copy
  imports Session_Exchange Archive_Correct
begin

text \<open>
  What makes the exchange of sessions correct: everything that passes the validation fits
  the columns it is stored in; the exported document of a session is not accepted by the same
  serializer that wrote it; and a document with the two repairs that are needed creates a copy of the
  session.
\<close>

section \<open>Stripping a text\<close>

definition stripped :: "string \<Rightarrow> bool" where
  "stripped s \<longleftrightarrow> s = [] \<or> (\<not> py_space (hd s) \<and> \<not> py_space (last s))"

lemma dropWhile_id: "xs = [] \<or> \<not> P (hd xs) \<Longrightarrow> dropWhile P xs = xs"
  by (cases xs) auto

lemma strip_id: "stripped s \<Longrightarrow> strip s = s"
  by (auto simp: strip_def stripped_def dropWhile_id hd_rev)

lemma stripped_strip: "stripped (strip s)"
proof (cases "strip s = []")
  case False
  let ?a = "dropWhile py_space s"
  let ?b = "dropWhile py_space (rev ?a)"
  have b: "?b \<noteq> []" using False by (simp add: strip_def)
  then have "\<not> py_space (hd ?b)" by (metis hd_dropWhile)
  then have l: "\<not> py_space (last (strip s))" using b by (simp add: strip_def last_rev)
  have a: "?a \<noteq> []" using b by (cases "?a") simp_all
  then have h: "\<not> py_space (hd ?a)" by (metis hd_dropWhile)
  obtain c where "rev ?a = c @ ?b" by (metis takeWhile_dropWhile_id)
  then have "?a = rev ?b @ rev c" by (metis rev_append rev_rev_ident)
  moreover have "hd (rev ?b @ rev c) = hd (rev ?b)" using b by (intro hd_append2) simp
  ultimately have "hd ?a = hd (strip s)" unfolding strip_def by argo
  with h l show ?thesis by (simp add: stripped_def)
qed (simp add: stripped_def)

section \<open>Values that fit a column\<close>

definition text_fits :: "nat \<Rightarrow> string \<Rightarrow> bool" where
  "text_fits n s \<longleftrightarrow> s \<noteq> [] \<and> stripped s \<and> CHR 0x00 \<notin> set s \<and> length s \<le> n"

definition blank_fits :: "nat \<Rightarrow> string option \<Rightarrow> bool" where
  "blank_fits n s \<longleftrightarrow> (case s of None \<Rightarrow> True | Some x \<Rightarrow> x = [] \<or> text_fits n x)"

definition int_fits :: "int \<Rightarrow> int \<Rightarrow> bool" where
  "int_fits bound i \<longleftrightarrow> - bound \<le> i \<and> i < bound"

definition camera_fits :: "archive_camera \<Rightarrow> bool" where
  "camera_fits c \<longleftrightarrow>
     text_fits 200 (ac_machine_name c) \<and> text_fits 200 (ac_unique_id c) \<and>
     text_fits 200 (ac_model c) \<and> text_fits 200 (ac_version c) \<and> text_fits 250 (ac_folder c) \<and>
     blank_fits 250 (ac_thumbnail_filename c) \<and>
     int_fits int32 (ac_width c) \<and> int_fits int32 (ac_height c) \<and> int_fits int32 (ac_bitdepth c) \<and>
     int_fits int32 (ac_frame_count c) \<and> int_fits int32 (ac_dropped_frames c) \<and>
     int_fits int64 (ac_total_size c) \<and> int_fits int32 (ac_rotation c) \<and>
     (\<forall>f. ac_all_files c = Some f \<longrightarrow> f \<noteq> [] \<and> stripped f \<and> CHR 0x00 \<notin> set f)"

definition take_fits :: "take \<Rightarrow> bool" where
  "take_fits t \<longleftrightarrow>
     text_fits 200 (tk_name t) \<and> int_fits int32 (tk_sequence t) \<and> tk_flag t \<in> set take_flags \<and>
     blank_fits 250 (tk_export_path t) \<and> blank_fits 250 (tk_work_folder t) \<and>
     blank_fits 250 (tk_video_thumb t) \<and> blank_fits 32 (tk_colorspace t)"

definition take_data_fits :: "take_data \<Rightarrow> bool" where
  "take_data_fits td \<longleftrightarrow> take_fits (fst td) \<and> (\<forall>cs. snd td = Some cs \<longrightarrow> list_all camera_fits cs)"

definition shot_data_fits :: "db \<Rightarrow> shot_data \<Rightarrow> bool" where
  "shot_data_fits d sd \<longleftrightarrow> text_fits 200 (fst sd) \<and> list_all take_data_fits (snd (snd sd)) \<and>
     (\<forall>k. fst (snd sd) = Some k \<longrightarrow> t_get (db_sessions d) k \<noteq> None)"

definition session_data_fits :: "db \<Rightarrow> session_data \<Rightarrow> bool" where
  "session_data_fits d sd \<longleftrightarrow>
     text_fits 200 (sd_name sd) \<and> t_get (db_projects d) (sd_project sd) \<noteq> None \<and>
     blank_fits 200 (sd_frontal_cam_id sd) \<and>
     list_all (shot_data_fits d) (sd_shots sd)"

lemma char_value_fits:
  "char_value co (Some n) False j = Some s \<Longrightarrow> text_fits n s"
  "char_value co (Some n) True j = Some s \<Longrightarrow> blank_fits n (Some s)"
  "char_value co None False j = Some s \<Longrightarrow> s \<noteq> [] \<and> stripped s \<and> CHR 0x00 \<notin> set s"
  by (auto simp: char_value_def text_fits_def blank_fits_def Let_def stripped_strip
      split: option.splits if_splits)

lemma char_value_id:
  "text_fits n s \<Longrightarrow> char_value co (Some n) blank (JStr s) = Some s"
  "blank_fits n (Some s) \<Longrightarrow> char_value co (Some n) True (JStr s) = Some s"
  "s \<noteq> [] \<Longrightarrow> stripped s \<Longrightarrow> CHR 0x00 \<notin> set s \<Longrightarrow> char_value co None blank (JStr s) = Some s"
  by (auto simp: char_value_def text_fits_def blank_fits_def Let_def strip_id stripped_def)

lemma need_text:
  assumes "need (of_value (char_value co (Some n) False) v) = Some s"
  shows "text_fits n s"
  using assms by (auto simp: need_def of_value_def split: option.splits json.splits field.splits
      dest: char_value_fits)

lemma opt_blank:
  assumes "opt None (of_null_value (char_value co (Some n) True) v) = Some s"
  shows "blank_fits n s"
  using assms by (auto simp: opt_def of_null_value_def blank_fits_def split: option.splits json.splits field.splits
      dest!: char_value_fits)

lemma int_value_fits: "int_value co b j = Some i \<Longrightarrow> int_fits b i"
  by (auto simp: int_value_def int_fits_def split: option.splits if_splits)

lemma need_int:
  assumes "need (of_value (int_value co b) v) = Some i"
  shows "int_fits b i"
  using assms by (auto simp: need_def of_value_def split: option.splits json.splits field.splits
      dest: int_value_fits)

lemma opt_int:
  assumes "opt i0 (of_value (int_value co int32) v) = Some i" "i0 \<in> {0, 1, 8}"
  shows "int_fits int32 i"
  using assms by (auto simp: opt_def of_value_def int_fits_def [of int32 0] int_fits_def [of int32 1] int_fits_def [of int32 8] split: option.splits json.splits field.splits
      dest: int_value_fits)

lemma opt_choice:
  assumes "opt x (of_value (choice_value co cs) v) = Some y" "x \<in> set cs"
  shows "y \<in> set cs"
  using assms by (auto simp: opt_def of_value_def choice_value_def
      split: option.splits json.splits field.splits if_splits)

lemma opt_files:
  assumes "opt None (of_null_value (char_value co None False) v) = Some (Some s)"
  shows "s \<noteq> [] \<and> stripped s \<and> CHR 0x00 \<notin> set s"
  using assms by (auto simp: opt_def of_null_value_def split: option.splits json.splits field.splits
      dest: char_value_fits)

lemmas opt_int_cases = opt_int [of 0, simplified] opt_int [of 1, simplified] opt_int [of 8, simplified]

lemmas field_fits = need_text opt_blank need_int opt_int_cases

lemma camera_fields_fit:
  assumes "camera_fields co kvs = Some (c, b64)"
  shows "camera_fits c"
  using assms unfolding camera_fields_def camera_fits_def
  by (auto simp: bind_eq_Some_conv dest: opt_files dest!: field_fits)

lemma take_fields_fit:
  assumes "take_fields co kvs = Some t"
  shows "take_fits t"
  using assms unfolding take_fields_def take_fits_def
  by (auto simp: bind_eq_Some_conv take_flags_def dest!: field_fits opt_choice)

text \<open>The name of a stored thumbnail fits its column, if the drawn name has at most 36 characters.\<close>

lemma thumbnail_name_fits:
  assumes "text_fits 36 u" "text_fits 200 i"
  shows "text_fits 250 (u @ ''_'' @ i @ ''.jpg'')"
  using assms by (auto simp: text_fits_def stripped_def py_space_def)

lemma validate_camera_fits:
  assumes "camera_fits (fst cb)" "\<forall>n. text_fits 36 (th_uuid th n)"
  shows "camera_fits (fst (validate_camera th cb s))"
proof (cases cb)
  case (Pair c b64)
  with assms show ?thesis
    by (cases s) (auto simp: validate_camera_def camera_fits_def blank_fits_def Let_def
        intro!: thumbnail_name_fits [simplified] split: option.splits)
qed

lemma all_valid_pred:
  assumes "all_valid f js s = (Some xs, s')" "I s" "\<And>j s. I s \<Longrightarrow> I (snd (f j s))"
    "\<And>j s x s'. I s \<Longrightarrow> f j s = (Some x, s') \<Longrightarrow> P x"
  shows "list_all P xs"
  using assms
proof (induction js arbitrary: s xs)
  case (Cons j js)
  obtain x s1 where 1: "f j s = (x, s1)" by force
  obtain ys s2 where 2: "all_valid f js s1 = (ys, s2)" by force
  from Cons.prems(1) 1 2 obtain y zs where y: "x = Some y" "ys = Some zs" "xs = y # zs" "s2 = s'"
    by (auto split: option.splits)
  have "I s1" using Cons.prems(3) [OF Cons.prems(2), of j] 1 by simp
  from Cons.IH [OF _ this Cons.prems(3,4)] 2 y have "list_all P zs" by simp
  with Cons.prems(4) [OF Cons.prems(2)] 1 y show ?case by simp
qed simp

lemma many_pred:
  assumes "many f v s = (Some xs, s')" "I s" "\<And>j s. I s \<Longrightarrow> I (snd (f j s))"
    "\<And>j s x s'. I s \<Longrightarrow> f j s = (Some x, s') \<Longrightarrow> P x"
  shows "list_all P xs"
proof -
  from assms(1) obtain js where "all_valid f js s = (Some xs, s')"
    by (auto simp: many_def split: option.splits json.splits)
  then show ?thesis using assms(2-4) by (rule all_valid_pred)
qed

text \<open>The validation changes files and the count of names, nothing else.\<close>

definition only_files :: "import_state \<Rightarrow> import_state \<Rightarrow> bool" where
  "only_files s s' \<longleftrightarrow> (\<exists>f. snd s' = (snd s)\<lparr>db_files := f\<rparr>)"

lemma only_files_refl [simp]: "only_files s s"
  unfolding only_files_def by (intro exI [of _ "db_files (snd s)"]) simp

lemma only_files_trans: "only_files s s1 \<Longrightarrow> only_files s1 s2 \<Longrightarrow> only_files s s2"
  unfolding only_files_def by fastforce

lemma validate_camera_only: "only_files s (snd (validate_camera th cb s))"
  by (cases cb; cases s)
    (auto simp: validate_camera_def only_files_def Let_def split: option.splits
      intro: exI [of _ "db_files (snd s)"])

lemma camera_valid_only: "only_files s (snd (camera_valid co th j s))"
  using validate_camera_only [of s th]
  by (auto simp: camera_valid_def Let_def case_prod_beta split: json.splits option.splits)

lemma all_valid_only:
  assumes "\<And>j s. only_files s (snd (f j s))"
  shows "only_files s (snd (all_valid f js s))"
proof (induction js arbitrary: s)
  case (Cons j js)
  show ?case
    using only_files_trans [OF assms Cons.IH, of s j] by (simp add: Let_def case_prod_beta)
qed simp

lemma many_only:
  assumes "\<And>j s. only_files s (snd (f j s))"
  shows "only_files s (snd (many f v s))"
  using all_valid_only [OF assms] by (auto simp: many_def split: option.splits json.splits)

lemma take_valid_only: "only_files s (snd (take_valid co th j s))"
  using many_only [OF camera_valid_only]
  by (auto simp: take_valid_def Let_def case_prod_beta split: json.splits)

lemma shot_valid_only: "only_files s (snd (shot_valid co th j s))"
  using many_only [OF take_valid_only]
  by (auto simp: shot_valid_def Let_def case_prod_beta split: json.splits)

lemma session_valid_only: "only_files s (snd (session_valid co th j s))"
  using many_only [OF shot_valid_only]
  by (auto simp: session_valid_def Let_def case_prod_beta split: json.splits)

section \<open>What passes the validation fits\<close>

lemma camera_valid_fits:
  assumes "\<forall>n. text_fits 36 (th_uuid th n)" "camera_valid co th j s = (Some c, s')"
  shows "camera_fits c"
proof -
  from assms(2) obtain kvs cb where cb: "camera_fields co kvs = Some cb"
    and c: "c = fst (validate_camera th cb s)"
    by (auto simp: camera_valid_def Let_def case_prod_beta split: json.splits option.splits)
  have "camera_fits (fst cb)" using cb by (cases cb) (simp add: camera_fields_fit)
  then show ?thesis unfolding c using assms(1) by (rule validate_camera_fits)
qed

lemma take_valid_fits:
  assumes "\<forall>n. text_fits 36 (th_uuid th n)" "take_valid co th j s = (Some td, s')"
  shows "take_data_fits td"
proof -
  from assms(2) obtain kvs t cs s1 where t: "take_fields co kvs = Some t"
    and cs: "many (camera_valid co th) (fld kvs ''cameras'') s = (Some cs, s1)" and td: "td = (t, Some cs)"
    by (auto simp: take_valid_def Let_def split: json.splits option.splits prod.splits)
  have "list_all camera_fits cs"
    using many_pred [OF cs, of "\<lambda>_. True" camera_fits] camera_valid_fits [OF assms(1)] by blast
  then show ?thesis using take_fields_fit [OF t] td by (simp add: take_data_fits_def)
qed

lemma session_ref_exists: "session_ref co d kvs = Some (Some k) \<Longrightarrow> t_get (db_sessions d) k \<noteq> None"
  by (auto simp: session_ref_def of_value_def pk_value_def
      split: field.splits option.splits json.splits if_splits)

lemma shot_valid_fits:
  assumes "\<forall>n. text_fits 36 (th_uuid th n)" "shot_valid co th j s = (Some sd, s')"
  shows "shot_data_fits (snd s) sd"
proof -
  from assms(2) obtain kvs n ts r where
    n: "need (of_value (char_value co (Some 200) False) (fld kvs ''name'')) = Some n"
    and ts: "many (take_valid co th) (fld kvs ''takes'') s = (Some ts, s')"
    and r: "session_ref co (snd s) kvs = Some r" and sd: "sd = (n, r, ts)"
    by (auto simp: shot_valid_def Let_def split: json.splits option.splits prod.splits)
  have "list_all take_data_fits ts"
    using many_pred [OF ts, of "\<lambda>_. True" take_data_fits] take_valid_fits [OF assms(1)] by blast
  with session_ref_exists [of co "snd s" kvs] r need_text [OF n] sd
  show ?thesis by (auto simp: shot_data_fits_def)
qed

lemma need_pk:
  assumes "need (of_value (pk_value co t) v) = Some k"
  shows "t_get t k \<noteq> None"
  using assms by (auto simp: need_def of_value_def pk_value_def
      split: field.splits option.splits json.splits if_splits)

text \<open>
  C22: whatever document is sent and however values are converted, the data of a session that
  passes the validation fits the columns it will be stored in: texts that are neither
  blank nor too long, numbers in the range of their columns, a flag of the list, a project and
  sessions that exist, also with the names of the thumbnails that were written meanwhile.
\<close>

theorem validated_session_fits:
  assumes "\<forall>n. text_fits 36 (th_uuid th n)" "session_valid co th j s = (Some sd, s')"
  shows "session_data_fits (snd s) sd \<and> (\<exists>f. snd s' = (snd s)\<lparr>db_files := f\<rparr>)"
proof -
  let ?I = "\<lambda>s'. db_sessions (snd s') = db_sessions (snd s)"
  from assms(2) obtain kvs sh where
    p: "need (of_value (pk_value co (db_projects (snd s))) (fld kvs ''project_id'')) = Some (sd_project sd)"
    and n: "need (of_value (char_value co (Some 200) False) (fld kvs ''name'')) = Some (sd_name sd)"
    and f: "opt None (of_null_value (char_value co (Some 200) True) (fld kvs ''frontal_cam_id''))
      = Some (sd_frontal_cam_id sd)"
    and sh: "many (shot_valid co th) (fld kvs ''shots'') s = (Some (sd_shots sd), s')"
    by (auto simp: session_valid_def Let_def bind_eq_Some_conv split: json.splits option.splits prod.splits)
  have "list_all (shot_data_fits (snd s)) (sd_shots sd)"
  proof (rule many_pred [OF sh, of ?I])
    show "?I (snd (shot_valid co th j s1))" if "?I s1" for j s1
      using shot_valid_only [of s1 co th j] that by (auto simp: only_files_def)
    show "shot_data_fits (snd s) x" if "?I s1" "shot_valid co th j s1 = (Some x, s2)" for j s1 x s2
      using shot_valid_fits [OF assms(1) that(2)] that(1) by (simp add: shot_data_fits_def)
  qed simp
  moreover have "only_files s s'" using session_valid_only [of s co th j] assms(2) by simp
  ultimately show ?thesis
    using need_pk [OF p] need_text [OF n] opt_blank [OF f]
    by (simp add: session_data_fits_def only_files_def)
qed

section \<open>An exported document is not accepted\<close>

lemma shot_json_object:
  assumes "shot_json dt u d (k, sh) = Inr j"
  obtains takes where "j = JObj [(''id'', j_pk k), (''name'', JStr (sh_name sh)), (''takes'', takes),
    (''session_id'', j_pk (sh_session sh))]"
  using assms by (auto simp: shot_json_def split: sum.splits)

lemma pk_value_pk [simp]: "pk_value co t (j_pk k) = (if t_get t k = None then None else Some k)"
  by (simp add: pk_value_def j_pk_def)

lemma of_value_pk [simp]:
  "of_value f (Some (j_pk k)) = (case f (j_pk k) of None \<Rightarrow> Bad | Some x \<Rightarrow> Given x)"
  by (simp add: of_value_def j_pk_def)

lemma exported_shot_names_session:
  assumes "shot_json dt u d (k, sh) = Inr j" "shot_valid co th j s = (Some sd, s')"
  shows "fst (snd sd) = Some (sh_session sh)"
proof -
  obtain takes where j: "j = JObj [(''id'', j_pk k), (''name'', JStr (sh_name sh)), (''takes'', takes),
      (''session_id'', j_pk (sh_session sh))]"
    using shot_json_object [OF assms(1)] .
  have "fld [(''id'', j_pk k), (''name'', JStr (sh_name sh)), (''takes'', takes),
      (''session_id'', j_pk (sh_session sh))] ''session_id'' = Some (j_pk (sh_session sh))"
    by (simp add: fld_def)
  with assms(2) show ?thesis
    unfolding j shot_valid_def session_ref_def
    by (auto simp: Let_def split: option.splits prod.splits if_splits)
qed

text \<open>The first shot of an accepted document is the first element of its list, as that was read.\<close>

lemma first_shot_read:
  assumes "many (shot_valid co th) (Some (JList (j1 # js))) st = (Some ss, s1)"
  obtains y ys s2 where "shot_valid co th j1 st = (Some y, s2)" "ss = y # ys"
proof -
  obtain a s2 where a: "shot_valid co th j1 st = (a, s2)" by (cases "shot_valid co th j1 st")
  moreover obtain b s3 where "all_valid (shot_valid co th) js s2 = (b, s3)"
    by (cases "all_valid (shot_valid co th) js s2")
  ultimately have "\<exists>y ys. a = Some y \<and> ss = y # ys"
    using assms by (auto simp: many_def eq_commute [of _ ss] split: option.splits)
  with a show ?thesis by (auto intro: that)
qed

lemma shot_of_a_session_fails:
  assumes "sd_shots sd = (name, Some b, takes) # ys"
  shows "\<exists>se. create_session_tree e sd d = (d\<lparr>db_sessions := snd (t_create se (db_sessions d))\<rparr>, Inl TypeError)"
  using assms by (auto simp: create_session_tree_def add_shot_def case_prod_beta)

text \<open>
  C39: the document that the server exports for a session with a shot is never accepted when it is
  sent back, to this or any other server: either it is refused, or the creation fails when the
  session already exists, because each shot names the session it had. No shot, take or camera is created; in the second case an empty session stays
  behind.
\<close>

theorem exported_never_imports:
  assumes export: "session_export_json dt u d (k, s) = Inr j" and shots: "session_shots d k \<noteq> []"
  shows "\<exists>st' r. post_session_export co th e j st = (st', r) \<and>
    (r = Http 400 \<and> db_sessions (snd st') = db_sessions (snd st) \<or>
     r = Raised TypeError \<and> (\<exists>se. db_sessions (snd st') = snd (t_create se (db_sessions (snd st))))) \<and>
    db_shots (snd st') = db_shots (snd st) \<and> db_takes (snd st') = db_takes (snd st) \<and>
    db_acameras (snd st') = db_acameras (snd st)"
proof -
  obtain x xs where x: "session_shots d k = x # xs" using shots by (cases "session_shots d k") auto
  from export x obtain j1 js where j1: "shot_json dt u d x = Inr j1"
    and j: "j = JObj [(''id'', j_pk k), (''project_id'', j_pk (se_project s)), (''name'', JStr (se_name s)),
       (''start_time'', JStr (dt (se_start_time s))), (''shots'', JList (j1 # js)),
       (''frontal_cam_id'', j_opt JStr (se_frontal_cam_id s))]"
    by (auto simp: session_export_json_def render_list_def split: sum.splits)
  obtain v s1 where v: "session_valid co th j st = (v, s1)" by (cases "session_valid co th j st")
  have only: "\<exists>f. snd s1 = (snd st)\<lparr>db_files := f\<rparr>"
    using session_valid_only [of st co th j] v by (simp add: only_files_def)
  show ?thesis
  proof (cases v)
    case None
    then show ?thesis using v only by (auto simp: post_session_export_def)
  next
    case (Some sd)
    have "many (shot_valid co th) (Some (JList (j1 # js))) st = (Some (sd_shots sd), s1)"
      using v Some unfolding j session_valid_def
      by (auto simp: Let_def bind_eq_Some_conv fld_def split: prod.splits)
    then obtain y ys s2 where y: "shot_valid co th j1 st = (Some y, s2)" "sd_shots sd = y # ys"
      by (rule first_shot_read)
    obtain n sh where "x = (n, sh)" by force
    then have "fst (snd y) \<noteq> None"
      using exported_shot_names_session [OF _ y(1)] j1 by blast
    then obtain a b c where "y = (a, Some b, c)" by (cases y) auto
    then obtain se where "create_session_tree e sd (snd s1) =
        ((snd s1)\<lparr>db_sessions := snd (t_create se (db_sessions (snd s1)))\<rparr>, Inl TypeError)"
      using shot_of_a_session_fails y(2) by blast
    then have "post_session_export co th e j st =
        ((fst s1, (snd s1)\<lparr>db_sessions := snd (t_create se (db_sessions (snd s1)))\<rparr>), Raised TypeError)"
      using v Some by (cases s1) (simp add: post_session_export_def)
    with only show ?thesis by fastforce
  qed
qed

section \<open>The two repairs\<close>

text \<open>
  What a document needs before it can be imported: its shots forget their session, its cameras get an
  empty thumbnail, and the project is the one it goes to (\<open>post_import_session\<close> sets it).
\<close>

definition with_key :: "string \<Rightarrow> (json \<Rightarrow> json) \<Rightarrow> json \<Rightarrow> json" where
  "with_key name f j =
     (case j of JObj kvs \<Rightarrow> JObj (map (\<lambda>(k, v). (k, if k = name then f v else v)) kvs) | _ \<Rightarrow> j)"

definition without_key :: "string \<Rightarrow> json \<Rightarrow> json" where
  "without_key name j = (case j of JObj kvs \<Rightarrow> JObj (filter (\<lambda>(k, _). k \<noteq> name) kvs) | _ \<Rightarrow> j)"

definition add_key :: "string \<Rightarrow> json \<Rightarrow> json \<Rightarrow> json" where
  "add_key name v j = (case j of JObj kvs \<Rightarrow> JObj (kvs @ [(name, v)]) | _ \<Rightarrow> j)"

definition each :: "(json \<Rightarrow> json) \<Rightarrow> json \<Rightarrow> json" where
  "each f j = (case j of JList js \<Rightarrow> JList (map f js) | _ \<Rightarrow> j)"

definition repair_take :: "json \<Rightarrow> json" where
  "repair_take = with_key ''cameras'' (each (add_key ''b64_thumb'' JNull))"

definition repair_shot :: "json \<Rightarrow> json" where
  "repair_shot = without_key ''session_id'' \<circ> with_key ''takes'' (each repair_take)"

definition repair_session :: "pk \<Rightarrow> json \<Rightarrow> json" where
  "repair_session p = with_key ''project_id'' (\<lambda>_. j_pk p) \<circ> with_key ''shots'' (each repair_shot)"

lemma of_value_native [simp]:
  "of_value f (Some (JStr x)) = (case f (JStr x) of None \<Rightarrow> Bad | Some y \<Rightarrow> Given y)"
  "of_value f (Some (JInt i)) = (case f (JInt i) of None \<Rightarrow> Bad | Some y \<Rightarrow> Given y)"
  "of_value f (Some (JBool b)) = (case f (JBool b) of None \<Rightarrow> Bad | Some y \<Rightarrow> Given y)"
  "of_value f (Some (JFloat r)) = (case f (JFloat r) of None \<Rightarrow> Bad | Some y \<Rightarrow> Given y)"
  by (simp_all add: of_value_def)

lemma of_null_value_blank:
  "blank_fits n x \<Longrightarrow> of_null_value (char_value co (Some n) True) (Some (j_opt JStr x)) = Given x"
  by (cases x) (auto simp: of_null_value_def j_opt_def char_value_id)

lemma of_null_value_files:
  "(\<forall>f. x = Some f \<longrightarrow> f \<noteq> [] \<and> stripped f \<and> CHR 0x00 \<notin> set f) \<Longrightarrow>
   of_null_value (char_value co None False) (Some (j_opt JStr x)) = Given x"
  by (cases x) (auto simp: of_null_value_def j_opt_def char_value_id)

lemma int_value_id: "int_fits b i \<Longrightarrow> int_value co b (JInt i) = Some i"
  by (simp add: int_value_def int_fits_def)

lemma need_opt_simps [simp]: "need (Given x) = Some x" "opt y (Given x) = Some x" "opt y Absent = Some y"
  by (simp_all add: need_def opt_def)

lemma camera_read_back:
  assumes "camera_fits c"
  shows "\<exists>n'. camera_valid co th (add_key ''b64_thumb'' JNull (camera_json (k, c))) (n, d)
    = (Some (c\<lparr>ac_take := 0\<rparr>), (n', d))"
proof -
  note f = assms [unfolded camera_fits_def]
  have [simp]: "char_value co (Some 200) False (JStr (ac_machine_name c)) = Some (ac_machine_name c)"
    "char_value co (Some 200) False (JStr (ac_unique_id c)) = Some (ac_unique_id c)"
    "char_value co (Some 200) False (JStr (ac_model c)) = Some (ac_model c)"
    "char_value co (Some 200) False (JStr (ac_version c)) = Some (ac_version c)"
    "char_value co (Some 250) False (JStr (ac_folder c)) = Some (ac_folder c)"
    using f by (simp_all add: char_value_id)
  have [simp]: "of_null_value (char_value co (Some 250) True) (Some (j_opt JStr (ac_thumbnail_filename c)))
      = Given (ac_thumbnail_filename c)"
    "of_null_value (char_value co None False) (Some (j_opt JStr (ac_all_files c))) = Given (ac_all_files c)"
    using f by (simp_all add: of_null_value_blank of_null_value_files)
  have [simp]: "int_value co int32 (JInt (ac_width c)) = Some (ac_width c)"
    "int_value co int32 (JInt (ac_height c)) = Some (ac_height c)"
    "int_value co int32 (JInt (ac_bitdepth c)) = Some (ac_bitdepth c)"
    "int_value co int32 (JInt (ac_frame_count c)) = Some (ac_frame_count c)"
    "int_value co int32 (JInt (ac_dropped_frames c)) = Some (ac_dropped_frames c)"
    "int_value co int64 (JInt (ac_total_size c)) = Some (ac_total_size c)"
    "int_value co int32 (JInt (ac_rotation c)) = Some (ac_rotation c)"
    using f by (simp_all add: int_value_id)
  have "\<exists>kvs. add_key ''b64_thumb'' JNull (camera_json (k, c)) = JObj kvs \<and>
      camera_fields co kvs = Some (c\<lparr>ac_take := 0\<rparr>, None)"
    by (simp add: camera_json_def add_key_def camera_fields_def fld_def of_null_value_def [of _ "Some JNull"])
  then show ?thesis
    by (auto simp: camera_valid_def validate_camera_def Let_def)
qed

lemma all_valid_map:
  assumes "\<And>x n. x \<in> set xs \<Longrightarrow> \<exists>n'. f (g x) (n, d) = (Some (h x), (n', d))"
  shows "\<exists>n'. all_valid f (map g xs) (n, d) = (Some (map h xs), (n' :: nat, d))"
  using assms
proof (induction xs arbitrary: n)
  case (Cons x xs)
  obtain n1 where n1: "f (g x) (n, d) = (Some (h x), (n1, d))" using Cons.prems [of x n] by auto
  obtain n2 where "all_valid f (map g xs) (n1, d) = (Some (map h xs), (n2, d))"
    using Cons.IH [of n1] Cons.prems by auto
  with n1 show ?case by simp
qed simp

definition bare_camera :: "pk \<times> archive_camera \<Rightarrow> archive_camera" where
  "bare_camera kc = (snd kc)\<lparr>ac_take := 0\<rparr>"

lemma take_read_back:
  assumes j: "take_json dt u d (k, t) = Inr j"
    and fit: "take_fits t" "\<forall>kc \<in> set (take_cameras d k). camera_fits (snd kc)"
    and date: "co_date co (JStr (dt (tk_capture_time t))) = Some x"
  shows "\<exists>n'. take_valid co th (repair_take j) (n, d') =
    (Some (t\<lparr>tk_shot := 0, tk_capture_time := x\<rparr>, Some (map bare_camera (take_cameras d k))), (n', d'))"
proof -
  note f = fit(1) [unfolded take_fits_def]
  have [simp]: "char_value co (Some 200) False (JStr (tk_name t)) = Some (tk_name t)"
    "int_value co int32 (JInt (tk_sequence t)) = Some (tk_sequence t)"
    "choice_value co take_flags (JStr (tk_flag t)) = Some (tk_flag t)"
    using f by (simp_all add: char_value_id int_value_id choice_value_def)
  have [simp]: "of_null_value (char_value co (Some 250) True) (Some (j_opt JStr (tk_export_path t))) = Given (tk_export_path t)"
    "of_null_value (char_value co (Some 250) True) (Some (j_opt JStr (tk_work_folder t))) = Given (tk_work_folder t)"
    "of_null_value (char_value co (Some 250) True) (Some (j_opt JStr (tk_video_thumb t))) = Given (tk_video_thumb t)"
    "of_null_value (char_value co (Some 32) True) (Some (j_opt JStr (tk_colorspace t))) = Given (tk_colorspace t)"
    using f by (simp_all add: of_null_value_blank)
  obtain frame where "neutral_frame_of d t = Inr frame"
    using j by (auto simp: take_json_def split: sum.splits)
  with j obtain kvs where kvs: "repair_take j = JObj kvs"
    and cams: "fld kvs ''cameras'' = Some (JList (map (add_key ''b64_thumb'' JNull \<circ> camera_json) (take_cameras d k)))"
    and fields: "take_fields co kvs = Some (t\<lparr>tk_shot := 0, tk_capture_time := x\<rparr>)"
    by (auto simp: take_json_def repair_take_def with_key_def each_def fld_def take_fields_def date)
  have "\<exists>n'. all_valid (camera_valid co th) (map (add_key ''b64_thumb'' JNull \<circ> camera_json) (take_cameras d k)) (n, d')
      = (Some (map bare_camera (take_cameras d k)), (n', d'))"
  proof (rule all_valid_map)
    fix kc n assume "kc \<in> set (take_cameras d k)"
    with fit(2) camera_read_back [of "snd kc" co th "fst kc" n d']
    show "\<exists>n'. camera_valid co th ((add_key ''b64_thumb'' JNull \<circ> camera_json) kc) (n, d')
        = (Some (bare_camera kc), (n', d'))"
      by (simp add: bare_camera_def)
  qed
  then show ?thesis by (auto simp: take_valid_def kvs cams many_def fields)
qed

definition read_take :: "coercions \<Rightarrow> (time \<Rightarrow> string) \<Rightarrow> db \<Rightarrow> pk \<times> take \<Rightarrow> take_data" where
  "read_take co dt d kt = ((snd kt)\<lparr>tk_shot := 0,
     tk_capture_time := the (co_date co (JStr (dt (tk_capture_time (snd kt)))))\<rparr>,
     Some (map bare_camera (take_cameras d (fst kt))))"

definition read_shot :: "coercions \<Rightarrow> (time \<Rightarrow> string) \<Rightarrow> db \<Rightarrow> pk \<times> shot \<Rightarrow> shot_data" where
  "read_shot co dt d ks = (sh_name (snd ks), None, map (read_take co dt d) (shot_takes d (fst ks)))"

text \<open>The rows of a session fit their columns.\<close>

definition stored_take_fits :: "db \<Rightarrow> pk \<times> take \<Rightarrow> bool" where
  "stored_take_fits d kt \<longleftrightarrow> take_fits (snd kt) \<and>
     (\<forall>kc \<in> set (take_cameras d (fst kt)). camera_fits (snd kc))"

definition stored_shot_fits :: "db \<Rightarrow> pk \<times> shot \<Rightarrow> bool" where
  "stored_shot_fits d ks \<longleftrightarrow> text_fits 200 (sh_name (snd ks)) \<and>
     (\<forall>kt \<in> set (shot_takes d (fst ks)). stored_take_fits d kt)"

definition stored_session_fits :: "db \<Rightarrow> pk \<times> session \<Rightarrow> bool" where
  "stored_session_fits d ks \<longleftrightarrow> text_fits 200 (se_name (snd ks)) \<and>
     blank_fits 200 (se_frontal_cam_id (snd ks)) \<and>
     (\<forall>s \<in> set (session_shots d (fst ks)). stored_shot_fits d s)"

lemma render_all_map:
  "render_all f xs = Inr js \<Longrightarrow> js = map (\<lambda>x. projr (f x)) xs \<and> (\<forall>x \<in> set xs. f x = Inr (projr (f x)))"
  by (induction xs arbitrary: js) (auto split: sum.splits)

lemma takes_read_back:
  assumes r: "render_list (take_json dt u d) kts = Inr (JList js)"
    and fit: "\<forall>kt \<in> set kts. stored_take_fits d kt" and dates: "\<forall>x. co_date co (JStr (dt x)) \<noteq> None"
  shows "\<exists>n'. all_valid (take_valid co th) (map repair_take js) (n, d') =
    (Some (map (read_take co dt d) kts), (n', d'))"
proof -
  have r: "render_all (take_json dt u d) kts = Inr js" using r by (auto simp: render_list_def split: sum.splits)
  note js = render_all_map [OF r]
  have "\<exists>n'. all_valid (take_valid co th) (map (repair_take \<circ> (\<lambda>x. projr (take_json dt u d x))) kts) (n, d')
      = (Some (map (read_take co dt d) kts), (n', d'))"
  proof (rule all_valid_map)
    fix kt n assume kt: "kt \<in> set kts"
    obtain k t where [simp]: "kt = (k, t)" by force
    obtain x where x: "co_date co (JStr (dt (tk_capture_time t))) = Some x" using dates by blast
    have "take_json dt u d (k, t) = Inr (projr (take_json dt u d kt))" using js kt by auto
    from take_read_back [OF this _ _ x, of th n d'] fit kt x
    show "\<exists>n'. take_valid co th ((repair_take \<circ> (\<lambda>x. projr (take_json dt u d x))) kt) (n, d')
        = (Some (read_take co dt d kt), (n', d'))"
      by (auto simp: stored_take_fits_def read_take_def)
  qed
  with js show ?thesis by (simp add: comp_def)
qed

lemma shot_read_back:
  assumes j: "shot_json dt u d ks = Inr j"
    and fit: "stored_shot_fits d ks" and dates: "\<forall>x. co_date co (JStr (dt x)) \<noteq> None"
  shows "\<exists>n'. shot_valid co th (repair_shot j) (n, d') = (Some (read_shot co dt d ks), (n', d'))"
proof -
  obtain k sh where [simp]: "ks = (k, sh)" by force
  from j obtain js where js: "render_list (take_json dt u d) (shot_takes d k) = Inr (JList js)"
    and j: "j = JObj [(''id'', j_pk k), (''name'', JStr (sh_name sh)), (''takes'', JList js),
      (''session_id'', j_pk (sh_session sh))]"
    by (auto simp: shot_json_def render_list_def split: sum.splits)
  have "char_value co (Some 200) False (JStr (sh_name sh)) = Some (sh_name sh)"
    using fit by (simp add: stored_shot_fits_def char_value_id)
  moreover have "\<exists>n'. all_valid (take_valid co th) (map repair_take js) (n, d') =
      (Some (map (read_take co dt d) (shot_takes d k)), (n', d'))"
    by (rule takes_read_back [OF js _ dates]) (use fit in \<open>simp add: stored_shot_fits_def\<close>)
  ultimately show ?thesis
    by (auto simp: j repair_shot_def with_key_def without_key_def each_def shot_valid_def fld_def many_def
        session_ref_def of_value_def [of _ None] read_shot_def)
qed

lemma session_read_back:
  assumes j: "session_export_json dt u d (k, s) = Inr j"
    and fit: "stored_session_fits d (k, s)" and dates: "\<forall>x. co_date co (JStr (dt x)) \<noteq> None"
    and p: "t_get (db_projects d') p \<noteq> None"
  shows "\<exists>n' x. session_valid co th (repair_session p j) (n, d') = (Some
    \<lparr>sd_project = p, sd_name = se_name s, sd_start_time = x, sd_frontal_cam_id = se_frontal_cam_id s,
     sd_shots = map (read_shot co dt d) (session_shots d k)\<rparr>, (n', d'))"
proof -
  from j obtain js where js: "render_all (shot_json dt u d) (session_shots d k) = Inr js"
    and j: "j = JObj [(''id'', j_pk k), (''project_id'', j_pk (se_project s)), (''name'', JStr (se_name s)),
       (''start_time'', JStr (dt (se_start_time s))), (''shots'', JList js),
       (''frontal_cam_id'', j_opt JStr (se_frontal_cam_id s))]"
    by (auto simp: session_export_json_def render_list_def split: sum.splits)
  note m = render_all_map [OF js]
  have "\<exists>n'. all_valid (shot_valid co th) (map (repair_shot \<circ> (\<lambda>x. projr (shot_json dt u d x))) (session_shots d k))
      (n, d') = (Some (map (read_shot co dt d) (session_shots d k)), (n', d'))"
  proof (rule all_valid_map)
    fix ks n assume "ks \<in> set (session_shots d k)"
    with m fit have "shot_json dt u d ks = Inr (projr (shot_json dt u d ks))" "stored_shot_fits d ks"
      by (auto simp: stored_session_fits_def)
    from shot_read_back [OF this dates, of th n d']
    show "\<exists>n'. shot_valid co th ((repair_shot \<circ> (\<lambda>x. projr (shot_json dt u d x))) ks) (n, d')
        = (Some (read_shot co dt d ks), (n', d'))"
      by simp
  qed
  then obtain n' where n': "all_valid (shot_valid co th) (map repair_shot js) (n, d')
      = (Some (map (read_shot co dt d) (session_shots d k)), (n', d'))"
    using m by (auto simp: comp_def)
  obtain x where x: "co_date co (JStr (dt (se_start_time s))) = Some x" using dates by blast
  have [simp]: "char_value co (Some 200) False (JStr (se_name s)) = Some (se_name s)"
    "of_null_value (char_value co (Some 200) True) (Some (j_opt JStr (se_frontal_cam_id s))) = Given (se_frontal_cam_id s)"
    using fit by (simp_all add: stored_session_fits_def char_value_id of_null_value_blank)
  obtain y where y: "t_get (db_projects d') p = Some y" using p by blast
  show ?thesis
    by (auto simp: j repair_session_def with_key_def each_def session_valid_def fld_def many_def n' x y)
qed

section \<open>The tree of a session\<close>

text \<open>
  What a session holds, without keys and instants: its shots with their names, their takes and the
  cameras of these, in the order the interface shows them.
\<close>

definition bare_take :: "take \<Rightarrow> take" where
  "bare_take t = t\<lparr>tk_shot := 0, tk_capture_time := 0\<rparr>"

definition take_tree :: "db \<Rightarrow> pk \<times> take \<Rightarrow> take \<times> archive_camera list" where
  "take_tree d kt = (bare_take (snd kt), map bare_camera (take_cameras d (fst kt)))"

definition takes_tree :: "db \<Rightarrow> pk \<Rightarrow> (take \<times> archive_camera list) list" where
  "takes_tree d k = map (take_tree d) (shot_takes d k)"

definition session_tree :: "db \<Rightarrow> pk \<Rightarrow> (string \<times> (take \<times> archive_camera list) list) list" where
  "session_tree d k = map (\<lambda>(i, sh). (sh_name sh, takes_tree d i)) (session_shots d k)"

text \<open>The parents of shots, takes and cameras exist: the columns may not be null.\<close>

definition parents_exist :: "db \<Rightarrow> bool" where
  "parents_exist d \<longleftrightarrow> wf_table (db_sessions d) \<and> wf_table (db_shots d) \<and> wf_table (db_takes d) \<and>
     (\<forall>r \<in> set (rows (db_shots d)). sh_session (snd r) < next_pk (db_sessions d)) \<and>
     (\<forall>r \<in> set (rows (db_takes d)). tk_shot (snd r) < next_pk (db_shots d)) \<and>
     (\<forall>r \<in> set (rows (db_acameras d)). ac_take (snd r) < next_pk (db_takes d))"

lemma rows_create [simp]: "rows (snd (t_create r t)) = rows t @ [(next_pk t, r)]"
  by (simp add: t_create_def)

lemma next_pk_create [simp]: "next_pk (snd (t_create r t)) = Suc (next_pk t)"
  by (simp add: t_create_def)

lemma sort_key_map: "map g (sort_key (f \<circ> g) xs) = sort_key f (map g xs)"
proof -
  have "map g (insort_key (f \<circ> g) x ys) = insort_key f (g x) (map g ys)" for x ys
    by (induction ys) auto
  then show ?thesis by (induction xs) simp_all
qed

lemma sort_key_same: "sorted (map f xs) \<Longrightarrow> sort_key f xs = xs"
  by (induction xs) (simp_all add: insort_is_Cons)

definition tag_camera :: "pk \<Rightarrow> archive_camera \<Rightarrow> archive_camera" where
  "tag_camera k c = c\<lparr>ac_take := k\<rparr>"

definition create_cameras :: "pk \<Rightarrow> archive_camera list \<Rightarrow> archive_camera table \<Rightarrow> archive_camera table" where
  "create_cameras k = fold (\<lambda>c t. snd (t_create (tag_camera k c) t))"

lemma fold_create_cameras:
  "fold (\<lambda>c d. create_archive_camera (c\<lparr>ac_take := k\<rparr>) d) cs d =
     d\<lparr>db_acameras := create_cameras k cs (db_acameras d)\<rparr>"
  by (induction cs arbitrary: d)
    (simp_all add: create_cameras_def create_archive_camera_def tag_camera_def)

lemma rows_create_cameras:
  "rows (create_cameras k cs t) = rows t @ zip [next_pk t ..< next_pk t + length cs] (map (tag_camera k) cs)"
proof (induction cs arbitrary: t)
  case (Cons c cs)
  have "zip [n ..< n + length (c # cs)] (map (tag_camera k) (c # cs)) =
      (n, tag_camera k c) # zip [Suc n ..< Suc n + length cs] (map (tag_camera k) cs)" for n
    by (simp add: upt_conv_Cons del: upt_Suc)
  with Cons.IH [of "snd (t_create (tag_camera k c) t)"] show ?case
    by (simp add: create_cameras_def)
qed (simp add: create_cameras_def)

lemma filter_zip_tagged:
  assumes "length ns = length cs"
  shows "map snd (filter (\<lambda>(_, c). ac_take c = i) (zip ns (map (tag_camera k) cs))) =
    (if i = k then map (tag_camera k) cs else [])"
proof -
  have "filter (\<lambda>(_, c). ac_take c = i) (zip ns (map (tag_camera k) cs)) =
      (if i = k then zip ns (map (tag_camera k) cs) else [])"
    by (auto simp: filter_id_conv filter_empty_conv tag_camera_def dest!: set_zip_rightD)
  with assms show ?thesis by simp
qed

text \<open>One take with its cameras.\<close>

definition td_tree :: "take_data \<Rightarrow> take \<times> archive_camera list" where
  "td_tree td = (bare_take (fst td),
     map (\<lambda>c. c\<lparr>ac_take := 0\<rparr>) (case snd td of None \<Rightarrow> [] | Some cs \<Rightarrow> cs))"

lemma create_take_tree_eq:
  "create_take_tree e k (t, Some cs) d =
     d\<lparr>db_takes := snd (t_create (t\<lparr>tk_shot := k, tk_capture_time := e_now e\<rparr>) (db_takes d)),
       db_acameras := create_cameras (next_pk (db_takes d)) cs (db_acameras d)\<rparr>"
  by (simp add: create_take_tree_def create_take_def Let_def case_prod_beta fold_create_cameras)

lemma created_cameras_below:
  assumes "\<forall>r \<in> set (rows t). ac_take (snd r) < n" "k < m" "n \<le> m"
  shows "\<forall>r \<in> set (rows (create_cameras k cs t)). ac_take (snd r) < m"
  using assms by (force simp: rows_create_cameras tag_camera_def dest: set_zip_rightD)

lemma take_cameras_created:
  assumes "sorted (map ac_unique_id cs)"
    "db_acameras d' = create_cameras n cs (db_acameras d)"
    "\<forall>r \<in> set (rows (db_acameras d)). ac_take (snd r) < n"
  shows "map bare_camera (take_cameras d' i) =
    (if i = n then map (\<lambda>c. c\<lparr>ac_take := 0\<rparr>) cs else map bare_camera (take_cameras d i))"
proof -
  have bare: "map bare_camera (take_cameras x i) = map (\<lambda>c. c\<lparr>ac_take := 0\<rparr>)
      (sort_key ac_unique_id (map snd (t_filter (\<lambda>_ c. ac_take c = i) (db_acameras x))))" for x
    by (simp add: take_cameras_def bare_camera_def [abs_def] sort_key_map [symmetric] comp_def case_prod_unfold)
  have rows: "map snd (t_filter (\<lambda>_ c. ac_take c = i) (db_acameras d')) =
      map snd (t_filter (\<lambda>_ c. ac_take c = i) (db_acameras d)) @ (if i = n then map (tag_camera n) cs else [])"
    by (simp add: t_filter_def assms(2) rows_create_cameras filter_zip_tagged)
  show ?thesis
  proof (cases "i = n")
    case True
    then have "t_filter (\<lambda>_ c. ac_take c = i) (db_acameras d) = []"
      using assms(3) by (auto simp: t_filter_def filter_empty_conv)
    moreover have "sort_key ac_unique_id (map (tag_camera n) cs) = map (tag_camera n) cs"
      by (rule sort_key_same) (use assms(1) in \<open>simp add: tag_camera_def comp_def\<close>)
    ultimately show ?thesis unfolding bare rows using True by (simp add: tag_camera_def comp_def)
  next
    case False
    then show ?thesis by (simp add: bare rows)
  qed
qed

lemma create_take_tree_step:
  assumes inv: "parents_exist d" and k: "k < next_pk (db_shots d)"
    and cs: "sorted (map ac_unique_id cs)"
  shows "parents_exist (create_take_tree e k (t, Some cs) d)"
    "takes_tree (create_take_tree e k (t, Some cs) d) i =
      takes_tree d i @ (if i = k then [td_tree (t, Some cs)] else [])"
proof -
  let ?n = "next_pk (db_takes d)" and ?d = "create_take_tree e k (t, Some cs) d"
  note I = inv [unfolded parents_exist_def]
  show "parents_exist ?d"
    using I k created_cameras_below [of "db_acameras d" ?n ?n "Suc ?n" cs]
    by (auto simp: parents_exist_def create_take_tree_eq intro: wf_t_create)
  have cams: "map bare_camera (take_cameras ?d j) =
      (if j = ?n then map (\<lambda>c. c\<lparr>ac_take := 0\<rparr>) cs else map bare_camera (take_cameras d j))" for j
    by (rule take_cameras_created [OF cs]) (use I in \<open>simp_all add: create_take_tree_eq\<close>)
  have old: "j \<noteq> ?n" if "(j, x) \<in> set (shot_takes d i)" for j x
    using that I by (auto simp: shot_takes_def t_filter_def wf_table_def t_keys_def)
  have "shot_takes ?d i = shot_takes d i @
      (if i = k then [(?n, t\<lparr>tk_shot := k, tk_capture_time := e_now e\<rparr>)] else [])"
    by (simp add: shot_takes_def t_filter_def create_take_tree_eq)
  moreover have "map (take_tree ?d) (shot_takes d i) = map (take_tree d) (shot_takes d i)"
    by (rule map_cong [OF refl]) (use old in \<open>auto simp: take_tree_def cams\<close>)
  ultimately show "takes_tree ?d i = takes_tree d i @ (if i = k then [td_tree (t, Some cs)] else [])"
    by (simp add: takes_tree_def take_tree_def cams td_tree_def bare_take_def)
qed

text \<open>The takes of a shot, a shot, the shots of a session.\<close>

definition full_take :: "take_data \<Rightarrow> bool" where
  "full_take td \<longleftrightarrow> (\<exists>cs. snd td = Some cs \<and> sorted (map ac_unique_id cs))"

lemma create_take_tree_step':
  assumes "parents_exist d" "k < next_pk (db_shots d)" "full_take td"
  shows "parents_exist (create_take_tree e k td d)"
    "takes_tree (create_take_tree e k td d) i = takes_tree d i @ (if i = k then [td_tree td] else [])"
    "db_shots (create_take_tree e k td d) = db_shots d"
    "db_sessions (create_take_tree e k td d) = db_sessions d"
  using create_take_tree_step [OF assms(1,2)] assms(3)
  by (cases td; fastforce simp: full_take_def create_take_tree_eq)+

lemma create_takes_step:
  assumes "parents_exist d" "k < next_pk (db_shots d)" "\<forall>td \<in> set tds. full_take td"
  shows "parents_exist (fold (create_take_tree e k) tds d) \<and>
    (\<forall>i. takes_tree (fold (create_take_tree e k) tds d) i =
      takes_tree d i @ (if i = k then map td_tree tds else [])) \<and>
    db_shots (fold (create_take_tree e k) tds d) = db_shots d \<and>
    db_sessions (fold (create_take_tree e k) tds d) = db_sessions d"
  using assms
proof (induction tds arbitrary: d)
  case (Cons td tds)
  note s = create_take_tree_step' [OF Cons.prems(1,2), of td e]
  from Cons.IH [of "create_take_tree e k td d"] Cons.prems s show ?case by simp
qed simp

definition sd_tree :: "shot_tree \<Rightarrow> string \<times> (take \<times> archive_camera list) list" where
  "sd_tree sd = (fst sd, map td_tree (snd sd))"

lemma create_shot_tree_step:
  assumes inv: "parents_exist d" and k: "k < next_pk (db_sessions d)" and tds: "\<forall>td \<in> set tds. full_take td"
  shows "parents_exist (create_shot_tree e k (name, tds) d)"
    "session_tree (create_shot_tree e k (name, tds) d) i =
      session_tree d i @ (if i = k then [sd_tree (name, tds)] else [])"
    "db_sessions (create_shot_tree e k (name, tds) d) = db_sessions d"
    "\<forall>r \<in> set (rows (db_shots (create_shot_tree e k (name, tds) d))) - set (rows (db_shots d)). sh_next_take (snd r) = 1"
proof -
  let ?n = "next_pk (db_shots d)"
  let ?start = "d\<lparr>db_shots := snd (t_create (new_shot name k) (db_shots d))\<rparr>"
  let ?d = "create_shot_tree e k (name, tds) d"
  note I = inv [unfolded parents_exist_def]
  have D: "?d = fold (create_take_tree e ?n) tds ?start"
    by (simp add: create_shot_tree_def case_prod_beta)
  have inv0: "parents_exist ?start"
    using I k by (auto simp: parents_exist_def new_shot_def intro: wf_t_create)
  note st = create_takes_step [OF inv0 _ tds, of ?n e, folded D]
  show "parents_exist ?d" using st by simp
  show "db_sessions ?d = db_sessions d" using st by simp
  have shots: "db_shots ?d = snd (t_create (new_shot name k) (db_shots d))" using st by simp
  then show "\<forall>r \<in> set (rows (db_shots ?d)) - set (rows (db_shots d)). sh_next_take (snd r) = 1"
    by (auto simp: new_shot_def)
  have trees: "takes_tree ?d j = takes_tree d j @ (if j = ?n then map td_tree tds else [])" for j
  proof -
    have "takes_tree ?start j = takes_tree d j" by (simp add: takes_tree_def take_tree_def shot_takes_def take_cameras_def)
    with st show ?thesis by simp
  qed
  have new: "takes_tree d ?n = []"
    using I by (auto simp: takes_tree_def shot_takes_def t_filter_def filter_empty_conv)
  have old: "j \<noteq> ?n" if "(j, x) \<in> set (session_shots d i)" for j x
    using that I by (auto simp: session_shots_def t_filter_def wf_table_def t_keys_def)
  have "session_shots ?d i = session_shots d i @ (if i = k then [(?n, new_shot name k)] else [])"
    by (auto simp: session_shots_def t_filter_def shots new_shot_def)
  moreover have "map (\<lambda>(j, sh). (sh_name sh, takes_tree ?d j)) (session_shots d i) = session_tree d i"
    unfolding session_tree_def by (rule map_cong [OF refl]) (use old in \<open>auto simp: trees\<close>)
  ultimately show "session_tree ?d i = session_tree d i @ (if i = k then [sd_tree (name, tds)] else [])"
    by (simp add: session_tree_def trees new sd_tree_def new_shot_def)
qed

lemma add_shot_new [simp]:
  "add_shot e k (name, None, tds) d = (create_shot_tree e k (name, tds) d, None)"
  by (simp add: add_shot_def)

lemma create_shots_step:
  assumes "parents_exist d" "k < next_pk (db_sessions d)"
    "\<forall>sd \<in> set sds. \<exists>name tds. sd = (name, None, tds) \<and> (\<forall>td \<in> set tds. full_take td)"
  shows "\<exists>d'. for_each (add_shot e k) sds d = (d', None) \<and> parents_exist d' \<and>
    (\<forall>i. session_tree d' i = session_tree d i @
      (if i = k then map (\<lambda>(name, _, tds). sd_tree (name, tds)) sds else [])) \<and>
    db_sessions d' = db_sessions d \<and>
    (\<forall>r \<in> set (rows (db_shots d')) - set (rows (db_shots d)). sh_next_take (snd r) = 1)"
  using assms
proof (induction sds arbitrary: d)
  case (Cons sd sds)
  obtain name tds where sd: "sd = (name, None, tds)" "\<forall>td \<in> set tds. full_take td"
    using Cons.prems(3) by auto
  let ?d = "create_shot_tree e k (name, tds) d"
  note s = create_shot_tree_step [OF Cons.prems(1,2) sd(2), of e name]
  obtain d' where d': "for_each (add_shot e k) sds ?d = (d', None)" "parents_exist d'"
    "\<forall>i. session_tree d' i = session_tree ?d i @
      (if i = k then map (\<lambda>(name, _, tds). sd_tree (name, tds)) sds else [])"
    "db_sessions d' = db_sessions ?d"
    "\<forall>r \<in> set (rows (db_shots d')) - set (rows (db_shots ?d)). sh_next_take (snd r) = 1"
    using Cons.IH [of ?d] s(1,3) Cons.prems(2,3) by auto
  show ?case
    using d' s sd by (intro exI [of _ d']) auto
qed simp

lemma read_take_tree: "td_tree (read_take co dt d kt) = take_tree d kt"
  by (simp add: td_tree_def read_take_def take_tree_def bare_take_def bare_camera_def)

lemma full_read_take: "full_take (read_take co dt d kt)"
proof -
  have "sorted (map (\<lambda>x. ac_unique_id (snd x)) (take_cameras d (fst kt)))"
    using sorted_sort_key [of "\<lambda>(_, c). ac_unique_id c"] by (simp add: take_cameras_def case_prod_unfold)
  then show ?thesis by (simp add: full_take_def read_take_def bare_camera_def comp_def)
qed

lemma parents_fresh_session:
  assumes "parents_exist d"
  shows "session_tree d (next_pk (db_sessions d)) = []"
  using assms by (auto simp: parents_exist_def session_tree_def session_shots_def t_filter_def filter_empty_conv)

text \<open>
  C6: with the two repairs, and whatever the server, the document of a session whose rows
  fit their columns is accepted and creates a copy: a new session of the chosen project with the same
  name and frontal camera and the same tree of shots, takes and cameras; no other session is
  changed. The instants are those of the import, and every shot starts again with take number 1.
\<close>

theorem import_copies_session:
  assumes export: "session_export_json dt u d (k, s) = Inr j" and fit: "stored_session_fits d (k, s)"
    and dates: "\<forall>x. co_date co (JStr (dt x)) \<noteq> None"
    and p: "t_get (db_projects d') p \<noteq> None" and inv: "parents_exist d'"
  shows "\<exists>n'' d'' k'. post_session_export co th e (repair_session p j) (n, d') = ((n'', d''), Json 201 k') \<and>
    parents_exist d'' \<and> t_get (db_sessions d') k' = None \<and>
    t_get (db_sessions d'') k' =
      Some ((new_session (e_now e) (se_name s) p)\<lparr>se_frontal_cam_id := se_frontal_cam_id s\<rparr>) \<and>
    session_tree d'' k' = session_tree d k \<and> (\<forall>i. i \<noteq> k' \<longrightarrow> session_tree d'' i = session_tree d' i) \<and>
    (\<forall>r \<in> set (rows (db_shots d'')) - set (rows (db_shots d')). sh_next_take (snd r) = 1)"
proof -
  let ?k = "next_pk (db_sessions d')"
  let ?row = "(new_session (e_now e) (se_name s) p)\<lparr>se_frontal_cam_id := se_frontal_cam_id s\<rparr>"
  let ?start = "d'\<lparr>db_sessions := snd (t_create ?row (db_sessions d'))\<rparr>"
  let ?sds = "map (read_shot co dt d) (session_shots d k)"
  obtain n' x where v: "session_valid co th (repair_session p j) (n, d') = (Some
    \<lparr>sd_project = p, sd_name = se_name s, sd_start_time = x, sd_frontal_cam_id = se_frontal_cam_id s,
     sd_shots = ?sds\<rparr>, (n', d'))"
    using session_read_back [OF export fit dates p] by blast
  note I = inv [unfolded parents_exist_def]
  have "take_tree ?start = take_tree d'" by (simp add: fun_eq_iff take_tree_def take_cameras_def)
  then have tree: "session_tree ?start i = session_tree d' i" for i
    by (simp add: session_tree_def session_shots_def takes_tree_def shot_takes_def)
  have "parents_exist ?start" using I by (auto simp: parents_exist_def intro: wf_t_create)
  moreover have "\<forall>sd \<in> set ?sds. \<exists>name tds. sd = (name, None, tds) \<and> (\<forall>td \<in> set tds. full_take td)"
    by (auto simp: read_shot_def full_read_take)
  ultimately obtain d'' where d'': "for_each (add_shot e ?k) ?sds ?start = (d'', None)" "parents_exist d''"
    "\<forall>i. session_tree d'' i = session_tree d' i @
      (if i = ?k then map (\<lambda>(name, _, tds). sd_tree (name, tds)) ?sds else [])"
    "db_sessions d'' = db_sessions ?start"
    "\<forall>r \<in> set (rows (db_shots d'')) - set (rows (db_shots d')). sh_next_take (snd r) = 1"
    using create_shots_step [of ?start ?k ?sds e] by (auto simp: tree)
  have "map (\<lambda>(name, _, tds). sd_tree (name, tds)) ?sds = session_tree d k"
    by (auto simp: session_tree_def read_shot_def sd_tree_def takes_tree_def read_take_tree)
  then have "session_tree d'' ?k = session_tree d k"
    using d''(3) parents_fresh_session [OF inv] by simp
  moreover have "post_session_export co th e (repair_session p j) (n, d') = ((n', d''), Json 201 ?k)"
    using d''(1) by (simp add: post_session_export_def v create_session_tree_def case_prod_beta)
  moreover have "t_get (db_sessions d'') ?k = Some ?row"
    using I d''(4) by (simp add: t_get_create)
  ultimately show ?thesis
    using d'' t_get_fresh [of "db_sessions d'"] I by (intro exI [of _ n'] exI [of _ d''] exI [of _ ?k]) auto
qed

section \<open>When a session can be shown\<close>

lemma render_list_Inr: "(\<exists>j. render_list f xs = Inr j) \<longleftrightarrow> (\<forall>x \<in> set xs. \<exists>j. f x = Inr j)"
proof -
  have "(\<exists>js. render_all f xs = Inr js) \<longleftrightarrow> (\<forall>x \<in> set xs. \<exists>j. f x = Inr j)"
    by (induction xs) (auto split: sum.splits)
  then show ?thesis by (auto simp: render_list_def split: sum.splits)
qed

lemma take_of_session:
  assumes "wf_table (db_shots d)" "t_get (db_sessions d) k = Some s"
    "(i, sh) \<in> set (session_shots d k)" "(n, t) \<in> set (shot_takes d i)"
  shows "take_session d t = Some s"
proof -
  have "t_get (db_shots d) i = Some sh" "sh_session sh = k"
    using t_filter_iff [OF assms(1)] assms(3) by (auto simp: session_shots_def)
  moreover have "tk_shot t = i" using assms(4) by (auto simp: shot_takes_def t_filter_def)
  ultimately show ?thesis using assms(2) by (simp add: take_session_def)
qed

lemma shots_render:
  assumes "wf_table (db_shots d)" "t_get (db_sessions d) k = Some s"
  shows "(\<exists>j. render_list (shot_json dt u d) (session_shots d k) = Inr j) \<longleftrightarrow>
    (\<exists>f. get_neutral_frame d s = Inr f) \<or> (\<forall>x \<in> set (session_shots d k). shot_takes d (fst x) = [])"
proof -
  have take: "(\<exists>j. take_json dt u d y = Inr j) \<longleftrightarrow> (\<exists>f. get_neutral_frame d s = Inr f)"
    if "x \<in> set (session_shots d k)" "y \<in> set (shot_takes d (fst x))" for x y
    using take_of_session [OF assms, of "fst x" "snd x" "fst y" "snd y"] that
    by (cases y) (auto simp: take_json_def neutral_frame_of_def split: sum.splits)
  have shot: "(\<exists>j. shot_json dt u d x = Inr j) \<longleftrightarrow>
      (\<exists>j. render_list (take_json dt u d) (shot_takes d (fst x)) = Inr j)" for x
    by (cases x) (auto simp: shot_json_def split: sum.splits)
  have "(\<exists>j. shot_json dt u d x = Inr j) \<longleftrightarrow> (\<exists>f. get_neutral_frame d s = Inr f) \<or> shot_takes d (fst x) = []"
    if "x \<in> set (session_shots d k)" for x
    unfolding shot render_list_Inr using take [OF that] by (cases "shot_takes d (fst x)") auto
  then show ?thesis unfolding render_list_Inr by blast
qed

text \<open>
  The page of a session and its exported document exist exactly when the neutral frame of the
  session can be computed, or it has no take: one scan of the neutral take that has
  tracking but no time of mixed light makes every take of the session, the session and its export
  unreadable.
\<close>

theorem session_renders:
  assumes "wf_table (db_shots d)" "t_get (db_sessions d) k = Some s"
  shows "((\<exists>j. session_details_json dt u d (k, s) = Inr j) \<longleftrightarrow>
      (\<exists>f. get_neutral_frame d s = Inr f) \<or> (\<forall>x \<in> set (session_shots d k). shot_takes d (fst x) = [])) \<and>
    ((\<exists>j n. get_archive_json_file dt e k d = Json 200 (j, n)) \<longleftrightarrow>
      (\<exists>f. get_neutral_frame d s = Inr f) \<or> (\<forall>x \<in> set (session_shots d k). shot_takes d (fst x) = []))"
proof -
  have "(\<exists>j. session_details_json dt u d (k, s) = Inr j) \<longleftrightarrow>
      (\<exists>j. render_list (shot_json dt u d) (session_shots d k) = Inr j)"
    by (auto simp: session_details_json_def split: sum.splits)
  moreover have "(\<exists>j n. get_archive_json_file dt e k d = Json 200 (j, n)) \<longleftrightarrow>
      (\<exists>j. render_list (shot_json dt (e_user e) d) (session_shots d k) = Inr j)"
    by (auto simp: get_archive_json_file_def session_export_json_def assms(2) split: sum.splits)
  ultimately show ?thesis unfolding shots_render [OF assms] by blast
qed

section \<open>A small archive\<close>

definition shelf_camera :: archive_camera where
  "shelf_camera = \<lparr>ac_take = 4, ac_machine_name = ''cap06'', ac_unique_id = ''cam-a'', ac_model = ''xiC'',
     ac_version = ''1'', ac_using_sync = True, ac_folder = ''D:'', ac_thumbnail_filename = None,
     ac_width = 2048, ac_height = 2048, ac_bitdepth = 8, ac_frame_count = 10, ac_dropped_frames = 0,
     ac_total_size = 4194304, ac_duration = 1, ac_framerate = 30, ac_all_files = Some ''D:/a.avi'',
     ac_rotation = 0, ac_exposure_ms = 5\<rparr>"

definition shelf :: db where
  "shelf = empty_db
     \<lparr>db_projects := \<lparr>rows = [(1, \<lparr>pr_name = ''P'', pr_archived = False\<rparr>)], next_pk = 2\<rparr>,
      db_sessions := \<lparr>rows = [(2, new_session 5 ''S1'' 1)], next_pk = 3\<rparr>,
      db_shots := \<lparr>rows = [(3, \<lparr>sh_name = ''walk'', sh_session = 2, sh_next_take = 2\<rparr>)], next_pk = 4\<rparr>,
      db_takes := \<lparr>rows = [(4, new_take 7 ''Take_0001'' 3 1 False False)], next_pk = 5\<rparr>,
      db_acameras := \<lparr>rows = [(5, shelf_camera)], next_pk = 6\<rparr>\<rparr>"

text \<open>Dates as numbers, thumbnails that are their own text.\<close>

definition shelf_coercions :: coercions where
  "shelf_coercions = \<lparr>co_str = (\<lambda>_. None), co_int = (\<lambda>_. None), co_float = (\<lambda>_. None), co_bool = (\<lambda>_. None),
     co_date = (\<lambda>j. case j of JStr s \<Rightarrow> Some (int (read_nat s)) | _ \<Rightarrow> None)\<rparr>"

definition shelf_thumbs :: thumbs where
  "shelf_thumbs = \<lparr>th_uuid = (\<lambda>n. ''u''), th_b64 = Some, th_write = (\<lambda>_. True)\<rparr>"

lemma shelf_simps:
  "db_projects shelf = \<lparr>rows = [(1, \<lparr>pr_name = ''P'', pr_archived = False\<rparr>)], next_pk = 2\<rparr>"
  "db_sessions shelf = \<lparr>rows = [(2, new_session 5 ''S1'' 1)], next_pk = 3\<rparr>"
  "db_shots shelf = \<lparr>rows = [(3, \<lparr>sh_name = ''walk'', sh_session = 2, sh_next_take = 2\<rparr>)], next_pk = 4\<rparr>"
  "db_takes shelf = \<lparr>rows = [(4, new_take 7 ''Take_0001'' 3 1 False False)], next_pk = 5\<rparr>"
  "db_acameras shelf = \<lparr>rows = [(5, shelf_camera)], next_pk = 6\<rparr>"
  by (simp_all add: shelf_def)

lemma shelf_parents: "parents_exist shelf"
  by (simp add: parents_exist_def shelf_simps wf_table_def t_keys_def new_take_def shelf_camera_def)

lemma shelf_session: "t_get (db_sessions shelf) 2 = Some (new_session 5 ''S1'' 1)"
  by (simp add: shelf_simps t_get_def)

lemma shelf_fits: "stored_session_fits shelf (2, new_session 5 ''S1'' 1)"
  by (simp add: stored_session_fits_def stored_shot_fits_def stored_take_fits_def session_shots_def
      shot_takes_def take_cameras_def t_filter_def shelf_simps new_session_def new_take_def shelf_camera_def
      camera_fits_def take_fits_def text_fits_def blank_fits_def int_fits_def take_flags_def stripped_def py_space_def)

lemma shelf_export: "\<exists>j. session_export_json dt u shelf (2, new_session 5 ''S1'' 1) = Inr j"
proof -
  have "get_neutral_frame shelf (new_session 5 ''S1'' 1) = Inr None"
    by (simp add: get_neutral_frame_def new_session_def)
  then have "\<exists>j. render_list (shot_json dt u shelf) (session_shots shelf 2) = Inr j"
    using shots_render [OF _ shelf_session] shelf_parents by (auto simp: parents_exist_def)
  then show ?thesis by (auto simp: session_export_json_def)
qed

lemma exported_never_imports_witness:
  "\<exists>j r. session_export_json show_int (e_user stage_env) shelf (2, new_session 5 ''S1'' 1) = Inr j \<and>
     snd (post_session_export shelf_coercions shelf_thumbs stage_env j (0, shelf)) = r \<and>
     (r = Http 400 \<or> r = Raised TypeError)"
proof -
  obtain j where j: "session_export_json show_int (e_user stage_env) shelf (2, new_session 5 ''S1'' 1) = Inr j"
    using shelf_export by blast
  have "session_shots shelf 2 \<noteq> []" by (simp add: session_shots_def t_filter_def shelf_simps)
  from exported_never_imports [OF j this, of shelf_coercions shelf_thumbs stage_env "(0, shelf)"] j
  show ?thesis by auto
qed

lemma import_copies_session_witness:
  "\<exists>j n d k. session_export_json show_int (e_user stage_env) shelf (2, new_session 5 ''S1'' 1) = Inr j \<and>
     post_session_export shelf_coercions shelf_thumbs stage_env (repair_session 1 j) (0, shelf) = ((n, d), Json 201 k) \<and>
     session_tree d k = session_tree shelf 2 \<and> k \<noteq> 2"
proof -
  obtain j where j: "session_export_json show_int (e_user stage_env) shelf (2, new_session 5 ''S1'' 1) = Inr j"
    using shelf_export by blast
  have "\<forall>x. co_date shelf_coercions (JStr (show_int x)) \<noteq> None" by (simp add: shelf_coercions_def)
  moreover have "t_get (db_projects shelf) 1 \<noteq> None" by (simp add: shelf_simps t_get_def)
  ultimately obtain n d k where r: "session_tree d k = session_tree shelf 2" "t_get (db_sessions shelf) k = None"
    "post_session_export shelf_coercions shelf_thumbs stage_env (repair_session 1 j) (0, shelf) = ((n, d), Json 201 k)"
    using import_copies_session [OF j shelf_fits _ _ shelf_parents, of shelf_coercions 1 shelf_thumbs stage_env 0]
    by blast
  then have "k \<noteq> 2" using shelf_session by auto
  with r j show ?thesis by blast
qed

lemma session_renders_witness:
  "\<exists>j. session_details_json show_int (e_user stage_env) shelf (2, new_session 5 ''S1'' 1) = Inr j"
proof -
  have "wf_table (db_shots shelf)" using shelf_parents by (simp add: parents_exist_def)
  from session_renders [OF this shelf_session] show ?thesis
    by (simp add: get_neutral_frame_def new_session_def)
qed

text \<open>A document with one shot and no take.\<close>

definition shelf_document :: json where
  "shelf_document = JObj [(''project_id'', JInt 1), (''name'', JStr '' S2 ''), (''start_time'', JStr ''7''),
     (''shots'', JList [JObj [(''name'', JStr ''run''), (''takes'', JList [])]])]"

lemma validated_session_fits_witness:
  "\<exists>sd s'. session_valid shelf_coercions shelf_thumbs shelf_document (0, shelf) = (Some sd, s') \<and>
     sd_name sd = ''S2'' \<and> session_data_fits shelf sd"
proof -
  have strip: "strip '' S2 '' = ''S2''" "strip ''run'' = ''run''" by code_simp+
  have v: "session_valid shelf_coercions shelf_thumbs shelf_document (0, shelf) =
      (Some \<lparr>sd_project = 1, sd_name = ''S2'', sd_start_time = 7, sd_frontal_cam_id = None,
        sd_shots = [(''run'', None, [])]\<rparr>, (0, shelf))"
    by (simp add: session_valid_def shelf_document_def shelf_coercions_def many_def fld_def shot_valid_def
        char_value_def strip of_value_def session_ref_def pk_value_def shelf_simps t_get_def need_def
        opt_def of_null_value_def Let_def read_nat_def char_digit_def of_digits_def)
  have "text_fits 36 ''u''" by code_simp
  then have u: "\<forall>n. text_fits 36 (th_uuid shelf_thumbs n)" by (simp add: shelf_thumbs_def)
  show ?thesis using validated_session_fits [OF u v] v by simp
qed

end
