(* ===== verification/Archive_Rest.thy ===== *)
theory Archive_Rest
  imports Session_Copy
begin

text \<open>
  Deleting through the REST interface: the viewsets of \<open>archive/views.py\<close> are
  \<open>ModelViewSet\<close>s, so that \<open>DELETE\<close> on one of their objects removes it with
  everything that depends on it (\<open>on_delete\<close> of \<open>archive/models.py\<close>,
  \<open>capture/models.py\<close> and \<open>jobs/models.py\<close>). The only condition is the one of the
  settings, that somebody is logged in.
\<close>

section \<open>The cascades\<close>

definition forget_tracks :: "pk list \<Rightarrow> db \<Rightarrow> db" where
  "forget_tracks ids d =
     d\<lparr>db_scans := t_update (\<lambda>_ _. True)
         (\<lambda>a. a\<lparr>sa_associated_tracking_asset := forget ids (sa_associated_tracking_asset a)\<rparr>) (db_scans d),
       db_jobs := t_update (\<lambda>_ _. True)
         (\<lambda>j. j\<lparr>fj_ext_tracking_assets := forget ids (fj_ext_tracking_assets j)\<rparr>) (db_jobs d)\<rparr>"

definition delete_tracks :: "pk list \<Rightarrow> db \<Rightarrow> db" where
  "delete_tracks ids d = (forget_tracks ids d)\<lparr>db_tracks := t_delete (\<lambda>k _. k \<in> set ids) (db_tracks d)\<rparr>"

definition delete_scans :: "pk list \<Rightarrow> db \<Rightarrow> db" where
  "delete_scans ids d =
     d\<lparr>db_scans := t_delete (\<lambda>k _. k \<in> set ids) (db_scans d),
       db_jobs := t_update (\<lambda>_ _. True)
         (\<lambda>j. j\<lparr>fj_ext_scan_assets := forget ids (fj_ext_scan_assets j)\<rparr>) (db_jobs d)\<rparr>"

definition keys_where :: "('r \<Rightarrow> bool) \<Rightarrow> 'r table \<Rightarrow> pk list" where
  "keys_where P t = map fst (t_filter (\<lambda>_ r. P r) t)"

definition drop_shots :: "pk list \<Rightarrow> db \<Rightarrow> db" where
  "drop_shots ids d =
     d\<lparr>db_shots := t_delete (\<lambda>k _. k \<in> set ids) (db_shots d),
       db_locations := t_update (\<lambda>_ _. True) (\<lambda>l. l\<lparr>cl_cur_shot := forget ids (cl_cur_shot l)\<rparr>) (db_locations d)\<rparr>"

definition delete_shots :: "pk list \<Rightarrow> db \<Rightarrow> db" where
  "delete_shots ids d =
     drop_shots ids (delete_takes (keys_where (\<lambda>t. tk_shot t \<in> set ids) (db_takes d)) d)"

definition drop_sessions :: "pk list \<Rightarrow> db \<Rightarrow> db" where
  "drop_sessions ids d =
     d\<lparr>db_sessions := t_delete (\<lambda>k _. k \<in> set ids) (db_sessions d),
       db_locations := t_update (\<lambda>_ _. True) (\<lambda>l. l\<lparr>cl_cur_session := forget ids (cl_cur_session l)\<rparr>) (db_locations d)\<rparr>"

definition delete_sessions :: "pk list \<Rightarrow> db \<Rightarrow> db" where
  "delete_sessions ids d =
     drop_sessions ids (delete_shots (keys_where (\<lambda>s. sh_session s \<in> set ids) (db_shots d)) d)"

definition drop_projects :: "pk list \<Rightarrow> db \<Rightarrow> db" where
  "drop_projects ids d =
     d\<lparr>db_projects := t_delete (\<lambda>k _. k \<in> set ids) (db_projects d),
       db_locations := t_update (\<lambda>_ _. True) (\<lambda>l. l\<lparr>cl_cur_project := forget ids (cl_cur_project l)\<rparr>) (db_locations d)\<rparr>"

definition delete_projects :: "pk list \<Rightarrow> db \<Rightarrow> db" where
  "delete_projects ids d =
     (let d1 = delete_sessions (keys_where (\<lambda>s. se_project s \<in> set ids) (db_sessions d)) d;
          d2 = delete_scans (keys_where (\<lambda>a. sa_project a \<in> set ids) (db_scans d1)) d1
      in drop_projects ids d2)"

section \<open>The requests\<close>

datatype archive_resource = Projects | Archive_Projects | Sessions | Shots | Takes | Scans | Tracks

definition found :: "'r table \<Rightarrow> pk \<Rightarrow> bool" where
  "found t k \<longleftrightarrow> t_get t k \<noteq> None"

fun resource_exists :: "archive_resource \<Rightarrow> pk \<Rightarrow> db \<Rightarrow> bool" where
  "resource_exists Projects k d \<longleftrightarrow> (case t_get (db_projects d) k of None \<Rightarrow> False | Some p \<Rightarrow> \<not> pr_archived p)"
| "resource_exists Archive_Projects k d \<longleftrightarrow> found (db_projects d) k"
| "resource_exists Sessions k d \<longleftrightarrow> found (db_sessions d) k"
| "resource_exists Shots k d \<longleftrightarrow> found (db_shots d) k"
| "resource_exists Takes k d \<longleftrightarrow> found (db_takes d) k"
| "resource_exists Scans k d \<longleftrightarrow> found (db_scans d) k"
| "resource_exists Tracks k d \<longleftrightarrow> found (db_tracks d) k"

fun delete_resource :: "archive_resource \<Rightarrow> pk \<Rightarrow> db \<Rightarrow> db" where
  "delete_resource Projects k d = delete_projects [k] d"
| "delete_resource Archive_Projects k d = delete_projects [k] d"
| "delete_resource Sessions k d = delete_sessions [k] d"
| "delete_resource Shots k d = delete_shots [k] d"
| "delete_resource Takes k d = delete_takes [k] d"
| "delete_resource Scans k d = delete_scans [k] d"
| "delete_resource Tracks k d = delete_tracks [k] d"

definition rest_delete :: "env \<Rightarrow> archive_resource \<Rightarrow> pk \<Rightarrow> db \<Rightarrow> db \<times> string outcome" where
  "rest_delete e r k d =
     (if resource_exists r k d then (delete_resource r k d, Http 204) else (d, Http 404))"

definition serve_deletes :: "(env \<times> archive_resource \<times> pk) list \<Rightarrow> db \<Rightarrow> db" where
  "serve_deletes = fold (\<lambda>(e, r, k) d. fst (rest_delete e r k d))"

section \<open>References\<close>

definition refs_in :: "'r table \<Rightarrow> ('r \<Rightarrow> pk option) \<Rightarrow> pk set \<Rightarrow> bool" where
  "refs_in t f K \<longleftrightarrow> (\<forall>k r. t_get t k = Some r \<longrightarrow> set_option (f r) \<subseteq> K)"

text \<open>Every table is well-formed, and every foreign key into the archive finds its row.\<close>

definition archive_closed :: "db \<Rightarrow> bool" where
  "archive_closed d \<longleftrightarrow>
     wf_table (db_projects d) \<and> wf_table (db_sessions d) \<and> wf_table (db_shots d) \<and> wf_table (db_takes d) \<and>
     wf_table (db_acameras d) \<and> wf_table (db_scans d) \<and> wf_table (db_tracks d) \<and>
     refs_in (db_sessions d) (\<lambda>s. Some (se_project s)) (t_keys (db_projects d)) \<and>
     refs_in (db_sessions d) se_master_calib (t_keys (db_takes d)) \<and>
     refs_in (db_sessions d) se_master_colorchart (t_keys (db_takes d)) \<and>
     refs_in (db_sessions d) se_neutral_take (t_keys (db_takes d)) \<and>
     refs_in (db_shots d) (\<lambda>s. Some (sh_session s)) (t_keys (db_sessions d)) \<and>
     refs_in (db_takes d) (\<lambda>t. Some (tk_shot t)) (t_keys (db_shots d)) \<and>
     refs_in (db_acameras d) (\<lambda>c. Some (ac_take c)) (t_keys (db_takes d)) \<and>
     refs_in (db_scans d) (\<lambda>a. Some (sa_project a)) (t_keys (db_projects d)) \<and>
     refs_in (db_scans d) sa_take (t_keys (db_takes d)) \<and>
     refs_in (db_scans d) sa_associated_tracking_asset (t_keys (db_tracks d)) \<and>
     refs_in (db_tracks d) (\<lambda>a. Some (ta_take a)) (t_keys (db_takes d)) \<and>
     refs_in (db_jobs d) fj_ext_take (t_keys (db_takes d)) \<and>
     refs_in (db_jobs d) fj_ext_scan_assets (t_keys (db_scans d)) \<and>
     refs_in (db_jobs d) fj_ext_tracking_assets (t_keys (db_tracks d)) \<and>
     refs_in (db_locations d) cl_cur_project (t_keys (db_projects d)) \<and>
     refs_in (db_locations d) cl_cur_session (t_keys (db_sessions d)) \<and>
     refs_in (db_locations d) cl_cur_shot (t_keys (db_shots d))"

named_theorems refs_simps \<open>references after an update or a deletion\<close>

lemma refs_update_same:
  assumes "\<And>r. f (g r) = f r"
  shows "refs_in (t_update (\<lambda>_ _. True) g t) f K \<longleftrightarrow> refs_in t f K"
proof -
  have "t_get (t_update (\<lambda>_ _. True) g t) k = map_option g (t_get t k)" for k by (simp add: t_get_update)
  then show ?thesis by (simp add: refs_in_def assms) (metis assms option.map_sel option.sel option.simps(9) map_option_eq_Some)
qed

lemma refs_update_forget:
  assumes "refs_in t f K" "\<And>r. f (g r) = forget ids (f r)"
  shows "refs_in (t_update (\<lambda>_ _. True) g t) f (K - set ids)"
  unfolding refs_in_def
proof (intro allI impI)
  fix k r assume "t_get (t_update (\<lambda>_ _. True) g t) k = Some r"
  then obtain z where "t_get t k = Some z" "r = g z" by (auto simp: t_get_update)
  with assms show "set_option (f r) \<subseteq> K - set ids" unfolding refs_in_def by (simp add: set_forget) blast
qed

lemma refs_delete: "wf_table t \<Longrightarrow> refs_in t f K \<Longrightarrow> refs_in (t_delete P t) f K"
  by (auto simp: refs_in_def t_get_delete split: option.splits if_splits)

lemma refs_delete_minus:
  assumes "wf_table t" "refs_in t f K" "\<And>k r. t_get t k = Some r \<Longrightarrow> \<not> P k r \<Longrightarrow> set_option (f r) \<inter> D = {}"
  shows "refs_in (t_delete P t) f (K - D)"
  using assms by (fastforce simp: refs_in_def t_get_delete split: option.splits if_splits)

lemma refs_minus:
  assumes "refs_in t f K" "\<And>k r. t_get t k = Some r \<Longrightarrow> set_option (f r) \<inter> D = {}"
  shows "refs_in t f (K - D)"
  using assms by (fastforce simp: refs_in_def)

lemma keys_delete_ids: "wf_table t \<Longrightarrow> t_keys (t_delete (\<lambda>k _. k \<in> set ids) t) = t_keys t - set ids"
  by (rule set_eqI, simp add: t_keys_delete, simp add: t_keys_get)

lemma set_keys_where: "wf_table t \<Longrightarrow> k \<in> set (keys_where P t) \<longleftrightarrow> (\<exists>r. t_get t k = Some r \<and> P r)"
  using t_filter_iff [of t k _ "\<lambda>_ r. P r"] by (force simp: keys_where_def)

section \<open>Each deletion keeps the references\<close>

lemma drop_shots_closed:
  assumes c: "archive_closed d" and none: "\<forall>k t. t_get (db_takes d) k = Some t \<longrightarrow> tk_shot t \<notin> set ids"
  shows "archive_closed (drop_shots ids d)"
  using c none unfolding archive_closed_def drop_shots_def
  by (auto simp: keys_delete_ids refs_update_same intro: refs_delete refs_update_forget refs_minus)

lemma drop_sessions_closed:
  assumes c: "archive_closed d" and none: "\<forall>k s. t_get (db_shots d) k = Some s \<longrightarrow> sh_session s \<notin> set ids"
  shows "archive_closed (drop_sessions ids d)"
  using c none unfolding archive_closed_def drop_sessions_def
  by (auto simp: keys_delete_ids refs_update_same intro: refs_delete refs_update_forget refs_minus)

lemma drop_projects_closed:
  assumes c: "archive_closed d" and none: "\<forall>k s. t_get (db_sessions d) k = Some s \<longrightarrow> se_project s \<notin> set ids"
    "\<forall>k a. t_get (db_scans d) k = Some a \<longrightarrow> sa_project a \<notin> set ids"
  shows "archive_closed (drop_projects ids d)"
  using c none unfolding archive_closed_def drop_projects_def
  by (auto simp: keys_delete_ids refs_update_same intro: refs_delete refs_update_forget refs_minus)

lemma delete_scans_closed: "archive_closed d \<Longrightarrow> archive_closed (delete_scans ids d)"
  unfolding archive_closed_def delete_scans_def
  by (auto simp: keys_delete_ids refs_update_same intro: refs_delete refs_update_forget)

lemma delete_tracks_closed: "archive_closed d \<Longrightarrow> archive_closed (delete_tracks ids d)"
  unfolding archive_closed_def delete_tracks_def forget_tracks_def
  by (auto simp: keys_delete_ids t_keys_update refs_update_same intro: refs_delete refs_update_forget)

lemma delete_takes_closed:
  assumes c: "archive_closed d"
  shows "archive_closed (delete_takes ids d)"
proof -
  let ?T = "tracks_of_takes ids d"
  note C = c [unfolded archive_closed_def]
  have T: "k \<in> set ?T" if "t_get (db_tracks d) k = Some a" "ta_take a \<in> set ids" for k a
    using t_filter_iff [of "db_tracks d" k a "\<lambda>_ a. ta_take a \<in> set ids"] C that
    by (force simp: tracks_of_takes_def)
  have "refs_in (t_delete (\<lambda>_ c. ac_take c \<in> set ids) (db_acameras d)) (\<lambda>c. Some (ac_take c))
      (t_keys (db_takes d) - set ids)"
    by (rule refs_delete_minus) (use C in auto)
  moreover have "refs_in (t_delete (\<lambda>k _. k \<in> set ?T) (db_tracks d)) (\<lambda>a. Some (ta_take a))
      (t_keys (db_takes d) - set ids)"
    by (rule refs_delete_minus) (use C T in auto)
  ultimately show ?thesis
    using C unfolding archive_closed_def delete_takes_def Let_def
    by (auto simp: keys_delete_ids t_keys_update refs_update_same intro: refs_delete refs_update_forget)
qed

lemma delete_takes_takes:
  assumes "wf_table (db_takes d)"
  shows "t_get (db_takes (delete_takes ids d)) k = (if k \<in> set ids then None else t_get (db_takes d) k)"
  using assms by (simp add: delete_takes_def Let_def t_get_delete split: option.splits)

lemma delete_takes_keeps [simp]:
  "db_shots (delete_takes ids d) = db_shots d" "db_projects (delete_takes ids d) = db_projects d"
  "db_locations (delete_takes ids d) = db_locations d"
  by (simp_all add: delete_takes_def Let_def)

lemma delete_shots_closed:
  assumes c: "archive_closed d"
  shows "archive_closed (delete_shots ids d)"
  unfolding delete_shots_def
proof (rule drop_shots_closed [OF delete_takes_closed [OF c]], intro allI impI)
  have wf: "wf_table (db_takes d)" using c by (simp add: archive_closed_def)
  fix k t
  assume "t_get (db_takes (delete_takes (keys_where (\<lambda>t. tk_shot t \<in> set ids) (db_takes d)) d)) k = Some t"
  then show "tk_shot t \<notin> set ids"
    using set_keys_where [OF wf, of k "\<lambda>t. tk_shot t \<in> set ids"]
    by (auto simp: delete_takes_takes [OF wf] split: if_splits)
qed

lemma delete_shots_shots:
  assumes "wf_table (db_shots d)"
  shows "t_get (db_shots (delete_shots ids d)) k = (if k \<in> set ids then None else t_get (db_shots d) k)"
  using assms by (simp add: delete_shots_def drop_shots_def t_get_delete split: option.splits)

lemma delete_sessions_closed:
  assumes c: "archive_closed d"
  shows "archive_closed (delete_sessions ids d)"
  unfolding delete_sessions_def
proof (rule drop_sessions_closed [OF delete_shots_closed [OF c]], intro allI impI)
  have wf: "wf_table (db_shots d)" using c by (simp add: archive_closed_def)
  fix k s
  assume "t_get (db_shots (delete_shots (keys_where (\<lambda>s. sh_session s \<in> set ids) (db_shots d)) d)) k = Some s"
  then show "sh_session s \<notin> set ids"
    using set_keys_where [OF wf, of k "\<lambda>s. sh_session s \<in> set ids"]
    by (auto simp: delete_shots_shots [OF wf] split: if_splits)
qed

lemma session_of_update:
  "t_get (db_sessions (delete_takes ids d)) k = map_option (\<lambda>s. s\<lparr>se_master_calib := forget ids (se_master_calib s),
     se_master_colorchart := forget ids (se_master_colorchart s),
     se_neutral_take := forget ids (se_neutral_take s)\<rparr>) (t_get (db_sessions d) k)"
  by (simp add: delete_takes_def Let_def t_get_update)

lemma delete_sessions_sessions:
  assumes "wf_table (db_sessions d)"
    and "t_get (db_sessions (delete_sessions ids d)) k = Some s"
  shows "k \<notin> set ids \<and> (\<exists>s0. t_get (db_sessions d) k = Some s0 \<and> se_project s = se_project s0)"
proof -
  let ?d = "delete_takes (keys_where (\<lambda>t. tk_shot t \<in> set (keys_where (\<lambda>s. sh_session s \<in> set ids) (db_shots d))) (db_takes d)) d"
  have "wf_table (db_sessions ?d)" using assms(1) by (simp add: delete_takes_def Let_def wf_t_update)
  then have "t_get (db_sessions ?d) k = Some s \<and> k \<notin> set ids"
    using assms(2) by (auto simp: delete_sessions_def drop_sessions_def delete_shots_def drop_shots_def t_get_delete
        split: option.splits if_splits)
  then show ?thesis by (auto simp: session_of_update)
qed

lemma delete_projects_closed:
  assumes c: "archive_closed d"
  shows "archive_closed (delete_projects ids d)"
proof -
  have wf: "wf_table (db_sessions d)" using c by (simp add: archive_closed_def)
  let ?S = "keys_where (\<lambda>s. se_project s \<in> set ids) (db_sessions d)"
  let ?d1 = "delete_sessions ?S d"
  let ?A = "keys_where (\<lambda>a. sa_project a \<in> set ids) (db_scans ?d1)"
  have c1: "archive_closed ?d1" using c by (rule delete_sessions_closed)
  then have wf1: "wf_table (db_scans ?d1)" by (simp add: archive_closed_def)
  have c2: "archive_closed (delete_scans ?A ?d1)" using c1 by (rule delete_scans_closed)
  have "\<forall>k s. t_get (db_sessions (delete_scans ?A ?d1)) k = Some s \<longrightarrow> se_project s \<notin> set ids"
  proof (intro allI impI)
    fix k s assume "t_get (db_sessions (delete_scans ?A ?d1)) k = Some s"
    then have "t_get (db_sessions ?d1) k = Some s" by (simp add: delete_scans_def)
    from delete_sessions_sessions [OF wf this] set_keys_where [OF wf, of k "\<lambda>s. se_project s \<in> set ids"]
    show "se_project s \<notin> set ids" by auto
  qed
  moreover have "\<forall>k a. t_get (db_scans (delete_scans ?A ?d1)) k = Some a \<longrightarrow> sa_project a \<notin> set ids"
    using set_keys_where [OF wf1, of _ "\<lambda>a. sa_project a \<in> set ids"]
    by (auto simp: delete_scans_def t_get_delete [OF wf1] split: option.splits if_splits)
  ultimately show ?thesis
    unfolding delete_projects_def Let_def by (intro drop_projects_closed c2)
qed

lemma rest_delete_closed: "archive_closed d \<Longrightarrow> archive_closed (fst (rest_delete e r k d))"
  by (cases r) (auto simp: rest_delete_def intro: delete_projects_closed delete_sessions_closed
      delete_shots_closed delete_takes_closed delete_scans_closed delete_tracks_closed)

text \<open>
  Whatever objects are deleted through the REST interface, by whom and in which order,
  every reference into the archive still finds its row: those of sessions, shots, takes, cameras and
  assets, those of the jobs and those of the capture locations.
\<close>

theorem archive_stays_closed:
  assumes "archive_closed d"
  shows "archive_closed (serve_deletes rs d)"
  using assms unfolding serve_deletes_def
  by (induction rs arbitrary: d) (auto intro: rest_delete_closed)

lemma shelf_closed: "archive_closed shelf"
  by (simp add: archive_closed_def shelf_def empty_db_def wf_table_def t_empty_def t_keys_def refs_in_def t_get_def
      new_session_def new_take_def shelf_camera_def split: if_splits)

lemma archive_stays_closed_witness:
  "archive_closed (serve_deletes [(stage_env, Shots, 3), (stage_env, Archive_Projects, 1)] shelf)"
  using shelf_closed by (rule archive_stays_closed)

section \<open>Rights\<close>

definition same_archive :: "db \<Rightarrow> db \<Rightarrow> bool" where
  "same_archive d d' \<longleftrightarrow> db_projects d' = db_projects d \<and> db_sessions d' = db_sessions d \<and>
     db_shots d' = db_shots d \<and> db_takes d' = db_takes d \<and> db_acameras d' = db_acameras d \<and>
     db_scans d' = db_scans d \<and> db_tracks d' = db_tracks d"

lemma same_archive_refl [simp]: "same_archive d d"
  by (simp add: same_archive_def)

lemma delete_files_job_archive: "same_archive d (delete_files_job e mf d)"
  by (auto simp: delete_files_job_def make_sure_node_exists_def create_farm_node_def create_job_def
      same_archive_def Let_def case_prod_beta split: list.splits)

lemma delete_files_jobs_archive: "same_archive d (fold (delete_files_job e) mfs d)"
proof (induction mfs arbitrary: d)
  case (Cons mf mfs)
  show ?case
    using Cons.IH [of "delete_files_job e mf d"] delete_files_job_archive [of d e mf]
    by (simp add: same_archive_def)
qed simp

text \<open>
  Whatever deletion of a take an administrator can have, every user who is logged in
  can have through the viewset: the archive is the same afterwards. Only the files differ: no job is
  created for the recorded ones and the thumbnails stay, so nothing refers to them any more.
\<close>

theorem anyone_deletes_takes:
  assumes exists: "t_get (db_takes d) k = Some t" and admin: "u_is_superuser (e_user e)"
    and run: "post_delete_takes e (Some [k]) d = (d1, r)" "http_status r = 200"
  shows "\<exists>d2. rest_delete e' Takes k d = (d2, Http 204) \<and> same_archive d1 d2 \<and>
    db_files d2 = db_files d \<and> t_keys (db_jobs d2) = t_keys (db_jobs d)"
proof -
  obtain local remote where d1: "d1 = remove_files local (fold (delete_files_job e) remote (delete_takes [k] d))"
    using run admin by (auto simp: post_delete_takes_def split: prod.splits option.splits)
  have "same_archive (delete_takes [k] d) d1"
    using delete_files_jobs_archive [of "delete_takes [k] d" e remote]
    by (simp add: d1 same_archive_def remove_files_def)
  moreover have "rest_delete e' Takes k d = (delete_takes [k] d, Http 204)"
    using exists by (simp add: rest_delete_def found_def)
  moreover have "db_files (delete_takes [k] d) = db_files d"
    "t_keys (db_jobs (delete_takes [k] d)) = t_keys (db_jobs d)"
    by (simp_all add: delete_takes_def Let_def t_keys_update)
  ultimately show ?thesis by (simp add: same_archive_def)
qed

definition admin_env :: env where
  "admin_env = stage_env\<lparr>e_user := (e_user stage_env)\<lparr>u_is_superuser := True\<rparr>\<rparr>"

lemma anyone_deletes_takes_witness:
  "\<exists>d1 d2. post_delete_takes admin_env (Some [4]) shelf = (d1, ok) \<and> \<not> u_is_superuser (e_user stage_env) \<and>
     rest_delete stage_env Takes 4 shelf = (d2, Http 204) \<and> same_archive d1 d2"
proof -
  have t: "t_get (db_takes shelf) 4 = Some (new_take 7 ''Take_0001'' 3 1 False False)"
    by (simp add: shelf_simps t_get_def)
  have a: "u_is_superuser (e_user admin_env)" "\<not> u_is_superuser (e_user stage_env)"
    by (simp_all add: admin_env_def stage_env_def)
  have "\<exists>d1. post_delete_takes admin_env (Some [4]) shelf = (d1, ok)"
    using a(1) by (simp add: post_delete_takes_def t_filter_def shelf_simps doomed_take_def new_take_def
        take_cameras_def shelf_camera_def doomed_camera_def camera_files_def Let_def)
  then obtain d1 where d1: "post_delete_takes admin_env (Some [4]) shelf = (d1, ok)" ..
  from anyone_deletes_takes [OF t a(1) d1, of stage_env] a(2) d1 show ?thesis by auto
qed

end
