(* ===== verification/Archive_Update.thy ===== *)
theory Archive_Update
  imports Archive_Rest
begin

text \<open>
  Creating and changing objects of the archive through the REST interface. The viewsets of
  \<open>archive/views.py\<close> are \<open>ModelViewSet\<close>s: \<open>PUT\<close> and \<open>PATCH\<close> on an object run its serializer
  (\<open>archive/serializers.py\<close>) on the document of the request and store the fields that were given, \<open>POST\<close>
  creates an object. The validation is that of \<open>Session_Exchange\<close>; with \<open>PATCH\<close> (\<open>partial\<close>) no field is
  required, neither in the document nor in the nested ones.
\<close>

section \<open>Fields of a change\<close>

text \<open>A field that \<open>PUT\<close> requires; a missing one keeps what is stored.\<close>

definition req :: "bool \<Rightarrow> 'a \<Rightarrow> 'a field \<Rightarrow> 'a option" where
  "req partial old v = (if partial then opt old v else need v)"

abbreviation text_field :: "coercions \<Rightarrow> nat \<Rightarrow> (string \<times> json) list \<Rightarrow> string \<Rightarrow> string field" where
  "text_field co n kvs name \<equiv> of_value (char_value co (Some n) False) (fld kvs name)"

abbreviation null_text :: "coercions \<Rightarrow> nat \<Rightarrow> (string \<times> json) list \<Rightarrow> string \<Rightarrow> string option field" where
  "null_text co n kvs name \<equiv> of_null_value (char_value co (Some n) True) (fld kvs name)"

abbreviation null_float :: "coercions \<Rightarrow> (string \<times> json) list \<Rightarrow> string \<Rightarrow> pyfloat option field" where
  "null_float co kvs name \<equiv> of_null_value (as_float co) (fld kvs name)"

definition changed_project :: "coercions \<Rightarrow> bool \<Rightarrow> (string \<times> json) list \<Rightarrow> project \<Rightarrow> project option" where
  "changed_project co partial kvs p = do {
     name \<leftarrow> req partial (pr_name p) (text_field co 200 kvs ''name'');
     Some (p\<lparr>pr_name := name\<rparr>)
   }"

text \<open>
  \<open>project_id\<close> of two serializers names no source: the project itself, not its key, is put into the column, and
  saving the row raises \<open>TypeError\<close>.
\<close>

definition changed_session ::
    "coercions \<Rightarrow> bool \<Rightarrow> (string \<times> json) list \<Rightarrow> db \<Rightarrow> session \<Rightarrow> (py_exn + session) option" where
  "changed_session co partial kvs d s = do {
     has_project \<leftarrow> (case of_value (pk_value co (db_projects d)) (fld kvs ''project_id'') of
         Absent \<Rightarrow> (if partial then Some False else None) | Bad \<Rightarrow> None | Given _ \<Rightarrow> Some True);
     name \<leftarrow> req partial (se_name s) (text_field co 200 kvs ''name'');
     frontal \<leftarrow> opt (se_frontal_cam_id s) (null_text co 200 kvs ''frontal_cam_id'');
     Some (if has_project then Inl TypeError
           else Inr (s\<lparr>se_name := name, se_frontal_cam_id := frontal\<rparr>))
   }"

definition changed_session_export ::
    "coercions \<Rightarrow> bool \<Rightarrow> (string \<times> json) list \<Rightarrow> db \<Rightarrow> session \<Rightarrow> (py_exn + session) option" where
  "changed_session_export co partial kvs d s = do {
     start_time \<leftarrow> req partial (se_start_time s) (of_value (co_date co) (fld kvs ''start_time''));
     changed \<leftarrow> changed_session co partial kvs d s;
     Some (case changed of Inl x \<Rightarrow> Inl x | Inr s' \<Rightarrow> Inr (s'\<lparr>se_start_time := start_time\<rparr>))
   }"

definition changed_session_details ::
    "coercions \<Rightarrow> bool \<Rightarrow> (string \<times> json) list \<Rightarrow> db \<Rightarrow> session \<Rightarrow> session option" where
  "changed_session_details co partial kvs d s = do {
     calib \<leftarrow> req partial (se_master_calib s)
       (of_null_value (pk_value co (db_takes d)) (fld kvs ''session_master_calib_id''));
     colorchart \<leftarrow> req partial (se_master_colorchart s)
       (of_null_value (pk_value co (db_takes d)) (fld kvs ''session_master_colorchart_id''));
     neutral \<leftarrow> req partial (se_neutral_take s)
       (of_null_value (pk_value co (db_takes d)) (fld kvs ''session_neutral_take_id''));
     name \<leftarrow> req partial (se_name s) (text_field co 200 kvs ''name'');
     frontal \<leftarrow> opt (se_frontal_cam_id s) (null_text co 200 kvs ''frontal_cam_id'');
     Some (s\<lparr>se_name := name, se_frontal_cam_id := frontal, se_master_calib := calib,
       se_master_colorchart := colorchart, se_neutral_take := neutral\<rparr>)
   }"

definition changed_shot :: "coercions \<Rightarrow> bool \<Rightarrow> (string \<times> json) list \<Rightarrow> db \<Rightarrow> shot \<Rightarrow> shot option" where
  "changed_shot co partial kvs d sh = do {
     session \<leftarrow> opt (sh_session sh) (of_value (pk_value co (db_sessions d)) (fld kvs ''session_id''));
     name \<leftarrow> req partial (sh_name sh) (text_field co 200 kvs ''name'');
     Some (sh\<lparr>sh_name := name, sh_session := session\<rparr>)
   }"

definition changed_take :: "coercions \<Rightarrow> bool \<Rightarrow> (string \<times> json) list \<Rightarrow> take \<Rightarrow> take option" where
  "changed_take co partial kvs t = do {
     name \<leftarrow> req partial (tk_name t) (text_field co 200 kvs ''name'');
     sequence \<leftarrow> opt (tk_sequence t) (of_value (int_value co int32) (fld kvs ''sequence''));
     capture_time \<leftarrow> req partial (tk_capture_time t) (of_value (co_date co) (fld kvs ''capture_time''));
     flag \<leftarrow> opt (tk_flag t) (of_value (choice_value co take_flags) (fld kvs ''flag''));
     is_scan_burst \<leftarrow> opt (tk_is_scan_burst t) (of_value (as_bool co) (fld kvs ''is_scan_burst''));
     is_burst \<leftarrow> opt (tk_is_burst t) (of_value (as_bool co) (fld kvs ''is_burst''));
     export_path \<leftarrow> opt (tk_export_path t) (null_text co 250 kvs ''export_path'');
     colorspace \<leftarrow> opt (tk_colorspace t) (null_text co 32 kvs ''colorspace'');
     work_folder \<leftarrow> opt (tk_work_folder t) (null_text co 250 kvs ''work_folder'');
     video_thumb \<leftarrow> opt (tk_video_thumb t) (null_text co 250 kvs ''video_thumb'');
     Some (t\<lparr>tk_name := name, tk_capture_time := capture_time, tk_sequence := sequence,
       tk_export_path := export_path, tk_work_folder := work_folder, tk_video_thumb := video_thumb,
       tk_flag := flag, tk_is_burst := is_burst, tk_is_scan_burst := is_scan_burst,
       tk_colorspace := colorspace\<rparr>)
   }"

definition changed_scan :: "coercions \<Rightarrow> bool \<Rightarrow> (string \<times> json) list \<Rightarrow> db \<Rightarrow> scan_asset \<Rightarrow> scan_asset option" where
  "changed_scan co partial kvs d a = do {
     project \<leftarrow> req partial (sa_project a) (of_value (pk_value co (db_projects d)) (fld kvs ''project_id''));
     tk \<leftarrow> req partial (sa_take a) (map_field Some (of_value (pk_value co (db_takes d)) (fld kvs ''take_id'')));
     associated \<leftarrow> opt (sa_associated_tracking_asset a)
       (map_field Some (of_value (pk_value co (db_tracks d)) (fld kvs ''associated_tracking_asset_id'')));
     name \<leftarrow> req partial (sa_name a) (text_field co 120 kvs ''name'');
     image_folder \<leftarrow> req partial (sa_image_folder a) (text_field co 255 kvs ''image_folder'');
     calib_file \<leftarrow> req partial (sa_calib_file a) (text_field co 255 kvs ''calib_file'');
     work_folder \<leftarrow> req partial (sa_work_folder a) (text_field co 255 kvs ''work_folder'');
     thumbnail \<leftarrow> opt (sa_thumbnail_filename a) (null_text co 250 kvs ''thumbnail_filename'');
     has_tracking \<leftarrow> opt (sa_has_tracking a) (of_value (as_bool co) (fld kvs ''has_tracking''));
     mixed_w \<leftarrow> opt (sa_take_mixed_w_time a) (null_float co kvs ''take_mixed_w_time'');
     pattern_start \<leftarrow> opt (sa_take_pattern_start_time a) (null_float co kvs ''take_pattern_start_time'');
     pattern_last \<leftarrow> opt (sa_take_pattern_last_time a) (null_float co kvs ''take_pattern_last_time'');
     neutral_start \<leftarrow> opt (sa_take_neutral_start_time a) (null_float co kvs ''take_neutral_start_time'');
     neutral_end \<leftarrow> opt (sa_take_neutral_end_time a) (null_float co kvs ''take_neutral_end_time'');
     associated_time \<leftarrow> opt (sa_associated_tracking_asset_time a)
       (null_float co kvs ''associated_tracking_asset_time'');
     Some (a\<lparr>sa_project := project, sa_name := name, sa_image_folder := image_folder, sa_calib_file := calib_file,
       sa_work_folder := work_folder, sa_thumbnail_filename := thumbnail, sa_take := tk,
       sa_take_neutral_start_time := neutral_start, sa_take_neutral_end_time := neutral_end,
       sa_take_mixed_w_time := mixed_w, sa_take_pattern_start_time := pattern_start,
       sa_take_pattern_last_time := pattern_last, sa_has_tracking := has_tracking,
       sa_associated_tracking_asset := associated, sa_associated_tracking_asset_time := associated_time\<rparr>)
   }"

definition changed_track :: "coercions \<Rightarrow> (string \<times> json) list \<Rightarrow> tracking_asset \<Rightarrow> tracking_asset option" where
  "changed_track co kvs a = do {
     calib_file \<leftarrow> opt (ta_calib_file a) (null_text co 255 kvs ''calib_file'');
     work_folder \<leftarrow> opt (ta_work_folder a) (null_text co 255 kvs ''work_folder'');
     start_time \<leftarrow> opt (ta_start_time a) (of_value (as_float co) (fld kvs ''start_time''));
     end_time \<leftarrow> opt (ta_end_time a) (of_value (as_float co) (fld kvs ''end_time''));
     video_thumb \<leftarrow> opt (ta_video_thumb a) (null_text co 250 kvs ''video_thumb'');
     Some (a\<lparr>ta_calib_file := calib_file, ta_work_folder := work_folder, ta_start_time := start_time,
       ta_end_time := end_time, ta_video_thumb := video_thumb\<rparr>)
   }"

section \<open>Nested documents\<close>

text \<open>
  Cameras, takes and shots inside a document are validated, and their pictures stored, before the
  serializer finds that it cannot store them: a validated document with a nested part raises \<open>AssertionError\<close>.
\<close>

datatype nested = Without | With | Invalid

definition nested_list ::
    "bool \<Rightarrow> (json \<Rightarrow> import_state \<Rightarrow> unit option \<times> import_state) \<Rightarrow> json option \<Rightarrow> import_state \<Rightarrow> nested \<times> import_state" where
  "nested_list partial f v s =
     (case v of
        None \<Rightarrow> (if partial then Without else Invalid, s)
      | Some (JList js) \<Rightarrow>
          (case all_valid f js s of (None, s') \<Rightarrow> (Invalid, s') | (Some _, s') \<Rightarrow> (With, s'))
      | Some _ \<Rightarrow> (Invalid, s))"

fun fits :: "'a field \<Rightarrow> bool" where
  "fits Bad = False"
| "fits _ = True"

definition partial_camera_fits :: "coercions \<Rightarrow> (string \<times> json) list \<Rightarrow> bool" where
  "partial_camera_fits co kvs \<longleftrightarrow>
     fits (of_null_value (char_value co (Some (1024 * 1024)) False) (fld kvs ''b64_thumb'')) \<and>
     list_all (\<lambda>name. fits (text_field co 200 kvs name)) [''machine_name'', ''unique_id'', ''model'', ''version''] \<and>
     fits (text_field co 250 kvs ''folder'') \<and> fits (null_text co 250 kvs ''thumbnail_filename'') \<and>
     fits (of_value (as_bool co) (fld kvs ''using_sync'')) \<and>
     list_all (\<lambda>name. fits (of_value (int_value co int32) (fld kvs name)))
       [''width'', ''height'', ''frame_count'', ''dropped_frames'', ''bitdepth'', ''rotation''] \<and>
     fits (of_value (int_value co int64) (fld kvs ''total_size'')) \<and>
     list_all (\<lambda>name. fits (of_value (as_float co) (fld kvs name))) [''framerate'', ''duration'', ''exposure_ms''] \<and>
     fits (of_null_value (char_value co None False) (fld kvs ''all_files''))"

text \<open>
  \<open>CameraSerializer.validate\<close> of a camera of which only some fields are given: without \<open>unique_id\<close> the
  name of the picture raises \<open>KeyError\<close>, after the number has been drawn, and the picture is dropped.
\<close>

definition blank_camera :: archive_camera where
  "blank_camera = \<lparr>ac_take = 0, ac_machine_name = [], ac_unique_id = [], ac_model = [], ac_version = [],
     ac_using_sync = False, ac_folder = [], ac_thumbnail_filename = None, ac_width = 0, ac_height = 0,
     ac_bitdepth = 8, ac_frame_count = 0, ac_dropped_frames = 0, ac_total_size = 0, ac_duration = 0,
     ac_framerate = 0, ac_all_files = None, ac_rotation = 0, ac_exposure_ms = 0\<rparr>"

definition validate_partial_camera :: "coercions \<Rightarrow> thumbs \<Rightarrow> (string \<times> json) list \<Rightarrow> import_state \<Rightarrow> import_state" where
  "validate_partial_camera co th kvs s =
     (case of_null_value (char_value co (Some (1024 * 1024)) False) (fld kvs ''b64_thumb'') of
        Given b64 \<Rightarrow>
          (case text_field co 200 kvs ''unique_id'' of
             Given uid \<Rightarrow> snd (validate_camera th (blank_camera\<lparr>ac_unique_id := uid\<rparr>, b64) s)
           | _ \<Rightarrow> (Suc (fst s), snd s))
      | _ \<Rightarrow> s)"

definition nested_camera :: "bool \<Rightarrow> coercions \<Rightarrow> thumbs \<Rightarrow> json \<Rightarrow> import_state \<Rightarrow> unit option \<times> import_state" where
  "nested_camera partial co th j s =
     (if \<not> partial then (map_option (\<lambda>_. ()) (fst (camera_valid co th j s)), snd (camera_valid co th j s))
      else
        (case j of
           JObj kvs \<Rightarrow>
             if partial_camera_fits co kvs then (Some (), validate_partial_camera co th kvs s) else (None, s)
         | _ \<Rightarrow> (None, s)))"

definition blank_take :: take where
  "blank_take = new_take 0 [] 0 1 False False"

definition nested_take :: "bool \<Rightarrow> coercions \<Rightarrow> thumbs \<Rightarrow> json \<Rightarrow> import_state \<Rightarrow> unit option \<times> import_state" where
  "nested_take partial co th j s =
     (case j of
        JObj kvs \<Rightarrow>
          (let (cams, s') = nested_list partial (nested_camera partial co th) (fld kvs ''cameras'') s
           in (if cams = Invalid then None else map_option (\<lambda>_. ()) (changed_take co partial kvs blank_take), s'))
      | _ \<Rightarrow> (None, s))"

definition nested_shot :: "bool \<Rightarrow> coercions \<Rightarrow> thumbs \<Rightarrow> json \<Rightarrow> import_state \<Rightarrow> unit option \<times> import_state" where
  "nested_shot partial co th j s =
     (case j of
        JObj kvs \<Rightarrow>
          (let (takes, s') = nested_list partial (nested_take partial co th) (fld kvs ''takes'') s
           in (if takes = Invalid then None
               else map_option (\<lambda>_. ()) (changed_shot co partial kvs (snd s) (new_shot [] 0)), s'))
      | _ \<Rightarrow> (None, s))"

text \<open>A nested object instead of a list.\<close>

definition nested_object ::
    "bool \<Rightarrow> (json \<Rightarrow> import_state \<Rightarrow> unit option \<times> import_state) \<Rightarrow> json option \<Rightarrow> import_state \<Rightarrow> nested \<times> import_state" where
  "nested_object partial f v s =
     (case v of
        None \<Rightarrow> (if partial then Without else Invalid, s)
      | Some j \<Rightarrow> (case f j s of (None, s') \<Rightarrow> (Invalid, s') | (Some _, s') \<Rightarrow> (With, s')))"

abbreviation no_nested :: "import_state \<Rightarrow> nested \<times> import_state" where
  "no_nested s \<equiv> (Without, s)"

section \<open>Changing objects\<close>

text \<open>
  \<open>UpdateModelMixin.update\<close>: the object, the validation of the document, the assertion on nested parts,
  \<open>save\<close>, and the object as the serializer shows it, which may raise when everything is stored.
\<close>

definition answer :: "nat \<Rightarrow> (py_exn + json) \<Rightarrow> json outcome" where
  "answer code r = (case r of Inl x \<Rightarrow> Raised x | Inr j \<Rightarrow> Json code j)"

definition update_object ::
    "'r option \<Rightarrow> ((string \<times> json) list \<Rightarrow> import_state \<Rightarrow> nested \<times> import_state) \<Rightarrow>
     ((string \<times> json) list \<Rightarrow> db \<Rightarrow> 'r \<Rightarrow> (py_exn + 'r) option) \<Rightarrow> ('r \<Rightarrow> db \<Rightarrow> db) \<Rightarrow> ('r \<Rightarrow> db \<Rightarrow> py_exn + json) \<Rightarrow>
     json \<Rightarrow> import_state \<Rightarrow> import_state \<times> json outcome" where
  "update_object row nest change store render j s =
     (case row of
        None \<Rightarrow> (s, Http 404)
      | Some r \<Rightarrow>
          (case j of
             JObj kvs \<Rightarrow>
               (case nest kvs s of
                  (ne, (n, d)) \<Rightarrow>
                    (case change kvs (snd s) r of
                       None \<Rightarrow> ((n, d), Http 400)
                     | Some changed \<Rightarrow>
                         if ne = Invalid then ((n, d), Http 400)
                         else if ne = With then ((n, d), Raised AssertionError)
                         else
                           (case changed of
                              Inl x \<Rightarrow> ((n, d), Raised x)
                            | Inr r' \<Rightarrow> (let d' = store r' d in ((n, d'), answer 200 (render r' d'))))))
           | _ \<Rightarrow> (s, Http 400)))"

text \<open>The objects by their viewset; \<open>archive_project\<close> and \<open>asset_projects\<close> show archived projects too.\<close>

datatype archive_endpoint =
    ProjectsView | ProjectArchiveView | ProjectAssetsView
  | SessionView | SessionDetailsView | SessionExportView
  | StaticScanAssetView | TrackingAssetView | TakeView | ShotView

definition store_project :: "pk \<Rightarrow> project \<Rightarrow> db \<Rightarrow> db" where
  "store_project k p d = d\<lparr>db_projects := t_save k p (db_projects d)\<rparr>"

definition store_session :: "pk \<Rightarrow> session \<Rightarrow> db \<Rightarrow> db" where
  "store_session k s d = d\<lparr>db_sessions := t_save k s (db_sessions d)\<rparr>"

definition store_shot :: "pk \<Rightarrow> shot \<Rightarrow> db \<Rightarrow> db" where
  "store_shot k sh d = d\<lparr>db_shots := t_save k sh (db_shots d)\<rparr>"

definition store_take :: "pk \<Rightarrow> take \<Rightarrow> db \<Rightarrow> db" where
  "store_take k t d = d\<lparr>db_takes := t_save k t (db_takes d)\<rparr>"

definition store_scan :: "pk \<Rightarrow> scan_asset \<Rightarrow> db \<Rightarrow> db" where
  "store_scan k a d = d\<lparr>db_scans := t_save k a (db_scans d)\<rparr>"

definition store_track :: "pk \<Rightarrow> tracking_asset \<Rightarrow> db \<Rightarrow> db" where
  "store_track k a d = d\<lparr>db_tracks := t_save k a (db_tracks d)\<rparr>"

fun rest_update ::
    "(time \<Rightarrow> string) \<Rightarrow> coercions \<Rightarrow> thumbs \<Rightarrow> env \<Rightarrow> bool \<Rightarrow> archive_endpoint \<Rightarrow> pk \<Rightarrow> json \<Rightarrow> import_state \<Rightarrow>
     import_state \<times> json outcome" where
  "rest_update dt co th e partial ProjectsView k j s =
     update_object (case t_get (db_projects (snd s)) k of Some p \<Rightarrow> if pr_archived p then None else Some p | None \<Rightarrow> None)
       (\<lambda>_. no_nested) (\<lambda>kvs _ p. map_option Inr (changed_project co partial kvs p)) (store_project k)
       (\<lambda>p d. Inr (project_json dt d (k, p))) j s"
| "rest_update dt co th e partial ProjectArchiveView k j s =
     update_object (t_get (db_projects (snd s)) k)
       (\<lambda>_. no_nested) (\<lambda>kvs _ p. map_option Inr (changed_project co partial kvs p)) (store_project k)
       (\<lambda>p d. project_archive_json dt (e_user e) d (k, p)) j s"
| "rest_update dt co th e partial ProjectAssetsView k j s =
     update_object (t_get (db_projects (snd s)) k)
       (\<lambda>_. no_nested) (\<lambda>kvs _ p. map_option Inr (changed_project co partial kvs p)) (store_project k)
       (\<lambda>p d. project_asset_json dt (e_user e) d (k, p)) j s"
| "rest_update dt co th e partial SessionView k j s =
     update_object (t_get (db_sessions (snd s)) k)
       (\<lambda>_. no_nested) (changed_session co partial) (store_session k)
       (\<lambda>x d. Inr (session_json dt d (k, x))) j s"
| "rest_update dt co th e partial SessionDetailsView k j s =
     update_object (t_get (db_sessions (snd s)) k)
       (\<lambda>_. no_nested) (\<lambda>kvs d x. map_option Inr (changed_session_details co partial kvs d x)) (store_session k)
       (\<lambda>x d. session_details_json dt (e_user e) d (k, x)) j s"
| "rest_update dt co th e partial SessionExportView k j s =
     update_object (t_get (db_sessions (snd s)) k)
       (\<lambda>kvs. nested_list partial (nested_shot partial co th) (fld kvs ''shots''))
       (changed_session_export co partial) (store_session k)
       (\<lambda>x d. session_export_json dt (e_user e) d (k, x)) j s"
| "rest_update dt co th e partial StaticScanAssetView k j s =
     update_object (t_get (db_scans (snd s)) k)
       (\<lambda>_. no_nested) (\<lambda>kvs d a. map_option Inr (changed_scan co partial kvs d a)) (store_scan k)
       (\<lambda>a d. Inr (scan_json d (k, a))) j s"
| "rest_update dt co th e partial TrackingAssetView k j s =
     update_object (t_get (db_tracks (snd s)) k)
       (\<lambda>kvs. nested_object partial (nested_take partial co th) (fld kvs ''take''))
       (\<lambda>kvs _ a. map_option Inr (changed_track co kvs a)) (store_track k)
       (\<lambda>a d. track_take_json dt (e_user e) d (k, a)) j s"
| "rest_update dt co th e partial TakeView k j s =
     update_object (t_get (db_takes (snd s)) k)
       (\<lambda>kvs. nested_list partial (nested_camera partial co th) (fld kvs ''cameras''))
       (\<lambda>kvs _ t. map_option Inr (changed_take co partial kvs t)) (store_take k)
       (\<lambda>t d. take_json dt (e_user e) d (k, t)) j s"
| "rest_update dt co th e partial ShotView k j s =
     update_object (t_get (db_shots (snd s)) k)
       (\<lambda>kvs. nested_list partial (nested_take partial co th) (fld kvs ''takes''))
       (\<lambda>kvs d sh. map_option Inr (changed_shot co partial kvs d sh)) (store_shot k)
       (\<lambda>sh d. shot_json dt (e_user e) d (k, sh)) j s"

section \<open>Creating objects\<close>

text \<open>
  \<open>POST\<close>; the answer shows the new object, here its key. The two viewsets for sessions that are not meant for the
  import have no way to store the project: one raises \<open>TypeError\<close> as above, the other leaves the column
  empty. Takes and tracking assets cannot be created, their nested parts being refused.
\<close>

definition create_project :: "coercions \<Rightarrow> (string \<times> json) list \<Rightarrow> import_state \<Rightarrow> import_state \<times> pk outcome" where
  "create_project co kvs s =
     (case changed_project co False kvs \<lparr>pr_name = [], pr_archived = False\<rparr> of
        None \<Rightarrow> (s, Http 400)
      | Some p \<Rightarrow> (let (k, t) = t_create p (db_projects (snd s)) in ((fst s, (snd s)\<lparr>db_projects := t\<rparr>), Json 201 k)))"

definition blank_scan :: scan_asset where
  "blank_scan = \<lparr>sa_project = 0, sa_name = [], sa_image_folder = [], sa_calib_file = [], sa_work_folder = [],
     sa_thumbnail_filename = None, sa_take = None, sa_take_neutral_start_time = None,
     sa_take_neutral_end_time = None, sa_take_mixed_w_time = None, sa_take_pattern_start_time = None,
     sa_take_pattern_last_time = None, sa_has_tracking = True, sa_associated_tracking_asset = None,
     sa_associated_tracking_asset_time = None\<rparr>"

definition create_scan :: "coercions \<Rightarrow> (string \<times> json) list \<Rightarrow> import_state \<Rightarrow> import_state \<times> pk outcome" where
  "create_scan co kvs s =
     (case changed_scan co False kvs (snd s) blank_scan of
        None \<Rightarrow> (s, Http 400)
      | Some a \<Rightarrow> (let (k, t) = t_create a (db_scans (snd s)) in ((fst s, (snd s)\<lparr>db_scans := t\<rparr>), Json 201 k)))"

definition refuse_nested :: "bool \<Rightarrow> nested \<times> import_state \<Rightarrow> import_state \<times> pk outcome" where
  "refuse_nested valid r =
     (case r of (ne, s') \<Rightarrow> (s', if valid \<and> ne = With then Raised AssertionError else Http 400))"

definition blank_track :: tracking_asset where
  "blank_track = \<lparr>ta_take = 0, ta_calib_file = None, ta_work_folder = None, ta_start_time = 0, ta_end_time = 0,
     ta_video_thumb = None\<rparr>"

fun create_fields ::
    "coercions \<Rightarrow> thumbs \<Rightarrow> env \<Rightarrow> archive_endpoint \<Rightarrow> (string \<times> json) list \<Rightarrow> import_state \<Rightarrow> import_state \<times> pk outcome" where
  "create_fields co th e SessionView kvs s =
     (s, case changed_session co False kvs (snd s) (new_session (e_now e) [] 0) of
           Some (Inl x) \<Rightarrow> Raised x | _ \<Rightarrow> Http 400)"
| "create_fields co th e SessionDetailsView kvs s =
     (s, case changed_session_details co False kvs (snd s) (new_session (e_now e) [] 0) of
           Some _ \<Rightarrow> Raised IntegrityError | None \<Rightarrow> Http 400)"
| "create_fields co th e SessionExportView kvs s = post_session_export co th e (JObj kvs) s"
| "create_fields co th e StaticScanAssetView kvs s = create_scan co kvs s"
| "create_fields co th e TrackingAssetView kvs s =
     refuse_nested (changed_track co kvs blank_track \<noteq> None)
       (nested_object False (nested_take False co th) (fld kvs ''take'') s)"
| "create_fields co th e TakeView kvs s =
     refuse_nested (changed_take co False kvs blank_take \<noteq> None)
       (nested_list False (nested_camera False co th) (fld kvs ''cameras'') s)"
| "create_fields co th e ShotView kvs s = post_shot co th e (JObj kvs) s"
| "create_fields co th e _ kvs s = create_project co kvs s"

definition rest_create ::
    "coercions \<Rightarrow> thumbs \<Rightarrow> env \<Rightarrow> archive_endpoint \<Rightarrow> json \<Rightarrow> import_state \<Rightarrow> import_state \<times> pk outcome" where
  "rest_create co th e v j s = (case j of JObj kvs \<Rightarrow> create_fields co th e v kvs s | _ \<Rightarrow> (s, Http 400))"

section \<open>Validation stores pictures and nothing else\<close>

lemma only_files_count [simp]: "only_files s (n, snd s') \<longleftrightarrow> only_files s s'" "only_files (n, snd s) s' \<longleftrightarrow> only_files s s'"
  by (simp_all add: only_files_def)

lemma nested_list_only:
  assumes "\<And>j s. only_files s (snd (f j s))"
  shows "only_files s (snd (nested_list partial f v s))"
  using all_valid_only [of f, OF assms]
  by (cases v; simp add: nested_list_def; cases "the v"; simp add: case_prod_beta split: option.splits)

lemma validate_partial_camera_only: "only_files s (validate_partial_camera co th kvs s)"
  by (simp add: validate_partial_camera_def validate_camera_only split: field.splits)

lemma nested_camera_only: "only_files s (snd (nested_camera partial co th j s))"
  by (simp add: nested_camera_def camera_valid_only validate_partial_camera_only split: json.splits)

lemma nested_take_only: "only_files s (snd (nested_take partial co th j s))"
  by (simp add: nested_take_def case_prod_beta nested_list_only [OF nested_camera_only] split: json.splits)

lemma nested_shot_only: "only_files s (snd (nested_shot partial co th j s))"
  by (simp add: nested_shot_def case_prod_beta nested_list_only [OF nested_take_only] split: json.splits)

lemma nested_object_only:
  assumes "\<And>j s. only_files s (snd (f j s))"
  shows "only_files s (snd (nested_object partial f v s))"
  using assms by (simp add: nested_object_def case_prod_beta split: option.splits)

text \<open>
  A nested document of which all is required is validated as for an import, with the same pictures
  stored: the fields of a take are those that the import reads.
\<close>

lemma changed_take_full: "changed_take co False kvs blank_take = take_fields co kvs"
  by (simp add: changed_take_def take_fields_def req_def blank_take_def new_take_def)

lemma all_valid_map_result:
  assumes "\<And>j s. f' j s = (map_option g (fst (f j s)), snd (f j s))"
  shows "all_valid f' js s = (map_option (map g) (fst (all_valid f js s)), snd (all_valid f js s))"
  by (induction js arbitrary: s) (auto simp: assms Let_def case_prod_beta split: option.splits)

lemma nested_list_full:
  assumes "\<And>j s. f' j s = (map_option (\<lambda>_. ()) (fst (f j s)), snd (f j s))"
  shows "nested_list False f' v s = (if fst (many f v s) = None then Invalid else With, snd (many f v s))"
  by (auto simp: nested_list_def many_def all_valid_map_result [OF assms] split: option.splits json.splits)

lemma nested_take_full:
  "nested_take False co th j s = (map_option (\<lambda>_. ()) (fst (take_valid co th j s)), snd (take_valid co th j s))"
proof -
  have cams: "nested_list False (nested_camera False co th) v s =
      (if fst (many (camera_valid co th) v s) = None then Invalid else With, snd (many (camera_valid co th) v s))" for v s
    by (rule nested_list_full) (simp add: nested_camera_def)
  show ?thesis
    by (cases j) (auto simp: nested_take_def take_valid_def cams changed_take_full case_prod_beta split: option.splits)
qed

lemma changed_shot_full:
  "changed_shot co False kvs d (new_shot [] 0) \<noteq> None \<longleftrightarrow>
     need (text_field co 200 kvs ''name'') \<noteq> None \<and> session_ref co d kvs \<noteq> None"
  by (auto simp: changed_shot_def req_def session_ref_def opt_def bind_eq_Some_conv split: field.splits)

theorem nested_shot_full:
  "nested_shot False co th j s = (map_option (\<lambda>_. ()) (fst (shot_valid co th j s)), snd (shot_valid co th j s))"
proof (cases j)
  case (JObj kvs)
  have takes: "nested_list False (nested_take False co th) v s =
      (if fst (many (take_valid co th) v s) = None then Invalid else With, snd (many (take_valid co th) v s))" for v s
    by (rule nested_list_full) (rule nested_take_full)
  show ?thesis
    using changed_shot_full [of co kvs "snd s"]
    by (cases "changed_shot co False kvs (snd s) (new_shot [] 0)")
      (auto simp: JObj nested_shot_def shot_valid_def takes case_prod_beta split: option.splits)
qed (simp_all add: nested_shot_def shot_valid_def)

section \<open>What an update may do to the database\<close>

lemma update_object_cases:
  assumes nest: "\<And>kvs s. only_files s (snd (nest kvs s))"
  obtains "only_files s (fst (update_object row nest change store render j s))"
  | r kvs r' d1 where "row = Some r" "change kvs (snd s) r = Some (Inr r')" "only_files s (0, d1)"
      "snd (fst (update_object row nest change store render j s)) = store r' d1"
proof (cases "\<exists>r kvs r'. row = Some r \<and> j = JObj kvs \<and> change kvs (snd s) r = Some (Inr r') \<and> fst (nest kvs s) = Without")
  case True
  then obtain r kvs r' where *: "row = Some r" "j = JObj kvs" "change kvs (snd s) r = Some (Inr r')"
    "fst (nest kvs s) = Without" by blast
  obtain n d1 where **: "nest kvs s = (Without, (n, d1))" using *(4) by (cases "nest kvs s") auto
  have "only_files s (0, d1)" using nest [of s kvs] by (simp add: ** only_files_def)
  moreover have "snd (fst (update_object row nest change store render j s)) = store r' d1"
    using * ** by (simp add: update_object_def Let_def)
  ultimately show thesis using that(2) *(1,3) by blast
next
  case False
  have "only_files s (fst (update_object row nest change store render j s))"
    using False nest
    by (cases row; cases j; simp add: update_object_def case_prod_beta split: option.splits sum.splits)
      (metis nested.exhaust surjective_pairing)+
  then show thesis by (rule that(1))
qed

section \<open>References\<close>

lemma closed_files [simp]: "archive_closed (d\<lparr>db_files := fs\<rparr>) = archive_closed d"
  by (simp add: archive_closed_def)

lemma only_files_closed: "only_files s s' \<Longrightarrow> archive_closed (snd s) \<Longrightarrow> archive_closed (snd s')"
  by (auto simp: only_files_def)

lemma refs_save: "refs_in t f K \<Longrightarrow> set_option (f r) \<subseteq> K \<Longrightarrow> refs_in (t_save k r t) f K"
  by (simp add: refs_in_def t_get_save)

lemma refs_create: "wf_table t \<Longrightarrow> refs_in t f K \<Longrightarrow> set_option (f r) \<subseteq> K \<Longrightarrow> refs_in (snd (t_create r t)) f K"
  by (simp add: refs_in_def t_get_create)

lemma refs_mono: "refs_in t f K \<Longrightarrow> K \<subseteq> K' \<Longrightarrow> refs_in t f K'"
  by (fastforce simp: refs_in_def)

lemma refs_inD: "refs_in t f K \<Longrightarrow> t_get t k = Some r \<Longrightarrow> set_option (f r) \<subseteq> K"
  by (simp add: refs_in_def)

lemma closed_session:
  assumes "archive_closed d" "t_get (db_sessions d) k = Some s"
  shows "se_project s \<in> t_keys (db_projects d)" "set_option (se_master_calib s) \<subseteq> t_keys (db_takes d)"
    "set_option (se_master_colorchart s) \<subseteq> t_keys (db_takes d)" "set_option (se_neutral_take s) \<subseteq> t_keys (db_takes d)"
proof -
  have refs: "refs_in (db_sessions d) (\<lambda>s. Some (se_project s)) (t_keys (db_projects d))"
    "refs_in (db_sessions d) se_master_calib (t_keys (db_takes d))"
    "refs_in (db_sessions d) se_master_colorchart (t_keys (db_takes d))"
    "refs_in (db_sessions d) se_neutral_take (t_keys (db_takes d))"
    using assms(1) by (simp_all only: archive_closed_def)
  note r = refs [THEN refs_inD, OF assms(2)]
  show "se_project s \<in> t_keys (db_projects d)" using r(1) by simp
  show "set_option (se_master_calib s) \<subseteq> t_keys (db_takes d)"
    "set_option (se_master_colorchart s) \<subseteq> t_keys (db_takes d)" "set_option (se_neutral_take s) \<subseteq> t_keys (db_takes d)"
    by (rule r(2-4))+
qed

lemma closed_scan:
  assumes "archive_closed d" "t_get (db_scans d) k = Some a"
  shows "sa_project a \<in> t_keys (db_projects d)" "set_option (sa_take a) \<subseteq> t_keys (db_takes d)"
    "set_option (sa_associated_tracking_asset a) \<subseteq> t_keys (db_tracks d)"
proof -
  have refs: "refs_in (db_scans d) (\<lambda>a. Some (sa_project a)) (t_keys (db_projects d))"
    "refs_in (db_scans d) sa_take (t_keys (db_takes d))"
    "refs_in (db_scans d) sa_associated_tracking_asset (t_keys (db_tracks d))"
    using assms(1) by (simp_all only: archive_closed_def)
  note r = refs [THEN refs_inD, OF assms(2)]
  show "sa_project a \<in> t_keys (db_projects d)" using r(1) by simp
  show "set_option (sa_take a) \<subseteq> t_keys (db_takes d)"
    "set_option (sa_associated_tracking_asset a) \<subseteq> t_keys (db_tracks d)"
    by (rule r(2-3))+
qed

lemma closed_parent:
  assumes "archive_closed d"
  shows "t_get (db_shots d) k = Some sh \<Longrightarrow> sh_session sh \<in> t_keys (db_sessions d)"
    and "t_get (db_takes d) k = Some t \<Longrightarrow> tk_shot t \<in> t_keys (db_shots d)"
    and "t_get (db_tracks d) k = Some b \<Longrightarrow> ta_take b \<in> t_keys (db_takes d)"
proof -
  have "refs_in (db_shots d) (\<lambda>s. Some (sh_session s)) (t_keys (db_sessions d))"
    "refs_in (db_takes d) (\<lambda>t. Some (tk_shot t)) (t_keys (db_shots d))"
    "refs_in (db_tracks d) (\<lambda>a. Some (ta_take a)) (t_keys (db_takes d))"
    using assms by (simp_all only: archive_closed_def)
  then show "t_get (db_shots d) k = Some sh \<Longrightarrow> sh_session sh \<in> t_keys (db_sessions d)"
    "t_get (db_takes d) k = Some t \<Longrightarrow> tk_shot t \<in> t_keys (db_shots d)"
    "t_get (db_tracks d) k = Some b \<Longrightarrow> ta_take b \<in> t_keys (db_takes d)"
    by (auto dest: refs_inD)
qed

lemmas store_defs = store_project_def store_session_def store_shot_def store_take_def store_scan_def store_track_def

lemma store_closed:
  assumes c: "archive_closed d"
  shows "k \<in> t_keys (db_projects d) \<Longrightarrow> archive_closed (store_project k p d)"
    and "k \<in> t_keys (db_sessions d) \<Longrightarrow> se_project s \<in> t_keys (db_projects d) \<Longrightarrow>
      set_option (se_master_calib s) \<subseteq> t_keys (db_takes d) \<Longrightarrow> set_option (se_master_colorchart s) \<subseteq> t_keys (db_takes d) \<Longrightarrow>
      set_option (se_neutral_take s) \<subseteq> t_keys (db_takes d) \<Longrightarrow> archive_closed (store_session k s d)"
    and "k \<in> t_keys (db_shots d) \<Longrightarrow> sh_session sh \<in> t_keys (db_sessions d) \<Longrightarrow> archive_closed (store_shot k sh d)"
    and "k \<in> t_keys (db_takes d) \<Longrightarrow> tk_shot t \<in> t_keys (db_shots d) \<Longrightarrow> archive_closed (store_take k t d)"
    and "k \<in> t_keys (db_scans d) \<Longrightarrow> sa_project a \<in> t_keys (db_projects d) \<Longrightarrow> set_option (sa_take a) \<subseteq> t_keys (db_takes d) \<Longrightarrow>
      set_option (sa_associated_tracking_asset a) \<subseteq> t_keys (db_tracks d) \<Longrightarrow> archive_closed (store_scan k a d)"
    and "k \<in> t_keys (db_tracks d) \<Longrightarrow> ta_take b \<in> t_keys (db_takes d) \<Longrightarrow> archive_closed (store_track k b d)"
  using c unfolding archive_closed_def store_defs
  by (simp_all add: t_keys_save insert_absorb refs_save wf_t_save)

lemma pk_field_refs:
  "req partial old (of_value (pk_value co t) v) = Some k \<Longrightarrow> k = old \<or> k \<in> t_keys t"
  "opt old (of_value (pk_value co t) v) = Some k \<Longrightarrow> k = old \<or> k \<in> t_keys t"
  "req partial old' (map_field Some (of_value (pk_value co t) v)) = Some k' \<Longrightarrow> k' = old' \<or> set_option k' \<subseteq> t_keys t"
  "opt old' (map_field Some (of_value (pk_value co t) v)) = Some k' \<Longrightarrow> k' = old' \<or> set_option k' \<subseteq> t_keys t"
  "req partial old' (of_null_value (pk_value co t) v) = Some k' \<Longrightarrow> k' = old' \<or> set_option k' \<subseteq> t_keys t"
  by (auto simp: req_def opt_def need_def of_value_def of_null_value_def pk_value_def t_keys_get
      split: if_splits option.splits json.splits field.splits)

text \<open>The references of a changed row are those it had, or exist.\<close>

lemmas changed_defs = changed_session_def changed_session_export_def changed_session_details_def changed_shot_def
  changed_take_def changed_scan_def changed_track_def

definition same_session_refs :: "session \<Rightarrow> session \<Rightarrow> bool" where
  "same_session_refs s s' \<longleftrightarrow> se_project s' = se_project s \<and> se_master_calib s' = se_master_calib s \<and>
     se_master_colorchart s' = se_master_colorchart s \<and> se_neutral_take s' = se_neutral_take s"

lemma changed_session_refs: "changed_session co partial kvs d s = Some (Inr s') \<Longrightarrow> same_session_refs s s'"
  by (auto simp: changed_session_def same_session_refs_def bind_eq_Some_conv split: if_splits)

lemma changed_export_refs:
  assumes "changed_session_export co partial kvs d s = Some (Inr s')"
  shows "same_session_refs s s'"
proof -
  obtain start s1 where "changed_session co partial kvs d s = Some (Inr s1)" "s' = s1\<lparr>se_start_time := start\<rparr>"
    using assms by (auto simp: changed_session_export_def bind_eq_Some_conv) (metis old.sum.exhaust sum.case(1,2) sum.distinct(1) sum.inject(2))
  with changed_session_refs [of co partial kvs d s s1] show ?thesis by (simp add: same_session_refs_def)
qed

lemma changed_details_refs:
  assumes "changed_session_details co partial kvs d s = Some s'"
  shows "se_project s' = se_project s \<and>
     (se_master_calib s' = se_master_calib s \<or> set_option (se_master_calib s') \<subseteq> t_keys (db_takes d)) \<and>
     (se_master_colorchart s' = se_master_colorchart s \<or> set_option (se_master_colorchart s') \<subseteq> t_keys (db_takes d)) \<and>
     (se_neutral_take s' = se_neutral_take s \<or> set_option (se_neutral_take s') \<subseteq> t_keys (db_takes d))"
proof -
  obtain a b c where
    "req partial (se_master_calib s) (of_null_value (pk_value co (db_takes d)) (fld kvs ''session_master_calib_id'')) = Some a"
    "req partial (se_master_colorchart s) (of_null_value (pk_value co (db_takes d)) (fld kvs ''session_master_colorchart_id'')) = Some b"
    "req partial (se_neutral_take s) (of_null_value (pk_value co (db_takes d)) (fld kvs ''session_neutral_take_id'')) = Some c"
    "se_project s' = se_project s" "se_master_calib s' = a" "se_master_colorchart s' = b" "se_neutral_take s' = c"
    using assms by (auto simp: changed_session_details_def bind_eq_Some_conv)
  then show ?thesis by (auto dest!: pk_field_refs(5))
qed

lemma changed_shot_refs:
  "changed_shot co partial kvs d sh = Some sh' \<Longrightarrow> sh_session sh' = sh_session sh \<or> sh_session sh' \<in> t_keys (db_sessions d)"
  by (auto simp: changed_shot_def bind_eq_Some_conv dest!: pk_field_refs(2))

lemma changed_take_refs: "changed_take co partial kvs t = Some t' \<Longrightarrow> tk_shot t' = tk_shot t"
  by (auto simp: changed_take_def bind_eq_Some_conv)

lemma changed_track_refs: "changed_track co kvs b = Some b' \<Longrightarrow> ta_take b' = ta_take b"
  by (auto simp: changed_track_def bind_eq_Some_conv)

lemma changed_scan_refs:
  assumes "changed_scan co partial kvs d a = Some a'"
  shows "(sa_project a' = sa_project a \<or> sa_project a' \<in> t_keys (db_projects d)) \<and>
     (sa_take a' = sa_take a \<or> set_option (sa_take a') \<subseteq> t_keys (db_takes d)) \<and>
     (sa_associated_tracking_asset a' = sa_associated_tracking_asset a \<or>
      set_option (sa_associated_tracking_asset a') \<subseteq> t_keys (db_tracks d))"
proof -
  obtain x y z where
    "req partial (sa_project a) (of_value (pk_value co (db_projects d)) (fld kvs ''project_id'')) = Some x"
    "req partial (sa_take a) (map_field Some (of_value (pk_value co (db_takes d)) (fld kvs ''take_id''))) = Some y"
    "opt (sa_associated_tracking_asset a)
       (map_field Some (of_value (pk_value co (db_tracks d)) (fld kvs ''associated_tracking_asset_id''))) = Some z"
    "sa_project a' = x" "sa_take a' = y" "sa_associated_tracking_asset a' = z"
    using assms by (auto simp: changed_scan_def bind_eq_Some_conv)
  then show ?thesis by (auto dest!: pk_field_refs(1,3,4))
qed

section \<open>Requests in any order\<close>

lemma update_closed:
  assumes c: "archive_closed (snd s)" and nest: "\<And>kvs s. only_files s (snd (nest kvs s))"
    and store: "\<And>r kvs r' d1. row = Some r \<Longrightarrow> change kvs (snd s) r = Some (Inr r') \<Longrightarrow> archive_closed d1 \<Longrightarrow>
      d1 = (snd s)\<lparr>db_files := db_files d1\<rparr> \<Longrightarrow> archive_closed (store r' d1)"
  shows "archive_closed (snd (fst (update_object row nest change store render j s)))"
proof (rule update_object_cases [OF nest, where s = s and row = row and change = change and store = store
      and render = render and j = j])
  assume "only_files s (fst (update_object row nest change store render j s))"
  then show ?thesis using c by (rule only_files_closed)
next
  fix r kvs r' d1
  assume r: "row = Some r" "change kvs (snd s) r = Some (Inr r')" and pics: "only_files s (0, d1)"
    and eq: "snd (fst (update_object row nest change store render j s)) = store r' d1"
  from pics obtain fs where d1: "d1 = (snd s)\<lparr>db_files := fs\<rparr>" by (auto simp: only_files_def)
  have "archive_closed (store r' d1)"
    by (rule store [OF r]) (use c d1 in simp_all)
  then show ?thesis by (simp add: eq)
qed

lemma same_tables:
  assumes "d1 = (d::db)\<lparr>db_files := fs\<rparr>"
  shows "db_projects d1 = db_projects d" "db_sessions d1 = db_sessions d" "db_shots d1 = db_shots d"
    "db_takes d1 = db_takes d" "db_scans d1 = db_scans d" "db_tracks d1 = db_tracks d"
  by (simp_all add: assms)

lemma rest_update_closed:
  assumes c: "archive_closed (snd s)"
  shows "archive_closed (snd (fst (rest_update dt co th e partial v k j s)))"
proof (cases v)
  case ProjectsView
  show ?thesis unfolding ProjectsView rest_update.simps
    by (rule update_closed [OF c]) (auto dest: same_tables simp: t_keys_get intro!: store_closed split: option.splits if_splits)
next
  case ProjectArchiveView
  show ?thesis unfolding ProjectArchiveView rest_update.simps
    by (rule update_closed [OF c]) (auto dest: same_tables simp: t_keys_get intro!: store_closed)
next
  case ProjectAssetsView
  show ?thesis unfolding ProjectAssetsView rest_update.simps
    by (rule update_closed [OF c]) (auto dest: same_tables simp: t_keys_get intro!: store_closed)
next
  case SessionView
  show ?thesis unfolding SessionView rest_update.simps
  proof (rule update_closed [OF c])
    fix r kvs r' d1
    assume "t_get (db_sessions (snd s)) k = Some r" "changed_session co partial kvs (snd s) r = Some (Inr r')"
      "archive_closed d1" and d1: "d1 = (snd s)\<lparr>db_files := db_files d1\<rparr>"
    then show "archive_closed (store_session k r' d1)"
      using closed_session [OF c] changed_session_refs same_tables [OF d1]
      by (intro store_closed) (auto simp: same_session_refs_def t_keys_get)
  qed simp
next
  case SessionDetailsView
  show ?thesis unfolding SessionDetailsView rest_update.simps
  proof (rule update_closed [OF c])
    fix r kvs r' d1
    assume a: "t_get (db_sessions (snd s)) k = Some r"
      "map_option Inr (changed_session_details co partial kvs (snd s) r) = Some (Inr r' :: py_exn + session)"
      "archive_closed d1" and d1: "d1 = (snd s)\<lparr>db_files := db_files d1\<rparr>"
    then have ch: "changed_session_details co partial kvs (snd s) r = Some r'" by auto
    show "archive_closed (store_session k r' d1)"
      using closed_session [OF c a(1)] changed_details_refs [OF ch] same_tables [OF d1] a
      by (intro store_closed) (auto simp: t_keys_get)
  qed simp
next
  case SessionExportView
  show ?thesis unfolding SessionExportView rest_update.simps
  proof (rule update_closed [OF c nested_list_only [OF nested_shot_only]])
    fix r kvs r' d1
    assume "t_get (db_sessions (snd s)) k = Some r" "changed_session_export co partial kvs (snd s) r = Some (Inr r')"
      "archive_closed d1" and d1: "d1 = (snd s)\<lparr>db_files := db_files d1\<rparr>"
    then show "archive_closed (store_session k r' d1)"
      using closed_session [OF c] changed_export_refs same_tables [OF d1]
      by (intro store_closed) (auto simp: same_session_refs_def t_keys_get)
  qed
next
  case StaticScanAssetView
  show ?thesis unfolding StaticScanAssetView rest_update.simps
  proof (rule update_closed [OF c])
    fix r kvs r' d1
    assume a: "t_get (db_scans (snd s)) k = Some r"
      "map_option Inr (changed_scan co partial kvs (snd s) r) = Some (Inr r' :: py_exn + scan_asset)"
      "archive_closed d1" and d1: "d1 = (snd s)\<lparr>db_files := db_files d1\<rparr>"
    then have ch: "changed_scan co partial kvs (snd s) r = Some r'" by auto
    show "archive_closed (store_scan k r' d1)"
      using closed_scan [OF c a(1)] changed_scan_refs [OF ch] same_tables [OF d1] a
      by (intro store_closed) (auto simp: t_keys_get)
  qed simp
next
  case TrackingAssetView
  show ?thesis unfolding TrackingAssetView rest_update.simps
  proof (rule update_closed [OF c nested_object_only [OF nested_take_only]])
    fix r kvs r' d1
    assume a: "t_get (db_tracks (snd s)) k = Some r"
      "map_option Inr (changed_track co kvs r) = Some (Inr r' :: py_exn + tracking_asset)"
      "archive_closed d1" and d1: "d1 = (snd s)\<lparr>db_files := db_files d1\<rparr>"
    then have ch: "changed_track co kvs r = Some r'" by auto
    show "archive_closed (store_track k r' d1)"
      using closed_parent(3) [OF c a(1)] changed_track_refs [OF ch] same_tables [OF d1] a
      by (intro store_closed) (auto simp: t_keys_get)
  qed
next
  case TakeView
  show ?thesis unfolding TakeView rest_update.simps
  proof (rule update_closed [OF c nested_list_only [OF nested_camera_only]])
    fix r kvs r' d1
    assume a: "t_get (db_takes (snd s)) k = Some r"
      "map_option Inr (changed_take co partial kvs r) = Some (Inr r' :: py_exn + take)"
      "archive_closed d1" and d1: "d1 = (snd s)\<lparr>db_files := db_files d1\<rparr>"
    then have ch: "changed_take co partial kvs r = Some r'" by auto
    show "archive_closed (store_take k r' d1)"
      using closed_parent(2) [OF c a(1)] changed_take_refs [OF ch] same_tables [OF d1] a
      by (intro store_closed) (auto simp: t_keys_get)
  qed
next
  case ShotView
  show ?thesis unfolding ShotView rest_update.simps
  proof (rule update_closed [OF c nested_list_only [OF nested_take_only]])
    fix r kvs r' d1
    assume a: "t_get (db_shots (snd s)) k = Some r"
      "map_option Inr (changed_shot co partial kvs (snd s) r) = Some (Inr r' :: py_exn + shot)"
      "archive_closed d1" and d1: "d1 = (snd s)\<lparr>db_files := db_files d1\<rparr>"
    then have ch: "changed_shot co partial kvs (snd s) r = Some r'" by auto
    show "archive_closed (store_shot k r' d1)"
      using closed_parent(1) [OF c a(1)] changed_shot_refs [OF ch] same_tables [OF d1] a
      by (intro store_closed) (auto simp: t_keys_get)
  qed
qed

lemma refs_insert: "refs_in t f K \<Longrightarrow> refs_in t f (insert k K)"
  by (erule refs_mono) blast

lemma wf_create_cameras: "wf_table t \<Longrightarrow> wf_table (create_cameras n cs t)"
  unfolding create_cameras_def by (induction cs arbitrary: t) auto

lemma refs_create_cameras:
  "wf_table t \<Longrightarrow> refs_in t (\<lambda>c. Some (ac_take c)) K \<Longrightarrow> n \<in> K \<Longrightarrow> refs_in (create_cameras n cs t) (\<lambda>c. Some (ac_take c)) K"
  unfolding create_cameras_def
  by (induction cs arbitrary: t) (simp_all add: tag_camera_def refs_create wf_t_create)

lemma create_take_tree_state:
  "create_take_tree e k td d =
     d\<lparr>db_takes := snd (t_create ((fst td)\<lparr>tk_shot := k, tk_capture_time := e_now e\<rparr>) (db_takes d)),
       db_acameras := create_cameras (next_pk (db_takes d)) (case snd td of None \<Rightarrow> [] | Some cs \<Rightarrow> cs) (db_acameras d)\<rparr>"
  by (cases "snd td"; cases td)
    (simp_all add: create_take_tree_def create_take_def Let_def case_prod_beta fold_create_cameras create_cameras_def)

lemma create_take_closed:
  assumes "archive_closed d" "k \<in> t_keys (db_shots d)"
  shows "archive_closed (create_take_tree e k td d)"
  using assms unfolding archive_closed_def create_take_tree_state
  by (simp add: t_keys_create refs_insert refs_create wf_t_create wf_create_cameras refs_create_cameras)

lemma create_take_shots: "db_shots (create_take_tree e k td d) = db_shots d"
  by (simp add: create_take_tree_state)

lemma create_takes_closed:
  "archive_closed d \<Longrightarrow> k \<in> t_keys (db_shots d) \<Longrightarrow> archive_closed (fold (create_take_tree e k) tds d)"
  by (induction tds arbitrary: d) (simp_all add: create_take_closed create_take_shots)

lemma create_shot_closed:
  assumes "archive_closed d" "session \<in> t_keys (db_sessions d)"
  shows "archive_closed (create_shot_tree e session sd d)"
proof -
  have "archive_closed (d\<lparr>db_shots := snd (t_create (new_shot (fst sd) session) (db_shots d))\<rparr>)"
    using assms unfolding archive_closed_def
    by (simp add: t_keys_create refs_insert refs_create wf_t_create new_shot_def)
  then show ?thesis
    unfolding create_shot_tree_def Let_def case_prod_beta
    by (rule create_takes_closed) (simp add: t_keys_create)
qed

lemma create_shot_sessions: "db_sessions (create_shot_tree e session sd d) = db_sessions d"
proof -
  have "db_sessions (fold (create_take_tree e k) tds d) = db_sessions d" for k tds d
    by (induction tds arbitrary: d) (simp_all add: create_take_tree_state)
  then show ?thesis by (simp add: create_shot_tree_def Let_def case_prod_beta)
qed

lemma create_session_closed:
  assumes c: "archive_closed d" and p: "sd_project sd \<in> t_keys (db_projects d)"
  shows "archive_closed (fst (create_session_tree e sd d))"
proof -
  let ?k = "next_pk (db_sessions d)"
  let ?d = "d\<lparr>db_sessions := snd (t_create ((new_session (e_now e) (sd_name sd) (sd_project sd))
            \<lparr>se_frontal_cam_id := sd_frontal_cam_id sd\<rparr>) (db_sessions d))\<rparr>"
  have "archive_closed ?d \<and> ?k \<in> t_keys (db_sessions ?d)"
    using c p unfolding archive_closed_def
    by (simp add: t_keys_create refs_insert refs_create wf_t_create new_session_def)
  then have "archive_closed (fst (for_each (add_shot e ?k) (sd_shots sd) ?d)) \<and>
      ?k \<in> t_keys (db_sessions (fst (for_each (add_shot e ?k) (sd_shots sd) ?d)))"
    by (rule for_each_inv [rotated])
      (auto simp: add_shot_def create_shot_closed create_shot_sessions split: option.splits)
  then show ?thesis
    by (simp add: create_session_tree_def Let_def case_prod_beta split: option.splits prod.splits)
qed

lemma session_valid_project:
  assumes "session_valid co th j s = (Some sd, s')"
  shows "sd_project sd \<in> t_keys (db_projects (snd s))"
  using assms
  by (auto simp: session_valid_def case_prod_beta bind_eq_Some_conv t_keys_get split: json.splits dest!: need_pk)

lemma post_session_export_closed:
  assumes c: "archive_closed (snd s)"
  shows "archive_closed (snd (fst (post_session_export co th e j s)))"
proof -
  obtain r s' where Pair: "session_valid co th j s = (r, s')" by (rule prod.exhaust)
  then have files: "only_files s s'" using session_valid_only [of s co th j] by simp
  note c' = only_files_closed [OF files c]
  show ?thesis
  proof (cases r)
    case None
    with Pair c' show ?thesis by (simp add: post_session_export_def)
  next
    case (Some sd)
    have "sd_project sd \<in> t_keys (db_projects (snd s'))"
      using session_valid_project [of co th j s sd s'] Pair Some files by (auto simp: only_files_def)
    from create_session_closed [OF c' this, of e] show ?thesis
      by (cases s') (simp add: post_session_export_def Pair Some case_prod_beta split: prod.splits sum.splits)
  qed
qed

lemma post_shot_closed:
  assumes c: "archive_closed (snd s)"
  shows "archive_closed (snd (fst (post_shot co th e j s)))"
proof -
  obtain r s' where Pair: "shot_valid co th j s = (r, s')" by (rule prod.exhaust)
  then have files: "only_files s s'" using shot_valid_only [of s co th j] by simp
  note c' = only_files_closed [OF files c]
  have "session \<in> t_keys (db_sessions (snd s'))" if "r = Some (name, Some session, takes)" for name session takes
    using that Pair files session_ref_exists [of co "snd s"]
    by (auto simp: shot_valid_def case_prod_beta only_files_def t_keys_get split: json.splits option.splits)
  with c' show ?thesis
    by (cases s') (auto simp: post_shot_def Pair create_shot_closed split: option.splits prod.splits)
qed

lemma create_project_closed: "archive_closed (snd s) \<Longrightarrow> archive_closed (snd (fst (create_project co kvs s)))"
  unfolding create_project_def archive_closed_def Let_def case_prod_beta
  by (cases "changed_project co False kvs \<lparr>pr_name = [], pr_archived = False\<rparr>")
    (simp_all add: t_keys_create refs_insert wf_t_create)

lemma new_scan_refs:
  assumes "changed_scan co False kvs d a = Some a'" "sa_associated_tracking_asset a = None"
  shows "sa_project a' \<in> t_keys (db_projects d)" "set_option (sa_take a') \<subseteq> t_keys (db_takes d)"
    "set_option (sa_associated_tracking_asset a') \<subseteq> t_keys (db_tracks d)"
proof -
  obtain x y where
    x: "need (of_value (pk_value co (db_projects d)) (fld kvs ''project_id'')) = Some x" "sa_project a' = x"
    and y: "need (map_field Some (of_value (pk_value co (db_takes d)) (fld kvs ''take_id''))) = Some y" "sa_take a' = y"
    using assms by (auto simp: changed_scan_def req_def bind_eq_Some_conv)
  show "sa_project a' \<in> t_keys (db_projects d)" using need_pk [OF x(1)] x(2) by (simp add: t_keys_get)
  show "set_option (sa_take a') \<subseteq> t_keys (db_takes d)"
    using y pk_field_refs(3) [of False None co "db_takes d" "fld kvs ''take_id''" y] by (auto simp: req_def)
  show "set_option (sa_associated_tracking_asset a') \<subseteq> t_keys (db_tracks d)"
    using changed_scan_refs [OF assms(1)] assms(2) by auto
qed

lemma create_scan_closed:
  assumes c: "archive_closed (snd s)"
  shows "archive_closed (snd (fst (create_scan co kvs s)))"
proof (cases "changed_scan co False kvs (snd s) blank_scan")
  case (Some a)
  have "sa_associated_tracking_asset blank_scan = None" by (simp add: blank_scan_def)
  note r = new_scan_refs [OF Some this]
  show ?thesis
    using c r unfolding archive_closed_def create_scan_def Let_def case_prod_beta Some
    by (simp add: t_keys_create refs_insert refs_create wf_t_create)
qed (use c in \<open>simp add: create_scan_def\<close>)

lemma refuse_nested_closed:
  "only_files s (snd r) \<Longrightarrow> archive_closed (snd s) \<Longrightarrow> archive_closed (snd (fst (refuse_nested valid r)))"
  by (auto simp: refuse_nested_def case_prod_beta dest: only_files_closed)

lemma rest_create_closed:
  assumes c: "archive_closed (snd s)"
  shows "archive_closed (snd (fst (rest_create co th e v j s)))"
proof (cases j)
  case (JObj kvs)
  show ?thesis
    by (cases v) (simp_all add: rest_create_def JObj c create_project_closed create_scan_closed
        post_session_export_closed post_shot_closed refuse_nested_closed [OF nested_object_only [OF nested_take_only]]
        refuse_nested_closed [OF nested_list_only [OF nested_camera_only]])
qed (simp_all add: rest_create_def c)

datatype archive_request =
    Create archive_endpoint json
  | Update bool archive_endpoint pk json
  | Delete archive_resource pk

fun do_request ::
    "(time \<Rightarrow> string) \<Rightarrow> coercions \<Rightarrow> thumbs \<Rightarrow> env \<Rightarrow> archive_request \<Rightarrow> import_state \<Rightarrow> import_state" where
  "do_request dt co th e (Create v j) s = fst (rest_create co th e v j s)"
| "do_request dt co th e (Update partial v k j) s = fst (rest_update dt co th e partial v k j s)"
| "do_request dt co th e (Delete r k) s = (fst s, fst (rest_delete e r k (snd s)))"

definition serve_archive ::
    "(time \<Rightarrow> string) \<Rightarrow> coercions \<Rightarrow> thumbs \<Rightarrow> (env \<times> archive_request) list \<Rightarrow> import_state \<Rightarrow> import_state" where
  "serve_archive dt co th = fold (\<lambda>(e, r). do_request dt co th e r)"

text \<open>
  C15: whatever objects are created, changed and deleted through the REST interface of the
  archive, with whatever documents, by whom and in which order, refused and failing requests included:
  every reference into the archive still finds its row, those of sessions, shots, takes, cameras and
  assets, those of the jobs and those of the capture locations.
\<close>

theorem archive_keeps_references:
  assumes "archive_closed (snd s)"
  shows "archive_closed (snd (serve_archive dt co th rs s))"
  using assms unfolding serve_archive_def
proof (induction rs arbitrary: s)
  case (Cons er rs)
  obtain e r where er: "er = (e, r)" by (rule prod.exhaust)
  have "archive_closed (snd (do_request dt co th e r s))"
    using Cons.prems by (cases r) (simp_all add: rest_create_closed rest_update_closed rest_delete_closed)
  from Cons.IH [OF this] show ?case by (simp add: er)
qed simp

definition no_coercions :: coercions where
  "no_coercions = \<lparr>co_str = (\<lambda>_. None), co_int = (\<lambda>_. None), co_float = (\<lambda>_. None), co_bool = (\<lambda>_. None),
     co_date = (\<lambda>_. None)\<rparr>"

definition no_thumbs :: thumbs where
  "no_thumbs = \<lparr>th_uuid = (\<lambda>_. ''u''), th_b64 = (\<lambda>_. None), th_write = (\<lambda>_. False)\<rparr>"

lemma archive_keeps_references_witness:
  "archive_closed (snd (serve_archive (\<lambda>_. ''now'') no_coercions no_thumbs
     [(stage_env, Create ProjectsView (JObj [(''name'', JStr ''second'')])),
      (stage_env, Update True SessionDetailsView 2 (JObj [(''session_neutral_take_id'', JInt 4)])),
      (stage_env, Delete Shots 3)] (0, shelf)))"
  by (rule archive_keeps_references) (simp add: shelf_closed)

section \<open>What an update changes\<close>

text \<open>A \<open>PATCH\<close> without fields stores the row as it was: the database is the same.\<close>

theorem empty_patch:
  assumes c: "archive_closed d"
  shows "fst (rest_update dt co th e True v k (JObj []) (n, d)) = (n, d)"
proof -
  have wf: "wf_table (db_projects d)" "wf_table (db_sessions d)" "wf_table (db_shots d)" "wf_table (db_takes d)"
    "wf_table (db_scans d)" "wf_table (db_tracks d)"
    using c by (simp_all only: archive_closed_def)
  have absent: "of_value f None = Absent" "of_null_value f' None = Absent" "fld [] name = None"
    for f :: "json \<Rightarrow> 'x option" and f' :: "json \<Rightarrow> 'y option" and name
    by (simp_all add: of_value_def of_null_value_def fld_def)
  note simps = absent req_def opt_def update_object_def nested_list_def nested_object_def store_defs
  show ?thesis
    by (cases v; simp add: simps changed_project_def changed_session_def changed_session_export_def
        changed_session_details_def changed_shot_def changed_take_def changed_scan_def changed_track_def t_save_same [OF wf(1)]
        t_save_same [OF wf(2)] t_save_same [OF wf(3)] t_save_same [OF wf(4)] t_save_same [OF wf(5)]
        t_save_same [OF wf(6)] split: option.splits)
qed

text \<open>A changed take fits the columns as an imported one does.\<close>

lemma req_text: "req partial old (text_field co n kvs name) = Some s \<Longrightarrow> text_fits n old \<Longrightarrow> text_fits n s"
  using need_text [of co n "fld kvs name" s]
  by (cases "text_field co n kvs name") (auto simp: req_def opt_def need_def split: if_splits)

lemma opt_null_text: "opt old (null_text co n kvs name) = Some s \<Longrightarrow> blank_fits n old \<Longrightarrow> blank_fits n s"
  using opt_blank [of co n "fld kvs name" s] by (auto simp: opt_def split: field.splits)

lemma opt_int_fits: "opt old (of_value (int_value co b) v) = Some i \<Longrightarrow> int_fits b old \<Longrightarrow> int_fits b i"
  using need_int [of co b v i] by (auto simp: opt_def need_def split: field.splits)

theorem changed_take_fits:
  assumes "changed_take co partial kvs t = Some t'" "take_fits t"
  shows "take_fits t'"
  using assms unfolding changed_take_def take_fits_def
  by (auto simp: bind_eq_Some_conv dest: req_text opt_null_text opt_int_fits opt_choice)

text \<open>
  Only administrators may set the flag of a take (\<open>post_set_take_flag\<close>); any user who is logged in does the same
  through the viewset.
\<close>

lemma t_save_update:
  assumes wf: "wf_table t" and g: "t_get t k = Some r"
  shows "t_save k (f r) t = t_update (\<lambda>i _. i \<in> {k}) f t"
proof -
  have "r' = r" if "(k, r') \<in> set (rows t)" for r'
    using wf g that by (auto simp: wf_table_def t_get_def dest: map_of_is_SomeI)
  then have "map (\<lambda>(k', r'). (k', if k' = k then f r else r')) (rows t) =
      map (\<lambda>(k', r'). (k', if k' = k then f r' else r')) (rows t)"
    by (intro map_cong) auto
  moreover have "k \<in> t_keys t" using g by (simp add: t_keys_get)
  ultimately show ?thesis by (simp add: t_save_def t_update_def)
qed

theorem anyone_flags_takes:
  assumes wf: "wf_table (db_takes d)" and g: "t_get (db_takes d) k = Some t" and f: "flag \<in> set take_flags"
    and admin: "u_is_superuser (e_user a)" and q: "flagged_ids q = [k]" "fq_flag_set q" "fq_flag_name q = Some flag"
  shows "snd (fst (rest_update dt co th e True TakeView k (JObj [(''flag'', JStr flag)]) (n, d))) =
    fst (post_set_take_flag a q d)"
proof -
  have "fld [(''flag'', JStr flag)] name = (if name = ''flag'' then Some (JStr flag) else None)" for name
    by (simp add: fld_def)
  then have "changed_take co True [(''flag'', JStr flag)] t = Some (t\<lparr>tk_flag := flag\<rparr>)"
    using f by (simp add: changed_take_def req_def opt_def of_value_def of_null_value_def choice_value_def)
  then show ?thesis
    using g admin q t_save_update [OF wf g, of "\<lambda>t. t\<lparr>tk_flag := flag\<rparr>"]
    by (simp add: update_object_def nested_list_def fld_def Let_def store_take_def post_set_take_flag_def)
qed

end
