(* ===== verification/Accounts.thy ===== *)
theory Accounts
  imports Archive_Serializers
begin

text \<open>
  Users and their sessions (\<open>accounts/views.py\<close>, \<open>accounts/serializers.py\<close>), the login through an
  OAuth2 server (\<open>ava/oauth2.py\<close>) and the initial data (\<open>initialsetup.py\<close>). What
  Django keeps of a visitor is the user of his session; the passwords' encoding, the
  answer of the token server, the content of a token, the library function \<open>parse_qsl\<close> and the page of the
  login form are parameters. A response with a text and status is \<open>Json\<close>; a redirection has status
  302 and the address as its text.
\<close>

section \<open>Passwords and sessions\<close>

record auth_env =
  au_hash :: "string \<Rightarrow> string"
  au_check :: "string \<Rightarrow> string \<Rightarrow> bool"
  au_settings :: "(string \<times> string \<times> string) option"
  au_backend :: bool
  au_parse_qsl :: "string \<Rightarrow> py_exn + (string \<times> string) list"
  au_exchange :: "string \<Rightarrow> py_exn + json"
  au_decode :: "json \<Rightarrow> py_exn + json"
  au_jwt :: "pk \<Rightarrow> string"
  au_form :: string

text \<open>Who is logged in under which key of a session.\<close>

record web =
  wb_db :: db
  wb_logins :: "string \<Rightarrow> pk option"

text \<open>\<open>ModelBackend\<close>, the backend of the settings: an active user with this name and password.\<close>

definition check_user :: "auth_env \<Rightarrow> string \<Rightarrow> string \<Rightarrow> db \<Rightarrow> pk option" where
  "check_user ae username password d =
     (case t_filter (\<lambda>_ u. u_username u = username) (db_users d) of
        [(k, u)] \<Rightarrow> if au_check ae password (u_password u) \<and> u_is_active u then Some k else None
      | _ \<Rightarrow> None)"

definition end_session :: "string option \<Rightarrow> (string \<Rightarrow> pk option) \<Rightarrow> string \<Rightarrow> pk option" where
  "end_session cookie logins = (case cookie of None \<Rightarrow> logins | Some c \<Rightarrow> logins(c := None))"

definition request_user :: "string option \<Rightarrow> web \<Rightarrow> pk option" where
  "request_user cookie w = Option.bind cookie (wb_logins w)"

text \<open>
  \<open>auth.login\<close>: the time of the login is stored. A session that belongs to the same user already keeps its
  key; any other session of the browser ends, and a new key takes its place. \<open>auth.logout\<close>: the session ends.
\<close>

definition auth_login :: "time \<Rightarrow> string option \<Rightarrow> string \<Rightarrow> pk \<Rightarrow> web \<Rightarrow> web" where
  "auth_login now cookie fresh k w =
     w\<lparr>wb_db := (wb_db w)\<lparr>db_users := t_update (\<lambda>i _. i = k) (\<lambda>u. u\<lparr>u_last_login := Some now\<rparr>) (db_users (wb_db w))\<rparr>,
       wb_logins := (if request_user cookie w = Some k then wb_logins w
                     else (end_session cookie (wb_logins w))(fresh \<mapsto> k))\<rparr>"

definition auth_logout :: "string option \<Rightarrow> web \<Rightarrow> web" where
  "auth_logout cookie w = w\<lparr>wb_logins := end_session cookie (wb_logins w)\<rparr>"

definition user_name :: "db \<Rightarrow> pk \<Rightarrow> string" where
  "user_name d k = (case t_get (db_users d) k of None \<Rightarrow> [] | Some u \<Rightarrow> u_username u)"

section \<open>The views\<close>

definition index :: "string outcome" where
  "index = Json 200 ''Hello!!''"

definition info :: "string option \<Rightarrow> web \<Rightarrow> string outcome" where
  "info cookie w =
     (case request_user cookie w of
        Some k \<Rightarrow> Json 200 (''info about user (authenticated)'' @ user_name (wb_db w) k)
      | None \<Rightarrow> Json 200 (''info about user '' @ []))"

definition login ::
    "auth_env \<Rightarrow> time \<Rightarrow> string option \<Rightarrow> string \<Rightarrow> string option \<Rightarrow> string option \<Rightarrow> web \<Rightarrow> web \<times> string outcome" where
  "login ae now cookie fresh username password w =
     (case (username, password) of
        (Some u, Some p) \<Rightarrow>
          (case check_user ae u p (wb_db w) of
             Some k \<Rightarrow> (auth_login now cookie fresh k w, Json 200 (''login ok '' @ user_name (wb_db w) k))
           | None \<Rightarrow> (w, Json 200 ''login error''))
      | _ \<Rightarrow> (w, Json 200 (au_form ae)))"

definition logout :: "string option \<Rightarrow> web \<Rightarrow> web \<times> string outcome" where
  "logout cookie w = (auth_logout cookie w, Json 200 ''logout'')"

section \<open>Login through OAuth2\<close>

text \<open>
  \<open>OAuth2Backend.authenticate\<close>: the payload is read without checking the signature; it counts
  if it says that the address is verified and exactly one user has this address.
\<close>

definition json_get :: "json \<Rightarrow> string \<Rightarrow> json" where
  "json_get j name = (case j of JObj kvs \<Rightarrow> (case map_of (rev kvs) name of None \<Rightarrow> JNull | Some v \<Rightarrow> v) | _ \<Rightarrow> JNull)"

fun json_true :: "json \<Rightarrow> bool" where
  "json_true JNull = False"
| "json_true (JBool b) = b"
| "json_true (JInt i) = (i \<noteq> 0)"
| "json_true (JFloat x) = (x \<noteq> 0)"
| "json_true (JStr s) = (s \<noteq> [])"
| "json_true (JText s) = (s \<noteq> [])"
| "json_true (JList xs) = (xs \<noteq> [])"
| "json_true (JObj kvs) = (kvs \<noteq> [])"

definition oauth_user :: "json \<Rightarrow> db \<Rightarrow> pk option" where
  "oauth_user payload d =
     (if \<not> json_true (json_get payload ''email_verified'') then None
      else
        (case json_get payload ''email'' of
           JStr m \<Rightarrow> (case t_filter (\<lambda>_ u. u_email u = m) (db_users d) of [(k, _)] \<Rightarrow> Some k | _ \<Rightarrow> None)
         | _ \<Rightarrow> None))"

text \<open>
  \<open>authenticate\<close> of Django asks the backends of the settings: the one for passwords knows nothing of
  tokens, the other one is asked if it is enabled. A token that cannot be decoded raises.
\<close>

definition authenticate_token :: "auth_env \<Rightarrow> json \<Rightarrow> db \<Rightarrow> py_exn + pk option" where
  "authenticate_token ae token d =
     (if \<not> au_backend ae then Inr None
      else (case au_decode ae token of Inl x \<Rightarrow> Inl x | Inr payload \<Rightarrow> Inr (oauth_user payload d)))"

record oauth_query =
  oq_code :: "string option"
  oq_state :: "string option"

definition exchange_body :: "string \<times> string \<times> string \<Rightarrow> string \<Rightarrow> string" where
  "exchange_body s code = (case s of (client_id, secret, redirect_uri) \<Rightarrow>
     ''code='' @ code @ ''&client_id='' @ client_id @ ''&client_secret='' @ secret @
     ''&redirect_uri='' @ redirect_uri @ ''&grant_type=authorization_code'')"

text \<open>\<open>dict(pairs).get(key)\<close>.\<close>

definition state_get :: "(string \<times> string) list \<Rightarrow> string \<Rightarrow> string option" where
  "state_get state key = map_of (rev state) key"

text \<open>
  The address to return to, from the state: without \<open>url\<close> the concatenation raises, after the
  login; the session is not stored with a response of status 500, but the old key is gone.
\<close>

definition return_url :: "auth_env \<Rightarrow> db \<Rightarrow> pk \<Rightarrow> (string \<times> string) list \<Rightarrow> py_exn + string" where
  "return_url ae d k state =
     (case state_get state ''url'' of
        None \<Rightarrow> Inl TypeError
      | Some url \<Rightarrow>
          (let u = (if truthy (state_get state ''anchor'')
                    then url @ ''#'' @ show_opt (state_get state ''anchor'') else url)
           in Inr (u @ ''?token='' @ au_jwt ae k @ ''&userid='' @ user_name d k)))"

definition oauth_login ::
    "auth_env \<Rightarrow> time \<Rightarrow> string option \<Rightarrow> string \<Rightarrow> (string \<times> string) list \<Rightarrow> json \<Rightarrow> web \<Rightarrow> web \<times> string outcome" where
  "oauth_login ae now cookie fresh state answer w =
     (case authenticate_token ae (json_get answer ''id_token'') (wb_db w) of
        Inr (Some k) \<Rightarrow>
          (let w1 = auth_login now cookie fresh k w in
           case return_url ae (wb_db w) k state of
             Inl x \<Rightarrow> (w1\<lparr>wb_logins := end_session cookie (wb_logins w)\<rparr>, Raised x)
           | Inr url \<Rightarrow> (w1, Json 302 url))
      | _ \<Rightarrow> (auth_logout cookie w, Json 401 ''User does not exist''))"

text \<open>
  \<open>get_oauth2\<close>. The settings may lack the three values altogether. \<open>parse_qsl\<close> is called by a
  name that the module does not import.
\<close>

definition get_oauth2 ::
    "auth_env \<Rightarrow> time \<Rightarrow> string option \<Rightarrow> string \<Rightarrow> oauth_query \<Rightarrow> web \<Rightarrow> web \<times> string outcome" where
  "get_oauth2 ae now cookie fresh q w =
     (case au_settings ae of
        None \<Rightarrow> (w, Raised (AttributeError ''OAUTH2_CLIENT_ID''))
      | Some s \<Rightarrow>
          if fst s = [] \<or> fst (snd s) = [] \<or> snd (snd s) = []
          then (w, Json 401 ''OAuth2 not configured in settings'')
          else if \<not> truthy (oq_state q) then (w, Json 401 ''Missing query string'')
          else
            (case au_parse_qsl ae (show_opt (oq_state q)) of
               Inl x \<Rightarrow> (w, Raised x)
             | Inr state \<Rightarrow>
                 (case oq_code q of
                    None \<Rightarrow> (w, Raised TypeError)
                  | Some code \<Rightarrow>
                      (case au_exchange ae (exchange_body s code) of
                         Inl x \<Rightarrow> (w, Raised x)
                       | Inr (JObj kvs) \<Rightarrow> oauth_login ae now cookie fresh state (JObj kvs) w
                       | Inr _ \<Rightarrow> (w, Raised (AttributeError ''get''))))))"

text \<open>The module as it is: the name is not defined.\<close>

definition parse_qsl_missing :: "auth_env \<Rightarrow> bool" where
  "parse_qsl_missing ae \<longleftrightarrow> (\<forall>s. au_parse_qsl ae s = Inl (NameError ''parse_qsl''))"

section \<open>Users as data\<close>

text \<open>
  \<open>UserSerializer\<close>; \<open>url\<close> makes the address of an object. The
  groups of users are not part of the model; their list is a parameter.
\<close>

definition user_json :: "(string \<Rightarrow> pk \<Rightarrow> string) \<Rightarrow> (pk \<Rightarrow> pk list) \<Rightarrow> (time \<Rightarrow> string) \<Rightarrow> pk \<times> user \<Rightarrow> (string \<times> json) list" where
  "user_json url groups dt ku = (let (k, u) = ku in
     [(''url'', JStr (url ''user'' k)), (''id'', j_pk k), (''username'', JStr (u_username u)),
      (''email'', JStr (u_email u)), (''groups'', JList (map (\<lambda>g. JStr (url ''group'' g)) (groups k))),
      (''first_name'', JStr (u_first_name u)), (''last_name'', JStr (u_last_name u)),
      (''last_login'', j_opt (\<lambda>t. JStr (dt t)) (u_last_login u))])"

definition current_user ::
    "(string \<Rightarrow> pk \<Rightarrow> string) \<Rightarrow> (pk \<Rightarrow> pk list) \<Rightarrow> (time \<Rightarrow> string) \<Rightarrow> (string \<Rightarrow> string) \<Rightarrow> env \<Rightarrow> json outcome" where
  "current_user url groups dt gravatar e =
     Json 200 (JObj (user_json url groups dt (e_user_id e, e_user e) @
       [(''gravatar'', JStr (gravatar (u_email (e_user e))))]))"

definition all_users ::
    "(string \<Rightarrow> pk \<Rightarrow> string) \<Rightarrow> (pk \<Rightarrow> pk list) \<Rightarrow> (time \<Rightarrow> string) \<Rightarrow> (string \<Rightarrow> string) \<Rightarrow> (time \<Rightarrow> string) \<Rightarrow> db \<Rightarrow> json outcome" where
  "all_users url groups dt gravatar naturaltime d =
     Json 200 (JList (map (\<lambda>(k, u). JObj (user_json url groups dt (k, u) @
       [(''gravatar'', JStr (gravatar (u_email u))),
        (''lastMessage'', j_opt (\<lambda>t. JStr (naturaltime t)) (u_last_login u)), (''messages'', JList [])]))
       (order_desc (\<lambda>(_, u). u_last_login u) (rows (db_users d)))))"

definition listed_users :: "db \<Rightarrow> (pk \<times> user) list" where
  "listed_users d = order_desc (\<lambda>(_, u). u_date_joined u) (rows (db_users d))"

text \<open>
  \<open>PATCH\<close> on \<open>UserViewSet\<close>, for the columns of texts: anybody who is logged in may
  change any user. \<open>valid\<close> are the validators of the columns; names are unique.
\<close>

record user_patch =
  up_username :: "string option"
  up_email :: "string option"
  up_first_name :: "string option"
  up_last_name :: "string option"

definition patched :: "'a option \<Rightarrow> 'a \<Rightarrow> 'a" where
  "patched x y = (case x of None \<Rightarrow> y | Some z \<Rightarrow> z)"

definition patch_user :: "(user_patch \<Rightarrow> bool) \<Rightarrow> env \<Rightarrow> pk \<Rightarrow> user_patch \<Rightarrow> db \<Rightarrow> db \<times> string outcome" where
  "patch_user valid e k p d =
     (case t_get (db_users d) k of
        None \<Rightarrow> (d, Http 404)
      | Some u \<Rightarrow>
          if valid p \<and> (\<forall>n \<in> set_option (up_username p).
               t_count (\<lambda>i v. i \<noteq> k \<and> u_username v = n) (db_users d) = 0)
          then (d\<lparr>db_users := t_save k (u\<lparr>u_username := patched (up_username p) (u_username u),
                  u_email := patched (up_email p) (u_email u),
                  u_first_name := patched (up_first_name p) (u_first_name u),
                  u_last_name := patched (up_last_name p) (u_last_name u)\<rparr>) (db_users d)\<rparr>, Http 200)
          else (d, Http 400))"

section \<open>Initial data\<close>

text \<open>\<open>initialsetup\<close>: two users, a location and the access of the administrator to it.\<close>

definition new_user :: "time \<Rightarrow> string \<Rightarrow> bool \<Rightarrow> string \<Rightarrow> user" where
  "new_user now name admin password =
     \<lparr>u_username = name, u_email = [], u_is_staff = admin, u_is_superuser = admin, u_is_active = True,
      u_password = password, u_first_name = [], u_last_name = [], u_last_login = None, u_date_joined = now\<rparr>"

text \<open>\<open>if not queryset: ...create... else: queryset[0]\<close>.\<close>

definition ensure_user :: "auth_env \<Rightarrow> time \<Rightarrow> string \<Rightarrow> bool \<Rightarrow> string \<Rightarrow> db \<Rightarrow> pk \<times> db" where
  "ensure_user ae now name admin password d =
     (case t_filter (\<lambda>_ u. u_username u = name) (db_users d) of
        (k, _) # _ \<Rightarrow> (k, d)
      | [] \<Rightarrow> (let (k, t) = t_create (new_user now name admin (au_hash ae password)) (db_users d)
              in (k, d\<lparr>db_users := t\<rparr>)))"

definition ensure_location :: "string \<Rightarrow> db \<Rightarrow> pk \<times> db" where
  "ensure_location name d =
     (case t_filter (\<lambda>_ l. cl_name l = name) (db_locations d) of
        (k, _) # _ \<Rightarrow> (k, d)
      | [] \<Rightarrow> (let (k, t) = t_create ((new_capture_location name)\<lparr>cl_read_access_all := True\<rparr>) (db_locations d)
              in (k, d\<lparr>db_locations := t\<rparr>)))"

definition ensure_access :: "pk \<Rightarrow> pk \<Rightarrow> db \<Rightarrow> db" where
  "ensure_access user loc d =
     (case t_filter (\<lambda>_ a. la_user a = user \<and> la_location a = loc) (db_access d) of
        _ # _ \<Rightarrow> d
      | [] \<Rightarrow> d\<lparr>db_access := snd (t_create \<lparr>la_user = user, la_location = loc, la_read_access = True,
                la_write_access = True\<rparr> (db_access d))\<rparr>)"

definition initialsetup :: "auth_env \<Rightarrow> time \<Rightarrow> db \<Rightarrow> db" where
  "initialsetup ae now d =
     (let d1 = snd (ensure_user ae now ''pythonscript'' False ''xxPASSWORDxx'' d);
          (user, d2) = ensure_user ae now ''admin'' True ''admin'' d1;
          (loc, d3) = ensure_location ''local'' d2
      in ensure_access user loc d3)"

end
