(* ===== verification/Accounts_Correct.thy ===== *)
theory Accounts_Correct
  imports Accounts
begin

text \<open>
  Who can be logged in: as the program is, nobody without a password; with the import that
  \<open>oauth2.py\<close> lacks, the owner of a verified address that one user has, and then also anybody who gives
  his own address to that user. The initial data are complete and are added once.
\<close>

section \<open>Sequences of requests\<close>

datatype web_request =
    LogIn "string option" "string option"
  | LogOut
  | OAuth2 oauth_query
  | PatchUser env pk user_patch

text \<open>A visit: when, the key the browser sends, the next unused key, the request.\<close>

type_synonym visit = "time \<times> string option \<times> string \<times> web_request"

fun web_view :: "auth_env \<Rightarrow> (user_patch \<Rightarrow> bool) \<Rightarrow> visit \<Rightarrow> web \<Rightarrow> web \<times> string outcome" where
  "web_view ae valid (now, cookie, fresh, LogIn u p) w = login ae now cookie fresh u p w"
| "web_view ae valid (now, cookie, fresh, LogOut) w = logout cookie w"
| "web_view ae valid (now, cookie, fresh, OAuth2 q) w = get_oauth2 ae now cookie fresh q w"
| "web_view ae valid (now, cookie, fresh, PatchUser e k p) w =
     (let (d, r) = patch_user valid e k p (wb_db w) in (w\<lparr>wb_db := d\<rparr>, r))"

definition serve_web :: "auth_env \<Rightarrow> (user_patch \<Rightarrow> bool) \<Rightarrow> visit list \<Rightarrow> web \<Rightarrow> web" where
  "serve_web ae valid = fold (\<lambda>v w. fst (web_view ae valid v w))"

lemma end_session_Some: "end_session cookie l key = Some k \<Longrightarrow> l key = Some k"
  by (auto simp: end_session_def split: option.splits if_splits)

lemma auth_login_Some:
  "wb_logins (auth_login now cookie fresh k w) key = Some i \<Longrightarrow> wb_logins w key = Some i \<or> key = fresh \<and> i = k"
  by (auto simp: auth_login_def dest: end_session_Some split: if_splits)

lemma auth_logout_Some: "wb_logins (auth_logout cookie w) key = Some i \<Longrightarrow> wb_logins w key = Some i"
  by (auto simp: auth_logout_def dest: end_session_Some)

lemma login_Some:
  assumes "wb_logins (fst (login ae now cookie fresh u p w)) key = Some k"
  shows "wb_logins w key = Some k \<or>
    key = fresh \<and> (\<exists>n q. u = Some n \<and> p = Some q \<and> check_user ae n q (wb_db w) = Some k)"
  using assms by (auto simp: login_def dest: auth_login_Some split: option.splits)

lemma oauth_missing:
  assumes "parse_qsl_missing ae"
  shows "fst (get_oauth2 ae now cookie fresh q w) = w"
  using assms by (auto simp: get_oauth2_def parse_qsl_missing_def Let_def split: option.splits)

lemma web_view_Some:
  assumes "parse_qsl_missing ae" "wb_logins (fst (web_view ae valid v w)) key = Some k"
  shows "wb_logins w key = Some k \<or> (\<exists>now cookie n q. v = (now, cookie, key, LogIn (Some n) (Some q)) \<and>
    check_user ae n q (wb_db w) = Some k)"
proof -
  obtain now cookie fresh r where v: "v = (now, cookie, fresh, r)" by (cases v)
  show ?thesis
    using assms unfolding v
    by (cases r) (auto simp: oauth_missing logout_def case_prod_beta dest: login_Some auth_logout_Some)
qed

text \<open>
  C16: as long as \<open>parse_qsl\<close> is not imported, a session belongs to a user only if it did so
  before or if a login with his name and password was made under its key: whatever logins,
  logouts, returns from the OAuth2 server and changes of users come in between.
\<close>

theorem logins_need_passwords:
  assumes "parse_qsl_missing ae" "wb_logins (serve_web ae valid vs w) key = Some k"
  shows "wb_logins w key = Some k \<or>
    (\<exists>us now cookie n q vs'. vs = us @ (now, cookie, key, LogIn (Some n) (Some q)) # vs' \<and>
       check_user ae n q (wb_db (serve_web ae valid us w)) = Some k)"
  using assms(2)
proof (induction vs rule: rev_induct)
  case Nil
  then show ?case by (simp add: serve_web_def)
next
  case (snoc v vs)
  let ?w = "serve_web ae valid vs w"
  have "wb_logins (fst (web_view ae valid v ?w)) key = Some k"
    using snoc.prems by (simp add: serve_web_def)
  from web_view_Some [OF assms(1) this] show ?case
  proof (elim disjE exE conjE)
    assume "wb_logins ?w key = Some k"
    then consider "wb_logins w key = Some k" | us now cookie n q vs' where
      "vs = us @ (now, cookie, key, LogIn (Some n) (Some q)) # vs'"
      "check_user ae n q (wb_db (serve_web ae valid us w)) = Some k"
      using snoc.IH by blast
    then show ?thesis
    proof cases
      case 2
      then have "vs @ [v] = us @ (now, cookie, key, LogIn (Some n) (Some q)) # (vs' @ [v])" by simp
      with 2(2) show ?thesis by blast
    qed simp
  next
    fix now cookie n q
    assume "v = (now, cookie, key, LogIn (Some n) (Some q))" "check_user ae n q (wb_db ?w) = Some k"
    then show ?thesis by blast
  qed
qed

definition plain_auth :: auth_env where
  "plain_auth = \<lparr>au_hash = id, au_check = (=), au_settings = Some (''id'', ''secret'', ''http://ava/oauth2''),
     au_backend = True, au_parse_qsl = (\<lambda>_. Inl (NameError ''parse_qsl'')),
     au_exchange = (\<lambda>_. Inr (JObj [(''id_token'', JStr ''t'')])),
     au_decode = (\<lambda>_. Inr (JObj [(''email_verified'', JBool True), (''email'', JStr ''eve@x'')])),
     au_jwt = (\<lambda>_. ''j''), au_form = ''form''\<rparr>"

definition two_users :: db where
  "two_users = empty_db\<lparr>db_users := \<lparr>rows =
     [(1, (new_user 0 ''admin'' True ''pw'')\<lparr>u_email := ''ann@ea''\<rparr>),
      (2, (new_user 0 ''eve'' False ''pw2'')\<lparr>u_email := ''eve@x''\<rparr>)], next_pk = 3\<rparr>\<rparr>"

lemma logins_need_passwords_witness:
  "\<exists>us now cookie n q vs'. [(5 :: time, None, ''s1'', LogIn (Some ''eve'') (Some ''pw2''))] =
      us @ (now, cookie, ''s1'', LogIn (Some n) (Some q)) # vs' \<and>
      check_user plain_auth n q (wb_db (serve_web plain_auth (\<lambda>_. True) us \<lparr>wb_db = two_users, wb_logins = Map.empty\<rparr>)) = Some 2"
proof -
  let ?w = "\<lparr>wb_db = two_users, wb_logins = Map.empty\<rparr>"
  let ?vs = "[(5 :: time, None, ''s1'', LogIn (Some ''eve'') (Some ''pw2''))]"
  have "check_user plain_auth ''eve'' ''pw2'' two_users = Some 2"
    by (simp add: check_user_def two_users_def t_filter_def new_user_def plain_auth_def)
  then have "wb_logins (serve_web plain_auth (\<lambda>_. True) ?vs ?w) ''s1'' = Some 2"
    by (simp add: serve_web_def login_def auth_login_def request_user_def)
  moreover have "parse_qsl_missing plain_auth" by (simp add: parse_qsl_missing_def plain_auth_def)
  ultimately show ?thesis
    using logins_need_passwords [of plain_auth "\<lambda>_. True" ?vs ?w "''s1''" 2] by simp
qed

section \<open>With the missing import\<close>

text \<open>
  Even with \<open>parse_qsl\<close> imported, a return from the OAuth2 server can only log in the one user whose
  address the token names and calls verified, under the new key; every other session stays as it was or ends.
\<close>

theorem oauth_needs_verified_address:
  assumes "wb_logins (fst (get_oauth2 ae now cookie fresh q w)) key = Some k"
  shows "wb_logins w key = Some k \<or>
    key = fresh \<and> au_backend ae \<and>
    (\<exists>answer payload u m. au_decode ae (json_get answer ''id_token'') = Inr payload \<and>
       json_true (json_get payload ''email_verified'') \<and> json_get payload ''email'' = JStr m \<and>
       t_filter (\<lambda>_ u. u_email u = m) (db_users (wb_db w)) = [(k, u)])"
proof (cases "wb_logins w key = Some k")
  case False
  have noout: "end_session cookie (wb_logins w) key \<noteq> Some k" using False end_session_Some by fastforce
  obtain state kvs where run: "wb_logins (fst (oauth_login ae now cookie fresh state (JObj kvs) w)) key = Some k"
    using assms False by (auto simp: get_oauth2_def split: option.splits sum.splits json.splits if_splits)
  then obtain k' where k': "authenticate_token ae (json_get (JObj kvs) ''id_token'') (wb_db w) = Inr (Some k')"
    using noout by (auto simp: oauth_login_def auth_logout_def split: sum.splits option.splits)
  with run noout have "wb_logins (auth_login now cookie fresh k' w) key = Some k"
    by (auto simp: oauth_login_def Let_def split: sum.splits)
  then have kk: "key = fresh" "k = k'" using auth_login_Some False by blast+
  from k' obtain payload where p: "au_backend ae" "au_decode ae (json_get (JObj kvs) ''id_token'') = Inr payload"
    "oauth_user payload (wb_db w) = Some k"
    using kk by (auto simp: authenticate_token_def split: if_splits sum.splits)
  then obtain m u where "json_true (json_get payload ''email_verified'')" "json_get payload ''email'' = JStr m"
    "t_filter (\<lambda>_ u. u_email u = m) (db_users (wb_db w)) = [(k, u)]"
    by (auto simp: oauth_user_def split: if_splits json.splits list.splits)
  with p kk show ?thesis by blast
qed simp

definition repaired_auth :: auth_env where
  "repaired_auth = plain_auth\<lparr>au_parse_qsl := (\<lambda>_. Inr [(''url'', ''/d'')])\<rparr>"

lemma repaired_login:
  assumes "request_user cookie w \<noteq> Some k" "t_filter (\<lambda>_ u. u_email u = ''eve@x'') (db_users (wb_db w)) = [(k, u)]"
  shows "wb_logins (fst (get_oauth2 repaired_auth now cookie fresh \<lparr>oq_code = Some ''c'', oq_state = Some ''s''\<rparr> w)) fresh = Some k"
  using assms by (simp add: get_oauth2_def repaired_auth_def plain_auth_def oauth_login_def authenticate_token_def
      json_get_def oauth_user_def return_url_def state_get_def Let_def auth_login_def)

lemma oauth_needs_verified_address_witness:
  "\<exists>answer payload u m. au_decode repaired_auth (json_get answer ''id_token'') = Inr payload \<and>
     json_get payload ''email'' = JStr m \<and> t_filter (\<lambda>_ u. u_email u = m) (db_users two_users) = [(2, u)]"
proof -
  let ?w = "\<lparr>wb_db = two_users, wb_logins = Map.empty\<rparr>"
  let ?q = "\<lparr>oq_code = Some ''c'', oq_state = Some ''s''\<rparr>"
  have "t_filter (\<lambda>_ u. u_email u = ''eve@x'') (db_users (wb_db ?w)) = [(2, (new_user 0 ''eve'' False ''pw2'')\<lparr>u_email := ''eve@x''\<rparr>)]"
    by (simp add: two_users_def t_filter_def new_user_def)
  from repaired_login [of None, OF _ this]
  have "wb_logins (fst (get_oauth2 repaired_auth 7 None ''s1'' ?q ?w)) ''s1'' = Some 2"
    by (simp add: request_user_def)
  from oauth_needs_verified_address [OF this] show ?thesis by fastforce
qed

text \<open>
  A user who may change any user can become any user: Eve moves the address she has away from
  herself and gives it to the victim; her next return from the OAuth2 server logs her in as the victim.
\<close>

lemma users_with_email:
  assumes wf: "wf_table t" and only: "\<forall>k u. t_get t k = Some u \<longrightarrow> (u_email u = m \<longleftrightarrow> k = v)" and v: "t_get t v = Some uv"
  shows "t_filter (\<lambda>_ u. u_email u = m) t = [(v, uv)]"
proof -
  let ?f = "t_filter (\<lambda>_ u. u_email u = m) t"
  have mem: "(k, u) \<in> set ?f \<longleftrightarrow> k = v \<and> u = uv" for k u
    using t_filter_iff [OF wf, of k u "\<lambda>_ u. u_email u = m"] only v by (metis option.inject)
  have "distinct (map fst ?f)" using wf by (rule distinct_t_filter)
  then have d: "distinct ?f" by (simp add: distinct_map)
  have "set ?f = {(v, uv)}" using mem by auto
  moreover from this have "length ?f = 1" using distinct_card [OF d] by simp
  then obtain y where "?f = [y]" by (auto simp: length_Suc_conv)
  ultimately show ?thesis by auto
qed

text \<open>
  What the open writes of users mean once the logins of the OAuth2 server work, with the import of
  \<open>parse_qsl\<close> repaired, the three values of the server in the settings and the backend among those of Django, none of
  which the commit has: a user without any right can log in as any other user. He gives up his address, changes the
  victim's to it, both of which pass the validators, and comes back from the OAuth2 server with his own
  verified token.
\<close>

theorem address_change_takes_over:
  assumes wf: "wf_table (db_users (wb_db w))"
    and rows: "t_get (db_users (wb_db w)) a = Some ua" "t_get (db_users (wb_db w)) v = Some uv" "a \<noteq> v"
    and other: "request_user c w \<noteq> Some v"
    and email: "u_email ua = m" "\<forall>k u. t_get (db_users (wb_db w)) k = Some u \<and> u_email u = m \<longrightarrow> k = a" "m' \<noteq> m"
    and ok: "valid \<lparr>up_username = None, up_email = Some m', up_first_name = None, up_last_name = None\<rparr>"
      "valid \<lparr>up_username = None, up_email = Some m, up_first_name = None, up_last_name = None\<rparr>" "au_backend ae" "au_settings ae = Some (cid, sec, uri)" "cid \<noteq> []" "sec \<noteq> []" "uri \<noteq> []"
    and q: "truthy (oq_state q)" "oq_code q = Some code" "au_parse_qsl ae (show_opt (oq_state q)) = Inr state"
      "state_get state ''url'' \<noteq> None"
    and token: "au_exchange ae (exchange_body (cid, sec, uri) code) = Inr (JObj kvs)"
      "au_decode ae (json_get (JObj kvs) ''id_token'') = Inr payload"
      "json_true (json_get payload ''email_verified'')" "json_get payload ''email'' = JStr m"
  shows "wb_logins (serve_web ae valid
     [(n1, c, f1, PatchUser e a \<lparr>up_username = None, up_email = Some m', up_first_name = None, up_last_name = None\<rparr>),
      (n2, c, f2, PatchUser e v \<lparr>up_username = None, up_email = Some m, up_first_name = None, up_last_name = None\<rparr>),
      (n3, c, f3, OAuth2 q)] w) f3 = Some v"
proof -
  let ?p1 = "\<lparr>up_username = None, up_email = Some m', up_first_name = None, up_last_name = None\<rparr>"
  let ?p2 = "\<lparr>up_username = None, up_email = Some m, up_first_name = None, up_last_name = None\<rparr>"
  let ?d1 = "(wb_db w)\<lparr>db_users := t_save a (ua\<lparr>u_email := m'\<rparr>) (db_users (wb_db w))\<rparr>"
  let ?d2 = "?d1\<lparr>db_users := t_save v (uv\<lparr>u_email := m\<rparr>) (db_users ?d1)\<rparr>"
  have p1: "patch_user valid e a ?p1 (wb_db w) = (?d1, Http 200)"
    using rows ok by (simp add: patch_user_def patched_def)
  have "t_get (db_users ?d1) v = Some uv" using rows by (simp add: t_get_save)
  then have p2: "patch_user valid e v ?p2 ?d1 = (?d2, Http 200)"
    using ok by (simp add: patch_user_def patched_def)
  have "t_filter (\<lambda>_ u. u_email u = m) (db_users ?d2) = [(v, uv\<lparr>u_email := m\<rparr>)]"
  proof (rule users_with_email)
    show "wf_table (db_users ?d2)" using wf by (auto intro: wf_t_save)
    show "\<forall>k u. t_get (db_users ?d2) k = Some u \<longrightarrow> (u_email u = m \<longleftrightarrow> k = v)"
      using email rows by (auto simp: t_get_save split: if_splits)
    show "t_get (db_users ?d2) v = Some (uv\<lparr>u_email := m\<rparr>)" by (simp add: t_get_save)
  qed
  then have "authenticate_token ae (json_get (JObj kvs) ''id_token'') ?d2 = Inr (Some v)"
    using ok token by (simp add: authenticate_token_def oauth_user_def)
  moreover obtain url where "state_get state ''url'' = Some url" using q by blast
  ultimately show ?thesis
    using ok q token other
    by (simp add: serve_web_def p1 p2 get_oauth2_def oauth_login_def return_url_def Let_def auth_login_def request_user_def)
qed

definition eve_env :: env where
  "eve_env = \<lparr>e_now = 1, e_user_id = 2, e_user = (new_user 0 ''eve'' False ''pw2'')\<lparr>u_email := ''eve@x''\<rparr>,
     e_slack_hook = False, e_notification_email = False, e_admin_email = ''admin@ea''\<rparr>"

lemma address_change_takes_over_witness:
  "wb_logins (serve_web repaired_auth (\<lambda>_. True)
     [(1, None, ''f1'', PatchUser eve_env 2 \<lparr>up_username = None, up_email = Some ''x@y'', up_first_name = None, up_last_name = None\<rparr>),
      (2, None, ''f2'', PatchUser eve_env 1 \<lparr>up_username = None, up_email = Some ''eve@x'', up_first_name = None, up_last_name = None\<rparr>),
      (3, None, ''f3'', OAuth2 \<lparr>oq_code = Some ''c'', oq_state = Some ''s''\<rparr>)]
     \<lparr>wb_db = two_users, wb_logins = Map.empty\<rparr>) ''f3'' = Some 1 \<and>
   (\<exists>u. t_get (db_users two_users) 1 = Some u \<and> u_is_superuser u)"
proof
  let ?w = "\<lparr>wb_db = two_users, wb_logins = Map.empty\<rparr>"
  let ?ua = "(new_user 0 ''eve'' False ''pw2'')\<lparr>u_email := ''eve@x''\<rparr>"
  let ?uv = "(new_user 0 ''admin'' True ''pw'')\<lparr>u_email := ''ann@ea''\<rparr>"
  have rows: "t_get (db_users (wb_db ?w)) k = (if k = 1 then Some ?uv else if k = 2 then Some ?ua else None)" for k
    by (simp add: two_users_def t_get_def)
  have email: "u_email ?ua = ''eve@x''" "u_email ?uv = ''ann@ea''" by (simp_all add: new_user_def)
  show "wb_logins (serve_web repaired_auth (\<lambda>_. True)
     [(1, None, ''f1'', PatchUser eve_env 2 \<lparr>up_username = None, up_email = Some ''x@y'', up_first_name = None, up_last_name = None\<rparr>),
      (2, None, ''f2'', PatchUser eve_env 1 \<lparr>up_username = None, up_email = Some ''eve@x'', up_first_name = None, up_last_name = None\<rparr>),
      (3, None, ''f3'', OAuth2 \<lparr>oq_code = Some ''c'', oq_state = Some ''s''\<rparr>)] ?w) ''f3'' = Some 1"
  proof (rule address_change_takes_over [of ?w 2 ?ua 1 ?uv None "''eve@x''" "''x@y''" _ repaired_auth "''id''" "''secret''"
        "''http://ava/oauth2''" _ "''c''" "[(''url'', ''/d'')]" "[(''id_token'', JStr ''t'')]"
        "JObj [(''email_verified'', JBool True), (''email'', JStr ''eve@x'')]"])
    show "wf_table (db_users (wb_db ?w))" by (simp add: two_users_def wf_table_def t_keys_def)
    show "\<forall>k u. t_get (db_users (wb_db ?w)) k = Some u \<and> u_email u = ''eve@x'' \<longrightarrow> k = 2"
      using rows email by simp
  qed (use rows email in \<open>simp_all add: repaired_auth_def plain_auth_def state_get_def json_get_def request_user_def\<close>)
  show "\<exists>u. t_get (db_users two_users) 1 = Some u \<and> u_is_superuser u"
    using rows [of 1] by (simp add: new_user_def)
qed

section \<open>Initial data\<close>

lemma ensure_user_again:
  assumes "ensure_user ae now name admin pw d = (k, d1)"
    "t_filter (\<lambda>_ u. u_username u = name) (db_users d2) = t_filter (\<lambda>_ u. u_username u = name) (db_users d1)"
  shows "ensure_user ae now2 name admin pw d2 = (k, d2)"
  using assms by (auto simp: ensure_user_def Let_def case_prod_beta t_filter_def t_create_def new_user_def split: list.splits)

lemma ensure_location_again:
  assumes "ensure_location name d = (k, d1)" "db_locations d2 = db_locations d1"
  shows "ensure_location name d2 = (k, d2)"
  using assms by (auto simp: ensure_location_def Let_def case_prod_beta t_filter_def t_create_def
      new_capture_location_def split: list.splits)

lemma ensure_access_again: "ensure_access u l (ensure_access u l d) = ensure_access u l d"
  by (auto simp: ensure_access_def t_filter_def t_create_def split: list.splits)

lemma ensure_user_other:
  assumes "name \<noteq> other" "ensure_user ae now other admin pw d = (k, d1)"
  shows "t_filter (\<lambda>_ u. u_username u = name) (db_users d1) = t_filter (\<lambda>_ u. u_username u = name) (db_users d)"
  using assms by (auto simp: ensure_user_def Let_def case_prod_beta t_filter_def t_create_def new_user_def split: list.splits)

lemma ensure_frames:
  "db_users (snd (ensure_location name d)) = db_users d" "db_users (ensure_access u l d) = db_users d"
  "db_locations (ensure_access u l d) = db_locations d" "db_access (snd (ensure_location name d)) = db_access d"
  "db_locations (snd (ensure_user ae now nm ad pw d)) = db_locations d"
  by (auto simp: ensure_user_def ensure_location_def ensure_access_def Let_def case_prod_beta split: list.splits)

lemma ensure_user_row:
  assumes "ensure_user ae now name admin pw d = (k, d1)"
  shows "\<exists>u. (k, u) \<in> set (rows (db_users d1)) \<and> u_username u = name \<and>
    ((\<forall>(i, v) \<in> set (rows (db_users d)). u_username v \<noteq> name) \<longrightarrow>
      u_is_superuser u = admin \<and> u_password u = au_hash ae pw)"
proof (cases "t_filter (\<lambda>_ u. u_username u = name) (db_users d)")
  case Nil
  then have "d1 = d\<lparr>db_users := snd (t_create (new_user now name admin (au_hash ae pw)) (db_users d))\<rparr>"
    "k = next_pk (db_users d)"
    using assms by (simp_all add: ensure_user_def Let_def case_prod_beta)
  then show ?thesis
    by (intro exI [of _ "new_user now name admin (au_hash ae pw)"]) (simp add: t_create_def new_user_def)
next
  case (Cons ku rest)
  then have "ku \<in> set (t_filter (\<lambda>_ u. u_username u = name) (db_users d))" by simp
  then have "ku \<in> set (rows (db_users d))" "u_username (snd ku) = name" by (auto simp: t_filter_def)
  moreover have "d1 = d" "k = fst ku" using assms Cons by (cases ku; simp add: ensure_user_def)+
  ultimately show ?thesis by (intro exI [of _ "snd ku"]) auto
qed

lemma ensure_location_row:
  assumes "ensure_location name d = (k, d1)"
  shows "\<exists>l. (k, l) \<in> set (rows (db_locations d1)) \<and> cl_name l = name"
proof (cases "t_filter (\<lambda>_ l. cl_name l = name) (db_locations d)")
  case Nil
  with assms show ?thesis
    by (auto simp: ensure_location_def Let_def case_prod_beta t_create_def new_capture_location_def)
next
  case (Cons kl rest)
  then have "kl \<in> set (t_filter (\<lambda>_ l. cl_name l = name) (db_locations d))" by simp
  then have "kl \<in> set (rows (db_locations d))" "cl_name (snd kl) = name" by (auto simp: t_filter_def)
  moreover have "d1 = d" "k = fst kl" using assms Cons by (cases kl; simp add: ensure_location_def)+
  ultimately show ?thesis by (intro exI [of _ "snd kl"]) auto
qed

lemma ensure_access_row:
  "\<exists>k a. (k, a) \<in> set (rows (db_access (ensure_access u l d))) \<and> la_user a = u \<and> la_location a = l"
proof (cases "t_filter (\<lambda>_ a. la_user a = u \<and> la_location a = l) (db_access d)")
  case Nil
  then show ?thesis
    by (intro exI [of _ "next_pk (db_access d)"] exI [of _ "\<lparr>la_user = u, la_location = l, la_read_access = True,
        la_write_access = True\<rparr>"]) (simp add: ensure_access_def t_create_def)
next
  case (Cons ka rest)
  then have "ka \<in> set (t_filter (\<lambda>_ a. la_user a = u \<and> la_location a = l) (db_access d))" by simp
  then have "ka \<in> set (rows (db_access d))" "la_user (snd ka) = u" "la_location (snd ka) = l"
    by (auto simp: t_filter_def)
  then show ?thesis using Cons by (intro exI [of _ "fst ka"] exI [of _ "snd ka"]) (auto simp: ensure_access_def)
qed

text \<open>
  The initial setup, run again at any time, changes nothing; after it a
  user named admin has a row of access rights for a location named local, and if there was no such user he is an administrator
  whose password is \<open>admin\<close>.
\<close>

theorem initialsetup_idempotent:
  "let d' = initialsetup ae now d in
     initialsetup ae now2 d' = d' \<and>
     (\<exists>u x l y k a. (u, x) \<in> set (rows (db_users d')) \<and> u_username x = ''admin'' \<and>
        (l, y) \<in> set (rows (db_locations d')) \<and> cl_name y = ''local'' \<and>
        (k, a) \<in> set (rows (db_access d')) \<and> la_user a = u \<and> la_location a = l \<and>
        (''admin'' \<in> (u_username \<circ> snd) ` set (rows (db_users d)) \<or>
           u_is_superuser x \<and> u_password x = au_hash ae ''admin''))"
proof -
  obtain k1 d1 where 1: "ensure_user ae now ''pythonscript'' False ''xxPASSWORDxx'' d = (k1, d1)" by force
  obtain u d2 where 2: "ensure_user ae now ''admin'' True ''admin'' d1 = (u, d2)" by force
  obtain l d3 where 3: "ensure_location ''local'' d2 = (l, d3)" by force
  let ?d = "ensure_access u l d3"
  have D: "initialsetup ae now d = ?d" by (simp add: initialsetup_def 1 2 3)
  have users: "db_users ?d = db_users d2" "db_locations ?d = db_locations d3"
    using ensure_frames(1) [of "''local''" d2] ensure_frames(2,3) [of u l d3] 3 by simp_all
  have "ensure_user ae now2 ''pythonscript'' False ''xxPASSWORDxx'' ?d = (k1, ?d)"
    by (rule ensure_user_again [OF 1]) (simp add: users ensure_user_other [OF _ 2])
  moreover have "ensure_user ae now2 ''admin'' True ''admin'' ?d = (u, ?d)"
    by (rule ensure_user_again [OF 2]) (simp add: users)
  moreover have "ensure_location ''local'' ?d = (l, ?d)"
    by (rule ensure_location_again [OF 3]) (simp add: users)
  ultimately have again: "initialsetup ae now2 ?d = ?d"
    by (simp add: initialsetup_def ensure_access_again)
  obtain x where x: "(u, x) \<in> set (rows (db_users ?d))" "u_username x = ''admin''"
    "(\<forall>(i, v) \<in> set (rows (db_users d1)). u_username v \<noteq> ''admin'') \<longrightarrow> u_is_superuser x \<and> u_password x = au_hash ae ''admin''"
    using ensure_user_row [OF 2] users by auto
  have "(i, v) \<in> set (rows (db_users d)) \<and> u_username v = ''admin''"
    if "(i, v) \<in> set (rows (db_users d1))" "u_username v = ''admin''" for i v
  proof -
    have "(i, v) \<in> set (t_filter (\<lambda>_ u. u_username u = ''admin'') (db_users d1))"
      using that by (simp add: t_filter_def)
    also have "t_filter (\<lambda>_ u. u_username u = ''admin'') (db_users d1) = t_filter (\<lambda>_ u. u_username u = ''admin'') (db_users d)"
      by (rule ensure_user_other [OF _ 1]) simp
    finally show ?thesis by (simp add: t_filter_def)
  qed
  then have admin: "''admin'' \<in> (u_username \<circ> snd) ` set (rows (db_users d)) \<or>
      u_is_superuser x \<and> u_password x = au_hash ae ''admin''"
    using x(3) by force
  obtain y where "(l, y) \<in> set (rows (db_locations ?d))" "cl_name y = ''local''"
    using ensure_location_row [OF 3] users by auto
  moreover obtain k a where "(k, a) \<in> set (rows (db_access ?d))" "la_user a = u" "la_location a = l"
    using ensure_access_row by blast
  ultimately show ?thesis using again x admin unfolding D Let_def by blast
qed

end
