(* ===== verification/Base36.thy ===== *)
theory Base36
  imports Prelude
begin

text \<open>
  The base 36 encoding of the machine's hardware address (\<open>common/uuid_utils.py\<close>),
  which the server puts into the names of the files it stores. The type check of the source
  mentions \<open>long\<close>: where the interpreter has no such name (Python 3), the function
  raises before it does anything. \<open>has_long\<close> says which interpreter runs.
\<close>

definition base36_alphabet :: string where
  "base36_alphabet = ''0123456789ABCDEFGHIJKLMNOPQRSTUVWXYZ''"

text \<open>The loop \<open>while number != 0\<close>, with the string built so far.\<close>

function encode_loop :: "string \<Rightarrow> nat \<Rightarrow> string \<Rightarrow> string" where
  "encode_loop alphabet number base36 =
     (if number \<noteq> 0 \<and> 2 \<le> length alphabet
      then encode_loop alphabet (number div length alphabet)
             (alphabet ! (number mod length alphabet) # base36)
      else base36)"
  by pat_completeness auto
termination
  by (relation "measure (\<lambda>(_, n, _). n)") auto

declare encode_loop.simps [simp del]

definition base36encode :: "bool \<Rightarrow> int \<Rightarrow> py_exn + string" where
  "base36encode has_long number =
     (if \<not> has_long then Inl (NameError ''long'')
      else
        (let sign = (if number < 0 then ''-'' else '''');
             n = nat \<bar>number\<bar>
         in if n < length base36_alphabet then Inr (sign @ [base36_alphabet ! n])
            else Inr (sign @ encode_loop base36_alphabet n [])))"

text \<open>\<open>node\<close> is the answer of \<open>uuid.getnode()\<close>.\<close>

definition uuid_node_base36 :: "bool \<Rightarrow> nat \<Rightarrow> py_exn + string" where
  "uuid_node_base36 has_long node = base36encode has_long (int node)"

section \<open>Decoding\<close>

text \<open>Python's \<open>int(s, 36)\<close>, on upper case digits.\<close>

definition char_digit36 :: "char \<Rightarrow> nat" where
  "char_digit36 c =
     (if CHR ''0'' \<le> c \<and> c \<le> CHR ''9'' then of_char c - 48 else of_char c - 55)"

definition base36decode :: "string \<Rightarrow> int" where
  "base36decode s =
     (case s of [] \<Rightarrow> 0
      | c # cs \<Rightarrow> if c = CHR ''-'' then - int (of_digits 36 (map char_digit36 cs))
                 else int (of_digits 36 (map char_digit36 s)))"

lemma length_alphabet [simp]: "length base36_alphabet = 36"
  by (simp add: base36_alphabet_def)

lemma alphabet_digit: "\<forall>d < 36. char_digit36 (base36_alphabet ! d) = d \<and> base36_alphabet ! d \<noteq> CHR ''-''"
  unfolding base36_alphabet_def char_digit36_def by (simp add: All_less_Suc numeral_eq_Suc)

lemma encode_loop_digits:
  "2 \<le> length alphabet \<Longrightarrow>
   encode_loop alphabet n acc = map ((!) alphabet) (digits_of (length alphabet) n) @ acc"
proof (induction alphabet n acc rule: encode_loop.induct)
  case (1 alphabet n acc)
  then show ?case
    by (cases "n = 0")
      (simp_all add: encode_loop.simps [of alphabet n acc] encode_loop.simps [of alphabet 0 acc] digits_of_step)
qed

lemma decode_digits:
  assumes "\<forall>d \<in> set ds. d < 36"
  shows "map char_digit36 (map ((!) base36_alphabet) ds) = ds"
  using assms alphabet_digit by (induction ds) auto

lemma digits36: "\<forall>d \<in> set (digits_of 36 n). d < 36"
  using digits_of_bound [of 36] by simp

lemma encoded_value: "of_digits 36 (map char_digit36 (encode_loop base36_alphabet n [])) = n"
  using decode_digits [OF digits36 [of n]]
  by (simp add: encode_loop_digits of_digits_digits_of)

lemma encoded_head:
  assumes "0 < n"
  obtains c cs where "encode_loop base36_alphabet n [] = c # cs" "c \<noteq> CHR ''-''"
proof -
  obtain d ds where ds: "digits_of 36 n = d # ds"
    using digits_of_nonempty [OF assms, of 36] by (cases "digits_of 36 n") auto
  then have "d < 36" using digits36 [of n] by simp
  then show ?thesis using that alphabet_digit ds by (simp add: encode_loop_digits)
qed

text \<open>
  Encoding is exact and injective: decoding what \<open>base36encode\<close> returns gives the
  number back, for every integer, the negative ones and the one-digit ones included.
\<close>

theorem base36_roundtrip: "\<exists>s. base36encode True i = Inr s \<and> base36decode s = i"
proof -
  define n where "n = nat \<bar>i\<bar>"
  define enc where "enc = (if n < 36 then [base36_alphabet ! n] else encode_loop base36_alphabet n [])"
  have enc: "of_digits 36 (map char_digit36 enc) = n"
  proof (cases "n < 36")
    case True
    with alphabet_digit show ?thesis by (simp add: enc_def of_digits_def)
  next
    case False
    then show ?thesis by (simp add: enc_def encoded_value)
  qed
  obtain c cs where c: "enc = c # cs" "c \<noteq> CHR ''-''"
  proof (cases "n < 36")
    case True
    with that alphabet_digit show ?thesis by (simp add: enc_def)
  next
    case False
    then have "0 < n" by simp
    then obtain c cs where "encode_loop base36_alphabet n [] = c # cs" "c \<noteq> CHR ''-''"
      by (rule encoded_head)
    with that False show ?thesis by (simp add: enc_def)
  qed
  have "base36encode True i = Inr ((if i < 0 then ''-'' else '''') @ enc)"
    by (simp add: base36encode_def Let_def n_def [symmetric] enc_def)
  moreover have "base36decode ((if i < 0 then ''-'' else '''') @ enc) = i"
  proof (cases "i < 0")
    case True
    with enc show ?thesis by (simp add: base36decode_def n_def)
  next
    case False
    with enc c show ?thesis by (simp add: base36decode_def n_def)
  qed
  ultimately show ?thesis by blast
qed

end
