(* ===== verification/Client_Correct.thy ===== *)
theory Client_Correct
  imports Client_Jobs Farm_Correct
begin

text \<open>
  What the job client and the server do together. Part one is about the client alone, over
  all interleavings of its threads; part two about what the server makes of a request; part
  three about one exchange of a request and its answer.
\<close>

section \<open>The invariant of the client\<close>

abbreviation keys_of :: "('k \<times> 'v) list \<Rightarrow> 'k set" where
  "keys_of xs \<equiv> fst ` set xs"

definition result_fits :: "pk \<Rightarrow> job_instance \<Rightarrow> bool" where
  "result_fits k ji \<longleftrightarrow> ji_job_id ji = k \<and> (\<forall>r. ji_result ji = Some r \<longrightarrow> jx_job_id r = k)"

text \<open>The jobs whose results a request reports.\<close>

definition result_ids :: "job_result option list \<Rightarrow> pk list" where
  "result_ids rs = List.map_filter (map_option jx_job_id) rs"

lemma result_ids_simps [simp]:
  "result_ids [] = []" "result_ids (None # rs) = result_ids rs"
  "result_ids (Some x # rs) = jx_job_id x # result_ids rs"
  by (simp_all add: result_ids_def List.map_filter_simps)

lemma set_result_ids: "set (result_ids rs) = {jx_job_id x | x. Some x \<in> set rs}"
  by (auto simp: result_ids_def List.map_filter_def image_iff) force

lemma result_ids_fit:
  assumes "\<forall>(k, ji) \<in> set xs. result_fits k ji"
  shows "set (result_ids (map (ji_result \<circ> snd) xs)) \<subseteq> keys_of xs"
    "distinct (map fst xs) \<Longrightarrow> distinct (result_ids (map (ji_result \<circ> snd) xs))"
proof -
  have sub: "set (result_ids (map (ji_result \<circ> snd) ys)) \<subseteq> keys_of ys"
    if "\<forall>(k, ji) \<in> set ys. result_fits k ji" for ys
  proof
    fix i assume "i \<in> set (result_ids (map (ji_result \<circ> snd) ys))"
    then obtain k ji x where "(k, ji) \<in> set ys" "ji_result ji = Some x" "i = jx_job_id x"
      by (auto simp: set_result_ids) (metis)
    moreover from this that have "jx_job_id x = k" by (auto simp: result_fits_def)
    ultimately show "i \<in> keys_of ys" by force
  qed
  show "set (result_ids (map (ji_result \<circ> snd) xs)) \<subseteq> keys_of xs" using assms by (rule sub)
  assume "distinct (map fst xs)"
  then show "distinct (result_ids (map (ji_result \<circ> snd) xs))" using assms
  proof (induction xs)
    case (Cons x xs)
    with sub [of xs] show ?case
      by (cases "ji_result (snd x)") (auto simp: result_fits_def case_prod_beta comp_def)
  qed simp
qed

text \<open>What the request holds so far covers every job the client still has.\<close>

fun covered :: "job_client \<Rightarrow> phase \<Rightarrow> bool" where
  "covered c Idle \<longleftrightarrow> True"
| "covered c (HaveRunning rk) \<longleftrightarrow> keys_of (cl_running c) \<subseteq> set rk"
| "covered c (HaveProgress rk ps) \<longleftrightarrow> keys_of (cl_running c) \<subseteq> set rk"
| "covered c (HaveRequest rk ps rs) \<longleftrightarrow> keys_of (cl_running c) \<subseteq> set rk \<and>
     (\<forall>(k, ji) \<in> set (cl_finished c). k \<in> set rk \<or> ji_result ji \<in> set rs) \<and>
     set (result_ids rs) \<subseteq> keys_of (cl_finished c) \<and>
     distinct (result_ids rs)"

definition client_inv :: "job_client \<Rightarrow> bool" where
  "client_inv c \<longleftrightarrow>
     distinct (map fst (cl_running c)) \<and> distinct (map fst (cl_finished c)) \<and>
     set (cl_filing c) \<subseteq> keys_of (cl_running c) \<and>
     (\<forall>(k, ji) \<in> set (cl_running c). result_fits k ji) \<and>
     (\<forall>(k, ji) \<in> set (cl_finished c). result_fits k ji) \<and>
     covered c (cl_phase c)"

lemma client_invI:
  assumes "distinct (map fst (cl_running c))" "distinct (map fst (cl_finished c))"
    "set (cl_filing c) \<subseteq> keys_of (cl_running c)"
    "\<And>k ji. (k, ji) \<in> set (cl_running c) \<Longrightarrow> result_fits k ji"
    "\<And>k ji. (k, ji) \<in> set (cl_finished c) \<Longrightarrow> result_fits k ji" "covered c (cl_phase c)"
  shows "client_inv c"
  using assms by (auto simp: client_inv_def)

lemma client_invD:
  assumes "client_inv c"
  shows "distinct (map fst (cl_running c))" "distinct (map fst (cl_finished c))"
    "set (cl_filing c) \<subseteq> keys_of (cl_running c)"
    "(k, ji) \<in> set (cl_running c) \<Longrightarrow> result_fits k ji"
    "(k, ji) \<in> set (cl_finished c) \<Longrightarrow> result_fits k ji" "covered c (cl_phase c)"
  using assms by (auto simp: client_inv_def)

lemma set_AList_update:
  assumes "distinct (map fst xs)"
  shows "set (AList.update k v xs) = {x \<in> set xs. fst x \<noteq> k} \<union> {(k, v)}"
  using assms by (induction xs) (force split: if_splits)+

lemma set_AList_delete: "set (AList.delete k xs) = {x \<in> set xs. fst x \<noteq> k}"
  by (auto simp: AList.delete_eq)

lemma AList_keys [simp]:
  "keys_of (AList.update k v xs) = insert k (keys_of xs)"
  "keys_of (AList.delete k xs) = keys_of xs - {k}"
  using AList.dom_update [of k v xs] by (auto simp: AList.delete_eq image_iff)

lemma change_running_keys [simp]:
  "map fst (cl_running (change_running f k c)) = map fst (cl_running c)"
  by (simp add: change_running_def comp_def case_prod_beta')

lemma change_running_frame [simp]:
  "cl_finished (change_running f k c) = cl_finished c" "cl_filing (change_running f k c) = cl_filing c"
  "cl_phase (change_running f k c) = cl_phase c"
  by (simp_all add: change_running_def)

lemma keys_of_map: "keys_of xs = set (map fst xs)"
  by simp

lemma covered_cong:
  assumes "keys_of (cl_running c') \<subseteq> keys_of (cl_running c)" "cl_finished c' = cl_finished c" "covered c p"
  shows "covered c' p"
  using assms by (cases p) auto

text \<open>Each step keeps the invariant.\<close>

lemma change_running_inv:
  assumes inv: "client_inv c" and f: "\<And>ji. result_fits k ji \<Longrightarrow> result_fits k (f ji)"
  shows "client_inv (change_running f k c)"
proof (rule client_invI)
  have keys: "keys_of (cl_running (change_running f k c)) = keys_of (cl_running c)"
    using change_running_keys [of f k c] by (metis keys_of_map)
  show "distinct (map fst (cl_running (change_running f k c)))" using client_invD(1) [OF inv] by simp
  show "set (cl_filing (change_running f k c)) \<subseteq> keys_of (cl_running (change_running f k c))"
    using client_invD(3) [OF inv] keys by simp
  show "covered (change_running f k c) (cl_phase (change_running f k c))"
    using covered_cong [of "change_running f k c" c] client_invD(6) [OF inv] keys by simp
  show "result_fits i ji" if "(i, ji) \<in> set (cl_running (change_running f k c))" for i ji
    using that f client_invD(4) [OF inv] by (auto simp: change_running_def split: if_splits)
qed (use client_invD(2,5) [OF inv] in auto)

lemma gather_fits:
  assumes "result_fits k ji" "\<forall>r. q = QueueHas r \<longrightarrow> (\<exists>x. r = job_process k x)"
  shows "result_fits k (run_instance q ji)"
proof -
  have "jx_job_id (job_process k x) = k" for x by (simp add: job_process_def split: job_end.split)
  with assms show ?thesis
    by (auto simp: run_instance_def gather_def result_fits_def failed_result_def split: job_queue.splits)
qed

lemma file_finished_inv:
  assumes inv: "client_inv c" and g: "map_of (cl_running c) k = Some ji"
    and q: "\<forall>r. q = QueueHas r \<longrightarrow> (\<exists>x. r = job_process k x)"
  shows "client_inv (file_finished q k c)"
proof (rule client_invI)
  let ?c = "file_finished q k c"
  have k: "k \<in> keys_of (cl_running c)" using g by (metis map_of_eq_None_iff option.distinct(1))
  have fin: "cl_finished ?c = AList.update k (run_instance q ji) (cl_finished c)"
    "cl_running ?c = cl_running c" "cl_phase ?c = cl_phase c"
    using g by (simp_all add: file_finished_def)
  have fset: "set (cl_finished ?c) = {x \<in> set (cl_finished c). fst x \<noteq> k} \<union> {(k, run_instance q ji)}"
    unfolding fin using client_invD(2) [OF inv] by (rule set_AList_update)
  show "distinct (map fst (cl_finished ?c))"
    unfolding fin using client_invD(2) [OF inv] by (rule AList.distinct_update)
  show "set (cl_filing ?c) \<subseteq> keys_of (cl_running ?c)"
    using g k client_invD(3) [OF inv] by (auto simp: file_finished_def)
  have "result_fits k ji" using client_invD(4) [OF inv] g by (meson map_of_SomeD)
  then have "result_fits k (run_instance q ji)" using q by (rule gather_fits)
  then show "result_fits i y" if "(i, y) \<in> set (cl_finished ?c)" for i y
    using that client_invD(5) [OF inv] unfolding fset by auto
  have keys: "keys_of (cl_finished ?c) = insert k (keys_of (cl_finished c))" by (simp add: fin)
  show "covered ?c (cl_phase ?c)"
    using client_invD(6) [OF inv] k fset keys by (cases "cl_phase c") (auto simp: fin)
qed (use client_invD(1,4) [OF inv] g in \<open>simp_all add: file_finished_def\<close>)

lemma drop_running_inv:
  assumes inv: "client_inv c"
  shows "client_inv (drop_running k c)"
proof (rule client_invI)
  show "covered (drop_running k c) (cl_phase (drop_running k c))"
    using covered_cong [of "drop_running k c" c] client_invD(6) [OF inv] by (auto simp: drop_running_def)
  show "distinct (map fst (cl_running (drop_running k c)))"
    using client_invD(1) [OF inv] by (simp add: drop_running_def AList.distinct_delete)
qed (use client_invD(2-5) [OF inv] in \<open>auto simp: drop_running_def set_AList_delete\<close>)

lemma new_instance_fits: "result_fits k (new_instance imp params job_class k)"
  by (auto simp: new_instance_def Let_def result_fits_def failed_result_def split: option.split)

lemma purge_inv:
  assumes inv: "client_inv c" and idle: "cl_phase c = Idle"
  shows "client_inv (fst (purge r c)) \<and> cl_phase (fst (purge r c)) = Idle"
  using client_invD [OF inv] idle
  by (auto simp: purge_def set_AList_delete AList.distinct_delete intro!: client_invI split: option.split)

lemma submit_inv:
  assumes inv: "client_inv c" and idle: "cl_phase c = Idle"
  shows "client_inv (fst (submit_job imp job c)) \<and> cl_phase (fst (submit_job imp job c)) = Idle"
proof (cases "map_of (cl_running c) (fst job) = None")
  case False
  with assms show ?thesis by (auto simp: submit_job_def case_prod_beta)
next
  case True
  obtain k cl params where job: "job = (k, cl, params)" by (cases job)
  let ?c = "fst (submit_job imp job c)"
  have r: "cl_running ?c = AList.update k (new_instance imp params cl k) (cl_running c)"
    "cl_finished ?c = cl_finished c" "cl_filing ?c = cl_filing c" "cl_phase ?c = Idle"
    using True idle by (simp_all add: submit_job_def job)
  have "client_inv ?c"
  proof (rule client_invI)
    show "set (cl_filing ?c) \<subseteq> keys_of (cl_running ?c)"
      unfolding r AList_keys using client_invD(3) [OF inv] by blast
    show "result_fits i ji" if "(i, ji) \<in> set (cl_running ?c)" for i ji
      using that client_invD(4) [OF inv] new_instance_fits
      unfolding r set_AList_update [OF client_invD(1) [OF inv]] by auto
    show "distinct (map fst (cl_running ?c))"
      unfolding r using client_invD(1) [OF inv] by (rule AList.distinct_update)
  qed (use client_invD(2,5) [OF inv] in \<open>simp_all add: r\<close>)
  with r(4) show ?thesis by simp
qed

lemma terminate_job_inv:
  assumes inv: "client_inv c"
  shows "client_inv (terminate_job k c)" "cl_phase (terminate_job k c) = cl_phase c"
  unfolding terminate_job_def
  by (rule change_running_inv [OF inv]) (simp_all add: result_fits_def terminate_def)

lemma launch_received_inv:
  assumes inv: "client_inv c" and idle: "cl_phase c = Idle"
  shows "client_inv (launch_received imp reply c) \<and> cl_phase (launch_received imp reply c) = Idle"
proof (cases reply)
  case None
  with assms show ?thesis by (simp add: launch_received_def)
next
  case (Some rp)
  define c1 where "c1 = (if rp_req_restart rp then c\<lparr>cl_need_restart := True\<rparr> else c)"
  have c1: "client_inv c1 \<and> cl_phase c1 = Idle"
    using assms by (auto simp: c1_def client_inv_def)
  obtain c2 x where l: "for_each (submit_job imp) (rp_jobs rp) c1 = (c2, x)"
    by (cases "for_each (submit_job imp) (rp_jobs rp) c1")
  have c2: "client_inv c2 \<and> cl_phase c2 = Idle"
    using for_each_inv [of "rp_jobs rp" "\<lambda>c. client_inv c \<and> cl_phase c = Idle" "submit_job imp" c1]
      submit_inv c1 l by auto
  have "client_inv (fold terminate_job ks c2) \<and> cl_phase (fold terminate_job ks c2) = Idle" for ks
    using c2 by (induction ks arbitrary: c2) (simp_all add: terminate_job_inv)
  then show ?thesis
    using Some l c2 by (cases x) (simp_all add: launch_received_def c1_def [symmetric])
qed

lemma receive_inv:
  assumes inv: "client_inv c"
  shows "client_inv (receive imp rs answer c) \<and> cl_phase (receive imp rs answer c) = Idle"
proof -
  let ?I = "\<lambda>c. client_inv c \<and> cl_phase c = Idle"
  have c0: "?I (c\<lparr>cl_phase := Idle\<rparr>)" "?I (c\<lparr>cl_phase := Idle, cl_first_update := False\<rparr>)"
    using client_invD [OF inv] by (auto intro!: client_invI)
  obtain c1 x where p: "for_each purge rs (c\<lparr>cl_phase := Idle, cl_first_update := False\<rparr>) = (c1, x)"
    by (cases "for_each purge rs (c\<lparr>cl_phase := Idle, cl_first_update := False\<rparr>)")
  have c1: "?I c1"
    using for_each_inv [of rs ?I purge, OF _ c0(2)] purge_inv p by auto
  have "?I (launch_received imp reply c1)" for reply
    using c1 by (intro launch_received_inv) simp_all
  with c0(1) c1 p show ?thesis
    by (auto simp: receive_def Let_def split: option.splits outcome.splits)
qed

lemma check_restart_inv:
  assumes inv: "client_inv c"
  shows "client_inv (check_restart c)"
proof (rule client_invI)
  show "covered (check_restart c) (cl_phase (check_restart c))"
    using covered_cong [of "check_restart c" c] client_invD(6) [OF inv] by (simp add: check_restart_def)
qed (use client_invD(1-5) [OF inv] in \<open>simp_all add: check_restart_def\<close>)

lemma client_step_inv:
  assumes "client_step imp c c'" "client_inv c"
  shows "client_inv c'"
  using assms
proof (induction rule: client_step.induct)
  case (job_output k c data)
  then show ?case
    by (intro change_running_inv) (simp_all add: output_received_from_job_def result_fits_def)
next
  case (job_filed c k ji q)
  then show ?case by (intro file_finished_inv) simp_all
next
  case (job_dropped k c)
  then show ?case by (intro drop_running_inv)
next
  case (read_running c)
  then show ?case using client_invD [OF read_running(3)] by (auto intro!: client_invI)
next
  case (read_progress c rk)
  then show ?case using client_invD [OF read_progress(2)] by (auto intro!: client_invI)
next
  case (changed_during_iteration c rk)
  have "client_inv (c\<lparr>cl_phase := Idle\<rparr>)"
    using client_invD [OF changed_during_iteration(2)] by (auto intro!: client_invI)
  then show ?case by (rule check_restart_inv)
next
  case (read_finished c rk ps)
  let ?rs = "map (ji_result \<circ> snd) (cl_finished c)"
  note inv = read_finished(2)
  have fit: "\<forall>(k, ji) \<in> set (cl_finished c). result_fits k ji" using client_invD(5) [OF inv] by blast
  have "keys_of (cl_running c) \<subseteq> set rk" using client_invD(6) [OF inv] read_finished(1) by simp
  then have "covered c (HaveRequest rk ps ?rs)"
    using result_ids_fit [OF fit] client_invD(2) [OF inv] by (force simp: comp_def)
  then show ?case
    using client_invD(1-5) [OF inv] covered_cong [of "c\<lparr>cl_phase := HaveRequest rk ps ?rs\<rparr>" c]
    by (intro client_invI) simp_all
next
  case (answered c rk ps rs answer)
  have "client_inv (receive imp rs answer c)" using receive_inv [OF answered(2)] by simp
  then show ?case by (rule check_restart_inv)
qed

lemma client_reachable_inv:
  assumes "client_reachable imp c"
  shows "client_inv c"
proof -
  have "(client_step imp)\<^sup>*\<^sup>* new_client c" using assms by (simp add: client_reachable_def)
  then show ?thesis
  proof (induction rule: rtranclp_induct)
    case base
    show ?case by (simp add: client_inv_def new_client_def)
  next
    case (step c c')
    then show ?case by (blast intro: client_step_inv)
  qed
qed

section \<open>Every job is reported\<close>

text \<open>
  The entry of the request that stands for a job without a running thread: the job's own result, and
  the empty entry only when its thread ended without leaving one.
\<close>

definition result_sent :: "pk \<Rightarrow> job_instance \<Rightarrow> finished_report \<Rightarrow> bool" where
  "result_sent k ji f \<longleftrightarrow>
     (case ji_result ji of
        Some x \<Rightarrow> fr_job_id f = Some k \<and> fr_success f = jx_success x \<and> fr_exception f = jx_exception x \<and>
          fr_progress f = jx_progress x \<and> fr_children f = jx_children x
      | None \<Rightarrow> fr_job_id f = None)"

text \<open>
  C2: whatever the threads of the jobs do while \<open>phone_home\<close> puts its request
  together, in the moment the request is sent every job the client has is in it: it is listed as
  running, or the client has it as finished and the request holds its own result, with its number,
  success, exception, progress and children. Only a finished job whose thread left no result
  stands in it as an empty entry. It rests on the order in which the two dictionaries are read and
  written.
\<close>

theorem no_job_unreported:
  assumes run: "client_reachable imp c" and ph: "cl_phase c = HaveRequest rk ps rs"
    and held: "k \<in> keys_of (cl_running c) \<union> keys_of (cl_finished c)"
  shows "k \<in> set (the (dc_running_jobs (payload m fu rk ps rs))) \<or>
    (\<exists>f \<in> set (the (dc_finished_jobs (payload m fu rk ps rs))).
       \<exists>ji. (k, ji) \<in> set (cl_finished c) \<and> result_sent k ji f)"
proof -
  note inv = client_reachable_inv [OF run]
  note cov = client_invD(6) [OF inv, unfolded ph, simplified]
  show ?thesis
  proof (cases "k \<in> set rk")
    case False
    with held cov obtain ji where ji: "(k, ji) \<in> set (cl_finished c)" by auto
    with cov False have "ji_result ji \<in> set rs" by auto
    moreover have "result_sent k ji (report_of (ji_result ji))"
      using client_invD(5) [OF inv ji]
      by (auto simp: result_sent_def report_of_def result_fits_def split: option.split)
    ultimately show ?thesis using ji by (fastforce simp: payload_def)
  qed (simp add: payload_def)
qed

text \<open>A client that was handed a job, with its next request.\<close>

definition ask :: "job_client \<Rightarrow> job_client" where
  "ask c = c\<lparr>cl_status_changed := False, cl_phase := HaveRequest (map fst (cl_running c))
     (map (\<lambda>(i, ji). (i, ji_status ji)) (cl_running c)) (map (ji_result \<circ> snd) (cl_finished c))\<rparr>"

lemma ask_reachable:
  assumes "client_reachable imp c" "cl_phase c = Idle" "\<not> cl_exited c"
  shows "client_reachable imp (ask c)"
proof -
  let ?rk = "map fst (cl_running c)" and ?ps = "map (\<lambda>(i, ji). (i, ji_status ji)) (cl_running c)"
  let ?c1 = "c\<lparr>cl_status_changed := False, cl_phase := HaveRunning ?rk\<rparr>"
  let ?c2 = "?c1\<lparr>cl_phase := HaveProgress ?rk ?ps\<rparr>"
  have "client_step imp c ?c1" using assms(2,3) by (rule client_step.read_running)
  moreover have "client_step imp ?c1 ?c2" using client_step.read_progress [of ?c1 ?rk imp] by simp
  moreover have "client_step imp ?c2 (ask c)"
    using client_step.read_finished [of ?c2 ?rk ?ps imp] by (simp add: ask_def)
  ultimately show ?thesis
    using assms(1) unfolding client_reachable_def by (meson rtranclp.rtrancl_into_rtrancl)
qed

definition job_classes :: importer where
  "job_classes c = Inr (''jobs.archive'', True)"

definition busy_client :: job_client where
  "busy_client = check_restart (receive job_classes []
     (Some (Json 200 (Some \<lparr>rp_jobs = [(2, ''jobs.archive.ExportTake'', None)], rp_jobs_to_kill = [], rp_req_restart = False\<rparr>)))
     (ask new_client))"

lemma busy_client_eval:
  "map fst (cl_running busy_client) = [2] \<and> cl_finished busy_client = [] \<and> cl_phase busy_client = Idle \<and>
   \<not> cl_exited busy_client \<and> map (ji_status \<circ> snd) (cl_running busy_client) = [[]]"
  by code_simp

lemma busy_client_reachable: "client_reachable job_classes busy_client"
proof -
  have "client_reachable job_classes new_client" by (simp add: client_reachable_def)
  moreover have "cl_phase new_client = Idle" "\<not> cl_exited new_client" by (simp_all add: new_client_def)
  ultimately have "client_reachable job_classes (ask new_client)" by (rule ask_reachable)
  moreover have "client_step job_classes (ask new_client) busy_client"
    unfolding busy_client_def
    by (rule client_step.answered [where rk = "[]" and ps = "[]"]) (simp add: ask_def new_client_def)
  ultimately show ?thesis unfolding client_reachable_def by (rule rtranclp.rtrancl_into_rtrancl)
qed

definition render_machine :: machine where
  "render_machine = \<lparr>mc_hostname = ''RENDER01'', mc_ip = ''10.0.0.5'', mc_system = ''Linux'', mc_system_bits = 64,
     mc_cpu_brand = ''cpu'', mc_cpu_cores = 8, mc_gpu = None, mc_python = (3, 6), mc_version = 10,
     mc_git_version = ''unknown'', mc_tags = [], mc_available_jobs = [''jobs.archive.ExportTake''], mc_load = (0, 0)\<rparr>"

lemma busy_ask:
  "client_reachable job_classes (ask busy_client)" "cl_phase (ask busy_client) = HaveRequest [2] [(2, [])] []"
  "keys_of (cl_running (ask busy_client)) = {2}"
proof -
  show "client_reachable job_classes (ask busy_client)"
    using busy_client_reachable busy_client_eval by (intro ask_reachable) simp_all
  obtain ji where "cl_running busy_client = [(2, ji)]" "ji_status ji = []"
    using busy_client_eval by auto
  then show "cl_phase (ask busy_client) = HaveRequest [2] [(2, [])] []"
    "keys_of (cl_running (ask busy_client)) = {2}"
    using busy_client_eval by (simp_all add: ask_def)
qed

lemma no_job_unreported_witness:
  "2 \<in> set (the (dc_running_jobs (payload render_machine False [2] [(2, [])] [])))"
  using no_job_unreported [OF busy_ask(1,2), of 2 render_machine False] busy_ask(3)
  by (simp add: payload_def)

section \<open>What the server records\<close>

text \<open>What the row of a job shows after its result has been reported.\<close>

definition recorded :: "finished_report \<Rightarrow> farm_job \<Rightarrow> bool" where
  "recorded f j \<longleftrightarrow>
     (if fr_children f \<noteq> None then fj_status j \<in> {Waiting, Success, Failed}
      else if fr_success f = Some True then fj_status j = Success
      else fj_status j = Failed \<and> fj_exception j = fr_exception f)"

text \<open>A row is kept but for a waiting job, which may complete.\<close>

definition settled :: "pk \<Rightarrow> db \<Rightarrow> db \<Rightarrow> bool" where
  "settled k d d' \<longleftrightarrow> (\<forall>j. t_get (db_jobs d) k = Some j \<longrightarrow>
     (\<exists>j'. t_get (db_jobs d') k = Some j' \<and> (fj_status j \<noteq> Waiting \<longrightarrow> j' = j) \<and>
       (fj_status j = Waiting \<longrightarrow> fj_status j' \<in> {Waiting, Success, Failed})))"

lemma settled_refl [simp, intro]: "settled k d d"
  by (auto simp: settled_def)

lemma settled_trans:
  assumes "settled k d d'" "settled k d' d''"
  shows "settled k d d''"
  unfolding settled_def
proof (intro allI impI)
  fix j assume "t_get (db_jobs d) k = Some j"
  with assms(1) obtain j' where j': "t_get (db_jobs d') k = Some j'" "fj_status j \<noteq> Waiting \<longrightarrow> j' = j"
    "fj_status j = Waiting \<longrightarrow> fj_status j' \<in> {Waiting, Success, Failed}"
    unfolding settled_def by blast
  with assms(2) obtain j'' where "t_get (db_jobs d'') k = Some j''" "fj_status j' \<noteq> Waiting \<longrightarrow> j'' = j'"
    "fj_status j' = Waiting \<longrightarrow> fj_status j'' \<in> {Waiting, Success, Failed}"
    unfolding settled_def by blast
  with j' show "\<exists>j'. t_get (db_jobs d'') k = Some j' \<and> (fj_status j \<noteq> Waiting \<longrightarrow> j' = j) \<and>
       (fj_status j = Waiting \<longrightarrow> fj_status j' \<in> {Waiting, Success, Failed})"
    by (cases "fj_status j = Waiting"; cases "fj_status j' = Waiting") auto
qed

lemma settled_parents_only: "parents_only d d' \<Longrightarrow> settled k d d'"
  unfolding settled_def by (metis parents_onlyD)

lemma settled_get: "(\<And>j. t_get (db_jobs d) k = Some j \<Longrightarrow> t_get (db_jobs d') k = Some j) \<Longrightarrow> settled k d d'"
  by (auto simp: settled_def)

lemma settled_save_job: "k \<noteq> i \<Longrightarrow> settled k d (save_job now i j d)"
  by (auto intro!: settled_get simp: table_simps)

lemma settled_create_job: "wf_table (db_jobs d) \<Longrightarrow> settled k d (snd (create_job j d))"
  using t_get_fresh [of "db_jobs d"] by (auto intro!: settled_get simp: jobs_create_job)

lemma recorded_settled:
  assumes "settled k d d'" "t_get (db_jobs d) k = Some j" "recorded f j"
  shows "\<exists>j'. t_get (db_jobs d') k = Some j' \<and> recorded f j'"
proof -
  obtain j' where "t_get (db_jobs d') k = Some j'" "fj_status j \<noteq> Waiting \<longrightarrow> j' = j"
    "fj_status j = Waiting \<longrightarrow> fj_status j' \<in> {Waiting, Success, Failed}"
    using assms(1,2) unfolding settled_def by blast
  with assms(3) show ?thesis by (auto simp: recorded_def split: if_splits)
qed

lemma create_child_settled:
  assumes "farm_inv d"
  shows "settled k d (fst (create_child e i j info d))"
proof (cases info)
  case (ChildPair c p)
  with farm_invD(1) [OF assms] show ?thesis by (simp add: create_child_def settled_create_job)
next
  case (ChildDict c p nm)
  define td where "td = (case nm of None \<Rightarrow> (None, d)
     | Some name \<Rightarrow> (let (i, d') = make_sure_node_exists e name d in (Some i, d')))"
  obtain target d1 where td1: "td = (target, d1)" by (cases td)
  have "db_jobs (snd (make_sure_node_exists e name d)) = db_jobs d" for name
    by (auto simp: make_sure_node_exists_def frame_simps split: list.splits)
  then have eq: "db_jobs d1 = db_jobs d"
    using td1 by (auto simp: td_def case_prod_beta split: option.splits)
  then have "settled k d d1" by (auto intro: settled_get)
  moreover have "settled k d1 (snd (create_job c' d1))" for c'
    using farm_invD(1) [OF assms] eq by (simp add: settled_create_job)
  ultimately show ?thesis
    unfolding ChildDict create_child_def
    by (simp add: td_def [symmetric] td1 split: option.splits) (blast intro: settled_trans)
qed

lemma finished_job_settled:
  assumes inv: "farm_inv d" and i: "i \<in> t_keys (db_jobs d)"
  shows "settled k d (fst (finished_job e f i j d))"
proof (cases "fr_children f")
  case None
  then show ?thesis by (simp add: finished_job_def split: option.splits)
next
  case (Some infos)
  have "settled k d (fst (for_each (create_child e i j) infos d)) \<and>
      farm_inv (fst (for_each (create_child e i j) infos d)) \<and> grows d (fst (for_each (create_child e i j) infos d))"
  proof (rule for_each_inv)
    fix x s assume s: "settled k d s \<and> farm_inv s \<and> grows d s"
    with i have "i \<in> t_keys (db_jobs s)" by (auto simp: grows_def)
    with s create_child_farm_inv [of s i e j x] create_child_settled [of s k e i j x]
    show "settled k d (fst (create_child e i j x s)) \<and> farm_inv (fst (create_child e i j x s)) \<and>
        grows d (fst (create_child e i j x s))"
      by (blast intro: settled_trans grows_trans)
  qed (use inv in simp)
  with Some show ?thesis by (auto simp: finished_job_def split: prod.splits option.splits)
qed

text \<open>What a call of \<open>finish_job\<close> goes through when the job exists.\<close>

lemma finish_job_cases:
  assumes "fr_job_id f = Some k" "t_get (db_jobs d) k = Some j0"
  obtains (raised) x where "finish_job e f d =
      (fst (finished_job e f k (j0\<lparr>fj_progress := Some (or_else (fr_progress f) [])\<rparr>) d), Some x)"
  | (saved) d1 job where
      "finished_job e f k (j0\<lparr>fj_progress := Some (or_else (fr_progress f) [])\<rparr>) d = (d1, Inr job)"
      "fst (finish_job e f d) = fst (onJobChanged e k job (save_job (e_now e) k job d1))"
proof -
  obtain d1 r where fj: "finished_job e f k (j0\<lparr>fj_progress := Some (or_else (fr_progress f) [])\<rparr>) d = (d1, r)"
    by (cases "finished_job e f k (j0\<lparr>fj_progress := Some (or_else (fr_progress f) [])\<rparr>) d")
  show thesis
  proof (cases r)
    case (Inl x)
    with fj assms have "finish_job e f d =
        (fst (finished_job e f k (j0\<lparr>fj_progress := Some (or_else (fr_progress f) [])\<rparr>) d), Some x)"
      by (simp add: finish_job_def)
    then show thesis by (rule raised)
  next
    case (Inr job)
    have "fst (finish_job e f d) = fst (onJobChanged e k job (save_job (e_now e) k job d1))"
      using fj assms Inr by (simp add: finish_job_def split: prod.splits option.splits py_exn.splits)
    with fj Inr show thesis by (blast intro: saved)
  qed
qed

lemma finish_job_settled:
  assumes inv: "farm_inv d" and k: "fr_job_id f \<noteq> Some k"
  shows "settled k d (fst (finish_job e f d))"
proof (cases "\<exists>i j0. fr_job_id f = Some i \<and> t_get (db_jobs d) i = Some j0")
  case False
  then show ?thesis by (auto simp: finish_job_def split: option.splits)
next
  case True
  then obtain i j0 where i: "fr_job_id f = Some i" and g: "t_get (db_jobs d) i = Some j0" by blast
  let ?j = "j0\<lparr>fj_progress := Some (or_else (fr_progress f) [])\<rparr>"
  have s1: "settled k d (fst (finished_job e f i ?j d))"
    using inv t_get_keyI [OF g] by (rule finished_job_settled)
  from i g show ?thesis
  proof (cases rule: finish_job_cases [where e = e])
    case (raised x)
    with s1 show ?thesis by simp
  next
    case (saved d1 job)
    have "settled k d d1" using s1 saved(1) by simp
    moreover have "settled k d1 (save_job (e_now e) i job d1)" using k i by (intro settled_save_job) auto
    moreover have "settled k (save_job (e_now e) i job d1) (fst (finish_job e f d))"
      unfolding saved(2) by (intro settled_parents_only parents_only_onJobChanged)
    ultimately show ?thesis by (blast intro: settled_trans)
  qed
qed

lemma finish_job_recorded:
  assumes run: "finish_job e f d = (d', None)" and f: "fr_job_id f = Some k" and k: "k \<in> t_keys (db_jobs d)"
  shows "\<exists>j. t_get (db_jobs d') k = Some j \<and> recorded f j"
proof -
  obtain j0 where g: "t_get (db_jobs d) k = Some j0" using k by (auto simp: t_keys_get)
  from f g show ?thesis
  proof (cases rule: finish_job_cases [where e = e])
    case (raised x)
    with run show ?thesis by simp
  next
    case (saved d1 job)
    let ?s = "save_job (e_now e) k job d1"
    have "recorded f job"
      using saved(1) by (auto simp: finished_job_def recorded_def split: option.splits prod.splits if_splits)
    moreover have "t_get (db_jobs ?s) k = Some (stamp (e_now e) d1 k job)" by (simp add: table_simps)
    ultimately have "\<exists>j. t_get (db_jobs ?s) k = Some j \<and> recorded f j"
      by (auto simp: recorded_def split: if_splits)
    moreover have "settled k ?s d'"
      using settled_parents_only [OF parents_only_onJobChanged, of k ?s e k job] saved(2) run by simp
    ultimately show ?thesis by (blast intro: recorded_settled)
  qed
qed

lemma fail_loop_settled:
  assumes "k \<notin> keys_of xs"
  shows "settled k d (fst (for_each (fail_lost_job e) xs d))"
proof (rule for_each_rel [where R = "settled k"])
  fix x s assume "x \<in> set xs" and s: "settled k d s"
  then have "k \<noteq> fst x" using assms by auto
  moreover obtain i j where x: "x = (i, j)" by (cases x)
  ultimately have "settled k s (save_job (e_now e) i (j\<lparr>fj_status := Failed\<rparr>) s)"
    by (simp add: settled_save_job)
  moreover have "settled k (save_job (e_now e) i (j\<lparr>fj_status := Failed\<rparr>) s) (fst (fail_lost_job e x s))"
    unfolding x by (intro settled_parents_only fail_lost_job_parents)
  ultimately show "settled k d (fst (fail_lost_job e x s))" using s by (blast intro: settled_trans)
qed simp

text \<open>All results of a request are recorded when its jobs have been updated.\<close>

lemma results_recorded:
  assumes inv: "farm_inv d" and run: "discover_jobs e r node d = (d', None)"
    and fs: "dc_finished_jobs r = Some fs" and f: "f \<in> set fs" "fr_job_id f = Some k"
    and dist: "distinct (map fr_job_id fs)" and k: "k \<in> t_keys (db_jobs d)"
  shows "\<exists>j. t_get (db_jobs d') k = Some j \<and> recorded f j"
proof -
  let ?d0 = "report_running e r d"
  obtain d1 where l: "for_each (finish_job e) fs ?d0 = (d1, None)"
    using run fs by (auto simp: discover_jobs_def or_else_def split: prod.splits option.splits)
  let ?I = "\<lambda>s. farm_inv s \<and> grows ?d0 s"
  let ?Q = "\<lambda>f s. \<forall>i \<in> t_keys (db_jobs ?d0). f \<in> set fs \<and> fr_job_id f = Some i \<longrightarrow>
      (\<exists>j. t_get (db_jobs s) i = Some j \<and> recorded f j)"
  have inv0: "farm_inv ?d0" using inv by (rule report_running_farm_inv)
  have "\<forall>f \<in> set fs. ?Q f d1"
  proof (rule for_each_establishes [OF l, where I = ?I])
    show "?I ?d0" using inv0 by simp
  next
    fix y s s' assume "?I s" "finish_job e y s = (s', None)"
    with finish_job_farm_inv [of s e y] show "?I s'" by (auto intro: grows_trans)
  next
    fix x s s' assume "?I s" and fx: "finish_job e x s = (s', None)"
    show "?Q x s'"
    proof (intro ballI impI)
      fix i assume "i \<in> t_keys (db_jobs ?d0)" and x: "x \<in> set fs \<and> fr_job_id x = Some i"
      then have "i \<in> t_keys (db_jobs s)" using \<open>?I s\<close> by (auto simp: grows_def)
      then show "\<exists>j. t_get (db_jobs s') i = Some j \<and> recorded x j"
        using finish_job_recorded [OF fx, of i] x by simp
    qed
  next
    fix x y s s' assume y: "y \<in> set fs" and I: "?I s" and q: "?Q x s" and fy: "finish_job e y s = (s', None)"
    show "?Q x s'"
    proof (intro ballI impI)
      fix i assume i: "i \<in> t_keys (db_jobs ?d0)" and x: "x \<in> set fs \<and> fr_job_id x = Some i"
      show "\<exists>j. t_get (db_jobs s') i = Some j \<and> recorded x j"
      proof (cases "fr_job_id y = Some i")
        case True
        then have "y = x" using x y dist by (metis distinct_map inj_onD)
        moreover have "i \<in> t_keys (db_jobs s)" using i I by (auto simp: grows_def)
        ultimately show ?thesis using finish_job_recorded [OF fy True] by simp
      next
        case False
        with I have "settled i s s'" using finish_job_settled [of s y i e] fy by simp
        with q i x show ?thesis by (blast intro: recorded_settled)
      qed
    qed
  qed
  moreover have "k \<in> t_keys (db_jobs ?d0)" using k report_running_grows [of d e r] by (auto simp: grows_def)
  ultimately obtain j where j: "t_get (db_jobs d1) k = Some j" "recorded f j" using f by blast
  have inv1: "farm_inv d1" using finish_jobs_farm_inv [OF inv0, of e fs] l by simp
  have "settled k d1 d'"
  proof (cases "dc_running_jobs r")
    case None
    with run fs l show ?thesis by (simp add: discover_jobs_def or_else_def)
  next
    case (Some running)
    have "fj_status j \<noteq> Running \<and> fj_status j \<noteq> Terminating"
      using j(2) by (auto simp: recorded_def split: if_splits)
    then have "k \<notin> keys_of (lost_jobs node running d1)"
      using j(1) by (auto simp: lost_jobs_def t_filter_iff [OF farm_invD(1) [OF inv1]])
    then have "settled k d1 (fst (for_each (fail_lost_job e) (lost_jobs node running d1) d1))"
      by (rule fail_loop_settled)
    with run fs l Some show ?thesis by (simp add: discover_jobs_def or_else_def)
  qed
  with j show ?thesis by (blast intro: recorded_settled)
qed

section \<open>One exchange\<close>

lemma schedule_row:
  assumes inv: "farm_inv d" and g: "t_get (db_jobs (schedule e n nd av ex d)) k = Some j'"
  shows "(\<exists>j. t_get (db_jobs d) k = Some j \<and> fj_status j = Ready \<and> fj_status j' = Reserved) \<or>
    (\<exists>j. t_get (db_jobs d) k = Some j \<and> fj_status j' = fj_status j \<and> fj_node j' = fj_node j \<and>
       fj_exception j' = fj_exception j)"
proof (cases "schedule e n nd av ex d = d")
  case True
  with g show ?thesis by simp
next
  case False
  note wf = farm_invD(1) [OF inv]
  obtain gpu i x where f: "find (\<lambda>(_, j). dependencies_ok d j) (next_jobs d n nd av ex gpu) = Some (i, x)"
    and s: "schedule e n nd av ex d = reserve e n (i, x) d"
    using False by (auto simp: schedule_def split: option.splits if_splits)
  have nj: "(i, x) \<in> set (next_jobs d n nd av ex gpu)" using f by (metis find_Some_iff nth_mem)
  have "t_get (db_jobs d) i = Some x" using wf nj by (rule next_jobs_get)
  moreover have "fj_status x = Ready" using nj by (simp add: next_jobs_def t_filter_iff [OF wf] eligible_def)
  ultimately have "t_get (db_jobs d) i = Some x" "fj_status x = Ready" .
  with g show ?thesis
    unfolding s reserve_def
    by (cases "k = i") (auto simp: table_simps delete_jobs_get [OF wf] split: if_splits)
qed

lemma dispatch_row:
  assumes inv: "farm_inv d" and run: "discover_dispatch e n nd av ex ks d = (d', reply)"
    and g: "t_get (db_jobs d') k = Some j'"
  shows "(\<exists>j. t_get (db_jobs d) k = Some j \<and> fj_status j = Ready \<and> fj_status j' = Reserved) \<or>
    (\<exists>j. t_get (db_jobs d) k = Some j \<and> fj_status j' = fj_status j \<and> fj_node j' = fj_node j \<and>
       fj_exception j' = fj_exception j)"
proof -
  have "d' = d \<or> d' = schedule e n nd av ex d"
    using run by (auto simp: discover_dispatch_def Let_def split: if_splits)
  with schedule_row [OF inv] g show ?thesis by blast
qed

lemma purge_all:
  assumes "for_each purge rs c = (c', None)"
  shows "None \<notin> set rs" "cl_running c' = cl_running c"
    "keys_of (cl_finished c') = keys_of (cl_finished c) - set (result_ids rs)"
proof -
  have "None \<notin> set rs \<and> cl_running c' = cl_running c \<and>
      keys_of (cl_finished c') = keys_of (cl_finished c) - set (result_ids rs)"
    using assms
  proof (induction rs arbitrary: c)
    case (Cons r rs)
    obtain c1 where c1: "purge r c = (c1, None)" "for_each purge rs c1 = (c', None)"
      using for_each_ConsD [OF Cons.prems] by blast
    then obtain x where "r = Some x" by (auto simp: purge_def split: option.splits)
    with c1(1) have "cl_running c1 = cl_running c" "cl_finished c1 = AList.delete (jx_job_id x) (cl_finished c)"
      by (auto simp: purge_def split: if_splits)
    with Cons.IH [OF c1(2)] \<open>r = Some x\<close> show ?case by auto
  qed simp
  then show "None \<notin> set rs" "cl_running c' = cl_running c"
    "keys_of (cl_finished c') = keys_of (cl_finished c) - set (result_ids rs)" by simp_all
qed

lemma purge_succeeds:
  assumes "None \<notin> set rs" "distinct (result_ids rs)" "set (result_ids rs) \<subseteq> keys_of (cl_finished c)"
  shows "\<exists>c'. for_each purge rs c = (c', None)"
  using assms
proof (induction rs arbitrary: c)
  case (Cons r rs)
  then obtain x where r: "r = Some x" by (cases r) auto
  let ?c = "c\<lparr>cl_finished := AList.delete (jx_job_id x) (cl_finished c)\<rparr>"
  have "map_of (cl_finished c) (jx_job_id x) \<noteq> None"
    using Cons.prems(3) r by (simp add: map_of_eq_None_iff)
  then have "purge r c = (?c, None)" by (auto simp: purge_def r)
  moreover have "\<exists>c'. for_each purge rs ?c = (c', None)"
    using Cons.prems r by (intro Cons.IH) auto
  ultimately show ?case by auto
qed simp

lemma submit_all:
  assumes "distinct (map fst js)" "keys_of js \<inter> keys_of (cl_running c) = {}"
  shows "\<exists>c'. for_each (submit_job imp) js c = (c', None) \<and> cl_finished c' = cl_finished c \<and>
    keys_of (cl_running c') = keys_of (cl_running c) \<union> keys_of js"
  using assms
proof (induction js arbitrary: c)
  case (Cons job js)
  obtain k cl p where job: "job = (k, cl, p)" by (cases job)
  let ?c = "c\<lparr>cl_running := AList.update k (new_instance imp p cl k) (cl_running c), cl_status_changed := True\<rparr>"
  have "map_of (cl_running c) k = None" using Cons.prems(2) by (simp add: job map_of_eq_None_iff)
  then have "submit_job imp job c = (?c, None)" by (simp add: submit_job_def job)
  moreover have "\<exists>c'. for_each (submit_job imp) js ?c = (c', None) \<and> cl_finished c' = cl_finished ?c \<and>
      keys_of (cl_running c') = keys_of (cl_running ?c) \<union> keys_of js"
    using Cons.prems by (intro Cons.IH) (auto simp: job)
  ultimately show ?case by (auto simp: job)
qed simp

lemma terminate_all:
  "keys_of (cl_running (fold terminate_job ks c)) = keys_of (cl_running c)"
  "cl_finished (fold terminate_job ks c) = cl_finished c"
  "k \<in> set ks \<Longrightarrow> (k, ji) \<in> set (cl_running (fold terminate_job ks c)) \<Longrightarrow> ji_terminated ji"
proof -
  have keys: "keys_of (cl_running (terminate_job k c)) = keys_of (cl_running c)" for k c
    using change_running_keys [of terminate k c] unfolding terminate_job_def by (metis keys_of_map)
  show "keys_of (cl_running (fold terminate_job ks c)) = keys_of (cl_running c)" for ks
    by (induction ks arbitrary: c) (simp_all add: keys)
  show "cl_finished (fold terminate_job ks c) = cl_finished c"
    by (induction ks arbitrary: c) (simp_all add: terminate_job_def)
  have stays: "\<exists>ji0. (k, ji0) \<in> set (cl_running c) \<and> (ji_terminated ji0 \<longrightarrow> ji_terminated ji) \<and> (i = k \<longrightarrow> ji_terminated ji)"
    if "(k, ji) \<in> set (cl_running (terminate_job i c))" for i ji c
    using that by (auto simp: terminate_job_def change_running_def terminate_def split: if_splits)
  have "(\<forall>ji. (k, ji) \<in> set (cl_running c) \<longrightarrow> ji_terminated ji) \<or> k \<in> set ks \<Longrightarrow>
      (k, ji) \<in> set (cl_running (fold terminate_job ks c)) \<Longrightarrow> ji_terminated ji"
  proof (induction ks arbitrary: c)
    case (Cons i ks)
    have "(\<forall>ji. (k, ji) \<in> set (cl_running (terminate_job i c)) \<longrightarrow> ji_terminated ji) \<or> k \<in> set ks"
      using Cons.prems(1) stays by fastforce
    with Cons.IH [of "terminate_job i c"] Cons.prems(2) show ?case by simp
  qed simp
  then show "k \<in> set ks \<Longrightarrow> (k, ji) \<in> set (cl_running (fold terminate_job ks c)) \<Longrightarrow> ji_terminated ji" by blast
qed

text \<open>An answered request held no result that is missing.\<close>

lemma answered_no_null:
  assumes "discover_jobs e r n d = (d', None)" "dc_finished_jobs r = Some (map report_of rs)"
  shows "None \<notin> set rs"
proof
  assume "None \<in> set rs"
  then obtain us vs where rs: "rs = us @ None # vs" by (meson split_list)
  have "fr_job_id (report_of None) = None" by (simp add: report_of_def)
  then have "snd (finish_job e (report_of None) s) \<noteq> None" for s by (simp add: finish_job_def)
  then have "snd (for_each (finish_job e) (map report_of rs) s) \<noteq> None" for s
    by (auto simp: rs for_each_append split: prod.splits option.splits) (metis snd_conv option.distinct(1))+
  moreover obtain d1 where "for_each (finish_job e) (map report_of rs) (report_running e r d) = (d1, None)"
    using assms by (auto simp: discover_jobs_def or_else_def split: prod.splits option.splits)
  ultimately show False by (metis snd_conv)
qed

lemma result_ids_reports:
  "None \<notin> set rs \<Longrightarrow> distinct (result_ids rs) \<Longrightarrow> distinct (map fr_job_id (map report_of rs))"
proof (induction rs)
  case (Cons r rs)
  then obtain x where "r = Some x" by (cases r) auto
  with Cons show ?case by (auto simp: report_of_def set_result_ids image_iff split: option.splits)
qed simp

text \<open>What a client makes of an answer whose jobs are all new to it.\<close>

lemma receive_reply:
  assumes nn: "None \<notin> set rs" "distinct (result_ids rs)" "set (result_ids rs) \<subseteq> keys_of (cl_finished c)"
    and new: "distinct (map fst (rp_jobs rp))" "keys_of (rp_jobs rp) \<inter> keys_of (cl_running c) = {}"
    and C: "c' = receive imp rs (Some (Json 200 (Some rp))) c"
  shows "keys_of (cl_running c') = keys_of (cl_running c) \<union> keys_of (rp_jobs rp)"
    "keys_of (cl_finished c') = keys_of (cl_finished c) - set (result_ids rs)"
    "k \<in> set (rp_jobs_to_kill rp) \<Longrightarrow> (k, ji) \<in> set (cl_running c') \<Longrightarrow> ji_terminated ji"
proof -
  let ?c0 = "c\<lparr>cl_phase := Idle, cl_first_update := False\<rparr>"
  obtain cp where p: "for_each purge rs ?c0 = (cp, None)"
    using purge_succeeds [OF nn(1,2), of ?c0] nn(3) by auto
  note pa = purge_all [OF p]
  define cq where "cq = (if rp_req_restart rp then cp\<lparr>cl_need_restart := True\<rparr> else cp)"
  have cq: "cl_running cq = cl_running cp" "cl_finished cq = cl_finished cp" by (simp_all add: cq_def)
  obtain cs where s: "for_each (submit_job imp) (rp_jobs rp) cq = (cs, None)"
    "cl_finished cs = cl_finished cq" "keys_of (cl_running cs) = keys_of (cl_running cq) \<union> keys_of (rp_jobs rp)"
    using submit_all [OF new(1), of cq imp] new(2) cq pa by auto
  have c': "c' = fold terminate_job (rp_jobs_to_kill rp) cs"
    using p s(1) by (simp add: C receive_def launch_received_def cq_def [symmetric])
  show "keys_of (cl_running c') = keys_of (cl_running c) \<union> keys_of (rp_jobs rp)"
    unfolding c' terminate_all(1) s(3) cq pa(2) by simp
  show "keys_of (cl_finished c') = keys_of (cl_finished c) - set (result_ids rs)"
    unfolding c' terminate_all(2) s(2) cq pa(3) by simp
  show "k \<in> set (rp_jobs_to_kill rp) \<Longrightarrow> (k, ji) \<in> set (cl_running c') \<Longrightarrow> ji_terminated ji"
    unfolding c' by (rule terminate_all(3))
qed

lemma reserved_in_reply:
  assumes inv: "farm_inv d'" and run: "discover_dispatch e n nd av ex ks d = (d', Some rp)"
  shows "keys_of (rp_jobs rp) = {k. \<exists>j. t_get (db_jobs d') k = Some j \<and> fj_status j = Reserved \<and> fj_node j = Some n}"
    "distinct (map fst (rp_jobs rp))"
proof -
  have rp: "rp_jobs rp = reserved_jobs n d'"
    using run by (auto simp: discover_dispatch_def Let_def split: if_splits)
  show "keys_of (rp_jobs rp) = {k. \<exists>j. t_get (db_jobs d') k = Some j \<and> fj_status j = Reserved \<and> fj_node j = Some n}"
    unfolding rp reserved_jobs_def
    using t_filter_iff [OF farm_invD(1) [OF inv], of _ _ "\<lambda>_ j. fj_status j = Reserved \<and> fj_node j = Some n"]
    by force
  show "distinct (map fst (rp_jobs rp))"
    unfolding rp reserved_jobs_def
    using distinct_t_filter [OF farm_invD(1) [OF inv], of "\<lambda>_ j. fj_status j = Reserved \<and> fj_node j = Some n"]
    by (simp add: comp_def case_prod_beta')
qed

text \<open>A row with a result is not handed out again by the same request.\<close>

lemma recorded_dispatch:
  assumes "farm_inv d3" "discover_dispatch e n nd av ex ks d3 = (d', reply)" "t_get (db_jobs d') k = Some j"
    and "t_get (db_jobs d3) k = Some j3" "recorded f j3"
  shows "recorded f j"
proof -
  have "fj_status j3 \<noteq> Ready" using assms(5) by (auto simp: recorded_def split: if_splits)
  with dispatch_row [OF assms(1-3)] assms(4) have "fj_status j = fj_status j3" "fj_exception j = fj_exception j3"
    by auto
  with assms(5) show ?thesis by (simp add: recorded_def split: if_splits)
qed

text \<open>
  C3: one exchange with a consistent farm that the server answers with work, when it hands out no job
  that the client still runs. The node meant is the one that the database finds under the name of the
  client's machine when the request ends. Afterwards every job that the database shows as reserved,
  running or terminating on this node is one the client has, or had when it wrote the request;
  every result of the request is recorded in the row of its job unless the row is gone, and the
  client has forgotten exactly these results; and every job to be killed that still runs is marked
  as terminated.
\<close>

theorem exchange_agrees:
  assumes run: "client_reachable imp c" and ph: "cl_phase c = HaveRequest rk ps rs" and inv: "farm_inv d"
    and post: "post_client_discover ec2 e (payload m fu rk ps rs) d = (d', Json 200 (Some rp))"
    and fresh: "keys_of (rp_jobs rp) \<inter> keys_of (cl_running c) = {}"
  shows "\<exists>node c'. machine_node d' (mc_hostname m) = Some node \<and>
    receive imp rs (Some (Json 200 (Some rp))) c = c' \<and>
    (\<forall>k j. t_get (db_jobs d') k = Some j \<and> fj_node j = Some node \<and>
       fj_status j \<in> {Reserved, Running, Terminating} \<longrightarrow> k \<in> set rk \<union> keys_of (cl_running c')) \<and>
    (\<forall>x j. Some x \<in> set rs \<and> jx_job_id x \<in> t_keys (db_jobs d) \<and> t_get (db_jobs d') (jx_job_id x) = Some j \<longrightarrow>
       recorded (report_of (Some x)) j) \<and>
    keys_of (cl_finished c') = keys_of (cl_finished c) - set (result_ids rs) \<and>
    (\<forall>k ji. k \<in> set (rp_jobs_to_kill rp) \<and> (k, ji) \<in> set (cl_running c') \<longrightarrow> ji_terminated ji)"
proof -
  let ?r = "payload m fu rk ps rs"
  note ci = client_reachable_inv [OF run]
  note cov = client_invD(6) [OF ci, unfolded ph covered.simps]
  obtain st d1 d2 n nd tags d3 where c1: "cleanup_dead_jobs e d = (d1, None)"
    and rg: "discover_register ec2 e ?r st d1 = (d2, Inr (n, nd, tags))"
    and dj: "discover_jobs e ?r n d2 = (d3, None)"
    and dd: "discover_dispatch e n nd (or_else (dc_available_jobs ?r) []) (excluded_tags d2 tags)
       (jobs_to_terminate n d2) d3 = (d', Some rp)"
    and i1: "farm_inv d1" and i2: "farm_inv d2" and eq: "db_jobs d2 = db_jobs d1" and i3: "farm_inv d3" and i': "farm_inv d'"
    by (rule post_client_discoverE [OF inv post])
  have node: "machine_node d' (mc_hostname m) = Some n"
    by (rule request_node [OF i1 rg dj dd]) (simp add: payload_def)
  have fs: "dc_finished_jobs ?r = Some (map report_of rs)" "dc_running_jobs ?r = Some rk"
    by (simp_all add: payload_def)
  have nn: "None \<notin> set rs" using dj fs(1) by (rule answered_no_null)
  note rp = reserved_in_reply [OF i' dd]
  have ids: "distinct (result_ids rs)" "set (result_ids rs) \<subseteq> keys_of (cl_finished c)" using cov by auto
  let ?c = "receive imp rs (Some (Json 200 (Some rp))) c"
  note reply = receive_reply [OF nn ids rp(2) fresh refl [of ?c]]
  have A: "k \<in> set rk \<union> keys_of (cl_running ?c)"
    if g: "t_get (db_jobs d') k = Some j" and nj: "fj_node j = Some n"
      and st: "fj_status j \<in> {Reserved, Running, Terminating}" for k j
  proof (cases "fj_status j = Reserved")
    case True
    with g nj show ?thesis using rp(1) reply(1) by blast
  next
    case False
    with dispatch_row [OF i3 dd g] st obtain j3 where "t_get (db_jobs d3) k = Some j3"
      "fj_status j3 = Running \<or> fj_status j3 = Terminating" "fj_node j3 = Some n"
      using nj by auto
    then show ?thesis using active_jobs_listed [OF i2 fs(2) dj] by blast
  qed
  have B: "recorded (report_of (Some x)) j"
    if x: "Some x \<in> set rs" "jx_job_id x \<in> t_keys (db_jobs d)" and g: "t_get (db_jobs d') (jx_job_id x) = Some j" for x j
  proof -
    have "grows d d1" using cleanup_farm_inv(2) [OF inv, of e] c1 by simp
    then have "jx_job_id x \<in> t_keys (db_jobs d2)" using x(2) eq by (auto simp: grows_def)
    moreover have "distinct (map fr_job_id (map report_of rs))" using nn ids(1) by (rule result_ids_reports)
    moreover have "fr_job_id (report_of (Some x)) = Some (jx_job_id x)" by (simp add: report_of_def)
    ultimately obtain j3 where "t_get (db_jobs d3) (jx_job_id x) = Some j3" "recorded (report_of (Some x)) j3"
      using results_recorded [OF i2 dj fs(1), of "report_of (Some x)" "jx_job_id x"] x(1) by auto
    then show ?thesis using i3 dd g by (blast intro: recorded_dispatch)
  qed
  show ?thesis
    using node A B reply(2,3) by (intro exI [of _ n] exI [of _ ?c]) blast
qed

definition two_jobs :: db where
  "two_jobs = farm_with [(7, sample_node)]
     [(2, (sample_job Running)\<lparr>fj_node := Some 7, fj_job_class := ''jobs.test.SpeedTest''\<rparr>), (3, sample_job Ready)]"

lemma two_jobs_inv: "farm_inv two_jobs"
  by (rule farm_invI)
    (auto simp: two_jobs_def sample_simps wf_table_def t_keys_def job_refs_def t_get_def split: if_splits)

lemma exchange_agrees_witness:
  "\<exists>d' rp. post_client_discover no_cloud sample_env (payload render_machine False [2] [(2, [])] []) two_jobs =
       (d', Json 200 (Some rp)) \<and> rp_jobs rp = [(3, ''jobs.archive.ExportTake'', None)] \<and>
     (\<exists>node c'. machine_node d' (mc_hostname render_machine) = Some node \<and>
        receive job_classes [] (Some (Json 200 (Some rp))) (ask busy_client) = c' \<and>
        keys_of (cl_finished c') = {})"
proof -
  let ?p = "post_client_discover no_cloud sample_env (payload render_machine False [2] [(2, [])] []) two_jobs"
  have "case snd ?p of Json n x \<Rightarrow> n = 200 \<and> map_option rp_jobs x = Some [(3, ''jobs.archive.ExportTake'', None)] | _ \<Rightarrow> False"
    by code_simp
  then obtain rp where p: "?p = (fst ?p, Json 200 (Some rp))" and rp: "rp_jobs rp = [(3, ''jobs.archive.ExportTake'', None)]"
    by (cases "snd ?p") (auto simp: prod_eq_iff)
  have "keys_of (rp_jobs rp) \<inter> keys_of (cl_running (ask busy_client)) = {}"
    using rp busy_ask(3) by simp
  from exchange_agrees [OF busy_ask(1,2) two_jobs_inv p this]
  obtain node c' where node: "machine_node (fst ?p) (mc_hostname render_machine) = Some node"
    and c': "receive job_classes [] (Some (Json 200 (Some rp))) (ask busy_client) = c'"
    and forgets: "keys_of (cl_finished c') = keys_of (cl_finished (ask busy_client)) - set (result_ids [])"
    by (elim exE conjE) (rule that; assumption)
  moreover have "cl_finished (ask busy_client) = []" using busy_client_eval by (simp add: ask_def)
  ultimately have "keys_of (cl_finished c') = {}" using forgets by simp
  with node c' p rp show ?thesis by blast
qed

end
