(* ===== verification/Json_Read.thy ===== *)
theory Json_Read
  imports Json_Text "HOL-Library.AList"
begin

text \<open>
  \<open>json.loads\<close>, with which the jobs of the client read the parameters the server wrote
  with \<open>json.dumps\<close>. The reader is a recursive descent with fuel; the length of the
  text is always enough (\<open>loads_dumps\<close>). Numbers with a fraction or an exponent, which no
  parameter contains, are refused.
\<close>

section \<open>The reader\<close>

definition is_space :: "char \<Rightarrow> bool" where
  "is_space c \<longleftrightarrow> c = CHR '' '' \<or> c = CHR 0x09 \<or> c = CHR 0x0A \<or> c = CHR 0x0D"

abbreviation skip_space :: "string \<Rightarrow> string" where
  "skip_space \<equiv> dropWhile is_space"

text \<open>The text of a string up to its closing quote, still escaped, and what follows.\<close>

fun quoted :: "string \<Rightarrow> (string \<times> string) option" where
  "quoted [] = None"
| "quoted (c # s) =
     (if c = CHR 0x22 then Some ([], s)
      else if c = CHR 0x5C then
        (case s of
           [] \<Rightarrow> None
         | e # s' \<Rightarrow> map_option (\<lambda>(t, r). (c # e # t, r)) (quoted s'))
      else map_option (\<lambda>(t, r). (c # t, r)) (quoted s))"

definition read_string :: "string \<Rightarrow> (string \<times> string) option" where
  "read_string s =
     (case quoted s of
        None \<Rightarrow> None
      | Some (t, r) \<Rightarrow> (case unescape t of None \<Rightarrow> None | Some x \<Rightarrow> Some (x, r)))"

definition read_number :: "string \<Rightarrow> (json \<times> string) option" where
  "read_number s =
     (let neg = (List.take 1 s = ''-''); t = (if neg then List.drop 1 s else s);
          ds = takeWhile is_digit t; r = dropWhile is_digit t
      in if ds = [] \<or> (ds \<noteq> ''0'' \<and> List.take 1 ds = ''0'') \<or> List.take 1 r \<in> {''.'', ''e'', ''E''} then None
         else Some (JInt (if neg then - int (read_nat ds) else int (read_nat ds)), r))"

definition read_word :: "string \<Rightarrow> json \<Rightarrow> string \<Rightarrow> (json \<times> string) option" where
  "read_word w j s = (if List.take (length w) s = w then Some (j, List.drop (length w) s) else None)"

text \<open>A dictionary: a repeated key keeps its place and takes the last value.\<close>

definition dict_of :: "(string \<times> json) list \<Rightarrow> (string \<times> json) list" where
  "dict_of kvs = fold (\<lambda>(k, v). AList.update k v) kvs []"

fun read_value :: "nat \<Rightarrow> string \<Rightarrow> (json \<times> string) option"
  and read_items :: "nat \<Rightarrow> string \<Rightarrow> (json list \<times> string) option"
  and read_members :: "nat \<Rightarrow> string \<Rightarrow> ((string \<times> json) list \<times> string) option"
where
  "read_value 0 s = None"
| "read_value (Suc n) s =
     (case skip_space s of
        [] \<Rightarrow> None
      | c # t \<Rightarrow>
          if c = CHR 0x22 then map_option (\<lambda>(x, r). (JStr x, r)) (read_string t)
          else if c = CHR ''['' then
            (if List.take 1 (skip_space t) = '']'' then Some (JList [], List.drop 1 (skip_space t))
             else map_option (\<lambda>(xs, r). (JList xs, r)) (read_items n t))
          else if c = CHR ''{'' then
            (if List.take 1 (skip_space t) = ''}'' then Some (JObj [], List.drop 1 (skip_space t))
             else map_option (\<lambda>(kvs, r). (JObj (dict_of kvs), r)) (read_members n t))
          else if c = CHR ''n'' then read_word ''null'' JNull (c # t)
          else if c = CHR ''t'' then read_word ''true'' (JBool True) (c # t)
          else if c = CHR ''f'' then read_word ''false'' (JBool False) (c # t)
          else read_number (c # t))"
| "read_items 0 s = None"
| "read_items (Suc n) s =
     (case read_value n s of
        None \<Rightarrow> None
      | Some (x, r) \<Rightarrow>
          if List.take 1 (skip_space r) = '']'' then Some ([x], List.drop 1 (skip_space r))
          else if List.take 1 (skip_space r) = '','' then
            map_option (\<lambda>(xs, r'). (x # xs, r')) (read_items n (List.drop 1 (skip_space r)))
          else None)"
| "read_members 0 s = None"
| "read_members (Suc n) s =
     (if List.take 1 (skip_space s) \<noteq> [CHR 0x22] then None
      else
        (case read_string (List.drop 1 (skip_space s)) of
           None \<Rightarrow> None
         | Some (k, r) \<Rightarrow>
             if List.take 1 (skip_space r) \<noteq> '':'' then None
             else
               (case read_value n (List.drop 1 (skip_space r)) of
                  None \<Rightarrow> None
                | Some (v, r) \<Rightarrow>
                    if List.take 1 (skip_space r) = ''}'' then Some ([(k, v)], List.drop 1 (skip_space r))
                    else if List.take 1 (skip_space r) = '','' then
                      map_option (\<lambda>(kvs, r'). ((k, v) # kvs, r')) (read_members n (List.drop 1 (skip_space r)))
                    else None)))"

definition loads :: "string \<Rightarrow> json option" where
  "loads s =
     (case read_value (length s) s of
        None \<Rightarrow> None
      | Some (j, r) \<Rightarrow> if skip_space r = [] then Some j else None)"

section \<open>Reading what was written\<close>

text \<open>
  The documents that are read back: no floating point number, no text that was passed on as it
  is, and no key twice in an object.
\<close>

fun plain :: "json \<Rightarrow> bool" where
  "plain (JFloat _) = False"
| "plain (JText _) = False"
| "plain (JList xs) = list_all plain xs"
| "plain (JObj kvs) = (distinct (map fst kvs) \<and> list_all (\<lambda>(_, v). plain v) kvs)"
| "plain _ = True"

fun fuel :: "json \<Rightarrow> nat" where
  "fuel (JList xs) = Suc (sum_list (map (\<lambda>x. Suc (fuel x)) xs))"
| "fuel (JObj kvs) = Suc (sum_list (map (\<lambda>(_, v). Suc (fuel v)) kvs))"
| "fuel _ = 1"

lemma escape_char_cases:
  "(\<exists>e. escape_char c = [CHR 0x5C, e]) \<or>
   (escape_char c = [c] \<and> c \<noteq> CHR 0x22 \<and> c \<noteq> CHR 0x5C) \<or>
   (\<exists>h. escape_char c = [CHR 0x5C, CHR ''u''] @ hex4 h)"
  by (auto simp: escape_char_def)

lemma hex_char_plain: "d < 16 \<Longrightarrow> hex_char d \<noteq> CHR 0x22 \<and> hex_char d \<noteq> CHR 0x5C"
proof -
  have "\<forall>d \<in> set [0..<16]. hex_char d \<noteq> CHR 0x22 \<and> hex_char d \<noteq> CHR 0x5C" by code_simp
  then show "d < 16 \<Longrightarrow> hex_char d \<noteq> CHR 0x22 \<and> hex_char d \<noteq> CHR 0x5C" by simp
qed

lemma quoted_escaped:
  "quoted (escape_char c @ s) = map_option (\<lambda>(t, r). (escape_char c @ t, r)) (quoted s)"
  using escape_char_cases [of c] hex_char_plain
  by (cases "quoted s") (auto simp: hex4_def)

lemma read_string_show: "read_string (List.drop 1 (show_json_string x) @ r) = Some (x, r)"
proof -
  have "quoted (concat (map escape_char x) @ CHR 0x22 # r) = Some (concat (map escape_char x), r)"
    by (induction x) (simp_all add: quoted_escaped)
  then show ?thesis by (simp add: read_string_def show_json_string_def unescape_escape)
qed

lemma show_nat_digits: "list_all is_digit (show_nat n)"
proof -
  have "\<forall>d \<in> set [0..<10]. is_digit (digit_char d)" by code_simp
  then show ?thesis using show_nat_digit [of _ n] by (fastforce simp: list_all_iff)
qed

lemma digits_of_head: "2 \<le> b \<Longrightarrow> 0 < n \<Longrightarrow> hd (digits_of b n) \<noteq> 0"
proof (induction b n rule: digits_of.induct)
  case (1 b n)
  show ?case
  proof (cases "n div b = 0")
    case True
    with 1 show ?thesis by (auto simp: digits_of_step div_eq_0_iff)
  next
    case False
    with 1 have "hd (digits_of b (n div b)) \<noteq> 0" by simp
    moreover have "digits_of b n = digits_of b (n div b) @ [n mod b]" by (rule digits_of_step) (use 1 in simp_all)
    ultimately show ?thesis using 1 False by (simp add: digits_of_nonempty)
  qed
qed

lemma show_nat_canonical:
  "show_nat n \<noteq> []" "show_nat n \<noteq> ''0'' \<Longrightarrow> List.take 1 (show_nat n) \<noteq> ''0''"
proof -
  have pos: "\<exists>d ds. digits_of 10 n = d # ds \<and> 0 < d \<and> d < 10" if "0 < n"
    using that digits_of_head [of 10 n] digits_of_nonempty [of n 10] digits_of_bound [of 10 _ n]
    by (cases "digits_of 10 n") auto
  have "\<forall>d \<in> set [1..<10]. digit_char d \<noteq> CHR ''0''" by code_simp
  then have dc: "digit_char d \<noteq> CHR ''0''" if "0 < d" "d < 10" for d using that by auto
  show "show_nat n \<noteq> []" using pos by (cases "n = 0") (auto simp: show_nat_def)
  show "show_nat n \<noteq> ''0'' \<Longrightarrow> List.take 1 (show_nat n) \<noteq> ''0''"
    using pos dc by (cases "n = 0") (auto simp: show_nat_def)
qed

text \<open>What follows a value in a document: nothing, or a separator.\<close>

definition ends :: "string \<Rightarrow> bool" where
  "ends r \<longleftrightarrow> r = [] \<or> hd r \<in> {CHR '','', CHR '']'', CHR ''}''}"

lemma ends_simps [simp]: "ends []" "ends (CHR '','' # r)" "ends (CHR '']'' # r)" "ends (CHR ''}'' # r)"
  by (simp_all add: ends_def)

lemma takeWhile_digits:
  assumes "ends r"
  shows "takeWhile is_digit (show_nat n @ r) = show_nat n" "dropWhile is_digit (show_nat n @ r) = r"
proof -
  have "\<not> is_digit (CHR '','')" "\<not> is_digit (CHR '']'')" "\<not> is_digit (CHR ''}'')" by code_simp+
  then have r: "takeWhile is_digit r = []" "dropWhile is_digit r = r"
    using assms by (cases r; auto simp: ends_def)+
  from show_nat_digits [of n] show "takeWhile is_digit (show_nat n @ r) = show_nat n"
    "dropWhile is_digit (show_nat n @ r) = r"
    by (simp_all add: list_all_iff takeWhile_append dropWhile_append r)
qed

lemma read_number_show:
  assumes "ends r"
  shows "read_number (show_int i @ r) = Some (JInt i, r)"
proof -
  have "List.take 1 (show_nat n @ r) \<noteq> ''-''" for n
  proof -
    have "\<not> is_digit (CHR ''-'')" by code_simp
    with show_nat_digits [of n] show_nat_canonical(1) [of n] show ?thesis
      by (cases "show_nat n") auto
  qed
  moreover have "List.take 1 r \<notin> {''.'', ''e'', ''E''}"
    using assms by (cases r) (auto simp: ends_def)
  moreover have "show_nat n \<noteq> [] \<and> \<not> (show_nat n \<noteq> ''0'' \<and> List.take 1 (show_nat n) = ''0'')" for n
    using show_nat_canonical by blast
  ultimately show ?thesis
    by (simp add: read_number_def show_int_def Let_def takeWhile_digits [OF assms])
qed

text \<open>The first character of a document tells what it is.\<close>

lemma show_int_head: "\<exists>c s. show_int i = c # s \<and> (c = CHR ''-'' \<or> is_digit c)"
  using show_nat_digits [of "nat i"] show_nat_canonical(1) [of "nat i"]
  by (cases "show_nat (nat i)") (auto simp: show_int_def)

lemma dumps_head:
  "plain j \<Longrightarrow> \<exists>c s. dumps fl j = c # s \<and> \<not> is_space c \<and> c \<noteq> CHR '']''"
proof (cases j)
  case (JInt i)
  have "\<not> is_digit (CHR '' '')" "\<not> is_digit (CHR 0x09)" "\<not> is_digit (CHR 0x0A)" "\<not> is_digit (CHR 0x0D)"
    "\<not> is_digit (CHR '']'')" by code_simp+
  with JInt show_int_head [of i] show ?thesis by (auto simp: is_space_def)
qed (auto simp: show_json_string_def is_space_def)

lemma skip_dumps: "plain j \<Longrightarrow> skip_space (dumps fl j @ r) = dumps fl j @ r"
  using dumps_head [of j fl] by auto

section \<open>The round trip\<close>

lemma read_value_space: "read_value n (CHR '' '' # s) = read_value n s"
  by (cases n) (simp_all add: is_space_def)

lemma read_members_space: "read_members n (CHR '' '' # s) = read_members n s"
  by (cases n) (simp_all add: is_space_def)

lemma read_items_space: "read_items n (CHR '' '' # s) = read_items n s"
  by (cases n) (simp_all add: read_value_space)

lemma read_items_dumps:
  assumes "xs \<noteq> []" "sum_list (map (\<lambda>x. Suc (fuel x)) xs) \<le> n"
    and "\<And>x n r. x \<in> set xs \<Longrightarrow> fuel x \<le> n \<Longrightarrow> ends r \<Longrightarrow> read_value n (dumps fl x @ r) = Some (x, r)"
  shows "read_items n (separated (map (dumps fl) xs) @ CHR '']'' # r) = Some (xs, r)"
  using assms
proof (induction xs arbitrary: n)
  case (Cons x xs)
  then obtain m where n: "n = Suc m" by (cases n) auto
  have x: "read_value m (dumps fl x @ r') = Some (x, r')" if "ends r'" for r'
    using Cons.prems(2) that by (intro Cons.prems(3)) (auto simp: n)
  show ?case
  proof (cases xs)
    case Nil
    then show ?thesis by (simp add: n x is_space_def)
  next
    case (Cons y ys)
    have "read_items m (separated (map (dumps fl) xs) @ CHR '']'' # r) = Some (xs, r)"
      using Cons.prems Cons by (intro Cons.IH) (auto simp: n)
    with Cons show ?thesis by (simp add: n x is_space_def read_items_space)
  qed
qed simp

lemma read_members_dumps:
  assumes "kvs \<noteq> []" "sum_list (map (\<lambda>(_, v). Suc (fuel v)) kvs) \<le> n"
    and "\<And>k v n r. (k, v) \<in> set kvs \<Longrightarrow> fuel v \<le> n \<Longrightarrow> ends r \<Longrightarrow> read_value n (dumps fl v @ r) = Some (v, r)"
  shows "read_members n (separated (map (\<lambda>(k, v). show_json_string k @ '': '' @ dumps fl v) kvs)
      @ CHR ''}'' # r) = Some (kvs, r)"
  using assms
proof (induction kvs arbitrary: n)
  case (Cons kv kvs)
  obtain k v where kv: "kv = (k, v)" by (cases kv)
  from Cons.prems(2) obtain m where n: "n = Suc m" by (cases n) (auto simp: kv)
  have v: "read_value m (dumps fl v @ r') = Some (v, r')" if "ends r'" for r'
    using Cons.prems(2) that by (intro Cons.prems(3)) (auto simp: n kv)
  have q: "show_json_string k @ s = CHR 0x22 # (List.drop 1 (show_json_string k) @ s)" for s
    by (simp add: show_json_string_def)
  show ?case
  proof (cases kvs)
    case Nil
    then show ?thesis
      using read_string_show [of k] by (simp add: n v is_space_def kv q read_value_space)
  next
    case (Cons y ys)
    have "read_members m (separated (map (\<lambda>(k, v). show_json_string k @ '': '' @ dumps fl v) kvs)
        @ CHR ''}'' # r) = Some (kvs, r)"
      using Cons.prems Cons by (intro Cons.IH) (auto simp: n kv)
    with Cons show ?thesis
      using read_string_show [of k]
      by (cases y) (simp add: n v is_space_def kv q read_value_space read_members_space)
  qed
qed simp

lemma dict_of_distinct: "distinct (map fst kvs) \<Longrightarrow> dict_of kvs = kvs"
proof -
  have "distinct (map fst (m @ kvs)) \<Longrightarrow> fold (\<lambda>(k, v). AList.update k v) kvs m = m @ kvs" for m
  proof (induction kvs arbitrary: m)
    case (Cons kv kvs)
    obtain k v where kv: "kv = (k, v)" by (cases kv)
    have "AList.update k v m = m @ [(k, v)]" if "k \<notin> fst ` set m" for k and v :: json
      using that by (induction m) auto
    with Cons show ?case by (simp add: kv)
  qed simp
  from this [of "[]"] show "distinct (map fst kvs) \<Longrightarrow> dict_of kvs = kvs" by (simp add: dict_of_def)
qed

lemma take1_skip_head:
  "plain j \<Longrightarrow> List.take 1 (skip_space (dumps fl j @ r)) \<noteq> '']''"
  using dumps_head [of j fl] by auto

lemma separated_head: "xs \<noteq> [] \<Longrightarrow> \<exists>s. separated xs = hd xs @ s"
  by (cases xs rule: separated.cases) auto

lemma read_value_dumps:
  "plain j \<Longrightarrow> fuel j \<le> n \<Longrightarrow> ends r \<Longrightarrow> read_value n (dumps fl j @ r) = Some (j, r)"
proof (induction j arbitrary: n r)
  case (JInt i)
  then obtain m where n: "n = Suc m" by (cases n) auto
  have "\<not> is_digit (CHR 0x22)" "\<not> is_digit (CHR ''['')" "\<not> is_digit (CHR ''{'')" "\<not> is_digit (CHR ''n'')"
    "\<not> is_digit (CHR ''t'')" "\<not> is_digit (CHR ''f'')" by code_simp+
  with show_int_head [of i] obtain c s where c: "show_int i = c # s"
    "c \<notin> {CHR 0x22, CHR ''['', CHR ''{'', CHR ''n'', CHR ''t'', CHR ''f''}" by auto
  have "skip_space (show_int i @ r) = show_int i @ r" using skip_dumps [of "JInt i" fl r] by simp
  with c read_number_show [OF JInt.prems(3), of i] show ?case by (simp add: n)
next
  case (JStr x)
  then obtain m where n: "n = Suc m" by (cases n) auto
  have q: "show_json_string x @ r = CHR 0x22 # (List.drop 1 (show_json_string x) @ r)"
    by (simp add: show_json_string_def)
  show ?case unfolding dumps.simps q using read_string_show [of x r] by (simp add: n is_space_def)
next
  case (JList xs)
  then obtain m where n: "n = Suc m" by (cases n) auto
  show ?case
  proof (cases "xs = []")
    case True
    then show ?thesis by (simp add: n is_space_def)
  next
    case False
    let ?t = "separated (map (dumps fl) xs) @ CHR '']'' # r"
    have "List.take 1 (skip_space ?t) \<noteq> '']''"
    proof -
      obtain s where "separated (map (dumps fl) xs) = dumps fl (hd xs) @ s"
        using separated_head [of "map (dumps fl) xs"] False by (auto simp: hd_map)
      moreover have "plain (hd xs)" using JList.prems(1) False by (simp add: list_all_iff)
      ultimately show ?thesis using take1_skip_head [of "hd xs" fl] by simp
    qed
    moreover have "read_items m ?t = Some (xs, r)"
      using JList False by (intro read_items_dumps) (auto simp: n list_all_iff)
    ultimately show ?thesis by (simp add: n is_space_def)
  qed
next
  case (JObj kvs)
  then obtain m where n: "n = Suc m" by (cases n) auto
  let ?show = "\<lambda>(k, v). show_json_string k @ '': '' @ dumps fl v"
  show ?case
  proof (cases "kvs = []")
    case True
    then show ?thesis by (simp add: n is_space_def)
  next
    case False
    let ?t = "separated (map ?show kvs) @ CHR ''}'' # r"
    have "List.take 1 (skip_space ?t) \<noteq> ''}''"
    proof -
      obtain s where "separated (map ?show kvs) = ?show (hd kvs) @ s"
        using separated_head [of "map ?show kvs"] False by (auto simp: hd_map)
      then show ?thesis by (simp add: show_json_string_def case_prod_beta is_space_def)
    qed
    moreover have "read_members m ?t = Some (kvs, r)"
      using JObj False by (intro read_members_dumps) (fastforce simp: n list_all_iff)+
    moreover have "dict_of kvs = kvs" using JObj.prems(1) by (simp add: dict_of_distinct)
    ultimately show ?thesis by (simp add: n is_space_def)
  qed
next
  case JNull
  then show ?case by (cases n) (simp_all add: is_space_def read_word_def)
next
  case (JBool b)
  then show ?case by (cases n; cases b) (simp_all add: is_space_def read_word_def)
qed simp_all

text \<open>The length of the text is enough fuel.\<close>

lemma length_separated: "sum_list (map length xs) \<le> length (separated xs)"
  by (induction xs rule: separated.induct) simp_all

lemma length_separated_more:
  "xs \<noteq> [] \<Longrightarrow> sum_list (map length xs) + (length xs - 1) \<le> length (separated xs)"
  by (induction xs rule: separated.induct) auto

lemma sum_fuel_le:
  assumes "\<And>x. x \<in> set xs \<Longrightarrow> f x \<le> (g x :: nat)"
  shows "sum_list (map (\<lambda>x. Suc (f x)) xs) \<le> sum_list (map g xs) + length xs"
  using assms
proof (induction xs)
  case (Cons x xs)
  have "f x \<le> g x" using Cons.prems by simp
  with Cons show ?case by fastforce
qed simp

lemma fuel_le_length: "plain j \<Longrightarrow> fuel j \<le> length (dumps fl j)"
proof (induction j)
  case (JInt i)
  then show ?case using show_int_head [of i] by auto
next
  case (JList xs)
  show ?case
  proof (cases "xs = []")
    case False
    have "sum_list (map (\<lambda>x. Suc (fuel x)) xs) \<le> sum_list (map (length \<circ> dumps fl) xs) + length xs"
      using JList by (intro sum_fuel_le) (auto simp: list_all_iff)
    with length_separated_more [of "map (dumps fl) xs"] False show ?thesis
      by (cases xs) (auto simp: comp_def)
  qed simp
next
  case (JObj kvs)
  let ?show = "\<lambda>(k, v). show_json_string k @ '': '' @ dumps fl v"
  show ?case
  proof (cases "kvs = []")
    case False
    have "sum_list (map (\<lambda>(_, v). Suc (fuel v)) kvs) \<le> sum_list (map (length \<circ> ?show) kvs) + length kvs"
      unfolding case_prod_unfold
      using JObj by (intro sum_fuel_le) (force simp: list_all_iff)
    with length_separated_more [of "map ?show kvs"] False show ?thesis
      by (cases kvs) (auto simp: comp_def)
  qed simp
qed (auto simp: show_json_string_def)

lemma loads_dumps: "plain j \<Longrightarrow> loads (dumps fl j) = Some j"
  using read_value_dumps [of j "length (dumps fl j)" "[]" fl] fuel_le_length [of j fl]
  by (simp add: loads_def)

end
