(* ===== verification/Client_Files.thy ===== *)
theory Client_Files
  imports Client_Launch Json_Read "HOL-Library.Word"
begin

text \<open>
  The jobs that move and delete the files of recordings (\<open>src/job_client/jobs/archive.py\<close>):
  \<open>DeleteFiles\<close>, \<open>ExportTake\<close> and \<open>CopyFiles\<close> with its copy loop and its progress
  messages. The disk maps locations to contents; the operating system, which may refuse anything, is an
  argument, and so is the clock, one reading after the other. Log lines are left out.
\<close>

section \<open>The disk and the operating system\<close>

type_synonym bytes = "8 word list"

record disk =
  dk_files :: "string \<Rightarrow> bytes option"
  dk_folders :: "string \<Rightarrow> bool"

text \<open>
  \<open>os_locate\<close>: where a path leads; two paths may lead to the same place. The others say what
  the system allows: to open a file, to create one, to store a content, to remove a
  file, and the folders that \<open>os.makedirs\<close> leaves behind for a path.
\<close>

record os =
  os_locate :: "string \<Rightarrow> string"
  os_opens :: "string \<Rightarrow> bool"
  os_creates :: "string \<Rightarrow> bool"
  os_stores :: "string \<Rightarrow> bytes \<Rightarrow> bool"
  os_removes :: "string \<Rightarrow> bool"
  os_makes :: "string \<Rightarrow> string list"

abbreviation os_error :: py_exn where
  "os_error \<equiv> PyException ''OSError''"

definition exists_path :: "os \<Rightarrow> string \<Rightarrow> disk \<Rightarrow> bool" where
  "exists_path os p dk \<longleftrightarrow> dk_files dk (os_locate os p) \<noteq> None \<or> dk_folders dk (os_locate os p)"

definition file_size :: "os \<Rightarrow> string \<Rightarrow> disk \<Rightarrow> nat option" where
  "file_size os p dk = map_option length (dk_files dk (os_locate os p))"

definition os_remove :: "os \<Rightarrow> string \<Rightarrow> disk \<Rightarrow> disk \<times> py_exn option" where
  "os_remove os p dk =
     (if dk_files dk (os_locate os p) \<noteq> None \<and> os_removes os (os_locate os p)
      then (dk\<lparr>dk_files := (dk_files dk)(os_locate os p := None)\<rparr>, None)
      else (dk, Some os_error))"

definition os_makedirs :: "os \<Rightarrow> string \<Rightarrow> disk \<Rightarrow> disk" where
  "os_makedirs os p dk =
     (if exists_path os p dk then dk
      else dk\<lparr>dk_folders := (\<lambda>q. dk_folders dk q \<or> q \<in> set (os_makes os p) \<and> dk_files dk q = None)\<rparr>)"

text \<open>The parts of \<open>os.path\<close> that the jobs use, in the flavours of Windows and of the rest.\<close>

datatype flavour = Posix | Nt

definition is_sep :: "flavour \<Rightarrow> char \<Rightarrow> bool" where
  "is_sep w c \<longleftrightarrow> c = CHR ''/'' \<or> (w = Nt \<and> c = CHR 0x5C)"

text \<open>\<open>os.path.split(p)[1]\<close>; on Windows a drive letter is not part of the name.\<close>

definition os_path_tail :: "flavour \<Rightarrow> string \<Rightarrow> string" where
  "os_path_tail w p =
     (let q = (if w = Nt \<and> List.take 1 (List.drop 1 p) = '':'' then List.drop 2 p else p)
      in rev (takeWhile (\<lambda>c. \<not> is_sep w c) (rev q)))"

text \<open>\<open>os.path.join(p, name)\<close> for a name without separators.\<close>

definition os_path_join :: "flavour \<Rightarrow> string \<Rightarrow> string \<Rightarrow> string" where
  "os_path_join w p name =
     (if p = [] \<or> is_sep w (last p) \<or> (w = Nt \<and> length p = 2 \<and> last p = CHR '':'') then p @ name
      else p @ (if w = Nt then [CHR 0x5C] else ''/'') @ name)"

section \<open>Copying a file\<close>

text \<open>
  The loop of \<open>safeCopyFile\<close>. A read returns the next \<open>block_size\<close> bytes, and none at the
  end of the file. The loop goes on as long as what was read differs from the text \<open>""\<close>: Python 2 has
  no other kind of string and stops at the end of the file, in Python 3 bytes are never equal to a text.
  The loop may run for ever, and not returning is \<open>None\<close>.
\<close>

partial_function (option) copy_chunks ::
    "bool \<Rightarrow> os \<Rightarrow> (nat \<Rightarrow> 'c \<Rightarrow> 'c \<times> py_exn option) option \<Rightarrow> nat \<Rightarrow> string \<Rightarrow> bytes \<Rightarrow> 'c \<times> disk
      \<Rightarrow> (('c \<times> disk) \<times> py_exn option) option" where
  "copy_chunks python3 os callback block_size dest rest s =
     (let arr = List.take block_size rest in
      if arr = [] \<and> \<not> python3 then Some (s, None)
      else
        (let (c, dk) = s;
             stored = (case dk_files dk (os_locate os dest) of None \<Rightarrow> [] | Some b \<Rightarrow> b) @ arr in
         if \<not> os_stores os (os_locate os dest) stored then Some (s, Some os_error)
         else
           (let dk1 = dk\<lparr>dk_files := (dk_files dk)(os_locate os dest := Some stored)\<rparr>;
                (c1, x) = (case callback of None \<Rightarrow> (c, None) | Some f \<Rightarrow> f (length arr) c) in
            if x \<noteq> None then Some ((c1, dk1), x)
            else copy_chunks python3 os callback block_size dest (List.drop block_size rest) (c1, dk1))))"

definition safeCopyFile ::
    "bool \<Rightarrow> os \<Rightarrow> string \<Rightarrow> string \<Rightarrow> nat \<Rightarrow> (nat \<Rightarrow> 'c \<Rightarrow> 'c \<times> py_exn option) option \<Rightarrow> 'c \<times> disk
      \<Rightarrow> (('c \<times> disk) \<times> py_exn option) option" where
  "safeCopyFile python3 os src dest block_size callback s =
     (let (c, dk) = s;
          (dk1, x) = (if exists_path os dest dk then os_remove os dest dk else (dk, None)) in
      if x \<noteq> None then Some ((c, dk1), x)
      else
        (case dk_files dk1 (os_locate os src) of
           None \<Rightarrow> Some ((c, dk1), Some os_error)
         | Some content \<Rightarrow>
             if \<not> os_opens os (os_locate os src) \<or> \<not> os_creates os (os_locate os dest)
                \<or> dk_folders dk1 (os_locate os dest)
             then Some ((c, dk1), Some os_error)
             else copy_chunks python3 os callback block_size dest content
                    (c, dk1\<lparr>dk_files := (dk_files dk1)(os_locate os dest := Some [])\<rparr>)))"

section \<open>Progress messages\<close>

definition nice_time :: "rat \<Rightarrow> string" where
  "nice_time s =
     (let hs = floor (s / 3600);
          ms = floor ((s - 3600 * of_int hs) / 60);
          ss = floor (s - 3600 * of_int hs - 60 * of_int ms) in
      if hs > 0 then show_int hs @ '' hours '' @ show_int ms @ '' minutes''
      else if ms > 0 then show_int ms @ '' minutes '' @ show_int ss @ '' seconds''
      else show_int ss @ '' seconds'')"

definition nice_size :: "nat \<Rightarrow> string" where
  "nice_size s =
     (if s < 1024 then show_nat s @ '' Bytes''
      else let k = s div 1024 in if k < 1024 then show_nat k @ '' kB''
      else let m = k div 1024 in if m < 1024 then show_nat m @ '' MB''
      else let g = m div 1024 in if g < 1024 then show_nat g @ '' GB''
      else show_nat (g div 1024) @ '' TB'')"

text \<open>\<open>pg_ticks\<close> counts the readings of the clock, \<open>pg_sent\<close> are the messages on the pipe.\<close>

record progress =
  pg_files :: nat
  pg_size :: nat
  pg_seen :: nat
  pg_start :: rat
  pg_index :: nat
  pg_ticks :: nat
  pg_sent :: "string list"

definition new_progress :: "os \<Rightarrow> (nat \<Rightarrow> rat) \<Rightarrow> string list \<Rightarrow> disk \<Rightarrow> progress" where
  "new_progress os clock srcs dk =
     \<lparr>pg_files = length srcs,
      pg_size = sum_list (map (\<lambda>f. case file_size os f dk of None \<Rightarrow> 0 | Some n \<Rightarrow> n) srcs),
      pg_seen = 0, pg_start = clock 0, pg_index = 0, pg_ticks = 1, pg_sent = []\<rparr>"

definition next_file :: "progress \<Rightarrow> progress" where
  "next_file pg = pg\<lparr>pg_index := pg_index pg + 1\<rparr>"

text \<open>The speed is only computed when the clock has moved; otherwise its name is unbound below.\<close>

definition show_progress :: "(nat \<Rightarrow> rat) \<Rightarrow> nat \<Rightarrow> progress \<Rightarrow> progress \<times> py_exn option" where
  "show_progress clock bytes_amount pg =
     (let seen = pg_seen pg + bytes_amount;
          percent = (if pg_size pg > 0 then 100 * of_nat seen / of_nat (pg_size pg) else 0);
          elapsed = clock (pg_ticks pg) - pg_start pg;
          pg1 = pg\<lparr>pg_seen := seen, pg_ticks := pg_ticks pg + 1\<rparr> in
      if elapsed > 0 then
        (let copy_speed = of_nat seen / elapsed;
             eta = (if copy_speed > 0 \<and> seen > 0 \<and> seen < pg_size pg
                    then nice_time (of_nat (pg_size pg - seen) / copy_speed) @ '' remaining'' else [])
         in (pg1\<lparr>pg_sent := pg_sent pg @ [''Copying ['' @ show_int (floor (percent :: rat)) @ ''%] File '' @
                show_nat (pg_index pg + 1) @ '' of '' @ show_nat (pg_files pg) @ '' ('' @
                nice_size (nat (floor copy_speed)) @ ''/s) '' @ eta]\<rparr>, None))
      else (pg1, Some (NameError ''copy_speed'')))"

section \<open>The job CopyFiles\<close>

record copy_params =
  cp_file_list :: "(string \<times> string) list option"
  cp_delete :: bool

text \<open>The machine the job runs on.\<close>

record host =
  ho_python3 :: bool
  ho_flavour :: flavour
  ho_os :: os
  ho_clock :: "nat \<Rightarrow> rat"

definition dest_file :: "host \<Rightarrow> string \<Rightarrow> string \<Rightarrow> string" where
  "dest_file h src dest = os_path_join (ho_flavour h) dest (os_path_tail (ho_flavour h) src)"

definition copy_one ::
    "host \<Rightarrow> string \<times> string \<Rightarrow> progress \<times> disk \<Rightarrow> ((progress \<times> disk) \<times> py_exn option) option" where
  "copy_one h t s =
     (let (src, dest) = t; (pg, dk) = s; os = ho_os h;
          dk1 = os_makedirs os dest dk; file = dest_file h src dest in
      if \<not> exists_path os dest dk1 then Some ((pg, dk1), Some (PyException ''Cannot create folder''))
      else if exists_path os file dk1 \<and> \<not> exists_path os src dk1 then Some ((next_file pg, dk1), None)
      else if \<not> exists_path os src dk1 then Some ((pg, dk1), Some (PyException ''Source file does not exist''))
      else
        (case safeCopyFile (ho_python3 h) os src file (64 * 1024 * 1024) (Some (show_progress (ho_clock h))) (pg, dk1) of
           None \<Rightarrow> None
         | Some ((pg2, dk2), Some x) \<Rightarrow> Some ((pg2, dk2), Some x)
         | Some ((pg2, dk2), None) \<Rightarrow>
             if \<not> exists_path os file dk2 then Some ((pg2, dk2), Some (PyException ''Destination file does not exist''))
             else if file_size os file dk2 \<noteq> file_size os src dk1
             then Some ((pg2, dk2), Some (PyException ''File size mismatch''))
             else Some ((next_file pg2, dk2), None)))"

fun copy_all ::
    "host \<Rightarrow> (string \<times> string) list \<Rightarrow> progress \<times> disk \<Rightarrow> ((progress \<times> disk) \<times> py_exn option) option" where
  "copy_all h [] s = Some (s, None)"
| "copy_all h (t # ts) s =
     (case copy_one h t s of
        None \<Rightarrow> None
      | Some (s', Some x) \<Rightarrow> Some (s', Some x)
      | Some (s', None) \<Rightarrow> copy_all h ts s')"

text \<open>A file that cannot be deleted is left, with a line in the log.\<close>

definition delete_files :: "os \<Rightarrow> string list \<Rightarrow> disk \<Rightarrow> disk" where
  "delete_files os = fold (\<lambda>f dk. if exists_path os f dk then fst (os_remove os f dk) else dk)"

definition CopyFiles ::
    "host \<Rightarrow> copy_params \<Rightarrow> disk \<Rightarrow> ((string list \<times> disk) \<times> py_exn option) option" where
  "CopyFiles h params dk =
     (case cp_file_list params of
        None \<Rightarrow> Some (([], dk), None)
      | Some ts \<Rightarrow>
          (case copy_all h ts (new_progress (ho_os h) (ho_clock h) (map fst ts) dk, dk) of
             None \<Rightarrow> None
           | Some ((pg, dk1), Some x) \<Rightarrow> Some ((pg_sent pg, dk1), Some x)
           | Some ((pg, dk1), None) \<Rightarrow>
               Some ((pg_sent pg, if cp_delete params then delete_files (ho_os h) (map fst ts) dk1 else dk1), None)))"

section \<open>The jobs DeleteFiles and ExportTake\<close>

definition DeleteFiles :: "os \<Rightarrow> string list option \<Rightarrow> disk \<Rightarrow> string list \<times> disk" where
  "DeleteFiles os files dk =
     (case files of
        None \<Rightarrow> ([], dk)
      | Some fs \<Rightarrow> fold (\<lambda>f (sent, dk). if exists_path os f dk
             then (sent @ [''Delete '' @ f], fst (os_remove os f dk)) else (sent, dk)) fs ([], dk))"

text \<open>
  \<open>ExportTake\<close> launches one \<open>CopyFiles\<close> job for each machine. The parameters are the dictionary
  that was read; of other values than dictionaries, iterating fails, or finds no machine.
\<close>

definition copy_job_params :: "json \<Rightarrow> json \<Rightarrow> json" where
  "copy_job_params file_list base = JObj
     [(''file_list'', file_list), (''root_export_path'', base), (''delete_source_files'', JBool True)]"

definition copy_launch :: "json \<Rightarrow> string \<times> json \<Rightarrow> launch" where
  "copy_launch base nf = (new_launch ''jobs.archive.CopyFiles'')
     \<lparr>ln_params := to_json (copy_job_params (snd nf) base), ln_node_name := Some (fst nf), ln_req_gpu := False\<rparr>"

definition ExportTake :: "(string \<times> json) list \<Rightarrow> py_exn + launch list" where
  "ExportTake params =
     (case map_of params ''root_export_path'' of
        None \<Rightarrow> Inl (PyException ''Error in parameters, \"root_export_path\" not found'')
      | Some base \<Rightarrow>
          (case map_of params ''nodes'' of
             None \<Rightarrow> Inl (PyException ''Error in parameters, \"nodes\" not found'')
           | Some (JObj nodes) \<Rightarrow> Inr (map (copy_launch base) nodes)
           | Some (JList []) \<Rightarrow> Inr []
           | Some (JStr []) \<Rightarrow> Inr []
           | Some _ \<Rightarrow> Inl TypeError))"

definition run_ExportTake :: "env \<Rightarrow> pk \<Rightarrow> (string \<times> json) list \<Rightarrow> db \<Rightarrow> db \<times> (py_exn + job_end)" where
  "run_ExportTake e job_id params d =
     (case ExportTake params of
        Inl x \<Rightarrow> (d, Inl x)
      | Inr child_to_launch \<Rightarrow> yieldToChildren e job_id child_to_launch d)"

text \<open>The truth of a value in a condition.\<close>

definition json_true :: "json \<Rightarrow> bool" where
  "json_true j \<longleftrightarrow> j \<notin> {JNull, JBool False, JInt 0, JFloat 0, JStr [], JList [], JObj []}"

text \<open>The dictionary of a \<open>CopyFiles\<close> job, when its file list is a list of pairs of texts.\<close>

fun read_pair :: "json \<Rightarrow> (string \<times> string) option" where
  "read_pair (JList [JStr src, JStr dest]) = Some (src, dest)"
| "read_pair _ = None"

definition read_copy_params :: "(string \<times> json) list \<Rightarrow> copy_params option" where
  "read_copy_params params =
     (let del = (case map_of params ''delete_source_files'' of None \<Rightarrow> False | Some v \<Rightarrow> json_true v) in
      case map_of params ''file_list'' of
        None \<Rightarrow> Some \<lparr>cp_file_list = None, cp_delete = del\<rparr>
      | Some (JList xs) \<Rightarrow>
          (if list_all (\<lambda>x. read_pair x \<noteq> None) xs
           then Some \<lparr>cp_file_list = Some (map (the \<circ> read_pair) xs), cp_delete = del\<rparr> else None)
      | Some _ \<Rightarrow> None)"

end
