(* ===== verification/Client_Copy.thy ===== *)
theory Client_Copy
  imports Client_Files Archive_Correct
begin

text \<open>
  What makes the jobs of the archive correct: the copy loop ends and copies every byte, with Python 2;
  a copying job never loses a file, whatever the operating system refuses, as long as its files do not
  collide; and what an export lists for a machine is what the job on that machine copies.
\<close>

section \<open>The copy loop\<close>

lemma copy_chunks_spec:
  assumes "0 < n" "dk_files dk (os_locate os dest) = Some old"
  shows "\<exists>c' b x. copy_chunks False os cb n dest rest (c, dk) =
      Some ((c', dk\<lparr>dk_files := (dk_files dk)(os_locate os dest \<mapsto> b)\<rparr>), x) \<and>
    (x = None \<longrightarrow> b = old @ rest)"
  using assms
proof (induction "length rest" arbitrary: rest c dk old rule: less_induct)
  case less
  let ?l = "os_locate os dest" and ?arr = "List.take n rest"
  let ?dk = "dk\<lparr>dk_files := (dk_files dk)(?l \<mapsto> old @ ?arr)\<rparr>"
  obtain c1 y where cb: "(case cb of None \<Rightarrow> (c, None) | Some f \<Rightarrow> f (length ?arr) c) = (c1, y)"
    by (cases "case cb of None \<Rightarrow> (c, None) | Some f \<Rightarrow> f (length ?arr) c")
  have same: "dk\<lparr>dk_files := (dk_files dk)(?l \<mapsto> old)\<rparr> = dk"
    using less.prems(2) by (simp add: map_upd_triv)
  consider "rest = []" | "rest \<noteq> []" "\<not> os_stores os ?l (old @ ?arr)"
    | "rest \<noteq> []" "os_stores os ?l (old @ ?arr)" "y \<noteq> None"
    | "rest \<noteq> []" "os_stores os ?l (old @ ?arr)" "y = None" by blast
  then show ?case
  proof cases
    case 1
    then show ?thesis using same by (intro exI [of _ c] exI [of _ old]) (simp add: copy_chunks.simps)
  next
    case 2
    then show ?thesis using same less.prems
      by (intro exI [of _ c] exI [of _ old]) (simp add: copy_chunks.simps Let_def)
  next
    case 3
    then show ?thesis using less.prems cb
      by (intro exI [of _ c1] exI [of _ "old @ ?arr"] exI [of _ y]) (auto simp: copy_chunks.simps Let_def)
  next
    case 4
    then have step: "copy_chunks False os cb n dest rest (c, dk) =
        copy_chunks False os cb n dest (List.drop n rest) (c1, ?dk)"
      using less.prems cb by (subst copy_chunks.simps) (simp add: Let_def)
    have "\<exists>c' b x. copy_chunks False os cb n dest (List.drop n rest) (c1, ?dk) =
        Some ((c', ?dk\<lparr>dk_files := (dk_files ?dk)(?l \<mapsto> b)\<rparr>), x) \<and>
        (x = None \<longrightarrow> b = (old @ ?arr) @ List.drop n rest)"
      using 4 less.prems(1) by (intro less.hyps) auto
    then show ?thesis by (simp add: step)
  qed
qed

lemma safeCopyFile_spec:
  assumes n: "0 < n"
  shows "\<exists>c' dk' x. safeCopyFile False os src dest n cb (c, dk) = Some ((c', dk'), x) \<and>
    dk_folders dk' = dk_folders dk \<and>
    (\<forall>l. l \<noteq> os_locate os dest \<longrightarrow> dk_files dk' l = dk_files dk l) \<and>
    (x = None \<longrightarrow> os_locate os src \<noteq> os_locate os dest \<and> dk_files dk (os_locate os src) \<noteq> None \<and>
       dk_files dk' (os_locate os dest) = dk_files dk (os_locate os src))"
proof -
  let ?l = "os_locate os dest" and ?s = "os_locate os src"
  obtain dk1 x where rm: "(if exists_path os dest dk then os_remove os dest dk else (dk, None)) = (dk1, x)"
    by (cases "if exists_path os dest dk then os_remove os dest dk else (dk, None)")
  have dk1: "dk_folders dk1 = dk_folders dk" "\<forall>l. l \<noteq> ?l \<longrightarrow> dk_files dk1 l = dk_files dk l"
    "x = None \<longrightarrow> dk_files dk1 ?l = None"
    using rm by (auto simp: exists_path_def os_remove_def split: if_splits)
  show ?thesis
  proof (cases "x = None \<and> dk_files dk1 ?s \<noteq> None \<and> os_opens os ?s \<and> os_creates os ?l \<and> \<not> dk_folders dk1 ?l")
    case False
    then have "\<exists>y. y \<noteq> None \<and> safeCopyFile False os src dest n cb (c, dk) = Some ((c, dk1), y)"
      by (cases x; cases "dk_files dk1 ?s") (auto simp: safeCopyFile_def rm)
    with dk1 show ?thesis by fastforce
  next
    case True
    then obtain content where g: "dk_files dk1 ?s = Some content" by auto
    let ?dk2 = "dk1\<lparr>dk_files := (dk_files dk1)(?l := Some [])\<rparr>"
    obtain c' b y where run: "copy_chunks False os cb n dest content (c, ?dk2) =
        Some ((c', ?dk2\<lparr>dk_files := (dk_files ?dk2)(?l \<mapsto> b)\<rparr>), y)" "y = None \<longrightarrow> b = content"
      using copy_chunks_spec [OF n, of ?dk2 os dest "[]" cb content c] by auto
    have ne: "?s \<noteq> ?l" using True g dk1(3) by auto
    with True g rm run(1) have "safeCopyFile False os src dest n cb (c, dk) =
        Some ((c', ?dk2\<lparr>dk_files := (dk_files ?dk2)(?l \<mapsto> b)\<rparr>), y)"
      by (simp add: safeCopyFile_def)
    with ne dk1 g run(2) show ?thesis by auto
  qed
qed

text \<open>The same loop with Python 3: nothing ends it but an exception.\<close>

lemma copy_chunks_forever:
  assumes stores: "\<forall>b. os_stores os (os_locate os dest) b" and cb: "\<forall>f \<in> set_option cb. \<forall>n c. snd (f n c) = None"
  shows "copy_chunks True os cb n dest rest s = None"
proof -
  have "False" if run: "copy_chunks True os cb n dest rest s = Some r" for r
  proof -
    let ?P = "\<lambda>py os' cb' n' dest' rest s r. \<not> (py \<and> os' = os \<and> cb' = cb \<and> dest' = dest)"
    have "?P True os cb n dest rest s r"
    proof (rule copy_chunks.raw_induct [where P = ?P, OF _ run])
      fix rec py os' cb' n' dest' rest s r
      assume IH: "\<And>py os' cb' n' dest' rest s r. rec py os' cb' n' dest' rest s = Some r \<Longrightarrow> ?P py os' cb' n' dest' rest s r"
        and body: "(let arr = List.take n' rest in
      if arr = [] \<and> \<not> py then Some (s, None)
      else
        (let (c, dk) = s;
             stored = (case dk_files dk (os_locate os' dest') of None \<Rightarrow> [] | Some b \<Rightarrow> b) @ arr in
         if \<not> os_stores os' (os_locate os' dest') stored then Some (s, Some os_error)
         else
           (let dk1 = dk\<lparr>dk_files := (dk_files dk)(os_locate os' dest' := Some stored)\<rparr>;
                (c1, x) = (case cb' of None \<Rightarrow> (c, None) | Some f \<Rightarrow> f (length arr) c) in
            if x \<noteq> None then Some ((c1, dk1), x)
            else rec py os' cb' n' dest' (List.drop n' rest) (c1, dk1)))) = Some r"
      show "?P py os' cb' n' dest' rest s r"
      proof
        assume eq: "py \<and> os' = os \<and> cb' = cb \<and> dest' = dest"
        obtain c dk where s: "s = (c, dk)" by (cases s)
        let ?arr = "List.take n' rest"
        obtain c1 where cb1: "(case cb of None \<Rightarrow> (c, None) | Some f \<Rightarrow> f (length ?arr) c) = (c1, None)"
          using cb by (cases cb) (auto simp: prod_eq_iff)
        from body eq stores cb1 have "\<exists>dk1. rec True os cb n' dest (List.drop n' rest) (c1, dk1) = Some r"
          by (auto simp: Let_def s)
        with IH show False by blast
      qed
    qed
    then show False by simp
  qed
  then show ?thesis by (cases "copy_chunks True os cb n dest rest s") auto
qed

text \<open>
  C18: with Python 2 the copy of a file ends, whatever the operating system and the
  callback do; it changes no file but the destination, and without an exception the destination holds the
  bytes of the source. With Python 3, the copy of a readable file to a place that accepts it never
  ends.
\<close>

theorem copy_loop_ends:
  assumes n: "0 < n"
  shows "(\<exists>c' dk' x. safeCopyFile False os src dest n cb (c, dk) = Some ((c', dk'), x) \<and>
      dk_folders dk' = dk_folders dk \<and>
      (\<forall>l. l \<noteq> os_locate os dest \<longrightarrow> dk_files dk' l = dk_files dk l) \<and>
      (x = None \<longrightarrow> dk_files dk (os_locate os src) \<noteq> None \<and>
         dk_files dk' (os_locate os dest) = dk_files dk (os_locate os src) \<and>
         dk_files dk' (os_locate os src) = dk_files dk (os_locate os src))) \<and>
    (dk_files dk (os_locate os src) \<noteq> None \<and> os_opens os (os_locate os src) \<and>
     os_locate os src \<noteq> os_locate os dest \<and> dk_files dk (os_locate os dest) = None \<and>
     \<not> dk_folders dk (os_locate os dest) \<and> os_creates os (os_locate os dest) \<and>
     (\<forall>b. os_stores os (os_locate os dest) b) \<and> (\<forall>f \<in> set_option cb. \<forall>n c. snd (f n c) = None) \<longrightarrow>
     safeCopyFile True os src dest n cb (c, dk) = None)"
proof (intro conjI impI)
  obtain c' dk' x where r: "safeCopyFile False os src dest n cb (c, dk) = Some ((c', dk'), x)"
    "dk_folders dk' = dk_folders dk" "\<forall>l. l \<noteq> os_locate os dest \<longrightarrow> dk_files dk' l = dk_files dk l"
    "x = None \<longrightarrow> os_locate os src \<noteq> os_locate os dest \<and> dk_files dk (os_locate os src) \<noteq> None \<and>
       dk_files dk' (os_locate os dest) = dk_files dk (os_locate os src)"
    using safeCopyFile_spec [OF n, of os src dest cb c dk] by (elim exE conjE) (rule that)
  then show "\<exists>c' dk' x. safeCopyFile False os src dest n cb (c, dk) = Some ((c', dk'), x) \<and>
      dk_folders dk' = dk_folders dk \<and>
      (\<forall>l. l \<noteq> os_locate os dest \<longrightarrow> dk_files dk' l = dk_files dk l) \<and>
      (x = None \<longrightarrow> dk_files dk (os_locate os src) \<noteq> None \<and>
         dk_files dk' (os_locate os dest) = dk_files dk (os_locate os src) \<and>
         dk_files dk' (os_locate os src) = dk_files dk (os_locate os src))"
    by (intro exI [of _ c'] exI [of _ dk'] exI [of _ x]) auto
next
  assume a: "dk_files dk (os_locate os src) \<noteq> None \<and> os_opens os (os_locate os src) \<and>
     os_locate os src \<noteq> os_locate os dest \<and> dk_files dk (os_locate os dest) = None \<and>
     \<not> dk_folders dk (os_locate os dest) \<and> os_creates os (os_locate os dest) \<and>
     (\<forall>b. os_stores os (os_locate os dest) b) \<and> (\<forall>f \<in> set_option cb. \<forall>n c. snd (f n c) = None)"
  then have "copy_chunks True os cb n dest rest s = None" for rest s
    by (intro copy_chunks_forever) auto
  with a show "safeCopyFile True os src dest n cb (c, dk) = None"
    by (auto simp: safeCopyFile_def exists_path_def)
qed

definition open_system :: os where
  "open_system = \<lparr>os_locate = id, os_opens = (\<lambda>_. True), os_creates = (\<lambda>_. True), os_stores = (\<lambda>_ _. True),
     os_removes = (\<lambda>_. True), os_makes = (\<lambda>p. [p])\<rparr>"

definition sample_disk :: disk where
  "sample_disk = \<lparr>dk_files = [''/rec/a.avi'' \<mapsto> [1, 2, 3, 4, 5], ''/rec/b.avi'' \<mapsto> [6]], dk_folders = (\<lambda>p. p = ''/rec'')\<rparr>"

lemma copy_loop_ends_witness:
  "(\<exists>c' dk' x. safeCopyFile False open_system ''/rec/a.avi'' ''/rec/c.avi'' 2 (Some (\<lambda>n c. (c + n, None))) (0, sample_disk)
      = Some ((c', dk'), x)) \<and>
   safeCopyFile True open_system ''/rec/a.avi'' ''/rec/c.avi'' 2 (Some (\<lambda>n c. (c + n, None))) (0, sample_disk) = None"
proof -
  note both = copy_loop_ends [of 2 open_system "''/rec/a.avi''" "''/rec/c.avi''" "Some (\<lambda>n c. (c + n, None))" 0 sample_disk]
  show ?thesis
  proof
    show "\<exists>c' dk' x. safeCopyFile False open_system ''/rec/a.avi'' ''/rec/c.avi'' 2 (Some (\<lambda>n c. (c + n, None)))
        (0, sample_disk) = Some ((c', dk'), x)"
      using both [THEN conjunct1] by auto
    show "safeCopyFile True open_system ''/rec/a.avi'' ''/rec/c.avi'' 2 (Some (\<lambda>n c. (c + n, None))) (0, sample_disk) = None"
      by (rule both [THEN conjunct2, rule_format]) (simp_all add: open_system_def sample_disk_def)
  qed
qed

section \<open>Copying a list of files\<close>

definition source :: "host \<Rightarrow> string \<times> string \<Rightarrow> string" where
  "source h t = os_locate (ho_os h) (fst t)"

definition target :: "host \<Rightarrow> string \<times> string \<Rightarrow> string" where
  "target h t = os_locate (ho_os h) (dest_file h (fst t) (snd t))"

lemma makedirs_files [simp]: "dk_files (os_makedirs os p dk) = dk_files dk"
  by (simp add: os_makedirs_def)

text \<open>One file: nothing but its target changes, and when it succeeds the target has the content.\<close>

lemma copy_one_spec:
  assumes py2: "\<not> ho_python3 h"
  shows "\<exists>pg' dk' x. copy_one h t (pg, dk) = Some ((pg', dk'), x) \<and>
    (\<forall>l. l \<noteq> target h t \<longrightarrow> dk_files dk' l = dk_files dk l) \<and>
    (x = None \<and> source h t \<noteq> target h t \<longrightarrow> dk_files dk' (target h t) =
       (case dk_files dk (source h t) of None \<Rightarrow> dk_files dk (target h t) | Some b \<Rightarrow> Some b))"
proof -
  obtain src dest where t: "t = (src, dest)" by (cases t)
  let ?os = "ho_os h" and ?file = "dest_file h src dest"
  let ?dk = "os_makedirs ?os dest dk"
  obtain pg' dk' x where r: "safeCopyFile False ?os src ?file (64 * 1024 * 1024) (Some (show_progress (ho_clock h))) (pg, ?dk)
      = Some ((pg', dk'), x)"
    "\<forall>l. l \<noteq> os_locate ?os ?file \<longrightarrow> dk_files dk' l = dk_files ?dk l"
    "x = None \<longrightarrow> os_locate ?os src \<noteq> os_locate ?os ?file \<and> dk_files ?dk (os_locate ?os src) \<noteq> None \<and>
       dk_files dk' (os_locate ?os ?file) = dk_files ?dk (os_locate ?os src)"
    using safeCopyFile_spec [of "64 * 1024 * 1024" ?os src ?file "Some (show_progress (ho_clock h))" pg ?dk] by auto
  consider (refused) "\<not> exists_path ?os dest ?dk \<or>
      exists_path ?os dest ?dk \<and> \<not> exists_path ?os ?file ?dk \<and> \<not> exists_path ?os src ?dk"
    | (skip) "exists_path ?os dest ?dk" "exists_path ?os ?file ?dk" "\<not> exists_path ?os src ?dk"
    | (copy) "exists_path ?os dest ?dk" "exists_path ?os src ?dk" by blast
  then show ?thesis
  proof cases
    case refused
    then have "\<exists>y. y \<noteq> None \<and> copy_one h t (pg, dk) = Some ((pg, ?dk), y)"
      by (auto simp: copy_one_def t Let_def)
    then show ?thesis by fastforce
  next
    case skip
    then have "copy_one h t (pg, dk) = Some ((next_file pg, ?dk), None)" by (simp add: copy_one_def t Let_def)
    with skip(3) show ?thesis by (simp add: t source_def exists_path_def split: option.splits)
  next
    case copy
    then have "\<exists>pg2 y. copy_one h t (pg, dk) = Some ((pg2, dk'), y) \<and> (y = None \<longrightarrow> x = None)"
      using py2 r(1) by (cases x) (auto simp: copy_one_def t Let_def)
    with r(2,3) show ?thesis by (fastforce simp: t target_def source_def)
  qed
qed

text \<open>The targets are different places, and none of them is a source.\<close>

definition apart :: "host \<Rightarrow> (string \<times> string) list \<Rightarrow> bool" where
  "apart h ts \<longleftrightarrow> distinct (map (target h) ts) \<and> source h ` set ts \<inter> target h ` set ts = {}"

lemma copy_all_spec:
  assumes py2: "\<not> ho_python3 h" and ok: "apart h ts"
  shows "\<exists>pg' dk' x. copy_all h ts (pg, dk) = Some ((pg', dk'), x) \<and>
    (\<forall>l. l \<notin> target h ` set ts \<longrightarrow> dk_files dk' l = dk_files dk l) \<and>
    (x = None \<longrightarrow> (\<forall>t \<in> set ts. dk_files dk' (target h t) =
       (case dk_files dk (source h t) of None \<Rightarrow> dk_files dk (target h t) | Some b \<Rightarrow> Some b)))"
  using ok
proof (induction ts arbitrary: pg dk)
  case Nil
  then show ?case by simp
next
  case (Cons t ts)
  obtain pg1 dk1 x where one: "copy_one h t (pg, dk) = Some ((pg1, dk1), x)"
    "\<forall>l. l \<noteq> target h t \<longrightarrow> dk_files dk1 l = dk_files dk l"
    "x = None \<and> source h t \<noteq> target h t \<longrightarrow> dk_files dk1 (target h t) =
       (case dk_files dk (source h t) of None \<Rightarrow> dk_files dk (target h t) | Some b \<Rightarrow> Some b)"
    using copy_one_spec [OF py2, of t pg dk] by blast
  have ap: "apart h ts" "target h t \<notin> target h ` set ts" "source h t \<noteq> target h t"
    "target h t \<notin> source h ` set ts"
    using Cons.prems by (auto simp: apart_def)
  show ?case
  proof (cases x)
    case (Some e)
    with one(1,2) show ?thesis by fastforce
  next
    case None
    obtain pg2 dk2 y where rest: "copy_all h ts (pg1, dk1) = Some ((pg2, dk2), y)"
      "\<forall>l. l \<notin> target h ` set ts \<longrightarrow> dk_files dk2 l = dk_files dk1 l"
      "y = None \<longrightarrow> (\<forall>u \<in> set ts. dk_files dk2 (target h u) =
         (case dk_files dk1 (source h u) of None \<Rightarrow> dk_files dk1 (target h u) | Some b \<Rightarrow> Some b))"
      using Cons.IH [OF ap(1), of pg1 dk1] by blast
    have run: "copy_all h (t # ts) (pg, dk) = Some ((pg2, dk2), y)" by (simp add: one(1) None rest(1))
    have others: "\<forall>l. l \<notin> target h ` set (t # ts) \<longrightarrow> dk_files dk2 l = dk_files dk l"
      using one(2) rest(2) by simp
    have copied: "dk_files dk2 (target h u) =
        (case dk_files dk (source h u) of None \<Rightarrow> dk_files dk (target h u) | Some b \<Rightarrow> Some b)"
      if "y = None" "u \<in> set (t # ts)" for u
    proof (cases "u = t")
      case True
      show ?thesis unfolding True using one(3) None ap(2,3) rest(2) by simp
    next
      case False
      with that(2) have u: "u \<in> set ts" by simp
      have "source h u \<noteq> target h t" "target h u \<noteq> target h t" using ap(2,4) u by (metis imageI)+
      then have "dk_files dk1 (source h u) = dk_files dk (source h u)"
        "dk_files dk1 (target h u) = dk_files dk (target h u)" using one(2) by simp_all
      with rest(3) that(1) u show ?thesis by (cases "dk_files dk (source h u)") simp_all
    qed
    show ?thesis
      by (rule exI, rule exI, rule exI, intro conjI impI ballI, rule run, rule others) (rule copied)
  qed
qed

lemma delete_files_spec:
  "dk_files (delete_files os ps dk) l =
     (if l \<in> os_locate os ` set ps \<and> os_removes os l then None else dk_files dk l)"
proof (induction ps arbitrary: dk)
  case Nil
  then show ?case by (simp add: delete_files_def)
next
  case (Cons p ps)
  define dk1 where "dk1 = (if exists_path os p dk then fst (os_remove os p dk) else dk)"
  have "dk_files dk1 l = (if l = os_locate os p \<and> os_removes os l then None else dk_files dk l)"
    by (auto simp: dk1_def exists_path_def os_remove_def)
  moreover have "delete_files os (p # ps) dk = delete_files os ps dk1" by (simp add: delete_files_def dk1_def)
  ultimately show ?case using Cons [of dk1] by auto
qed

text \<open>The run of a copying job: what the copies made of the disk, and then the deletions.\<close>

lemma CopyFiles_run:
  assumes py2: "\<not> ho_python3 h" and ok: "apart h ts"
  obtains sent and dk1 dk2 :: disk and x where "CopyFiles h \<lparr>cp_file_list = Some ts, cp_delete = del\<rparr> dk = Some ((sent, dk2), x)"
    "\<forall>l. l \<notin> target h ` set ts \<longrightarrow> dk_files dk1 l = dk_files dk l"
    "x = None \<longrightarrow> (\<forall>t \<in> set ts. dk_files dk1 (target h t) =
       (case dk_files dk (source h t) of None \<Rightarrow> dk_files dk (target h t) | Some b \<Rightarrow> Some b))"
    "\<forall>l. dk_files dk2 l =
       (if x = None \<and> del \<and> l \<in> source h ` set ts \<and> os_removes (ho_os h) l then None else dk_files dk1 l)"
proof -
  let ?pg = "new_progress (ho_os h) (ho_clock h) (map fst ts) dk"
  obtain pg1 dk1 x where run: "copy_all h ts (?pg, dk) = Some ((pg1, dk1), x)"
    "\<forall>l. l \<notin> target h ` set ts \<longrightarrow> dk_files dk1 l = dk_files dk l"
    "x = None \<longrightarrow> (\<forall>t \<in> set ts. dk_files dk1 (target h t) =
       (case dk_files dk (source h t) of None \<Rightarrow> dk_files dk (target h t) | Some b \<Rightarrow> Some b))"
    using copy_all_spec [OF py2 ok, of ?pg dk] by blast
  have img: "os_locate (ho_os h) ` set (map fst ts) = source h ` set ts"
    by (simp add: source_def image_image)
  define dk2 where "dk2 = (if x = None \<and> del then delete_files (ho_os h) (map fst ts) dk1 else dk1)"
  have files: "dk_files dk2 l = (if x = None \<and> del \<and> l \<in> source h ` set ts \<and> os_removes (ho_os h) l
      then None else dk_files dk1 l)" for l
    unfolding dk2_def by (simp add: delete_files_spec img del: set_map)
  have "CopyFiles h \<lparr>cp_file_list = Some ts, cp_delete = del\<rparr> dk = Some ((pg_sent pg1, dk2), x)"
    by (cases x) (simp_all add: CopyFiles_def run(1) dk2_def)
  with run(2,3) show ?thesis
    by (intro that [of "pg_sent pg1" dk2 x dk1] allI files) blast+
qed

text \<open>
  C9: a copying job that runs with Python 2, on files whose targets are different places and none
  of the sources, ends, and loses nothing, whatever the operating system refuses and wherever it
  fails: each source file is still in its place, or its content is at its target. When the job fails it has deleted
  nothing; when it succeeds every source is at its target, and it is gone if that was asked for and
  allowed. No other file changes.
\<close>

theorem copy_files_safe:
  assumes py2: "\<not> ho_python3 h" and ok: "apart h ts"
  shows "\<exists>sent dk' x. CopyFiles h \<lparr>cp_file_list = Some ts, cp_delete = del\<rparr> dk = Some ((sent, dk'), x) \<and>
    (\<forall>t \<in> set ts. \<forall>b. dk_files dk (source h t) = Some b \<longrightarrow>
       dk_files dk' (source h t) = Some b \<or> dk_files dk' (target h t) = Some b) \<and>
    (x \<noteq> None \<longrightarrow> (\<forall>t \<in> set ts. dk_files dk' (source h t) = dk_files dk (source h t))) \<and>
    (x = None \<longrightarrow> (\<forall>t \<in> set ts. dk_files dk' (target h t) =
         (case dk_files dk (source h t) of None \<Rightarrow> dk_files dk (target h t) | Some b \<Rightarrow> Some b) \<and>
       (dk_files dk' (source h t) =
         (if del \<and> os_removes (ho_os h) (source h t) then None else dk_files dk (source h t))))) \<and>
    (\<forall>l. l \<notin> source h ` set ts \<union> target h ` set ts \<longrightarrow> dk_files dk' l = dk_files dk l)"
proof -
  obtain sent and dk1 dk2 :: disk and x where job: "CopyFiles h \<lparr>cp_file_list = Some ts, cp_delete = del\<rparr> dk = Some ((sent, dk2), x)"
    and rest: "\<forall>l. l \<notin> target h ` set ts \<longrightarrow> dk_files dk1 l = dk_files dk l"
    and copied: "x = None \<longrightarrow> (\<forall>t \<in> set ts. dk_files dk1 (target h t) =
       (case dk_files dk (source h t) of None \<Rightarrow> dk_files dk (target h t) | Some b \<Rightarrow> Some b))"
    and files: "\<forall>l. dk_files dk2 l =
       (if x = None \<and> del \<and> l \<in> source h ` set ts \<and> os_removes (ho_os h) l then None else dk_files dk1 l)"
    by (rule CopyFiles_run [OF py2 ok, where del = del and dk = dk]) blast
  have tgt: "dk_files dk2 (target h t) = dk_files dk1 (target h t)" if "t \<in> set ts" for t
  proof -
    have "target h t \<notin> source h ` set ts" using ok that unfolding apart_def by blast
    then show ?thesis using files by simp
  qed
  have old: "dk_files dk1 (source h t) = dk_files dk (source h t)" if "t \<in> set ts" for t
    using rest ok that by (auto simp: apart_def)
  have kept: "dk_files dk2 (source h t) = Some b \<or> dk_files dk2 (target h t) = Some b"
    if "t \<in> set ts" "dk_files dk (source h t) = Some b" for t b
    using that copied files old tgt by (cases x) simp_all
  show ?thesis
  proof (intro exI conjI, rule job)
    show "\<forall>t \<in> set ts. \<forall>b. dk_files dk (source h t) = Some b \<longrightarrow>
       dk_files dk2 (source h t) = Some b \<or> dk_files dk2 (target h t) = Some b"
      using kept by blast
    show "x \<noteq> None \<longrightarrow> (\<forall>t \<in> set ts. dk_files dk2 (source h t) = dk_files dk (source h t))"
      by (auto simp: files old)
    show "x = None \<longrightarrow> (\<forall>t \<in> set ts. dk_files dk2 (target h t) =
         (case dk_files dk (source h t) of None \<Rightarrow> dk_files dk (target h t) | Some b \<Rightarrow> Some b) \<and>
       (dk_files dk2 (source h t) =
         (if del \<and> os_removes (ho_os h) (source h t) then None else dk_files dk (source h t))))"
      using copied by (simp add: tgt) (simp add: files old)
    show "\<forall>l. l \<notin> source h ` set ts \<union> target h ` set ts \<longrightarrow> dk_files dk2 l = dk_files dk l"
      using rest by (simp add: files)
  qed
qed

definition sample_host :: host where
  "sample_host = \<lparr>ho_python3 = False, ho_flavour = Posix, ho_os = open_system, ho_clock = (\<lambda>i. of_nat i)\<rparr>"

lemma copy_files_safe_witness:
  "\<exists>sent dk' x. CopyFiles sample_host \<lparr>cp_file_list = Some [(''/rec/a.avi'', ''/out''), (''/rec/b.avi'', ''/out'')],
       cp_delete = True\<rparr> sample_disk = Some ((sent, dk'), x) \<and>
     (dk_files dk' ''/rec/a.avi'' = Some [1, 2, 3, 4, 5] \<or> dk_files dk' ''/out/a.avi'' = Some [1, 2, 3, 4, 5])"
proof -
  let ?ts = "[(''/rec/a.avi'', ''/out''), (''/rec/b.avi'', ''/out'')]"
  have loc: "map (source sample_host) ?ts = [''/rec/a.avi'', ''/rec/b.avi'']"
    "map (target sample_host) ?ts = [''/out/a.avi'', ''/out/b.avi'']"
    by (simp_all add: source_def target_def sample_host_def open_system_def dest_file_def os_path_tail_def
        os_path_join_def is_sep_def)
  have "apart sample_host ?ts" using loc by (simp add: apart_def)
  moreover have "\<not> ho_python3 sample_host" by (simp add: sample_host_def)
  ultimately show ?thesis
    using copy_files_safe [of sample_host ?ts True sample_disk] loc by (auto simp: sample_disk_def)
qed

text \<open>
  Files that collide are lost without an error: of two sources with the same name the second
  overwrites the first, and then both are deleted. A clock that has not moved since the job started
  makes the first progress message fail, and with it the job.
\<close>

lemma same_name_loses:
  "\<exists>sent dk'. CopyFiles sample_host \<lparr>cp_file_list = Some [(''/a/x'', ''/out''), (''/b/x'', ''/out'')], cp_delete = True\<rparr>
      \<lparr>dk_files = [''/a/x'' \<mapsto> [1], ''/b/x'' \<mapsto> [2]], dk_folders = (\<lambda>_. False)\<rparr> = Some ((sent, dk'), None) \<and>
    (\<forall>l. dk_files dk' l = (if l = ''/out/x'' then Some [2] else None))"
  by (simp add: CopyFiles_def sample_host_def open_system_def copy_one_def dest_file_def os_path_tail_def
      os_path_join_def is_sep_def exists_path_def os_makedirs_def safeCopyFile_def os_remove_def copy_chunks.simps
      show_progress_def new_progress_def next_file_def file_size_def delete_files_def Let_def)

lemma still_clock_fails:
  "snd (show_progress (\<lambda>_. t) n (new_progress os (\<lambda>_. t) srcs dk)) = Some (NameError ''copy_speed'')"
  by (simp add: show_progress_def new_progress_def)

section \<open>From the export to the machines\<close>

text \<open>The launch \<open>l\<close> makes the machine \<open>m\<close> copy the file \<open>f\<close> into the folder \<open>p\<close>, and then delete it.\<close>

definition tells_copy :: "launch \<Rightarrow> string \<Rightarrow> string \<Rightarrow> string \<Rightarrow> bool" where
  "tells_copy l m f p \<longleftrightarrow> ln_job_class l = ''jobs.archive.CopyFiles'' \<and> ln_node_name l = Some m \<and>
     (\<exists>q ts. loads (ln_params l) = Some (JObj q) \<and>
        read_copy_params q = Some \<lparr>cp_file_list = Some ts, cp_delete = True\<rparr> \<and> (f, p) \<in> set ts)"

lemma add_files_dom: "fst ` set (add_files m xs fs) = insert m (fst ` set fs)"
  by (induction m xs fs rule: add_files.induct) auto

lemma add_files_keys: "distinct (map fst fs) \<Longrightarrow> distinct (map fst (add_files m xs fs))"
  by (induction m xs fs rule: add_files.induct) (auto simp: add_files_dom)

lemma add_files_mem:
  "(\<exists>ys. (k, ys) \<in> set (add_files m xs fs) \<and> z \<in> set ys) \<longleftrightarrow>
   (\<exists>ys. (k, ys) \<in> set fs \<and> z \<in> set ys) \<or> k = m \<and> z \<in> set xs"
  by (induction m xs fs rule: add_files.induct) auto

lemma exported_files:
  assumes "for_each (export_camera path) cams files0 = (files, None)" "distinct (map fst files0)"
  shows "distinct (map fst files) \<and> (\<forall>m z. (\<exists>ys. (m, ys) \<in> set files \<and> z \<in> set ys) \<longleftrightarrow>
    (\<exists>ys. (m, ys) \<in> set files0 \<and> z \<in> set ys) \<or>
    (\<exists>c \<in> set cams. ac_machine_name c = m \<and> (\<exists>fs f. camera_files c = Inr fs \<and> f \<in> set fs \<and> z = (f, path))))"
  using assms
proof (induction cams arbitrary: files0)
  case (Cons c cams)
  obtain fs where fs: "camera_files c = Inr fs"
    using Cons.prems(1) by (cases "camera_files c") (auto simp: export_camera_def)
  let ?files1 = "add_files (ac_machine_name c) (map (\<lambda>f. (f, path)) fs) files0"
  have "for_each (export_camera path) cams ?files1 = (files, None)"
  proof -
    have "export_camera path c files0 = (?files1, None)" by (simp add: export_camera_def fs)
    with Cons.prems(1) show ?thesis by simp
  qed
  from Cons.IH [OF this add_files_keys [OF Cons.prems(2)]] show ?case
    unfolding add_files_mem using fs by auto
qed simp

lemma plain_export:
  "distinct (map fst files) \<Longrightarrow> plain (export_params base folder files)"
  by (auto simp: export_params_def list_all_iff case_prod_unfold comp_def)

lemma loads_copy_params:
  "loads (to_json (copy_job_params (JList (map (\<lambda>(f, p). JList [JStr f, JStr p]) fs)) (JStr base))) =
     Some (copy_job_params (JList (map (\<lambda>(f, p). JList [JStr f, JStr p]) fs)) (JStr base))"
  by (rule loads_dumps) (auto simp: copy_job_params_def list_all_iff)

text \<open>
  C10: the parameters the server stores for an export, read by the job on the farm,
  launch one copying job for each machine that recorded something; and what these jobs, when they read their
  own parameters, copy on a machine are exactly the files of the exported cameras of
  that machine, each into the folder of the export.
\<close>

theorem export_reaches_machines:
  assumes files: "for_each (export_camera path) cams [] = (files, None)"
  shows "\<exists>params ls. loads (to_json (export_params base path files)) = Some (JObj params) \<and>
    ExportTake params = Inr ls \<and> distinct (map ln_node_name ls) \<and>
    (\<forall>m f p. (\<exists>l \<in> set ls. tells_copy l m f p) \<longleftrightarrow>
       p = path \<and> (\<exists>c \<in> set cams. ac_machine_name c = m \<and> (\<exists>fs. camera_files c = Inr fs \<and> f \<in> set fs)))"
proof -
  note ex = exported_files [OF files, simplified]
  let ?list = "\<lambda>fs. JList (map (\<lambda>(f, p). JList [JStr f, JStr p]) fs)"
  obtain params where params: "export_params base path files = JObj params"
    "map_of params ''root_export_path'' = Some (JStr base)"
    "map_of params ''nodes'' = Some (JObj (map (\<lambda>(m, fs). (m, ?list fs)) files))"
    by (simp add: export_params_def)
  let ?ls = "map (\<lambda>(m, fs). copy_launch (JStr base) (m, ?list fs)) files"
  have run: "ExportTake params = Inr ?ls"
    by (simp add: ExportTake_def params(2,3) comp_def case_prod_unfold)
  have nodes: "map ln_node_name ?ls = map Some (map fst files)"
    by (simp add: copy_launch_def comp_def case_prod_unfold)
  have read: "read_copy_params [(''file_list'', ?list fs), (''root_export_path'', JStr base), (''delete_source_files'', JBool True)]
      = Some \<lparr>cp_file_list = Some fs, cp_delete = True\<rparr>" for fs
    by (auto simp: read_copy_params_def json_true_def list_all_iff comp_def case_prod_unfold)
  have tells: "tells_copy (copy_launch (JStr base) (m', ?list fs)) m f p \<longleftrightarrow> m = m' \<and> (f, p) \<in> set fs" for m' fs m f p
    using loads_copy_params [of fs base] read [of fs]
    by (auto simp: tells_copy_def copy_launch_def new_launch_def copy_job_params_def)
  show ?thesis
  proof (rule exI, rule exI, intro conjI allI)
    show "loads (to_json (export_params base path files)) = Some (JObj params)"
      using loads_dumps [OF plain_export [of files base path]] ex by (simp add: params(1))
    show "ExportTake params = Inr ?ls" by (rule run)
    show "distinct (map ln_node_name ?ls)" unfolding nodes using ex by (simp add: distinct_map inj_on_def)
    fix m f p
    have "(\<exists>l \<in> set ?ls. tells_copy l m f p) \<longleftrightarrow> (\<exists>fs. (m, fs) \<in> set files \<and> (f, p) \<in> set fs)"
      by (auto simp: tells intro!: bexI)
    with ex show "(\<exists>l \<in> set ?ls. tells_copy l m f p) \<longleftrightarrow>
       p = path \<and> (\<exists>c \<in> set cams. ac_machine_name c = m \<and> (\<exists>fs. camera_files c = Inr fs \<and> f \<in> set fs))"
      by auto
  qed
qed

lemma export_reaches_machines_witness:
  "\<exists>params ls. ExportTake params = Inr ls \<and> (\<exists>l \<in> set ls. tells_copy l ''cap06'' ''D:/b.avi'' ''/net/p'')"
proof -
  let ?c = "recorded_camera 1 ''cap06'' (untracked_camera\<lparr>cs_recorder := Some ([''D:/a.avi'', ''D:/b.avi''], 10)\<rparr>) 0
     ([''D:/a.avi''], 10) \<lparr>ms_meta_filename = ''m'', ms_bitdepth = 8, ms_frame_count = 1, ms_missing_frames = 0, ms_duration = 1\<rparr>
     ''D:'' ''t''"
  have "\<exists>c. camera_files c = Inr [''D:/a.avi'', ''D:/b.avi''] \<and> ac_machine_name c = ''cap06''"
    by (rule exI [of _ ?c])
      (simp add: camera_files_def recorded_camera_def untracked_camera_def all_files_def join_with_def)
  then obtain c where c: "camera_files c = Inr [''D:/a.avi'', ''D:/b.avi'']" "ac_machine_name c = ''cap06''" by blast
  then have "for_each (export_camera ''/net/p'') [c] [] =
      ([(''cap06'', [(''D:/a.avi'', ''/net/p''), (''D:/b.avi'', ''/net/p'')])], None)"
    by (simp add: export_camera_def)
  from export_reaches_machines [OF this, of "''/net''"] obtain params ls where
    p: "ExportTake params = Inr ls" "\<forall>m f p. (\<exists>l \<in> set ls. tells_copy l m f p) \<longleftrightarrow> p = ''/net/p'' \<and>
      (\<exists>c' \<in> set [c]. ac_machine_name c' = m \<and> (\<exists>fs. camera_files c' = Inr fs \<and> f \<in> set fs))"
    by (elim exE conjE) (rule that)
  have "\<exists>l \<in> set ls. tells_copy l ''cap06'' ''D:/b.avi'' ''/net/p''" using p(2) c by simp
  with p(1) show ?thesis by blast
qed

end
