(* ===== verification/Farm_Serializers.thy ===== *)
theory Farm_Serializers
  imports Archive_Serializers Farm_Views
begin

text \<open>
  The reading halves of the serializers of the farm (\<open>jobs/serializers.py\<close>): jobs, nodes and
  groups as the REST interface shows them, and the lists and details of \<open>jobs/views.py\<close> with
  their filters, search and order. \<open>dt\<close> writes an instant.
\<close>

section \<open>Jobs\<close>

definition take_str :: "pk \<Rightarrow> string" where
  "take_str k = ''#'' @ show_nat k"

definition scan_str :: "pk \<Rightarrow> scan_asset \<Rightarrow> string" where
  "scan_str k a = ''#'' @ show_nat k @ ''-'' @ sa_name a"

definition simple_node_json :: "pk \<times> farm_node \<Rightarrow> json" where
  "simple_node_json kn = JObj [(''id'', j_pk (fst kn)), (''machine_name'', JStr (fn_machine_name (snd kn)))]"

definition node_of_job :: "db \<Rightarrow> farm_job \<Rightarrow> (pk \<times> farm_node) option" where
  "node_of_job d j =
     (case fj_node j of None \<Rightarrow> None
      | Some k \<Rightarrow> (case t_get (db_fnodes d) k of None \<Rightarrow> None | Some n \<Rightarrow> Some (k, n)))"

definition j_time :: "(time \<Rightarrow> string) \<Rightarrow> time \<Rightarrow> json" where
  "j_time dt x = JStr (dt x)"

text \<open>The project behind a reference; the field is left out when there is no object.\<close>

definition take_project_of :: "db \<Rightarrow> pk \<Rightarrow> pk option" where
  "take_project_of d k = Option.bind (t_get (db_takes d) k) (take_project d)"

definition ext_prj :: "string \<Rightarrow> pk option \<Rightarrow> (pk \<Rightarrow> pk option) \<Rightarrow> (string \<times> json) list" where
  "ext_prj name k f = (case k of None \<Rightarrow> [] | Some i \<Rightarrow> [(name, j_opt j_pk (f i))])"

definition ext_names :: "db \<Rightarrow> farm_job \<Rightarrow> (string \<times> json) list" where
  "ext_names d j =
     [(''ext_take_name'', j_opt (\<lambda>k. JStr (take_str k)) (fj_ext_take j)),
      (''ext_scan_assets_name'', j_opt (\<lambda>k. j_opt (\<lambda>a. JStr (scan_str k a)) (t_get (db_scans d) k)) (fj_ext_scan_assets j)),
      (''ext_tracking_assets_name'', j_opt (\<lambda>k. JStr (take_str k)) (fj_ext_tracking_assets j))]"

definition ext_projects :: "db \<Rightarrow> farm_job \<Rightarrow> (string \<times> json) list" where
  "ext_projects d j =
     ext_prj ''ext_take_prj_id'' (fj_ext_take j) (take_project_of d) @
     ext_prj ''ext_scan_assets_prj_id'' (fj_ext_scan_assets j) (\<lambda>k. map_option sa_project (t_get (db_scans d) k)) @
     ext_prj ''ext_tracking_assets_prj_id'' (fj_ext_tracking_assets j)
       (\<lambda>k. Option.bind (t_get (db_tracks d) k) (\<lambda>a. take_project_of d (ta_take a)))"

definition ext_ids :: "farm_job \<Rightarrow> (string \<times> json) list" where
  "ext_ids j =
     [(''ext_take_id'', j_opt j_pk (fj_ext_take j)),
      (''ext_scan_assets_id'', j_opt j_pk (fj_ext_scan_assets j)),
      (''ext_tracking_assets_id'', j_opt j_pk (fj_ext_tracking_assets j))]"

definition farm_job_json :: "(time \<Rightarrow> string) \<Rightarrow> user \<Rightarrow> db \<Rightarrow> pk \<times> farm_job \<Rightarrow> json" where
  "farm_job_json dt u d kj = (let (k, j) = kj in JObj
     ([(''job_class'', JStr (fj_job_class j)), (''id'', j_pk k), (''parent_id'', j_opt j_pk (fj_parent j)),
       (''created_by'', JStr (fj_created_by j)), (''status'', JStr (status_name (fj_status j))),
       (''node'', j_opt simple_node_json (node_of_job d j)),
       (''node_name'', j_opt (\<lambda>n. JStr (fn_machine_name (snd n))) (node_of_job d j)),
       (''status_changed'', j_time dt (fj_status_changed j)), (''created'', j_time dt (fj_created j)),
       (''modified'', j_time dt (fj_modified j)), (''write_access'', JBool (job_write_access j u)),
       (''progress'', j_opt JStr (fj_progress j)), (''start_time'', j_opt (j_time dt) (fj_start_time j)),
       (''end_time'', j_opt (j_time dt) (fj_end_time j)), (''req_gpu'', JBool (fj_req_gpu j)),
       (''req_version'', JInt (fj_req_version j)), (''params'', j_opt JStr (fj_params j))]
      @ ext_ids j @ ext_projects d j @ ext_names d j @
      [(''priority'', JInt (fj_priority j)), (''image_filename'', j_opt JStr (fj_image_filename j)),
       (''mesh_filename'', j_opt JStr (fj_mesh_filename j)),
       (''dependencies_id'', JList (map j_pk (fj_dependencies j))),
       (''tags'', JList (map JStr (fj_tags j)))]))"

definition jobs_with_keys :: "db \<Rightarrow> pk list \<Rightarrow> (pk \<times> farm_job) list" where
  "jobs_with_keys d ks = t_filter (\<lambda>k _. k \<in> set ks) (db_jobs d)"

definition parent_of :: "db \<Rightarrow> farm_job \<Rightarrow> (pk \<times> farm_job) option" where
  "parent_of d j =
     (case fj_parent j of None \<Rightarrow> None
      | Some k \<Rightarrow> (case t_get (db_jobs d) k of None \<Rightarrow> None | Some p \<Rightarrow> Some (k, p)))"

definition farm_job_detailed_json :: "(time \<Rightarrow> string) \<Rightarrow> user \<Rightarrow> db \<Rightarrow> pk \<times> farm_job \<Rightarrow> json" where
  "farm_job_detailed_json dt u d kj = (let (k, j) = kj; show = farm_job_json dt u d in JObj
     ([(''job_class'', JStr (fj_job_class j)), (''id'', j_pk k), (''created_by'', JStr (fj_created_by j)),
       (''params'', j_opt JStr (fj_params j)), (''exception'', j_opt JStr (fj_exception j)),
       (''status'', JStr (status_name (fj_status j))),
       (''node'', j_opt simple_node_json (node_of_job d j)),
       (''status_changed'', j_time dt (fj_status_changed j)), (''created'', j_time dt (fj_created j)),
       (''modified'', j_time dt (fj_modified j)), (''parent'', j_opt show (parent_of d j)),
       (''children'', JList (map show (children d k))),
       (''dependencies'', JList (map show (jobs_with_keys d (fj_dependencies j)))),
       (''progress'', j_opt JStr (fj_progress j)), (''start_time'', j_opt (j_time dt) (fj_start_time j)),
       (''end_time'', j_opt (j_time dt) (fj_end_time j)), (''req_version'', JInt (fj_req_version j)),
       (''req_gpu'', JBool (fj_req_gpu j))]
      @ ext_ids j @ ext_projects d j @ ext_names d j @
      [(''priority'', JInt (fj_priority j)), (''write_access'', JBool (job_write_access j u)),
       (''image_filename'', j_opt JStr (fj_image_filename j)),
       (''mesh_filename'', j_opt JStr (fj_mesh_filename j)), (''tags'', JList (map JStr (fj_tags j)))]))"

section \<open>Nodes\<close>

text \<open>The two node serializers differ in the recent jobs; the second \<open>system\<close> of the field list is the first.\<close>

definition node_fields_before :: "(time \<Rightarrow> string) \<Rightarrow> env \<Rightarrow> db \<Rightarrow> pk \<times> farm_node \<Rightarrow> (string \<times> json) list" where
  "node_fields_before dt e d kn = (let (k, n) = kn in
     [(''ip_address'', JStr (fn_ip_address n)), (''id'', j_pk k), (''machine_name'', JStr (fn_machine_name n)),
      (''last_seen'', j_time dt (fn_last_seen n)), (''status'', JStr (actual_status (e_now e) n)),
      (''active'', JBool (farm_node_is_active (e_now e) n)),
      (''running_jobs'', JList (map (farm_job_json dt (e_user e) d) (running_jobs d k)))])"

definition node_fields_after :: "db \<Rightarrow> farm_node \<Rightarrow> (string \<times> json) list" where
  "node_fields_after d n =
     [(''system'', j_opt JStr (fn_system n)), (''code_version'', JInt (fn_code_version n)),
      (''git_version'', j_opt JStr (fn_git_version n)), (''cpu_brand'', j_opt JStr (fn_cpu_brand n)),
      (''cpu_percent'', JFloat (fn_cpu_percent n)), (''cpu_cores'', j_opt JInt (fn_cpu_cores n)),
      (''gpu_count'', j_opt JInt (fn_gpu_count n)), (''virt_percent'', JFloat (fn_virt_percent n)),
      (''os_version'', j_opt JStr (fn_os_version n)), (''accepting'', JBool (fn_active n)),
      (''group'', j_opt (\<lambda>k. j_opt (\<lambda>g. JStr (fg_name g)) (t_get (db_groups d) k)) (fn_group n)),
      (''system_bits'', j_opt JInt (fn_system_bits n)), (''tags'', JList (map JStr (fn_tags n))),
      (''aws_instance_id'', j_opt JStr (fn_aws_instance_id n)),
      (''aws_instance_state'', JStr (fn_aws_instance_state n))]"

definition farm_node_json :: "(time \<Rightarrow> string) \<Rightarrow> env \<Rightarrow> db \<Rightarrow> pk \<times> farm_node \<Rightarrow> json" where
  "farm_node_json dt e d kn = JObj (node_fields_before dt e d kn @ node_fields_after d (snd kn))"

definition farm_node_details_json :: "(time \<Rightarrow> string) \<Rightarrow> env \<Rightarrow> db \<Rightarrow> pk \<times> farm_node \<Rightarrow> json" where
  "farm_node_details_json dt e d kn = JObj (node_fields_before dt e d kn @
     [(''recent_jobs'', JList (map (farm_job_json dt (e_user e) d) (recent_jobs d (fst kn))))] @
     node_fields_after d (snd kn))"

definition group_nodes :: "db \<Rightarrow> pk \<Rightarrow> (pk \<times> farm_node) list" where
  "group_nodes d g = sort_key (\<lambda>(_, n). fn_machine_name n) (t_filter (\<lambda>_ n. fn_group n = Some g) (db_fnodes d))"

definition farm_group_json :: "(time \<Rightarrow> string) \<Rightarrow> env \<Rightarrow> db \<Rightarrow> pk \<times> farm_node_group \<Rightarrow> json" where
  "farm_group_json dt e d kg = JObj [(''name'', JStr (fg_name (snd kg))),
     (''nodes'', JList (map (farm_node_json dt e d) (group_nodes d (fst kg))))]"

section \<open>Details and lists\<close>

definition job_detailed :: "(time \<Rightarrow> string) \<Rightarrow> env \<Rightarrow> pk \<Rightarrow> db \<Rightarrow> json outcome" where
  "job_detailed dt e k d =
     (case t_get (db_jobs d) k of
        None \<Rightarrow> Raised DoesNotExist
      | Some j \<Rightarrow> Json 200 (farm_job_detailed_json dt (e_user e) d (k, j)))"

definition node_detailed :: "(time \<Rightarrow> string) \<Rightarrow> env \<Rightarrow> pk \<Rightarrow> db \<Rightarrow> json outcome" where
  "node_detailed dt e k d =
     (case t_get (db_fnodes d) k of
        None \<Rightarrow> Raised DoesNotExist
      | Some n \<Rightarrow> Json 200 (farm_node_details_json dt e d (k, n)))"

definition listed_groups :: "db \<Rightarrow> (pk \<times> farm_node_group) list" where
  "listed_groups d = sort_key (\<lambda>(_, g). fg_name g) (rows (db_groups d))"

text \<open>\<open>filter_fields\<close> compares the columns, not the computed status and activity that are shown.\<close>

definition listed_nodes :: "string option \<Rightarrow> bool option \<Rightarrow> db \<Rightarrow> (pk \<times> farm_node) list" where
  "listed_nodes status active d =
     sort_key (\<lambda>(_, n). fn_status n) (sort_key (\<lambda>(_, n). fn_machine_name n)
       (t_filter (\<lambda>_ n. (status = None \<or> status = Some (fn_status n)) \<and>
          (active = None \<or> active = Some (fn_active n))) (db_fnodes d)))"

text \<open>\<open>SearchFilter\<close>: each term occurs, in any case of letters, in one of the three columns.\<close>

definition icontains :: "string \<Rightarrow> string \<Rightarrow> bool" where
  "icontains term s \<longleftrightarrow> contains (map lower_char term) (map lower_char s)"

definition job_search :: "db \<Rightarrow> string list \<Rightarrow> farm_job \<Rightarrow> bool" where
  "job_search d terms j \<longleftrightarrow> list_all (\<lambda>t. icontains t (fj_job_class j) \<or> icontains t (fj_created_by j) \<or>
     (case node_of_job d j of None \<Rightarrow> False | Some n \<Rightarrow> icontains t (fn_machine_name (snd n)))) terms"

record job_query =
  jq_status :: "job_status option"
  jq_search :: "string list"

definition listed_where :: "(farm_job \<Rightarrow> bool) \<Rightarrow> job_query \<Rightarrow> db \<Rightarrow> (pk \<times> farm_job) list" where
  "listed_where P q d = order_desc (\<lambda>(_, j). fj_modified j)
     (t_filter (\<lambda>_ j. P j \<and> (jq_status q = None \<or> jq_status q = Some (fj_status j)) \<and> job_search d (jq_search q) j)
        (db_jobs d))"

definition recent_farm_jobs :: "job_query \<Rightarrow> db \<Rightarrow> (pk \<times> farm_job) list" where
  "recent_farm_jobs = listed_where (\<lambda>j. fj_parent j = None \<or> fj_status j = Running)"

definition recent_finished_jobs :: "job_query \<Rightarrow> db \<Rightarrow> (pk \<times> farm_job) list" where
  "recent_finished_jobs = listed_where (\<lambda>j. fj_parent j = None \<and> fj_status j \<in> {Success, Failed})"

definition all_farm_jobs :: "job_query \<Rightarrow> db \<Rightarrow> (pk \<times> farm_job) list" where
  "all_farm_jobs = listed_where (\<lambda>_. True)"

section \<open>What the lists hold\<close>

definition asked_for :: "job_query \<Rightarrow> db \<Rightarrow> farm_job \<Rightarrow> bool" where
  "asked_for q d j \<longleftrightarrow> (jq_status q = None \<or> jq_status q = Some (fj_status j)) \<and> job_search d (jq_search q) j"

lemma listed_where_iff:
  assumes "wf_table (db_jobs d)"
  shows "(k, j) \<in> set (listed_where P q d) \<longleftrightarrow> t_get (db_jobs d) k = Some j \<and> P j \<and> asked_for q d j"
  by (simp add: listed_where_def set_order_desc t_filter_iff [OF assms] asked_for_def)

text \<open>
  The three lists of jobs hold exactly the rows they should, the last modified first. A job on the list of
  finished ones is on the recent ones and on the list of all jobs; a child is on the list of the recent ones exactly
  while it runs.
\<close>

theorem job_lists:
  assumes wf: "wf_table (db_jobs d)"
  shows "set (recent_finished_jobs q d) \<subseteq> set (recent_farm_jobs q d) \<and>
    set (recent_farm_jobs q d) \<subseteq> set (all_farm_jobs q d) \<and>
    (fj_parent j \<noteq> None \<longrightarrow> (k, j) \<in> set (all_farm_jobs q d) \<longrightarrow>
       ((k, j) \<in> set (recent_farm_jobs q d) \<longleftrightarrow> fj_status j = Running)) \<and>
    (\<forall>xs \<in> {recent_finished_jobs q d, recent_farm_jobs q d, all_farm_jobs q d}.
       sorted_wrt (\<lambda>x y. fj_modified (snd y) \<le> fj_modified (snd x)) xs)"
proof -
  note iff = listed_where_iff [OF wf]
  have "sorted_wrt (\<lambda>x y. fj_modified (snd y) \<le> fj_modified (snd x)) (listed_where P q d)" for P
    using sorted_order_desc [of "\<lambda>(_, j). fj_modified j"] unfolding listed_where_def by (simp add: case_prod_unfold)
  then show ?thesis
    unfolding recent_finished_jobs_def recent_farm_jobs_def all_farm_jobs_def by (auto simp: iff)
qed

text \<open>
  The filter \<open>active\<close> does not select by what is shown as \<open>active\<close>: a node that was never
  silent and one that was lost long ago are listed alike.
\<close>

lemma active_filter_ignores_contact:
  assumes "db_fnodes d = \<lparr>rows = [(1, n\<lparr>fn_active := True, fn_last_seen := e_now e\<rparr>),
     (2, n\<lparr>fn_active := True, fn_last_seen := e_now e - seconds 100000\<rparr>)], next_pk = 3\<rparr>"
  shows "map fst (listed_nodes None (Some True) d) = [1, 2]"
  by (simp add: listed_nodes_def assms t_filter_def)

end
