(* ===== verification/Client_Base.thy ===== *)
theory Client_Base
  imports Client_Files Farm_Serializers
begin

text \<open>
  What a job can ask the server for and do on its machine (\<open>src/job_client/jobs/base.py\<close>,
  \<open>jobs/common.py\<close>): reading its own row and those of the archive, running a program with its
  output in a temporary file, uploading a picture; the test jobs (\<open>jobs/test.py\<close>); and from
  \<open>job_client.py\<close> the list of the jobs a client offers and the end of a process tree.
\<close>

section \<open>Reading from the server\<close>

text \<open>An answer: its status and its document.\<close>

type_synonym answer = "nat \<times> json"

definition server_get_json :: "answer \<Rightarrow> py_exn + json" where
  "server_get_json r = (if fst r = 200 then Inr (snd r) else Inl (PyException ''Status''))"

text \<open>A number of zero counts as none here, but not in the test before.\<close>

definition job_info_url :: "pk option \<Rightarrow> pk option \<Rightarrow> py_exn + string option" where
  "job_info_url job_id self_id =
     (if job_id = None \<and> self_id = None then Inr None
      else
        (case (if job_id \<notin> {None, Some 0} then job_id else self_id) of
           None \<Rightarrow> Inl TypeError
         | Some k \<Rightarrow> Inr (Some (''/jobs/farm_job/'' @ show_nat k))))"

definition get_job_info :: "(string \<Rightarrow> answer) \<Rightarrow> pk option \<Rightarrow> pk option \<Rightarrow> py_exn + json option" where
  "get_job_info server job_id self_id =
     (case job_info_url job_id self_id of
        Inl x \<Rightarrow> Inl x
      | Inr None \<Rightarrow> Inr None
      | Inr (Some url) \<Rightarrow> (case server_get_json (server url) of Inl x \<Rightarrow> Inl x | Inr j \<Rightarrow> Inr (Some j)))"

definition get_scan_asset_info :: "(string \<Rightarrow> answer) \<Rightarrow> pk \<Rightarrow> py_exn + json" where
  "get_scan_asset_info server k = server_get_json (server (''/archive/staticscanasset/'' @ show_nat k))"

definition get_tracking_asset_info :: "(string \<Rightarrow> answer) \<Rightarrow> pk \<Rightarrow> py_exn + json" where
  "get_tracking_asset_info server k = server_get_json (server (''/archive/trackingasset/'' @ show_nat k))"

definition get_take_info :: "(string \<Rightarrow> answer) \<Rightarrow> pk \<Rightarrow> py_exn + json" where
  "get_take_info server k = server_get_json (server (''/archive/take/'' @ show_nat k))"

section \<open>Running a program\<close>

text \<open>
  A program cannot be started, or it runs for a time and ends with a code, or it runs for ever;
  in the last two cases it has written something by any time.
\<close>

datatype program =
    NoStart py_exn
  | Exits time int "time \<Rightarrow> bytes"
  | Endless "time \<Rightarrow> bytes"

text \<open>
  \<open>PopenWithTimeout.run\<close>: the program is waited for in a thread, at most for the timeout, and then killed.
  A program that cannot be started leaves its traceback in \<open>error\<close> and the
  status -1.
\<close>

definition popen_with_timeout :: "int \<Rightarrow> time \<Rightarrow> program \<Rightarrow> int \<times> bytes" where
  "popen_with_timeout killed timeout p =
     (case p of
        NoStart x \<Rightarrow> (- 1, [])
      | Exits t retcode out \<Rightarrow> if t \<le> timeout then (retcode, out t) else (killed, out timeout)
      | Endless out \<Rightarrow> (killed, out timeout))"

record workstation =
  mc_os :: os
  mc_temp :: string
  mc_program :: "string list \<Rightarrow> program"
  mc_killed :: int
  mc_decode :: "bytes \<Rightarrow> py_exn + string"

definition write_temp :: "workstation \<Rightarrow> bytes \<Rightarrow> disk \<Rightarrow> disk" where
  "write_temp m out dk = dk\<lparr>dk_files := (dk_files dk)(os_locate (mc_os m) (mc_temp m) \<mapsto> out)\<rparr>"

text \<open>
  \<open>run_subprocess\<close>; a call that never returns is \<open>None\<close>. The second half reads the output
  back as text and removes the temporary file.
\<close>

definition collect_output ::
    "workstation \<Rightarrow> string list \<Rightarrow> bool \<Rightarrow> int \<Rightarrow> bytes \<Rightarrow> disk \<Rightarrow> disk \<times> (py_exn + int \<times> string)" where
  "collect_output m cmd check_output retcode out dk =
     (let dk1 = write_temp m out dk in
      case mc_decode m out of
        Inl x \<Rightarrow> (dk1, Inl x)
      | Inr output \<Rightarrow>
          (case os_remove (mc_os m) (mc_temp m) dk1 of
             (dk2, Some x) \<Rightarrow> (dk2, Inl x)
           | (dk2, None) \<Rightarrow>
               if check_output \<and> retcode \<noteq> 0 then (dk2, Inl (PyException ''CalledProcessError''))
               else (dk2, Inr (retcode, output))))"

definition run_subprocess ::
    "workstation \<Rightarrow> string list \<Rightarrow> bool \<Rightarrow> time option \<Rightarrow> disk \<Rightarrow> (disk \<times> (py_exn + int \<times> string)) option" where
  "run_subprocess m cmd check_output timeout dk =
     (case timeout of
        None \<Rightarrow>
          (case mc_program m cmd of
             NoStart x \<Rightarrow> Some (write_temp m [] dk, Inl x)
           | Exits t retcode out \<Rightarrow> Some (collect_output m cmd check_output retcode (out t) dk)
           | Endless _ \<Rightarrow> None)
      | Some limit \<Rightarrow>
          (case popen_with_timeout (mc_killed m) limit (mc_program m cmd) of
             (retcode, out) \<Rightarrow> Some (collect_output m cmd check_output retcode out dk)))"

section \<open>Uploading a picture\<close>

text \<open>
  A picture is the path of a file or an array of pixels with its height and width. What OpenCV
  does is an argument: reading, resizing and encoding. \<open>py2\<close> tells whether the name
  \<open>basestring\<close> exists.
\<close>

datatype picture = Path string | Pixels nat nat bytes

record cv =
  cv_imread :: "bytes \<Rightarrow> (nat \<times> nat \<times> bytes) option"
  cv_resize :: "nat \<times> nat \<times> bytes \<Rightarrow> nat \<Rightarrow> nat \<Rightarrow> bytes"
  cv_imwrite :: "nat \<times> nat \<times> bytes \<Rightarrow> bytes"

definition text_of :: "bytes \<Rightarrow> string" where
  "text_of = map (\<lambda>b. char_of (unat b))"

type_synonym upload_view = "pk \<Rightarrow> (string \<times> string) option \<Rightarrow> db \<Rightarrow> db \<times> string outcome"

definition send_picture :: "upload_view \<Rightarrow> pk \<Rightarrow> string \<Rightarrow> bytes \<Rightarrow> db \<Rightarrow> db \<times> py_exn option" where
  "send_picture view job_id name content d =
     (case view job_id (Some (name, text_of content)) d of
        (d1, r) \<Rightarrow> (d1, if http_status r = 200 then None else Some (PyException ''Could not upload job thumbnail to server'')))"

definition upload_name :: "pk \<Rightarrow> string \<Rightarrow> string" where
  "upload_name job_id ext = ''job_'' @ show_nat job_id @ ext"

definition scaled :: "cv \<Rightarrow> bool \<Rightarrow> nat \<times> nat \<times> bytes \<Rightarrow> nat \<times> nat \<times> bytes" where
  "scaled c resize img = (case img of (height, width, px) \<Rightarrow>
     (if resize \<and> 512 < width
      then (512 * height div width, 512, cv_resize c img 512 (512 * height div width)) else img))"

definition set_job_image ::
    "bool \<Rightarrow> os \<Rightarrow> cv \<Rightarrow> upload_view \<Rightarrow> pk \<Rightarrow> picture \<Rightarrow> bool \<Rightarrow> disk \<Rightarrow> db \<Rightarrow> db \<times> py_exn option" where
  "set_job_image py2 os c view job_id img resize dk d =
     (if \<not> py2 then (d, Some (NameError ''basestring''))
      else
        (case img of
           Path p \<Rightarrow>
             (if \<not> resize then
                (case dk_files dk (os_locate os p) of
                   None \<Rightarrow> (d, Some os_error)
                 | Some content \<Rightarrow> send_picture view job_id (upload_name job_id (splitext_ext p)) content d)
              else
                (case Option.bind (dk_files dk (os_locate os p)) (cv_imread c) of
                   None \<Rightarrow> (d, Some (AttributeError ''shape''))
                 | Some px \<Rightarrow> send_picture view job_id (upload_name job_id ''.jpg'') (cv_imwrite c (scaled c resize px)) d))
         | Pixels height width px \<Rightarrow>
             send_picture view job_id (upload_name job_id ''.jpg'') (cv_imwrite c (scaled c resize (height, width, px))) d))"

section \<open>The test jobs\<close>

text \<open>What a job sends through its pipe, and how it ends.\<close>

definition DummyJob :: "string list \<times> job_end" where
  "DummyJob = ([''Progress 0%'', ''Progress 40%'', ''Progress 60%'', ''Progress 100%''], Returned None)"

definition DummyJobRaisingException :: "string list \<times> job_end" where
  "DummyJobRaisingException = ([''Before Exception''], Crashed ''This job is raising an exception'')"

definition DummyJobLaunch :: "env \<Rightarrow> pk \<Rightarrow> db \<Rightarrow> db \<times> (string list \<times> job_end)" where
  "DummyJobLaunch e job_id d =
     (case launch_job e job_id ((new_launch ''jobs.test.DummyJob'')\<lparr>ln_tags := [''alpha'', ''bravo'']\<rparr>) d of
        (d1, Inl x) \<Rightarrow> (d1, ([''Launch new job''], Crashed ''launch_job failed''))
      | (d1, Inr k) \<Rightarrow> (d1, ([''Launch new job'', ''Launched '' @ show_nat k], Returned None)))"

definition child_launch_info :: launch where
  "child_launch_info = (new_launch ''jobs.test.DummyJob'')\<lparr>ln_params := ''parameters'', ln_req_gpu := False\<rparr>"

definition DummyJobWithChildren :: "env \<Rightarrow> pk \<Rightarrow> db \<Rightarrow> db \<times> (string list \<times> job_end)" where
  "DummyJobWithChildren e job_id d =
     (case yieldToChildren e job_id [child_launch_info, child_launch_info, child_launch_info] d of
        (d1, Inl x) \<Rightarrow> (d1, ([''Begin DummyJobWithChildren''], Crashed ''launch_job failed''))
      | (d1, Inr r) \<Rightarrow> (d1, ([''Begin DummyJobWithChildren''], r)))"

definition DummyJobSubprocessCaptureOutput :: "workstation \<Rightarrow> disk \<Rightarrow> (disk \<times> job_end) option" where
  "DummyJobSubprocessCaptureOutput m dk =
     (case run_subprocess m [''ipconfig'', ''/all''] False None dk of
        None \<Rightarrow> None
      | Some (dk1, Inl x) \<Rightarrow> Some (dk1, Crashed ''OSError'')
      | Some (dk1, Inr (retcode, _)) \<Rightarrow>
          Some (dk1, if retcode = 0 then Returned None else Crashed ''Expecting retcode=0''))"

text \<open>A picture whose left half is blue and whose right half is green.\<close>

definition dummy_pixels :: bytes where
  "dummy_pixels = concat (replicate 512 (concat (replicate 256 [255, 0, 0]) @ concat (replicate 256 [0, 255, 0])))"

definition DummyJobWithImage ::
    "bool \<Rightarrow> os \<Rightarrow> cv \<Rightarrow> upload_view \<Rightarrow> pk \<Rightarrow> disk \<Rightarrow> db \<Rightarrow> db \<times> (string list \<times> job_end)" where
  "DummyJobWithImage py2 os c view job_id dk d =
     (case set_job_image py2 os c view job_id (Pixels 512 512 dummy_pixels) True dk d of
        (d1, r) \<Rightarrow> (d1, ([''Uploading JPG thumbnail...''],
          (case r of None \<Rightarrow> Returned None | Some x \<Rightarrow> Crashed ''set_job_image failed''))))"

definition HttpTestJob :: "(string \<Rightarrow> answer) \<Rightarrow> string list \<times> job_end" where
  "HttpTestJob server =
     ([], if fst (server ''/archive/archive_session/3/'') = 200 then Returned None else Crashed ''Status'')"

text \<open>What goes to the log of the job instead of its pipe is not part of the result.\<close>

definition DummyJobWithLog :: "string list \<times> job_end" where
  "DummyJobWithLog = ([], Returned None)"

definition DummyJobSubprocessCaptureOutputFail :: "workstation \<Rightarrow> disk \<Rightarrow> (disk \<times> job_end) option" where
  "DummyJobSubprocessCaptureOutputFail m dk =
     (case run_subprocess m [''ipkasdjhfgak''] False None dk of
        None \<Rightarrow> None
      | Some (dk1, Inl x) \<Rightarrow> Some (dk1, Crashed ''OSError'')
      | Some (dk1, Inr _) \<Rightarrow> Some (dk1, Returned None))"

text \<open>
  The jobs that start a program without the helper: one whose output nobody reads, one through a shell, and one that
  collects both outputs in memory, which waits for ever if the program does. \<open>check_output\<close> raises when
  the code is not zero; a text that cannot be decoded raises as well.
\<close>

definition popen_wait :: "program \<Rightarrow> (py_exn + int \<times> bytes) option" where
  "popen_wait p =
     (case p of NoStart x \<Rightarrow> Some (Inl x) | Exits t retcode out \<Rightarrow> Some (Inr (retcode, out t)) | Endless _ \<Rightarrow> None)"

definition subprocess_check_output :: "program \<Rightarrow> (py_exn + bytes) option" where
  "subprocess_check_output p =
     map_option (\<lambda>r. case r of
         Inl x \<Rightarrow> Inl x
       | Inr (retcode, out) \<Rightarrow> if retcode \<noteq> 0 then Inl (PyException ''CalledProcessError'') else Inr out) (popen_wait p)"

definition crash :: "py_exn \<Rightarrow> job_end" where
  "crash x = (case x of PyException s \<Rightarrow> Crashed s | _ \<Rightarrow> Crashed ''OSError'')"

definition DummyJobSubprocess :: "workstation \<Rightarrow> job_end option" where
  "DummyJobSubprocess m =
     (let ipconfig = mc_program m [''ipconfig'', ''/all''] in
      case popen_wait ipconfig of
        None \<Rightarrow> None
      | Some (Inl x) \<Rightarrow> Some (crash x)
      | Some (Inr _) \<Rightarrow>
          (case subprocess_check_output ipconfig of
             None \<Rightarrow> None
           | Some (Inl x) \<Rightarrow> Some (crash x)
           | Some (Inr _) \<Rightarrow> Some (Returned None)))"

definition DummyJobSubprocessFail :: "workstation \<Rightarrow> job_end option" where
  "DummyJobSubprocessFail m =
     (case subprocess_check_output (mc_program m [''/bin/sh'', ''-c'', ''exit 1'']) of
        None \<Rightarrow> None
      | Some (Inl x) \<Rightarrow> Some (crash x)
      | Some (Inr _) \<Rightarrow> Some (Returned None))"

definition DummyJobSubprocessCaptureSmallOutput :: "(bytes \<Rightarrow> bytes \<times> bytes) \<Rightarrow> workstation \<Rightarrow> job_end option" where
  "DummyJobSubprocessCaptureSmallOutput streams m =
     (case popen_wait (mc_program m [''ipconfig'', ''/all'']) of
        None \<Rightarrow> None
      | Some (Inl x) \<Rightarrow> Some (crash x)
      | Some (Inr (_, out)) \<Rightarrow>
          (case streams out of
             (stdout, stderr) \<Rightarrow>
               (case (if stdout = [] then Inr [] else mc_decode m stdout) of
                  Inl x \<Rightarrow> Some (crash x)
                | Inr _ \<Rightarrow>
                    (case (if stderr = [] then Inr [] else mc_decode m stderr) of
                       Inl x \<Rightarrow> Some (crash x)
                     | Inr _ \<Rightarrow> Some (Returned None)))))"

text \<open>The shell ends with the code 1, and so the job always fails.\<close>

lemma DummyJobSubprocessFail_fails:
  assumes "mc_program m [''/bin/sh'', ''-c'', ''exit 1''] = Exits t 1 out"
  shows "DummyJobSubprocessFail m = Some (Crashed ''CalledProcessError'')"
  by (simp add: DummyJobSubprocessFail_def subprocess_check_output_def popen_wait_def crash_def assms)

section \<open>What a client offers\<close>

text \<open>
  A member of a module: its name and, if it is a class, whether it inherits from \<open>BaseJob\<close>,
  its text \<open>str(c)\<close>, and the exception of making an instance and checking the requirements.
\<close>

record job_class_info =
  jc_is_job :: bool
  jc_text :: string
  jc_missing :: "py_exn option"

definition class_name_of :: "string \<Rightarrow> string" where
  "class_name_of s = (if CHR 0x27 \<in> set s then split_on (CHR 0x27) s ! 1 else s)"

definition create_available_job_list :: "(string \<times> (string \<times> job_class_info option) list) list \<Rightarrow> string list" where
  "create_available_job_list modules =
     (let classes = concat (map (\<lambda>(m, members).
            if hd (split_on (CHR ''.'') m) = ''jobs''
            then concat (map (\<lambda>(name, c). case c of None \<Rightarrow> []
               | Some i \<Rightarrow> if jc_is_job i \<and> name \<noteq> ''BaseJob'' then [i] else []) members)
            else []) modules)
      in map (\<lambda>i. class_name_of (jc_text i)) (filter (\<lambda>i. jc_missing i = None) classes))"

section \<open>Processes\<close>

record processes =
  pr_alive :: "int set"
  pr_descendants :: "int \<Rightarrow> int list"
  pr_killable :: "int \<Rightarrow> bool"

text \<open>What cannot be killed is passed over; a process that does not exist raises.\<close>

definition kill_process_tree :: "int \<Rightarrow> bool \<Rightarrow> processes \<Rightarrow> py_exn + processes" where
  "kill_process_tree pid including_parent ps =
     (if pid \<notin> pr_alive ps then Inl (PyException ''NoSuchProcess'')
      else
        (let targets = pr_descendants ps pid @ (if including_parent then [pid] else [])
         in Inr (ps\<lparr>pr_alive := pr_alive ps - {p \<in> set targets. pr_killable ps p}\<rparr>)))"

end
