(* ===== verification/Routes.thy ===== *)
theory Routes
  imports Client_Base
begin

text \<open>
  The addresses of the server (\<open>ava/urls.py\<close> and the \<open>urls.py\<close> of the four
  applications): patterns that are tried in order against the front of a path, most of them without
  an end. The router of the REST framework contributes for each registered name a list and an object, each also
  with the suffix of a format. The included parts of other packages are not entered.
\<close>

section \<open>Patterns\<close>

datatype seg = Lit string | Digits | Slug | Key | Format | Optional_Slash

definition newline :: string where
  "newline = [CHR 0x0A]"

definition slug_char :: "char \<Rightarrow> bool" where
  "slug_char c \<longleftrightarrow> is_digit c \<or> (CHR ''a'' \<le> c \<and> c \<le> CHR ''z'') \<or> c = CHR ''_''"

definition format_char :: "char \<Rightarrow> bool" where
  "format_char c \<longleftrightarrow> is_digit c \<or> (CHR ''a'' \<le> c \<and> c \<le> CHR ''z'')"

definition key_char :: "char \<Rightarrow> bool" where
  "key_char c \<longleftrightarrow> c \<noteq> CHR ''/'' \<and> c \<noteq> CHR ''.''"

text \<open>
  \<open>re.search\<close> of a pattern that starts with \<open>^\<close>: the groups it captures and the rest of the
  path. A group is as long as possible, and no pattern continues with a character of the group
  before. The end \<open>$\<close> also matches before a final newline.
\<close>

definition group :: "(char \<Rightarrow> bool) \<Rightarrow> (string \<Rightarrow> (string list \<times> string) option) \<Rightarrow> string \<Rightarrow> (string list \<times> string) option" where
  "group P continue s =
     (if takeWhile P s = [] then None
      else (case continue (dropWhile P s) of None \<Rightarrow> None | Some (gs, r) \<Rightarrow> Some (takeWhile P s # gs, r)))"

fun match :: "seg list \<Rightarrow> bool \<Rightarrow> string \<Rightarrow> (string list \<times> string) option" where
  "match [] ended s = (if ended \<and> s \<noteq> [] \<and> s \<noteq> newline then None else Some ([], s))"
| "match (Lit l # ps) ended s =
     (if List.take (length l) s = l then match ps ended (drop (length l) s) else None)"
| "match (Digits # ps) ended s = group is_digit (match ps ended) s"
| "match (Slug # ps) ended s = group slug_char (match ps ended) s"
| "match (Key # ps) ended s = group key_char (match ps ended) s"
| "match (Format # ps) ended s = group format_char (match ps ended) s"
| "match (Optional_Slash # ps) ended s =
     (case match ps ended (if List.take 1 s = ''/'' then drop 1 s else s) of
        Some r \<Rightarrow> Some r | None \<Rightarrow> match ps ended s)"

type_synonym route = "seg list \<times> bool \<times> string"

text \<open>The first route that matches, with the groups.\<close>

fun first_route :: "route list \<Rightarrow> string \<Rightarrow> (string \<times> string list) option" where
  "first_route [] s = None"
| "first_route ((ps, ended, view) # rs) s =
     (case match ps ended s of Some (gs, _) \<Rightarrow> Some (view, gs) | None \<Rightarrow> first_route rs s)"

text \<open>\<open>DefaultRouter\<close>: the routes of a registered name, and the root after all names.\<close>

definition rest_routes :: "string \<times> string \<Rightarrow> route list" where
  "rest_routes nv = (case nv of (name, view) \<Rightarrow>
     [([Lit (name @ ''/'')], True, view @ ''-list''),
      ([Lit (name @ ''.''), Format, Optional_Slash], True, view @ ''-list''),
      ([Lit (name @ ''/''), Key, Lit ''/''], True, view @ ''-detail''),
      ([Lit (name @ ''/''), Key, Lit ''.'', Format, Optional_Slash], True, view @ ''-detail'')])"

definition router :: "(string \<times> string) list \<Rightarrow> route list" where
  "router names = concat (map rest_routes names) @
     [([], True, ''api-root''), ([Lit ''.'', Format, Optional_Slash], True, ''api-root'')]"

section \<open>The tables\<close>

definition capture_router :: "(string \<times> string) list" where
  "capture_router = [(''loc'', ''LocationsViewSet'')]"

definition capture_urls :: "route list" where
  "capture_urls =
     [([Lit ''cameras_detailed/'', Digits], False, ''cameras_detailed''),
      ([Lit ''camera_detailed/'', Digits, Lit ''/'', Digits], False, ''camera_detailed''),
      ([Lit ''location/'', Digits], False, ''location''),
      ([Lit ''locations''], False, ''get_locations''),
      ([Lit ''node_discover''], False, ''node_discover''),
      ([Lit ''node_shutdown''], False, ''node_shutdown''),
      ([Lit ''location_config/'', Digits], False, ''location_config''),
      ([Lit ''camera_parameter/'', Digits], False, ''camera_parameter''),
      ([Lit ''new_session/'', Digits], False, ''post_new_session''),
      ([Lit ''new_shot/'', Digits], False, ''post_new_shot''),
      ([Lit ''start_recording''], False, ''post_start_recording''),
      ([Lit ''stop_recording''], False, ''post_stop_recording''),
      ([Lit ''record_single_image''], False, ''post_record_single_image''),
      ([Lit ''toggle_using_sync''], False, ''post_toggle_using_sync''),
      ([Lit ''toggle_capturing''], False, ''post_toggle_capturing''),
      ([Lit ''set_camera_rotation''], False, ''post_set_camera_rotation''),
      ([Lit ''close_node''], False, ''post_close_node''),
      ([Lit ''camera_set_roi''], False, ''post_set_roi''),
      ([Lit ''camera_reset_roi''], False, ''post_reset_roi''),
      ([Lit ''message''], False, ''post_message'')]"

definition jobs_router :: "(string \<times> string) list" where
  "jobs_router = [(''farm_nodes'', ''FarmNodeViewSet''), (''farm_groups'', ''FarmGroupsViewSet''),
     (''recent_farm_jobs'', ''RecentFarmJobsViewSet''), (''recent_finished_jobs'', ''RecentFinishedFarmJobsViewSet''),
     (''farm_jobs'', ''FarmJobsViewSet'')]"

definition jobs_urls :: "route list" where
  "jobs_urls =
     [([Lit ''client_discover''], False, ''post_client_discover''),
      ([Lit ''submit_test_job''], False, ''submit_test_job''),
      ([Lit ''delete_job''], False, ''delete_job''),
      ([Lit ''kill_job''], False, ''kill_job''),
      ([Lit ''restart_failed_child_job''], False, ''restart_job_failed_child''),
      ([Lit ''restart_job''], False, ''restart_job''),
      ([Lit ''reload_client''], False, ''post_reload_client''),
      ([Lit ''aws_start_instance''], False, ''post_aws_start_instance''),
      ([Lit ''job_image/'', Digits], False, ''job_image''),
      ([Lit ''job_mesh/'', Digits], False, ''job_mesh''),
      ([Lit ''job_output/'', Digits], False, ''job_output''),
      ([Lit ''farm_job/'', Digits], False, ''job_detailed''),
      ([Lit ''farm_node/'', Digits], False, ''node_detailed'')]"

definition archive_router :: "(string \<times> string) list" where
  "archive_router = [(''archive_projects'', ''ProjectsViewSet''), (''asset_projects'', ''ProjectAssetsViewSet''),
     (''archive_project'', ''ProjectArchiveViewSet''), (''archive_session'', ''SessionDetailsViewSet''),
     (''archive_session_export'', ''SessionExportViewSet''), (''staticscanasset'', ''StaticScanAssetViewSet''),
     (''trackingasset'', ''TrackingAssetViewSet''), (''take'', ''TakeViewSet''), (''shot'', ''ShotViewSet''),
     (''session'', ''SessionViewSet'')]"

definition archive_urls :: "route list" where
  "archive_urls =
     [([Lit ''archive_session_export_json/'', Digits], False, ''get_archive_json_file''),
      ([Lit ''get_export_path''], False, ''get_last_export_path''),
      ([Lit ''export_takes''], False, ''post_export_takes''),
      ([Lit ''delete_takes''], False, ''post_delete_takes''),
      ([Lit ''set_take_flag''], False, ''post_set_take_flag''),
      ([Lit ''set_frontal_cam''], False, ''post_set_frontal_cam''),
      ([Lit ''create_tracking_asset''], False, ''post_create_tracking_asset''),
      ([Lit ''take_video_thumbnail/'', Digits], False, ''post_take_video_thumbnail''),
      ([Lit ''tracking_asset_thumbnail/'', Digits], False, ''post_tracking_video_thumbnail''),
      ([Lit ''tracking_asset_frame_thumbnail/'', Digits, Lit ''/'', Slug], False, ''post_tracking_asset_thumbnail''),
      ([Lit ''scan_asset_thumbnail/'', Digits, Lit ''/'', Slug], False, ''post_scan_asset_thumbnail''),
      ([Lit ''import_session/'', Digits], False, ''post_import_session''),
      ([Lit ''download_original''], False, ''download_original'')]"

definition accounts_router :: "(string \<times> string) list" where
  "accounts_router = [(''users'', ''UserViewSet''), (''groups'', ''GroupViewSet'')]"

definition accounts_urls :: "route list" where
  "accounts_urls =
     [([], True, ''index''), ([Lit ''current_user''], True, ''current_user''),
      ([Lit ''all_users''], True, ''all_users''), ([Lit ''login''], True, ''login''),
      ([Lit ''logout''], True, ''logout''), ([Lit ''info''], True, ''info'')]"

datatype target = App "route list" | View string | Elsewhere

definition root_urls :: "(string \<times> target) list" where
  "root_urls =
     [(''accounts/'', App (router accounts_router @ accounts_urls)),
      (''capture/'', App (router capture_router @ capture_urls)),
      (''jobs/'', App (router jobs_router @ jobs_urls)),
      (''archive/'', App (router archive_router @ archive_urls)),
      (''admin/'', Elsewhere), (''oauth2/'', View ''get_oauth2''),
      (''api-token-auth/'', View ''obtain_jwt_token''), (''api-token-refresh/'', View ''refresh_jwt_token''),
      ([], Elsewhere)]"

text \<open>The path of a request, after its first slash. \<open>None\<close>: not one of the program's views.\<close>

fun resolve_in :: "(string \<times> target) list \<Rightarrow> string \<Rightarrow> (string \<times> string list) option" where
  "resolve_in [] s = None"
| "resolve_in ((p, t) # rest) s =
     (if List.take (length p) s = p then
        (case t of
           App rs \<Rightarrow> (case first_route rs (drop (length p) s) of Some r \<Rightarrow> Some r | None \<Rightarrow> resolve_in rest s)
         | View v \<Rightarrow> Some (v, [])
         | Elsewhere \<Rightarrow> None)
      else resolve_in rest s)"

definition resolve :: "string \<Rightarrow> (string \<times> string list) option" where
  "resolve path = (case path of c # s \<Rightarrow> if c = CHR ''/'' then resolve_in root_urls s else None | [] \<Rightarrow> None)"

section \<open>No view is hidden\<close>

fun head_literal :: "seg list \<Rightarrow> string option" where
  "head_literal (Lit l # ps) = Some l"
| "head_literal _ = None"

lemma match_head: "match ps ended s \<noteq> None \<Longrightarrow> head_literal ps = Some l \<Longrightarrow> List.take (length l) s = l"
  by (cases "(ps, ended, s)" rule: match.cases) (auto split: if_splits)

text \<open>Two routes that no path matches both: neither literal is a front of the other, or one is the root.\<close>

definition apart :: "route \<Rightarrow> route \<Rightarrow> bool" where
  "apart r r' \<longleftrightarrow>
     (case head_literal (fst r) of None \<Rightarrow> False
      | Some l \<Rightarrow>
          l \<noteq> [] \<and>
          (case head_literal (fst r') of
             Some l' \<Rightarrow> List.take (length l) l' \<noteq> l \<and> List.take (length l') l \<noteq> l'
           | None \<Rightarrow> fst r' = [] \<and> fst (snd r') \<and> hd l \<noteq> CHR 0x0A))"

lemma apart_match:
  assumes "apart (ps, ended, v) (ps', ended', v')" "match ps ended s \<noteq> None"
  shows "match ps' ended' s = None"
proof (rule ccontr)
  assume m: "match ps' ended' s \<noteq> None"
  from assms(1) obtain l where l: "head_literal ps = Some l" "l \<noteq> []" by (auto simp: apart_def split: option.splits)
  have t: "List.take (length l) s = l" using match_head [OF assms(2) l(1)] .
  show False
  proof (cases "head_literal ps'")
    case None
    then have "ps' = []" "ended'" "hd l \<noteq> CHR 0x0A" using assms(1) l by (auto simp: apart_def)
    with m have "s = [] \<or> s = newline" by (auto split: if_splits)
    with t l(2) \<open>hd l \<noteq> CHR 0x0A\<close> show False by (cases l) (auto simp: newline_def)
  next
    case (Some l')
    have t': "List.take (length l') s = l'" using match_head [OF m Some] .
    have "List.take (length l) l' = l \<or> List.take (length l') l = l'"
      using t t' by (metis le_cases min.absorb1 min.absorb2 take_take)
    then show False using assms(1) l Some by (auto simp: apart_def)
  qed
qed

lemma first_route_answers:
  assumes "r \<in> set rs" "\<forall>r' \<in> set rs. r' = r \<or> apart r r'" "match (fst r) (fst (snd r)) s = Some (gs, rest)"
  shows "first_route rs s = Some (snd (snd r), gs)"
  using assms
proof (induction rs)
  case (Cons r' rs)
  obtain ps ended v where r: "r = (ps, ended, v)" by (cases r)
  obtain ps' ended' v' where r': "r' = (ps', ended', v')" by (cases r')
  show ?case
  proof (cases "r' = r")
    case True
    with Cons.prems r show ?thesis by simp
  next
    case False
    then have "apart r r'" using Cons.prems(2) by simp
    then have "match ps' ended' s = None" using apart_match Cons.prems(3) unfolding r r' by fastforce
    with Cons False show ?thesis by (simp add: r')
  qed
qed simp

definition answers_all :: "route list \<Rightarrow> route list \<Rightarrow> bool" where
  "answers_all urls rs \<longleftrightarrow> list_all (\<lambda>r. list_all (\<lambda>r'. r' = r \<or> apart r r') (rs @ urls)) urls"

lemma answers_all_tables:
  "answers_all capture_urls (router capture_router)"
  "answers_all jobs_urls (router jobs_router)"
  "answers_all archive_urls (router archive_router)"
  by code_simp+

text \<open>
  C23: in the tables of the capture system, the farm and the archive no view is hidden: every
  path that the pattern of a view matches is answered by this view, with the groups of its pattern, whatever comes before it in the
  table. The first view of the accounts is hidden by the root of the router.
\<close>

theorem every_view_answers:
  assumes "(names, urls) \<in> {(capture_router, capture_urls), (jobs_router, jobs_urls), (archive_router, archive_urls)}"
    and "(ps, ended, view) \<in> set urls" "match ps ended s = Some (gs, rest)"
  shows "first_route (router names @ urls) s = Some (view, gs) \<and>
    first_route (router accounts_router @ accounts_urls) [] \<noteq> Some (''index'', [])"
proof
  have "answers_all urls (router names)" using assms(1) answers_all_tables by auto
  then have "\<forall>r' \<in> set (router names @ urls). r' = (ps, ended, view) \<or> apart (ps, ended, view) r'"
    using assms(2) by (simp only: answers_all_def list_all_iff) blast
  with assms(2,3) show "first_route (router names @ urls) s = Some (view, gs)"
    using first_route_answers [of "(ps, ended, view)" "router names @ urls" s gs rest] by simp
  show "first_route (router accounts_router @ accounts_urls) [] \<noteq> Some (''index'', [])"
    by code_simp
qed

lemma every_view_answers_witness:
  "first_route (router jobs_router @ jobs_urls) ''farm_job/12'' = Some (''job_detailed'', [''12''])"
proof -
  have "([Lit ''farm_job/'', Digits], False, ''job_detailed'') \<in> set jobs_urls" by code_simp
  moreover have "match [Lit ''farm_job/'', Digits] False ''farm_job/12'' = Some ([''12''], [])" by code_simp
  ultimately show ?thesis using every_view_answers [of jobs_router jobs_urls] by blast
qed

end
