(* ===== verification/Client_Server.thy ===== *)
theory Client_Server
  imports Routes
begin

text \<open>
  The requests of jobs meet the tables of the server: the address a job asks for is resolved, the
  view is called, and its answer is what the job gets. A path that only lacks its final slash is
  redirected, as \<open>CommonMiddleware\<close> does. Running programs and uploading pictures are the other
  dealings of a job with the outside.
\<close>

section \<open>GET requests\<close>

definition as_answer :: "json outcome \<Rightarrow> answer" where
  "as_answer r = (case r of Json n j \<Rightarrow> (n, j) | Http n \<Rightarrow> (n, JNull) | Raised _ \<Rightarrow> (500, JNull))"

definition rendered :: "(py_exn + json) option \<Rightarrow> json outcome" where
  "rendered r = (case r of None \<Rightarrow> Http 404 | Some (Inl x) \<Rightarrow> Raised x | Some (Inr j) \<Rightarrow> Json 200 j)"

text \<open>
  The views that jobs ask, by their names in the tables. The object views of the REST interface look up the text of the address
  as a number. All other views of the server, and none of them is asked here, are the argument \<open>others\<close>.
\<close>

definition rest_object :: "'r table \<Rightarrow> (pk \<times> 'r \<Rightarrow> py_exn + json) \<Rightarrow> string \<Rightarrow> (py_exn + json) option" where
  "rest_object tab render g =
     (if list_all is_digit g then map_option (\<lambda>r. render (read_nat g, r)) (t_get tab (read_nat g)) else None)"

definition get_view ::
  "(string \<times> string list \<Rightarrow> json outcome) \<Rightarrow> (time \<Rightarrow> string) \<Rightarrow> env \<Rightarrow> db \<Rightarrow> string \<times> string list \<Rightarrow> json outcome" where
  "get_view others dt e d r =
     (case r of
        (view, [g]) \<Rightarrow>
          (if view = ''job_detailed'' then job_detailed dt e (read_nat g) d
           else if view = ''node_detailed'' then node_detailed dt e (read_nat g) d
           else if view = ''TakeViewSet-detail'' then rendered (rest_object (db_takes d) (take_json dt (e_user e) d) g)
           else if view = ''TrackingAssetViewSet-detail'' then
             rendered (rest_object (db_tracks d) (track_take_json dt (e_user e) d) g)
           else if view = ''StaticScanAssetViewSet-detail'' then
             rendered (rest_object (db_scans d) (\<lambda>a. Inr (scan_json d a)) g)
           else others r)
      | _ \<Rightarrow> others r)"

definition serve_get ::
  "(string \<times> string list \<Rightarrow> json outcome) \<Rightarrow> (time \<Rightarrow> string) \<Rightarrow> env \<Rightarrow> db \<Rightarrow> string \<Rightarrow> answer" where
  "serve_get others dt e d path =
     as_answer (case resolve path of
        Some r \<Rightarrow> get_view others dt e d r
      | None \<Rightarrow>
          (if path \<noteq> [] \<and> last path = CHR ''/'' then Http 404
           else (case resolve (path @ ''/'') of Some r \<Rightarrow> get_view others dt e d r | None \<Rightarrow> Http 404)))"

lemma show_nat_is_digit: "c \<in> set (show_nat n) \<Longrightarrow> is_digit c"
proof -
  assume "c \<in> set (show_nat n)"
  then obtain i where "i < 10" "c = digit_char i" using show_nat_digit by blast
  moreover have "\<forall>i \<in> set [0..<10]. is_digit (digit_char i)" by code_simp
  ultimately show ?thesis by simp
qed

lemma show_nat_Nil [simp]: "show_nat n \<noteq> []"
  by (simp add: show_nat_def digits_of_nonempty)

lemma digits_run:
  assumes "rest = [] \<or> \<not> is_digit (hd rest)"
  shows "takeWhile is_digit (show_nat n @ rest) = show_nat n" "dropWhile is_digit (show_nat n @ rest) = rest"
proof -
  have "takeWhile is_digit (show_nat n @ rest) = show_nat n @ takeWhile is_digit rest"
    "dropWhile is_digit (show_nat n @ rest) = dropWhile is_digit rest"
    using show_nat_is_digit by (simp_all add: takeWhile_append2 dropWhile_append2)
  with assms show "takeWhile is_digit (show_nat n @ rest) = show_nat n"
    "dropWhile is_digit (show_nat n @ rest) = rest" by (cases rest; simp)+
qed

lemma digits_alone: "takeWhile is_digit (show_nat n) = show_nat n" "dropWhile is_digit (show_nat n) = []"
  using show_nat_is_digit by simp_all

lemma show_nat_newline [simp]: "show_nat n @ s \<noteq> newline"
proof
  assume "show_nat n @ s = newline"
  then have "hd (show_nat n) = CHR 0x0A" by (cases "show_nat n") (auto simp: newline_def dest: arg_cong [of _ _ hd])
  moreover have "is_digit (hd (show_nat n))" by (rule show_nat_is_digit [of _ n]) simp
  ultimately show False by (simp add: is_digit_def less_eq_char_def)
qed

lemma is_digit_key: "is_digit c \<Longrightarrow> key_char c"
proof -
  assume "is_digit c"
  then have "c \<noteq> CHR ''/''" "c \<noteq> CHR ''.''" by (auto simp: is_digit_def less_eq_char_def)
  then show ?thesis by (simp add: key_char_def)
qed

lemma key_run:
  assumes "rest = [] \<or> \<not> key_char (hd rest)"
  shows "takeWhile key_char (show_nat n @ rest) = show_nat n" "dropWhile key_char (show_nat n @ rest) = rest"
proof -
  have "takeWhile key_char (show_nat n @ rest) = show_nat n @ takeWhile key_char rest"
    "dropWhile key_char (show_nat n @ rest) = dropWhile key_char rest"
    using show_nat_is_digit is_digit_key by (simp_all add: takeWhile_append2 dropWhile_append2)
  with assms show "takeWhile key_char (show_nat n @ rest) = show_nat n"
    "dropWhile key_char (show_nat n @ rest) = rest" by (cases rest; simp)+
qed

lemma key_alone: "takeWhile key_char (show_nat n) = show_nat n" "dropWhile key_char (show_nat n) = []"
  using show_nat_is_digit is_digit_key by (simp_all; blast)+

lemma not_digit_slash [simp]: "\<not> is_digit (CHR ''/'')" "\<not> key_char (CHR ''/'')" "\<not> key_char (CHR ''.'')"
  by (simp_all add: is_digit_def key_char_def less_eq_char_def)

lemma resolve_job: "resolve (''/jobs/farm_job/'' @ show_nat k) = Some (''job_detailed'', [show_nat k])"
proof -
  have "group is_digit (match [] False) (show_nat k) = Some ([show_nat k], [])"
    by (simp only: group_def digits_alone) simp
  then have "match [Lit ''farm_job/'', Digits] False (''farm_job/'' @ show_nat k) = Some ([show_nat k], [])"
    by simp
  moreover have "([Lit ''farm_job/'', Digits], False, ''job_detailed'') \<in> set jobs_urls" by code_simp
  ultimately have "first_route (router jobs_router @ jobs_urls) (''farm_job/'' @ show_nat k) =
      Some (''job_detailed'', [show_nat k])"
    using first_route_answers [of "([Lit ''farm_job/'', Digits], False, ''job_detailed'')"
        "router jobs_router @ jobs_urls"] answers_all_tables(2)
    by (fastforce simp: answers_all_def list_all_iff)
  then show ?thesis by (simp add: resolve_def root_urls_def)
qed

lemma rest_detail_match:
  "match [Lit l, Key, Lit ''/''] True (l @ show_nat k @ ''/'') = Some ([show_nat k], [])"
proof -
  have "takeWhile key_char (show_nat k @ ''/'') = show_nat k" "dropWhile key_char (show_nat k @ ''/'') = ''/''"
    using key_run [of "''/''" k] by (simp_all only: list.sel not_digit_slash simp_thms)
  then show ?thesis by (simp add: group_def)
qed

lemma resolve_rest:
  "resolve (''/archive/take/'' @ show_nat k @ ''/'') = Some (''TakeViewSet-detail'', [show_nat k])"
  "resolve (''/archive/staticscanasset/'' @ show_nat k @ ''/'') = Some (''StaticScanAssetViewSet-detail'', [show_nat k])"
  "resolve (''/archive/trackingasset/'' @ show_nat k @ ''/'') = Some (''TrackingAssetViewSet-detail'', [show_nat k])"
  "resolve (''/jobs/farm_jobs/'' @ show_nat k @ ''/'') = Some (''FarmJobsViewSet-detail'', [show_nat k])"
  using rest_detail_match [of "''take/''" k] rest_detail_match [of "''staticscanasset/''" k]
    rest_detail_match [of "''trackingasset/''" k] rest_detail_match [of "''farm_jobs/''" k]
  by (simp_all add: resolve_def root_urls_def router_def rest_routes_def archive_router_def jobs_router_def)

lemma no_rest_without_slash:
  "resolve (''/archive/take/'' @ show_nat k) = None"
  "resolve (''/archive/staticscanasset/'' @ show_nat k) = None"
  "resolve (''/archive/trackingasset/'' @ show_nat k) = None"
proof -
  have g: "group key_char f (show_nat k) = (case f [] of None \<Rightarrow> None | Some (gs, r) \<Rightarrow> Some (show_nat k # gs, r))" for f
    by (simp only: group_def key_alone) simp
  show "resolve (''/archive/take/'' @ show_nat k) = None"
    "resolve (''/archive/staticscanasset/'' @ show_nat k) = None"
    "resolve (''/archive/trackingasset/'' @ show_nat k) = None"
    using show_nat_newline [of k "[]"]
    by (simp_all add: newline_def resolve_def root_urls_def router_def rest_routes_def archive_router_def archive_urls_def g)
qed

lemma last_show_nat [simp]: "last (show_nat n) \<noteq> CHR ''/''"
proof -
  have "is_digit (last (show_nat n))" by (rule show_nat_is_digit [of _ n]) simp
  then show ?thesis by (auto simp: is_digit_def less_eq_char_def)
qed

lemma rest_object_show [simp]:
  "rest_object tab render (show_nat k) = map_option (\<lambda>r. render (k, r)) (t_get tab k)"
  using show_nat_is_digit by (auto simp: rest_object_def list_all_iff)

lemma serve_rest:
  "serve_get others dt e d (''/archive/take/'' @ show_nat i) =
     as_answer (rendered (map_option (\<lambda>t. take_json dt (e_user e) d (i, t)) (t_get (db_takes d) i)))"
  "serve_get others dt e d (''/archive/staticscanasset/'' @ show_nat i) =
     as_answer (rendered (map_option (\<lambda>a. Inr (scan_json d (i, a))) (t_get (db_scans d) i)))"
  "serve_get others dt e d (''/archive/trackingasset/'' @ show_nat i) =
     as_answer (rendered (map_option (\<lambda>a. track_take_json dt (e_user e) d (i, a)) (t_get (db_tracks d) i)))"
  "serve_get others dt e d (''/jobs/farm_job/'' @ show_nat i) = as_answer (job_detailed dt e i d)"
  using no_rest_without_slash [of i] resolve_rest [of i] resolve_job [of i]
  by (simp_all add: serve_get_def get_view_def)

lemma as_answer_rendered:
  "server_get_json (as_answer (rendered r)) =
     (case r of Some (Inr j) \<Rightarrow> Inr j | _ \<Rightarrow> Inl (PyException ''Status''))"
  by (auto simp: as_answer_def rendered_def server_get_json_def split: option.splits sum.splits)

lemma as_answer_job:
  "server_get_json (as_answer (job_detailed dt e k d)) =
     (case t_get (db_jobs d) k of
        Some j \<Rightarrow> Inr (farm_job_detailed_json dt (e_user e) d (k, j)) | None \<Rightarrow> Inl (PyException ''Status''))"
  by (simp add: as_answer_def job_detailed_def server_get_json_def split: option.splits)

text \<open>
  C21: what a job asks for is what it gets: its own row by its number, the take, the scan and the
  tracking asset with a number, each as the serializer of that object renders it; an object that does
  not exist raises in the job.
\<close>

theorem jobs_read_the_archive:
  "k \<noteq> 0 \<Longrightarrow> get_job_info (serve_get others dt e d) (Some k) self_id =
     (case t_get (db_jobs d) k of
        Some j \<Rightarrow> Inr (Some (farm_job_detailed_json dt (e_user e) d (k, j)))
      | None \<Rightarrow> Inl (PyException ''Status''))
   \<and> get_take_info (serve_get others dt e d) i =
     (case t_get (db_takes d) i of
        Some t \<Rightarrow> (case take_json dt (e_user e) d (i, t) of Inr j \<Rightarrow> Inr j | Inl _ \<Rightarrow> Inl (PyException ''Status''))
      | None \<Rightarrow> Inl (PyException ''Status''))
   \<and> get_scan_asset_info (serve_get others dt e d) i =
     (case t_get (db_scans d) i of Some a \<Rightarrow> Inr (scan_json d (i, a)) | None \<Rightarrow> Inl (PyException ''Status''))
   \<and> get_tracking_asset_info (serve_get others dt e d) i =
     (case t_get (db_tracks d) i of
        Some a \<Rightarrow> (case track_take_json dt (e_user e) d (i, a) of Inr j \<Rightarrow> Inr j | Inl _ \<Rightarrow> Inl (PyException ''Status''))
      | None \<Rightarrow> Inl (PyException ''Status''))"
  by (intro conjI) (auto simp: get_job_info_def job_info_url_def get_take_info_def get_scan_asset_info_def
      get_tracking_asset_info_def serve_rest [simplified] as_answer_rendered as_answer_job
      split: option.splits sum.splits)

lemma jobs_read_the_archive_witness:
  "\<exists>j. get_job_info (serve_get (\<lambda>_. Http 404) show_int sample_env sample_queue) (Some 3) None =
     Inr (Some (farm_job_detailed_json show_int (e_user sample_env) sample_queue (3, j)))"
proof -
  have "t_get (db_jobs sample_queue) 3 = Some ((sample_job Ready)\<lparr>fj_priority := 80\<rparr>)"
    by (simp add: sample_queue_def farm_with_def t_get_def)
  with jobs_read_the_archive [of 3 "\<lambda>_. Http 404" show_int sample_env sample_queue None 3] show ?thesis
    by (intro exI [of _ "(sample_job Ready)\<lparr>fj_priority := 80\<rparr>"]) simp
qed

section \<open>Programs\<close>

text \<open>
  A call with a timeout always returns; without one it returns unless the program runs
  for ever. When it returns the code and the output, these are the program's (or the kill's), the
  temporary file is gone and no other file has changed. A program that cannot be started raises without a timeout, and then
  the temporary file stays; with a timeout the failure is the code -1 and an empty output.
\<close>

theorem run_subprocess_returns:
  "(run_subprocess m cmd check_output timeout dk = None \<longleftrightarrow> timeout = None \<and> (\<exists>out. mc_program m cmd = Endless out)) \<and>
   (run_subprocess m cmd check_output timeout dk = Some (dk', Inr (retcode, output)) \<longrightarrow>
      dk_files dk' = (dk_files dk)(os_locate (mc_os m) (mc_temp m) := None) \<and>
      (check_output \<longrightarrow> retcode = 0) \<and>
      (\<exists>out. mc_decode m out = Inr output \<and>
        ((\<exists>t f. mc_program m cmd = Exits t retcode f \<and> out = f t) \<or>
         (\<exists>limit f. timeout = Some limit \<and> retcode = mc_killed m \<and> out = f limit \<and>
            (mc_program m cmd = Endless f \<or> (\<exists>t rc. mc_program m cmd = Exits t rc f \<and> limit < t))) \<or>
         timeout \<noteq> None \<and> retcode = - 1 \<and> out = [] \<and> (\<exists>x. mc_program m cmd = NoStart x)))) \<and>
   (\<forall>x. mc_program m cmd = NoStart x \<and> timeout = None \<longrightarrow>
      run_subprocess m cmd check_output timeout dk = Some (write_temp m [] dk, Inl x))"
proof (intro conjI)
  show "run_subprocess m cmd check_output timeout dk = None \<longleftrightarrow> timeout = None \<and> (\<exists>out. mc_program m cmd = Endless out)"
    by (auto simp: run_subprocess_def case_prod_beta split: option.splits program.splits)
  show "\<forall>x. mc_program m cmd = NoStart x \<and> timeout = None \<longrightarrow>
      run_subprocess m cmd check_output timeout dk = Some (write_temp m [] dk, Inl x)"
    by (simp add: run_subprocess_def)
  have collect: "dk_files dk' = (dk_files dk)(os_locate (mc_os m) (mc_temp m) := None) \<and> rc = retcode \<and>
      (check_output \<longrightarrow> retcode = 0) \<and> mc_decode m out = Inr output"
    if "collect_output m cmd check_output rc out dk = (dk', Inr (retcode, output))" for rc out
    using that by (auto simp: collect_output_def write_temp_def os_remove_def Let_def split: sum.splits option.splits if_splits)
  show "run_subprocess m cmd check_output timeout dk = Some (dk', Inr (retcode, output)) \<longrightarrow>
      dk_files dk' = (dk_files dk)(os_locate (mc_os m) (mc_temp m) := None) \<and>
      (check_output \<longrightarrow> retcode = 0) \<and>
      (\<exists>out. mc_decode m out = Inr output \<and>
        ((\<exists>t f. mc_program m cmd = Exits t retcode f \<and> out = f t) \<or>
         (\<exists>limit f. timeout = Some limit \<and> retcode = mc_killed m \<and> out = f limit \<and>
            (mc_program m cmd = Endless f \<or> (\<exists>t rc. mc_program m cmd = Exits t rc f \<and> limit < t))) \<or>
         timeout \<noteq> None \<and> retcode = - 1 \<and> out = [] \<and> (\<exists>x. mc_program m cmd = NoStart x)))"
    by (cases "mc_program m cmd"; cases timeout)
      (force simp: run_subprocess_def popen_with_timeout_def dest!: collect split: if_splits)+
qed

section \<open>Pictures of jobs\<close>

text \<open>
  A picture that a job uploads: with Python 3 no upload is ever tried; with Python 2 a picture
  from memory is encoded, at most 512 pixels wide, and the server stores it under
  the number of the job and keeps its name in the job's row.
\<close>

theorem job_image_stored:
  assumes "py2" "t_get (db_jobs d) k = Some j"
  shows "set_job_image py2 os c (\<lambda>k up d. job_image e (Inr u) None k up d) k (Pixels h w px) True dk d =
    (save_job (e_now e) k (j\<lparr>fj_image_filename := Some (job_file_name k u (upload_name k ''.jpg''))\<rparr>)
       (d\<lparr>db_files := (db_files d)(job_file_name k u (upload_name k ''.jpg'') \<mapsto>
          text_of (cv_imwrite c (scaled c True (h, w, px))))\<rparr>), None) \<and>
    fst (snd (scaled c True (h, w, px))) \<le> 512 \<and>
    snd (set_job_image False os c v k img resize dk d) = Some (NameError ''basestring'')"
  using assms by (simp add: set_job_image_def send_picture_def job_image_def store_job_file_def scaled_def Let_def)

lemma job_image_stored_witness:
  "\<exists>c. snd (set_job_image True os c (\<lambda>k up d. job_image sample_env (Inr ''U'') None k up d) 3 (Pixels 600 800 []) True dk sample_queue) = None"
proof -
  have "t_get (db_jobs sample_queue) 3 = Some ((sample_job Ready)\<lparr>fj_priority := 80\<rparr>)"
    by (simp add: sample_queue_def farm_with_def t_get_def)
  from job_image_stored [OF TrueI this, of os "\<lparr>cv_imread = (\<lambda>_. None), cv_resize = (\<lambda>i _ _. snd (snd i)), cv_imwrite = (\<lambda>i. snd (snd i))\<rparr>"
      sample_env "''U''" 600 800 "[]" dk "\<lambda>_ _ d. (d, Http 200)" "Path []" True]
  show ?thesis by (metis snd_conv)
qed

end
