(* ===== verification/Client_Lock.thy ===== *)
theory Client_Lock
  imports Prelude
begin

text \<open>
  The lock file of the job client (\<open>SingleInstance\<close> and \<open>make_single_instance\<close> in
  \<open>job_client.py\<close>), step by step as the operating system sees it, with any number of processes
  started and stopped in any order: on Linux a lock on the open file, on Windows a file that is created
  exclusively and stays open. A name leads to a file, and removing the name leaves
  the open file as it is.
\<close>

section \<open>Linux\<close>

text \<open>
  A process: not started, with the file open, in possession of the lock and thus in the body of \<open>with\<close>,
  after the release, after the test for the file, ended, or refused with the exception \<open>Already Running\<close>.
\<close>

datatype client =
    Fresh | Opened nat | Holding nat | Released | Removing | Over | Refused

record lock_state =
  lock_file :: "nat option"
  next_file :: nat
  locked_by :: "nat \<Rightarrow> nat option"
  instances :: "nat \<Rightarrow> client"

datatype lock_event =
    Open_file nat | Try_lock nat | Unlock nat | Is_file nat | Unlink nat | Killed nat

definition set_instance :: "nat \<Rightarrow> client \<Rightarrow> lock_state \<Rightarrow> lock_state" where
  "set_instance p x s = s\<lparr>instances := (instances s)(p := x)\<rparr>"

text \<open>
  \<open>open(lock_file, 'w')\<close> makes the file when the name is free; \<open>lockf\<close> with \<open>LOCK_NB\<close> fails when
  another process has the lock; \<open>__del__\<close> unlocks, tests the name and removes it. The end of a process
  that is killed frees its lock and nothing else.
\<close>

fun lock_step :: "lock_event \<Rightarrow> lock_state \<Rightarrow> lock_state option" where
  "lock_step (Open_file p) s =
     (if instances s p \<noteq> Fresh then None
      else case lock_file s of
          Some i \<Rightarrow> Some (set_instance p (Opened i) s)
        | None \<Rightarrow> Some (set_instance p (Opened (next_file s))
            (s\<lparr>lock_file := Some (next_file s), next_file := Suc (next_file s)\<rparr>)))"
| "lock_step (Try_lock p) s =
     (case instances s p of
        Opened i \<Rightarrow>
          (if locked_by s i = None
           then Some (set_instance p (Holding i) (s\<lparr>locked_by := (locked_by s)(i := Some p)\<rparr>))
           else Some (set_instance p Refused s))
      | _ \<Rightarrow> None)"
| "lock_step (Unlock p) s =
     (case instances s p of
        Holding i \<Rightarrow> Some (set_instance p Released (s\<lparr>locked_by := (locked_by s)(i := None)\<rparr>))
      | _ \<Rightarrow> None)"
| "lock_step (Is_file p) s =
     (if instances s p \<noteq> Released then None
      else Some (set_instance p (if lock_file s = None then Over else Removing) s))"
| "lock_step (Unlink p) s =
     (if instances s p \<noteq> Removing then None
      else Some (set_instance p Over (s\<lparr>lock_file := None\<rparr>)))"
| "lock_step (Killed p) s =
     (case instances s p of
        Holding i \<Rightarrow> Some (set_instance p Over (s\<lparr>locked_by := (locked_by s)(i := None)\<rparr>))
      | _ \<Rightarrow> Some (set_instance p Over s))"

fun lock_run :: "lock_event list \<Rightarrow> lock_state \<Rightarrow> lock_state option" where
  "lock_run [] s = Some s"
| "lock_run (e # es) s = (case lock_step e s of None \<Rightarrow> None | Some s' \<Rightarrow> lock_run es s')"

text \<open>The start: nobody runs; the file of an earlier, killed client may still be there.\<close>

definition unlocked :: "lock_state \<Rightarrow> bool" where
  "unlocked s \<longleftrightarrow> (\<forall>p. instances s p = Fresh) \<and> (\<forall>i. locked_by s i = None) \<and>
     (\<forall>i. lock_file s = Some i \<longrightarrow> i < next_file s)"

definition holds_lock :: "lock_state \<Rightarrow> nat \<Rightarrow> bool" where
  "holds_lock s p \<longleftrightarrow> (\<exists>i. instances s p = Holding i)"

text \<open>
  The file under the name is the only one that processes have open; this is what the removal breaks.
\<close>

definition one_file :: "lock_state \<Rightarrow> bool" where
  "one_file s \<longleftrightarrow>
     (\<forall>p i. instances s p = Opened i \<or> instances s p = Holding i \<longrightarrow> lock_file s = Some i) \<and>
     (\<forall>p i. instances s p = Holding i \<longrightarrow> locked_by s i = Some p)"

lemma one_file_exclusive: "one_file s \<Longrightarrow> holds_lock s p \<Longrightarrow> holds_lock s q \<Longrightarrow> p = q"
  unfolding one_file_def holds_lock_def by (metis option.inject)

lemma one_file_set:
  "one_file s \<Longrightarrow> (\<And>i. x = Opened i \<or> x = Holding i \<Longrightarrow> lock_file s = Some i) \<Longrightarrow>
    (\<And>i. x = Holding i \<Longrightarrow> locked_by s i = Some p) \<Longrightarrow> one_file (set_instance p x s)"
  by (simp add: one_file_def set_instance_def)

lemma one_file_unlock:
  assumes "one_file s" "instances s p = Holding i" "\<And>j. x \<noteq> Opened j \<and> x \<noteq> Holding j"
  shows "one_file (set_instance p x (s\<lparr>locked_by := (locked_by s)(i := None)\<rparr>))"
proof -
  have "j \<noteq> i" if "instances s q = Holding j" "q \<noteq> p" for q j
  proof
    assume "j = i"
    have "locked_by s i = Some p" using assms(1,2) by (simp add: one_file_def)
    moreover have "locked_by s j = Some q" using assms(1) that(1) by (simp add: one_file_def)
    ultimately show False using \<open>j = i\<close> that(2) by simp
  qed
  moreover have "lock_file s = Some j \<and> (instances s q = Holding j \<longrightarrow> locked_by s j = Some q)"
    if "instances s q = Opened j \<or> instances s q = Holding j" for q j
    using assms(1) that unfolding one_file_def by blast
  ultimately show ?thesis
    unfolding one_file_def set_instance_def using assms(3) by (simp add: fun_upd_apply) blast
qed

lemma one_file_step:
  assumes "lock_step e s = Some s'" "one_file s" "\<forall>p. e \<noteq> Unlink p"
  shows "one_file s'"
proof (cases e)
  case (Open_file p)
  with assms show ?thesis
    by (auto simp: one_file_def set_instance_def split: if_splits option.splits)
next
  case (Try_lock p)
  obtain i where i: "instances s p = Opened i"
    using assms(1) by (auto simp: Try_lock split: client.splits)
  then have fi: "lock_file s = Some i" using assms(2) by (auto simp: one_file_def)
  show ?thesis
  proof (cases "locked_by s i")
    case None
    then have "one_file (s\<lparr>locked_by := (locked_by s)(i := Some p)\<rparr>)"
      using assms(2) by (auto simp: one_file_def)
    with assms(1) i None fi show ?thesis by (auto simp: Try_lock intro: one_file_set)
  next
    case (Some q)
    with assms(1,2) i show ?thesis by (auto simp: Try_lock intro: one_file_set)
  qed
next
  case (Unlock p)
  with assms show ?thesis by (auto intro!: one_file_unlock split: client.splits)
next
  case (Is_file p)
  with assms show ?thesis
    by (auto simp: one_file_def set_instance_def split: if_splits)
next
  case (Unlink p)
  with assms show ?thesis by simp
next
  case (Killed p)
  with assms show ?thesis by (auto intro: one_file_unlock one_file_set split: client.splits)
qed

lemma one_file_run:
  "lock_run es s = Some s' \<Longrightarrow> one_file s \<Longrightarrow> \<forall>p. Unlink p \<notin> set es \<Longrightarrow> one_file s'"
proof (induction es arbitrary: s)
  case (Cons e es)
  then obtain s1 where s1: "lock_step e s = Some s1" "lock_run es s1 = Some s'"
    by (auto split: option.splits)
  have "one_file s1" by (rule one_file_step [OF s1(1) Cons.prems(2)]) (use Cons.prems(3) in auto)
  with Cons.IH [OF s1(2)] Cons.prems(3) show ?case by simp
qed simp

lemma unlocked_one_file: "unlocked s \<Longrightarrow> one_file s"
  by (simp add: unlocked_def one_file_def)

definition no_lock_file :: lock_state where
  "no_lock_file = \<lparr> lock_file = None, next_file = 0, locked_by = (\<lambda>_. None), instances = (\<lambda>_. Fresh) \<rparr>"

text \<open>
  One process holds the lock and ends, a second takes the lock between the release and the removal
  of the name, and a third makes a new file under the name that the first has removed.
\<close>

definition three_clients :: "lock_event list" where
  "three_clients =
     [Open_file 1, Try_lock 1, Unlock 1, Open_file 2, Try_lock 2, Is_file 1, Unlink 1,
      Open_file 3, Try_lock 3]"

text \<open>
  C17: on Linux, whatever the order in which processes start, lock, are killed or
  release, at most one is past the lock as long as none has removed the name of the
  file; but the removal after the release breaks it: with three processes, two are past the lock at once.
\<close>

theorem one_instance_until_removal:
  "(\<forall>s es s' p q. unlocked s \<longrightarrow> lock_run es s = Some s' \<longrightarrow> (\<forall>r. Unlink r \<notin> set es) \<longrightarrow>
      holds_lock s' p \<longrightarrow> holds_lock s' q \<longrightarrow> p = q) \<and>
   (\<exists>s'. lock_run three_clients no_lock_file = Some s' \<and> holds_lock s' 2 \<and> holds_lock s' 3)"
proof (intro conjI allI impI)
  fix s es s' p q
  assume "unlocked s" "lock_run es s = Some s'" "\<forall>r. Unlink r \<notin> set es" "holds_lock s' p" "holds_lock s' q"
  then show "p = q" using one_file_run unlocked_one_file one_file_exclusive by metis
next
  show "\<exists>s'. lock_run three_clients no_lock_file = Some s' \<and> holds_lock s' 2 \<and> holds_lock s' 3"
    by (simp add: three_clients_def no_lock_file_def set_instance_def holds_lock_def)
qed

theorem one_instance_until_removal_witness:
  "\<exists>s'. lock_run [Open_file 1, Open_file 2, Try_lock 2, Try_lock 1] no_lock_file = Some s' \<and>
     holds_lock s' 2 \<and> \<not> holds_lock s' 1"
proof -
  let ?es = "[Open_file 1, Open_file 2, Try_lock 2, Try_lock 1]"
  have "\<exists>s'. lock_run ?es no_lock_file = Some s' \<and> holds_lock s' 2"
    by (simp add: no_lock_file_def set_instance_def holds_lock_def)
  then obtain s' where s': "lock_run ?es no_lock_file = Some s'" "holds_lock s' 2" by blast
  have "unlocked no_lock_file" by (simp add: unlocked_def no_lock_file_def)
  moreover have "\<forall>r. Unlink r \<notin> set ?es" by simp
  ultimately have "holds_lock s' 1 \<longrightarrow> (1::nat) = 2"
    using one_instance_until_removal [THEN conjunct1, rule_format, of no_lock_file ?es s' 1 2] s' by blast
  with s' show ?thesis by auto
qed

section \<open>Windows\<close>

text \<open>
  The constructor removes a file that is there, which fails with \<open>EACCES\<close> while another process has it open, and
  creates it exclusively. An error with another number is not raised again: the process goes on
  without the lock.
\<close>

datatype win_client =
    W_fresh | W_found bool | W_create | W_running bool | W_refused | W_closed | W_over

record win_state =
  win_file :: "nat option option"
  win_instances :: "nat \<Rightarrow> win_client"

datatype win_event = Exists nat | Remove_old nat | Create nat | Close nat | Remove_own nat

definition set_win :: "nat \<Rightarrow> win_client \<Rightarrow> win_state \<Rightarrow> win_state" where
  "set_win p x s = s\<lparr>win_instances := (win_instances s)(p := x)\<rparr>"

text \<open>
  \<open>win_file\<close>: no file, a file that nobody has open, or one that a process has open. \<open>__del__\<close> does nothing
  without the lock; with it, it closes the file and removes it.
\<close>

fun win_step :: "win_event \<Rightarrow> win_state \<Rightarrow> win_state option" where
  "win_step (Exists p) s =
     (if win_instances s p \<noteq> W_fresh then None
      else Some (set_win p (W_found (win_file s \<noteq> None)) s))"
| "win_step (Remove_old p) s =
     (if win_instances s p \<noteq> W_found True then None
      else case win_file s of
          Some (Some q) \<Rightarrow> Some (set_win p W_refused s)
        | Some None \<Rightarrow> Some (set_win p W_create (s\<lparr>win_file := None\<rparr>))
        | None \<Rightarrow> Some (set_win p (W_running False) s))"
| "win_step (Create p) s =
     (if win_instances s p \<notin> {W_found False, W_create} then None
      else case win_file s of
          None \<Rightarrow> Some (set_win p (W_running True) (s\<lparr>win_file := Some (Some p)\<rparr>))
        | Some x \<Rightarrow> Some (set_win p (W_running False) s))"
| "win_step (Close p) s =
     (case win_instances s p of
        W_running True \<Rightarrow> Some (set_win p W_closed (s\<lparr>win_file := Some None\<rparr>))
      | W_running False \<Rightarrow> Some (set_win p W_over s)
      | _ \<Rightarrow> None)"
| "win_step (Remove_own p) s =
     (if win_instances s p \<noteq> W_closed then None
      else Some (set_win p W_over
        (if win_file s = Some None then s\<lparr>win_file := None\<rparr> else s)))"

fun win_run :: "win_event list \<Rightarrow> win_state \<Rightarrow> win_state option" where
  "win_run [] s = Some s"
| "win_run (e # es) s = (case win_step e s of None \<Rightarrow> None | Some s' \<Rightarrow> win_run es s')"

definition past_lock :: "win_state \<Rightarrow> nat \<Rightarrow> bool" where
  "past_lock s p \<longleftrightarrow> (\<exists>b. win_instances s p = W_running b)"

text \<open>The constructor as a whole, and a life of clients whose constructors do not overlap.\<close>

definition construct :: "nat \<Rightarrow> win_state \<Rightarrow> win_state option" where
  "construct p s =
     (case win_file s of
        None \<Rightarrow> win_run [Exists p, Create p] s
      | Some None \<Rightarrow> win_run [Exists p, Remove_old p, Create p] s
      | Some (Some q) \<Rightarrow> win_run [Exists p, Remove_old p] s)"

fun lives :: "(nat + nat) list \<Rightarrow> win_state \<Rightarrow> win_state option" where
  "lives [] s = Some s"
| "lives (Inl p # ls) s = (case construct p s of None \<Rightarrow> None | Some s' \<Rightarrow> lives ls s')"
| "lives (Inr p # ls) s = (case win_run [Close p, Remove_own p] s of None \<Rightarrow> None | Some s' \<Rightarrow> lives ls s')"

definition win_inv :: "win_state \<Rightarrow> bool" where
  "win_inv s \<longleftrightarrow>
     (\<forall>p. win_instances s p \<notin> {W_running False, W_create, W_closed} \<and> (\<forall>b. win_instances s p \<noteq> W_found b)) \<and>
     (\<forall>p. win_instances s p = W_running True \<longleftrightarrow> win_file s = Some (Some p))"

lemma construct_inv: "construct p s = Some s' \<Longrightarrow> win_inv s \<Longrightarrow> win_inv s'"
proof -
  assume run: "construct p s = Some s'" and inv: "win_inv s"
  show "win_inv s'"
  proof (cases "win_file s = Some (Some p)")
    case True
    then have "win_instances s p = W_running True" using inv by (simp add: win_inv_def)
    with True run show ?thesis by (simp add: construct_def)
  next
    case False
    with run inv show ?thesis
      by (auto simp: construct_def win_inv_def set_win_def split: option.splits if_splits)
  qed
qed

lemma close_inv: "win_run [Close p, Remove_own p] s = Some s' \<Longrightarrow> win_inv s \<Longrightarrow> win_inv s'"
  by (auto simp: win_inv_def set_win_def split: win_client.splits bool.splits if_splits)

lemma lives_inv: "lives ls s = Some s' \<Longrightarrow> win_inv s \<Longrightarrow> win_inv s'"
proof (induction ls s rule: lives.induct)
  case (2 p ls s)
  then show ?case by (auto split: option.splits dest: construct_inv)
next
  case (3 p ls s)
  then show ?case by (auto simp del: win_run.simps split: option.splits dest: close_inv)
qed simp

lemma windows_exclusive: "win_inv s \<Longrightarrow> past_lock s p \<Longrightarrow> past_lock s q \<Longrightarrow> p = q"
  unfolding win_inv_def past_lock_def by (metis insertI1 option.inject)

definition nobody :: win_state where
  "nobody = \<lparr> win_file = None, win_instances = (\<lambda>_. W_fresh) \<rparr>"

text \<open>
  On Windows too: clients that start one after the other exclude each other, but of two that test for the file
  at the same time both go on, the second because the error of its creation (\<open>EEXIST\<close>) is dropped.
\<close>

theorem windows_start_together:
  "(\<forall>ls s p q. lives ls nobody = Some s \<longrightarrow> past_lock s p \<longrightarrow> past_lock s q \<longrightarrow> p = q) \<and>
   (\<exists>s. win_run [Exists 1, Exists 2, Create 1, Create 2] nobody = Some s \<and> past_lock s 1 \<and> past_lock s 2)"
proof (intro conjI allI impI)
  fix ls s p q assume "lives ls nobody = Some s" "past_lock s p" "past_lock s q"
  moreover have "win_inv nobody" by (simp add: win_inv_def nobody_def)
  ultimately show "p = q" using lives_inv windows_exclusive by blast
next
  show "\<exists>s. win_run [Exists 1, Exists 2, Create 1, Create 2] nobody = Some s \<and> past_lock s 1 \<and> past_lock s 2"
    by (simp add: nobody_def set_win_def past_lock_def) blast
qed

end
