(* ===== verification/Raw_Format.thy ===== *)
theory Raw_Format
  imports Prelude "HOL-Library.Word"
begin

unbundle bit_operations_syntax

text \<open>
  The readers of recorded images (\<open>src/capture-node/raw_file_format_readers.py\<close>), and the
  writer of the recordings (\<open>src/capture-node/source/video_writer_ava.cpp\<close>) as far as the layout
  of the file goes. Pixels keep their width, so that the arithmetic of numpy wraps as in
  the program; floating point numbers are read as rationals. The decompression and the image operations of
  OpenCV are arguments.
\<close>

section \<open>Bytes\<close>

type_synonym bytes = "8 word list"

text \<open>Little-endian numbers of a fixed length.\<close>

fun le_value :: "bytes \<Rightarrow> nat" where
  "le_value [] = 0"
| "le_value (b # bs) = unat b + 256 * le_value bs"

fun le_bytes :: "nat \<Rightarrow> nat \<Rightarrow> bytes" where
  "le_bytes 0 n = []"
| "le_bytes (Suc k) n = word_of_nat n # le_bytes k (n div 256)"

definition slice :: "nat \<Rightarrow> nat \<Rightarrow> 'a list \<Rightarrow> 'a list" where
  "slice from len xs = List.take len (List.drop from xs)"

definition int32 :: "bytes \<Rightarrow> int" where
  "int32 bs = signed_take_bit 31 (int (le_value bs))"

text \<open>A finite number of the IEEE format of single precision.\<close>

definition float32 :: "bytes \<Rightarrow> pyfloat" where
  "float32 bs =
     (let n = le_value bs; e = n div 2 ^ 23 mod 256; m = n mod 2 ^ 23;
          v = (if e = 0 then of_nat m / 2 ^ 149
               else if e \<ge> 150 then of_nat (2 ^ 23 + m) * 2 ^ (e - 150)
               else of_nat (2 ^ 23 + m) / 2 ^ (150 - e))
      in if n div 2 ^ 31 = 1 then - v else v)"

text \<open>\<open>decode('utf-8')\<close>: the code points, or \<open>None\<close> where Python raises.\<close>

definition trail :: "8 word \<Rightarrow> bool" where
  "trail b \<longleftrightarrow> unat b div 64 = 2"

fun utf8 :: "bytes \<Rightarrow> nat list option" where
  "utf8 [] = Some []"
| "utf8 (a # bs) =
     (let n = unat a in
      if n < 128 then map_option (Cons n) (utf8 bs)
      else if 194 \<le> n \<and> n < 224 then
        (case bs of
           b # r \<Rightarrow> if trail b then map_option (Cons (n mod 32 * 64 + unat b mod 64)) (utf8 r) else None
         | _ \<Rightarrow> None)
      else if 224 \<le> n \<and> n < 240 then
        (case bs of
           b # c # r \<Rightarrow>
             (let p = n mod 16 * 4096 + unat b mod 64 * 64 + unat c mod 64 in
              if trail b \<and> trail c \<and> 2048 \<le> p \<and> \<not> (55296 \<le> p \<and> p < 57344) then map_option (Cons p) (utf8 r) else None)
         | _ \<Rightarrow> None)
      else if 240 \<le> n \<and> n < 245 then
        (case bs of
           b # c # d # r \<Rightarrow>
             (let p = n mod 8 * 262144 + unat b mod 64 * 4096 + unat c mod 64 * 64 + unat d mod 64 in
              if trail b \<and> trail c \<and> trail d \<and> 65536 \<le> p \<and> p < 1114112 then map_option (Cons p) (utf8 r) else None)
         | _ \<Rightarrow> None)
      else None)"

definition codes :: "string \<Rightarrow> nat list" where
  "codes s = map of_char s"

section \<open>Opening a recording\<close>

text \<open>The fields that both formats share: 32 bytes, without gaps.\<close>

record raw_info =
  ri_magic :: nat
  ri_version :: nat
  ri_channels :: nat
  ri_bitcount :: nat
  ri_width :: int
  ri_height :: int
  ri_blacklevel :: int
  ri_bayer :: bytes
  ri_kR :: pyfloat
  ri_kG :: pyfloat
  ri_kB :: pyfloat

definition unpack_info :: "bytes \<Rightarrow> raw_info" where
  "unpack_info bs =
     \<lparr>ri_magic = unat (bs ! 0), ri_version = unat (bs ! 1), ri_channels = unat (bs ! 2),
      ri_bitcount = unat (bs ! 3), ri_width = int32 (slice 4 4 bs), ri_height = int32 (slice 8 4 bs),
      ri_blacklevel = int32 (slice 12 4 bs), ri_bayer = slice 16 4 bs, ri_kR = float32 (slice 20 4 bs),
      ri_kG = float32 (slice 24 4 bs), ri_kB = float32 (slice 28 4 bs)\<rparr>"

record ava_sequence =
  sq_file :: bytes
  sq_raise_missing :: bool
  sq_info :: raw_info
  sq_bayer :: "nat list"
  sq_frame_count :: int
  sq_index_offset :: nat
  sq_frame_indices :: "64 word list"
  sq_img_data_size :: int

text \<open>\<open>f.read(n)\<close> at a position: all of the rest for \<open>-1\<close>, and no other negative number.\<close>

definition read_at :: "bytes \<Rightarrow> nat \<Rightarrow> int \<Rightarrow> py_exn + bytes" where
  "read_at file pos n =
     (if n < -1 then Inl ValueError
      else Inr (if n = -1 then List.drop pos file else slice pos (nat n) file))"

text \<open>\<open>np.frombuffer(.., dtype=np.uint64)\<close>: the length must be a multiple of eight.\<close>

function words64 :: "bytes \<Rightarrow> 64 word list option" where
  "words64 bs =
     (if bs = [] then Some []
      else if length bs < 8 then None
      else map_option (Cons (word_of_nat (le_value (List.take 8 bs)))) (words64 (List.drop 8 bs)))"
  by pat_completeness auto
termination by (relation "measure length") auto

declare words64.simps [simp del]

text \<open>
  The header is unpacked with the alignment of the machine: the last field, of eight bytes, starts at
  byte 40, so that the header has 48 bytes.
\<close>

definition open_sequence :: "bool \<Rightarrow> bytes \<Rightarrow> py_exn + ava_sequence" where
  "open_sequence raise_missing file =
     (let header = List.take 48 file; info = unpack_info header; file_size = int (length file);
          index_offset = le_value (slice 40 8 header) in
      if length header < 48 then Inl (PyException ''struct.error'')
      else
        (case utf8 (ri_bayer info) of
           None \<Rightarrow> Inl ValueError
         | Some bayer \<Rightarrow>
             if ri_magic info \<noteq> 0xED then Inl (PyException ''Invalid Ava Sequence file (magic)'')
             else if ri_version info \<noteq> 1 then Inl (PyException ''Invalid Ava Sequence file (version)'')
             else
               (case utf8 (slice 32 4 header) of
                  None \<Rightarrow> Inl ValueError
                | Some compression \<Rightarrow>
                    if List.take 3 compression \<noteq> codes ''LZ4''
                    then Inl (PyException ''Invalid Ava Sequence file (unknown compression)'')
                    else if index_offset \<ge> 2 ^ 63 then Inl (PyException ''OverflowError'')
                    else
                      (case read_at file index_offset (file_size - int index_offset) of
                         Inl x \<Rightarrow> Inl x
                       | Inr buffer \<Rightarrow>
                           (case words64 buffer of
                              None \<Rightarrow> Inl ValueError
                            | Some indices \<Rightarrow>
                                (let frame_count = (file_size - int index_offset) div 8 in
                                 if int (length indices) \<noteq> frame_count
                                 then Inl (PyException ''Invalid Ava Sequence file (invalid index size)'')
                                 else Inr \<lparr>sq_file = file, sq_raise_missing = raise_missing, sq_info = info,
                                    sq_bayer = bayer, sq_frame_count = frame_count, sq_index_offset = index_offset,
                                    sq_frame_indices = indices,
                                    sq_img_data_size = (if ri_bitcount info > 8 then 2 else 1) * ri_width info * ri_height info\<rparr>))))))"

section \<open>Finding a frame\<close>

text \<open>Indexing of a numpy array: a negative index counts from the end.\<close>

definition np_get :: "'a list \<Rightarrow> int \<Rightarrow> 'a option" where
  "np_get xs i =
     (if 0 \<le> i \<and> i < int (length xs) then Some (xs ! nat i)
      else if - int (length xs) \<le> i \<and> i < 0 then Some (xs ! nat (int (length xs) + i))
      else None)"

text \<open>
  Missing frames have the offset zero; the walk goes back to the last frame that was recorded. It
  does not stop at the first frame: it continues at the end of the index, until it finds a frame there or
  runs out of the array.
\<close>

function get_frame_offset_skip :: "ava_sequence \<Rightarrow> int \<Rightarrow> bool \<Rightarrow> py_exn + nat option" where
  "get_frame_offset_skip s frame_index is_backward =
     (if frame_index < sq_frame_count s then
        (case np_get (sq_frame_indices s) frame_index of
           None \<Rightarrow> Inl IndexError
         | Some w \<Rightarrow>
             if w = 0 then get_frame_offset_skip s (frame_index + (if is_backward then - 1 else 1)) is_backward
             else if frame_index < 0 then Inr None
             else Inr (Some (unat w)))
      else Inr None)"
  by pat_completeness auto
termination
  by (relation "measure (\<lambda>(s, i, back). if back then nat (i + int (length (sq_frame_indices s)) + 1)
        else nat (sq_frame_count s - i))")
    (auto simp: np_get_def split: if_splits)

declare get_frame_offset_skip.simps [simp del]

definition compute_frame_size :: "ava_sequence \<Rightarrow> int \<Rightarrow> py_exn + int" where
  "compute_frame_size s frame_index =
     (case (if frame_index < sq_frame_count s - 1 then get_frame_offset_skip s (frame_index + 1) False
            else Inr (Some 0)) of
        Inl x \<Rightarrow> Inl x
      | Inr next \<Rightarrow>
          (let offset_of_next_frame = (case next of None \<Rightarrow> sq_index_offset s
                 | Some n \<Rightarrow> if n = 0 then sq_index_offset s else n) in
           (case get_frame_offset_skip s frame_index True of
              Inl x \<Rightarrow> Inl x
            | Inr None \<Rightarrow> Inl TypeError
            | Inr (Some off) \<Rightarrow> Inr (int offset_of_next_frame - int off))))"

definition read_frame :: "ava_sequence \<Rightarrow> int \<Rightarrow> py_exn + bytes" where
  "read_frame s index =
     (case get_frame_offset_skip s index True of
        Inl x \<Rightarrow> Inl x
      | Inr None \<Rightarrow> Inl TypeError
      | Inr (Some frame_offset) \<Rightarrow>
          (case compute_frame_size s index of
             Inl x \<Rightarrow> Inl x
           | Inr n \<Rightarrow> read_at (sq_file s) frame_offset n))"

section \<open>What the recorder writes\<close>

text \<open>
  The writer appends the compressed frames as packets to a header, with their time stamps, and on closing an
  index of their offsets. For the time between a frame and the one before it, it adds entries
  of zero for missing frames, behind the entry of the frame.
\<close>

type_synonym packet = "pyfloat \<times> bytes"

definition nb_extra_frames :: "pyfloat \<Rightarrow> pyfloat option \<Rightarrow> pyfloat \<Rightarrow> nat" where
  "nb_extra_frames framerate prev ts =
     nat (floor ((case prev of None \<Rightarrow> 0 | Some p \<Rightarrow> ts - p) * framerate - 1 / 2))"

fun index_entries :: "pyfloat \<Rightarrow> nat \<Rightarrow> pyfloat option \<Rightarrow> packet list \<Rightarrow> nat list" where
  "index_entries framerate offset prev [] = []"
| "index_entries framerate offset prev ((ts, buf) # ps) =
     offset # replicate (nb_extra_frames framerate prev ts) 0 @
     index_entries framerate (offset + length buf) (Some ts) ps"

record writer_info =
  wi_bitcount :: nat
  wi_width :: nat
  wi_height :: nat
  wi_bayer :: bytes
  wi_gains :: bytes

definition header_bytes :: "writer_info \<Rightarrow> nat \<Rightarrow> bytes" where
  "header_bytes i index_offset =
     [0xED, 1, 1, word_of_nat (wi_bitcount i)] @ le_bytes 4 (wi_width i) @ le_bytes 4 (wi_height i) @
     le_bytes 4 0 @ wi_bayer i @ wi_gains i @ [0x4C, 0x5A, 0x34, 0] @ replicate 4 0 @ le_bytes 8 index_offset"

definition ava_file :: "writer_info \<Rightarrow> pyfloat \<Rightarrow> packet list \<Rightarrow> bytes" where
  "ava_file i framerate ps =
     (let packets = concat (map snd ps); index_offset = 48 + length packets in
      header_bytes i index_offset @ packets @
      concat (map (le_bytes 8) (index_entries framerate 48 None ps)))"

section \<open>Images\<close>

text \<open>Grey or colour, in the channel order of OpenCV, with 8 or 16 bits or in floating point.\<close>

datatype image =
    Gray8 "8 word list list"
  | Gray16 "16 word list list"
  | GrayF "pyfloat list list"
  | Color8 "(8 word \<times> 8 word \<times> 8 word) list list"
  | Color16 "(16 word \<times> 16 word \<times> 16 word) list list"
  | ColorF "(pyfloat \<times> pyfloat \<times> pyfloat) list list"

record opencv =
  cv_cvtColor :: "string \<Rightarrow> image \<Rightarrow> image"
  cv_resize :: "int \<times> int \<Rightarrow> image \<Rightarrow> image"
  cv_flip :: "int \<Rightarrow> image \<Rightarrow> image"
  cv_transpose :: "image \<Rightarrow> image"
  cv_imdecode :: "bytes \<Rightarrow> image option"

fun img_shape :: "image \<Rightarrow> int \<times> int" where
  "img_shape (Gray8 r) = (int (length r), int (length (concat (List.take 1 r))))"
| "img_shape (Gray16 r) = (int (length r), int (length (concat (List.take 1 r))))"
| "img_shape (GrayF r) = (int (length r), int (length (concat (List.take 1 r))))"
| "img_shape (Color8 r) = (int (length r), int (length (concat (List.take 1 r))))"
| "img_shape (Color16 r) = (int (length r), int (length (concat (List.take 1 r))))"
| "img_shape (ColorF r) = (int (length r), int (length (concat (List.take 1 r))))"

text \<open>\<open>resize_image\<close> as it is called, with \<open>max_side\<close> alone: the longer side gets that length.\<close>

definition resize_dims :: "int \<Rightarrow> int \<times> int \<Rightarrow> int \<times> int" where
  "resize_dims max_side hw =
     (let (original_height, original_width) = hw in
      if original_height > original_width
      then (max_side * original_width div original_height, max_side)
      else (max_side, max_side * original_height div original_width))"

definition resize_image :: "opencv \<Rightarrow> int \<Rightarrow> image \<Rightarrow> image" where
  "resize_image cv max_side img = cv_resize cv (resize_dims max_side (img_shape img)) img"

definition rotate_img :: "opencv \<Rightarrow> int \<Rightarrow> image \<Rightarrow> image" where
  "rotate_img cv angle img =
     (if angle = 180 then cv_flip cv 1 (cv_flip cv 0 img)
      else if angle = 90 then cv_flip cv 1 (cv_transpose cv img)
      else if angle = -90 \<or> angle = 270 then cv_transpose cv (cv_flip cv 1 img)
      else img)"

definition debayer :: "opencv \<Rightarrow> nat list \<Rightarrow> image \<Rightarrow> image" where
  "debayer cv bayer img =
     (if bayer = codes ''BGGR'' then cv_cvtColor cv ''COLOR_BAYER_RG2RGB'' img
      else if bayer = codes ''RGGB'' then cv_cvtColor cv ''COLOR_BAYER_BG2RGB'' img
      else if bayer = codes ''GBRG'' then cv_cvtColor cv ''COLOR_BAYER_GR2RGB'' img
      else if bayer = codes ''GRBG'' then cv_cvtColor cv ''COLOR_BAYER_GB2RGB'' img
      else img)"

text \<open>
  The black level is clipped to and subtracted; a level the type of the image cannot hold makes
  numpy change the type, and is refused here. Then images of more than 8 bits are moved to the
  most significant bits.
\<close>

definition black :: "'a::len word \<Rightarrow> 'a word \<Rightarrow> 'a word" where
  "black b x = max b x - b"

definition map_colors :: "('a \<Rightarrow> 'b) \<Rightarrow> ('a \<times> 'a \<times> 'a) list list \<Rightarrow> ('b \<times> 'b \<times> 'b) list list" where
  "map_colors f = map (map (\<lambda>(b, g, r). (f b, f g, f r)))"

fun black_point :: "int \<Rightarrow> image \<Rightarrow> py_exn + image" where
  "black_point n (Gray8 p) =
     (if 0 \<le> n \<and> n < 2 ^ 8 then Inr (Gray8 (map (map (black (word_of_int n))) p)) else Inl ValueError)"
| "black_point n (Color8 p) =
     (if 0 \<le> n \<and> n < 2 ^ 8 then Inr (Color8 (map_colors (black (word_of_int n)) p)) else Inl ValueError)"
| "black_point n (Gray16 p) =
     (if 0 \<le> n \<and> n < 2 ^ 16 then Inr (Gray16 (map (map (black (word_of_int n))) p)) else Inl ValueError)"
| "black_point n (Color16 p) =
     (if 0 \<le> n \<and> n < 2 ^ 16 then Inr (Color16 (map_colors (black (word_of_int n)) p)) else Inl ValueError)"
| "black_point n img = Inl ValueError"

text \<open>A shift by a negative amount, for more than 16 bits, has no result in numpy.\<close>

fun to_msb :: "nat \<Rightarrow> image \<Rightarrow> py_exn + image" where
  "to_msb bitcount (Gray16 p) =
     (if bitcount > 16 then Inl ValueError
      else Inr (Gray16 (if bitcount > 8 then map (map (push_bit (16 - bitcount))) p else p)))"
| "to_msb bitcount (Color16 p) =
     (if bitcount > 16 then Inl ValueError
      else Inr (Color16 (if bitcount > 8 then map_colors (push_bit (16 - bitcount)) p else p)))"
| "to_msb bitcount img =
     (if bitcount > 8 then Inl (PyException ''Images with bitcount higher than 8 should be stored as 16bit'')
      else Inr img)"

text \<open>
  The gain of a channel becomes an integer, the product is one of 32 bits and wraps; only then is it
  clipped to 16 bits.
\<close>

definition gain :: "nat \<Rightarrow> pyfloat \<Rightarrow> 32 word" where
  "gain n k = word_of_int (floor (of_nat n * k))"

definition balance8 :: "pyfloat \<Rightarrow> 8 word \<Rightarrow> 16 word" where
  "balance8 k x = ucast (min ((ucast x :: 32 word) * gain 255 k) 65535)"

definition balance16 :: "pyfloat \<Rightarrow> 16 word \<Rightarrow> 16 word" where
  "balance16 k x = ucast (min (drop_bit 16 ((ucast x :: 32 word) * gain 65535 k)) 65535)"

fun color_16bit :: "pyfloat \<times> pyfloat \<times> pyfloat \<Rightarrow> image \<Rightarrow> py_exn + image" where
  "color_16bit (kB, kG, kR) (Color8 p) =
     Inr (Color16 (map (map (\<lambda>(b, g, r). (balance8 kB b, balance8 kG g, balance8 kR r))) p))"
| "color_16bit (kB, kG, kR) (Color16 p) =
     Inr (Color16 (map (map (\<lambda>(b, g, r). (balance16 kB b, balance16 kG g, balance16 kR r))) p))"
| "color_16bit k (Gray8 p) = Inr (Gray16 (map (map (\<lambda>x. push_bit 8 (ucast x))) p))"
| "color_16bit k (ColorF p) = Inl (PyException ''Invalid bit depth for raw image'')"
| "color_16bit k img = Inr img"

definition first_steps ::
    "opencv \<Rightarrow> image \<Rightarrow> nat list \<Rightarrow> int \<Rightarrow> nat \<Rightarrow> int option \<Rightarrow> py_exn + image" where
  "first_steps cv raw_img bayer blacklevel bitcount resize_max_side =
     (let img = debayer cv bayer raw_img;
          img = (case resize_max_side of None \<Rightarrow> img | Some m \<Rightarrow> if m = 0 then img else resize_image cv m img) in
      case black_point blacklevel img of
        Inl x \<Rightarrow> Inl x
      | Inr img \<Rightarrow> to_msb bitcount img)"

definition raw_processing_to_16bit_linear ::
    "opencv \<Rightarrow> image \<Rightarrow> nat list \<Rightarrow> int \<Rightarrow> nat \<Rightarrow> pyfloat \<times> pyfloat \<times> pyfloat \<Rightarrow> int option \<Rightarrow> py_exn + image" where
  "raw_processing_to_16bit_linear cv raw_img bayer blacklevel bitcount k resize_max_side =
     (case first_steps cv raw_img bayer blacklevel bitcount resize_max_side of
        Inl x \<Rightarrow> Inl x
      | Inr img \<Rightarrow> color_16bit k img)"

fun color_float :: "pyfloat \<times> pyfloat \<times> pyfloat \<Rightarrow> image \<Rightarrow> py_exn + image" where
  "color_float (kB, kG, kR) (Color8 p) =
     Inr (ColorF (map (map (\<lambda>(b, g, r). (of_nat (unat b) / 255 * kB, of_nat (unat g) / 255 * kG, of_nat (unat r) / 255 * kR))) p))"
| "color_float (kB, kG, kR) (Color16 p) =
     Inr (ColorF (map (map (\<lambda>(b, g, r). (of_nat (unat b) / 65535 * kB, of_nat (unat g) / 65535 * kG,
         of_nat (unat r) / 65535 * kR))) p))"
| "color_float k (Gray8 p) = Inr (GrayF (map (map (\<lambda>x. of_nat (unat x) / 255)) p))"
| "color_float k (Gray16 p) = Inr (GrayF (map (map (\<lambda>x. of_nat (unat x) / 65535)) p))"
| "color_float k img = Inl (PyException ''Unknown input image format'')"

definition raw_processing_to_float32_linear ::
    "opencv \<Rightarrow> image \<Rightarrow> nat list \<Rightarrow> int \<Rightarrow> nat \<Rightarrow> pyfloat \<times> pyfloat \<times> pyfloat \<Rightarrow> int option \<Rightarrow> py_exn + image" where
  "raw_processing_to_float32_linear cv raw_img bayer blacklevel bitcount k resize_max_side =
     (case first_steps cv raw_img bayer blacklevel bitcount resize_max_side of
        Inl x \<Rightarrow> Inl x
      | Inr img \<Rightarrow> color_float k img)"

section \<open>Reading images\<close>

text \<open>\<open>np.fromstring(..).reshape((height, width))\<close>.\<close>

fun chunks :: "nat \<Rightarrow> nat \<Rightarrow> 'a list \<Rightarrow> 'a list list" where
  "chunks 0 n xs = []"
| "chunks (Suc k) n xs = List.take n xs # chunks k n (List.drop n xs)"

definition words16 :: "bytes \<Rightarrow> 16 word list" where
  "words16 bs = map (\<lambda>i. word_of_nat (le_value (slice (2 * i) 2 bs))) [0..<length bs div 2]"

definition raw_image :: "nat \<Rightarrow> int \<times> int \<Rightarrow> bytes \<Rightarrow> py_exn + image" where
  "raw_image bitcount hw buffer =
     (let (height, width) = hw; count = (if bitcount = 8 then length buffer else length buffer div 2) in
      if height < 0 \<or> width < 0 \<or> height * width \<noteq> int count \<or> bitcount \<noteq> 8 \<and> odd (length buffer) then Inl ValueError
      else Inr (if bitcount = 8 then Gray8 (chunks (nat height) (nat width) buffer)
                else Gray16 (chunks (nat height) (nat width) (words16 buffer))))"

text \<open>\<open>decompress\<close>: the library, from the data and the expected size.\<close>

definition read_one_frame_16bit_linear ::
    "opencv \<Rightarrow> (bytes \<Rightarrow> int \<Rightarrow> py_exn + bytes) \<Rightarrow> ava_sequence \<Rightarrow> int \<Rightarrow> int option \<Rightarrow> py_exn + image" where
  "read_one_frame_16bit_linear cv decompress s frame_index resize_max_side =
     (if frame_index < 0 \<or> frame_index \<ge> sq_frame_count s then Inl (PyException ''Invalid frame index'')
      else if sq_raise_missing s \<and> np_get (sq_frame_indices s) frame_index = Some 0
      then Inl (PyException ''Missing frame index'')
      else
        (case read_frame s frame_index of
           Inl x \<Rightarrow> Inl x
         | Inr compressed_buffer \<Rightarrow>
             (case decompress compressed_buffer (sq_img_data_size s) of
                Inl x \<Rightarrow> Inl x
              | Inr buffer \<Rightarrow>
                  (case raw_image (ri_bitcount (sq_info s)) (ri_height (sq_info s), ri_width (sq_info s)) buffer of
                     Inl x \<Rightarrow> Inl x
                   | Inr raw_img \<Rightarrow>
                       raw_processing_to_16bit_linear cv raw_img (sq_bayer s) (ri_blacklevel (sq_info s))
                         (ri_bitcount (sq_info s)) (ri_kB (sq_info s), ri_kG (sq_info s), ri_kR (sq_info s))
                         resize_max_side))))"

definition frame_as_cv2_LinearRGB_16bit ::
    "opencv \<Rightarrow> (bytes \<Rightarrow> int \<Rightarrow> py_exn + bytes) \<Rightarrow> ava_sequence \<Rightarrow> int \<Rightarrow> int option \<Rightarrow> int \<Rightarrow> py_exn + image" where
  "frame_as_cv2_LinearRGB_16bit cv decompress s frame_index resize_max_side rotation_angle =
     map_sum id (rotate_img cv rotation_angle)
       (read_one_frame_16bit_linear cv decompress s frame_index resize_max_side)"

text \<open>A single image: the same fields follow the image as its last 32 bytes.\<close>

definition open_raw_image :: "opencv \<Rightarrow> bytes \<Rightarrow> py_exn + (image \<times> image)" where
  "open_raw_image cv buffer =
     (let footer = List.drop (length buffer - 32) buffer; info = unpack_info footer;
          tif_data = List.take (length buffer - 32) buffer in
      if length footer < 32 then Inl (PyException ''struct.error'')
      else
        (case utf8 (ri_bayer info) of
           None \<Rightarrow> Inl ValueError
         | Some bayer \<Rightarrow>
             if ri_magic info \<noteq> 0xED then Inl (PyException ''Invalid Ava RAW file (magic)'')
             else if ri_version info \<noteq> 1 then Inl (PyException ''Invalid Ava RAW file (version)'')
             else if ri_channels info \<noteq> 1 \<and> ri_channels info \<noteq> 3
             then Inl (PyException ''Invalid Ava RAW file (channels)'')
             else
               (case cv_imdecode cv tif_data of
                  None \<Rightarrow> Inl (AttributeError ''dtype'')
                | Some img \<Rightarrow>
                    (case (raw_processing_to_16bit_linear cv img bayer (ri_blacklevel info) (ri_bitcount info)
                             (ri_kB info, ri_kG info, ri_kR info) None,
                           raw_processing_to_float32_linear cv img bayer (ri_blacklevel info) (ri_bitcount info)
                             (ri_kB info, ri_kG info, ri_kR info) None) of
                       (Inl x, _) \<Rightarrow> Inl x
                     | (Inr _, Inl x) \<Rightarrow> Inl x
                     | (Inr a, Inr b) \<Rightarrow> Inr (a, b)))))"

end
