(* ===== verification/Raw_Correct.thy ===== *)
theory Raw_Correct
  imports Raw_Format
begin

text \<open>
  What makes the image formats correct: a recording is read back frame by frame, missing frames as
  the last frame before them; and the arithmetic on pixels is exact as long as the product of a
  pixel and a gain fits its 32 bits, and wraps beyond.
\<close>

section \<open>Bytes\<close>

lemma length_le_bytes [simp]: "length (le_bytes k n) = k"
  by (induction k arbitrary: n) simp_all

lemma le_value_le_bytes [simp]: "le_value (le_bytes k n) = n mod 256 ^ k"
  by (induction k arbitrary: n) (simp_all add: unat_of_nat mod_mult2_eq)

lemma slice_append:
  "slice (length xs) (length ys) (xs @ ys @ zs) = ys" "slice (length xs) n (xs @ ys) = List.take n ys"
  by (simp_all add: slice_def)

lemma words64_index:
  "words64 (concat (map (le_bytes 8) es)) = Some (map word_of_nat es)"
proof (induction es)
  case Nil
  then show ?case by (simp add: words64.simps)
next
  case (Cons e es)
  have "word_of_nat (e mod 256 ^ 8) = (word_of_nat e :: 64 word)"
    by (simp flip: take_bit_eq_mod [of 64 e, simplified] add: word_of_nat_eq_iff)
  moreover have "length (le_bytes 8 e @ concat (map (le_bytes 8) es)) \<ge> 8"
    "le_bytes 8 e @ concat (map (le_bytes 8) es) \<noteq> []" by (simp, cases "le_bytes 8 e") (auto simp flip: length_0_conv)
  ultimately show ?case using Cons
    by (subst words64.simps) simp
qed

section \<open>The index\<close>

text \<open>The packet that each entry of the index stands for.\<close>

fun frame_slots :: "pyfloat \<Rightarrow> pyfloat option \<Rightarrow> packet list \<Rightarrow> bytes list" where
  "frame_slots framerate prev [] = []"
| "frame_slots framerate prev ((ts, buf) # ps) =
     replicate (Suc (nb_extra_frames framerate prev ts)) buf @ frame_slots framerate (Some ts) ps"

abbreviation packed :: "packet list \<Rightarrow> nat" where
  "packed ps \<equiv> length (concat (map snd ps))"

lemma length_index: "length (index_entries r off prev ps) = length (frame_slots r prev ps)"
  by (induction r off prev ps rule: index_entries.induct) simp_all

lemma slot_split:
  "j < length (frame_slots r prev ps) \<Longrightarrow>
   \<exists>ps1 ts buf ps2 n m es1 es2. ps = ps1 @ (ts, buf) # ps2 \<and>
     index_entries r off prev ps = es1 @ (off + packed ps1) # replicate n 0 @ es2 \<and>
     j = length es1 + m \<and> m \<le> n \<and> (es2 = [] \<longleftrightarrow> ps2 = []) \<and>
     (ps2 \<noteq> [] \<longrightarrow> hd es2 = off + packed ps1 + length buf) \<and> frame_slots r prev ps ! j = buf"
proof (induction r off prev ps arbitrary: j rule: index_entries.induct)
  case (1 r off prev)
  then show ?case by simp
next
  case (2 r off prev ts buf ps)
  let ?n = "nb_extra_frames r prev ts"
  show ?case
  proof (cases "j \<le> ?n")
    case True
    have e: "index_entries r off' (Some ts) ps = [] \<longleftrightarrow> ps = []"
      "ps \<noteq> [] \<Longrightarrow> hd (index_entries r off' (Some ts) ps) = off'" for off'
      by (cases ps; auto)+
    from True show ?thesis
      by (intro exI [of _ "[]"] exI [of _ ts] exI [of _ buf] exI [of _ ps] exI [of _ ?n] exI [of _ j]
          exI [of _ "index_entries r (off + length buf) (Some ts) ps"])
        (simp add: e nth_append del: replicate_Suc)
  next
    case False
    let ?j = "j - Suc ?n"
    have "?j < length (frame_slots r (Some ts) ps)" using 2(2) False by simp
    note split = 2(1) [OF this]
    obtain ps1 ts1 buf1 ps2 n m es1 es2 where s: "ps = ps1 @ (ts1, buf1) # ps2"
      "index_entries r (off + length buf) (Some ts) ps = es1 @ (off + length buf + packed ps1) # replicate n 0 @ es2"
      "?j = length es1 + m" "m \<le> n" "es2 = [] \<longleftrightarrow> ps2 = []"
      "ps2 \<noteq> [] \<longrightarrow> hd es2 = off + length buf + packed ps1 + length buf1"
      "frame_slots r (Some ts) ps ! ?j = buf1" using split by (elim exE conjE) (rule that)
    have "frame_slots r prev ((ts, buf) # ps) ! j = buf1"
      using False s(7) by (simp add: nth_append del: replicate_Suc)
    with s False show ?thesis
      by (intro exI [of _ "(ts, buf) # ps1"] exI [of _ ts1] exI [of _ buf1] exI [of _ ps2] exI [of _ n] exI [of _ m]
          exI [of _ "off # replicate ?n 0 @ es1"] exI [of _ es2])
        (simp add: add.assoc)
  qed
qed

text \<open>Walking over missing frames.\<close>

lemma np_get_nat: "i < length xs \<Longrightarrow> np_get xs (int i) = Some (xs ! i)"
  by (simp add: np_get_def)

lemma skip_backward:
  assumes idx: "sq_frame_indices s = es1 @ w # replicate n 0 @ es2" and w: "w \<noteq> 0"
    and fc: "sq_frame_count s = int (length (sq_frame_indices s))" and "m \<le> n"
  shows "get_frame_offset_skip s (int (length es1 + m)) True = Inr (Some (unat w))"
  using assms(4)
proof (induction m)
  case 0
  have "sq_frame_indices s ! length es1 = w" by (simp add: idx)
  then show ?case using w fc
    by (subst get_frame_offset_skip.simps) (simp add: np_get_nat idx)
next
  case (Suc m)
  have "sq_frame_indices s ! (length es1 + Suc m) = 0"
    using Suc.prems by (simp add: idx nth_append)
  moreover have "length es1 + Suc m < length (sq_frame_indices s)" using Suc.prems by (simp add: idx)
  moreover have "int (length es1 + Suc m) + - 1 = int (length es1 + m)" by simp
  ultimately show ?case using Suc fc
    by (subst get_frame_offset_skip.simps) (simp only: np_get_nat of_nat_less_iff option.case if_True Suc_leD simp_thms)
qed

lemma skip_forward:
  assumes idx: "sq_frame_indices s = es1 @ w # replicate n 0 @ es2" and nz: "es2 \<noteq> [] \<longrightarrow> hd es2 \<noteq> 0"
    and fc: "sq_frame_count s = int (length (sq_frame_indices s))" and "m \<le> n"
  shows "get_frame_offset_skip s (int (length es1 + Suc m)) False =
    Inr (if es2 = [] then None else Some (unat (hd es2)))"
  using assms(4)
proof (induction "n - m" arbitrary: m)
  case 0
  then have m: "m = n" by simp
  show ?case
  proof (cases es2)
    case Nil
    then show ?thesis using fc m by (subst get_frame_offset_skip.simps) (simp add: idx)
  next
    case (Cons x xs)
    have "sq_frame_indices s ! (length es1 + Suc n) = x" by (simp add: idx nth_append Cons)
    with Cons nz fc m show ?thesis
      by (subst get_frame_offset_skip.simps) (simp add: np_get_nat idx del: of_nat_Suc of_nat_add)
  qed
next
  case (Suc d)
  then have "m < n" by simp
  then have "sq_frame_indices s ! (length es1 + Suc m) = 0" by (simp add: idx nth_append)
  moreover have "length es1 + Suc m < length (sq_frame_indices s)" using Suc by (simp add: idx)
  moreover have "int (length es1 + Suc m) + 1 = int (length es1 + Suc (Suc m))" by simp
  moreover have "get_frame_offset_skip s (int (length es1 + Suc (Suc m))) False =
      Inr (if es2 = [] then None else Some (unat (hd es2)))"
    using Suc by (intro Suc.hyps) auto
  ultimately show ?case using fc
    by (subst get_frame_offset_skip.simps) (simp only: np_get_nat of_nat_less_iff option.case if_True if_False simp_thms)
qed

text \<open>A frame of an index of this shape lies between its offset and the next one.\<close>

lemma read_frame_slot:
  assumes idx: "sq_frame_indices s = es1 @ w # replicate n 0 @ es2" and w: "w \<noteq> 0"
    and nz: "es2 \<noteq> [] \<longrightarrow> hd es2 \<noteq> 0"
    and fc: "sq_frame_count s = int (length (sq_frame_indices s))" and m: "m \<le> n"
    and next_offset: "(if es2 = [] then sq_index_offset s else unat (hd es2)) = unat w + len"
  shows "read_frame s (int (length es1 + m)) = Inr (slice (unat w) len (sq_file s))"
proof -
  let ?j = "int (length es1 + m)"
  have bwd: "get_frame_offset_skip s ?j True = Inr (Some (unat w))"
    by (rule skip_backward [OF idx w fc m])
  have fwd: "get_frame_offset_skip s (?j + 1) False = Inr (if es2 = [] then None else Some (unat (hd es2)))"
    using skip_forward [OF idx nz fc m] by (simp add: algebra_simps)
  define off where "off = unat w"
  have "compute_frame_size s ?j = Inr (int len)"
  proof (cases "es2 = []")
    case True
    with fwd bwd next_offset show ?thesis by (simp add: compute_frame_size_def flip: off_def)
  next
    case False
    then have "?j < sq_frame_count s - 1" using m by (cases es2) (auto simp: fc idx)
    moreover have "unat (hd es2) \<noteq> 0" using nz False by (simp add: unat_eq_0)
    ultimately show ?thesis
      using fwd bwd next_offset False by (auto simp: compute_frame_size_def simp flip: off_def)
  qed
  then show ?thesis using bwd by (simp add: read_frame_def read_at_def)
qed

section \<open>The header\<close>

definition writer_ok :: "writer_info \<Rightarrow> bool" where
  "writer_ok i \<longleftrightarrow> wi_bitcount i < 256 \<and> wi_width i < 2 ^ 31 \<and> wi_height i < 2 ^ 31 \<and>
     length (wi_bayer i) = 4 \<and> utf8 (wi_bayer i) \<noteq> None \<and> length (wi_gains i) = 12"

lemma int32_le_bytes: "n < 2 ^ 31 \<Longrightarrow> int32 (le_bytes 4 n) = int n"
proof -
  assume n: "n < 2 ^ 31"
  then have "n mod 256 ^ 4 = n" by simp
  moreover have "signed_take_bit 31 (int n) = int n"
    using n by (intro signed_take_bit_int_eq_self) auto
  ultimately show ?thesis by (simp add: int32_def)
qed

lemma header_fields:
  assumes ok: "writer_ok i"
  shows "length (header_bytes i off) = 48"
    "ri_magic (unpack_info (header_bytes i off)) = 0xED" "ri_version (unpack_info (header_bytes i off)) = 1"
    "ri_bitcount (unpack_info (header_bytes i off)) = wi_bitcount i"
    "ri_width (unpack_info (header_bytes i off)) = int (wi_width i)"
    "ri_height (unpack_info (header_bytes i off)) = int (wi_height i)"
    "ri_bayer (unpack_info (header_bytes i off)) = wi_bayer i"
    "utf8 (slice 32 4 (header_bytes i off)) = Some (codes ''LZ4'' @ [0])"
    "le_value (slice 40 8 (header_bytes i off)) = off mod 256 ^ 8"
proof -
  note l = ok [unfolded writer_ok_def]
  note parts = header_bytes_def slice_def unpack_info_def
  show "length (header_bytes i off) = 48" using l by (simp add: header_bytes_def)
  show "ri_magic (unpack_info (header_bytes i off)) = 0xED" "ri_version (unpack_info (header_bytes i off)) = 1"
    by (simp_all add: header_bytes_def unpack_info_def)
  show "ri_bitcount (unpack_info (header_bytes i off)) = wi_bitcount i"
    using l by (simp add: header_bytes_def unpack_info_def unat_of_nat)
  show "ri_width (unpack_info (header_bytes i off)) = int (wi_width i)"
    using l by (simp add: parts int32_le_bytes)
  show "ri_height (unpack_info (header_bytes i off)) = int (wi_height i)"
    using l by (simp add: parts int32_le_bytes)
  show "ri_bayer (unpack_info (header_bytes i off)) = wi_bayer i"
    using l by (simp add: parts)
  have z: "slice 32 4 (header_bytes i off) = [0x4C, 0x5A, 0x34, 0]"
    using l by (simp add: parts)
  show "utf8 (slice 32 4 (header_bytes i off)) = Some (codes ''LZ4'' @ [0])"
    unfolding z by (simp add: codes_def)
  show "le_value (slice 40 8 (header_bytes i off)) = off mod 256 ^ 8"
    using l by (simp add: parts)
qed

section \<open>A recording is read back\<close>

lemma open_written:
  assumes ok: "writer_ok i" and small: "48 + packed ps < 2 ^ 63"
  shows "\<exists>s. open_sequence rm (ava_file i r ps) = Inr s \<and> sq_file s = ava_file i r ps \<and>
    sq_frame_indices s = map word_of_nat (index_entries r 48 None ps) \<and>
    sq_frame_count s = int (length (sq_frame_indices s)) \<and> sq_index_offset s = 48 + packed ps \<and>
    sq_info s = unpack_info (header_bytes i (48 + packed ps))"
proof -
  let ?off = "48 + packed ps" and ?es = "index_entries r 48 None ps" and ?file = "ava_file i r ps"
  let ?h = "header_bytes i ?off" and ?idx = "concat (map (le_bytes 8) (index_entries r 48 None ps))"
  have layout: "?file = ?h @ concat (map snd ps) @ ?idx" by (simp add: ava_file_def Let_def)
  note h = header_fields [OF ok, of ?off]
  have len: "length ?idx = 8 * length ?es" by (simp add: length_concat comp_def sum_list_triv)
  have th: "List.take 48 ?file = ?h" using h(1) by (simp add: layout)
  have size: "int (length ?file) - int ?off = 8 * int (length ?es)" by (simp add: layout h(1) len)
  have "List.drop ?off ?file = ?idx" using h(1) by (simp add: layout)
  then have rd: "read_at ?file ?off (8 * int (length ?es)) = Inr ?idx"
    using len by (simp add: read_at_def slice_def nat_mult_distrib)
  have off: "le_value (slice 40 8 ?h) = ?off" using small h(9) by simp
  obtain bayer where b: "utf8 (wi_bayer i) = Some bayer" using ok by (auto simp: writer_ok_def)
  have "\<not> 2 ^ 63 \<le> ?off" using small by simp
  then show ?thesis
    unfolding open_sequence_def Let_def th off size
    using h(1-3,7,8) b rd words64_index [of ?es]
    by (simp add: codes_def del: of_nat_add)
qed

lemma read_slots:
  assumes ok: "writer_ok i" and small: "48 + packed ps < 2 ^ 63"
  obtains s where "open_sequence rm (ava_file i r ps) = Inr s"
    "sq_frame_count s = int (length (frame_slots r None ps))"
    "ri_width (sq_info s) = int (wi_width i)" "ri_height (sq_info s) = int (wi_height i)"
    "ri_bitcount (sq_info s) = wi_bitcount i"
    "\<forall>j < length (frame_slots r None ps). read_frame s (int j) = Inr (frame_slots r None ps ! j)"
proof -
  let ?es = "index_entries r 48 None ps" and ?file = "ava_file i r ps" and ?off = "48 + packed ps"
  obtain s where s: "open_sequence rm ?file = Inr s" "sq_file s = ?file"
    "sq_frame_indices s = map word_of_nat ?es" "sq_frame_count s = int (length (sq_frame_indices s))"
    "sq_index_offset s = ?off" "sq_info s = unpack_info (header_bytes i ?off)"
    using open_written [OF ok small, of rm r] by (elim exE conjE) (rule that)
  have read: "read_frame s (int j) = Inr (frame_slots r None ps ! j)" if j: "j < length (frame_slots r None ps)" for j
  proof -
    obtain ps1 ts buf ps2 n m es1 es2 where sp: "ps = ps1 @ (ts, buf) # ps2"
      "?es = es1 @ (48 + packed ps1) # replicate n 0 @ es2" "j = length es1 + m" "m \<le> n" "es2 = [] \<longleftrightarrow> ps2 = []"
      "ps2 \<noteq> [] \<longrightarrow> hd es2 = 48 + packed ps1 + length buf" "frame_slots r None ps ! j = buf"
      using slot_split [OF j, of 48] by (elim exE conjE) (rule that)
    have bound: "48 + packed ps1 + length buf < 2 ^ 63" using small by (simp add: sp(1))
    have word: "unat (word_of_nat x :: 64 word) = x" if "x < 2 ^ 63" for x
      using that by (simp add: unat_of_nat)
    let ?w = "word_of_nat (48 + packed ps1) :: 64 word"
    have w: "unat ?w = 48 + packed ps1" using bound by (intro word) simp
    have e2: "es2 \<noteq> [] \<Longrightarrow> unat (hd (map word_of_nat es2) :: 64 word) = 48 + packed ps1 + length buf"
      using sp(5,6) word [OF bound] by (simp add: hd_map)
    have "read_frame s (int (length (map word_of_nat es1 :: 64 word list) + m)) =
        Inr (slice (unat ?w) (length buf) (sq_file s))"
    proof (rule read_frame_slot [of s "map word_of_nat es1" ?w n "map word_of_nat es2" m "length buf"])
      show "sq_frame_indices s = map word_of_nat es1 @ ?w # replicate n 0 @ map word_of_nat es2"
        by (simp add: s(3) sp(2) del: of_nat_add)
      show "?w \<noteq> 0" using w by (metis add_is_0 unat_0 zero_neq_numeral)
      show "map word_of_nat es2 \<noteq> [] \<longrightarrow> hd (map word_of_nat es2 :: 64 word list) \<noteq> 0"
        using e2 by (metis add_is_0 list.map_disc_iff unat_0 zero_neq_numeral)
      show "(if map word_of_nat es2 = ([] :: 64 word list) then sq_index_offset s
          else unat (hd (map word_of_nat es2 :: 64 word list))) = unat ?w + length buf"
        unfolding w using e2 sp(5) by (auto simp: s(5) sp(1))
    qed (use s(4) sp(4) in simp_all)
    moreover have "slice (unat ?w) (length buf) ?file = buf"
      unfolding w using header_fields(1) [OF ok] by (simp add: ava_file_def slice_def sp(1) Let_def)
    ultimately show ?thesis using sp(7) by (simp add: s(2) sp(3))
  qed
  show thesis
    using s(1,4,6) read header_fields [OF ok, of ?off] by (intro that [of s]) (simp_all add: s(3) length_index)
qed

text \<open>
  What stands where, counted from the time stamps: how many frames are missing in front of a packet, at which entry
  of the index the packet's own frame stands in the file, and at which it would have to stand for the frames
  to be in the order of time.
\<close>

definition missing_before :: "pyfloat \<Rightarrow> pyfloat option \<Rightarrow> packet list \<Rightarrow> nat \<Rightarrow> nat" where
  "missing_before r prev ps k =
     nb_extra_frames r (if k = 0 then prev else Some (fst (ps ! (k - 1)))) (fst (ps ! k))"

definition entry_of :: "pyfloat \<Rightarrow> pyfloat option \<Rightarrow> packet list \<Rightarrow> nat \<Rightarrow> nat" where
  "entry_of r prev ps k = (\<Sum>j<k. Suc (missing_before r prev ps j))"

lemma missing_before_Suc [simp]:
  "missing_before r prev (p # ps) (Suc k) = missing_before r (Some (fst p)) ps k"
  "missing_before r prev (p # ps) 0 = nb_extra_frames r prev (fst p)"
  by (cases k) (simp_all add: missing_before_def)

lemma entry_of_Suc [simp]:
  "entry_of r prev (p # ps) (Suc k) = Suc (nb_extra_frames r prev (fst p)) + entry_of r (Some (fst p)) ps k"
  "entry_of r prev ps 0 = 0"
  by (simp_all add: entry_of_def sum.lessThan_Suc_shift del: sum.lessThan_Suc)

lemma length_frame_slots: "length (frame_slots r prev ps) = entry_of r prev ps (length ps)"
  by (induction r prev ps rule: frame_slots.induct) simp_all

lemma slot_of_packet:
  "k < length ps \<Longrightarrow> m \<le> missing_before r prev ps k \<Longrightarrow>
     entry_of r prev ps k + m < entry_of r prev ps (length ps) \<and>
     frame_slots r prev ps ! (entry_of r prev ps k + m) = snd (ps ! k)"
proof (induction r prev ps arbitrary: k rule: frame_slots.induct)
  case (2 r prev ts buf ps)
  show ?case
  proof (cases k)
    case 0
    with 2(3) show ?thesis by (auto simp: nth_append nth_Cons' simp del: replicate_Suc)
  next
    case (Suc k')
    with 2 show ?thesis by (simp add: nth_append del: replicate_Suc)
  qed
qed simp

text \<open>
  C12: a recording of any packets, with any time stamps, can be opened, provided that the values of
  the header fit their bytes, the letters of the Bayer pattern are valid UTF-8 and the packets stay below 2 to the 63 bytes, and the size of the image is that of
  the writer. The index has an entry for each packet and for each frame missing between two
  packets. The own entry of packet \<open>k\<close> stands behind those of all packets before it and of the gaps in front of these
  packets; reading it yields exactly its bytes. The entries for the frames that are missing in front of packet \<open>k\<close>
  do not stand before this entry but behind it, and yield the bytes of packet \<open>k\<close> too: of the frame after the
  gap, not of the one before it.
\<close>

theorem recording_read_back:
  assumes ok: "writer_ok i" and small: "48 + packed ps < 2 ^ 63"
  shows "\<exists>s. open_sequence rm (ava_file i r ps) = Inr s \<and>
    sq_frame_count s = int (entry_of r None ps (length ps)) \<and>
    ri_width (sq_info s) = int (wi_width i) \<and> ri_height (sq_info s) = int (wi_height i) \<and>
    ri_bitcount (sq_info s) = wi_bitcount i \<and>
    (\<forall>k m. k < length ps \<and> m \<le> missing_before r None ps k \<longrightarrow>
       read_frame s (int (entry_of r None ps k + m)) = Inr (snd (ps ! k)))"
proof -
  obtain s where s: "open_sequence rm (ava_file i r ps) = Inr s"
    "sq_frame_count s = int (length (frame_slots r None ps))"
    "ri_width (sq_info s) = int (wi_width i)" "ri_height (sq_info s) = int (wi_height i)"
    "ri_bitcount (sq_info s) = wi_bitcount i"
    "\<forall>j < length (frame_slots r None ps). read_frame s (int j) = Inr (frame_slots r None ps ! j)"
    by (rule read_slots [OF ok small])
  have "read_frame s (int (entry_of r None ps k + m)) = Inr (snd (ps ! k))"
    if "k < length ps" "m \<le> missing_before r None ps k" for k m
    using slot_of_packet [OF that] s(6) [unfolded length_frame_slots] by (metis (no_types, lifting))
  with s(1-5) show ?thesis by (auto simp: length_frame_slots simp del: of_nat_add)
qed

lemma recording_read_back_witness:
  "\<exists>s. open_sequence False (ava_file \<lparr>wi_bitcount = 8, wi_width = 2, wi_height = 1, wi_bayer = [32, 32, 32, 32],
       wi_gains = [0, 0, 0, 0, 0, 0, 0, 0, 0, 0, 0, 0]\<rparr> 30 [(0, [7]), (1 / 10, [8, 9]), (4 / 30, [5])]) = Inr s \<and>
     sq_frame_count s = 5 \<and> read_frame s 0 = Inr [7] \<and> read_frame s 1 = Inr [8, 9] \<and> read_frame s 3 = Inr [8, 9] \<and>
     read_frame s 4 = Inr [5]"
proof -
  let ?i = "\<lparr>wi_bitcount = 8, wi_width = 2, wi_height = 1, wi_bayer = [32, 32, 32, 32], wi_gains = [0, 0, 0, 0, 0, 0, 0, 0, 0, 0, 0, 0]\<rparr>"
  let ?ps = "[(0, [7]), (1 / 10, [8, 9]), (4 / 30, [5])] :: packet list"
  have "\<lfloor>5 / 2 :: rat\<rfloor> = 2" "\<lfloor>- (1 / 2) :: rat\<rfloor> = - 1" "\<lfloor>1 / 2 :: rat\<rfloor> = 0" by (simp_all add: floor_eq_iff)
  then have "nb_extra_frames 30 None 0 = 0" "nb_extra_frames 30 (Some 0) (1 / 10) = 2"
    "nb_extra_frames 30 (Some (1 / 10)) (4 / 30) = 0" by (simp_all add: nb_extra_frames_def)
  then have missing: "missing_before 30 None ?ps 0 = 0" "missing_before 30 None ?ps 1 = 2" "missing_before 30 None ?ps 2 = 0"
    by (simp_all add: missing_before_def)
  then have entries: "entry_of 30 None ?ps 0 = 0" "entry_of 30 None ?ps 1 = 1" "entry_of 30 None ?ps 2 = 4" "entry_of 30 None ?ps 3 = 5"
    by (simp_all add: entry_of_def numeral_2_eq_2 numeral_3_eq_3)
  have "writer_ok ?i" "48 + packed ?ps < 2 ^ 63" by (simp_all add: writer_ok_def)
  from recording_read_back [OF this, of False 30]
  obtain s where s: "open_sequence False (ava_file ?i 30 ?ps) = Inr s"
    and count: "sq_frame_count s = int (entry_of 30 None ?ps (length ?ps))"
    and rd: "\<forall>k m. k < length ?ps \<and> m \<le> missing_before 30 None ?ps k \<longrightarrow>
       read_frame s (int (entry_of 30 None ?ps k + m)) = Inr (snd (?ps ! k))"
    by (elim exE conjE) (rule that)
  have len: "length ?ps = 3" by simp
  show ?thesis
  proof (intro exI conjI, rule s)
    show "sq_frame_count s = 5" using count unfolding len entries by simp
    show "read_frame s 0 = Inr [7]" using rd [rule_format, of 0 0] entries(1) by simp
    show "read_frame s 1 = Inr [8, 9]" using rd [rule_format, of 1 0] entries(2) by simp
    show "read_frame s 3 = Inr [8, 9]" using rd [rule_format, of 1 2] entries(2) missing(2) by simp
    show "read_frame s 4 = Inr [5]" using rd [rule_format, of 2 0] entries(3) by simp
  qed
qed

section \<open>The arithmetic on pixels\<close>

lemma unat_black: "unat (black b x) = unat x - unat b"
proof (cases "b \<le> x")
  case True
  then show ?thesis by (simp add: black_def max_def unat_sub)
next
  case False
  then have "x < b" by simp
  then have "max b x = b" "unat x < unat b" by (simp_all add: word_less_nat_alt max_absorb1 less_imp_le)
  then show ?thesis by (simp add: black_def)
qed

lemma unat_to_msb:
  fixes x :: "16 word"
  assumes "n \<le> 16" "unat x < 2 ^ n"
  shows "unat (push_bit (16 - n) x) = unat x * 2 ^ (16 - n)"
proof -
  have "unat x * 2 ^ (16 - n) < 2 ^ n * 2 ^ (16 - n)" using assms(2) by simp
  also have "\<dots> = 2 ^ 16" using assms(1) by (simp flip: power_add)
  finally have "unat x * 2 ^ (16 - n) < 2 ^ 16" .
  then show ?thesis by (subst unsigned_push_bit_eq) (simp add: push_bit_eq_mult take_bit_nat_eq_self)
qed

lemma unat_gain:
  assumes "0 \<le> k" "of_nat n * k < 2 ^ 32"
  shows "unat (gain n k) = nat \<lfloor>of_nat n * k\<rfloor>"
proof -
  have "0 \<le> \<lfloor>of_nat n * k\<rfloor>" using assms(1) by simp
  moreover have "\<lfloor>of_nat n * k\<rfloor> < 2 ^ 32" using assms(2) by (simp add: floor_less_iff)
  ultimately show ?thesis by (simp add: gain_def unat_eq_nat_uint uint_word_of_int)
qed

text \<open>What a channel of 16 bits becomes: the product modulo \<open>2^32\<close>, and never more than 16 bits.\<close>

lemma unat_balance16: "unat (balance16 k x) = unat x * unat (gain 65535 k) mod 2 ^ 32 div 2 ^ 16"
proof -
  let ?p = "(ucast x :: 32 word) * gain 65535 k"
  have "unat x < 2 ^ 32" using unsigned_less [of x, where 'a = nat] by simp
  then have "unat (ucast x :: 32 word) = unat x" by (simp add: unsigned_ucast_eq take_bit_nat_eq_self)
  then have p: "unat ?p = unat x * unat (gain 65535 k) mod 2 ^ 32" by (simp add: unat_word_ariths)
  have "unat ?p < 2 ^ 32" unfolding p by simp
  then have d: "unat (drop_bit 16 ?p) = unat ?p div 2 ^ 16"
    by (subst unsigned_drop_bit_eq) (simp add: drop_bit_eq_div take_bit_nat_eq_self)
  have small: "unat (drop_bit 16 ?p) < 2 ^ 16" unfolding d p by (simp add: div_less_iff_less_mult)
  then have "drop_bit 16 ?p \<le> 65535" by (simp add: word_le_nat_alt)
  then have "min (drop_bit 16 ?p) 65535 = drop_bit 16 ?p" by simp
  then have "unat (balance16 k x) = unat (drop_bit 16 ?p)"
    using small by (simp add: balance16_def unsigned_ucast_eq take_bit_nat_eq_self)
  then show ?thesis by (simp add: d p)
qed

definition scaled :: "nat \<Rightarrow> nat \<Rightarrow> pyfloat \<Rightarrow> 16 word \<Rightarrow> nat" where
  "scaled blacklevel bitcount k x =
     (unat x - blacklevel) * 2 ^ (16 - bitcount) * nat \<lfloor>65535 * k\<rfloor> div 2 ^ 16"

lemma balanced_pixel:
  assumes bits: "8 < n" "n \<le> 16" and x: "unat x < 2 ^ n" and b: "b < 2 ^ 16" and k: "0 \<le> k" "k \<le> 1"
  shows "unat (balance16 k (push_bit (16 - n) (black (word_of_nat b) x))) = scaled b n k x"
    "scaled b n k x < 2 ^ 16"
proof -
  have ub: "unat (black (word_of_nat b) x) = unat x - b" using b by (simp add: unat_black unat_of_nat)
  have m: "unat (push_bit (16 - n) (black (word_of_nat b) x)) = (unat x - b) * 2 ^ (16 - n)"
    using bits x by (subst unat_to_msb) (auto simp: ub)
  have g: "unat (gain 65535 k) = nat \<lfloor>65535 * k\<rfloor>" using k by (subst unat_gain) auto
  have "\<lfloor>65535 * k\<rfloor> \<le> 65535" using k by (simp add: floor_le_iff)
  then have g1: "nat \<lfloor>65535 * k\<rfloor> \<le> 65535" by (simp only: nat_le_iff of_nat_numeral)
  have "unat (push_bit (16 - n) (black (word_of_nat b) x)) \<le> 65535"
    using unsigned_less [of "push_bit (16 - n) (black (word_of_nat b) x)", where 'a = nat] by simp
  then have "(unat x - b) * 2 ^ (16 - n) * nat \<lfloor>65535 * k\<rfloor> \<le> 65535 * 65535"
    unfolding m using g1 by (rule mult_le_mono)
  then have "(unat x - b) * 2 ^ (16 - n) * nat \<lfloor>65535 * k\<rfloor> < 2 ^ 32" by simp
  then show "unat (balance16 k (push_bit (16 - n) (black (word_of_nat b) x))) = scaled b n k x"
    "scaled b n k x < 2 ^ 16"
    by (simp_all add: unat_balance16 m g scaled_def div_less_iff_less_mult)
qed

text \<open>
  C24: with gains up to one, a colour image of 9 to 16 bits is processed without any
  overflow: every channel is its value above the black level, moved to the most significant bits, times the
  gain. With a gain of two a brighter pixel comes out darker, because the product wraps before
  it is clipped.
\<close>

theorem gains_up_to_one_are_exact:
  assumes img: "debayer cv bayer raw_img = Color16 p" and bits: "8 < n" "n \<le> 16" and b: "b < 2 ^ 16"
    and range: "\<forall>row \<in> set p. \<forall>(x, y, z) \<in> set row. unat x < 2 ^ n \<and> unat y < 2 ^ n \<and> unat z < 2 ^ n"
    and k: "0 \<le> kB" "kB \<le> 1" "0 \<le> kG" "kG \<le> 1" "0 \<le> kR" "kR \<le> 1"
  shows "(\<exists>q. raw_processing_to_16bit_linear cv raw_img bayer (int b) n (kB, kG, kR) None = Inr (Color16 q) \<and>
      map (map (\<lambda>(x, y, z). (unat x, unat y, unat z))) q =
      map (map (\<lambda>(x, y, z). (scaled b n kB x, scaled b n kG y, scaled b n kR z))) p) \<and>
    balance16 2 30000 = 59999 \<and> balance16 2 40000 = 14462"
proof
  let ?f = "\<lambda>k x. balance16 k (push_bit (16 - n) (black (word_of_nat b) x))"
  let ?q = "map (map (\<lambda>(x, y, z). (?f kB x, ?f kG y, ?f kR z))) p"
  have "raw_processing_to_16bit_linear cv raw_img bayer (int b) n (kB, kG, kR) None = Inr (Color16 ?q)"
    using bits b
    by (simp add: raw_processing_to_16bit_linear_def first_steps_def img map_colors_def comp_def case_prod_unfold)
  moreover have "map (map (\<lambda>(x, y, z). (unat x, unat y, unat z))) ?q =
      map (map (\<lambda>(x, y, z). (scaled b n kB x, scaled b n kG y, scaled b n kR z))) p"
    using range balanced_pixel(1) [OF bits _ b] k by (fastforce simp: case_prod_unfold)
  ultimately show "\<exists>q. raw_processing_to_16bit_linear cv raw_img bayer (int b) n (kB, kG, kR) None = Inr (Color16 q) \<and>
      map (map (\<lambda>(x, y, z). (unat x, unat y, unat z))) q =
      map (map (\<lambda>(x, y, z). (scaled b n kB x, scaled b n kG y, scaled b n kR z))) p" by blast
  have "gain 65535 2 = 131070" by (simp add: gain_def)
  then have "unat (balance16 2 30000) = 59999" "unat (balance16 2 40000) = 14462"
    by (simp_all add: unat_balance16)
  then show "balance16 2 30000 = 59999 \<and> balance16 2 40000 = 14462"
    by (simp add: word_unat_eq_iff)
qed

lemma gains_up_to_one_are_exact_witness:
  "\<exists>q. raw_processing_to_16bit_linear
       \<lparr>cv_cvtColor = (\<lambda>_ _. Color16 [[(100, 4000, 0)]]), cv_resize = (\<lambda>_ i. i), cv_flip = (\<lambda>_ i. i),
        cv_transpose = id, cv_imdecode = (\<lambda>_. None)\<rparr>
       (Gray16 [[100]]) (codes ''BGGR'') (int 64) 12 (1, 1 / 2, 0) None = Inr (Color16 q) \<and>
     map (map (\<lambda>(x, y, z). (unat x, unat y, unat z))) q = [[(scaled 64 12 1 100, scaled 64 12 (1 / 2) 4000, 0)]]"
proof -
  let ?cv = "\<lparr>cv_cvtColor = (\<lambda>_ _. Color16 [[(100, 4000, 0)]]), cv_resize = (\<lambda>_ i. i), cv_flip = (\<lambda>_ i. i),
        cv_transpose = id, cv_imdecode = (\<lambda>_. None)\<rparr>"
  have "debayer ?cv (codes ''BGGR'') (Gray16 [[100]]) = Color16 [[(100, 4000, 0)]]" by (simp add: debayer_def)
  from gains_up_to_one_are_exact [OF this, of 12 64 1 "1 / 2" 0] show ?thesis
    by (simp add: scaled_def)
qed

end
