(* ===== verification/Raw_Srgb.thy ===== *)
theory Raw_Srgb
  imports Raw_Correct
begin

text \<open>
  The pictures for the eye of \<open>raw_file_format_readers.py\<close>: the conversion of 16 bit linear values
  to 8 bits on the sRGB curve, and the methods of the two readers that give pictures. \<open>cv2.pow\<close> is a
  parameter; of it only what holds for a power with the exponent 5/12 is used.
\<close>

section \<open>The conversion\<close>

definition Linear_to_sRGB :: "(pyfloat \<Rightarrow> pyfloat \<Rightarrow> pyfloat) \<Rightarrow> pyfloat \<Rightarrow> pyfloat" where
  "Linear_to_sRGB pw v =
     (let a = 55 / 1000; x = v / 65535
      in (if x \<le> 313066844 / 100000000000 then 0 else (1 + a) * pw x (1 / (24 / 10)) - a) * 65535)"

text \<open>\<open>astype(np.uint16)\<close> cuts off the fraction; a value outside of 16 bits would depend on the machine.\<close>

definition truncate :: "pyfloat \<Rightarrow> int" where
  "truncate x = (if 0 \<le> x then floor x else ceiling x)"

definition sRGB_8bit :: "(pyfloat \<Rightarrow> pyfloat \<Rightarrow> pyfloat) \<Rightarrow> pyfloat \<Rightarrow> 8 word" where
  "sRGB_8bit pw v =
     ucast (drop_bit 8 (min (max (word_of_int (truncate (Linear_to_sRGB pw v)) :: 16 word) 0) 65535))"

fun image_8bit :: "(pyfloat \<Rightarrow> pyfloat \<Rightarrow> pyfloat) \<Rightarrow> image \<Rightarrow> image" where
  "image_8bit pw (Gray8 p) = Gray8 (map (map (\<lambda>x. sRGB_8bit pw (of_nat (unat x)))) p)"
| "image_8bit pw (Gray16 p) = Gray8 (map (map (\<lambda>x. sRGB_8bit pw (of_nat (unat x)))) p)"
| "image_8bit pw (GrayF p) = Gray8 (map (map (sRGB_8bit pw)) p)"
| "image_8bit pw (Color8 p) = Color8 (map_colors (\<lambda>x. sRGB_8bit pw (of_nat (unat x))) p)"
| "image_8bit pw (Color16 p) = Color8 (map_colors (\<lambda>x. sRGB_8bit pw (of_nat (unat x))) p)"
| "image_8bit pw (ColorF p) = Color8 (map_colors (sRGB_8bit pw) p)"

definition frame_as_cv2_sRGB_8bit ::
    "(pyfloat \<Rightarrow> pyfloat \<Rightarrow> pyfloat) \<Rightarrow> opencv \<Rightarrow> (bytes \<Rightarrow> int \<Rightarrow> py_exn + bytes) \<Rightarrow> ava_sequence \<Rightarrow> int \<Rightarrow> int option \<Rightarrow> int \<Rightarrow>
       py_exn + image" where
  "frame_as_cv2_sRGB_8bit pw cv decompress s frame_index resize_max_side rotation_angle =
     map_sum id (\<lambda>img. rotate_img cv rotation_angle (image_8bit pw img))
       (read_one_frame_16bit_linear cv decompress s frame_index resize_max_side)"

text \<open>The methods of an image that \<open>open_raw_image\<close> has read: its two arrays.\<close>

definition as_cv2_sRGB_8bit :: "(pyfloat \<Rightarrow> pyfloat \<Rightarrow> pyfloat) \<Rightarrow> opencv \<Rightarrow> image \<times> image \<Rightarrow> int \<Rightarrow> image" where
  "as_cv2_sRGB_8bit pw cv imgs rotation_angle = rotate_img cv rotation_angle (image_8bit pw (fst imgs))"

definition as_cv2_LinearRGB_16bit :: "opencv \<Rightarrow> image \<times> image \<Rightarrow> int \<Rightarrow> image" where
  "as_cv2_LinearRGB_16bit cv imgs rotation_angle = rotate_img cv rotation_angle (fst imgs)"

definition as_cv2_LinearRGB_float32 :: "opencv \<Rightarrow> image \<times> image \<Rightarrow> int \<Rightarrow> image" where
  "as_cv2_LinearRGB_float32 cv imgs rotation_angle = rotate_img cv rotation_angle (snd imgs)"

section \<open>Brighter stays brighter\<close>

text \<open>A power with an exponent between 0 and 1/2, on the unit interval.\<close>

definition root_like :: "(pyfloat \<Rightarrow> pyfloat \<Rightarrow> pyfloat) \<Rightarrow> bool" where
  "root_like pw \<longleftrightarrow>
     (\<forall>x y. 0 \<le> x \<and> x \<le> y \<and> y \<le> 1 \<longrightarrow> pw x (5 / 12) \<le> pw y (5 / 12)) \<and> pw 1 (5 / 12) = 1 \<and>
     (\<forall>x. 0 \<le> x \<and> x \<le> 1 \<longrightarrow> 0 \<le> pw x (5 / 12) \<and> x \<le> (pw x (5 / 12))\<^sup>2)"

lemma sRGB_range:
  assumes "root_like pw" "0 \<le> v" "v \<le> 65535"
  shows "0 \<le> Linear_to_sRGB pw v" "Linear_to_sRGB pw v \<le> 65535"
proof -
  let ?x = "v / 65535"
  have x: "0 \<le> ?x" "?x \<le> 1" using assms by simp_all
  have p: "0 \<le> pw ?x (5 / 12)" "?x \<le> (pw ?x (5 / 12))\<^sup>2"
    using assms(1) x unfolding root_like_def by blast+
  have p1: "pw ?x (5 / 12) \<le> 1" using assms(1) x unfolding root_like_def by (metis order_refl)
  have low: "11 / 200 \<le> 211 / 200 * pw ?x (5 / 12)" if "\<not> ?x \<le> 313066844 / 100000000000"
  proof -
    have "(11 / 211)\<^sup>2 \<le> (pw ?x (5 / 12))\<^sup>2"
      using that p(2) by (simp add: power2_eq_square)
    then have "11 / 211 \<le> pw ?x (5 / 12)" using p(1) by (rule power2_le_imp_le)
    then show ?thesis by simp
  qed
  show "0 \<le> Linear_to_sRGB pw v" using low by (auto simp: Linear_to_sRGB_def Let_def)
  show "Linear_to_sRGB pw v \<le> 65535" using p1 by (simp add: Linear_to_sRGB_def Let_def)
qed

lemma sRGB_mono:
  assumes "root_like pw" "0 \<le> v" "v \<le> w" "w \<le> 65535"
  shows "Linear_to_sRGB pw v \<le> Linear_to_sRGB pw w"
proof (cases "v / 65535 \<le> 313066844 / 100000000000")
  case True
  then have "Linear_to_sRGB pw v = 0" by (simp add: Linear_to_sRGB_def)
  then show ?thesis using sRGB_range(1) [of pw w] assms by simp
next
  case False
  moreover from this have "\<not> w / 65535 \<le> 313066844 / 100000000000" using assms(3) by simp
  moreover have "pw (v / 65535) (5 / 12) \<le> pw (w / 65535) (5 / 12)"
    using assms by (auto simp: root_like_def divide_right_mono)
  ultimately show ?thesis by (simp add: Linear_to_sRGB_def Let_def)
qed

lemma sRGB_8bit_value:
  assumes "root_like pw" "0 \<le> v" "v \<le> 65535"
  shows "unat (sRGB_8bit pw v) = nat \<lfloor>Linear_to_sRGB pw v\<rfloor> div 256"
proof -
  let ?y = "Linear_to_sRGB pw v"
  have y: "0 \<le> \<lfloor>?y\<rfloor>" "\<lfloor>?y\<rfloor> \<le> 65535" using sRGB_range [OF assms] by (simp_all add: floor_le_iff)
  have u: "unat (word_of_int \<lfloor>?y\<rfloor> :: 16 word) = nat \<lfloor>?y\<rfloor>"
    using y by (simp add: unsigned_of_int take_bit_int_eq_self)
  have unat_65535: "unat (65535 :: 16 word) = nat 65535" by simp
  have "nat \<lfloor>?y\<rfloor> \<le> nat 65535" using y by (simp only: nat_mono)
  then have "word_of_int \<lfloor>?y\<rfloor> \<le> (65535 :: 16 word)" by (simp only: word_le_nat_alt u unat_65535)
  then have "sRGB_8bit pw v = ucast (drop_bit 8 (word_of_int \<lfloor>?y\<rfloor> :: 16 word))"
    using sRGB_range(1) [OF assms] by (simp add: sRGB_8bit_def truncate_def min_def)
  moreover have "nat \<lfloor>?y\<rfloor> div 256 < 2 ^ 8" using y by (simp add: div_less_iff_less_mult nat_less_iff)
  ultimately show ?thesis
    by (simp add: unsigned_ucast_eq unsigned_drop_bit_eq drop_bit_eq_div take_bit_nat_eq_self u unat_div)
qed

text \<open>
  Of two values of 16 bits the brighter one is never darker on the 8 bit picture, no value leaves the range
  on the way, and white stays white. The curve has no linear part: everything up to the value 205 becomes
  black, where the sRGB standard has 12.92 times the value, which is 10 in 8 bits.
\<close>

theorem preview_monotone:
  fixes x y :: "16 word"
  assumes "root_like pw"
  shows "(x \<le> y \<longrightarrow> sRGB_8bit pw (of_nat (unat x)) \<le> sRGB_8bit pw (of_nat (unat y))) \<and>
    sRGB_8bit pw 65535 = 255 \<and> (unat x \<le> 205 \<longrightarrow> sRGB_8bit pw (of_nat (unat x)) = 0) \<and>
    \<lfloor>(1292 / 100 :: pyfloat) * 205\<rfloor> div 256 = 10"
proof (intro conjI impI)
  have lim: "0 \<le> (of_nat (unat z) :: pyfloat)" "(of_nat (unat z) :: pyfloat) \<le> 65535" for z :: "16 word"
  proof -
    show "0 \<le> (of_nat (unat z) :: pyfloat)" by (rule of_nat_0_le_iff)
    have "unat z \<le> 65535" using unsigned_less [of z, where 'a = nat] by simp
    then have "(of_nat (unat z) :: pyfloat) \<le> of_nat 65535" by (simp only: of_nat_le_iff)
    then show "(of_nat (unat z) :: pyfloat) \<le> 65535" by simp
  qed
  note val8 = sRGB_8bit_value [OF assms]
  { assume "x \<le> y"
    then have "(of_nat (unat x) :: pyfloat) \<le> of_nat (unat y)" by (simp only: word_le_nat_alt of_nat_le_iff)
    then have "nat \<lfloor>Linear_to_sRGB pw (of_nat (unat x))\<rfloor> \<le> nat \<lfloor>Linear_to_sRGB pw (of_nat (unat y))\<rfloor>"
      using sRGB_mono [OF assms] lim by (intro nat_mono floor_mono) blast
    then show "sRGB_8bit pw (of_nat (unat x)) \<le> sRGB_8bit pw (of_nat (unat y))"
      by (simp only: word_le_nat_alt val8 lim div_le_mono) }
  have "Linear_to_sRGB pw 65535 = 65535" using assms by (simp add: Linear_to_sRGB_def root_like_def)
  then have "unat (sRGB_8bit pw 65535) = 255" by (simp add: val8)
  then show "sRGB_8bit pw 65535 = 255" by (simp add: word_unat_eq_iff)
  have "\<lfloor>(1292 / 100 :: pyfloat) * 205\<rfloor> = 2648" by (simp add: floor_eq_iff)
  then show "\<lfloor>(1292 / 100 :: pyfloat) * 205\<rfloor> div 256 = 10" by simp
  assume "unat x \<le> 205"
  then have "(of_nat (unat x) :: pyfloat) \<le> of_nat 205" by (simp only: of_nat_le_iff)
  then have "Linear_to_sRGB pw (of_nat (unat x)) = 0" by (simp add: Linear_to_sRGB_def)
  then have "unat (sRGB_8bit pw (of_nat (unat x))) = 0"
    by (simp only: val8 lim) simp
  then show "sRGB_8bit pw (of_nat (unat x)) = 0" by (simp add: unat_eq_0)
qed

lemma preview_monotone_witness:
  "sRGB_8bit (\<lambda>x _. (1 + x) / 2) 65535 = 255 \<and>
   sRGB_8bit (\<lambda>x _. (1 + x) / 2) (of_nat (unat (205 :: 16 word))) \<le> sRGB_8bit (\<lambda>x _. (1 + x) / 2) (of_nat (unat (300 :: 16 word)))"
proof -
  have "x \<le> ((1 + x) / 2)\<^sup>2" for x :: pyfloat
  proof -
    have "((1 + x) / 2)\<^sup>2 - x = ((1 - x) / 2)\<^sup>2" by (simp add: power2_eq_square field_simps)
    moreover have "0 \<le> ((1 - x) / 2)\<^sup>2" by simp
    ultimately show ?thesis by linarith
  qed
  then have "root_like (\<lambda>x _. (1 + x) / 2)" by (simp add: root_like_def)
  from preview_monotone [OF this, of 205 300] show ?thesis by simp
qed

end
