(* ===== verification/Hardware_Sync.thy ===== *)
theory Hardware_Sync
  imports Prelude "HOL-Library.Word"
begin

text \<open>
  The trigger of the cameras: the class \<open>ArduinoHardWareSync\<close> of the capture node
  (\<open>src/capture-node/source/hardware_sync.py\<close>, Python 2) and the program of the device
  (\<open>src/hardware/ximea_camera_sync/ximea_camera_sync.ino\<close>), joined by a serial line. The \<open>int\<close>
  of the device has 16 bits and wraps. An answer that comes after the time-out is waiting when the host tries
  again.
\<close>

section \<open>The device\<close>

datatype pulses = Stopped | FromTimer | FromOutside

record device =
  dv_framerate :: "16 word"
  dv_duration_us :: "32 word"
  dv_pulses :: pulses

definition new_device :: device where
  "new_device = \<lparr>dv_framerate = 0, dv_duration_us = 1000, dv_pulses = Stopped\<rparr>"

definition start_pulse :: "16 word \<Rightarrow> 32 word \<Rightarrow> device \<Rightarrow> device" where
  "start_pulse freq duration_us dv =
     (let freq = (if sint freq > 300 then 300 else if sint freq < 1 then 1 else freq);
          limit = scast ((word_of_int (1000 div sint freq) - 3) * 1000 :: 16 word)
      in dv\<lparr>dv_pulses := FromTimer, dv_framerate := freq, dv_duration_us := min duration_us limit\<rparr>)"

definition start_pulse_external :: "32 word \<Rightarrow> device \<Rightarrow> device" where
  "start_pulse_external duration_us dv =
     dv\<lparr>dv_duration_us := max (min duration_us 1000000) 100, dv_pulses := FromOutside\<rparr>"

definition stop_pulse :: "device \<Rightarrow> device" where
  "stop_pulse dv = dv\<lparr>dv_pulses := Stopped\<rparr>"

text \<open>The number in two bytes, as the device computes it.\<close>

definition device_number :: "8 word \<Rightarrow> 8 word \<Rightarrow> 16 word" where
  "device_number byte1 byte2 = ucast byte1 * 255 + ucast byte2"

text \<open>One command of the main loop, with its arguments, and the bytes of the answer.\<close>

datatype device_command = Identify | Query | Start bool "8 word" "8 word" "8 word" "8 word" | Stop

definition ok_bytes :: "8 word list" where
  "ok_bytes = [0x4F, 0x4B]"

fun device_loop :: "device_command \<Rightarrow> device \<Rightarrow> device \<times> 8 word list" where
  "device_loop Identify dv = (dv, ok_bytes)"
| "device_loop Query dv =
     (dv, [word_of_int (sint (dv_framerate dv) div 255), word_of_int (sint (dv_framerate dv) mod 255),
           ucast (dv_duration_us dv div 255), ucast (dv_duration_us dv mod 255)])"
| "device_loop (Start outside f1 f2 d1 d2) dv =
     ((if outside then start_pulse_external (scast (device_number d1 d2)) (stop_pulse dv)
       else start_pulse (device_number f1 f2) (scast (device_number d1 d2)) (stop_pulse dv)), ok_bytes)"
| "device_loop Stop dv = (stop_pulse dv, ok_bytes)"

section \<open>The host\<close>

text \<open>\<open>sl_waiting\<close>: the bytes that have arrived and are not yet read.\<close>

record serial_link =
  sl_ok :: bool
  sl_waiting :: "8 word list"
  sl_device :: device

text \<open>
  \<open>purge_port\<close> calls a method that does not exist as soon as a byte is waiting; without waiting bytes it has
  nothing to do.
\<close>

definition purge_port :: "serial_link \<Rightarrow> py_exn option" where
  "purge_port l = (if sl_ok l \<and> sl_waiting l \<noteq> [] then Some (AttributeError ''read_one_char'') else None)"

definition send_command :: "device_command \<Rightarrow> serial_link \<Rightarrow> serial_link" where
  "send_command c l =
     (let (dv, answer) = device_loop c (sl_device l)
      in l\<lparr>sl_device := dv, sl_waiting := sl_waiting l @ answer\<rparr>)"

text \<open>
  \<open>read_char\<close>: the bytes, or a time-out when the answer is late (which leaves it waiting); and the
  \<open>read\<close> of the library, which returns what there is.
\<close>

definition read_char :: "bool \<Rightarrow> nat \<Rightarrow> serial_link \<Rightarrow> serial_link \<times> (py_exn + 8 word list)" where
  "read_char late n l =
     (if late \<or> length (sl_waiting l) < n then (l, Inl (PyException ''Timeout reading serial''))
      else (l\<lparr>sl_waiting := List.drop n (sl_waiting l)\<rparr>, Inr (List.take n (sl_waiting l))))"

definition serial_read :: "bool \<Rightarrow> nat \<Rightarrow> serial_link \<Rightarrow> serial_link" where
  "serial_read late n l = (if late then l else l\<lparr>sl_waiting := List.drop n (sl_waiting l)\<rparr>)"

text \<open>
  The constructor, on a port that opens: the device is asked to identify itself, a second time when the first
  answer was not the expected one. The ports are tried in turn.
\<close>

definition check_hw :: "bool \<Rightarrow> serial_link \<Rightarrow> serial_link \<times> bool" where
  "check_hw late l =
     (let l1 = send_command Identify l
      in (serial_read late 2 l1, \<not> late \<and> List.take 2 (sl_waiting l1) = ok_bytes))"

definition open_sync :: "bool \<Rightarrow> bool \<Rightarrow> device \<Rightarrow> serial_link" where
  "open_sync late1 late2 dv =
     (let l0 = \<lparr>sl_ok = False, sl_waiting = [], sl_device = dv\<rparr>;
          (l1, first) = check_hw late1 l0 in
      if first then l1\<lparr>sl_ok := True\<rparr>
      else (let (l2, second) = check_hw late2 l1 in l2\<lparr>sl_ok := second\<rparr>))"

definition auto_detect_port :: "bool \<Rightarrow> (string \<Rightarrow> serial_link option) \<Rightarrow> string option" where
  "auto_detect_port win32 open_port =
     find (\<lambda>p. case open_port p of None \<Rightarrow> False | Some l \<Rightarrow> sl_ok l)
       (map (\<lambda>i. (if win32 then ''COM'' else ''/dev/ttyACM'') @ show_nat i) [0..<10])"

text \<open>
  The three commands try five times; \<open>late\<close> tells of each attempt whether the answer is
  late. An attempt that ends with an exception is repeated.
\<close>

fun attempts :: "('s \<Rightarrow> bool \<Rightarrow> 's \<times> (py_exn + 'r)) \<Rightarrow> bool list \<Rightarrow> 's \<Rightarrow> 's \<times> 'r option" where
  "attempts f [] s = (s, None)"
| "attempts f (late # rest) s =
     (case f s late of
        (s', Inr r) \<Rightarrow> (s', Some r)
      | (s', Inl _) \<Rightarrow> attempts f rest s')"

definition host_number :: "8 word \<Rightarrow> 8 word \<Rightarrow> int" where
  "host_number byte1 byte2 = uint byte1 * 255 + uint byte2"

text \<open>The bytes of an answer are read one at a time; a late answer times out at the first.\<close>

definition query_once :: "serial_link \<Rightarrow> bool \<Rightarrow> serial_link \<times> (py_exn + int \<times> int)" where
  "query_once l late =
     (case purge_port l of
        Some x \<Rightarrow> (l, Inl x)
      | None \<Rightarrow>
          (case read_char late 1 (send_command Query l) of
             (l1, Inl x) \<Rightarrow> (l1, Inl x)
           | (l1, Inr a) \<Rightarrow>
          (case read_char late 1 l1 of
             (l2, Inl x) \<Rightarrow> (l2, Inl x)
           | (l2, Inr b) \<Rightarrow>
          (case read_char late 1 l2 of
             (l3, Inl x) \<Rightarrow> (l3, Inl x)
           | (l3, Inr c) \<Rightarrow>
          (case read_char late 1 l3 of
             (l4, Inl x) \<Rightarrow> (l4, Inl x)
           | (l4, Inr d) \<Rightarrow> (l4, Inr (host_number (hd a) (hd b), host_number (hd c) (hd d))))))))"

definition current_framerate :: "bool list \<Rightarrow> serial_link \<Rightarrow> serial_link \<times> (int \<times> int) option" where
  "current_framerate late l =
     (if sl_ok l then attempts query_once (List.take 5 late) l else (l, None))"

definition start_once :: "bool \<Rightarrow> int \<Rightarrow> int \<Rightarrow> serial_link \<Rightarrow> bool \<Rightarrow> serial_link \<times> (py_exn + unit)" where
  "start_once external_sync framerate duration l late =
     (case purge_port l of
        Some x \<Rightarrow> (l, Inl x)
      | None \<Rightarrow>
          (case read_char late 2 (send_command (Start external_sync
                   (word_of_int (framerate div 255)) (word_of_int (framerate mod 255))
                   (word_of_int (duration div 255)) (word_of_int (duration mod 255))) l) of
             (l1, Inl x) \<Rightarrow> (l1, Inl x)
           | (l1, Inr _) \<Rightarrow> (l1, Inr ())))"

definition start :: "int \<Rightarrow> int \<Rightarrow> bool \<Rightarrow> bool list \<Rightarrow> serial_link \<Rightarrow> serial_link" where
  "start framerate duration_us external_sync late l =
     (if sl_ok l
      then fst (attempts (start_once external_sync (min (max framerate 1) 300) (min (max duration_us 100) 65000))
             (List.take 5 late) l)
      else l)"

definition stop_once :: "serial_link \<Rightarrow> bool \<Rightarrow> serial_link \<times> (py_exn + unit)" where
  "stop_once l late =
     (case purge_port l of
        Some x \<Rightarrow> (l, Inl x)
      | None \<Rightarrow> (serial_read late 2 (send_command Stop l), Inr ()))"

definition stop :: "bool list \<Rightarrow> serial_link \<Rightarrow> serial_link" where
  "stop late l = (if sl_ok l then fst (attempts stop_once (List.take 5 late) l) else l)"

section \<open>What the device is told and what it says\<close>

text \<open>Both sides write a number in the same two bytes; the host reads any number below 65279 back.\<close>

lemma host_number_bytes:
  assumes "0 \<le> n" "n < 65280"
  shows "host_number (word_of_int (n div 255)) (word_of_int (n mod 255)) = n"
proof -
  have "n div 255 < 256" "n mod 255 < 256" "0 \<le> n div 255" "0 \<le> n mod 255" using assms by auto
  then have "uint (word_of_int (n div 255) :: 8 word) = n div 255" "uint (word_of_int (n mod 255) :: 8 word) = n mod 255"
    by (simp_all add: uint_word_of_int)
  then show ?thesis by (simp add: host_number_def)
qed

lemma device_number_bytes:
  assumes "0 \<le> n" "n < 32768"
  shows "device_number (word_of_int (n div 255)) (word_of_int (n mod 255)) = word_of_int n"
    "sint (word_of_int n :: 16 word) = n" "uint (word_of_int n :: 16 word) = n"
proof -
  have b: "n div 255 < 256" "n mod 255 < 256" "0 \<le> n div 255" "0 \<le> n mod 255" using assms by auto
  have "(ucast (word_of_int k :: 8 word) :: 16 word) = word_of_int k" if "0 \<le> k" "k < 256" for k
    using that by (simp add: word_uint_eq_iff uint_word_of_int unsigned_ucast_eq take_bit_int_eq_self)
  then have "device_number (word_of_int (n div 255)) (word_of_int (n mod 255)) =
      word_of_int (n div 255) * 255 + word_of_int (n mod 255)"
    using b by (simp add: device_number_def)
  also have "\<dots> = word_of_int (n div 255 * 255 + n mod 255)"
    by (simp only: of_int_add of_int_mult of_int_numeral)
  finally show "device_number (word_of_int (n div 255)) (word_of_int (n mod 255)) = word_of_int n"
    by (simp only: div_mult_mod_eq)
  show "sint (word_of_int n :: 16 word) = n" "uint (word_of_int n :: 16 word) = n"
    using assms by (simp_all add: sint_sbintrunc' signed_take_bit_int_eq_self uint_word_of_int)
qed

text \<open>
  The longest pulse the device allows at a frame rate, \<open>(1000/freq-3)*1000\<close>: as it is meant, and in
  the range where its 16 bits hold it.
\<close>

definition longest_pulse :: "int \<Rightarrow> int" where
  "longest_pulse freq = (1000 div freq - 3) * 1000"

lemma device_limit:
  assumes "28 \<le> freq" "freq \<le> 300"
  shows "sint ((word_of_int (1000 div freq) - 3) * 1000 :: 16 word) = longest_pulse freq"
    "0 \<le> longest_pulse freq" "longest_pulse freq < 32768"
proof -
  have "1000 div freq \<le> 1000 div 28" using assms(1) by (intro zdiv_mono2) auto
  moreover have "1000 div 300 \<le> 1000 div freq" using assms by (intro zdiv_mono2) auto
  ultimately have d: "3 \<le> 1000 div freq" "1000 div freq \<le> 35" by simp_all
  then show l: "0 \<le> longest_pulse freq" "longest_pulse freq < 32768" by (simp_all add: longest_pulse_def)
  have "(word_of_int (1000 div freq) - 3) * 1000 = (word_of_int (longest_pulse freq) :: 16 word)"
    unfolding longest_pulse_def by (simp only: of_int_mult of_int_diff of_int_numeral)
  with device_number_bytes(2) [OF l] show
    "sint ((word_of_int (1000 div freq) - 3) * 1000 :: 16 word) = longest_pulse freq" by simp
qed

lemma scast_word_of_int:
  "0 \<le> n \<Longrightarrow> n < 32768 \<Longrightarrow> sint w = n \<Longrightarrow> (scast (w :: 16 word) :: 32 word) = word_of_int n"
  by (metis of_int_sint)

lemma min_word_of_int:
  assumes "0 \<le> a" "a < 2 ^ 31" "0 \<le> b" "b < 2 ^ 31"
  shows "min (word_of_int a :: 32 word) (word_of_int b) = word_of_int (min a b)"
proof -
  have "uint (word_of_int x :: 32 word) = x" if "0 \<le> x" "x < 2 ^ 31" for x
    using that by (simp add: uint_word_of_int)
  with assms show ?thesis by (simp add: min_def word_le_def)
qed

lemma start_pulse_exact:
  assumes f: "28 \<le> f" "f \<le> 300" and d: "0 \<le> n" "n < 32768"
  shows "start_pulse (word_of_int f) (word_of_int n) dv =
    dv\<lparr>dv_pulses := FromTimer, dv_framerate := word_of_int f,
       dv_duration_us := word_of_int (min n (longest_pulse f))\<rparr>"
proof -
  have sf: "sint (word_of_int f :: 16 word) = f" using f by (intro device_number_bytes(2)) auto
  note l = device_limit [OF f]
  have "(scast ((word_of_int (1000 div f) - 3) * 1000 :: 16 word) :: 32 word) = word_of_int (longest_pulse f)"
    by (rule scast_word_of_int [OF l(2,3,1)])
  moreover have "min (word_of_int n :: 32 word) (word_of_int (longest_pulse f)) = word_of_int (min n (longest_pulse f))"
    using d l by (intro min_word_of_int) auto
  ultimately show ?thesis using f by (simp add: start_pulse_def sf)
qed

text \<open>The answer to a query, when both numbers fit.\<close>

lemma query_answer:
  assumes ok: "sl_ok l" "sl_waiting l = []"
    and dv: "dv_framerate (sl_device l) = word_of_int f" "dv_duration_us (sl_device l) = word_of_int n"
    and f: "0 \<le> f" "f < 32768" and n: "0 \<le> n" "n < 65280"
  shows "query_once l False = (l, Inr (f, n))"
proof -
  have sf: "sint (word_of_int f :: 16 word) = f" using f by (rule device_number_bytes(2))
  have un: "uint (word_of_int n :: 32 word) = n" using n by (simp add: uint_word_of_int)
  have q: "(ucast ((word_of_int n :: 32 word) div 255) :: 8 word) = word_of_int (n div 255)"
    "(ucast ((word_of_int n :: 32 word) mod 255) :: 8 word) = word_of_int (n mod 255)"
    using n by (simp_all add: word_uint_eq_iff uint_word_of_int unsigned_ucast_eq uint_div uint_mod un take_bit_eq_mod)
  have "l\<lparr>sl_device := sl_device l, sl_waiting := []\<rparr> = l" using ok(2) by simp
  with ok f n show ?thesis
    by (simp add: query_once_def purge_port_def send_command_def read_char_def dv sf q host_number_bytes)
qed

text \<open>A start that is answered.\<close>

definition started :: "int \<Rightarrow> int \<Rightarrow> serial_link \<Rightarrow> serial_link" where
  "started f n l = l\<lparr>sl_device := start_pulse
     (device_number (word_of_int (f div 255)) (word_of_int (f mod 255)))
     (scast (device_number (word_of_int (n div 255)) (word_of_int (n mod 255)))) (stop_pulse (sl_device l))\<rparr>"

lemma start_answered:
  assumes "sl_ok l" "sl_waiting l = []"
  shows "start f n False [False] l = started (min (max f 1) 300) (min (max n 100) 65000) l"
proof -
  have "start_once False f n l False = (started f n l, Inr ())" for f n
    using assms by (simp add: start_once_def purge_port_def send_command_def read_char_def ok_bytes_def started_def)
  then show ?thesis using assms by (simp add: start_def)
qed

lemma query_started:
  assumes ok: "sl_ok l" "sl_waiting l = []"
    and dv: "start_pulse (device_number (word_of_int (f div 255)) (word_of_int (f mod 255)))
        (scast (device_number (word_of_int (n div 255)) (word_of_int (n mod 255)))) (stop_pulse (sl_device l)) =
      (stop_pulse (sl_device l))\<lparr>dv_pulses := FromTimer, dv_framerate := word_of_int f2, dv_duration_us := word_of_int n2\<rparr>"
    and f: "0 \<le> f2" "f2 < 32768" and n: "0 \<le> n2" "n2 < 65280"
  shows "current_framerate [False] (started f n l) = (started f n l, Some (f2, n2))"
    "dv_pulses (sl_device (started f n l)) = FromTimer"
proof -
  have "sl_ok (started f n l)" "sl_waiting (started f n l) = []"
    "dv_framerate (sl_device (started f n l)) = word_of_int f2"
    "dv_duration_us (sl_device (started f n l)) = word_of_int n2"
    using ok by (simp_all add: started_def dv)
  from query_answer [OF this f n] show "current_framerate [False] (started f n l) = (started f n l, Some (f2, n2))"
    using ok(1) by (simp add: current_framerate_def started_def)
  show "dv_pulses (sl_device (started f n l)) = FromTimer" by (simp add: started_def dv)
qed

lemma overflowing_starts:
  "start_pulse (device_number (word_of_int (10 div 255)) (word_of_int (10 mod 255)))
     (scast (device_number (word_of_int (40000 div 255)) (word_of_int (40000 mod 255)))) dv =
   dv\<lparr>dv_pulses := FromTimer, dv_framerate := word_of_int 10, dv_duration_us := word_of_int 31464\<rparr>"
  "start_pulse (device_number (word_of_int (300 div 255)) (word_of_int (300 mod 255)))
     (scast (device_number (word_of_int (2000 div 255)) (word_of_int (2000 mod 255)))) dv =
   dv\<lparr>dv_pulses := FromTimer, dv_framerate := word_of_int 300, dv_duration_us := word_of_int 0\<rparr>"
  by (simp_all add: start_pulse_def device_number_def min_def)

text \<open>
  C20: with a device that answers in time and nothing left on the line, a start
  with the timer at a frame rate of at least 28 and with a duration below 32768 sets the frame rate that was
  asked for, limited to 300, and the asked duration, limited to 100 or more and to the longest pulse of the frame
  rate; and a query that follows reports exactly these numbers. For other arguments nothing general is
  claimed, but two examples show what the 16 bits of the device do there: 10 frames per second with 40000
  microseconds are answered with 31464 microseconds, and 300 frames per second with 2000 microseconds, which
  is within the range of the statement, with a duration of 0, the longest pulse of that rate.
\<close>

theorem sync_reports_what_was_set:
  assumes ok: "sl_ok l" "sl_waiting l = []" and f: "28 \<le> framerate" and d: "duration_us < 32768"
  shows "(let l' = start framerate duration_us False [False] l;
          n = min (max duration_us 100) (longest_pulse (min framerate 300)) in
      dv_pulses (sl_device l') = FromTimer \<and>
      current_framerate [False] l' = (l', Some (min framerate 300, n))) \<and>
    (let l' = start 10 40000 False [False] l in snd (current_framerate [False] l') = Some (10, 31464)) \<and>
    (let l' = start 300 2000 False [False] l in snd (current_framerate [False] l') = Some (300, 0))"
proof -
  let ?f = "min framerate 300" and ?n = "max duration_us 100"
  have fr: "28 \<le> ?f" "?f \<le> 300" "0 \<le> ?n" "?n < 32768" using f d by auto
  note l = device_limit [OF fr(1,2)]
  have num: "device_number (word_of_int (?f div 255)) (word_of_int (?f mod 255)) = word_of_int ?f"
    "device_number (word_of_int (?n div 255)) (word_of_int (?n mod 255)) = word_of_int ?n"
    "(scast (word_of_int ?n :: 16 word) :: 32 word) = word_of_int ?n"
    using fr device_number_bytes [of ?f] device_number_bytes [of ?n] by (auto intro: scast_word_of_int)
  have st: "start framerate duration_us False [False] l = started ?f ?n l"
    using f d by (simp add: start_answered [OF ok])
  let ?m = "min ?n (longest_pulse ?f)"
  have m: "0 \<le> ?m" "?m < 65280" "?f < 32768" "0 \<le> ?f" using fr l(2,3) by auto
  have "start_pulse (device_number (word_of_int (?f div 255)) (word_of_int (?f mod 255)))
      (scast (device_number (word_of_int (?n div 255)) (word_of_int (?n mod 255)))) (stop_pulse (sl_device l)) =
    (stop_pulse (sl_device l))\<lparr>dv_pulses := FromTimer, dv_framerate := word_of_int ?f, dv_duration_us := word_of_int ?m\<rparr>"
    unfolding num by (rule start_pulse_exact [OF fr])
  note q = query_started [OF ok this m(4,3,1,2)]
  have q1: "snd (current_framerate [False] (started 10 40000 l)) = Some (10, 31464)"
    using query_started(1) [OF ok overflowing_starts(1)] by simp
  have q2: "snd (current_framerate [False] (started 300 2000 l)) = Some (300, 0)"
    using query_started(1) [OF ok overflowing_starts(2)] by simp
  show ?thesis
    unfolding Let_def st using q q1 q2 by (simp add: start_answered [OF ok])
qed

lemma sync_reports_what_was_set_witness:
  "snd (current_framerate [False] (start 60 2000 False [False]
     \<lparr>sl_ok = True, sl_waiting = [], sl_device = new_device\<rparr>)) = Some (60, 2000)"
  using sync_reports_what_was_set [of "\<lparr>sl_ok = True, sl_waiting = [], sl_device = new_device\<rparr>" 60 2000]
  by (simp add: Let_def longest_pulse_def)

text \<open>
  A byte that is left on the line stops the trigger for good: every later command fails before it is
  sent, because the line is never emptied.
\<close>

lemma stale_byte_blocks:
  assumes "sl_ok l" "sl_waiting l \<noteq> []"
  shows "start f n ext late l = l" "stop late l = l" "current_framerate late l = (l, None)"
proof -
  have loop: "attempts g xs l = (l, None)" if fails: "\<And>x. \<exists>e. g l x = (l, Inl e)"
    for g :: "serial_link \<Rightarrow> bool \<Rightarrow> serial_link \<times> (py_exn + 'r)" and xs
  proof (induction xs)
    case (Cons x xs)
    obtain e where "g l x = (l, Inl e)" using fails by blast
    with Cons show ?case by simp
  qed simp
  have p: "purge_port l = Some (AttributeError ''read_one_char'')" using assms by (simp add: purge_port_def)
  show "start f n ext late l = l" "stop late l = l" "current_framerate late l = (l, None)"
    unfolding start_def stop_def current_framerate_def
    by (subst loop; simp add: p start_once_def stop_once_def query_once_def)+
qed

text \<open>
  It takes no more than a first answer that is late, the case the second attempt of the constructor is
  for: the device is accepted, and the second answer stays on the line.
\<close>

lemma late_first_answer_blocks:
  "sl_ok (open_sync True False dv)" "start f n ext late (open_sync True False dv) = open_sync True False dv"
  "current_framerate late (open_sync True False dv) = (open_sync True False dv, None)"
proof -
  have l: "open_sync True False dv = \<lparr>sl_ok = True, sl_waiting = ok_bytes, sl_device = dv\<rparr>"
    by (simp add: open_sync_def check_hw_def send_command_def serial_read_def ok_bytes_def)
  then show "sl_ok (open_sync True False dv)" by simp
  from l have "sl_ok (open_sync True False dv)" "sl_waiting (open_sync True False dv) \<noteq> []"
    by (simp_all add: ok_bytes_def)
  from stale_byte_blocks [OF this] show "start f n ext late (open_sync True False dv) = open_sync True False dv"
    "current_framerate late (open_sync True False dv) = (open_sync True False dv, None)" by simp_all
qed

end
