(* ===== verification/Migration_Base.thy ===== *)
theory Migration_Base
  imports Prelude "HOL-Library.AList_Mapping"
begin

text \<open>
  The language of the migrations (\<open>*/migrations/*.py\<close>) and what its operations do to the schema of the
  database, as Django documents them. A declaration of a field is its class with the keyword arguments
  as they are written; a schema maps the tables to their options and the columns to
  their declarations. \<open>framed_steps\<close> is the contract by which independent migrations commute: a step
  reads and changes only the entries it names.
\<close>

section \<open>Declarations\<close>

datatype app = Accounts | Archive | Capture | Jobs | Auth | Taggit

datatype field_class =
    CharField | TextField | IntegerField | BigIntegerField | BooleanField | FloatField | DateTimeField
  | AutoField | ForeignKey | OneToOneField | ManyToManyField
  | StatusField | MonitorField | AutoCreatedField | AutoLastModifiedField | TaggableManager

text \<open>A floating point literal is its digits and the number of decimals: \<open>1.37\<close> is \<open>D_Float 137 2\<close>.\<close>

datatype dvalue = D_None | D_Bool bool | D_Int int | D_Float int nat | D_Str string | D_Now

text \<open>
  The target of a relation: a model of an app, a name in the same app, the model itself,
  or the user model of the settings.
\<close>

datatype target = Model app string | Own string | Self | User_model

datatype deletion = CASCADE | SET_NULL

datatype kwarg =
    Max_length nat | Null bool | Blank bool | Default dvalue | Db_index bool | Verbose_name string
  | To target | On_delete deletion | Related_name string | Through target | Symmetrical bool
  | Auto_now_add bool | Monitor string | Choices "(dvalue \<times> string) list" | No_check_for_status bool
  | Primary_key bool | Auto_created bool | Serialize bool | Editable bool | Help_text string

datatype field_decl = Field (fclass: field_class) (kwargs: "kwarg list")

datatype model_option =
    Ordering "string list" | Permissions "(string \<times> string) list" | Verbose string | Abstract bool

section \<open>Migrations\<close>

datatype operation =
    CreateModel string "(string \<times> field_decl) list" "model_option list"
  | DeleteModel string
  | AddField string string field_decl
  | RemoveField string string
  | AlterField string string field_decl
  | AlterModelOptions string "model_option list"

text \<open>\<open>migrations.swappable_dependency(settings.AUTH_USER_MODEL)\<close> is \<open>Swappable_user\<close>.\<close>

datatype dependency = On app string | Swappable_user

record migration =
  m_app :: app
  m_name :: string
  m_dependencies :: "dependency list"
  m_operations :: "operation list"

section \<open>Schemas\<close>

datatype key = Table string app | Column string string app

datatype entry = Opts "model_option list" | Decl field_decl

type_synonym schema = "(key, entry) mapping"

text \<open>
  Reading and writing an entry. The code equations walk the list of entries with auxiliary functions
  instead of conditionals, which keeps the evaluation of a long list of migrations short.
\<close>

definition entry_at :: "schema \<Rightarrow> key \<Rightarrow> entry option" where
  "entry_at s k = Mapping.lookup s k"

definition set_entry :: "key \<Rightarrow> entry \<Rightarrow> schema \<Rightarrow> schema" where
  "set_entry k v s = Mapping.update k v s"

fun same_text :: "string \<Rightarrow> string \<Rightarrow> bool" and same_rest :: "bool \<Rightarrow> string \<Rightarrow> string \<Rightarrow> bool" where
  "same_text [] [] = True"
| "same_text (x # xs) (y # ys) = same_rest (x = y) xs ys"
| "same_text [] (y # ys) = False"
| "same_text (x # xs) [] = False"
| "same_rest True xs ys = same_text xs ys"
| "same_rest False xs ys = False"

fun same_table :: "bool \<Rightarrow> string \<Rightarrow> string \<Rightarrow> app \<Rightarrow> app \<Rightarrow> bool" where
  "same_table True m m' a a' = (a = a' \<and> same_text m m')"
| "same_table False m m' a a' = False"

fun same_key :: "key \<Rightarrow> key \<Rightarrow> bool" where
  "same_key (Table m a) (Table m' a') = same_table True m m' a a'"
| "same_key (Column c m a) (Column c' m' a') = same_table (same_text c c') m m' a a'"
| "same_key (Table m a) (Column c' m' a') = False"
| "same_key (Column c m a) (Table m' a') = False"

fun get_entry :: "(key \<times> 'v) list \<Rightarrow> key \<Rightarrow> 'v option"
  and get_if :: "bool \<Rightarrow> 'v \<Rightarrow> (key \<times> 'v) list \<Rightarrow> key \<Rightarrow> 'v option" where
  "get_entry [] k = None"
| "get_entry ((k', v) # xs) k = get_if (same_key k k') v xs k"
| "get_if True v xs k = Some v"
| "get_if False v xs k = get_entry xs k"

fun put_entry :: "key \<Rightarrow> entry \<Rightarrow> (key \<times> entry) list \<Rightarrow> (key \<times> entry) list"
  and put_if :: "bool \<Rightarrow> key \<times> entry \<Rightarrow> key \<Rightarrow> entry \<Rightarrow> (key \<times> entry) list \<Rightarrow> (key \<times> entry) list" where
  "put_entry k v [] = [(k, v)]"
| "put_entry k v ((k', v') # xs) = put_if (same_key k k') (k', v') k v xs"
| "put_if True e k v xs = (k, v) # xs"
| "put_if False e k v xs = e # put_entry k v xs"

lemma same_text_eq: "same_text xs ys \<longleftrightarrow> xs = ys" "same_rest b xs ys \<longleftrightarrow> b \<and> xs = ys"
  by (induction xs ys and b xs ys rule: same_text_same_rest.induct) auto

lemma same_table_eq: "same_table b m m' a a' \<longleftrightarrow> b \<and> a = a' \<and> m = m'"
  by (cases b) (simp_all add: same_text_eq)

lemma same_key_eq [simp]: "same_key k k' \<longleftrightarrow> k = k'"
  by (cases k; cases k') (auto simp: same_text_eq same_table_eq simp del: same_table.simps)

lemma get_entry_map_of: "get_entry xs k = map_of xs k" "get_if b v xs k = (if b then Some v else map_of xs k)"
  by (induction xs k and b v xs k rule: get_entry_get_if.induct) auto

lemma put_entry_update:
  "put_entry k v xs = AList.update k v xs" "put_if b e k v xs = (if b then (k, v) # xs else e # AList.update k v xs)"
  by (induction k v xs and b e k v xs rule: put_entry_put_if.induct) auto

lemma entry_at_code [code]: "entry_at (Mapping xs) k = get_entry xs k"
  by (simp add: entry_at_def lookup_Mapping get_entry_map_of)

lemma set_entry_code [code]: "set_entry k v (Mapping xs) = Mapping (put_entry k v xs)"
  by (simp add: set_entry_def update_Mapping put_entry_update)

datatype schema_error =
    TableExists app string
  | NoTable app string
  | ColumnExists app string string
  | NoColumn app string string
  | NoTarget app string

text \<open>Models are found by the lower case of their names.\<close>

fun lower_char :: "char \<Rightarrow> char" where
  "lower_char (Char b0 b1 b2 b3 b4 b5 b6 b7) =
     (if b6 \<and> \<not> b5 \<and> \<not> b7 \<and> (b0 \<or> b1 \<or> b2 \<or> b3 \<or> b4) \<and> \<not> (b4 \<and> b3 \<and> (b2 \<or> (b1 \<and> b0)))
      then Char b0 b1 b2 b3 b4 True b6 b7 else Char b0 b1 b2 b3 b4 b5 b6 b7)"

definition lower :: "string \<Rightarrow> string" where
  "lower s = map lower_char s"

fun target_table :: "app \<Rightarrow> string \<Rightarrow> target \<Rightarrow> app \<times> string" where
  "target_table a m (Model b n) = (b, lower n)"
| "target_table a m (Own n) = (a, lower n)"
| "target_table a m Self = (a, lower m)"
| "target_table a m User_model = (Auth, ''user'')"

fun targets :: "app \<Rightarrow> string \<Rightarrow> field_decl \<Rightarrow> (app \<times> string) list" where
  "targets a m (Field c ks) =
     concat (map (\<lambda>k. case k of To t \<Rightarrow> [target_table a m t] | Through t \<Rightarrow> [target_table a m t] | _ \<Rightarrow> []) ks)"

definition present :: "schema \<Rightarrow> key \<Rightarrow> bool" where
  "present s k \<longleftrightarrow> entry_at s k \<noteq> None"

definition missing_target :: "schema \<Rightarrow> (app \<times> string) list \<Rightarrow> (app \<times> string) option" where
  "missing_target s ts = List.find (\<lambda>(a, m). \<not> present s (Table m a)) ts"

fun key_table :: "key \<Rightarrow> app \<times> string" where
  "key_table (Table m a) = (a, m)"
| "key_table (Column c m a) = (a, m)"

text \<open>The columns of a new table, the later of two fields with one name counting.\<close>

fun put_columns :: "app \<Rightarrow> string \<Rightarrow> (string \<times> field_decl) list \<Rightarrow> schema \<Rightarrow> schema" where
  "put_columns a m [] s = s"
| "put_columns a m ((c, d) # fs) s = put_columns a m fs (set_entry (Column c m a) (Decl d) s)"

definition drop_table :: "app \<Rightarrow> string \<Rightarrow> schema \<Rightarrow> schema" where
  "drop_table a m s = Mapping.filter (\<lambda>k _. key_table k \<noteq> (a, m)) s"

fun apply_operation :: "app \<Rightarrow> operation \<Rightarrow> schema \<Rightarrow> schema_error + schema" where
  "apply_operation a (CreateModel n fs os) s =
     (let m = lower n in
      if present s (Table m a) then Inl (TableExists a m)
      else let s' = set_entry (Table m a) (Opts os) s in
        (case missing_target s' (concat (map (targets a m \<circ> snd) fs)) of
           Some (b, t) \<Rightarrow> Inl (NoTarget b t)
         | None \<Rightarrow> Inr (put_columns a m fs s')))"
| "apply_operation a (DeleteModel n) s =
     (let m = lower n in
      if present s (Table m a) then Inr (drop_table a m s) else Inl (NoTable a m))"
| "apply_operation a (AddField n c d) s =
     (let m = lower n in
      if \<not> present s (Table m a) then Inl (NoTable a m)
      else if present s (Column c m a) then Inl (ColumnExists a m c)
      else case missing_target s (targets a m d) of
          Some (b, t) \<Rightarrow> Inl (NoTarget b t)
        | None \<Rightarrow> Inr (set_entry (Column c m a) (Decl d) s))"
| "apply_operation a (RemoveField n c) s =
     (let m = lower n in
      if present s (Column c m a) then Inr (Mapping.delete (Column c m a) s) else Inl (NoColumn a m c))"
| "apply_operation a (AlterField n c d) s =
     (let m = lower n in
      if \<not> present s (Column c m a) then Inl (NoColumn a m c)
      else case missing_target s (targets a m d) of
          Some (b, t) \<Rightarrow> Inl (NoTarget b t)
        | None \<Rightarrow> Inr (set_entry (Column c m a) (Decl d) s))"
| "apply_operation a (AlterModelOptions n os) s =
     (let m = lower n in
      if present s (Table m a) then Inr (set_entry (Table m a) (Opts os) s) else Inl (NoTable a m))"

section \<open>Steps that read and change a part of the state\<close>

fun run_steps :: "('o \<Rightarrow> 's \<Rightarrow> 'e + 's) \<Rightarrow> 'o list \<Rightarrow> 's \<Rightarrow> 'e + 's" where
  "run_steps f [] s = Inr s"
| "run_steps f (p # ps) s = (case f p s of Inl e \<Rightarrow> Inl e | Inr s' \<Rightarrow> run_steps f ps s')"

lemma run_steps_append:
  "run_steps f (ps @ qs) s = (case run_steps f ps s of Inl e \<Rightarrow> Inl e | Inr s' \<Rightarrow> run_steps f qs s')"
  by (induction ps arbitrary: s) (auto split: sum.splits)

lemma run_steps_ConsE:
  assumes "run_steps f (p # ps) s = Inr t"
  obtains s' where "f p s = Inr s'" "run_steps f ps s' = Inr t"
  using assms by (auto split: sum.splits)

lemma run_steps_appendE:
  assumes "run_steps f (ps @ qs) s = Inr t"
  obtains s' where "run_steps f ps s = Inr s'" "run_steps f qs s' = Inr t"
  using assms by (auto simp: run_steps_append split: sum.splits)

lemma run_steps_snoc [simp]: "f p s = Inr s' \<Longrightarrow> run_steps f (p # ps) s = run_steps f ps s'"
  by simp

text \<open>
  A list of steps respects the dependencies when no step depends on a later one.
\<close>

definition in_order :: "('o \<Rightarrow> 'o \<Rightarrow> bool) \<Rightarrow> 'o list \<Rightarrow> bool" where
  "in_order dep ps \<longleftrightarrow> sorted_wrt (\<lambda>p q. \<not> dep p q) ps"

locale framed_steps =
  fixes step :: "'o \<Rightarrow> 's \<Rightarrow> 'e + 's"
    and look :: "'s \<Rightarrow> 'k \<Rightarrow> 'v option"
    and touches :: "'o \<Rightarrow> 'k \<Rightarrow> bool"
    and needs :: "'o \<Rightarrow> 'k \<Rightarrow> bool"
  assumes look_ext: "(\<And>k. look s k = look t k) \<Longrightarrow> s = t"
    and step_frame: "step p s = Inr s' \<Longrightarrow> \<not> touches p k \<Longrightarrow> look s' k = look s k"
    and step_local: "step p s = Inr s' \<Longrightarrow> (\<And>k. touches p k \<or> needs p k \<Longrightarrow> look t k = look s k) \<Longrightarrow>
      \<exists>t'. step p t = Inr t' \<and> (\<forall>k. touches p k \<longrightarrow> look t' k = look s' k)"
begin

lemma run_frame:
  "run_steps step ps s = Inr t \<Longrightarrow> \<forall>p \<in> set ps. \<not> touches p k \<Longrightarrow> look t k = look s k"
proof (induction ps arbitrary: s)
  case (Cons p ps)
  obtain s1 where s1: "step p s = Inr s1" "run_steps step ps s1 = Inr t"
    using Cons.prems(1) by (rule run_steps_ConsE)
  with Cons.IH [OF s1(2)] Cons.prems(2) step_frame [OF s1(1), of k] show ?case by simp
qed simp

lemma run_local:
  assumes "run_steps step ps s = Inr s'"
    and "\<And>k. (\<exists>p \<in> set ps. touches p k \<or> needs p k) \<Longrightarrow> look t k = look s k"
  shows "\<exists>t'. run_steps step ps t = Inr t' \<and> (\<forall>k. (\<exists>p \<in> set ps. touches p k) \<longrightarrow> look t' k = look s' k)"
  using assms
proof (induction ps arbitrary: s t)
  case Nil
  then show ?case by simp
next
  case (Cons p ps)
  obtain s1 where s1: "step p s = Inr s1" "run_steps step ps s1 = Inr s'"
    using Cons.prems(1) by (rule run_steps_ConsE)
  obtain t1 where t1: "step p t = Inr t1" "\<And>k. touches p k \<Longrightarrow> look t1 k = look s1 k"
    using step_local [OF s1(1), of t] Cons.prems(2) by auto
  have "look t1 k = look s1 k" if "\<exists>p \<in> set ps. touches p k \<or> needs p k" for k
    using that t1(2) [of k] step_frame [OF s1(1), of k] step_frame [OF t1(1), of k] Cons.prems(2) [of k]
    by (cases "touches p k") auto
  then obtain t' where t': "run_steps step ps t1 = Inr t'"
      "\<And>k. \<exists>p \<in> set ps. touches p k \<Longrightarrow> look t' k = look s' k"
    using Cons.IH [OF s1(2), of t1] by blast
  have "look t' k = look s' k" if "touches p k" for k
    using that t'(2) [of k] run_frame [OF s1(2), of k] run_frame [OF t'(1), of k] t1(2) [of k] by metis
  with t1(1) t' show ?case by auto
qed

definition independent :: "'o \<Rightarrow> 'o \<Rightarrow> bool" where
  "independent p q \<longleftrightarrow>
     (\<forall>k. \<not> (touches p k \<and> (touches q k \<or> needs q k)) \<and> \<not> (touches q k \<and> needs p k))"

lemma independent_sym: "independent p q \<Longrightarrow> independent q p"
  by (auto simp: independent_def)

lemma commute:
  assumes "independent p q" "step p s = Inr s1" "step q s1 = Inr s2"
  shows "\<exists>s3. step q s = Inr s3 \<and> step p s3 = Inr s2"
proof -
  have "look s k = look s1 k" if "touches q k \<or> needs q k" for k
    using assms(1) that step_frame [OF assms(2), of k] by (cases "touches p k") (auto simp: independent_def)
  then obtain s3 where s3: "step q s = Inr s3" "\<And>k. touches q k \<Longrightarrow> look s3 k = look s2 k"
    using step_local [OF assms(3), of s] by blast
  have "look s3 k = look s k" if "touches p k \<or> needs p k" for k
    using assms(1) that step_frame [OF s3(1), of k] by (cases "touches q k") (auto simp: independent_def)
  then obtain s4 where s4: "step p s3 = Inr s4" "\<And>k. touches p k \<Longrightarrow> look s4 k = look s1 k"
    using step_local [OF assms(2), of s3] by blast
  have "s4 = s2"
  proof (rule look_ext)
    fix k
    have "\<not> (touches p k \<and> touches q k)" using assms(1) by (auto simp: independent_def)
    then consider "touches p k" "\<not> touches q k" | "\<not> touches p k" by blast
    then show "look s4 k = look s2 k"
    proof cases
      case 1
      then show ?thesis using s4(2) [of k] step_frame [OF assms(3), of k] by simp
    next
      case 2
      then show ?thesis
        using step_frame [OF s4(1), of k] s3 step_frame [OF s3(1), of k] step_frame [OF assms(3), of k]
          step_frame [OF assms(2), of k] by (cases "touches q k") auto
    qed
  qed
  with s3(1) s4(1) show ?thesis by blast
qed

lemma commute_to_front:
  assumes "run_steps step (q # ps @ qs) s = Inr t" "\<forall>p \<in> set ps. independent p q"
  shows "run_steps step (ps @ q # qs) s = Inr t"
  using assms
proof (induction ps arbitrary: s)
  case Nil
  then show ?case by simp
next
  case (Cons p ps)
  obtain s1 where s1: "step q s = Inr s1" "run_steps step (p # ps @ qs) s1 = Inr t"
    using run_steps_ConsE [OF Cons.prems(1) [unfolded append_Cons]] by blast
  from s1(2) obtain s2 where s2: "step p s1 = Inr s2" "run_steps step (ps @ qs) s2 = Inr t"
    by (rule run_steps_ConsE)
  from commute [OF _ s1(1) s2(1)] Cons.prems(2)
  obtain s3 where "step p s = Inr s3" "step q s3 = Inr s2" by (auto dest: independent_sym)
  with s2(2) Cons show ?case by auto
qed

text \<open>
  When every two steps that are not independent are ordered by \<open>D\<close>, all lists of the same steps
  that keep this order end in the same state as any one of them that succeeds.
\<close>

lemma same_run:
  assumes "run_steps step cs s = Inr t" "set ms = set cs" "distinct cs" "distinct ms"
    and "sorted_wrt (\<lambda>p q. independent p q \<or> D p q) cs" "sorted_wrt (\<lambda>p q. \<not> D q p) ms"
  shows "run_steps step ms s = Inr t"
  using assms
proof (induction cs arbitrary: ms s)
  case Nil
  then show ?case by simp
next
  case (Cons c cs)
  obtain us vs where ms: "ms = us @ c # vs"
    using Cons.prems(2) by (metis list.set_intros(1) split_list)
  obtain s1 where s1: "step c s = Inr s1" "run_steps step cs s1 = Inr t"
    using Cons.prems(1) by (rule run_steps_ConsE)
  have "run_steps step (us @ vs) s1 = Inr t"
    by (rule Cons.IH [OF s1(2)]) (use Cons.prems ms in \<open>auto simp: sorted_wrt_append\<close>)
  with s1(1) have "run_steps step (c # us @ vs) s = Inr t" by simp
  moreover have "\<forall>u \<in> set us. independent u c"
  proof
    fix u assume u: "u \<in> set us"
    with Cons.prems ms have "u \<in> set cs" by auto
    with Cons.prems(5) have "independent c u \<or> D c u" by simp
    moreover have "\<not> D c u" using Cons.prems(6) ms u by (simp add: sorted_wrt_append)
    ultimately show "independent u c" by (auto dest: independent_sym)
  qed
  ultimately show ?case using commute_to_front ms by blast
qed

end

lemma in_order_before:
  assumes "in_order dep (us @ c # vs)"
    and "(\<lambda>p q. p \<in> set (us @ c # vs) \<and> q \<in> set (us @ c # vs) \<and> dep q p)\<^sup>+\<^sup>+ c u"
  shows "u \<in> set (c # vs)"
  using assms(2)
proof (induction rule: tranclp_induct)
  case (base u)
  then show ?case using assms(1) by (auto simp: in_order_def sorted_wrt_append)
next
  case (step u w)
  then show ?case using assms(1) by (auto simp: in_order_def sorted_wrt_append)
qed

lemma in_order_closure:
  assumes "in_order dep ms" "distinct ms"
  shows "sorted_wrt (\<lambda>p q. \<not> (\<lambda>p q. p \<in> set ms \<and> q \<in> set ms \<and> dep q p)\<^sup>+\<^sup>+ q p) ms"
proof -
  have "\<not> (\<lambda>p q. p \<in> set ms \<and> q \<in> set ms \<and> dep q p)\<^sup>+\<^sup>+ (ms ! j) (ms ! i)"
    if "i < j" "j < length ms" for i j
  proof
    assume dep: "(\<lambda>p q. p \<in> set ms \<and> q \<in> set ms \<and> dep q p)\<^sup>+\<^sup>+ (ms ! j) (ms ! i)"
    define us where "us = take j ms"
    define vs where "vs = drop (Suc j) ms"
    have ms: "ms = us @ ms ! j # vs" using that by (simp add: us_def vs_def id_take_nth_drop)
    have "ms ! i \<in> set us" using that by (auto simp: us_def in_set_conv_nth intro!: exI [of _ i])
    moreover have "ms ! i \<in> set (ms ! j # vs)"
      using in_order_before [of dep us "ms ! j" vs "ms ! i"] assms(1) dep ms by simp
    ultimately show False using assms(2) ms by (metis disjoint_iff distinct_append)
  qed
  then show ?thesis by (simp add: sorted_wrt_iff_nth_less)
qed

context framed_steps
begin

lemma any_order:
  assumes "run_steps step cs s = Inr t" "set ms = set cs" "distinct cs" "distinct ms" "in_order dep ms"
    and "sorted_wrt (\<lambda>p q. independent p q \<or> (\<lambda>p q. p \<in> set cs \<and> q \<in> set cs \<and> dep q p)\<^sup>+\<^sup>+ p q) cs"
  shows "run_steps step ms s = Inr t"
  using same_run [OF assms(1-4) assms(6)] in_order_closure [OF assms(5,4)] assms(2) by simp

end

section \<open>Applying migrations\<close>

definition apply_migration :: "migration \<Rightarrow> schema \<Rightarrow> schema_error + schema" where
  "apply_migration m = run_steps (apply_operation (m_app m)) (m_operations m)"

fun touched :: "app \<times> operation \<Rightarrow> key \<Rightarrow> bool" where
  "touched (a, CreateModel n fs os) k = (key_table k = (a, lower n))"
| "touched (a, DeleteModel n) k = (key_table k = (a, lower n))"
| "touched (a, AddField n c d) k = (k = Column c (lower n) a)"
| "touched (a, RemoveField n c) k = (k = Column c (lower n) a)"
| "touched (a, AlterField n c d) k = (k = Column c (lower n) a)"
| "touched (a, AlterModelOptions n os) k = (k = Table (lower n) a)"

fun needed :: "app \<times> operation \<Rightarrow> key \<Rightarrow> bool" where
  "needed (a, CreateModel n fs os) k =
     (\<exists>(b, m) \<in> set (concat (map (targets a (lower n) \<circ> snd) fs)). k = Table m b)"
| "needed (a, AddField n c d) k =
     (k = Table (lower n) a \<or> (\<exists>(b, m) \<in> set (targets a (lower n) d). k = Table m b))"
| "needed (a, AlterField n c d) k = (\<exists>(b, m) \<in> set (targets a (lower n) d). k = Table m b)"
| "needed (a, _) k = False"

abbreviation operate :: "app \<times> operation \<Rightarrow> schema \<Rightarrow> schema_error + schema" where
  "operate p \<equiv> apply_operation (fst p) (snd p)"

lemma missing_target_cong:
  "(\<And>b m. (b, m) \<in> set ts \<Longrightarrow> Mapping.lookup t (Table m b) = Mapping.lookup s (Table m b)) \<Longrightarrow>
    missing_target t ts = missing_target s ts"
  unfolding missing_target_def by (rule find_cong) (auto simp: present_def entry_at_def)

lemma lookup_put_columns:
  "Mapping.lookup (put_columns a m fs s) k =
     (case k of Table n b \<Rightarrow> Mapping.lookup s k
      | Column c n b \<Rightarrow>
          (if n = m \<and> b = a then (case map_of (rev fs) c of Some d \<Rightarrow> Some (Decl d) | None \<Rightarrow> Mapping.lookup s k)
           else Mapping.lookup s k))"
  by (induction a m fs s rule: put_columns.induct)
    (auto simp: set_entry_def Mapping.lookup_update' map_add_def split: key.splits option.splits)

lemma lookup_drop_table:
  "Mapping.lookup (drop_table a m s) k = (if key_table k = (a, m) then None else Mapping.lookup s k)"
  by (auto simp: drop_table_def Mapping.lookup_filter split: option.splits)

lemmas operate_lookup =
  set_entry_def   Mapping.lookup_update' Mapping.lookup_delete lookup_put_columns lookup_drop_table

abbreviation migrate :: "migration list \<Rightarrow> schema \<Rightarrow> schema_error + schema" where
  "migrate \<equiv> run_steps apply_migration"

lemma operate_frame:
  "operate p s = Inr s' \<Longrightarrow> \<not> touched p k \<Longrightarrow> Mapping.lookup s' k = Mapping.lookup s k"
  by (cases p; cases "snd p")
    (auto simp: operate_lookup Let_def split: if_splits option.splits key.splits)

lemma operate_local:
  assumes "operate p s = Inr s'"
    and agree: "\<And>k. touched p k \<or> needed p k \<Longrightarrow> Mapping.lookup t k = Mapping.lookup s k"
  shows "\<exists>t'. operate p t = Inr t' \<and> (\<forall>k. touched p k \<longrightarrow> Mapping.lookup t' k = Mapping.lookup s' k)"
proof -
  obtain a x where p: "p = (a, x)" by (cases p)
  show ?thesis
  proof (cases x)
    case (CreateModel n fs os)
    let ?s = "set_entry (Table (lower n) a) (Opts os) s"
    let ?t = "set_entry (Table (lower n) a) (Opts os) t"
    let ?ts = "concat (map (targets a (lower n) \<circ> snd) fs)"
    have own: "Mapping.lookup t k = Mapping.lookup s k" if "key_table k = (a, lower n)" for k
      using agree [of k] that by (simp add: p CreateModel)
    have "missing_target ?t ?ts = missing_target ?s ?ts"
    proof (rule missing_target_cong)
      fix b m assume "(b, m) \<in> set ?ts"
      then have "needed p (Table m b)" by (auto simp: p CreateModel)
      then show "Mapping.lookup ?t (Table m b) = Mapping.lookup ?s (Table m b)"
        using agree by (simp add: set_entry_def Mapping.lookup_update')
    qed
    with assms(1) own show ?thesis
      by (auto simp: p CreateModel Let_def present_def entry_at_def operate_lookup split: if_splits option.splits key.splits)
  next
    case (DeleteModel n)
    with assms show ?thesis by (auto simp: p Let_def present_def entry_at_def operate_lookup split: if_splits)
  next
    case (AddField n c d)
    have "missing_target t (targets a (lower n) d) = missing_target s (targets a (lower n) d)"
      by (rule missing_target_cong) (use agree in \<open>auto simp: p AddField\<close>)
    with assms show ?thesis
      by (auto simp: p AddField Let_def present_def entry_at_def operate_lookup split: if_splits option.splits)
  next
    case (RemoveField n c)
    with assms show ?thesis by (auto simp: p Let_def present_def entry_at_def operate_lookup split: if_splits)
  next
    case (AlterField n c d)
    have "missing_target t (targets a (lower n) d) = missing_target s (targets a (lower n) d)"
      by (rule missing_target_cong) (use agree in \<open>auto simp: p AlterField\<close>)
    with assms show ?thesis
      by (auto simp: p AlterField Let_def present_def entry_at_def operate_lookup split: if_splits option.splits)
  next
    case (AlterModelOptions n os)
    with assms show ?thesis by (auto simp: p Let_def present_def entry_at_def operate_lookup split: if_splits)
  qed
qed

end
