(* ===== verification/Migrations.thy ===== *)
theory Migrations
  imports Migration_Base
begin

text \<open>
  The migrations of the four apps, one definition for each file under \<open>*/migrations/\<close>, with the operations
  in the order of the file. \<open>all_migrations\<close> is one order in which every
  migration follows those it depends on.
\<close>

section \<open>Accounts\<close>

definition accounts_0001_initial :: migration where
  "accounts_0001_initial = \<lparr> m_app = Accounts, m_name = ''0001_initial'',
     m_dependencies = [Swappable_user],
     m_operations = [
      CreateModel ''UserData''
        [(''id'', Field AutoField [Auto_created True, Primary_key True, Serialize False, Verbose_name ''ID'']),
         (''export_path'', Field CharField [Max_length 255]),
         (''user'', Field OneToOneField [On_delete CASCADE, To User_model])]
        []] \<rparr>"

section \<open>The archive\<close>

definition archive_0001_initial :: migration where
  "archive_0001_initial = \<lparr> m_app = Archive, m_name = ''0001_initial'',
     m_dependencies = [],
     m_operations = [
      CreateModel ''Camera''
        [(''id'', Field AutoField [Auto_created True, Primary_key True, Serialize False, Verbose_name ''ID'']),
         (''name'', Field CharField [Max_length 200]),
         (''machine_name'', Field CharField [Max_length 200]),
         (''unique_id'', Field CharField [Max_length 200]),
         (''model'', Field CharField [Max_length 200]),
         (''version'', Field CharField [Max_length 200]),
         (''using_sync'', Field BooleanField [Default (D_Bool False)]),
         (''folder'', Field CharField [Max_length 250]),
         (''thumbnail_filename'', Field CharField [Max_length 250]),
         (''width'', Field IntegerField []),
         (''height'', Field IntegerField []),
         (''bitdepth'', Field IntegerField []),
         (''frame_count'', Field IntegerField []),
         (''dropped_frames'', Field IntegerField []),
         (''total_size'', Field IntegerField []),
         (''duration'', Field FloatField [Default (D_Float 0 1)])]
        [],
      CreateModel ''Project''
        [(''id'', Field AutoField [Auto_created True, Primary_key True, Serialize False, Verbose_name ''ID'']),
         (''name'', Field CharField [Max_length 200])]
        [],
      CreateModel ''Session''
        [(''id'', Field AutoField [Auto_created True, Primary_key True, Serialize False, Verbose_name ''ID'']),
         (''name'', Field CharField [Max_length 200]),
         (''start_time'', Field DateTimeField [Auto_now_add True, Verbose_name ''start time'']),
         (''project'', Field ForeignKey [On_delete CASCADE, Related_name ''sessions'', To (Model Archive ''Project'')])]
        [],
      CreateModel ''Shot''
        [(''id'', Field AutoField [Auto_created True, Primary_key True, Serialize False, Verbose_name ''ID'']),
         (''name'', Field CharField [Max_length 200]),
         (''session'', Field ForeignKey [On_delete CASCADE, Related_name ''shots'', To (Model Archive ''Session'')])]
        [],
      CreateModel ''Take''
        [(''id'', Field AutoField [Auto_created True, Primary_key True, Serialize False, Verbose_name ''ID'']),
         (''name'', Field CharField [Max_length 200]),
         (''capture_time'', Field DateTimeField [Auto_now_add True, Verbose_name ''capture time'']),
         (''shot'', Field ForeignKey [On_delete CASCADE, Related_name ''takes'', To (Model Archive ''Shot'')])]
        [],
      AddField ''camera'' ''take'' (Field ForeignKey [On_delete CASCADE, Related_name ''cameras'', To (Model Archive ''Take'')])] \<rparr>"

definition archive_0002_take_sequence :: migration where
  "archive_0002_take_sequence = \<lparr> m_app = Archive, m_name = ''0002_take_sequence'',
     m_dependencies = [On Archive ''0001_initial''],
     m_operations = [
      AddField ''take'' ''sequence'' (Field IntegerField [Default (D_Int 0)])] \<rparr>"

definition archive_0003_auto_20161128_1401 :: migration where
  "archive_0003_auto_20161128_1401 = \<lparr> m_app = Archive, m_name = ''0003_auto_20161128_1401'',
     m_dependencies = [On Archive ''0002_take_sequence''],
     m_operations = [
      AddField ''shot'' ''next_take'' (Field IntegerField [Default (D_Int 1)]),
      AlterField ''take'' ''sequence'' (Field IntegerField [Default (D_Int 1)])] \<rparr>"

definition archive_0004_remove_camera_name :: migration where
  "archive_0004_remove_camera_name = \<lparr> m_app = Archive, m_name = ''0004_remove_camera_name'',
     m_dependencies = [On Archive ''0003_auto_20161128_1401''],
     m_operations = [
      RemoveField ''camera'' ''name''] \<rparr>"

definition archive_0005_camera_framerate :: migration where
  "archive_0005_camera_framerate = \<lparr> m_app = Archive, m_name = ''0005_camera_framerate'',
     m_dependencies = [On Archive ''0004_remove_camera_name''],
     m_operations = [
      AddField ''camera'' ''framerate'' (Field FloatField [Default (D_Float 0 1)])] \<rparr>"

definition archive_0006_camera_all_files :: migration where
  "archive_0006_camera_all_files = \<lparr> m_app = Archive, m_name = ''0006_camera_all_files'',
     m_dependencies = [On Archive ''0005_camera_framerate''],
     m_operations = [
      AddField ''camera'' ''all_files'' (Field TextField [Null True])] \<rparr>"

definition archive_0007_auto_20170320_1532 :: migration where
  "archive_0007_auto_20170320_1532 = \<lparr> m_app = Archive, m_name = ''0007_auto_20170320_1532'',
     m_dependencies = [On Archive ''0006_camera_all_files''],
     m_operations = [
      AlterField ''camera'' ''bitdepth'' (Field IntegerField [Default (D_Int 8)]),
      AlterField ''camera'' ''total_size'' (Field BigIntegerField [])] \<rparr>"

definition archive_0008_take_export_path :: migration where
  "archive_0008_take_export_path = \<lparr> m_app = Archive, m_name = ''0008_take_export_path'',
     m_dependencies = [On Archive ''0007_auto_20170320_1532''],
     m_operations = [
      AddField ''take'' ''export_path'' (Field CharField [Max_length 250, Null True])] \<rparr>"

definition archive_0009_staticscanasset_trackingasset :: migration where
  "archive_0009_staticscanasset_trackingasset = \<lparr> m_app = Archive, m_name = ''0009_staticscanasset_trackingasset'',
     m_dependencies = [On Archive ''0008_take_export_path''],
     m_operations = [
      CreateModel ''StaticScanAsset''
        [(''id'', Field AutoField [Auto_created True, Primary_key True, Serialize False, Verbose_name ''ID'']),
         (''name'', Field CharField [Max_length 120]),
         (''image_folder'', Field CharField [Max_length 255]),
         (''calib_file'', Field CharField [Max_length 255]),
         (''work_folder'', Field CharField [Max_length 255]),
         (''project'', Field ForeignKey [On_delete CASCADE, Related_name ''staticscanasset_related'', To (Model Archive ''Project'')])]
        [],
      CreateModel ''TrackingAsset''
        [(''id'', Field AutoField [Auto_created True, Primary_key True, Serialize False, Verbose_name ''ID'']),
         (''calib_file'', Field CharField [Max_length 255]),
         (''start_frame'', Field IntegerField [Default (D_Int 0)]),
         (''end_frame'', Field IntegerField [Default (D_Int 0)]),
         (''take'', Field ForeignKey [On_delete CASCADE, Related_name ''trackingasset_related'', To (Model Archive ''Take'')])]
        []] \<rparr>"

definition archive_0010_auto_20170405_0901 :: migration where
  "archive_0010_auto_20170405_0901 = \<lparr> m_app = Archive, m_name = ''0010_auto_20170405_0901'',
     m_dependencies = [On Archive ''0009_staticscanasset_trackingasset''],
     m_operations = [
      AddField ''staticscanasset'' ''thumbnail_filename'' (Field CharField [Blank True, Max_length 250, Null True]),
      AddField ''take'' ''video_thumb'' (Field CharField [Blank True, Max_length 250, Null True]),
      AddField ''trackingasset'' ''video_thumb'' (Field CharField [Blank True, Max_length 250, Null True]),
      AlterField ''camera'' ''thumbnail_filename'' (Field CharField [Blank True, Max_length 250, Null True]),
      AlterField ''take'' ''export_path'' (Field CharField [Blank True, Max_length 250, Null True])] \<rparr>"

definition archive_0011_auto_20170405_1049 :: migration where
  "archive_0011_auto_20170405_1049 = \<lparr> m_app = Archive, m_name = ''0011_auto_20170405_1049'',
     m_dependencies = [On Archive ''0010_auto_20170405_0901''],
     m_operations = [
      RemoveField ''trackingasset'' ''end_frame'',
      RemoveField ''trackingasset'' ''start_frame'',
      AddField ''trackingasset'' ''end_time'' (Field FloatField [Default (D_Int 0)]),
      AddField ''trackingasset'' ''start_time'' (Field FloatField [Default (D_Int 0)])] \<rparr>"

definition archive_0012_take_flag :: migration where
  "archive_0012_take_flag = \<lparr> m_app = Archive, m_name = ''0012_take_flag'',
     m_dependencies = [On Archive ''0011_auto_20170405_1049''],
     m_operations = [
      AddField ''take'' ''flag'' (Field StatusField [Choices [(D_Int 0, ''dummy'')], Default (D_Str ''none''), Max_length 100, No_check_for_status True])] \<rparr>"

definition archive_0013_camera_rotation :: migration where
  "archive_0013_camera_rotation = \<lparr> m_app = Archive, m_name = ''0013_camera_rotation'',
     m_dependencies = [On Archive ''0012_take_flag''],
     m_operations = [
      AddField ''camera'' ''rotation'' (Field IntegerField [Default (D_Int 0)])] \<rparr>"

definition archive_0014_session_frontal_cam_id :: migration where
  "archive_0014_session_frontal_cam_id = \<lparr> m_app = Archive, m_name = ''0014_session_frontal_cam_id'',
     m_dependencies = [On Archive ''0013_camera_rotation''],
     m_operations = [
      AddField ''session'' ''frontal_cam_id'' (Field CharField [Blank True, Max_length 200, Null True])] \<rparr>"

definition archive_0015_auto_20170531_2048 :: migration where
  "archive_0015_auto_20170531_2048 = \<lparr> m_app = Archive, m_name = ''0015_auto_20170531_2048'',
     m_dependencies = [On Archive ''0014_session_frontal_cam_id''],
     m_operations = [
      AlterModelOptions ''camera'' [Ordering [''unique_id'']],
      AlterField ''camera'' ''unique_id'' (Field CharField [Db_index True, Max_length 200])] \<rparr>"

definition archive_0016_auto_20170719_1804 :: migration where
  "archive_0016_auto_20170719_1804 = \<lparr> m_app = Archive, m_name = ''0016_auto_20170719_1804'',
     m_dependencies = [On Archive ''0015_auto_20170531_2048''],
     m_operations = [
      AddField ''staticscanasset'' ''take'' (Field ForeignKey [Blank True, Null True, On_delete SET_NULL, Related_name ''staticscanasset_related'', To (Model Archive ''Take'')]),
      AddField ''staticscanasset'' ''take_mixed_w_time'' (Field FloatField [Null True]),
      AddField ''staticscanasset'' ''take_pattern_last_time'' (Field FloatField [Null True]),
      AddField ''staticscanasset'' ''take_pattern_start_time'' (Field FloatField [Null True])] \<rparr>"

definition archive_0017_auto_20170719_1855 :: migration where
  "archive_0017_auto_20170719_1855 = \<lparr> m_app = Archive, m_name = ''0017_auto_20170719_1855'',
     m_dependencies = [On Archive ''0016_auto_20170719_1804''],
     m_operations = [
      AlterField ''staticscanasset'' ''take_mixed_w_time'' (Field FloatField [Blank True, Null True]),
      AlterField ''staticscanasset'' ''take_pattern_last_time'' (Field FloatField [Blank True, Null True]),
      AlterField ''staticscanasset'' ''take_pattern_start_time'' (Field FloatField [Blank True, Null True])] \<rparr>"

definition archive_0018_auto_20170831_1529 :: migration where
  "archive_0018_auto_20170831_1529 = \<lparr> m_app = Archive, m_name = ''0018_auto_20170831_1529'',
     m_dependencies = [On Archive ''0017_auto_20170719_1855''],
     m_operations = [
      AddField ''staticscanasset'' ''take_neutral_end_time'' (Field FloatField [Blank True, Null True]),
      AddField ''staticscanasset'' ''take_neutral_start_time'' (Field FloatField [Blank True, Null True])] \<rparr>"

definition archive_0019_auto_20190502_0114 :: migration where
  "archive_0019_auto_20190502_0114 = \<lparr> m_app = Archive, m_name = ''0019_auto_20190502_0114'',
     m_dependencies = [On Archive ''0018_auto_20170831_1529''],
     m_operations = [
      AddField ''camera'' ''exposure_ms'' (Field FloatField [Default (D_Float 0 1)]),
      AddField ''project'' ''archived'' (Field BooleanField [Default (D_Bool False)]),
      AddField ''session'' ''invert_polarization'' (Field BooleanField [Default (D_Bool False)]),
      AddField ''session'' ''session_master_calib'' (Field ForeignKey [Blank True, Null True, On_delete SET_NULL, Related_name ''+'', To (Model Archive ''Take'')]),
      AddField ''session'' ''session_master_colorchart'' (Field ForeignKey [Blank True, Null True, On_delete SET_NULL, Related_name ''+'', To (Model Archive ''Take'')]),
      AddField ''session'' ''session_neutral_take'' (Field ForeignKey [Blank True, Null True, On_delete SET_NULL, Related_name ''+'', To (Model Archive ''Take'')]),
      AddField ''staticscanasset'' ''associated_tracking_asset'' (Field ForeignKey [Blank True, Null True, On_delete SET_NULL, Related_name ''staticscanasset_related'', To (Model Archive ''TrackingAsset'')]),
      AddField ''staticscanasset'' ''associated_tracking_asset_time'' (Field FloatField [Blank True, Null True]),
      AddField ''staticscanasset'' ''has_tracking'' (Field BooleanField [Default (D_Bool True)]),
      AddField ''take'' ''colorspace'' (Field CharField [Blank True, Max_length 32, Null True]),
      AddField ''take'' ''is_burst'' (Field BooleanField [Default (D_Bool False)]),
      AddField ''take'' ''is_scan_burst'' (Field BooleanField [Default (D_Bool False)]),
      AddField ''take'' ''work_folder'' (Field CharField [Blank True, Max_length 250, Null True]),
      AddField ''trackingasset'' ''work_folder'' (Field CharField [Blank True, Max_length 255, Null True]),
      AlterField ''take'' ''flag'' (Field StatusField [Choices [(D_Int 0, ''dummy'')], Db_index True, Default (D_Str ''none''), Max_length 100, No_check_for_status True]),
      AlterField ''trackingasset'' ''calib_file'' (Field CharField [Blank True, Max_length 255, Null True])] \<rparr>"

section \<open>Capturing\<close>

definition capture_0001_initial :: migration where
  "capture_0001_initial = \<lparr> m_app = Capture, m_name = ''0001_initial'',
     m_dependencies = [],
     m_operations = [
      CreateModel ''Camera''
        [(''id'', Field AutoField [Auto_created True, Primary_key True, Serialize False, Verbose_name ''ID'']),
         (''unique_id'', Field CharField [Max_length 200]),
         (''model'', Field CharField [Max_length 200])]
        [],
      CreateModel ''CaptureNode''
        [(''id'', Field AutoField [Auto_created True, Primary_key True, Serialize False, Verbose_name ''ID'']),
         (''ip_address'', Field CharField [Max_length 200]),
         (''machine_name'', Field CharField [Max_length 200]),
         (''last_seen'', Field DateTimeField [Auto_now_add True, Verbose_name ''last seen''])]
        [],
      AddField ''camera'' ''node'' (Field ForeignKey [On_delete CASCADE, To (Model Capture ''CaptureNode'')])] \<rparr>"

definition capture_0002_auto_20160929_1634 :: migration where
  "capture_0002_auto_20160929_1634 = \<lparr> m_app = Capture, m_name = ''0002_auto_20160929_1634'',
     m_dependencies = [On Capture ''0001_initial''],
     m_operations = [
      AddField ''capturenode'' ''online'' (Field BooleanField [Default (D_Bool False)]),
      AlterField ''camera'' ''node'' (Field ForeignKey [On_delete CASCADE, Related_name ''cameras'', To (Model Capture ''CaptureNode'')])] \<rparr>"

definition capture_0003_globalconfiguration :: migration where
  "capture_0003_globalconfiguration = \<lparr> m_app = Capture, m_name = ''0003_globalconfiguration'',
     m_dependencies = [On Capture ''0002_auto_20160929_1634''],
     m_operations = [
      CreateModel ''GlobalConfiguration''
        [(''id'', Field AutoField [Auto_created True, Primary_key True, Serialize False, Verbose_name ''ID'']),
         (''hardware_sync_frequency'', Field IntegerField [Default (D_Int 30)])]
        [Verbose ''Global Configuration'']] \<rparr>"

definition capture_0004_auto_20161003_1637 :: migration where
  "capture_0004_auto_20161003_1637 = \<lparr> m_app = Capture, m_name = ''0004_auto_20161003_1637'',
     m_dependencies = [On Capture ''0003_globalconfiguration''],
     m_operations = [
      AlterModelOptions ''capturenode'' [Permissions [(''view_nodes'', ''Can see list of nodes and cameras'')]]] \<rparr>"

definition capture_0005_auto_20161003_1708 :: migration where
  "capture_0005_auto_20161003_1708 = \<lparr> m_app = Capture, m_name = ''0005_auto_20161003_1708'',
     m_dependencies = [On Capture ''0004_auto_20161003_1637''],
     m_operations = [
      AlterModelOptions ''capturenode'' [Permissions [(''view_nodes'', ''Can see list of nodes and cameras''), (''control_cameras'', ''Can change camera settings and record'')]]] \<rparr>"

definition capture_0006_auto_20161004_0619 :: migration where
  "capture_0006_auto_20161004_0619 = \<lparr> m_app = Capture, m_name = ''0006_auto_20161004_0619'',
     m_dependencies = [On Capture ''0005_auto_20161003_1708''],
     m_operations = [
      CreateModel ''CaptureLocation''
        [(''id'', Field AutoField [Auto_created True, Primary_key True, Serialize False, Verbose_name ''ID'']),
         (''name'', Field CharField [Max_length 200])]
        [],
      AddField ''capturenode'' ''location'' (Field ForeignKey [Null True, On_delete SET_NULL, Related_name ''nodes'', To (Model Capture ''CaptureLocation'')])] \<rparr>"

definition capture_0007_auto_20161004_1027 :: migration where
  "capture_0007_auto_20161004_1027 = \<lparr> m_app = Capture, m_name = ''0007_auto_20161004_1027'',
     m_dependencies = [Swappable_user, On Capture ''0006_auto_20161004_0619''],
     m_operations = [
      CreateModel ''LocationAccess''
        [(''id'', Field AutoField [Auto_created True, Primary_key True, Serialize False, Verbose_name ''ID'']),
         (''read_access'', Field BooleanField [Default (D_Bool False)]),
         (''write_access'', Field BooleanField [Default (D_Bool False)]),
         (''location'', Field ForeignKey [On_delete CASCADE, To (Model Capture ''CaptureLocation'')]),
         (''user'', Field ForeignKey [On_delete CASCADE, To User_model])]
        [],
      AddField ''capturelocation'' ''users'' (Field ManyToManyField [Related_name ''access_rights'', Through (Model Capture ''LocationAccess''), To User_model])] \<rparr>"

definition capture_0008_auto_20161004_1240 :: migration where
  "capture_0008_auto_20161004_1240 = \<lparr> m_app = Capture, m_name = ''0008_auto_20161004_1240'',
     m_dependencies = [On Capture ''0007_auto_20161004_1027''],
     m_operations = [
      DeleteModel ''GlobalConfiguration'',
      AddField ''capturelocation'' ''hardware_sync_frequency'' (Field IntegerField [Default (D_Int 30)])] \<rparr>"

definition capture_0009_capturelocation_pulse_duration :: migration where
  "capture_0009_capturelocation_pulse_duration = \<lparr> m_app = Capture, m_name = ''0009_capturelocation_pulse_duration'',
     m_dependencies = [On Capture ''0008_auto_20161004_1240''],
     m_operations = [
      AddField ''capturelocation'' ''pulse_duration'' (Field IntegerField [Default (D_Int 2000)])] \<rparr>"

definition capture_0010_camera_version :: migration where
  "capture_0010_camera_version = \<lparr> m_app = Capture, m_name = ''0010_camera_version'',
     m_dependencies = [On Capture ''0009_capturelocation_pulse_duration''],
     m_operations = [
      AddField ''camera'' ''version'' (Field CharField [Default (D_Str ''''), Max_length 200])] \<rparr>"

definition capture_0011_capturenode_sync_found :: migration where
  "capture_0011_capturenode_sync_found = \<lparr> m_app = Capture, m_name = ''0011_capturenode_sync_found'',
     m_dependencies = [On Capture ''0010_camera_version''],
     m_operations = [
      AddField ''capturenode'' ''sync_found'' (Field BooleanField [Default (D_Bool False)])] \<rparr>"

definition capture_0012_auto_20161110_0814 :: migration where
  "capture_0012_auto_20161110_0814 = \<lparr> m_app = Capture, m_name = ''0012_auto_20161110_0814'',
     m_dependencies = [On Capture ''0011_capturenode_sync_found''],
     m_operations = [
      AddField ''camera'' ''exposure'' (Field FloatField [Default (D_Float 50000 1)]),
      AddField ''camera'' ''gain'' (Field FloatField [Default (D_Float 0 1)]),
      AddField ''camera'' ''lens_aperture'' (Field FloatField [Default (D_Float 56 1)])] \<rparr>"

definition capture_0013_capturenode_read_access_all :: migration where
  "capture_0013_capturenode_read_access_all = \<lparr> m_app = Capture, m_name = ''0013_capturenode_read_access_all'',
     m_dependencies = [On Capture ''0012_auto_20161110_0814''],
     m_operations = [
      AddField ''capturenode'' ''read_access_all'' (Field BooleanField [Default (D_Bool False)])] \<rparr>"

definition capture_0014_auto_20161121_0820 :: migration where
  "capture_0014_auto_20161121_0820 = \<lparr> m_app = Capture, m_name = ''0014_auto_20161121_0820'',
     m_dependencies = [On Capture ''0013_capturenode_read_access_all''],
     m_operations = [
      RemoveField ''capturenode'' ''read_access_all'',
      AddField ''capturelocation'' ''read_access_all'' (Field BooleanField [Default (D_Bool False)])] \<rparr>"

definition capture_0015_auto_20161128_1348 :: migration where
  "capture_0015_auto_20161128_1348 = \<lparr> m_app = Capture, m_name = ''0015_auto_20161128_1348'',
     m_dependencies = [On Archive ''0002_take_sequence'', On Capture ''0014_auto_20161121_0820''],
     m_operations = [
      AddField ''capturelocation'' ''cur_project'' (Field ForeignKey [Default D_None, Null True, On_delete SET_NULL, To (Model Archive ''Project'')]),
      AddField ''capturelocation'' ''cur_session'' (Field ForeignKey [Default D_None, Null True, On_delete SET_NULL, To (Model Archive ''Session'')]),
      AddField ''capturelocation'' ''cur_shot'' (Field ForeignKey [Default D_None, Null True, On_delete SET_NULL, To (Model Archive ''Shot'')])] \<rparr>"

definition capture_0016_capturenode_drive_info :: migration where
  "capture_0016_capturenode_drive_info = \<lparr> m_app = Capture, m_name = ''0016_capturenode_drive_info'',
     m_dependencies = [On Capture ''0015_auto_20161128_1348''],
     m_operations = [
      AddField ''capturenode'' ''drive_info'' (Field CharField [Default (D_Str ''''), Max_length 250])] \<rparr>"

definition capture_0017_auto_20161205_1332 :: migration where
  "capture_0017_auto_20161205_1332 = \<lparr> m_app = Capture, m_name = ''0017_auto_20161205_1332'',
     m_dependencies = [On Capture ''0016_capturenode_drive_info''],
     m_operations = [
      AlterField ''capturenode'' ''drive_info'' (Field CharField [Default (D_Str ''''), Max_length 2048])] \<rparr>"

definition capture_0018_camera_using_sync :: migration where
  "capture_0018_camera_using_sync = \<lparr> m_app = Capture, m_name = ''0018_camera_using_sync'',
     m_dependencies = [On Capture ''0017_auto_20161205_1332''],
     m_operations = [
      AddField ''camera'' ''using_sync'' (Field BooleanField [Default (D_Bool False)])] \<rparr>"

definition capture_0019_auto_20170222_2128 :: migration where
  "capture_0019_auto_20170222_2128 = \<lparr> m_app = Capture, m_name = ''0019_auto_20170222_2128'',
     m_dependencies = [On Capture ''0018_camera_using_sync''],
     m_operations = [
      AlterField ''camera'' ''using_sync'' (Field BooleanField [Default (D_Bool True)])] \<rparr>"

definition capture_0020_auto_20170418_1141 :: migration where
  "capture_0020_auto_20170418_1141 = \<lparr> m_app = Capture, m_name = ''0020_auto_20170418_1141'',
     m_dependencies = [On Capture ''0019_auto_20170222_2128''],
     m_operations = [
      AddField ''capturelocation'' ''display_focus_peak'' (Field BooleanField [Default (D_Bool False)]),
      AddField ''capturelocation'' ''display_histogram'' (Field BooleanField [Default (D_Bool False)]),
      AddField ''capturelocation'' ''display_overexposed'' (Field BooleanField [Default (D_Bool False)])] \<rparr>"

definition capture_0021_auto_20170418_1206 :: migration where
  "capture_0021_auto_20170418_1206 = \<lparr> m_app = Capture, m_name = ''0021_auto_20170418_1206'',
     m_dependencies = [On Capture ''0020_auto_20170418_1141''],
     m_operations = [
      AlterField ''capturelocation'' ''cur_project'' (Field ForeignKey [Blank True, Default D_None, Null True, On_delete SET_NULL, To (Model Archive ''Project'')]),
      AlterField ''capturelocation'' ''cur_session'' (Field ForeignKey [Blank True, Default D_None, Null True, On_delete SET_NULL, To (Model Archive ''Session'')]),
      AlterField ''capturelocation'' ''cur_shot'' (Field ForeignKey [Blank True, Default D_None, Null True, On_delete SET_NULL, To (Model Archive ''Shot'')])] \<rparr>"

definition capture_0022_camera_rotation :: migration where
  "capture_0022_camera_rotation = \<lparr> m_app = Capture, m_name = ''0022_camera_rotation'',
     m_dependencies = [On Capture ''0021_auto_20170418_1206''],
     m_operations = [
      AddField ''camera'' ''rotation'' (Field IntegerField [Default (D_Int 0)])] \<rparr>"

definition capture_0023_capturenode_code_version :: migration where
  "capture_0023_capturenode_code_version = \<lparr> m_app = Capture, m_name = ''0023_capturenode_code_version'',
     m_dependencies = [On Capture ''0022_camera_rotation''],
     m_operations = [
      AddField ''capturenode'' ''code_version'' (Field IntegerField [Default (D_Int 0)])] \<rparr>"

definition capture_0024_auto_20170617_2142 :: migration where
  "capture_0024_auto_20170617_2142 = \<lparr> m_app = Capture, m_name = ''0024_auto_20170617_2142'',
     m_dependencies = [On Capture ''0023_capturenode_code_version''],
     m_operations = [
      AddField ''capturelocation'' ''bitdepth_avi'' (Field IntegerField [Default (D_Int 8)]),
      AddField ''capturelocation'' ''bitdepth_single'' (Field IntegerField [Default (D_Int 12)])] \<rparr>"

definition capture_0025_capturelocation_external_sync :: migration where
  "capture_0025_capturelocation_external_sync = \<lparr> m_app = Capture, m_name = ''0025_capturelocation_external_sync'',
     m_dependencies = [On Capture ''0024_auto_20170617_2142''],
     m_operations = [
      AddField ''capturelocation'' ''external_sync'' (Field BooleanField [Default (D_Bool False)])] \<rparr>"

definition capture_0026_capturenode_os :: migration where
  "capture_0026_capturenode_os = \<lparr> m_app = Capture, m_name = ''0026_capturenode_os'',
     m_dependencies = [On Capture ''0025_capturelocation_external_sync''],
     m_operations = [
      AddField ''capturenode'' ''os'' (Field CharField [Max_length 80, Null True])] \<rparr>"

definition capture_0027_auto_20190502_0114 :: migration where
  "capture_0027_auto_20190502_0114 = \<lparr> m_app = Capture, m_name = ''0027_auto_20190502_0114'',
     m_dependencies = [On Capture ''0026_capturenode_os''],
     m_operations = [
      AddField ''capturelocation'' ''image_format'' (Field CharField [Default (D_Str ''raw''), Max_length 8]),
      AddField ''capturelocation'' ''wb_B'' (Field FloatField [Default (D_Float 265 2)]),
      AddField ''capturelocation'' ''wb_G'' (Field FloatField [Default (D_Float 10 1)]),
      AddField ''capturelocation'' ''wb_R'' (Field FloatField [Default (D_Float 137 2)]),
      AddField ''capturenode'' ''build_version'' (Field CharField [Default (D_Str ''''), Max_length 64])] \<rparr>"

section \<open>The farm\<close>

definition jobs_0001_initial :: migration where
  "jobs_0001_initial = \<lparr> m_app = Jobs, m_name = ''0001_initial'',
     m_dependencies = [],
     m_operations = [
      CreateModel ''FarmNode''
        [(''id'', Field AutoField [Auto_created True, Primary_key True, Serialize False, Verbose_name ''ID'']),
         (''ip_address'', Field CharField [Max_length 200]),
         (''machine_name'', Field CharField [Max_length 200]),
         (''last_seen'', Field DateTimeField [Auto_now_add True, Verbose_name ''last seen'']),
         (''online'', Field BooleanField [Default (D_Bool False)])]
        []] \<rparr>"

definition jobs_0002_auto_20161011_1336 :: migration where
  "jobs_0002_auto_20161011_1336 = \<lparr> m_app = Jobs, m_name = ''0002_auto_20161011_1336'',
     m_dependencies = [On Jobs ''0001_initial''],
     m_operations = [
      CreateModel ''FarmJob''
        [(''id'', Field AutoField [Auto_created True, Primary_key True, Serialize False, Verbose_name ''ID'']),
         (''created'', Field AutoCreatedField [Default D_Now, Editable False, Verbose_name ''created'']),
         (''modified'', Field AutoLastModifiedField [Default D_Now, Editable False, Verbose_name ''modified'']),
         (''job_class'', Field CharField [Max_length 200]),
         (''created_by'', Field CharField [Max_length 200]),
         (''status'', Field StatusField [Choices [(D_Str ''created'', ''created''), (D_Str ''ready'', ''ready''), (D_Str ''failed'', ''failed''), (D_Str ''success'', ''success'')], Db_index True, Default (D_Str ''created''), Max_length 100, No_check_for_status True]),
         (''status_changed'', Field MonitorField [Default D_Now, Monitor ''status''])]
        [Abstract False],
      RemoveField ''farmnode'' ''online'',
      AddField ''farmnode'' ''status'' (Field StatusField [Choices [(D_Int 0, ''dummy'')], Default (D_Str ''offline''), Max_length 100, No_check_for_status True])] \<rparr>"

definition jobs_0003_auto_20161011_1359 :: migration where
  "jobs_0003_auto_20161011_1359 = \<lparr> m_app = Jobs, m_name = ''0003_auto_20161011_1359'',
     m_dependencies = [On Jobs ''0002_auto_20161011_1336''],
     m_operations = [
      AddField ''farmjob'' ''exception'' (Field CharField [Max_length 800, Null True]),
      AddField ''farmjob'' ''node'' (Field ForeignKey [Null True, On_delete CASCADE, To (Model Jobs ''FarmNode'')]),
      AddField ''farmjob'' ''params'' (Field CharField [Max_length 800, Null True])] \<rparr>"

definition jobs_0004_auto_20161013_1243 :: migration where
  "jobs_0004_auto_20161013_1243 = \<lparr> m_app = Jobs, m_name = ''0004_auto_20161013_1243'',
     m_dependencies = [On Jobs ''0003_auto_20161011_1359''],
     m_operations = [
      AddField ''farmnode'' ''cpu_brand'' (Field CharField [Max_length 80, Null True]),
      AddField ''farmnode'' ''cpu_cores'' (Field IntegerField [Null True]),
      AddField ''farmnode'' ''system'' (Field CharField [Max_length 80, Null True]),
      AddField ''farmnode'' ''system_bits'' (Field IntegerField [Null True]),
      AlterField ''farmjob'' ''node'' (Field ForeignKey [Null True, On_delete CASCADE, Related_name ''jobs'', To (Model Jobs ''FarmNode'')])] \<rparr>"

definition jobs_0005_farmnode_gpu_count :: migration where
  "jobs_0005_farmnode_gpu_count = \<lparr> m_app = Jobs, m_name = ''0005_farmnode_gpu_count'',
     m_dependencies = [On Jobs ''0004_auto_20161013_1243''],
     m_operations = [
      AddField ''farmnode'' ''gpu_count'' (Field IntegerField [Null True])] \<rparr>"

definition jobs_0006_auto_20170203_2224 :: migration where
  "jobs_0006_auto_20170203_2224 = \<lparr> m_app = Jobs, m_name = ''0006_auto_20170203_2224'',
     m_dependencies = [On Jobs ''0005_farmnode_gpu_count''],
     m_operations = [
      AlterField ''farmjob'' ''params'' (Field TextField [Null True])] \<rparr>"

definition jobs_0007_auto_20170309_1140 :: migration where
  "jobs_0007_auto_20170309_1140 = \<lparr> m_app = Jobs, m_name = ''0007_auto_20170309_1140'',
     m_dependencies = [On Jobs ''0006_auto_20170203_2224''],
     m_operations = [
      AddField ''farmjob'' ''dependencies'' (Field ManyToManyField [Related_name ''_farmjob_dependencies_+'', To (Model Jobs ''FarmJob'')]),
      AddField ''farmjob'' ''parent'' (Field ForeignKey [Null True, On_delete CASCADE, Related_name ''children'', To (Model Jobs ''FarmJob'')])] \<rparr>"

definition jobs_0008_auto_20170317_1530 :: migration where
  "jobs_0008_auto_20170317_1530 = \<lparr> m_app = Jobs, m_name = ''0008_auto_20170317_1530'',
     m_dependencies = [On Jobs ''0007_auto_20170309_1140''],
     m_operations = [
      AlterField ''farmjob'' ''dependencies'' (Field ManyToManyField [Blank True, Related_name ''dependants'', To (Model Jobs ''FarmJob'')]),
      AlterField ''farmjob'' ''exception'' (Field CharField [Blank True, Max_length 800, Null True]),
      AlterField ''farmjob'' ''params'' (Field TextField [Blank True, Null True]),
      AlterField ''farmjob'' ''parent'' (Field ForeignKey [Blank True, Null True, On_delete CASCADE, Related_name ''children'', To (Model Jobs ''FarmJob'')])] \<rparr>"

definition jobs_0009_farmjob_progress :: migration where
  "jobs_0009_farmjob_progress = \<lparr> m_app = Jobs, m_name = ''0009_farmjob_progress'',
     m_dependencies = [On Jobs ''0008_auto_20170317_1530''],
     m_operations = [
      AddField ''farmjob'' ''progress'' (Field CharField [Blank True, Max_length 200, Null True])] \<rparr>"

definition jobs_0010_farmjob_ext_take :: migration where
  "jobs_0010_farmjob_ext_take = \<lparr> m_app = Jobs, m_name = ''0010_farmjob_ext_take'',
     m_dependencies = [On Archive ''0007_auto_20170320_1532'', On Jobs ''0009_farmjob_progress''],
     m_operations = [
      AddField ''farmjob'' ''ext_take'' (Field ForeignKey [Blank True, Null True, On_delete SET_NULL, Related_name ''ext_jobs'', To (Model Archive ''Take'')])] \<rparr>"

definition jobs_0011_auto_20170331_2120 :: migration where
  "jobs_0011_auto_20170331_2120 = \<lparr> m_app = Jobs, m_name = ''0011_auto_20170331_2120'',
     m_dependencies = [On Jobs ''0010_farmjob_ext_take''],
     m_operations = [
      AddField ''farmjob'' ''end_time'' (Field DateTimeField [Null True, Verbose_name ''end time'']),
      AddField ''farmjob'' ''start_time'' (Field DateTimeField [Null True, Verbose_name ''start time''])] \<rparr>"

definition jobs_0011_farmjob_req_version :: migration where
  "jobs_0011_farmjob_req_version = \<lparr> m_app = Jobs, m_name = ''0011_farmjob_req_version'',
     m_dependencies = [On Jobs ''0010_farmjob_ext_take''],
     m_operations = [
      AddField ''farmjob'' ''req_version'' (Field IntegerField [Default (D_Int 1)])] \<rparr>"

definition jobs_0012_auto_20170401_1527 :: migration where
  "jobs_0012_auto_20170401_1527 = \<lparr> m_app = Jobs, m_name = ''0012_auto_20170401_1527'',
     m_dependencies = [On Jobs ''0011_auto_20170331_2120''],
     m_operations = [
      AlterField ''farmjob'' ''end_time'' (Field DateTimeField [Blank True, Null True, Verbose_name ''end time'']),
      AlterField ''farmjob'' ''node'' (Field ForeignKey [Blank True, Null True, On_delete CASCADE, Related_name ''jobs'', To (Model Jobs ''FarmNode'')]),
      AlterField ''farmjob'' ''start_time'' (Field DateTimeField [Blank True, Null True, Verbose_name ''start time'']),
      AlterField ''farmjob'' ''status_changed'' (Field MonitorField [Db_index True, Default D_Now, Monitor ''status''])] \<rparr>"

definition jobs_0012_farmnode_code_version :: migration where
  "jobs_0012_farmnode_code_version = \<lparr> m_app = Jobs, m_name = ''0012_farmnode_code_version'',
     m_dependencies = [On Jobs ''0011_farmjob_req_version''],
     m_operations = [
      AddField ''farmnode'' ''code_version'' (Field IntegerField [Default (D_Int 1)])] \<rparr>"

definition jobs_0013_farmnode_req_restart :: migration where
  "jobs_0013_farmnode_req_restart = \<lparr> m_app = Jobs, m_name = ''0013_farmnode_req_restart'',
     m_dependencies = [On Jobs ''0012_farmnode_code_version''],
     m_operations = [
      AddField ''farmnode'' ''req_restart'' (Field BooleanField [Default (D_Bool False)])] \<rparr>"

definition jobs_0014_merge_20170403_0928 :: migration where
  "jobs_0014_merge_20170403_0928 = \<lparr> m_app = Jobs, m_name = ''0014_merge_20170403_0928'',
     m_dependencies = [On Jobs ''0013_farmnode_req_restart'', On Jobs ''0012_auto_20170401_1527''],
     m_operations = [] \<rparr>"

definition jobs_0015_farmjob_ext_scan_assets :: migration where
  "jobs_0015_farmjob_ext_scan_assets = \<lparr> m_app = Jobs, m_name = ''0015_farmjob_ext_scan_assets'',
     m_dependencies = [On Archive ''0009_staticscanasset_trackingasset'', On Jobs ''0014_merge_20170403_0928''],
     m_operations = [
      AddField ''farmjob'' ''ext_scan_assets'' (Field ForeignKey [Blank True, Null True, On_delete SET_NULL, Related_name ''ext_jobs'', To (Model Archive ''StaticScanAsset'')])] \<rparr>"

definition jobs_0016_farmjob_req_gpu :: migration where
  "jobs_0016_farmjob_req_gpu = \<lparr> m_app = Jobs, m_name = ''0016_farmjob_req_gpu'',
     m_dependencies = [On Jobs ''0015_farmjob_ext_scan_assets''],
     m_operations = [
      AddField ''farmjob'' ''req_gpu'' (Field BooleanField [Default (D_Bool True)])] \<rparr>"

definition jobs_0017_farmjob_ext_tracking_assets :: migration where
  "jobs_0017_farmjob_ext_tracking_assets = \<lparr> m_app = Jobs, m_name = ''0017_farmjob_ext_tracking_assets'',
     m_dependencies = [On Archive ''0011_auto_20170405_1049'', On Jobs ''0016_farmjob_req_gpu''],
     m_operations = [
      AddField ''farmjob'' ''ext_tracking_assets'' (Field ForeignKey [Blank True, Null True, On_delete SET_NULL, Related_name ''ext_jobs'', To (Model Archive ''TrackingAsset'')])] \<rparr>"

definition jobs_0018_farmnode_active :: migration where
  "jobs_0018_farmnode_active = \<lparr> m_app = Jobs, m_name = ''0018_farmnode_active'',
     m_dependencies = [On Jobs ''0017_farmjob_ext_tracking_assets''],
     m_operations = [
      AddField ''farmnode'' ''active'' (Field BooleanField [Default (D_Bool True)])] \<rparr>"

definition jobs_0019_farmjob_priority :: migration where
  "jobs_0019_farmjob_priority = \<lparr> m_app = Jobs, m_name = ''0019_farmjob_priority'',
     m_dependencies = [On Jobs ''0018_farmnode_active''],
     m_operations = [
      AddField ''farmjob'' ''priority'' (Field IntegerField [Default (D_Int 50)])] \<rparr>"

definition jobs_0020_farmnode_cpu_percent :: migration where
  "jobs_0020_farmnode_cpu_percent = \<lparr> m_app = Jobs, m_name = ''0020_farmnode_cpu_percent'',
     m_dependencies = [On Jobs ''0019_farmjob_priority''],
     m_operations = [
      AddField ''farmnode'' ''cpu_percent'' (Field FloatField [Default (D_Float 0 1)])] \<rparr>"

definition jobs_0021_auto_20170708_1115 :: migration where
  "jobs_0021_auto_20170708_1115 = \<lparr> m_app = Jobs, m_name = ''0021_auto_20170708_1115'',
     m_dependencies = [On Jobs ''0020_farmnode_cpu_percent''],
     m_operations = [
      CreateModel ''FarmNodeGroup''
        [(''id'', Field AutoField [Auto_created True, Primary_key True, Serialize False, Verbose_name ''ID'']),
         (''name'', Field CharField [Max_length 200])]
        [],
      AddField ''farmnode'' ''group'' (Field ForeignKey [Blank True, Null True, On_delete SET_NULL, Related_name ''nodes'', To (Model Jobs ''FarmNodeGroup'')])] \<rparr>"

definition jobs_0022_farmjob_image_filename :: migration where
  "jobs_0022_farmjob_image_filename = \<lparr> m_app = Jobs, m_name = ''0022_farmjob_image_filename'',
     m_dependencies = [On Jobs ''0021_auto_20170708_1115''],
     m_operations = [
      AddField ''farmjob'' ''image_filename'' (Field CharField [Blank True, Max_length 250, Null True])] \<rparr>"

definition jobs_0023_auto_20190502_0114 :: migration where
  "jobs_0023_auto_20190502_0114 = \<lparr> m_app = Jobs, m_name = ''0023_auto_20190502_0114'',
     m_dependencies = [On Taggit ''0002_auto_20150616_2121'', On Jobs ''0022_farmjob_image_filename''],
     m_operations = [
      AlterModelOptions ''farmnode'' [Ordering [''machine_name'']],
      AddField ''farmjob'' ''mesh_filename'' (Field CharField [Blank True, Max_length 250, Null True]),
      AddField ''farmjob'' ''tags'' (Field TaggableManager [Blank True, Help_text ''A comma-separated list of tags.'', Through (Model Taggit ''TaggedItem''), To (Model Taggit ''Tag''), Verbose_name ''Tags'']),
      AddField ''farmnode'' ''aws_auto_shutdown'' (Field BooleanField [Default (D_Bool True)]),
      AddField ''farmnode'' ''aws_instance_id'' (Field CharField [Blank True, Max_length 80, Null True]),
      AddField ''farmnode'' ''aws_instance_region'' (Field CharField [Blank True, Max_length 80, Null True]),
      AddField ''farmnode'' ''aws_instance_state'' (Field StatusField [Choices [(D_Int 0, ''dummy'')], Db_index True, Default (D_Str ''none''), Max_length 100, No_check_for_status True]),
      AddField ''farmnode'' ''aws_instance_state_changed'' (Field MonitorField [Default D_Now, Monitor ''aws_instance_state'']),
      AddField ''farmnode'' ''git_version'' (Field CharField [Blank True, Max_length 80, Null True]),
      AddField ''farmnode'' ''last_job_activity'' (Field DateTimeField [Auto_now_add True, Null True, Verbose_name ''last activity'']),
      AddField ''farmnode'' ''os_version'' (Field CharField [Blank True, Max_length 80, Null True]),
      AddField ''farmnode'' ''tags'' (Field TaggableManager [Blank True, Help_text ''A comma-separated list of tags.'', Through (Model Taggit ''TaggedItem''), To (Model Taggit ''Tag''), Verbose_name ''Tags'']),
      AddField ''farmnode'' ''virt_percent'' (Field FloatField [Default (D_Float 0 1)]),
      AlterField ''farmjob'' ''req_gpu'' (Field BooleanField [Default (D_Bool False)]),
      AlterField ''farmjob'' ''status_changed'' (Field MonitorField [Default D_Now, Monitor ''status'']),
      AlterField ''farmnode'' ''ip_address'' (Field CharField [Default (D_Str ''0.0.0.0''), Max_length 200]),
      AlterField ''farmnode'' ''status'' (Field StatusField [Choices [(D_Int 0, ''dummy'')], Db_index True, Default (D_Str ''offline''), Max_length 100, No_check_for_status True])] \<rparr>"

definition accounts_migrations :: "migration list" where
  "accounts_migrations = [
     accounts_0001_initial]"

definition archive_migrations :: "migration list" where
  "archive_migrations = [
     archive_0001_initial, archive_0002_take_sequence, archive_0003_auto_20161128_1401,
     archive_0004_remove_camera_name, archive_0005_camera_framerate, archive_0006_camera_all_files,
     archive_0007_auto_20170320_1532, archive_0008_take_export_path,
     archive_0009_staticscanasset_trackingasset, archive_0010_auto_20170405_0901,
     archive_0011_auto_20170405_1049, archive_0012_take_flag, archive_0013_camera_rotation,
     archive_0014_session_frontal_cam_id, archive_0015_auto_20170531_2048,
     archive_0016_auto_20170719_1804, archive_0017_auto_20170719_1855, archive_0018_auto_20170831_1529,
     archive_0019_auto_20190502_0114]"

definition capture_migrations :: "migration list" where
  "capture_migrations = [
     capture_0001_initial, capture_0002_auto_20160929_1634, capture_0003_globalconfiguration,
     capture_0004_auto_20161003_1637, capture_0005_auto_20161003_1708, capture_0006_auto_20161004_0619,
     capture_0007_auto_20161004_1027, capture_0008_auto_20161004_1240,
     capture_0009_capturelocation_pulse_duration, capture_0010_camera_version,
     capture_0011_capturenode_sync_found, capture_0012_auto_20161110_0814,
     capture_0013_capturenode_read_access_all, capture_0014_auto_20161121_0820,
     capture_0015_auto_20161128_1348, capture_0016_capturenode_drive_info,
     capture_0017_auto_20161205_1332, capture_0018_camera_using_sync, capture_0019_auto_20170222_2128,
     capture_0020_auto_20170418_1141, capture_0021_auto_20170418_1206, capture_0022_camera_rotation,
     capture_0023_capturenode_code_version, capture_0024_auto_20170617_2142,
     capture_0025_capturelocation_external_sync, capture_0026_capturenode_os,
     capture_0027_auto_20190502_0114]"

text \<open>The farm has two branches after \<open>0010\<close>, which \<open>0014_merge_20170403_0928\<close> joins.\<close>

definition jobs_trunk :: "migration list" where
  "jobs_trunk = [
     jobs_0001_initial, jobs_0002_auto_20161011_1336, jobs_0003_auto_20161011_1359,
     jobs_0004_auto_20161013_1243, jobs_0005_farmnode_gpu_count, jobs_0006_auto_20170203_2224,
     jobs_0007_auto_20170309_1140, jobs_0008_auto_20170317_1530, jobs_0009_farmjob_progress,
     jobs_0010_farmjob_ext_take]"

definition jobs_branch_times :: "migration list" where
  "jobs_branch_times = [
     jobs_0011_auto_20170331_2120, jobs_0012_auto_20170401_1527]"

definition jobs_branch_versions :: "migration list" where
  "jobs_branch_versions = [
     jobs_0011_farmjob_req_version, jobs_0012_farmnode_code_version, jobs_0013_farmnode_req_restart]"

definition jobs_merged :: "migration list" where
  "jobs_merged = [
     jobs_0014_merge_20170403_0928, jobs_0015_farmjob_ext_scan_assets, jobs_0016_farmjob_req_gpu,
     jobs_0017_farmjob_ext_tracking_assets, jobs_0018_farmnode_active, jobs_0019_farmjob_priority,
     jobs_0020_farmnode_cpu_percent, jobs_0021_auto_20170708_1115, jobs_0022_farmjob_image_filename,
     jobs_0023_auto_20190502_0114]"

definition jobs_migrations :: "migration list" where
  "jobs_migrations = jobs_trunk @ jobs_branch_times @ jobs_branch_versions @ jobs_merged"

definition all_migrations :: "migration list" where
  "all_migrations = archive_migrations @ capture_migrations @ jobs_migrations @ accounts_migrations"

lemmas app_migrations_defs =
  accounts_migrations_def archive_migrations_def capture_migrations_def jobs_migrations_def
  jobs_trunk_def jobs_branch_times_def jobs_branch_versions_def jobs_merged_def

end
