(* ===== verification/Settings.thy ===== *)
theory Settings
  imports Accounts Archive_Serializers Migrations
begin

text \<open>
  The module \<open>ava/settings.py\<close> as the function it is of the machine and of the file with the secrets:
  its assignments in order, those that a later one overrides included, and the error it ends with when
  the file lacks one of the values. The theorems say what the file must hold, in what a production
  server differs from a development one, and what the settings mean for the other parts.
\<close>

section \<open>Values and modules\<close>

datatype setting =
    Text string
  | Flag bool
  | Number int
  | Seconds int
  | Nothing
  | Items "setting list"
  | Entries "(string \<times> setting) list"

type_synonym namespace = "string \<rightharpoonup> setting"

text \<open>\<open>if not x\<close> of Python.\<close>

fun is_true :: "setting \<Rightarrow> bool" where
  "is_true (Text s) = (s \<noteq> [])"
| "is_true (Flag b) = b"
| "is_true (Number n) = (n \<noteq> 0)"
| "is_true (Seconds n) = (n \<noteq> 0)"
| "is_true Nothing = False"
| "is_true (Items xs) = (xs \<noteq> [])"
| "is_true (Entries es) = (es \<noteq> [])"

definition attr :: "namespace \<Rightarrow> string \<Rightarrow> (setting \<Rightarrow> py_exn + 'a) \<Rightarrow> py_exn + 'a" where
  "attr m name k = (case m name of None \<Rightarrow> Inl (AttributeError name) | Some v \<Rightarrow> k v)"

abbreviation texts :: "string list \<Rightarrow> setting" where
  "texts xs \<equiv> Items (map Text xs)"

text \<open>Any error in \<open>secure_settings.py\<close>, its absence included, falls back on the file for development.\<close>

definition import_secure :: "py_exn + namespace \<Rightarrow> namespace \<Rightarrow> namespace" where
  "import_secure secret dev = (case secret of Inr m \<Rightarrow> m | Inl _ \<Rightarrow> dev)"

definition dev_secure_settings :: namespace where
  "dev_secure_settings =
     [''DB_PW'' \<mapsto> Text ''3navet'',
      ''SECRET_KEY'' \<mapsto> Text ''s(=+g!q6lt+tuq4t@f_l+ha#z%h+)@3e%+n862h^lc1*_qhwrq'',
      ''PROD_SERVER'' \<mapsto> Flag False,
      ''SLACK_NOTIF_HOOK'' \<mapsto> Nothing,
      ''DDNS_SERVER'' \<mapsto> Nothing,
      ''DDNS_KEYFILE'' \<mapsto> Nothing]"

section \<open>The module\<close>

text \<open>\<open>file\<close> is \<open>os.path.abspath(__file__)\<close>, \<open>host\<close> the name of the machine.\<close>

definition base_dir :: "string \<Rightarrow> string" where
  "base_dir file = path_head (path_head file)"

definition settings_machine :: "string \<Rightarrow> string \<Rightarrow> namespace \<Rightarrow> namespace \<Rightarrow> py_exn + namespace" where
  "settings_machine file host secure ns =
     attr secure ''DDNS_SERVER'' (\<lambda>server.
     attr secure ''DDNS_KEYFILE'' (\<lambda>keyfile.
       Inr (ns(''ADMIN_EMAIL'' \<mapsto> Text ''edanvoye@ea.com'',
               ''NOTIFICATION_EMAIL'' \<mapsto> Flag False,
               ''HOSTNAME'' \<mapsto> Text host,
               ''BASE_DIR'' \<mapsto> Text (base_dir file),
               ''DDNS_SERVER'' \<mapsto> server,
               ''DDNS_KEYFILE'' \<mapsto> keyfile))))"

definition settings_security :: "namespace \<Rightarrow> namespace \<Rightarrow> py_exn + namespace" where
  "settings_security secure ns =
     attr secure ''SECRET_KEY'' (\<lambda>key.
     attr secure ''SLACK_NOTIF_HOOK'' (\<lambda>hook.
       Inr (ns(''SECRET_KEY'' \<mapsto> key,
               ''DEBUG'' \<mapsto> Flag True,
               ''DATA_UPLOAD_MAX_MEMORY_SIZE'' \<mapsto> Number 262144000,
               ''FILE_UPLOAD_MAX_MEMORY_SIZE'' \<mapsto> Number 262144000,
               ''ALLOWED_HOSTS'' \<mapsto> Items [],
               ''SLACK_NOTIF_HOOK'' \<mapsto> hook,
               ''TAGGIT_CASE_INSENSITIVE'' \<mapsto> Flag True,
               ''AUTHENTICATION_BACKENDS'' \<mapsto> texts [''django.contrib.auth.backends.ModelBackend'']))))"

definition installed_apps :: "string list" where
  "installed_apps =
     [''capture.apps.CaptureConfig'', ''jobs.apps.JobsConfig'', ''archive.apps.ArchiveConfig'',
      ''accounts.apps.AccountsConfig'', ''django.contrib.admin'', ''django.contrib.auth'',
      ''django.contrib.contenttypes'', ''django.contrib.sessions'', ''django.contrib.messages'',
      ''django.contrib.staticfiles'', ''rest_framework'', ''solo.apps.SoloAppConfig'',
      ''django.contrib.humanize'', ''django_filters'', ''taggit'', ''taggit_serializer'', ''django_prometheus'']"

definition middleware :: "string list" where
  "middleware =
     [''django_prometheus.middleware.PrometheusBeforeMiddleware'',
      ''django.middleware.security.SecurityMiddleware'',
      ''django.contrib.sessions.middleware.SessionMiddleware'',
      ''django.middleware.common.CommonMiddleware'',
      ''django.contrib.auth.middleware.AuthenticationMiddleware'',
      ''django.contrib.messages.middleware.MessageMiddleware'',
      ''django.middleware.clickjacking.XFrameOptionsMiddleware'',
      ''django_prometheus.middleware.PrometheusAfterMiddleware'']"

definition templates :: setting where
  "templates = Items [Entries
     [(''BACKEND'', Text ''django.template.backends.django.DjangoTemplates''),
      (''DIRS'', Items []),
      (''APP_DIRS'', Flag True),
      (''OPTIONS'', Entries
        [(''context_processors'', texts
           [''django.template.context_processors.debug'',
            ''django.template.context_processors.request'',
            ''django.contrib.auth.context_processors.auth'',
            ''django.contrib.messages.context_processors.messages''])])]]"

definition settings_application :: "namespace \<Rightarrow> namespace" where
  "settings_application ns =
     ns(''INSTALLED_APPS'' \<mapsto> texts installed_apps,
        ''MIDDLEWARE'' \<mapsto> texts middleware,
        ''ROOT_URLCONF'' \<mapsto> Text ''ava.urls'',
        ''TEMPLATES'' \<mapsto> templates,
        ''WSGI_APPLICATION'' \<mapsto> Text ''ava.wsgi.application'')"

definition mysql :: "setting \<Rightarrow> setting" where
  "mysql pw = Entries [(''default'', Entries
     [(''ENGINE'', Text ''django.db.backends.mysql''),
      (''NAME'', Text ''ava''),
      (''USER'', Text ''django''),
      (''PASSWORD'', pw),
      (''HOST'', Text ''localhost''),
      (''PORT'', Text ''3306'')])]"

definition settings_database :: "namespace \<Rightarrow> namespace \<Rightarrow> py_exn + namespace" where
  "settings_database secure ns =
     attr secure ''DB_PW'' (\<lambda>pw. Inr (ns(''DATABASES'' \<mapsto> mysql pw)))"

definition password_validators :: setting where
  "password_validators = Items
     [Entries [(''NAME'', Text ''django.contrib.auth.password_validation.UserAttributeSimilarityValidator'')],
      Entries [(''NAME'', Text ''django.contrib.auth.password_validation.MinimumLengthValidator'')],
      Entries [(''NAME'', Text ''django.contrib.auth.password_validation.CommonPasswordValidator'')],
      Entries [(''NAME'', Text ''django.contrib.auth.password_validation.NumericPasswordValidator'')]]"

definition rest_framework :: "(string \<times> setting) list" where
  "rest_framework =
     [(''DEFAULT_PERMISSION_CLASSES'', texts [''rest_framework.permissions.IsAuthenticated'']),
      (''DEFAULT_AUTHENTICATION_CLASSES'', texts
        [''rest_framework.authentication.BasicAuthentication'',
         ''rest_framework_jwt.authentication.JSONWebTokenAuthentication'']),
      (''DEFAULT_FILTER_BACKENDS'', texts [''django_filters.rest_framework.DjangoFilterBackend'']),
      (''DEFAULT_PAGINATION_CLASS'', Text ''rest_framework.pagination.LimitOffsetPagination''),
      (''PAGE_SIZE'', Number 1000)]"

definition jwt_auth :: "(string \<times> setting) list" where
  "jwt_auth =
     [(''JWT_EXPIRATION_DELTA'', Seconds (24 * 3600)),
      (''JWT_ALLOW_REFRESH'', Flag True),
      (''JWT_REFRESH_EXPIRATION_DELTA'', Seconds (7 * 24 * 3600))]"

text \<open>The two dictionaries for the logs share their formatter.\<close>

definition verbose_formatters :: setting where
  "verbose_formatters = Entries [(''verbose'', Entries
     [(''format'', Text ''%(levelname)s %(asctime)s %(module)s %(message)s'')])]"

definition prod_logging :: setting where
  "prod_logging = Entries
     [(''version'', Number 1),
      (''disable_existing_loggers'', Flag False),
      (''formatters'', verbose_formatters),
      (''handlers'', Entries
        [(''file'', Entries
          [(''level'', Text ''ERROR''),
           (''class'', Text ''logging.FileHandler''),
           (''filename'', Text ''/var/log/django.log''),
           (''formatter'', Text ''verbose'')])]),
      (''loggers'', Entries
        [(''dev'', Entries
          [(''handlers'', texts [''file'']),
           (''level'', Text ''WARNING''),
           (''propagate'', Flag True)])])]"

definition settings_services :: "namespace \<Rightarrow> namespace" where
  "settings_services ns =
     ns(''AUTH_PASSWORD_VALIDATORS'' \<mapsto> password_validators,
        ''REST_FRAMEWORK'' \<mapsto> Entries rest_framework,
        ''JWT_AUTH'' \<mapsto> Entries jwt_auth,
        ''LOGGING'' \<mapsto> prod_logging)"

definition settings_locale :: "string \<Rightarrow> namespace \<Rightarrow> namespace" where
  "settings_locale file ns =
     ns(''LANGUAGE_CODE'' \<mapsto> Text ''en-us'',
        ''TIME_ZONE'' \<mapsto> Text ''UTC'',
        ''USE_I18N'' \<mapsto> Flag True,
        ''USE_L10N'' \<mapsto> Flag True,
        ''USE_TZ'' \<mapsto> Flag True,
        ''STATIC_URL'' \<mapsto> Text ''/static/'',
        ''STATIC_ROOT'' \<mapsto> Text (path_join (base_dir file) ''static/''),
        ''ALLOWED_HOSTS'' \<mapsto> texts [''ava.ea.com''],
        ''LOGIN_URL'' \<mapsto> Text ''/accounts/login'',
        ''FRONTEND_URL'' \<mapsto> Text ''/d/#'')"

definition dev_logging :: "string \<Rightarrow> setting" where
  "dev_logging file = Entries
     [(''version'', Number 1),
      (''disable_existing_loggers'', Flag False),
      (''formatters'', verbose_formatters),
      (''handlers'', Entries
        [(''file'', Entries
          [(''level'', Text ''DEBUG''),
           (''class'', Text ''logging.FileHandler''),
           (''filename'', Text (path_join (base_dir file) ''debug.log'')),
           (''formatter'', Text ''verbose'')]),
         (''console'', Entries
          [(''class'', Text ''logging.StreamHandler'')])]),
      (''loggers'', Entries
        [(''dev'', Entries
          [(''handlers'', texts [''file'']),
           (''level'', Text ''DEBUG''),
           (''propagate'', Flag True)])])]"

text \<open>
  The block for development machines. \<open>FRONTEND_URL\<close> starts with the \<open>STATIC_URL\<close> set before, and
  \<open>os.path.abspath\<close> leaves the two paths as they are, since \<open>base_dir\<close> is absolute and normal.
\<close>

definition static_dir :: "string \<Rightarrow> string \<Rightarrow> string \<Rightarrow> setting" where
  "static_dir file prefix dir = texts [prefix, path_join (base_dir file) dir]"

definition development_changes :: "string \<Rightarrow> namespace \<Rightarrow> namespace" where
  "development_changes file ns =
     ns(''ALLOWED_HOSTS'' \<mapsto> texts [''*''],
        ''DEBUG'' \<mapsto> Flag True,
        ''FRONTEND_URL'' \<mapsto> Text (''/static/'' @ ''d/index.html#''),
        ''STATICFILES_DIRS'' \<mapsto> Items [static_dir file ''thumb'' ''static/thumb'', static_dir file ''d'' ''dist-dev''],
        ''DATABASES'' \<mapsto> Entries [(''default'', Entries
           [(''ENGINE'', Text ''django.db.backends.sqlite3''),
            (''NAME'', Text (path_join (path_join (base_dir file) ''dev-database'') ''sqlite3.db''))])],
        ''LOGGING'' \<mapsto> dev_logging file)"

definition settings_development :: "string \<Rightarrow> namespace \<Rightarrow> namespace \<Rightarrow> py_exn + namespace" where
  "settings_development file secure ns =
     attr secure ''PROD_SERVER'' (\<lambda>production.
       Inr (if is_true production then ns else development_changes file ns))"

text \<open>
  The module up to that block, and the whole of it; an exception ends it and nothing of it can be used.
\<close>

definition common_settings :: "string \<Rightarrow> string \<Rightarrow> namespace \<Rightarrow> py_exn + namespace" where
  "common_settings file host secure =
     (case settings_machine file host secure Map.empty of
        Inl x \<Rightarrow> Inl x
      | Inr n1 \<Rightarrow>
          (case settings_security secure n1 of
             Inl x \<Rightarrow> Inl x
           | Inr n2 \<Rightarrow>
               (case settings_database secure (settings_application n2) of
                  Inl x \<Rightarrow> Inl x
                | Inr n3 \<Rightarrow> Inr (settings_locale file (settings_services n3)))))"

definition load_settings :: "string \<Rightarrow> string \<Rightarrow> namespace \<Rightarrow> py_exn + namespace" where
  "load_settings file host secure =
     (case common_settings file host secure of Inl x \<Rightarrow> Inl x | Inr ns \<Rightarrow> settings_development file secure ns)"

section \<open>What the secrets must hold\<close>

definition read_names :: "string list" where
  "read_names =
     [''DDNS_SERVER'', ''DDNS_KEYFILE'', ''SECRET_KEY'', ''SLACK_NOTIF_HOOK'', ''DB_PW'', ''PROD_SERVER'']"

lemmas section_defs = settings_machine_def settings_security_def settings_application_def
  settings_database_def settings_services_def settings_locale_def

text \<open>What the common part sets, whatever the secrets.\<close>

lemma common_settings_values:
  assumes "common_settings file host secure = Inr ns"
  shows "\<exists>pw. secure ''DB_PW'' = Some pw \<and> ns ''DATABASES'' = Some (mysql pw)"
    and "ns ''DEBUG'' = Some (Flag True)" and "ns ''ALLOWED_HOSTS'' = Some (texts [''ava.ea.com''])"
    and "ns ''REST_FRAMEWORK'' = Some (Entries rest_framework)"
    and "ns ''AUTHENTICATION_BACKENDS'' = Some (texts [''django.contrib.auth.backends.ModelBackend''])"
    and "ns ''OAUTH2_CLIENT_ID'' = None"
proof -
  obtain n1 n2 n3 where n: "settings_machine file host secure Map.empty = Inr n1"
    "settings_security secure n1 = Inr n2" "settings_database secure (settings_application n2) = Inr n3"
    "ns = settings_locale file (settings_services n3)"
    using assms by (auto simp: common_settings_def split: sum.splits)
  obtain pw where pw: "secure ''DB_PW'' = Some pw" "n3 = (settings_application n2)(''DATABASES'' \<mapsto> mysql pw)"
    using n(3) by (auto simp: settings_database_def attr_def split: option.splits)
  have later: "ns x = n2 x" if "x \<in> {''DEBUG'', ''AUTHENTICATION_BACKENDS'', ''OAUTH2_CLIENT_ID''}" for x
    using that by (elim insertE emptyE)
      (simp_all add: n(4) pw(2) settings_locale_def settings_services_def settings_application_def)
  have n2: "n2 ''DEBUG'' = Some (Flag True)"
    "n2 ''AUTHENTICATION_BACKENDS'' = Some (texts [''django.contrib.auth.backends.ModelBackend''])"
    "n2 ''OAUTH2_CLIENT_ID'' = n1 ''OAUTH2_CLIENT_ID''"
    using n(2) by (auto simp: settings_security_def attr_def split: option.splits)
  have "n1 ''OAUTH2_CLIENT_ID'' = None"
    using n(1) by (auto simp: settings_machine_def attr_def split: option.splits)
  with n2 later show "ns ''DEBUG'' = Some (Flag True)" "ns ''OAUTH2_CLIENT_ID'' = None"
    "ns ''AUTHENTICATION_BACKENDS'' = Some (texts [''django.contrib.auth.backends.ModelBackend''])"
    by simp_all
  show "ns ''ALLOWED_HOSTS'' = Some (texts [''ava.ea.com''])" "ns ''REST_FRAMEWORK'' = Some (Entries rest_framework)"
    by (simp_all add: n(4) settings_locale_def settings_services_def)
  have "ns ''DATABASES'' = Some (mysql pw)"
    by (simp add: n(4) pw(2) settings_locale_def settings_services_def)
  with pw(1) show "\<exists>pw. secure ''DB_PW'' = Some pw \<and> ns ''DATABASES'' = Some (mysql pw)" by blast
qed

lemma common_settings_mode: "common_settings file host (secure(''PROD_SERVER'' \<mapsto> v)) = common_settings file host secure"
proof -
  let ?s = "secure(''PROD_SERVER'' \<mapsto> v)"
  have "settings_machine file host ?s = settings_machine file host secure" "settings_security ?s = settings_security secure"
    "settings_database ?s = settings_database secure"
    by (simp_all add: settings_machine_def settings_security_def settings_database_def attr_def fun_eq_iff)
  then show ?thesis by (simp only: common_settings_def)
qed

lemma load_settingsD:
  assumes "load_settings file host secure = Inr ns"
  obtains n p where "common_settings file host secure = Inr n" "secure ''PROD_SERVER'' = Some p"
    "ns = (if is_true p then n else development_changes file n)"
  using assms by (auto simp: load_settings_def settings_development_def attr_def split: sum.splits option.splits)

text \<open>
  The module loads if and only if the six names it reads are there; otherwise it ends with an
  \<open>AttributeError\<close> that names the first one missing, in the order in which they are read.
\<close>

theorem load_settings_needs:
  shows "case filter (\<lambda>n. secure n = None) read_names of
     [] \<Rightarrow> \<exists>ns. load_settings file host secure = Inr ns
   | n # _ \<Rightarrow> load_settings file host secure = Inl (AttributeError n)"
proof -
  note defs = load_settings_def common_settings_def settings_machine_def settings_security_def
    settings_database_def settings_development_def attr_def read_names_def
  show ?thesis
    by (cases "secure ''DDNS_SERVER''"; cases "secure ''DDNS_KEYFILE''"; cases "secure ''SECRET_KEY''";
        cases "secure ''SLACK_NOTIF_HOOK''"; cases "secure ''DB_PW''"; cases "secure ''PROD_SERVER''"; simp add: defs)
qed

lemma load_settings_total:
  assumes "set read_names \<subseteq> dom secure"
  shows "\<exists>ns. load_settings file host secure = Inr ns"
proof -
  have "filter (\<lambda>n. secure n = None) read_names = []" using assms by (auto simp: filter_empty_conv)
  with load_settings_needs [where secure = secure] show ?thesis by simp
qed

text \<open>
  The comment of the module lists what a file with secrets contains. A file with exactly these names
  does not start the server: the hook for notifications is missing from the list.
\<close>

definition documented_names :: "string list" where
  "documented_names = [''DB_PW'', ''SECRET_KEY'', ''PROD_SERVER'', ''DDNS_SERVER'', ''DDNS_KEYFILE'']"

theorem documented_secrets_fail:
  assumes "dom secure = set documented_names"
  shows "load_settings file host secure = Inl (AttributeError ''SLACK_NOTIF_HOOK'')"
proof -
  have "n \<in> dom secure \<longleftrightarrow> n \<in> set documented_names" for n using assms by simp
  then have "secure n = None \<longleftrightarrow> n \<notin> set documented_names" for n by (metis domIff)
  then have "filter (\<lambda>n. secure n = None) read_names = [''SLACK_NOTIF_HOOK'']"
    by (simp add: read_names_def documented_names_def)
  with load_settings_needs [where secure = secure] show ?thesis by simp
qed

lemma dev_settings_load: "\<exists>ns. load_settings file host dev_secure_settings = Inr ns"
  by (rule load_settings_total) (simp add: read_names_def dev_secure_settings_def)

section \<open>Production and development\<close>

definition mode_names :: "string list" where
  "mode_names = [''ALLOWED_HOSTS'', ''FRONTEND_URL'', ''STATICFILES_DIRS'', ''DATABASES'', ''LOGGING'']"

text \<open>
  C29: two servers whose secrets differ only in \<open>PROD_SERVER\<close>. Each of their settings is the same
  but for the hosts, the address of the pages, the folders of static files, the database and the logs; both
  run with debugging on. In production only \<open>ava.ea.com\<close> is served and the database is the one with the
  password of the secrets, in development every host is served from a database in a file, without password.
\<close>

theorem settings_modes:
  assumes a: "load_settings file host (secure(''PROD_SERVER'' \<mapsto> p)) = Inr a" "is_true p"
    and b: "load_settings file host (secure(''PROD_SERVER'' \<mapsto> q)) = Inr b" "\<not> is_true q"
  shows "(\<forall>name. name \<notin> set mode_names \<longrightarrow> a name = b name) \<and> a ''DEBUG'' = Some (Flag True) \<and>
    a ''ALLOWED_HOSTS'' = Some (texts [''ava.ea.com'']) \<and> b ''ALLOWED_HOSTS'' = Some (texts [''*'']) \<and>
    a ''DATABASES'' = map_option mysql (secure ''DB_PW'') \<and>
    b ''DATABASES'' = Some (Entries [(''default'', Entries
       [(''ENGINE'', Text ''django.db.backends.sqlite3''),
        (''NAME'', Text (path_join (path_join (base_dir file) ''dev-database'') ''sqlite3.db''))])])"
proof -
  obtain n where n: "common_settings file host secure = Inr n" "a = n" "b = development_changes file n"
    using a b by (auto simp: common_settings_mode elim!: load_settingsD)
  note vals = common_settings_values [OF n(1)]
  have "a name = b name" if "name \<notin> set mode_names" for name
    using that vals(2) by (auto simp: n(2,3) development_changes_def mode_names_def)
  then show ?thesis
    using vals by (auto simp: n(2) n(3) [unfolded development_changes_def])
qed

text \<open>The file for development, and the same with the switch turned.\<close>

lemma settings_modes_witness:
  "\<exists>a b. load_settings ''/srv/ava/ava/settings.py'' ''web'' (dev_secure_settings(''PROD_SERVER'' \<mapsto> Flag True)) = Inr a \<and>
     load_settings ''/srv/ava/ava/settings.py'' ''web'' (dev_secure_settings(''PROD_SERVER'' \<mapsto> Flag False)) = Inr b \<and>
     a ''DATABASES'' = Some (mysql (Text ''3navet'')) \<and> a ''DEBUG'' = b ''DEBUG''"
proof -
  have names: "set read_names \<subseteq> dom (dev_secure_settings(''PROD_SERVER'' \<mapsto> v))" for v
    by (simp add: read_names_def dev_secure_settings_def)
  obtain a b where ab:
    "load_settings ''/srv/ava/ava/settings.py'' ''web'' (dev_secure_settings(''PROD_SERVER'' \<mapsto> Flag True)) = Inr a"
    "load_settings ''/srv/ava/ava/settings.py'' ''web'' (dev_secure_settings(''PROD_SERVER'' \<mapsto> Flag False)) = Inr b"
    using load_settings_total [OF names] by metis
  have db: "a ''DATABASES'' = map_option mysql (dev_secure_settings ''DB_PW'')"
    and rest: "\<forall>name. name \<notin> set mode_names \<longrightarrow> a name = b name"
    using settings_modes [OF ab(1) _ ab(2)] by simp_all
  have "a ''DEBUG'' = b ''DEBUG''" using rest by (simp add: mode_names_def)
  with db show ?thesis using ab by (simp add: dev_secure_settings_def)
qed

section \<open>What the settings mean elsewhere\<close>

text \<open>\<open>settings.OAUTH2_CLIENT_ID\<close> and its companions, and the backends, as \<open>ava/oauth2.py\<close> finds them.\<close>

definition oauth2_values :: "namespace \<Rightarrow> (string \<times> string \<times> string) option" where
  "oauth2_values ns =
     (case (ns ''OAUTH2_CLIENT_ID'', ns ''OAUTH2_CLIENT_SECRET'', ns ''OAUTH2_REDIRECT_URI'') of
        (Some (Text i), Some (Text s), Some (Text u)) \<Rightarrow> Some (i, s, u)
      | _ \<Rightarrow> None)"

definition backend_installed :: "namespace \<Rightarrow> bool" where
  "backend_installed ns \<longleftrightarrow>
     (case ns ''AUTHENTICATION_BACKENDS'' of Some (Items bs) \<Rightarrow> Text ''ava.oauth2.OAuth2Backend'' \<in> set bs | _ \<Rightarrow> False)"

lemma loaded_settings:
  assumes "load_settings file host secure = Inr ns"
  shows "oauth2_values ns = None" "\<not> backend_installed ns" "ns ''REST_FRAMEWORK'' = Some (Entries rest_framework)"
proof -
  obtain n p where n: "common_settings file host secure = Inr n"
    and ns: "ns = (if is_true p then n else development_changes file n)"
    using load_settingsD [OF assms] by metis
  note vals = common_settings_values [OF n]
  show "oauth2_values ns = None" "\<not> backend_installed ns" "ns ''REST_FRAMEWORK'' = Some (Entries rest_framework)"
    using vals by (simp_all add: ns oauth2_values_def backend_installed_def development_changes_def)
qed

text \<open>
  With the settings as they are nobody logs in through another service, whatever the secrets: the view ends
  with an exception before it looks at the request, and not with the answer it has for a server
  that is not configured.
\<close>

theorem oauth2_not_configured:
  assumes "load_settings file host secure = Inr ns"
  shows "get_oauth2 (ae\<lparr>au_settings := oauth2_values ns, au_backend := backend_installed ns\<rparr>) now cookie fresh q w =
    (w, Raised (AttributeError ''OAUTH2_CLIENT_ID''))"
  using loaded_settings(1) [OF assms] by (simp add: get_oauth2_def)

text \<open>The pages of a list that asks for no size are those of the settings.\<close>

theorem page_size_of_settings:
  assumes "load_settings file host secure = Inr ns"
  shows "\<exists>es. ns ''REST_FRAMEWORK'' = Some (Entries es) \<and> map_of es ''PAGE_SIZE'' = Some (Number (int page_size))"
  using loaded_settings(3) [OF assms] by (simp add: rest_framework_def page_size_def)

end
