(* ===== verification/Migration_Rows.thy ===== *)
theory Migration_Rows
  imports Migration_Base
begin

text \<open>
  What a migration does to the rows that a running installation already has: the value a new column
  gets, as Django chooses it, the rows that a changed column must still hold, and the rows
  and values that go with a deleted table or column. \<open>checked_step\<close> runs an operation on
  the schema only if no row can be in its way; a run of checked steps keeps every row.
\<close>

section \<open>Cells and columns\<close>

datatype cell =
    C_Null | C_Bool bool | C_Int int | C_Float pyfloat | C_Text string | C_Time time | C_Ref pk

definition nullable :: "field_decl \<Rightarrow> bool" where
  "nullable d \<longleftrightarrow> Null True \<in> set (kwargs d)"

fun length_of :: "kwarg list \<Rightarrow> nat" where
  "length_of [] = 0"
| "length_of (Max_length n # ks) = n"
| "length_of (_ # ks) = length_of ks"

fun default_of :: "kwarg list \<Rightarrow> dvalue option" where
  "default_of [] = None"
| "default_of (Default v # ks) = Some v"
| "default_of (_ # ks) = default_of ks"

text \<open>Many-to-many fields and tags live in tables of their own.\<close>

definition is_column :: "field_decl \<Rightarrow> bool" where
  "is_column d \<longleftrightarrow> fclass d \<notin> {ManyToManyField, TaggableManager}"

definition in_bits :: "nat \<Rightarrow> int \<Rightarrow> bool" where
  "in_bits n i \<longleftrightarrow> - (2 ^ (n - 1)) \<le> i \<and> i < 2 ^ (n - 1)"

fun cell_fits :: "field_decl \<Rightarrow> cell \<Rightarrow> bool" where
  "cell_fits d C_Null = nullable d"
| "cell_fits d (C_Bool b) = (fclass d = BooleanField)"
| "cell_fits d (C_Int i) =
     (fclass d \<in> {AutoField, IntegerField} \<and> in_bits 32 i \<or> fclass d = BigIntegerField \<and> in_bits 64 i)"
| "cell_fits d (C_Float x) = (fclass d = FloatField)"
| "cell_fits d (C_Text s) =
     (fclass d \<in> {CharField, StatusField} \<and> length s \<le> length_of (kwargs d) \<or> fclass d = TextField)"
| "cell_fits d (C_Time t) =
     (fclass d \<in> {DateTimeField, MonitorField, AutoCreatedField, AutoLastModifiedField})"
| "cell_fits d (C_Ref k) = (fclass d \<in> {ForeignKey, OneToOneField})"

fun default_cell :: "time \<Rightarrow> field_class \<Rightarrow> dvalue \<Rightarrow> cell" where
  "default_cell now c D_None = C_Null"
| "default_cell now c (D_Bool b) = C_Bool b"
| "default_cell now c (D_Int i) = (if c = FloatField then C_Float (of_int i) else C_Int i)"
| "default_cell now c (D_Float m k) = C_Float (of_int m / 10 ^ k)"
| "default_cell now c (D_Str s) = C_Text s"
| "default_cell now c D_Now = C_Time now"

text \<open>
  The value of a new column in the rows that exist: the default, else the empty text where blank is allowed
  and \<open>NULL\<close> is not, else the time of the migration for \<open>auto_now_add\<close>, else \<open>NULL\<close>,
  which the database refuses in a column that must not be null.
\<close>

definition fill :: "time \<Rightarrow> field_decl \<Rightarrow> cell option" where
  "fill now d =
     (case default_of (kwargs d) of
        Some v \<Rightarrow> Some (default_cell now (fclass d) v)
      | None \<Rightarrow>
          if \<not> nullable d \<and> Blank True \<in> set (kwargs d) \<and> fclass d \<in> {CharField, TextField} then Some (C_Text [])
          else if Auto_now_add True \<in> set (kwargs d) then Some (C_Time now)
          else if nullable d then Some C_Null else None)"

section \<open>Rows\<close>

type_synonym row = "string \<rightharpoonup> cell"

type_synonym contents = "app \<times> string \<Rightarrow> row list"

datatype row_error = NoDefault app string string | DoesNotFit app string string

fun apply_rows :: "time \<Rightarrow> app \<Rightarrow> operation \<Rightarrow> contents \<Rightarrow> row_error + contents" where
  "apply_rows now a (CreateModel n fs os) cs = Inr (cs((a, lower n) := []))"
| "apply_rows now a (DeleteModel n) cs = Inr (cs((a, lower n) := []))"
| "apply_rows now a (AddField n c d) cs =
     (let T = (a, lower n) in
      if \<not> is_column d then Inr cs
      else case fill now d of
          Some v \<Rightarrow>
            if cell_fits d v \<or> cs T = [] then Inr (cs(T := map (\<lambda>r. r(c \<mapsto> v)) (cs T)))
            else Inl (DoesNotFit a (lower n) c)
        | None \<Rightarrow> if cs T = [] then Inr cs else Inl (NoDefault a (lower n) c))"
| "apply_rows now a (RemoveField n c) cs =
     (let T = (a, lower n) in Inr (cs(T := map (\<lambda>r. r(c := None)) (cs T))))"
| "apply_rows now a (AlterField n c d) cs =
     (let T = (a, lower n) in
      if \<not> is_column d \<or> (\<forall>r \<in> set (cs T). case r c of Some v \<Rightarrow> cell_fits d v | None \<Rightarrow> False) then Inr cs
      else Inl (DoesNotFit a (lower n) c))"
| "apply_rows now a (AlterModelOptions n os) cs = Inr cs"

definition upgrade_rows :: "time \<Rightarrow> migration list \<Rightarrow> contents \<Rightarrow> row_error + contents" where
  "upgrade_rows now ms = run_steps (\<lambda>m. run_steps (apply_rows now (m_app m)) (m_operations m)) ms"

text \<open>
  Rows that the database holds: only in tables that exist, with values in exactly their columns.
\<close>

fun column_fits :: "entry option \<Rightarrow> cell option \<Rightarrow> bool" where
  "column_fits (Some (Decl d)) v =
     (if is_column d then (case v of Some x \<Rightarrow> cell_fits d x | None \<Rightarrow> False) else v = None)"
| "column_fits _ v = (v = None)"

definition row_fits :: "schema \<Rightarrow> app \<Rightarrow> string \<Rightarrow> row \<Rightarrow> bool" where
  "row_fits s a m r \<longleftrightarrow> (\<forall>c. column_fits (Mapping.lookup s (Column c m a)) (r c))"

definition stored :: "schema \<Rightarrow> contents \<Rightarrow> bool" where
  "stored s cs \<longleftrightarrow> (\<forall>a m. \<forall>r \<in> set (cs (a, m)). present s (Table m a) \<and> row_fits s a m r)"

section \<open>Operations that are safe for rows\<close>

definition default_fits :: "field_decl \<Rightarrow> dvalue \<Rightarrow> bool" where
  "default_fits d v = (case v of
       D_None \<Rightarrow> nullable d
     | D_Bool b \<Rightarrow> fclass d = BooleanField
     | D_Int i \<Rightarrow> fclass d = FloatField \<or> fclass d = IntegerField \<and> in_bits 32 i
     | D_Float m k \<Rightarrow> fclass d = FloatField
     | D_Str s \<Rightarrow> fclass d \<in> {CharField, StatusField} \<and> length s \<le> length_of (kwargs d) \<or> fclass d = TextField
     | D_Now \<Rightarrow> fclass d \<in> {DateTimeField, MonitorField, AutoCreatedField, AutoLastModifiedField})"

definition fillable :: "field_decl \<Rightarrow> bool" where
  "fillable d =
     (case default_of (kwargs d) of
        Some v \<Rightarrow> default_fits d v
      | None \<Rightarrow> nullable d \<and> \<not> (Auto_now_add True \<in> set (kwargs d) \<and> fclass d \<noteq> DateTimeField))"

text \<open>Every value of the first column fits in the second.\<close>

definition widens :: "field_decl \<Rightarrow> field_decl \<Rightarrow> bool" where
  "widens d d' \<longleftrightarrow>
     is_column d = is_column d' \<and> (nullable d \<longrightarrow> nullable d') \<and>
     (fclass d' = fclass d \<and>
        (fclass d \<in> {CharField, StatusField} \<longrightarrow> length_of (kwargs d) \<le> length_of (kwargs d')) \<or>
      fclass d = CharField \<and> fclass d' = TextField \<or>
      fclass d = IntegerField \<and> fclass d' = BigIntegerField)"

definition safe :: "app \<Rightarrow> operation \<Rightarrow> (app \<times> string) list \<Rightarrow> schema \<Rightarrow> bool" where
  "safe a x fresh s =
     (case x of
        AddField n c d \<Rightarrow> \<not> is_column d \<or> (a, lower n) \<in> set fresh \<or> fillable d
      | AlterField n c d \<Rightarrow>
          (case entry_at s (Column c (lower n) a) of Some (Decl d0) \<Rightarrow> widens d0 d | _ \<Rightarrow> False)
      | _ \<Rightarrow> True)"

text \<open>
  A step of a migration is an operation with the tables that the migration has created before it: these
  have no rows yet.
\<close>

type_synonym step = "(app \<times> operation) \<times> (app \<times> string) list"

fun with_fresh :: "app \<Rightarrow> operation list \<Rightarrow> (app \<times> string) list \<Rightarrow> step list" where
  "with_fresh a [] fresh = []"
| "with_fresh a (x # xs) fresh =
     ((a, x), fresh) #
       with_fresh a xs (case x of CreateModel n fs os \<Rightarrow> (a, lower n) # fresh | _ \<Rightarrow> fresh)"

definition checked_step :: "step \<Rightarrow> schema \<Rightarrow> schema_error option + schema" where
  "checked_step p s =
     (if safe (fst (fst p)) (snd (fst p)) (snd p) s
      then case operate (fst p) s of Inl e \<Rightarrow> Inl (Some e) | Inr s' \<Rightarrow> Inr s'
      else Inl None)"

definition checked_migration :: "migration \<Rightarrow> schema \<Rightarrow> schema_error option + schema" where
  "checked_migration m = run_steps checked_step (with_fresh (m_app m) (m_operations m) [])"

lemma default_cell_fits: "default_fits d v \<Longrightarrow> cell_fits d (default_cell now (fclass d) v)"
  by (cases v) (auto simp: default_fits_def)

lemma fillable_fill:
  assumes "fillable d"
  shows "\<exists>v. fill now d = Some v \<and> cell_fits d v"
  using assms by (auto simp: fillable_def fill_def intro: default_cell_fits split: option.splits)

lemma widens_fits: "widens d d' \<Longrightarrow> cell_fits d v \<Longrightarrow> cell_fits d' v"
  by (cases v) (auto simp: widens_def in_bits_def)

section \<open>Checked steps keep the rows\<close>

fun gone_table :: "app \<times> operation \<Rightarrow> (app \<times> string) list" where
  "gone_table (a, DeleteModel n) = [(a, lower n)]"
| "gone_table (a, _) = []"

fun gone_column :: "app \<times> operation \<Rightarrow> ((app \<times> string) \<times> string) list" where
  "gone_column (a, RemoveField n c) = [((a, lower n), c)]"
| "gone_column (a, _) = []"

text \<open>
  All rows are still there, in their order, with every value they had, but for the tables and columns
  that the operations delete.
\<close>

definition kept_row :: "(app \<times> operation) list \<Rightarrow> app \<times> string \<Rightarrow> row \<Rightarrow> row \<Rightarrow> bool" where
  "kept_row ps T r r' \<longleftrightarrow> (\<forall>c. (T, c) \<notin> set (concat (map gone_column ps)) \<and> r c \<noteq> None \<longrightarrow> r' c = r c)"

definition keeps :: "(app \<times> operation) list \<Rightarrow> contents \<Rightarrow> contents \<Rightarrow> bool" where
  "keeps ps cs cs' \<longleftrightarrow>
     (\<forall>T. T \<notin> set (concat (map gone_table ps)) \<longrightarrow> list_all2 (kept_row ps T) (cs T) (cs' T))"

lemma kept_row_refl: "kept_row ps T r r"
  by (simp add: kept_row_def)

lemma kept_rows_refl [simp]: "list_all2 (kept_row ps T) rs rs"
  by (simp add: list_all2_same kept_row_refl)

lemma kept_row_trans: "kept_row ps T r r' \<Longrightarrow> kept_row qs T r' r'' \<Longrightarrow> kept_row (ps @ qs) T r r''"
  by (auto simp: kept_row_def)

lemma keeps_refl: "keeps ps cs cs"
  by (simp add: keeps_def)

lemma keeps_trans:
  assumes "keeps ps cs cs'" "keeps qs cs' cs''"
  shows "keeps (ps @ qs) cs cs''"
  unfolding keeps_def
proof (intro allI impI)
  fix T assume T: "T \<notin> set (concat (map gone_table (ps @ qs)))"
  have "list_all2 (kept_row ps T) (cs T) (cs' T)"
    by (rule assms(1) [unfolded keeps_def, rule_format]) (use T in simp)
  moreover have "list_all2 (kept_row qs T) (cs' T) (cs'' T)"
    by (rule assms(2) [unfolded keeps_def, rule_format]) (use T in simp)
  ultimately show "list_all2 (kept_row (ps @ qs) T) (cs T) (cs'' T)"
    by (blast intro: list_all2_trans kept_row_trans)
qed

lemma keeps_update:
  assumes "\<And>r c. r \<in> set (cs T) \<Longrightarrow> (T, c) \<notin> set (gone_column p) \<Longrightarrow> r c \<noteq> None \<Longrightarrow> f r c = r c"
  shows "keeps [p] cs (cs(T := map f (cs T)))"
  using assms by (auto simp: keeps_def kept_row_def list_all2_conv_all_nth)

lemma stored_empty: "stored s cs \<Longrightarrow> \<not> present s (Table m a) \<Longrightarrow> cs (a, m) = []"
  by (metis all_not_in_conv set_empty stored_def)

lemma row_fits_cong:
  "(\<And>c. Mapping.lookup s' (Column c m a) = Mapping.lookup s (Column c m a)) \<Longrightarrow>
    row_fits s' a m r = row_fits s a m r"
  by (simp add: row_fits_def)

text \<open>An operation that changes the rows of at most one table leaves the others stored.\<close>

lemma stored_update:
  assumes "stored s cs" "operate p s = Inr s'"
    and "\<And>k. touched p k \<Longrightarrow> key_table k = (a, m)"
    and "\<And>r. r \<in> set rs \<Longrightarrow> present s' (Table m a) \<and> row_fits s' a m r"
  shows "stored s' (cs((a, m) := rs))"
  unfolding stored_def
proof (intro allI ballI)
  fix b n r assume r: "r \<in> set ((cs((a, m) := rs)) (b, n))"
  show "present s' (Table n b) \<and> row_fits s' b n r"
  proof (cases "(b, n) = (a, m)")
    case True
    with r assms(4) show ?thesis by simp
  next
    case False
    have *: "Mapping.lookup s' k = Mapping.lookup s k" if "key_table k = (b, n)" for k
      using operate_frame [OF assms(2), of k] assms(3) [of k] that False by auto
    have "present s (Table n b)" "row_fits s b n r"
      using assms(1) r False unfolding stored_def by (metis fun_upd_apply)+
    with * show ?thesis by (simp add: present_def entry_at_def cong: row_fits_cong)
  qed
qed

lemma row_fits_change:
  assumes "row_fits s a m r" "column_fits (Mapping.lookup s' (Column c m a)) (r' c)"
    and "\<And>c'. c' \<noteq> c \<Longrightarrow> Mapping.lookup s' (Column c' m a) = Mapping.lookup s (Column c' m a)"
    and "\<And>c'. c' \<noteq> c \<Longrightarrow> r' c' = r c'"
  shows "row_fits s' a m r'"
  unfolding row_fits_def
proof
  fix c'
  show "column_fits (Mapping.lookup s' (Column c' m a)) (r' c')"
    using assms unfolding row_fits_def by (cases "c' = c") auto
qed

lemma stored_row:
  "stored s cs \<Longrightarrow> r \<in> set (cs (a, m)) \<Longrightarrow> present s (Table m a) \<and> row_fits s a m r"
  by (simp add: stored_def)

theorem checked_step_rows:
  assumes run: "checked_step ((a, x), fresh) s = Inr s'"
    and stored: "stored s cs" and fresh: "\<forall>T \<in> set fresh. cs T = []"
  shows "\<exists>cs'. apply_rows now a x cs = Inr cs' \<and> stored s' cs' \<and> keeps [(a, x)] cs cs' \<and>
    (\<forall>T. cs T = [] \<longrightarrow> cs' T = [])"
proof -
  have op: "operate (a, x) s = Inr s'" and safe: "safe a x fresh s"
    using run by (auto simp: checked_step_def split: if_splits sum.splits)
  have others: "Mapping.lookup s' k = Mapping.lookup s k" if "\<not> touched (a, x) k" for k
    using operate_frame [OF op that] .
  show ?thesis
  proof (cases x)
    case (CreateModel n fs os)
    have "cs (a, lower n) = []"
      by (rule stored_empty [OF stored]) (use op in \<open>auto simp: CreateModel Let_def split: if_splits\<close>)
    moreover have "stored s' (cs((a, lower n) := []))"
      by (rule stored_update [OF stored op]) (auto simp: CreateModel)
    ultimately show ?thesis by (auto simp: CreateModel fun_upd_idem keeps_refl)
  next
    case (DeleteModel n)
    have "stored s' (cs((a, lower n) := []))"
      by (rule stored_update [OF stored op]) (auto simp: DeleteModel)
    then show ?thesis by (auto simp: DeleteModel keeps_def)
  next
    case (AddField n c d)
    let ?T = "(a, lower n)"
    have op': "present s (Table (lower n) a)" "\<not> present s (Column c (lower n) a)"
      "Mapping.lookup s' (Column c (lower n) a) = Some (Decl d)"
      using op by (auto simp: AddField Let_def operate_lookup split: if_splits option.splits)
    have same: "Mapping.lookup s' k = Mapping.lookup s k" if "k \<noteq> Column c (lower n) a" for k
      using others that by (simp add: AddField)
    have old: "r c = None" "row_fits s a (lower n) r" if "r \<in> set (cs ?T)" for r
      using stored_row [OF stored that] op'(2) unfolding row_fits_def
      by (auto simp: present_def entry_at_def dest: spec [of _ c])
    show ?thesis
    proof (cases "is_column d \<and> cs ?T \<noteq> []")
      case False
      have "row_fits s' a (lower n) r" if "r \<in> set (cs ?T)" for r
        by (rule row_fits_change [OF old(2), where c = c]) (use that False old op'(3) same in auto)
      then have "stored s' (cs(?T := cs ?T))"
        by (intro stored_update [OF stored op]) (use op' same in \<open>auto simp: AddField present_def entry_at_def\<close>)
      with False show ?thesis
        by (auto simp: AddField Let_def keeps_refl fun_upd_idem split: option.splits)
    next
      case True
      then obtain v where v: "fill now d = Some v" "cell_fits d v"
        using safe fresh fillable_fill [of d now] by (auto simp: AddField safe_def)
      have "row_fits s' a (lower n) (r(c \<mapsto> v))" if "r \<in> set (cs ?T)" for r
        by (rule row_fits_change [OF old(2) [OF that], where c = c]) (use True v op'(3) same in auto)
      then have "stored s' (cs(?T := map (\<lambda>r. r(c \<mapsto> v)) (cs ?T)))"
        by (intro stored_update [OF stored op]) (use op' same in \<open>auto simp: AddField present_def entry_at_def\<close>)
      moreover have "keeps [(a, x)] cs (cs(?T := map (\<lambda>r. r(c \<mapsto> v)) (cs ?T)))"
        by (rule keeps_update) (use old(1) in fastforce)
      ultimately show ?thesis using True v by (auto simp: AddField Let_def)
    qed
  next
    case (RemoveField n c)
    let ?T = "(a, lower n)"
    have same: "Mapping.lookup s' k = Mapping.lookup s k" if "k \<noteq> Column c (lower n) a" for k
      using others that by (simp add: RemoveField)
    have gone: "Mapping.lookup s' (Column c (lower n) a) = None"
      using op by (auto simp: RemoveField Let_def operate_lookup split: if_splits)
    have "present s' (Table (lower n) a) \<and> row_fits s' a (lower n) (r(c := None))" if "r \<in> set (cs ?T)" for r
      using stored_row [OF stored that] same gone
      by (auto simp: present_def entry_at_def intro: row_fits_change [where c = c and r = r])
    then have "stored s' (cs(?T := map (\<lambda>r. r(c := None)) (cs ?T)))"
      by (intro stored_update [OF stored op]) (auto simp: RemoveField)
    moreover have "keeps [(a, x)] cs (cs(?T := map (\<lambda>r. r(c := None)) (cs ?T)))"
      by (rule keeps_update) (auto simp: RemoveField)
    ultimately show ?thesis by (auto simp: RemoveField Let_def)
  next
    case (AlterField n c d)
    let ?T = "(a, lower n)"
    obtain d0 where d0: "Mapping.lookup s (Column c (lower n) a) = Some (Decl d0)" "widens d0 d"
      using safe by (auto simp: AlterField safe_def entry_at_def split: option.splits entry.splits)
    have new: "Mapping.lookup s' (Column c (lower n) a) = Some (Decl d)"
      using op by (auto simp: AlterField Let_def operate_lookup split: if_splits option.splits)
    have same: "Mapping.lookup s' k = Mapping.lookup s k" if "k \<noteq> Column c (lower n) a" for k
      using others that by (simp add: AlterField)
    have col: "column_fits (Some (Decl d)) (r c)" if "r \<in> set (cs ?T)" for r
    proof -
      have "column_fits (Some (Decl d0)) (r c)"
        using stored_row [OF stored that] d0(1) unfolding row_fits_def by metis
      with d0(2) show ?thesis
        by (auto simp: widens_fits split: option.splits if_splits) (simp_all add: widens_def)
    qed
    have "present s' (Table (lower n) a) \<and> row_fits s' a (lower n) r" if "r \<in> set (cs ?T)" for r
      using stored_row [OF stored that] same new col [OF that]
      by (auto simp: present_def entry_at_def intro: row_fits_change [where c = c and r = r])
    then have "stored s' (cs(?T := cs ?T))"
      by (intro stored_update [OF stored op]) (auto simp: AlterField)
    with col show ?thesis
      by (auto simp: AlterField Let_def keeps_refl fun_upd_idem split: option.splits if_splits)
  next
    case (AlterModelOptions n os)
    have same: "Mapping.lookup s' (Column c m b) = Mapping.lookup s (Column c m b)" for c m b
      using others by (simp add: AlterModelOptions)
    have "present s' (Table m b)" if "present s (Table m b)" for m b
      using op that by (auto simp: AlterModelOptions Let_def present_def entry_at_def operate_lookup split: if_splits)
    then have "stored s' cs"
      using stored same by (simp add: stored_def cong: row_fits_cong)
    then show ?thesis by (simp add: AlterModelOptions keeps_refl)
  qed
qed

section \<open>Checked migrations\<close>

lemma safe_cong:
  "(\<And>k. touched (a, x) k \<Longrightarrow> Mapping.lookup t k = Mapping.lookup s k) \<Longrightarrow> safe a x fresh t = safe a x fresh s"
  by (cases x) (auto simp: safe_def entry_at_def)

interpretation checked: framed_steps checked_step Mapping.lookup "\<lambda>p. touched (fst p)" "\<lambda>p. needed (fst p)"
proof
  show "s = t" if "\<And>k. Mapping.lookup s k = Mapping.lookup t k" for s t :: schema
    using that by (rule mapping_eqI)
  show "Mapping.lookup s' k = Mapping.lookup s k" if "checked_step p s = Inr s'" "\<not> touched (fst p) k" for p s s' k
    using that operate_frame [of "fst p" s s' k] by (auto simp: checked_step_def split: if_splits sum.splits)
  show "\<exists>t'. checked_step p t = Inr t' \<and> (\<forall>k. touched (fst p) k \<longrightarrow> Mapping.lookup t' k = Mapping.lookup s' k)"
    if "checked_step p s = Inr s'"
      "\<And>k. touched (fst p) k \<or> needed (fst p) k \<Longrightarrow> Mapping.lookup t k = Mapping.lookup s k" for p s s' t
  proof -
    obtain a x fresh where p: "p = ((a, x), fresh)" by (metis surj_pair)
    have "safe a x fresh t = safe a x fresh s" by (rule safe_cong) (use that(2) p in auto)
    then show ?thesis
      using that operate_local [of "(a, x)" s s' t] by (auto simp: p checked_step_def split: if_splits sum.splits)
  qed
qed

definition steps_of :: "migration \<Rightarrow> (app \<times> operation) list" where
  "steps_of m = map (Pair (m_app m)) (m_operations m)"

definition migration_touches :: "migration \<Rightarrow> key \<Rightarrow> bool" where
  "migration_touches m k \<longleftrightarrow> (\<exists>p \<in> set (steps_of m). touched p k)"

definition migration_needs :: "migration \<Rightarrow> key \<Rightarrow> bool" where
  "migration_needs m k \<longleftrightarrow> (\<exists>p \<in> set (steps_of m). needed p k)"

lemma fst_with_fresh: "map fst (with_fresh a xs fresh) = map (Pair a) xs"
  by (induction a xs fresh rule: with_fresh.induct) auto

lemma steps_with_fresh: "(\<exists>p \<in> set (with_fresh (m_app m) (m_operations m) fresh). P (fst p)) \<longleftrightarrow> (\<exists>p \<in> set (steps_of m). P p)"
  unfolding steps_of_def fst_with_fresh [symmetric, of _ _ fresh] by simp

text \<open>A migration is a list of framed steps, so it is a framed step too.\<close>

interpretation upgrades: framed_steps checked_migration Mapping.lookup migration_touches migration_needs
proof
  let ?ps = "\<lambda>m. with_fresh (m_app m) (m_operations m) []"
  show "s = t" if "\<And>k. Mapping.lookup s k = Mapping.lookup t k" for s t :: schema
    using that by (rule mapping_eqI)
  show "Mapping.lookup s' k = Mapping.lookup s k"
    if "checked_migration m s = Inr s'" "\<not> migration_touches m k" for m s s' k
    using checked.run_frame [of "?ps m" s s' k] that steps_with_fresh [of m "[]" "\<lambda>p. touched p k"]
    by (auto simp: checked_migration_def migration_touches_def)
  show "\<exists>t'. checked_migration m t = Inr t' \<and>
      (\<forall>k. migration_touches m k \<longrightarrow> Mapping.lookup t' k = Mapping.lookup s' k)"
    if "checked_migration m s = Inr s'"
      "\<And>k. migration_touches m k \<or> migration_needs m k \<Longrightarrow> Mapping.lookup t k = Mapping.lookup s k"
    for m s s' t
  proof -
    have "(\<exists>p \<in> set (?ps m). touched (fst p) k \<or> needed (fst p) k) \<longleftrightarrow> migration_touches m k \<or> migration_needs m k"
      "(\<exists>p \<in> set (?ps m). touched (fst p) k) \<longleftrightarrow> migration_touches m k" for k
      using steps_with_fresh [of m "[]" "\<lambda>p. touched p k \<or> needed p k"] steps_with_fresh [of m "[]" "\<lambda>p. touched p k"]
      by (auto simp: migration_touches_def migration_needs_def)
    with checked.run_local [of "?ps m" s s' t] that show ?thesis
      by (simp add: checked_migration_def)
  qed
qed

lemma checked_run_operations:
  assumes "run_steps checked_step (with_fresh a xs fresh) s = Inr s'"
  shows "run_steps (apply_operation a) xs s = Inr s'"
  using assms
proof (induction a xs fresh arbitrary: s rule: with_fresh.induct)
  case (2 a x xs fresh)
  then show ?case by (auto simp: checked_step_def split: if_splits sum.splits)
qed simp

lemma checked_run_migrates: "run_steps checked_migration ms s = Inr s' \<Longrightarrow> migrate ms s = Inr s'"
proof (induction ms arbitrary: s)
  case (Cons m ms)
  obtain s1 where "checked_migration m s = Inr s1" "run_steps checked_migration ms s1 = Inr s'"
    using Cons.prems by (rule run_steps_ConsE)
  moreover have "apply_migration m s = Inr s1"
    using calculation(1) unfolding checked_migration_def apply_migration_def by (rule checked_run_operations)
  ultimately show ?case using Cons.IH by simp
qed simp

lemma checked_operations_rows:
  assumes "run_steps checked_step (with_fresh a xs fresh) s = Inr s'" "stored s cs" "\<forall>T \<in> set fresh. cs T = []"
  shows "\<exists>cs'. run_steps (apply_rows now a) xs cs = Inr cs' \<and> stored s' cs' \<and> keeps (map (Pair a) xs) cs cs'"
  using assms
proof (induction a xs fresh arbitrary: s cs rule: with_fresh.induct)
  case (1 a fresh)
  then show ?case by (simp add: keeps_refl)
next
  case (2 a x xs fresh)
  obtain s1 where s1: "checked_step ((a, x), fresh) s = Inr s1"
      "run_steps checked_step
        (with_fresh a xs (case x of CreateModel n fs os \<Rightarrow> (a, lower n) # fresh | _ \<Rightarrow> fresh)) s1 = Inr s'"
    using "2.prems"(1) unfolding with_fresh.simps by (rule run_steps_ConsE)
  obtain cs1 where cs1: "apply_rows now a x cs = Inr cs1" "stored s1 cs1" "keeps [(a, x)] cs cs1"
      "\<forall>T. cs T = [] \<longrightarrow> cs1 T = []"
    using checked_step_rows [OF s1(1) "2.prems"(2,3)] by blast
  have "\<forall>T \<in> set (case x of CreateModel n fs os \<Rightarrow> (a, lower n) # fresh | _ \<Rightarrow> fresh). cs1 T = []"
    using cs1(1,4) "2.prems"(3) by (auto split: operation.splits)
  from "2.IH" [OF s1(2) cs1(2) this] obtain cs' where cs': "run_steps (apply_rows now a) xs cs1 = Inr cs'"
      "stored s' cs'" "keeps (map (Pair a) xs) cs1 cs'" by blast
  with cs1(1) keeps_trans [OF cs1(3) cs'(3)] show ?case by simp
qed

lemma checked_run_rows:
  assumes "run_steps checked_migration ms s = Inr s'" "stored s cs"
  shows "\<exists>cs'. upgrade_rows now ms cs = Inr cs' \<and> stored s' cs' \<and> keeps (concat (map steps_of ms)) cs cs'"
  using assms
proof (induction ms arbitrary: s cs)
  case Nil
  then show ?case by (simp add: upgrade_rows_def keeps_refl)
next
  case (Cons m ms)
  obtain s1 where s1: "checked_migration m s = Inr s1" "run_steps checked_migration ms s1 = Inr s'"
    using Cons.prems(1) by (rule run_steps_ConsE)
  obtain cs1 where cs1: "run_steps (apply_rows now (m_app m)) (m_operations m) cs = Inr cs1" "stored s1 cs1"
      "keeps (steps_of m) cs cs1"
    using checked_operations_rows [OF s1(1) [unfolded checked_migration_def] Cons.prems(2)]
    by (auto simp: steps_of_def)
  from Cons.IH [OF s1(2) cs1(2)] obtain cs' where cs': "upgrade_rows now ms cs1 = Inr cs'" "stored s' cs'"
      "keeps (concat (map steps_of ms)) cs1 cs'" by blast
  with cs1 keeps_trans [OF cs1(3) cs'(3)] show ?case by (simp add: upgrade_rows_def)
qed

end
