(* ===== verification/Model_Tables.thy ===== *)
theory Model_Tables
  imports Migration_Base
begin

text \<open>
  The fields that \<open>*/models.py\<close> declare, class by class in the order of the code, and the normal form in
  which Django compares a declaration with the one the migrations built: keyword arguments in any order, defaults
  of the arguments left out, relations by app and name, \<open>%(class)s\<close> replaced. What the packages
  \<open>model_utils\<close> and \<open>taggit\<close> add to a declaration is the argument \<open>lib\<close>.
\<close>

section \<open>Declarations in normal form\<close>

record field_state =
  fs_class :: field_class
  fs_max_length :: "nat option"
  fs_null :: bool
  fs_blank :: bool
  fs_default :: "dvalue option"
  fs_db_index :: bool
  fs_auto_now_add :: bool
  fs_verbose_name :: "string option"
  fs_to :: "(app \<times> string) option"
  fs_through :: "(app \<times> string) option"
  fs_on_delete :: "deletion option"
  fs_related_name :: "string option"
  fs_monitor :: "string option"
  fs_primary_key :: bool

datatype state_entry = Table_state "model_option list" | Field_state field_state

text \<open>
  The packages: the arguments a class of fields adds when they are not given, from the choices of
  the field, and the fields of \<open>TimeStampedModel\<close>.
\<close>

record library =
  lib_defaults :: "field_class \<Rightarrow> (dvalue \<times> string) list \<Rightarrow> kwarg list"
  lib_timestamped :: "(string \<times> field_decl) list"

fun first_arg :: "(kwarg \<Rightarrow> 'a option) \<Rightarrow> kwarg list \<Rightarrow> 'a option" where
  "first_arg f [] = None"
| "first_arg f (k # ks) = (case f k of Some x \<Rightarrow> Some x | None \<Rightarrow> first_arg f ks)"

definition flag_arg :: "(kwarg \<Rightarrow> bool option) \<Rightarrow> kwarg list \<Rightarrow> bool" where
  "flag_arg f ks = (first_arg f ks = Some True)"

text \<open>\<open>related_name\<close>: \<open>%(class)s\<close> at its start is the lower case name of the class.\<close>

definition related_name :: "string \<Rightarrow> string \<Rightarrow> string" where
  "related_name m s = (if take 9 s = ''%(class)s'' then m @ drop 9 s else s)"

fun field_state_of :: "library \<Rightarrow> app \<Rightarrow> string \<Rightarrow> field_decl \<Rightarrow> field_state" where
  "field_state_of lib a m (Field c ks0) =
     (let choices = (case first_arg (\<lambda>k. case k of Choices cs \<Rightarrow> Some cs | _ \<Rightarrow> None) ks0 of Some cs \<Rightarrow> cs | None \<Rightarrow> []);
          ks = ks0 @ lib_defaults lib c choices;
          added = flag_arg (\<lambda>k. case k of Auto_now_add b \<Rightarrow> Some b | _ \<Rightarrow> None) ks
      in \<lparr> fs_class = c,
           fs_max_length = first_arg (\<lambda>k. case k of Max_length n \<Rightarrow> Some n | _ \<Rightarrow> None) ks,
           fs_null = flag_arg (\<lambda>k. case k of Null b \<Rightarrow> Some b | _ \<Rightarrow> None) ks,
           fs_blank = (added \<or> flag_arg (\<lambda>k. case k of Blank b \<Rightarrow> Some b | _ \<Rightarrow> None) ks),
           fs_default = first_arg (\<lambda>k. case k of Default v \<Rightarrow> Some v | _ \<Rightarrow> None) ks,
           fs_db_index = flag_arg (\<lambda>k. case k of Db_index b \<Rightarrow> Some b | _ \<Rightarrow> None) ks,
           fs_auto_now_add = added,
           fs_verbose_name = first_arg (\<lambda>k. case k of Verbose_name s \<Rightarrow> Some s | _ \<Rightarrow> None) ks,
           fs_to = first_arg (\<lambda>k. case k of To t \<Rightarrow> Some (target_table a m t) | _ \<Rightarrow> None) ks,
           fs_through = first_arg (\<lambda>k. case k of Through t \<Rightarrow> Some (target_table a m t) | _ \<Rightarrow> None) ks,
           fs_on_delete = first_arg (\<lambda>k. case k of On_delete x \<Rightarrow> Some x | _ \<Rightarrow> None) ks,
           fs_related_name = first_arg (\<lambda>k. case k of Related_name s \<Rightarrow> Some (related_name m s) | _ \<Rightarrow> None) ks,
           fs_monitor = first_arg (\<lambda>k. case k of Monitor s \<Rightarrow> Some s | _ \<Rightarrow> None) ks,
           fs_primary_key = flag_arg (\<lambda>k. case k of Primary_key b \<Rightarrow> Some b | _ \<Rightarrow> None) ks \<rparr>)"

text \<open>\<open>abstract\<close> is not an option that migrations change.\<close>

definition alterable :: "model_option list \<Rightarrow> model_option list" where
  "alterable os = filter (\<lambda>x. case x of Abstract b \<Rightarrow> False | _ \<Rightarrow> True) os"

fun state_entry_of :: "library \<Rightarrow> key \<Rightarrow> entry \<Rightarrow> state_entry" where
  "state_entry_of lib k (Opts os) = Table_state (alterable os)"
| "state_entry_of lib k (Decl d) =
     (case key_table k of (a, m) \<Rightarrow> Field_state (field_state_of lib a m d))"

section \<open>Classes\<close>

datatype model_class = Class app string "(string \<times> field_decl) list" "model_option list"

text \<open>Django adds the primary key.\<close>

definition id_field :: "string \<times> field_decl" where
  "id_field = (''id'', Field AutoField [Auto_created True, Primary_key True, Serialize False, Verbose_name ''ID''])"

fun declared :: "model_class \<Rightarrow> (key \<times> entry) list" where
  "declared (Class a n fs os) =
     (Table (lower n) a, Opts os) # map (\<lambda>(c, d). (Column c (lower n) a, Decl d)) (id_field # fs)"

definition declared_state :: "library \<Rightarrow> model_class list \<Rightarrow> (key \<times> state_entry) list" where
  "declared_state lib cls =
     concat (map (\<lambda>cl. map (\<lambda>(k, x). (k, state_entry_of lib k x)) (declared cl)) cls)"

section \<open>The models\<close>

definition accounts_UserData :: "model_class" where
  "accounts_UserData = Class Accounts ''UserData''
    ([(''user'', Field OneToOneField [To User_model, On_delete CASCADE]),
      (''export_path'', Field CharField [Max_length 255])])
    []"

definition archive_Project :: "model_class" where
  "archive_Project = Class Archive ''Project''
    ([(''name'', Field CharField [Max_length 200]),
      (''archived'', Field BooleanField [Default (D_Bool False)])])
    []"

definition archive_Session :: "model_class" where
  "archive_Session = Class Archive ''Session''
    ([(''name'', Field CharField [Max_length 200]),
      (''project'', Field ForeignKey [To (Model Archive ''Project''), On_delete CASCADE, Related_name ''sessions'']),
      (''start_time'', Field DateTimeField [Verbose_name ''start time'', Auto_now_add True]),
      (''frontal_cam_id'', Field CharField [Max_length 200, Null True, Blank True]),
      (''session_master_calib'', Field ForeignKey [To (Own ''Take''), On_delete SET_NULL, Null True, Blank True, Related_name ''+'']),
      (''session_master_colorchart'', Field ForeignKey [To (Own ''Take''), On_delete SET_NULL, Null True, Blank True, Related_name ''+'']),
      (''session_neutral_take'', Field ForeignKey [To (Own ''Take''), On_delete SET_NULL, Null True, Blank True, Related_name ''+'']),
      (''invert_polarization'', Field BooleanField [Default (D_Bool False)])])
    []"

definition archive_Shot :: "model_class" where
  "archive_Shot = Class Archive ''Shot''
    ([(''name'', Field CharField [Max_length 200]),
      (''session'', Field ForeignKey [To (Model Archive ''Session''), On_delete CASCADE, Related_name ''shots'']),
      (''next_take'', Field IntegerField [Default (D_Int 1)])])
    []"

definition archive_Take :: "model_class" where
  "archive_Take = Class Archive ''Take''
    ([(''name'', Field CharField [Max_length 200]),
      (''shot'', Field ForeignKey [To (Model Archive ''Shot''), On_delete CASCADE, Related_name ''takes'']),
      (''capture_time'', Field DateTimeField [Verbose_name ''capture time'', Auto_now_add True]),
      (''sequence'', Field IntegerField [Default (D_Int 1)]),
      (''export_path'', Field CharField [Max_length 250, Null True, Blank True]),
      (''work_folder'', Field CharField [Max_length 250, Null True, Blank True]),
      (''video_thumb'', Field CharField [Max_length 250, Null True, Blank True]),
      (''flag'', Field StatusField [Choices [(D_Str ''none'', ''none''), (D_Str ''best'', ''best''), (D_Str ''bad'', ''bad''), (D_Str ''calib'', ''calib''), (D_Str ''colorchart'', ''colorchart'')], Default (D_Str ''none''), Db_index True]),
      (''is_burst'', Field BooleanField [Default (D_Bool False)]),
      (''is_scan_burst'', Field BooleanField [Default (D_Bool False)]),
      (''colorspace'', Field CharField [Max_length 32, Null True, Blank True])])
    []"

definition archive_Camera :: "model_class" where
  "archive_Camera = Class Archive ''Camera''
    ([(''take'', Field ForeignKey [To (Model Archive ''Take''), On_delete CASCADE, Related_name ''cameras'']),
      (''machine_name'', Field CharField [Max_length 200]),
      (''unique_id'', Field CharField [Max_length 200, Db_index True]),
      (''model'', Field CharField [Max_length 200]),
      (''version'', Field CharField [Max_length 200]),
      (''using_sync'', Field BooleanField [Default (D_Bool False)]),
      (''folder'', Field CharField [Max_length 250]),
      (''thumbnail_filename'', Field CharField [Max_length 250, Null True, Blank True]),
      (''width'', Field IntegerField []),
      (''height'', Field IntegerField []),
      (''bitdepth'', Field IntegerField [Default (D_Int 8)]),
      (''frame_count'', Field IntegerField []),
      (''dropped_frames'', Field IntegerField []),
      (''total_size'', Field BigIntegerField []),
      (''duration'', Field FloatField [Default (D_Float 0 1)]),
      (''framerate'', Field FloatField [Default (D_Float 0 1)]),
      (''all_files'', Field TextField [Null True]),
      (''rotation'', Field IntegerField [Default (D_Int 0)]),
      (''exposure_ms'', Field FloatField [Default (D_Float 0 1)])])
    [Ordering [''unique_id'']]"

definition archive_StaticScanAsset :: "model_class" where
  "archive_StaticScanAsset = Class Archive ''StaticScanAsset''
    ([(''project'', Field ForeignKey [To (Model Archive ''Project''), On_delete CASCADE, Related_name ''%(class)s_related'']),
      (''name'', Field CharField [Max_length 120]),
      (''image_folder'', Field CharField [Max_length 255]),
      (''calib_file'', Field CharField [Max_length 255]),
      (''work_folder'', Field CharField [Max_length 255]),
      (''thumbnail_filename'', Field CharField [Max_length 250, Null True, Blank True]),
      (''take'', Field ForeignKey [To (Model Archive ''Take''), On_delete SET_NULL, Related_name ''%(class)s_related'', Null True, Blank True]),
      (''take_neutral_start_time'', Field FloatField [Null True, Blank True]),
      (''take_neutral_end_time'', Field FloatField [Null True, Blank True]),
      (''take_mixed_w_time'', Field FloatField [Null True, Blank True]),
      (''take_pattern_start_time'', Field FloatField [Null True, Blank True]),
      (''take_pattern_last_time'', Field FloatField [Null True, Blank True]),
      (''has_tracking'', Field BooleanField [Default (D_Bool True)]),
      (''associated_tracking_asset'', Field ForeignKey [To (Own ''TrackingAsset''), On_delete SET_NULL, Related_name ''%(class)s_related'', Null True, Blank True]),
      (''associated_tracking_asset_time'', Field FloatField [Null True, Blank True])])
    []"

definition archive_TrackingAsset :: "model_class" where
  "archive_TrackingAsset = Class Archive ''TrackingAsset''
    ([(''take'', Field ForeignKey [To (Model Archive ''Take''), On_delete CASCADE, Related_name ''%(class)s_related'']),
      (''calib_file'', Field CharField [Max_length 255, Null True, Blank True]),
      (''work_folder'', Field CharField [Max_length 255, Null True, Blank True]),
      (''start_time'', Field FloatField [Default (D_Int 0)]),
      (''end_time'', Field FloatField [Default (D_Int 0)]),
      (''video_thumb'', Field CharField [Max_length 250, Null True, Blank True])])
    []"

definition capture_CaptureLocation :: "model_class" where
  "capture_CaptureLocation = Class Capture ''CaptureLocation''
    ([(''name'', Field CharField [Max_length 200]),
      (''users'', Field ManyToManyField [To User_model, Through (Own ''LocationAccess''), Related_name ''access_rights'']),
      (''hardware_sync_frequency'', Field IntegerField [Default (D_Int 30)]),
      (''pulse_duration'', Field IntegerField [Default (D_Int 2000)]),
      (''external_sync'', Field BooleanField [Default (D_Bool False)]),
      (''display_focus_peak'', Field BooleanField [Default (D_Bool False)]),
      (''display_overexposed'', Field BooleanField [Default (D_Bool False)]),
      (''display_histogram'', Field BooleanField [Default (D_Bool False)]),
      (''bitdepth_avi'', Field IntegerField [Default (D_Int 8)]),
      (''bitdepth_single'', Field IntegerField [Default (D_Int 12)]),
      (''image_format'', Field CharField [Max_length 8, Default (D_Str ''raw'')]),
      (''wb_R'', Field FloatField [Default (D_Float 137 2)]),
      (''wb_G'', Field FloatField [Default (D_Float 10 1)]),
      (''wb_B'', Field FloatField [Default (D_Float 265 2)]),
      (''cur_project'', Field ForeignKey [To (Model Archive ''Project''), On_delete SET_NULL, Null True, Default D_None, Blank True]),
      (''cur_session'', Field ForeignKey [To (Model Archive ''Session''), On_delete SET_NULL, Null True, Default D_None, Blank True]),
      (''cur_shot'', Field ForeignKey [To (Model Archive ''Shot''), On_delete SET_NULL, Null True, Default D_None, Blank True]),
      (''read_access_all'', Field BooleanField [Default (D_Bool False)])])
    []"

definition capture_LocationAccess :: "model_class" where
  "capture_LocationAccess = Class Capture ''LocationAccess''
    ([(''user'', Field ForeignKey [To User_model, On_delete CASCADE]),
      (''location'', Field ForeignKey [To (Model Capture ''CaptureLocation''), On_delete CASCADE]),
      (''read_access'', Field BooleanField [Default (D_Bool False)]),
      (''write_access'', Field BooleanField [Default (D_Bool False)])])
    []"

definition capture_CaptureNode :: "model_class" where
  "capture_CaptureNode = Class Capture ''CaptureNode''
    ([(''ip_address'', Field CharField [Max_length 200]),
      (''machine_name'', Field CharField [Max_length 200]),
      (''os'', Field CharField [Max_length 80, Null True]),
      (''last_seen'', Field DateTimeField [Verbose_name ''last seen'', Auto_now_add True]),
      (''online'', Field BooleanField [Default (D_Bool False)]),
      (''location'', Field ForeignKey [To (Model Capture ''CaptureLocation''), On_delete SET_NULL, Related_name ''nodes'', Null True]),
      (''sync_found'', Field BooleanField [Default (D_Bool False)]),
      (''drive_info'', Field CharField [Max_length 2048, Default (D_Str '''')]),
      (''code_version'', Field IntegerField [Default (D_Int 0)]),
      (''build_version'', Field CharField [Max_length 64, Default (D_Str '''')])])
    [Permissions [(''view_nodes'', ''Can see list of nodes and cameras''), (''control_cameras'', ''Can change camera settings and record'')]]"

definition capture_Camera :: "model_class" where
  "capture_Camera = Class Capture ''Camera''
    ([(''node'', Field ForeignKey [To (Model Capture ''CaptureNode''), On_delete CASCADE, Related_name ''cameras'']),
      (''unique_id'', Field CharField [Max_length 200]),
      (''model'', Field CharField [Max_length 200]),
      (''version'', Field CharField [Max_length 200, Default (D_Str '''')]),
      (''exposure'', Field FloatField [Default (D_Float 50000 1)]),
      (''gain'', Field FloatField [Default (D_Float 0 1)]),
      (''lens_aperture'', Field FloatField [Default (D_Float 56 1)]),
      (''using_sync'', Field BooleanField [Default (D_Bool True)]),
      (''rotation'', Field IntegerField [Default (D_Int 0)])])
    []"

definition jobs_FarmNodeGroup :: "model_class" where
  "jobs_FarmNodeGroup = Class Jobs ''FarmNodeGroup''
    ([(''name'', Field CharField [Max_length 200])])
    []"

definition jobs_FarmNode :: "model_class" where
  "jobs_FarmNode = Class Jobs ''FarmNode''
    ([(''ip_address'', Field CharField [Max_length 200, Default (D_Str ''0.0.0.0'')]),
      (''machine_name'', Field CharField [Max_length 200]),
      (''last_seen'', Field DateTimeField [Verbose_name ''last seen'', Auto_now_add True]),
      (''last_job_activity'', Field DateTimeField [Verbose_name ''last activity'', Auto_now_add True, Null True, Blank True]),
      (''code_version'', Field IntegerField [Default (D_Int 1)]),
      (''git_version'', Field CharField [Max_length 80, Null True, Blank True]),
      (''req_restart'', Field BooleanField [Default (D_Bool False)]),
      (''active'', Field BooleanField [Default (D_Bool True)]),
      (''system'', Field CharField [Max_length 80, Null True]),
      (''system_bits'', Field IntegerField [Null True]),
      (''cpu_brand'', Field CharField [Max_length 80, Null True]),
      (''cpu_cores'', Field IntegerField [Null True]),
      (''gpu_count'', Field IntegerField [Null True]),
      (''cpu_percent'', Field FloatField [Default (D_Float 0 1)]),
      (''virt_percent'', Field FloatField [Default (D_Float 0 1)]),
      (''os_version'', Field CharField [Max_length 80, Null True, Blank True]),
      (''status'', Field StatusField [Choices [(D_Str ''offline'', ''offline''), (D_Str ''accepting'', ''accepting'')], Db_index True]),
      (''group'', Field ForeignKey [To (Model Jobs ''FarmNodeGroup''), On_delete SET_NULL, Null True, Blank True, Related_name ''nodes'']),
      (''tags'', Field TaggableManager [Blank True]),
      (''aws_instance_id'', Field CharField [Max_length 80, Null True, Blank True]),
      (''aws_instance_region'', Field CharField [Max_length 80, Null True, Blank True]),
      (''aws_instance_state'', Field StatusField [Choices [(D_Str ''none'', ''none''), (D_Str ''pending'', ''pending''), (D_Str ''running'', ''running''), (D_Str ''shutting-down'', ''shutting-down''), (D_Str ''terminated'', ''terminated''), (D_Str ''stopping'', ''stopping''), (D_Str ''stopped'', ''stopped'')], Default (D_Str ''none''), Db_index True]),
      (''aws_instance_state_changed'', Field MonitorField [Monitor ''aws_instance_state'']),
      (''aws_auto_shutdown'', Field BooleanField [Default (D_Bool True)])])
    [Ordering [''machine_name'']]"

definition jobs_FarmJob :: "library \<Rightarrow> model_class" where
  "jobs_FarmJob lib = Class Jobs ''FarmJob''
    (lib_timestamped lib @ [(''job_class'', Field CharField [Max_length 200]),
      (''created_by'', Field CharField [Max_length 200]),
      (''params'', Field TextField [Null True, Blank True]),
      (''exception'', Field CharField [Max_length 800, Null True, Blank True]),
      (''node'', Field ForeignKey [To (Model Jobs ''FarmNode''), On_delete CASCADE, Null True, Blank True, Related_name ''jobs'']),
      (''progress'', Field CharField [Max_length 200, Null True, Blank True]),
      (''req_version'', Field IntegerField [Default (D_Int 1)]),
      (''req_gpu'', Field BooleanField [Default (D_Bool False)]),
      (''priority'', Field IntegerField [Default (D_Int 50)]),
      (''parent'', Field ForeignKey [To Self, On_delete CASCADE, Null True, Blank True, Related_name ''children'']),
      (''dependencies'', Field ManyToManyField [To Self, Related_name ''dependants'', Blank True, Symmetrical False]),
      (''status'', Field StatusField [Choices [(D_Str ''created'', ''created''), (D_Str ''ready'', ''ready''), (D_Str ''reserved'', ''reserved''), (D_Str ''running'', ''running''), (D_Str ''failed'', ''failed''), (D_Str ''success'', ''success''), (D_Str ''waiting'', ''waiting''), (D_Str ''terminating'', ''terminating'')], Db_index True]),
      (''status_changed'', Field MonitorField [Monitor ''status'']),
      (''start_time'', Field DateTimeField [Verbose_name ''start time'', Null True, Blank True]),
      (''end_time'', Field DateTimeField [Verbose_name ''end time'', Null True, Blank True]),
      (''ext_take'', Field ForeignKey [To (Model Archive ''Take''), On_delete SET_NULL, Null True, Blank True, Related_name ''ext_jobs'']),
      (''ext_scan_assets'', Field ForeignKey [To (Model Archive ''StaticScanAsset''), On_delete SET_NULL, Null True, Blank True, Related_name ''ext_jobs'']),
      (''ext_tracking_assets'', Field ForeignKey [To (Model Archive ''TrackingAsset''), On_delete SET_NULL, Null True, Blank True, Related_name ''ext_jobs'']),
      (''image_filename'', Field CharField [Max_length 250, Null True, Blank True]),
      (''mesh_filename'', Field CharField [Max_length 250, Null True, Blank True]),
      (''tags'', Field TaggableManager [Blank True])])
    []"

definition accounts_models :: "library \<Rightarrow> model_class list" where
  "accounts_models lib = [accounts_UserData]"

definition archive_models :: "library \<Rightarrow> model_class list" where
  "archive_models lib = [archive_Project, archive_Session, archive_Shot, archive_Take, archive_Camera, archive_StaticScanAsset, archive_TrackingAsset]"

definition capture_models :: "library \<Rightarrow> model_class list" where
  "capture_models lib = [capture_CaptureLocation, capture_LocationAccess, capture_CaptureNode, capture_Camera]"

definition jobs_models :: "library \<Rightarrow> model_class list" where
  "jobs_models lib = [jobs_FarmNodeGroup, jobs_FarmNode, jobs_FarmJob lib]"

definition all_models :: "library \<Rightarrow> model_class list" where
  "all_models lib = archive_models lib @ capture_models lib @ jobs_models lib @ accounts_models lib"

text \<open>
  What the documentation of the packages says of the classes that the models use: a
  status has at most 100 letters and starts as the first of its choices, a monitor starts now, a time-stamped model has
  two times, and tags are reached through the tables of \<open>taggit\<close>.
\<close>

definition documented :: "library \<Rightarrow> bool" where
  "documented lib \<longleftrightarrow>
     (\<forall>c cs. lib_defaults lib c cs =
        (case c of
           StatusField \<Rightarrow> Max_length 100 # (case cs of [] \<Rightarrow> [] | (v, l) # cs' \<Rightarrow> [Default v])
         | MonitorField \<Rightarrow> [Default D_Now]
         | AutoCreatedField \<Rightarrow> [Default D_Now, Editable False]
         | AutoLastModifiedField \<Rightarrow> [Default D_Now, Editable False]
         | TaggableManager \<Rightarrow>
             [Help_text ''A comma-separated list of tags.'', Through (Model Taggit ''TaggedItem''),
              To (Model Taggit ''Tag''), Verbose_name ''Tags'']
         | _ \<Rightarrow> [])) \<and>
     lib_timestamped lib =
       [(''created'', Field AutoCreatedField [Verbose_name ''created'']),
        (''modified'', Field AutoLastModifiedField [Verbose_name ''modified''])]"

end
