(* ===== verification/Migration_Runs.thy ===== *)
theory Migration_Runs
  imports Migrations Migration_Rows Model_Tables
begin

text \<open>
  The migrations of each app evaluated on their own: on a schema that has only the tables of other apps
  they refer to, they succeed, every operation is safe for the rows, and the tables they leave are those
  the models declare. \<open>run_slice\<close> carries the results over to a full database.
\<close>

section \<open>Tables of one app\<close>

fun key_app :: "key \<Rightarrow> app" where
  "key_app (Table m a) = a"
| "key_app (Column c m a) = a"

definition state_at :: "library \<Rightarrow> schema \<Rightarrow> key \<Rightarrow> state_entry option" where
  "state_at lib s k = map_option (state_entry_of lib k) (entry_at s k)"

definition matches :: "library \<Rightarrow> app \<Rightarrow> model_class list \<Rightarrow> schema \<Rightarrow> bool" where
  "matches lib a cls s \<longleftrightarrow>
     list_all (\<lambda>(k, x). key_app k = a \<and> state_at lib s k = Some x) (declared_state lib cls) \<and>
     (\<forall>k \<in> Mapping.keys s. key_app k = a \<longrightarrow> get_entry (declared_state lib cls) k \<noteq> None)"

lemma matches_state:
  assumes "matches lib a cls s" "key_app k = a"
  shows "state_at lib s k = map_of (declared_state lib cls) k"
proof (cases "map_of (declared_state lib cls) k")
  case None
  with assms have "k \<notin> Mapping.keys s" by (auto simp: matches_def get_entry_map_of)
  then have "Mapping.lookup s k = None" by (simp add: keys_dom_lookup domIff)
  with None show ?thesis by (simp add: state_at_def entry_at_def)
next
  case (Some x)
  with assms(1) show ?thesis by (auto simp: matches_def list_all_iff dest: map_of_SomeD)
qed

lemma declared_state_app:
  "matches lib a cls s \<Longrightarrow> (k, x) \<in> set (declared_state lib cls) \<Longrightarrow> key_app k = a"
  by (auto simp: matches_def list_all_iff)

text \<open>The tables that other apps refer to are at the end there, with no options.\<close>

definition runs_to_models ::
  "library \<Rightarrow> app \<Rightarrow> string list \<Rightarrow> model_class list \<Rightarrow> migration list \<Rightarrow> schema \<Rightarrow> bool" where
  "runs_to_models lib a exports cls ms s \<longleftrightarrow>
     (case run_steps checked_migration ms s of
        Inl e \<Rightarrow> False
      | Inr t \<Rightarrow> matches lib a cls t \<and> list_all (\<lambda>n. entry_at t (Table n a) = Some (Opts [])) exports)"

section \<open>The four runs\<close>

definition package_library :: library where
  "package_library = \<lparr>
     lib_defaults = (\<lambda>c cs. case c of
         StatusField \<Rightarrow> Max_length 100 # (case cs of [] \<Rightarrow> [] | (v, l) # cs' \<Rightarrow> [Default v])
       | MonitorField \<Rightarrow> [Default D_Now]
       | AutoCreatedField \<Rightarrow> [Default D_Now, Editable False]
       | AutoLastModifiedField \<Rightarrow> [Default D_Now, Editable False]
       | TaggableManager \<Rightarrow>
           [Help_text ''A comma-separated list of tags.'', Through (Model Taggit ''TaggedItem''),
            To (Model Taggit ''Tag''), Verbose_name ''Tags'']
       | _ \<Rightarrow> []),
     lib_timestamped =
       [(''created'', Field AutoCreatedField [Verbose_name ''created'']),
        (''modified'', Field AutoLastModifiedField [Verbose_name ''modified''])] \<rparr>"

lemma documented_package_library: "documented lib \<longleftrightarrow> lib = package_library"
  by (cases lib) (auto simp: documented_def package_library_def fun_eq_iff)

definition tables_only :: "(string \<times> app) list \<Rightarrow> schema" where
  "tables_only ts = Mapping (map (\<lambda>(m, a). (Table m a, Opts [])) ts)"

definition archive_needs :: "(string \<times> app) list" where
  "archive_needs = []"

definition archive_exports :: "string list" where
  "archive_exports =
     [''project'', ''session'', ''shot'', ''take'', ''staticscanasset'', ''trackingasset'']"

definition capture_needs :: "(string \<times> app) list" where
  "capture_needs = [(''project'', Archive), (''session'', Archive), (''shot'', Archive), (''user'', Auth)]"

definition jobs_needs :: "(string \<times> app) list" where
  "jobs_needs = [(''take'', Archive), (''staticscanasset'', Archive), (''trackingasset'', Archive),
     (''tag'', Taggit), (''taggeditem'', Taggit)]"

definition accounts_needs :: "(string \<times> app) list" where
  "accounts_needs = [(''user'', Auth)]"

lemma archive_run:
  "runs_to_models package_library Archive archive_exports (archive_models package_library) archive_migrations (tables_only archive_needs)"
  by code_simp

lemma capture_run:
  "runs_to_models package_library Capture [] (capture_models package_library) capture_migrations (tables_only capture_needs)"
  by code_simp

lemma jobs_run:
  "runs_to_models package_library Jobs [] (jobs_models package_library) jobs_migrations (tables_only jobs_needs)"
  by code_simp

lemma accounts_run:
  "runs_to_models package_library Accounts [] (accounts_models package_library) accounts_migrations (tables_only accounts_needs)"
  by code_simp

end
