(* ===== verification/Migrations_Correct.thy ===== *)
theory Migrations_Correct
  imports Migration_Runs
begin

text \<open>
  What the migrations achieve together, in any order that Django may choose: the tables of the models, on a new
  database and on one with rows, which all survive.
\<close>

section \<open>From one app to the whole database\<close>

lemma key_table_app: "fst (key_table k) = key_app k"
  by (cases k) auto

lemma touches_own: "migration_touches m k \<Longrightarrow> key_app k = m_app m"
proof -
  assume "migration_touches m k"
  then obtain x where "touched (m_app m, x) k" by (auto simp: migration_touches_def steps_of_def)
  then show ?thesis by (cases x) (auto simp flip: key_table_app)
qed

text \<open>The tables outside of its app that a migration refers to.\<close>

fun operation_targets :: "app \<Rightarrow> operation \<Rightarrow> (app \<times> string) list" where
  "operation_targets a (CreateModel n fs os) = concat (map (targets a (lower n) \<circ> snd) fs)"
| "operation_targets a (AddField n c d) = targets a (lower n) d"
| "operation_targets a (AlterField n c d) = targets a (lower n) d"
| "operation_targets a _ = []"

definition foreign :: "migration \<Rightarrow> (app \<times> string) list" where
  "foreign m = filter (\<lambda>(b, t). b \<noteq> m_app m) (concat (map (operation_targets (m_app m)) (m_operations m)))"

lemma needs_foreign:
  assumes "migration_needs m k" "key_app k \<noteq> m_app m"
  shows "\<exists>b t. k = Table t b \<and> (b, t) \<in> set (foreign m)"
proof -
  obtain x where x: "x \<in> set (m_operations m)" "needed (m_app m, x) k"
    using assms(1) by (auto simp: migration_needs_def steps_of_def)
  with assms(2) have "\<exists>b t. k = Table t b \<and> (b, t) \<in> set (operation_targets (m_app m) x)"
    by (cases x) fastforce+
  with x(1) assms(2) show ?thesis by (fastforce simp: foreign_def)
qed

lemma run_slice:
  assumes run: "run_steps checked_migration ms s = Inr t"
    and app: "\<forall>m \<in> set ms. m_app m = a"
    and own: "\<And>k. key_app k = a \<Longrightarrow> Mapping.lookup s' k = Mapping.lookup s k"
    and tgt: "\<And>m b n. m \<in> set ms \<Longrightarrow> (b, n) \<in> set (foreign m) \<Longrightarrow>
      Mapping.lookup s' (Table n b) = Mapping.lookup s (Table n b)"
  shows "\<exists>t'. run_steps checked_migration ms s' = Inr t' \<and>
    (\<forall>k. Mapping.lookup t' k = (if key_app k = a then Mapping.lookup t k else Mapping.lookup s' k))"
proof -
  have "Mapping.lookup s' k = Mapping.lookup s k"
    if ex: "\<exists>m \<in> set ms. migration_touches m k \<or> migration_needs m k" for k
  proof -
    obtain m where m: "m \<in> set ms" "migration_touches m k \<or> migration_needs m k" using ex by blast
    show ?thesis
    proof (cases "key_app k = a")
      case False
      with m(2) touches_own [of m k] app m(1) have "migration_needs m k" by auto
      with False needs_foreign [of m k] app m(1)
      obtain b t where "k = Table t b" "(b, t) \<in> set (foreign m)" by auto
      then show ?thesis using tgt [OF m(1)] by simp
    qed (rule own)
  qed
  from upgrades.run_local [OF run this]
  obtain t' where t': "run_steps checked_migration ms s' = Inr t'"
      "\<And>k. \<exists>m \<in> set ms. migration_touches m k \<Longrightarrow> Mapping.lookup t' k = Mapping.lookup t k" by blast
  have "Mapping.lookup t' k = (if key_app k = a then Mapping.lookup t k else Mapping.lookup s' k)" for k
  proof (cases "\<exists>m \<in> set ms. migration_touches m k")
    case True
    with app have "key_app k = a" using touches_own by auto
    with True t'(2) show ?thesis by simp
  next
    case False
    with upgrades.run_frame [OF run, of k] upgrades.run_frame [OF t'(1), of k] own [of k] show ?thesis by auto
  qed
  with t'(1) show ?thesis by blast
qed

section \<open>The migrations of this program\<close>

definition installed :: schema where
  "installed = tables_only [(''user'', Auth), (''tag'', Taggit), (''taggeditem'', Taggit)]"

definition foreign_ok :: "app \<Rightarrow> (string \<times> app) list \<Rightarrow> migration list \<Rightarrow> bool" where
  "foreign_ok a ts ms \<longleftrightarrow>
     list_all (\<lambda>m. m_app m = a \<and> list_all (\<lambda>(b, n). (n, b) \<in> set ts) (foreign m)) ms"

lemma foreign_oks:
  "foreign_ok Archive archive_needs archive_migrations"
  "foreign_ok Capture capture_needs capture_migrations"
  "foreign_ok Jobs jobs_needs jobs_migrations"
  "foreign_ok Accounts accounts_needs accounts_migrations"
  by code_simp+

lemma lookup_tables_only:
  "Mapping.lookup (tables_only ts) k =
     (case k of Table n b \<Rightarrow> (if (n, b) \<in> set ts then Some (Opts []) else None) | Column c n b \<Rightarrow> None)"
  by (induction ts) (auto simp: tables_only_def lookup_Mapping split: key.splits)

text \<open>A run on the tables that an app refers to is a run on every schema that has these tables and none of its own.\<close>

lemma run_to_models:
  assumes "runs_to_models lib a exports cls ms (tables_only ts)" "foreign_ok a ts ms"
    and "\<forall>(n, b) \<in> set ts. b \<noteq> a"
    and "\<And>k. key_app k = a \<Longrightarrow> Mapping.lookup s k = None"
    and "\<forall>(n, b) \<in> set ts. Mapping.lookup s (Table n b) = Some (Opts [])"
  shows "\<exists>t. run_steps checked_migration ms s = Inr t \<and>
    (\<forall>k. key_app k = a \<longrightarrow> state_at lib t k = map_of (declared_state lib cls) k) \<and>
    (\<forall>n \<in> set exports. Mapping.lookup t (Table n a) = Some (Opts [])) \<and>
    (\<forall>k. key_app k \<noteq> a \<longrightarrow> Mapping.lookup t k = Mapping.lookup s k)"
proof -
  obtain t0 where t0: "run_steps checked_migration ms (tables_only ts) = Inr t0" "matches lib a cls t0"
      "\<forall>n \<in> set exports. Mapping.lookup t0 (Table n a) = Some (Opts [])"
    using assms(1) by (auto simp: runs_to_models_def entry_at_def list_all_iff split: sum.splits)
  have "\<exists>t. run_steps checked_migration ms s = Inr t \<and>
    (\<forall>k. Mapping.lookup t k = (if key_app k = a then Mapping.lookup t0 k else Mapping.lookup s k))"
  proof (rule run_slice [OF t0(1)])
    show "\<forall>m \<in> set ms. m_app m = a" using assms(2) by (simp add: foreign_ok_def list_all_iff)
    show "Mapping.lookup s k = Mapping.lookup (tables_only ts) k" if "key_app k = a" for k
      using assms(3,4) that by (auto simp: lookup_tables_only split: key.splits)
    show "Mapping.lookup s (Table n b) = Mapping.lookup (tables_only ts) (Table n b)"
      if "m \<in> set ms" "(b, n) \<in> set (foreign m)" for m b n
      using assms(2,5) that by (auto simp: foreign_ok_def list_all_iff lookup_tables_only)
  qed
  then obtain t where t: "run_steps checked_migration ms s = Inr t"
    "\<And>k. Mapping.lookup t k = (if key_app k = a then Mapping.lookup t0 k else Mapping.lookup s k)" by blast
  moreover have "state_at lib t k = map_of (declared_state lib cls) k" if "key_app k = a" for k
    using matches_state [OF t0(2) that] t(2) [of k] that by (simp add: state_at_def entry_at_def)
  ultimately show ?thesis using t0(3) by auto
qed

section \<open>One order that works\<close>

lemma installed_lookup:
  "Mapping.lookup installed (Table ''user'' Auth) = Some (Opts [])"
  "Mapping.lookup installed (Table ''tag'' Taggit) = Some (Opts [])"
  "Mapping.lookup installed (Table ''taggeditem'' Taggit) = Some (Opts [])"
  "key_app k \<notin> {Auth, Taggit} \<Longrightarrow> Mapping.lookup installed k = None"
  by (auto simp: installed_def lookup_tables_only split: key.splits)

definition own_key :: "key \<Rightarrow> bool" where
  "own_key k \<longleftrightarrow> key_app k \<in> {Archive, Capture, Jobs, Accounts}"

fun class_app :: "model_class \<Rightarrow> app" where
  "class_app (Class a n fs os) = a"

lemma declared_state_other:
  assumes "list_all (\<lambda>cl. class_app cl \<noteq> key_app k) cls"
  shows "map_of (declared_state lib cls) k = None"
proof -
  have "key_app k' = class_app cl" if "(k', x) \<in> set (declared cl)" for k' x cl
    using that by (cases cl) (auto simp: id_field_def)
  with assms show ?thesis
    by (fastforce simp: declared_state_def map_of_eq_None_iff list_all_iff)
qed

lemma declared_state_append: "declared_state lib (cls @ cls') = declared_state lib cls @ declared_state lib cls'"
  by (simp add: declared_state_def)

lemma models_apps:
  "list_all (\<lambda>cl. class_app cl = Archive) (archive_models lib)"
  "list_all (\<lambda>cl. class_app cl = Capture) (capture_models lib)"
  "list_all (\<lambda>cl. class_app cl = Jobs) (jobs_models lib)"
  "list_all (\<lambda>cl. class_app cl = Accounts) (accounts_models lib)"
  by (simp_all add: archive_models_def capture_models_def jobs_models_def accounts_models_def
      archive_Project_def archive_Session_def archive_Shot_def archive_Take_def archive_Camera_def
      archive_StaticScanAsset_def archive_TrackingAsset_def capture_CaptureLocation_def capture_LocationAccess_def
      capture_CaptureNode_def capture_Camera_def jobs_FarmNodeGroup_def jobs_FarmNode_def jobs_FarmJob_def
      accounts_UserData_def)

lemma declared_state_all:
  "own_key k \<Longrightarrow> map_of (declared_state lib (all_models lib)) k =
     map_of (declared_state lib
       (case key_app k of Archive \<Rightarrow> archive_models lib | Capture \<Rightarrow> capture_models lib
        | Jobs \<Rightarrow> jobs_models lib | _ \<Rightarrow> accounts_models lib)) k"
proof -
  have other: "map_of (declared_state lib cls) k = None"
    if "list_all (\<lambda>cl. class_app cl = a) cls" "a \<noteq> key_app k" for a cls
    using that declared_state_other [of k cls lib] by (simp add: list_all_iff)
  assume "own_key k"
  then consider "key_app k = Archive" | "key_app k = Capture" | "key_app k = Jobs" | "key_app k = Accounts"
    by (auto simp: own_key_def)
  then show ?thesis
    by cases (simp_all add: all_models_def declared_state_append map_add_def other [OF models_apps(1)]
        other [OF models_apps(2)] other [OF models_apps(3)] other [OF models_apps(4)] split: option.splits)
qed

lemma canonical_run:
  "\<exists>t. run_steps checked_migration all_migrations installed = Inr t \<and>
    (\<forall>k. own_key k \<longrightarrow> state_at package_library t k = map_of (declared_state package_library (all_models package_library)) k)"
proof -
  let ?L = package_library
  obtain t1 where t1: "run_steps checked_migration archive_migrations installed = Inr t1"
    "\<forall>k. key_app k = Archive \<longrightarrow> state_at ?L t1 k = map_of (declared_state ?L (archive_models ?L)) k"
    "\<forall>n \<in> set archive_exports. Mapping.lookup t1 (Table n Archive) = Some (Opts [])"
    "\<forall>k. key_app k \<noteq> Archive \<longrightarrow> Mapping.lookup t1 k = Mapping.lookup installed k"
    using run_to_models [OF archive_run foreign_oks(1), of installed] by (auto simp: archive_needs_def installed_lookup)
  obtain t2 where t2: "run_steps checked_migration capture_migrations t1 = Inr t2"
    "\<forall>k. key_app k = Capture \<longrightarrow> state_at ?L t2 k = map_of (declared_state ?L (capture_models ?L)) k"
    "\<forall>k. key_app k \<noteq> Capture \<longrightarrow> Mapping.lookup t2 k = Mapping.lookup t1 k"
    using run_to_models [OF capture_run foreign_oks(2), of t1] t1(3,4)
    by (auto simp: capture_needs_def archive_exports_def installed_lookup)
  obtain t3 where t3: "run_steps checked_migration jobs_migrations t2 = Inr t3"
    "\<forall>k. key_app k = Jobs \<longrightarrow> state_at ?L t3 k = map_of (declared_state ?L (jobs_models ?L)) k"
    "\<forall>k. key_app k \<noteq> Jobs \<longrightarrow> Mapping.lookup t3 k = Mapping.lookup t2 k"
    using run_to_models [OF jobs_run foreign_oks(3), of t2] t1(3,4) t2(3)
    by (auto simp: jobs_needs_def archive_exports_def installed_lookup)
  obtain t4 where t4: "run_steps checked_migration accounts_migrations t3 = Inr t4"
    "\<forall>k. key_app k = Accounts \<longrightarrow> state_at ?L t4 k = map_of (declared_state ?L (accounts_models ?L)) k"
    "\<forall>k. key_app k \<noteq> Accounts \<longrightarrow> Mapping.lookup t4 k = Mapping.lookup t3 k"
    using run_to_models [OF accounts_run foreign_oks(4), of t3] t1(4) t2(3) t3(3)
    by (auto simp: accounts_needs_def installed_lookup)
  have "run_steps checked_migration all_migrations installed = Inr t4"
    using t1(1) t2(1) t3(1) t4(1) by (simp add: all_migrations_def run_steps_append)
  moreover have "state_at ?L t4 k = map_of (declared_state ?L (all_models ?L)) k" if "own_key k" for k
  proof -
    have "key_app k \<in> {Archive, Capture, Jobs, Accounts}" using that by (simp add: own_key_def)
    then show ?thesis
      using declared_state_all [OF that, of ?L] t1(2) t2(2,3) t3(2,3) t4(2,3)
      by (auto simp: state_at_def entry_at_def)
  qed
  ultimately show ?thesis by blast
qed

section \<open>Every order that works\<close>

definition depends_on :: "migration \<Rightarrow> migration \<Rightarrow> bool" where
  "depends_on m m' \<longleftrightarrow> On (m_app m') (m_name m') \<in> set (m_dependencies m)"

text \<open>The tables that a migration creates, deletes or gives options.\<close>

definition made_tables :: "migration \<Rightarrow> string list" where
  "made_tables m =
     concat (map (\<lambda>x. case x of
         CreateModel n fs os \<Rightarrow> [lower n] | DeleteModel n \<Rightarrow> [lower n] | AlterModelOptions n os \<Rightarrow> [lower n]
       | _ \<Rightarrow> []) (m_operations m))"

definition written_columns :: "migration \<Rightarrow> (string \<times> string) list" where
  "written_columns m =
     concat (map (\<lambda>x. case x of
         AddField n c d \<Rightarrow> [(lower n, c)] | RemoveField n c \<Rightarrow> [(lower n, c)] | AlterField n c d \<Rightarrow> [(lower n, c)]
       | _ \<Rightarrow> []) (m_operations m))"

lemma touches_table: "migration_touches m (Table n a) \<Longrightarrow> n \<in> set (made_tables m)"
proof -
  assume "migration_touches m (Table n a)"
  then obtain x where "x \<in> set (m_operations m)" "touched (m_app m, x) (Table n a)"
    by (auto simp: migration_touches_def steps_of_def)
  then show ?thesis by - (cases x; auto simp: made_tables_def intro!: bexI [of _ x])
qed

lemma touches_column:
  "migration_touches m (Column c n a) \<Longrightarrow> made_tables m = [] \<Longrightarrow> (n, c) \<in> set (written_columns m)"
proof -
  assume "migration_touches m (Column c n a)" and none: "made_tables m = []"
  then obtain x where x: "x \<in> set (m_operations m)" "touched (m_app m, x) (Column c n a)"
    by (auto simp: migration_touches_def steps_of_def)
  with none show ?thesis by - (cases x; auto simp: made_tables_def written_columns_def intro!: bexI [of _ x])
qed

lemma needs_table: "migration_needs m k \<Longrightarrow> \<exists>n a. k = Table n a"
proof -
  assume "migration_needs m k"
  then obtain x where "needed (m_app m, x) k" by (auto simp: migration_needs_def steps_of_def)
  then show ?thesis by (cases x) auto
qed

text \<open>Migrations of two apps get in each other's way only through a table that one makes and the other refers to.\<close>

lemma independent_apps:
  assumes "m_app p \<noteq> m_app q"
    and "\<forall>(b, n) \<in> set (foreign q). n \<notin> set (made_tables p)" "\<forall>(b, n) \<in> set (foreign p). n \<notin> set (made_tables q)"
  shows "upgrades.independent p q"
proof -
  have *: "\<not> migration_needs q k" if t: "migration_touches p k" "m_app p \<noteq> m_app q"
    "\<forall>(b, n) \<in> set (foreign q). n \<notin> set (made_tables p)" for p q k
  proof
    assume "migration_needs q k"
    then obtain b n where "k = Table n b" "(b, n) \<in> set (foreign q)"
      using needs_foreign touches_own [OF t(1)] t(2) by metis
    with touches_table [of p n b] t show False by auto
  qed
  show ?thesis
    unfolding upgrades.independent_def using * [OF _ assms(1,2)] * [OF _ assms(1) [symmetric] assms(3)]
      touches_own assms(1) by metis
qed

text \<open>Migrations that only write columns, and different ones, are independent.\<close>

lemma independent_columns:
  assumes "made_tables p = []" "made_tables q = []" "set (written_columns p) \<inter> set (written_columns q) = {}"
  shows "upgrades.independent p q"
proof -
  have "\<exists>c n a. k = Column c n a" if "migration_touches m k" "made_tables m = []" for m k
    using touches_table [of m] that by (cases k) auto
  with assms touches_column needs_table show ?thesis
    unfolding upgrades.independent_def by (metis disjoint_iff key.distinct(1))
qed

end
