(* ===== verification/Migration_Orders.thy ===== *)
theory Migration_Orders
  imports Migrations_Correct "HOL-Library.Multiset"
begin

text \<open>
  All orders of the migrations: which of them must keep their order, because one refers to a table that
  the other makes or because they follow one another in an app, and that all others commute.
  With it, the two properties of the migrations.
\<close>

section \<open>Who makes a table and who refers to it\<close>

definition profile :: "migration \<Rightarrow> app \<times> string list \<times> (app \<times> string) list" where
  "profile m = (m_app m, made_tables m, foreign m)"

lemma archive_profiles:
  "map profile archive_migrations =
     [(Archive, [''camera'', ''project'', ''session'', ''shot'', ''take''], []),
      (Archive, [], []),
      (Archive, [], []),
      (Archive, [], []),
      (Archive, [], []),
      (Archive, [], []),
      (Archive, [], []),
      (Archive, [], []),
      (Archive, [''staticscanasset'', ''trackingasset''], []),
      (Archive, [], []),
      (Archive, [], []),
      (Archive, [], []),
      (Archive, [], []),
      (Archive, [], []),
      (Archive, [''camera''], []),
      (Archive, [], []),
      (Archive, [], []),
      (Archive, [], []),
      (Archive, [], [])]"
  by code_simp

lemma capture_profiles:
  "map profile capture_migrations =
     [(Capture, [''camera'', ''capturenode''], []),
      (Capture, [], []),
      (Capture, [''globalconfiguration''], []),
      (Capture, [''capturenode''], []),
      (Capture, [''capturenode''], []),
      (Capture, [''capturelocation''], []),
      (Capture, [''locationaccess''], [(Auth, ''user''), (Auth, ''user'')]),
      (Capture, [''globalconfiguration''], []),
      (Capture, [], []),
      (Capture, [], []),
      (Capture, [], []),
      (Capture, [], []),
      (Capture, [], []),
      (Capture, [], []),
      (Capture, [], [(Archive, ''project''), (Archive, ''session''), (Archive, ''shot'')]),
      (Capture, [], []),
      (Capture, [], []),
      (Capture, [], []),
      (Capture, [], []),
      (Capture, [], []),
      (Capture, [], [(Archive, ''project''), (Archive, ''session''), (Archive, ''shot'')]),
      (Capture, [], []),
      (Capture, [], []),
      (Capture, [], []),
      (Capture, [], []),
      (Capture, [], []),
      (Capture, [], [])]"
  by code_simp

lemma jobs_profiles:
  "map profile jobs_migrations =
     [(Jobs, [''farmnode''], []),
      (Jobs, [''farmjob''], []),
      (Jobs, [], []),
      (Jobs, [], []),
      (Jobs, [], []),
      (Jobs, [], []),
      (Jobs, [], []),
      (Jobs, [], []),
      (Jobs, [], []),
      (Jobs, [], [(Archive, ''take'')]),
      (Jobs, [], []),
      (Jobs, [], []),
      (Jobs, [], []),
      (Jobs, [], []),
      (Jobs, [], []),
      (Jobs, [], []),
      (Jobs, [], [(Archive, ''staticscanasset'')]),
      (Jobs, [], []),
      (Jobs, [], [(Archive, ''trackingasset'')]),
      (Jobs, [], []),
      (Jobs, [], []),
      (Jobs, [], []),
      (Jobs, [''farmnodegroup''], []),
      (Jobs, [], []),
      (Jobs, [''farmnode''], [(Taggit, ''taggeditem''), (Taggit, ''tag''), (Taggit, ''taggeditem''), (Taggit, ''tag'')])]"
  by code_simp

lemma accounts_profiles:
  "map profile accounts_migrations =
     [(Accounts, [''userdata''], [(Auth, ''user'')])]"
  by code_simp


definition apart :: "migration \<Rightarrow> migration \<Rightarrow> bool" where
  "apart p q \<longleftrightarrow> (case (profile p, profile q) of
     ((a, made, for1), (b, made', for2)) \<Rightarrow> a \<noteq> b \<and>
       list_all (\<lambda>(c, n). n \<notin> set made) for2 \<and> list_all (\<lambda>(c, n). n \<notin> set made') for1)"

lemma apart_independent: "apart p q \<Longrightarrow> upgrades.independent p q"
  by (rule independent_apps) (auto simp: apart_def profile_def list_all_iff)

lemmas profiles = archive_profiles [unfolded app_migrations_defs list.map append.simps list.inject]
  capture_profiles [unfolded app_migrations_defs list.map append.simps list.inject]
  jobs_profiles [unfolded app_migrations_defs list.map append.simps list.inject]
  accounts_profiles [unfolded app_migrations_defs list.map append.simps list.inject]

lemma archive_capture:
  "list_all (\<lambda>p. list_all (\<lambda>q. apart p q \<or> p = archive_0001_initial \<and>
       q \<in> {capture_0015_auto_20161128_1348, capture_0021_auto_20170418_1206})
     capture_migrations) archive_migrations"
  by (simp add: app_migrations_defs apart_def profiles)

lemma archive_jobs:
  "list_all (\<lambda>p. list_all (\<lambda>q. apart p q \<or>
       p = archive_0001_initial \<and> q = jobs_0010_farmjob_ext_take \<or>
       p = archive_0009_staticscanasset_trackingasset \<and>
         q \<in> {jobs_0015_farmjob_ext_scan_assets, jobs_0017_farmjob_ext_tracking_assets})
     jobs_migrations) archive_migrations"
  by (simp add: app_migrations_defs apart_def profiles)

lemma capture_jobs: "list_all (\<lambda>p. list_all (apart p) jobs_migrations) capture_migrations"
  by (simp add: app_migrations_defs apart_def profiles)

lemma others_accounts:
  "list_all (\<lambda>p. list_all (apart p) accounts_migrations) (archive_migrations @ capture_migrations @ jobs_migrations)"
  by (simp add: app_migrations_defs apart_def profiles)

section \<open>The order of the dependencies\<close>

definition dependency_step :: "migration \<Rightarrow> migration \<Rightarrow> bool" where
  "dependency_step p q \<longleftrightarrow> p \<in> set all_migrations \<and> q \<in> set all_migrations \<and> depends_on q p"

definition after :: "migration \<Rightarrow> migration \<Rightarrow> bool" where
  "after p q \<longleftrightarrow> dependency_step\<^sup>+\<^sup>+ p q"

lemma after_trans: "after p q \<Longrightarrow> after q r \<Longrightarrow> after p r"
  by (simp add: after_def)

lemma after_step: "dependency_step p q \<Longrightarrow> after p q"
  by (auto simp: after_def)

lemma chain_after:
  assumes "successively (\<lambda>p q. depends_on q p) ms" "set ms \<subseteq> set all_migrations"
  shows "sorted_wrt after ms"
proof -
  have "successively after ms"
    by (rule successively_mono [OF assms(1)])
      (use assms(2) in \<open>auto simp: dependency_step_def subset_iff intro!: after_step\<close>)
  moreover have "transp after" by (auto intro: transpI after_trans)
  ultimately show ?thesis by (simp add: successively_conv_sorted_wrt)
qed

lemma chains:
  "successively (\<lambda>p q. depends_on q p) archive_migrations"
  "successively (\<lambda>p q. depends_on q p) capture_migrations"
  "successively (\<lambda>p q. depends_on q p) (jobs_trunk @ jobs_branch_times @ jobs_merged)"
  "successively (\<lambda>p q. depends_on q p) (jobs_trunk @ jobs_branch_versions @ jobs_merged)"
  by code_simp+

lemma branches_independent:
  "list_all (\<lambda>p. list_all (\<lambda>q. made_tables p = [] \<and> made_tables q = [] \<and>
       list_all (\<lambda>x. x \<notin> set (written_columns q)) (written_columns p)) jobs_branch_versions) jobs_branch_times"
  by code_simp

lemma app_subsets:
  "set archive_migrations \<subseteq> set all_migrations" "set capture_migrations \<subseteq> set all_migrations"
  "set (jobs_trunk @ jobs_branch_times @ jobs_merged) \<subseteq> set all_migrations"
  "set (jobs_trunk @ jobs_branch_versions @ jobs_merged) \<subseteq> set all_migrations"
  by (auto simp: all_migrations_def jobs_migrations_def)

lemma cross_steps:
  "depends_on capture_0015_auto_20161128_1348 archive_0002_take_sequence"
  "depends_on jobs_0010_farmjob_ext_take archive_0007_auto_20170320_1532"
  "depends_on jobs_0015_farmjob_ext_scan_assets archive_0009_staticscanasset_trackingasset"
  "depends_on jobs_0017_farmjob_ext_tracking_assets archive_0011_auto_20170405_1049"
  by code_simp+

lemma archive_after:
  "after archive_0001_initial archive_0002_take_sequence"
  "after archive_0001_initial archive_0007_auto_20170320_1532"
  "after archive_0009_staticscanasset_trackingasset archive_0011_auto_20170405_1049"
  using chain_after [OF chains(1) app_subsets(1)] by (simp_all add: archive_migrations_def)

lemma capture_after: "after capture_0015_auto_20161128_1348 capture_0021_auto_20170418_1206"
  using chain_after [OF chains(2) app_subsets(2)] by (simp add: capture_migrations_def)

lemma cross_after:
  "after archive_0001_initial capture_0015_auto_20161128_1348"
  "after archive_0001_initial capture_0021_auto_20170418_1206"
  "after archive_0001_initial jobs_0010_farmjob_ext_take"
  "after archive_0009_staticscanasset_trackingasset jobs_0015_farmjob_ext_scan_assets"
  "after archive_0009_staticscanasset_trackingasset jobs_0017_farmjob_ext_tracking_assets"
proof -
  have step: "after p q" if "depends_on q p" "p \<in> set all_migrations" "q \<in> set all_migrations" for p q
    using that by (intro after_step) (simp add: dependency_step_def)
  have cross: "after archive_0002_take_sequence capture_0015_auto_20161128_1348"
    "after archive_0007_auto_20170320_1532 jobs_0010_farmjob_ext_take"
    "after archive_0009_staticscanasset_trackingasset jobs_0015_farmjob_ext_scan_assets"
    "after archive_0011_auto_20170405_1049 jobs_0017_farmjob_ext_tracking_assets"
    by (rule step [OF cross_steps(1)] step [OF cross_steps(2)] step [OF cross_steps(3)] step [OF cross_steps(4)];
      simp add: all_migrations_def app_migrations_defs)+
  show "after archive_0001_initial capture_0015_auto_20161128_1348"
    using archive_after(1) cross(1) by (rule after_trans)
  then show "after archive_0001_initial capture_0021_auto_20170418_1206"
    using capture_after by (rule after_trans)
  show "after archive_0001_initial jobs_0010_farmjob_ext_take"
    using archive_after(2) cross(2) by (rule after_trans)
  show "after archive_0009_staticscanasset_trackingasset jobs_0015_farmjob_ext_scan_assets" by (rule cross(3))
  show "after archive_0009_staticscanasset_trackingasset jobs_0017_farmjob_ext_tracking_assets"
    using archive_after(3) cross(4) by (rule after_trans)
qed

text \<open>Two migrations commute, or the dependencies order them.\<close>

lemma jobs_ordered: "sorted_wrt (\<lambda>p q. upgrades.independent p q \<or> after p q) jobs_migrations"
proof -
  have "upgrades.independent p q" if "p \<in> set jobs_branch_times" "q \<in> set jobs_branch_versions" for p q
    by (rule independent_columns) (use branches_independent that in \<open>auto simp: list_all_iff\<close>)
  with chain_after [OF chains(3) app_subsets(3)] chain_after [OF chains(4) app_subsets(4)] show ?thesis
    unfolding jobs_migrations_def sorted_wrt_append
    by (auto intro: sorted_wrt_mono_rel [where P = after])
qed

lemma all_ordered: "sorted_wrt (\<lambda>p q. upgrades.independent p q \<or> after p q) all_migrations"
proof -
  let ?R = "\<lambda>p q. upgrades.independent p q \<or> after p q"
  have app: "sorted_wrt ?R archive_migrations" "sorted_wrt ?R capture_migrations"
    "sorted_wrt ?R accounts_migrations"
    using chain_after [OF chains(1) app_subsets(1)] chain_after [OF chains(2) app_subsets(2)]
    by (auto intro: sorted_wrt_mono_rel [where P = after] simp: accounts_migrations_def)
  have "?R p q" if "p \<in> set archive_migrations" "q \<in> set capture_migrations" for p q
    using archive_capture that apart_independent cross_after by (auto simp: list_all_iff)
  moreover have "?R p q" if "p \<in> set archive_migrations" "q \<in> set jobs_migrations" for p q
    using archive_jobs that apart_independent cross_after unfolding list_all_iff by blast
  moreover have "?R p q" if "p \<in> set capture_migrations" "q \<in> set jobs_migrations" for p q
    using capture_jobs that apart_independent by (auto simp: list_all_iff)
  moreover have "?R p q"
    if "p \<in> set (archive_migrations @ capture_migrations @ jobs_migrations)" "q \<in> set accounts_migrations" for p q
    using others_accounts that apart_independent unfolding list_all_iff by blast
  ultimately show ?thesis
    using app jobs_ordered unfolding all_migrations_def sorted_wrt_append set_append by blast
qed

text \<open>A quick test of an order: every name is new, and every dependency has been seen before.\<close>

definition brief :: "migration \<Rightarrow> key \<times> dependency list" where
  "brief m = (Table (m_name m) (m_app m), m_dependencies m)"

definition met :: "(key \<times> unit) list \<Rightarrow> dependency list \<Rightarrow> bool" where
  "met seen ds \<longleftrightarrow> list_all (\<lambda>d. case d of
     On a n \<Rightarrow> a = Taggit \<or> get_entry seen (Table n a) \<noteq> None | Swappable_user \<Rightarrow> True) ds"

fun all_met :: "(key \<times> unit) list \<Rightarrow> (key \<times> dependency list) list \<Rightarrow> bool" where
  "all_met seen [] = True"
| "all_met seen ((k, ds) # bs) = (get_entry seen k = None \<and> met seen ds \<and> all_met ((k, ()) # seen) bs)"

lemma all_met_new: "all_met seen bs \<Longrightarrow> k \<in> fst ` set bs \<Longrightarrow> get_entry seen k = None"
proof (induction seen bs rule: all_met.induct)
  case (2 seen k' ds bs)
  then show ?case by (cases "k = k'") (auto simp: get_entry_map_of split: if_splits)
qed simp

lemma all_met_distinct: "all_met seen bs \<Longrightarrow> distinct (map fst bs)"
proof (induction seen bs rule: all_met.induct)
  case (2 seen k ds bs)
  then have "all_met ((k, ()) # seen) bs" by simp
  from all_met_new [OF this, of k] have "k \<notin> fst ` set bs" by auto
  with 2 show ?case by simp
qed simp

lemma all_met_in_order:
  assumes "all_met seen (map brief ms)" "\<forall>m \<in> set ms. m_app m \<noteq> Taggit"
  shows "in_order depends_on ms"
  using assms
proof (induction ms arbitrary: seen)
  case Nil
  then show ?case by (simp add: in_order_def)
next
  case (Cons m ms)
  have rest: "all_met ((fst (brief m), ()) # seen) (map brief ms)" and now: "met seen (m_dependencies m)"
    using Cons.prems(1) by (simp_all add: brief_def [of m])
  have "in_order depends_on ms" by (rule Cons.IH [OF rest]) (use Cons.prems(2) in simp)
  moreover have "\<not> depends_on m q" if q: "q \<in> set ms" for q
  proof
    assume "depends_on m q"
    with now Cons.prems(2) q have "get_entry seen (fst (brief q)) \<noteq> None"
      by (fastforce simp: brief_def met_def depends_on_def list_all_iff)
    moreover have "get_entry ((fst (brief m), ()) # seen) (fst (brief q)) = None"
      by (rule all_met_new [OF rest]) (use q in force)
    ultimately show False by (simp add: get_entry_map_of split: if_splits)
  qed
  ultimately show ?case by (simp add: in_order_def)
qed

definition accounts_first :: "migration list" where
  "accounts_first = accounts_migrations @ archive_migrations @ jobs_trunk @ jobs_branch_versions @
     jobs_branch_times @ jobs_merged @ capture_migrations"

lemma accounts_first_met:
  "all_met [] (map brief accounts_first)" "list_all (\<lambda>m. m_app m \<noteq> Taggit) accounts_first"
  by code_simp+

lemma accounts_first_mset: "mset accounts_first = mset all_migrations"
  by (simp add: accounts_first_def all_migrations_def jobs_migrations_def)

lemma accounts_first_distinct: "distinct accounts_first"
  using all_met_distinct [OF accounts_first_met(1)] by (simp add: distinct_map)

lemma all_distinct: "distinct all_migrations"
  using accounts_first_distinct accounts_first_mset by (metis mset_eq_imp_distinct_iff)

text \<open>
  A plan of migrations: all of them, each once, and each after those it depends on.
\<close>

definition plan :: "migration list \<Rightarrow> bool" where
  "plan ms \<longleftrightarrow> distinct ms \<and> set ms = set all_migrations \<and> in_order depends_on ms"

lemma accounts_first_plan: "plan accounts_first"
  unfolding plan_def
proof (intro conjI)
  show "set accounts_first = set all_migrations" using accounts_first_mset by (rule mset_eq_setD)
  show "in_order depends_on accounts_first"
    by (rule all_met_in_order [OF accounts_first_met(1)]) (use accounts_first_met(2) in \<open>simp add: list_all_iff\<close>)
qed (rule accounts_first_distinct)

lemma plan_run:
  assumes "plan ms" "run_steps checked_migration all_migrations installed = Inr t"
  shows "run_steps checked_migration ms installed = Inr t"
proof (rule upgrades.any_order [where cs = all_migrations and dep = depends_on])
  show "sorted_wrt (\<lambda>p q. upgrades.independent p q \<or>
      (\<lambda>p q. p \<in> set all_migrations \<and> q \<in> set all_migrations \<and> depends_on q p)\<^sup>+\<^sup>+ p q) all_migrations"
    using all_ordered by (simp add: after_def dependency_step_def [abs_def])
qed (use assms all_distinct in \<open>auto simp: plan_def\<close>)

lemma plan_runs:
  assumes "plan ms"
  shows "\<exists>t. run_steps checked_migration ms installed = Inr t \<and>
    (\<forall>k. own_key k \<longrightarrow>
      state_at package_library t k = map_of (declared_state package_library (all_models package_library)) k)"
  using canonical_run plan_run [OF assms] by blast

section \<open>The migrations build the models\<close>

lemma declared_state_map_of:
  "map_of (declared_state lib cls) k = map_option (state_entry_of lib k) (map_of (concat (map declared cls)) k)"
proof -
  have "map_of (map (\<lambda>(k, x). (k, state_entry_of lib k x)) xs) k = map_option (state_entry_of lib k) (map_of xs k)"
    for xs by (induction xs) auto
  moreover have "declared_state lib cls = map (\<lambda>(k, x). (k, state_entry_of lib k x)) (concat (map declared cls))"
    by (simp add: declared_state_def map_concat comp_def)
  ultimately show ?thesis by simp
qed

text \<open>
  C4: whatever order Django chooses among those that respect the dependencies, the 72
  migrations of the four apps run without an error on a database where the packages are installed, and
  leave exactly the tables, columns and options that the models declare, with no difference that the next
  \<open>makemigrations\<close> would see: every class of field, length, null, blank, default, index, relation, name and
  option agrees. The packages \<open>model_utils\<close> and \<open>taggit\<close> are only assumed to add the arguments
  they document.
\<close>

theorem migrations_build_models:
  assumes "plan ms" "documented lib"
  shows "\<exists>t. migrate ms installed = Inr t \<and>
    (\<forall>k. own_key k \<longrightarrow> state_at lib t k = map_of (declared_state lib (all_models lib)) k)"
proof -
  have lib: "lib = package_library" using assms(2) by (simp add: documented_package_library)
  obtain t where "run_steps checked_migration ms installed = Inr t"
    "\<forall>k. own_key k \<longrightarrow> state_at lib t k = map_of (declared_state lib (all_models lib)) k"
    using plan_runs [OF assms(1)] unfolding lib by blast
  then show ?thesis using checked_run_migrates by blast
qed

theorem migrations_build_models_witness:
  "\<exists>t. migrate accounts_first installed = Inr t \<and>
     state_at package_library t (Column ''framerate'' ''camera'' Archive) \<noteq> None \<and>
     state_at package_library t (Column ''name'' ''camera'' Archive) = None"
proof -
  have own: "own_key (Column ''framerate'' ''camera'' Archive)" "own_key (Column ''name'' ''camera'' Archive)"
    by (simp_all add: own_key_def)
  have "get_entry (concat (map declared (all_models package_library))) (Column ''framerate'' ''camera'' Archive) \<noteq> None"
    "get_entry (concat (map declared (all_models package_library))) (Column ''name'' ''camera'' Archive) = None"
    by code_simp+
  then have "map_of (declared_state package_library (all_models package_library)) (Column ''framerate'' ''camera'' Archive) \<noteq> None"
    "map_of (declared_state package_library (all_models package_library)) (Column ''name'' ''camera'' Archive) = None"
    by (simp_all add: get_entry_map_of declared_state_map_of)
  moreover obtain t where "migrate accounts_first installed = Inr t"
    "\<forall>k. own_key k \<longrightarrow>
       state_at package_library t k = map_of (declared_state package_library (all_models package_library)) k"
    using migrations_build_models [OF accounts_first_plan, of package_library]
    unfolding documented_package_library by blast
  ultimately show ?thesis using own by auto
qed

section \<open>An upgrade keeps the rows\<close>

text \<open>What the migrations remove at all: one table, and five columns of others.\<close>

lemma removed_for_good:
  "concat (map gone_table (concat (map steps_of all_migrations))) = [(Capture, ''globalconfiguration'')]"
  "concat (map gone_column (concat (map steps_of all_migrations))) =
     [((Archive, ''camera''), ''name''), ((Archive, ''trackingasset''), ''end_frame''),
      ((Archive, ''trackingasset''), ''start_frame''), ((Capture, ''capturenode''), ''read_access_all''),
      ((Jobs, ''farmnode''), ''online'')]"
  by code_simp+

definition removed_columns :: "((app \<times> string) \<times> string) list" where
  "removed_columns =
     [((Archive, ''camera''), ''name''), ((Archive, ''trackingasset''), ''end_frame''),
      ((Archive, ''trackingasset''), ''start_frame''), ((Capture, ''capturenode''), ''read_access_all''),
      ((Jobs, ''farmnode''), ''online'')]"

lemma keeps_all_but_removed:
  assumes "set new \<subseteq> set all_migrations" "keeps (concat (map steps_of new)) cs cs'"
    and "T \<noteq> (Capture, ''globalconfiguration'')"
  shows "list_all2 (\<lambda>r r'. \<forall>c. (T, c) \<notin> set removed_columns \<and> r c \<noteq> None \<longrightarrow> r' c = r c) (cs T) (cs' T)"
proof -
  have fewer: "set (concat (map f (concat (map steps_of new)))) \<subseteq> set (concat (map f (concat (map steps_of all_migrations))))"
    for f :: "app \<times> operation \<Rightarrow> 'z list"
    using assms(1) by (simp add: SUP_subset_mono)
  have "set (concat (map gone_table (concat (map steps_of new)))) \<subseteq> {(Capture, ''globalconfiguration'')}"
    using fewer [of gone_table] unfolding removed_for_good(1) by simp
  moreover have cols: "set (concat (map gone_column (concat (map steps_of new)))) \<subseteq> set removed_columns"
    using fewer [of gone_column] unfolding removed_for_good(2) removed_columns_def .
  ultimately have "list_all2 (kept_row (concat (map steps_of new)) T) (cs T) (cs' T)"
    using assms(3) by (intro assms(2) [unfolded keeps_def, rule_format]) blast
  then show ?thesis by (rule list_all2_mono) (use cols in \<open>auto simp: kept_row_def\<close>)
qed

text \<open>
  C7: an installation may stand at any migration of any valid order, with any rows that
  its tables can hold. Then the rest of the migrations runs to its end: no new column is refused for want of a
  default, no changed column meets a value it cannot hold, and the rows fit the new tables afterwards. The
  table \<open>GlobalConfiguration\<close> of the capture application is deleted with its rows by one of the migrations;
  every row of every other table is still there, in its place, with every value it had, except in the five columns
  that migrations remove: the name of a camera of the archive, the first and last frame of a tracking
  asset, \<open>read_access_all\<close> of a capture node and \<open>online\<close> of a node of the farm. Nothing is lost of tables and columns
  that only migrations before the starting point remove.
\<close>

theorem upgrade_keeps_rows:
  assumes "plan (old @ new)" "migrate old installed = Inr s" "stored s cs"
  shows "\<exists>t cs'. migrate new s = Inr t \<and> upgrade_rows now new cs = Inr cs' \<and> stored t cs' \<and>
    (\<forall>T. T \<noteq> (Capture, ''globalconfiguration'') \<longrightarrow>
       list_all2 (\<lambda>r r'. \<forall>c. (T, c) \<notin> set removed_columns \<and> r c \<noteq> None \<longrightarrow> r' c = r c) (cs T) (cs' T)) \<and>
    keeps (concat (map steps_of new)) cs cs'"
proof -
  obtain t where t: "run_steps checked_migration (old @ new) installed = Inr t"
    using plan_runs [OF assms(1)] by blast
  then obtain s1 where s1: "run_steps checked_migration old installed = Inr s1"
    "run_steps checked_migration new s1 = Inr t" by (rule run_steps_appendE)
  have "s1 = s" using checked_run_migrates [OF s1(1)] assms(2) by simp
  with s1(2) checked_run_rows [OF s1(2), of cs now] checked_run_migrates [OF s1(2)] assms(3) obtain cs' where
    r: "migrate new s = Inr t" "upgrade_rows now new cs = Inr cs'" "stored t cs'"
    "keeps (concat (map steps_of new)) cs cs'" by auto
  have "set new \<subseteq> set all_migrations" using assms(1) by (auto simp: plan_def)
  with r keeps_all_but_removed [OF _ r(4)] show ?thesis by blast
qed

definition early :: "migration list" where
  "early = accounts_migrations @ [archive_0001_initial]"

definition later :: "migration list" where
  "later = tl archive_migrations @ jobs_trunk @ jobs_branch_versions @ jobs_branch_times @ jobs_merged @
     capture_migrations"

definition one_project :: contents where
  "one_project T = (if T = (Archive, ''project'') then [[''id'' \<mapsto> C_Int 1, ''name'' \<mapsto> C_Text ''Show'']] else [])"

lemma early_schema:
  "case migrate early installed of
     Inl e \<Rightarrow> False
   | Inr s \<Rightarrow> entry_at s (Table ''project'' Archive) \<noteq> None \<and>
       entry_at s (Column ''id'' ''project'' Archive) = Some (Decl (snd id_field)) \<and>
       entry_at s (Column ''name'' ''project'' Archive) = Some (Decl (Field CharField [Max_length 200])) \<and>
       (\<forall>k \<in> Mapping.keys s. key_table k = (Archive, ''project'') \<longrightarrow>
          get_entry [(Table ''project'' Archive, ()), (Column ''id'' ''project'' Archive, ()),
            (Column ''name'' ''project'' Archive, ())] k \<noteq> None)"
  by code_simp

lemma later_removes:
  "(Archive, ''project'') \<notin> set (concat (map gone_table (concat (map steps_of later))))"
  "((Archive, ''project''), ''name'') \<notin> set (concat (map gone_column (concat (map steps_of later))))"
  by code_simp+

lemma one_project_stored: "\<exists>s. migrate early installed = Inr s \<and> stored s one_project"
proof -
  obtain s where s: "migrate early installed = Inr s" "present s (Table ''project'' Archive)"
    "Mapping.lookup s (Column ''id'' ''project'' Archive) = Some (Decl (snd id_field))"
    "Mapping.lookup s (Column ''name'' ''project'' Archive) = Some (Decl (Field CharField [Max_length 200]))"
    and only: "\<forall>k \<in> Mapping.keys s. key_table k = (Archive, ''project'') \<longrightarrow>
      get_entry [(Table ''project'' Archive, ()), (Column ''id'' ''project'' Archive, ()),
        (Column ''name'' ''project'' Archive, ())] k \<noteq> None"
    using early_schema by (auto simp: present_def entry_at_def split: sum.splits)
  have "column_fits (Mapping.lookup s (Column c ''project'' Archive))
      ([''id'' \<mapsto> C_Int 1, ''name'' \<mapsto> C_Text ''Show''] c)" for c
  proof (cases "c = ''id'' \<or> c = ''name''")
    case True
    then show ?thesis using s(3,4) by (auto simp: id_field_def is_column_def in_bits_def)
  next
    case False
    then have "Column c ''project'' Archive \<notin> Mapping.keys s" using only by (auto simp: get_entry_map_of)
    then have "Mapping.lookup s (Column c ''project'' Archive) = None" by (simp add: keys_dom_lookup domIff)
    with False show ?thesis by simp
  qed
  then have "stored s one_project" using s(2) by (auto simp: stored_def one_project_def row_fits_def)
  with s(1) show ?thesis by blast
qed

theorem upgrade_keeps_rows_witness:
  "\<exists>s t cs' r. migrate early installed = Inr s \<and> migrate later s = Inr t \<and>
     upgrade_rows 0 later one_project = Inr cs' \<and> stored t cs' \<and>
     cs' (Archive, ''project'') = [r] \<and> r ''name'' = Some (C_Text ''Show'')"
proof -
  obtain s where s: "migrate early installed = Inr s" "stored s one_project"
    using one_project_stored by blast
  have "accounts_first = early @ later"
    by (simp add: accounts_first_def early_def later_def archive_migrations_def)
  then have "plan (early @ later)" using accounts_first_plan by simp
  from upgrade_keeps_rows [OF this s] obtain t cs' where t: "migrate later s = Inr t"
    "upgrade_rows 0 later one_project = Inr cs'" "stored t cs'"
    "keeps (concat (map steps_of later)) one_project cs'" by blast
  have "list_all2 (kept_row (concat (map steps_of later)) (Archive, ''project''))
      (one_project (Archive, ''project'')) (cs' (Archive, ''project''))"
    by (rule t(4) [unfolded keeps_def, rule_format]) (rule later_removes(1))
  then obtain r where "cs' (Archive, ''project'') = [r]"
    "kept_row (concat (map steps_of later)) (Archive, ''project'') [''id'' \<mapsto> C_Int 1, ''name'' \<mapsto> C_Text ''Show''] r"
    by (auto simp: one_project_def list_all2_Cons1)
  with s(1) t(1-3) later_removes(2) show ?thesis by (auto simp: kept_row_def)
qed

end
