(* ===== verification/Spec2Isabelle.thy ===== *)
theory Spec2Isabelle
  imports Farm_Control Farm_Rest Capture_Rest Archive_Update Accounts_Correct Base36 Client_Correct Client_Copy
    Client_Server Client_Lock Raw_Srgb Hardware_Sync Settings Migration_Orders
begin

text \<open>
  AVA capture: a development beside the Python code of the capture system, its web back
  end (\<open>src/website-backend/ava\<close>), its job client (\<open>src/job_client\<close>) and its capture node
  (\<open>src/capture-node\<close>).

  \<^enum> The program. Cameras are driven by capture nodes; a Django application keeps the
  locations, nodes and cameras (\<open>capture/\<close>), the archive of projects, sessions, shots
  and takes (\<open>archive/\<close>) and a render farm (\<open>jobs/\<close>): a queue of jobs in the
  database, and clients that phone home every few seconds, report what runs and what has
  finished, and are handed work. A recording is filed as a take in the archive, an export of
  takes creates jobs of the farm, the jobs run on the clients and copy the files, a finished job
  may update its parent and its assets.

  \<^enum> How the code is modelled. \<open>Prelude\<close> has Python's exceptions, the outcomes of a view, loops that
  may raise, decimal numbers and the search of an unused name. \<open>Table\<close> is a table of the database
  behind the object-relational mapper, with its contract as the locale \<open>pk_store\<close>.
  \<open>Schema\<close> has the rows of all models (\<open>*/models.py\<close>), the environment of a request (user,
  clock, settings, the answers of other machines) and the database \<open>db\<close>; a view is a function from the
  environment, its parameters and the database to a new database and an outcome, an exception being the
  outcome \<open>Raised\<close> with the effects it had so far. Calls to other
  machines, cloud services and OpenCV are functions in the environment. \<open>Json_Text\<close> and
  \<open>Json_Read\<close> are \<open>json.dumps\<close> and \<open>json.loads\<close>. \<open>Access\<close> states what it means
  that a view is guarded by a right, as a locale.

  \<^enum> The farm (\<open>jobs/\<close>). \<open>Farm_Model\<close>: predicates and queries of \<open>models.py\<close>, the delete cascade,
  and the invariant \<open>farm_inv\<close>. \<open>Farm_Jobs\<close>: finishing a job, notifications and the update of
  parents (\<open>onJobChanged\<close>, \<open>UpdateParentJob\<close>). \<open>Farm_Views\<close>: commands of users and the API.
  \<open>Farm_Discover\<close>: \<open>client_discover\<close> from cleanup to reply, with the scheduler.
  \<open>Farm_Serializers\<close>: what the REST interface shows of nodes and jobs, with its lists and the search of jobs.
  \<open>Aws\<close>: cloud instances. \<open>Farm_Inv\<close> proves that every request keeps the invariant,
  \<open>Farm_Correct\<close> what a phone-home, a cleanup, the scheduler and the update of a parent achieve, \<open>Farm_Control\<close> what
  the commands of users change and who may send them. \<open>Farm_Rest\<close> has the viewsets of jobs and nodes
  with their updates and deletions, the actions of the admin pages and the gauges: the invariant survives
  all of them but one, a job may be given any parent, itself included.

  \<^enum> Capturing (\<open>capture/\<close>). \<open>Capture_Control\<close> has the options and messages of locations and nodes,
  \<open>Capture_Sessions\<close> new sessions and shots, \<open>Capture_Takes\<close> the recordings, \<open>Capture_Nodes\<close>
  discovery and the list of locations. \<open>Capture_Correct\<close> and \<open>Capture_State\<close> hold the
  properties: rights, unique names, numbering of takes, the registration of nodes. \<open>Capture_Rest\<close> has the locations
  in the REST interface, which asks nobody for rights.

  \<^enum> The archive (\<open>archive/\<close>). \<open>Archive_Model\<close> has queries and dependent jobs, \<open>Archive_Views\<close>
  flags, deletion, export and import, \<open>Archive_Correct\<close> the properties. \<open>Archive_Serializers\<close> renders
  the rows as JSON, each serializer one function that may raise. \<open>Session_Exchange\<close> is the way back:
  the validation of a document by the serializer that exports sessions, and the rows it creates. \<open>Session_Copy\<close>
  proves that what is validated fits the columns, that an exported document is always refused, and that
  with two repairs of the program the import of an export is a copy. \<open>Archive_Rest\<close> has the deletions
  that the REST interface offers, with the cascades of the models, and \<open>Archive_Update\<close> creation and update
  (\<open>POST\<close>, \<open>PUT\<close>, \<open>PATCH\<close>) of all objects: no sequence of such requests leaves a reference without its row. \<open>Base36\<close> is
  \<open>common/uuid_utils.py\<close>.

  \<^enum> Accounts (\<open>accounts/\<close>, \<open>ava/oauth2.py\<close>). \<open>Accounts\<close> has login and logout, the login through an
  OAuth2 server, the list and the change of users and the initial setup of a database; hashing of
  passwords and the OAuth2 server are arguments. \<open>Accounts_Correct\<close> proves who gets in and who may
  become whom.

  \<^enum> The job client (\<open>src/job_client\<close>). \<open>Client_Jobs\<close>: \<open>job_client.py\<close>; the main loop and a
  thread for each job share two dictionaries, and \<open>client_step\<close> is a single access of one of them.
  \<open>Client_Correct\<close>: over all interleavings no job is forgotten, and what one exchange with the server
  makes of both sides. \<open>Client_Launch\<close>: a job launches other jobs (\<open>jobs/base.py\<close>) through
  the API of the server. \<open>Client_Files\<close>: the jobs of \<open>jobs/archive.py\<close> on a disk that may refuse
  anything. \<open>Client_Base\<close>: the other services of \<open>jobs/base.py\<close> and \<open>jobs/common.py\<close> for a job, requests,
  programs with a timeout and pictures, the test jobs, and from \<open>job_client.py\<close> the table of job
  classes and the end of a process tree. \<open>Routes\<close>: the url tables of the server. \<open>Client_Server\<close>: what a job
  gets when it asks the server for an object. \<open>Client_Copy\<close>: the copy loop ends (with Python 2), a copying job loses no file, and an
  export that the server stored reaches the machines it names. \<open>Client_Lock\<close>: the lock file that keeps a second client
  from starting, on Linux and on Windows, as steps of processes that interleave, with the races that it has.

  \<^enum> Formats and devices. \<open>Raw_Format\<close> and \<open>Raw_Correct\<close>: the readers of recordings
  (\<open>src/capture-node/raw_file_format_readers.py\<close>) against the layout the recorder writes
  (\<open>video_writer_ava.cpp\<close>), and the arithmetic on pixels at its width. \<open>Raw_Srgb\<close>: the pictures for the eye, with
  the power function as an argument. \<open>Hardware_Sync\<close>: the
  camera trigger, host (\<open>hardware_sync.py\<close>) and firmware
  (\<open>ximea_camera_sync.ino\<close>), over a serial line.

  \<^enum> The database and the settings. \<open>Migrations\<close> has the 72 migrations (\<open>*/migrations/*.py\<close>), one definition for each
  file, and \<open>Model_Tables\<close> the fields and options that the classes of \<open>*/models.py\<close> declare. \<open>Migration_Base\<close> has the
  operations on a schema, with the contract of a step that touches only its own tables as the locale
  \<open>framed_steps\<close>: independent steps commute, and all orders that respect the
  dependencies are one run. \<open>Migration_Rows\<close> has what a migration does to stored rows and when none is lost.
  \<open>Migration_Runs\<close>, \<open>Migrations_Correct\<close> and \<open>Migration_Orders\<close>: in every order which the dependencies allow,
  the migrations build exactly the tables of the models, and no upgrade
  fails on rows or drops a value, but for the five columns and the one table that are removed. \<open>Settings\<close> is the module \<open>ava/settings.py\<close>, run over the
  file with the secrets: what that file must hold, and in what production and development differ.

  \<^enum> Bounds and loops. \<open>UpdateParentJob\<close>, the cascade and the walk over missing frames are total with a
  measure. The search of a free name and the copy loop may run for ever: they are partial functions, and
  that they return is proved where it holds, and that the second does not where it does not. The reader of
  JSON takes fuel; the length of its text is enough (\<open>loads_dumps\<close>). Python's integers are unbounded,
  words stand for bytes, pixels and the integers of the firmware; floating point numbers are read as
  rationals.

  \<^enum> Rights. Every component interprets the contract of \<open>Access\<close> on its own commands; at the end of
  this theory the three are one interpretation, over all requests, together with the ones for which no right is
  asked (\<open>open_request\<close>), the writes of the REST interface among them:
  \<open>Archive_Rest\<close>, \<open>Archive_Update\<close>, \<open>Farm_Rest\<close>, \<open>Accounts_Correct\<close> and \<open>Capture_Rest\<close> say what that means.

  \<^enum> Not modelled. Templates and the layout of the admin pages are declarations for
  Django; the tables of other packages (users, sessions, tags) are created by their own migrations. The update of
  users, locations, jobs, nodes and of the archive through the REST interface is modelled, groups of users are not. Tokens
  are issued and checked by another package.
  The user interface is TypeScript. The capture node itself, but for its trigger and the layout of
  its recordings, is C++; its answers are arguments of the views that ask it.
  Texts are compared letter by letter, as SQLite does; the collations of MySQL are not modelled.
  Interleavings of requests inside the server are not modelled: a view runs as a whole, while the steps of the client
  interleave.
\<close>

section \<open>The requests of users\<close>

text \<open>
  The requests for which the program asks for no right beyond a login (and for the download of an original
  not even that): closing a node, the list of locations, which expires nodes, the path of the last
  export, which creates the row of the user, the uploads, the reports of the job clients and of the
  capture nodes, and every write through the REST interface.
\<close>

datatype open_request =
    CloseNode "pk option"
  | ListLocations
  | LastExportPath
  | DownloadOriginal pk string
  | JobImage "py_exn + string" "string option" pk "(string \<times> string) option"
  | JobMesh "py_exn + string" "string option" pk "(string \<times> string) option"
  | JobOutput pk "string option"
  | TrackThumbnail bool pk nat "string option"
  | ScanThumbnail "py_exn + string" bool pk string "string option"
  | TrackVideo "py_exn + string" bool pk "string option"
  | TakeVideo "py_exn + string" bool pk "string option"
  | PhoneHome ec2 discover
  | NodeReport node_report
  | NodeShutdown "string option"
  | PostJob new_job
  | PatchJob "job_changes \<Rightarrow> bool" pk job_changes
  | DeleteJobRow pk
  | PostNode "node_changes \<Rightarrow> bool" node_changes
  | PatchNode "node_changes \<Rightarrow> bool" pk node_changes
  | DeleteNodeRow pk
  | PatchLocation "string option \<Rightarrow> location_options \<Rightarrow> bool" pk "string option" location_options bool
  | DeleteLocation pk
  | WriteArchive "time \<Rightarrow> string" coercions thumbs nat archive_request

fun open_view :: "env \<Rightarrow> open_request \<Rightarrow> db \<Rightarrow> db" where
  "open_view e (CloseNode k) d = fst (post_close_node k d)"
| "open_view e ListLocations d = expire_nodes (e_now e) d"
| "open_view e LastExportPath d = fst (get_last_export_path e d)"
| "open_view e (DownloadOriginal k c) d = fst (download_original k c d)"
| "open_view e (JobImage u x k f) d = fst (job_image e u x k f d)"
| "open_view e (JobMesh u x k f) d = fst (job_mesh e u x k f d)"
| "open_view e (JobOutput k f) d = fst (job_output_post k f d)"
| "open_view e (TrackThumbnail w k n f) d = fst (post_tracking_asset_thumbnail w k n f d)"
| "open_view e (ScanThumbnail u w k t f) d = fst (post_scan_asset_thumbnail u w k t f d)"
| "open_view e (TrackVideo u w k f) d = fst (post_tracking_video_thumbnail u w k f d)"
| "open_view e (TakeVideo u w k f) d = fst (post_take_video_thumbnail u w k f d)"
| "open_view e (PhoneHome ec2 r) d = fst (post_client_discover ec2 e r d)"
| "open_view e (NodeReport r) d = fst (node_discover e r d)"
| "open_view e (NodeShutdown ip) d = fst (node_shutdown ip d)"
| "open_view e (PostJob r) d = fst (create_api_job e r d)"
| "open_view e (PatchJob v k p) d = fst (rest_patch_job v e k p d)"
| "open_view e (DeleteJobRow k) d = fst (rest_delete_job e k d)"
| "open_view e (PostNode v p) d = fst (rest_create_node v e p d)"
| "open_view e (PatchNode v k p) d = fst (rest_patch_node v e k p d)"
| "open_view e (DeleteNodeRow k) d = fst (rest_delete_node e k d)"
| "open_view e (PatchLocation v k n x ns) d = fst (patch_location v e k n x ns d)"
| "open_view e (DeleteLocation k) d = fst (delete_location e k d)"
| "open_view e (WriteArchive dt co th n r) d = snd (do_request dt co th e r (n, d))"

text \<open>
  All requests: the guarded commands of the three applications, four further views with a check of
  their own, and the open ones.
\<close>

datatype command =
    JobCommand "job_command \<times> job_request"
  | CaptureCommand "surroundings \<times> capture_command"
  | ArchiveCommand archive_command
  | TestJob string
  | StartInstance "string \<Rightarrow> string option \<Rightarrow> py_exn + string option" "pk option"
  | ReloadClient "int option"
  | LocationConfig "message \<Rightarrow> bool" pk location_options
  | OpenRequest open_request

fun command_view :: "env \<Rightarrow> command \<Rightarrow> db \<Rightarrow> db \<times> nat outcome" where
  "command_view e (JobCommand c) d = result_of (job_view e c d)"
| "command_view e (CaptureCommand c) d = capture_view e c d"
| "command_view e (ArchiveCommand c) d = result_of (archive_view e c d)"
| "command_view e (TestJob b) d = result_of (submit_test_job e b d)"
| "command_view e (StartInstance f k) d = result_of (post_aws_start_instance f e k d)"
| "command_view e (ReloadClient i) d = result_of (post_reload_client e i d)"
| "command_view e (LocationConfig s l x) d = result_of (location_config_post s e l x d)"
| "command_view e (OpenRequest r) d = (open_view e r d, Http 200)"

text \<open>What the sender must be allowed for the request to have an effect.\<close>

fun may_send :: "env \<Rightarrow> command \<Rightarrow> db \<Rightarrow> bool" where
  "may_send e (JobCommand c) d = may_command e c d"
| "may_send e (CaptureCommand c) d = may_capture e c d"
| "may_send e (ArchiveCommand c) d = is_admin e c d"
| "may_send e (TestJob _) d = u_is_superuser (e_user e)"
| "may_send e (StartInstance _ _) d = u_is_superuser (e_user e)"
| "may_send e (ReloadClient i) d = (case i of None \<Rightarrow> False | Some n \<Rightarrow> n < 0 \<or> u_is_superuser (e_user e))"
| "may_send e (LocationConfig _ l _) d = has_write_access_location_id e l d"
| "may_send e (OpenRequest _) d = True"

lemma guarded_views_denied:
  "\<not> u_is_superuser (e_user e) \<Longrightarrow> fst (submit_test_job e b d) = d"
  "\<not> u_is_superuser (e_user e) \<Longrightarrow> fst (post_aws_start_instance f e k d) = d"
  "\<not> u_is_superuser (e_user e) \<Longrightarrow> \<not> n < 0 \<Longrightarrow> fst (post_reload_client e (Some n) d) = d"
  "fst (post_reload_client e None d) = d"
  "\<not> has_write_access_location_id e l d \<Longrightarrow> fst (location_config_post s e l x d) = d"
  by (simp_all add: submit_test_job_def post_aws_start_instance_def post_reload_client_def
      location_config_post_def node_write_access_def split: option.splits)

interpretation uv: state_guarded command_view may_send
proof unfold_locales
  fix e c d assume "\<not> may_send e c d"
  then show "fst (command_view e c d) = d"
    by (cases c) (use jv.denied_state cv.denied_state av.denied_state guarded_views_denied in
        \<open>auto simp: result_of_def split: option.splits\<close>)
qed

definition serve_requests :: "(env \<times> command) list \<Rightarrow> db \<Rightarrow> db" where
  "serve_requests = fold (\<lambda>(e, c) d. fst (command_view e c d))"

lemma serve_requests_serve: "serve_requests = uv.serve"
  by (simp add: serve_requests_def uv.serve_def fun_eq_iff)

lemma write_access_row:
  assumes "has_write_access_location_id e l d"
  shows "\<exists>a \<in> set (rows (db_access d)). la_user (snd a) = e_user_id e \<and> la_location (snd a) = l \<and> la_write_access (snd a)"
proof -
  from assms obtain a where "a \<in> set (rights_on d (e_user_id e) l)" "la_write_access (snd a)"
    by (auto simp: has_write_access_location_id_def filter_empty_conv)
  then show ?thesis by (auto simp: rights_on_def t_filter_def intro!: bexI [of _ a])
qed

text \<open>
  C5: users, job clients and capture nodes send the requests of \<open>command\<close> to the farm, the
  stage and the archive, in whatever order and whatever the capture nodes answer. If the database is
  changed or a message went to a node, then everything before one of the requests had had no
  effect, and for this one the following held when it was served. A restart, a restart of failed children, a
  deletion or a kill of a job: the sender created the job or is an administrator. One of the commands of
  \<open>capture_command\<close> (recording, sessions, shots, camera settings) or a change of a location's configuration: a row
  grants the sender write access to the location it is about. A flag, frontal camera, tracking asset, deletion or export
  of takes in the archive, a test job, the start of an instance, or the reload of one client: the sender is an
  administrator. Otherwise it was a reload of all clients at once (a negative number) or one of the
  \<open>open_request\<close>s, for which the program checks no right of the sender: closing a node, the list of
  locations, the path of the last export, the download of an original, uploads, the reports of clients and nodes, and
  all writes to these three applications through the REST interface.
\<close>

theorem changes_need_rights:
  assumes "serve_requests rs d \<noteq> d"
  shows "\<exists>us e c vs. rs = us @ (e, c) # vs \<and> serve_requests us d = d \<and> fst (command_view e c d) \<noteq> d \<and>
    (case c of
       JobCommand (jc, r) \<Rightarrow>
         (\<exists>k j. jr_job_id r = Some k \<and> t_get (db_jobs d) k = Some j \<and>
            (fj_created_by j = u_username (e_user e) \<or> u_is_superuser (e_user e)))
     | CaptureCommand (su, cc) \<Rightarrow>
         (\<exists>l. command_location d cc = Some l \<and>
            (\<exists>a \<in> set (rows (db_access d)). la_user (snd a) = e_user_id e \<and> la_location (snd a) = l \<and>
               la_write_access (snd a)))
     | LocationConfig sent l opts \<Rightarrow>
         (\<exists>a \<in> set (rows (db_access d)). la_user (snd a) = e_user_id e \<and> la_location (snd a) = l \<and>
            la_write_access (snd a))
     | ArchiveCommand ac \<Rightarrow> u_is_superuser (e_user e)
     | TestJob body \<Rightarrow> u_is_superuser (e_user e)
     | StartInstance call node \<Rightarrow> u_is_superuser (e_user e)
     | ReloadClient i \<Rightarrow> (\<exists>n. i = Some n \<and> (n < 0 \<or> u_is_superuser (e_user e)))
     | OpenRequest r \<Rightarrow> open_view e r d \<noteq> d)"
proof -
  from uv.serve_first_change [of rs d] assms obtain us e c vs where
    r: "rs = us @ (e, c) # vs" "serve_requests us d = d" and ch: "fst (command_view e c d) \<noteq> d"
    by (auto simp: serve_requests_serve)
  have m: "may_send e c d" using ch by (rule uv.change_allowed)
  have "case c of
       JobCommand (jc, r) \<Rightarrow>
         (\<exists>k j. jr_job_id r = Some k \<and> t_get (db_jobs d) k = Some j \<and>
            (fj_created_by j = u_username (e_user e) \<or> u_is_superuser (e_user e)))
     | CaptureCommand (su, cc) \<Rightarrow>
         (\<exists>l. command_location d cc = Some l \<and>
            (\<exists>a \<in> set (rows (db_access d)). la_user (snd a) = e_user_id e \<and> la_location (snd a) = l \<and>
               la_write_access (snd a)))
     | LocationConfig sent l opts \<Rightarrow>
         (\<exists>a \<in> set (rows (db_access d)). la_user (snd a) = e_user_id e \<and> la_location (snd a) = l \<and>
            la_write_access (snd a))
     | ArchiveCommand ac \<Rightarrow> u_is_superuser (e_user e)
     | TestJob body \<Rightarrow> u_is_superuser (e_user e)
     | StartInstance call node \<Rightarrow> u_is_superuser (e_user e)
     | ReloadClient i \<Rightarrow> (\<exists>n. i = Some n \<and> (n < 0 \<or> u_is_superuser (e_user e)))
     | OpenRequest r \<Rightarrow> open_view e r d \<noteq> d"
    using m ch by (cases c) (auto simp: may_command_def may_capture_def is_admin_def dest: write_access_row
        split: option.splits)
  with r ch show ?thesis by blast
qed

lemma changes_need_rights_witness:
  "\<exists>us e c vs. [(sample_env, JobCommand (Kill, about 3))] = us @ (e, c) # vs \<and> serve_requests us sample_running = sample_running"
proof -
  have one: "serve_requests [(sample_env, JobCommand (Kill, about 3))] sample_running =
      fst (kill_job sample_env (about 3) sample_running)"
    by (simp add: serve_requests_def result_of_def)
  have "map_option fj_status (t_get (db_jobs (fst (kill_job sample_env (about 3) sample_running))) 3)
      \<noteq> map_option fj_status (t_get (db_jobs sample_running) 3)"
    by code_simp
  then have "serve_requests [(sample_env, JobCommand (Kill, about 3))] sample_running \<noteq> sample_running"
    unfolding one by (metis (full_types))
  from changes_need_rights [OF this] show ?thesis by blast
qed

end
